(* ===== verification/Prelude.thy ===== *)
theory Prelude
  imports Main "HOL-Library.Word"
begin

text \<open>
  What the four flight applications share: the machine types of
  \<^verbatim>\<open>common_types.h\<close>, little-endian access to byte buffers, the cFE time
  stamp and its conversion to milliseconds, the saturation of byte access, and the
  generic lemmas on lists, options and words the component theories use.

  C integers are kept at their width as words, so that every \<^verbatim>\<open>++\<close> and every
  cast of the source wraps or truncates as it does in C.  A C \<^verbatim>\<open>float\<close> that is only
  stored, copied or sent is kept as its bit pattern (theory \<^verbatim>\<open>Float32\<close> gives
  the comparisons the code makes on it).
\<close>

unbundle bit_operations_syntax

type_synonym u8 = "8 word"
type_synonym u16 = "16 word"
type_synonym u32 = "32 word"
type_synonym u64 = "64 word"
type_synonym i32 = "32 word"
type_synonym f32 = "32 word"

named_theorems bytes_defs \<open>definitions of the byte-level readers and writers\<close>
named_theorems app_simps \<open>simplification rules of the operations of an application\<close>

section \<open>Byte buffers\<close>

text \<open>Reading one byte of a buffer.  Every access of the source is inside the C array
  (the lengths are checked first or the array has its full size); the model reads zero
  outside it, so that it is a total function.\<close>

definition byte_at :: "u8 list \<Rightarrow> nat \<Rightarrow> u8" where
  "byte_at xs i = (if i < length xs then xs ! i else 0)"

definition get_u16 :: "u8 list \<Rightarrow> nat \<Rightarrow> u16" where
  [bytes_defs]: "get_u16 xs i = ucast (byte_at xs i) OR push_bit 8 (ucast (byte_at xs (i + 1)))"

definition get_u32 :: "u8 list \<Rightarrow> nat \<Rightarrow> u32" where
  [bytes_defs]: "get_u32 xs i = ucast (byte_at xs i) OR push_bit 8 (ucast (byte_at xs (i + 1)))
     OR push_bit 16 (ucast (byte_at xs (i + 2))) OR push_bit 24 (ucast (byte_at xs (i + 3)))"

definition put_u16 :: "u16 \<Rightarrow> u8 list" where
  [bytes_defs]: "put_u16 w = [ucast w, ucast (drop_bit 8 w)]"

definition put_u32 :: "u32 \<Rightarrow> u8 list" where
  [bytes_defs]: "put_u32 w =
     [ucast w, ucast (drop_bit 8 w), ucast (drop_bit 16 w), ucast (drop_bit 24 w)]"

definition put_u64 :: "u64 \<Rightarrow> u8 list" where
  [bytes_defs]: "put_u64 w =
     [ucast w, ucast (drop_bit 8 w), ucast (drop_bit 16 w), ucast (drop_bit 24 w),
      ucast (drop_bit 32 w), ucast (drop_bit 40 w), ucast (drop_bit 48 w), ucast (drop_bit 56 w)]"

definition get_u64 :: "u8 list \<Rightarrow> nat \<Rightarrow> u64" where
  [bytes_defs]: "get_u64 xs i = ucast (get_u32 xs i) OR push_bit 32 (ucast (get_u32 xs (i + 4)))"

lemma length_put [simp]:
  "length (put_u16 a) = 2" "length (put_u32 b) = 4" "length (put_u64 c) = 8"
  by (simp_all add: bytes_defs)

lemma byte_at_nth: "i < length xs \<Longrightarrow> byte_at xs i = xs ! i"
  by (simp add: byte_at_def)

lemma byte_at_Cons_0 [simp]: "byte_at (x # xs) 0 = x"
  by (simp add: byte_at_def)

lemma byte_at_Cons_Suc [simp]: "byte_at (x # xs) (Suc n) = byte_at xs n"
  by (simp add: byte_at_def)

lemma byte_at_Cons_numeral [simp]:
  "byte_at (x # xs) (numeral k) = byte_at xs (pred_numeral k)"
  by (simp add: numeral_eq_Suc)

lemma byte_at_Nil [simp]: "byte_at [] n = 0"
  by (simp add: byte_at_def)

lemma byte_at_append1: "n < length xs \<Longrightarrow> byte_at (xs @ ys) n = byte_at xs n"
  by (simp add: byte_at_def nth_append)

lemma byte_at_append2: "length xs \<le> n \<Longrightarrow> byte_at (xs @ ys) n = byte_at ys (n - length xs)"
  by (auto simp: byte_at_def nth_append)

lemma byte_at_drop [simp]: "byte_at (drop k xs) n = byte_at xs (k + n)"
  by (auto simp: byte_at_def)

lemma byte_at_take [simp]: "n < k \<Longrightarrow> byte_at (take k xs) n = byte_at xs n"
  by (auto simp: byte_at_def)

lemma get_u16_append2:
  "length xs \<le> n \<Longrightarrow> get_u16 (xs @ ys) n = get_u16 ys (n - length xs)"
  by (simp add: get_u16_def byte_at_append2 Suc_diff_le)

lemma get_u32_append2:
  "length xs \<le> n \<Longrightarrow> get_u32 (xs @ ys) n = get_u32 ys (n - length xs)"
  by (simp add: get_u32_def byte_at_append2 Suc_diff_le)

lemma get_u16_append1: "n + 1 < length xs \<Longrightarrow> get_u16 (xs @ ys) n = get_u16 xs n"
  by (simp add: get_u16_def byte_at_append1)

lemma get_u32_append1: "n + 3 < length xs \<Longrightarrow> get_u32 (xs @ ys) n = get_u32 xs n"
  by (simp add: get_u32_def byte_at_append1)

lemma get_u16_Cons_Suc [simp]: "get_u16 (x # xs) (Suc n) = get_u16 xs n"
  by (simp add: get_u16_def)

lemma get_u32_Cons_Suc [simp]: "get_u32 (x # xs) (Suc n) = get_u32 xs n"
  by (simp add: get_u32_def byte_at_def add.commute)

lemma get_u16_Cons_numeral [simp]:
  "get_u16 (x # xs) (numeral k) = get_u16 xs (pred_numeral k)"
  by (simp only: numeral_eq_Suc get_u16_Cons_Suc)

lemma get_u32_Cons_numeral [simp]:
  "get_u32 (x # xs) (numeral k) = get_u32 xs (pred_numeral k)"
  by (simp only: numeral_eq_Suc get_u32_Cons_Suc)

lemma get_u32_drop [simp]: "get_u32 (drop k xs) n = get_u32 xs (k + n)"
  by (simp add: get_u32_def ac_simps)

lemma get_u16_drop [simp]: "get_u16 (drop k xs) n = get_u16 xs (k + n)"
  by (simp add: get_u16_def ac_simps)

lemma not_bit_u8: "8 \<le> n \<Longrightarrow> \<not> bit (b :: u8) n"
  by (auto dest: bit_imp_le_length)

lemmas bits_of_bytes = bit_or_iff bit_push_bit_iff bit_ucast_iff bit_drop_bit_eq not_bit_u8

lemma get_put_u16 [simp]: "get_u16 (put_u16 w @ ys) 0 = w"
proof (rule bit_word_eqI)
  fix n assume "n < LENGTH(16)"
  then show "bit (get_u16 (put_u16 w @ ys) 0) n = bit w n"
    by (cases "n < 8") (auto simp: bytes_defs bits_of_bytes)
qed

lemma get_put_u32 [simp]: "get_u32 (put_u32 w @ ys) 0 = w"
proof (rule bit_word_eqI)
  fix n assume "n < LENGTH(32)"
  then consider "n < 8" | "8 \<le> n" "n < 16" | "16 \<le> n" "n < 24" | "24 \<le> n" "n < 32"
    by fastforce
  then show "bit (get_u32 (put_u32 w @ ys) 0) n = bit w n"
    by cases (auto simp: bytes_defs bits_of_bytes)
qed

lemma get_put_u64 [simp]: "get_u64 (put_u64 w @ ys) 0 = w"
proof (rule bit_word_eqI)
  fix n assume "n < LENGTH(64)"
  then consider "n < 8" | "8 \<le> n" "n < 16" | "16 \<le> n" "n < 24" | "24 \<le> n" "n < 32"
    | "32 \<le> n" "n < 40" | "40 \<le> n" "n < 48" | "48 \<le> n" "n < 56" | "56 \<le> n" "n < 64" by fastforce
  then show "bit (get_u64 (put_u64 w @ ys) 0) n = bit w n"
    by cases (auto simp: bytes_defs bits_of_bytes)
qed

lemma get_put_u16' [simp]: "get_u16 (put_u16 w) 0 = w"
  using get_put_u16[of w "[]"] by simp

lemma get_put_u32' [simp]: "get_u32 (put_u32 w) 0 = w"
  using get_put_u32[of w "[]"] by simp

lemma put_get_u16: "put_u16 (get_u16 xs n) = [byte_at xs n, byte_at xs (n + 1)]"
  by (auto simp: bytes_defs bits_of_bytes intro!: bit_word_eqI)

lemma put_get_u32:
  "put_u32 (get_u32 xs n) = [byte_at xs n, byte_at xs (n + 1), byte_at xs (n + 2), byte_at xs (n + 3)]"
  by (auto simp: bytes_defs bits_of_bytes intro!: bit_word_eqI)

lemma put_u16_inject [simp]: "put_u16 a = put_u16 b \<longleftrightarrow> a = b"
  by (metis get_put_u16')

lemma put_u32_inject [simp]: "put_u32 a = put_u32 b \<longleftrightarrow> a = b"
  by (metis get_put_u32')

section \<open>The time stamp\<close>

record sys_time =
  Seconds :: u32
  Subseconds :: u32

text \<open>Every application computes \<^verbatim>\<open>Seconds * 1000 + Subseconds * 1000 / 2^32\<close> in
  64 bits and truncates the result to 32.\<close>

definition time_ms64 :: "sys_time \<Rightarrow> u64" where
  "time_ms64 t = ucast (Seconds t) * 1000 + (ucast (Subseconds t) * 1000) div 0x100000000"

definition GetTimeMs :: "sys_time \<Rightarrow> u32" where
  "GetTimeMs t = ucast (time_ms64 t)"

section \<open>Lists\<close>

lemma take_eq_decompose: "n \<le> length xs \<Longrightarrow> xs = take n xs @ drop n xs"
  by simp

lemma nth_eq_if_map_upt: "length xs = n \<Longrightarrow> map (\<lambda>i. xs ! i) [0..<n] = xs"
  by (auto intro: nth_equalityI)

lemma list_update_split:
  "i < length xs \<Longrightarrow> xs[i := y] = take i xs @ y # drop (Suc i) xs"
  by (simp add: upd_conv_take_nth_drop)

lemma foldl_append_Cons: "foldl f s (xs @ y # ys) = foldl f (f (foldl f s xs) y) ys"
  by simp

section \<open>Words\<close>

lemma word_sub_add_cancel: "(a::'a::len word) - b = c \<longleftrightarrow> a = b + c"
  by (auto simp: algebra_simps)

end
