(* ===== verification/Shared_Msgs.thy ===== *)
theory Shared_Msgs
  imports Prelude
begin

text \<open>
  The software-bus messages the four applications exchange: the structs of
  \<^verbatim>\<open>src/shared_msgs\<close> (and the housekeeping packets of the applications) as records.
  cFE message headers are left out; a command packet keeps its message id, function
  code and payload bytes, so that the length check and the casts of the dispatchers
  can be modelled.  A telemetry packet is a constructor of \<^verbatim>\<open>sb_msg\<close>; its message
  id is the constructor.

  The four flight-controller state messages begin with the same fields
  (\<^verbatim>\<open>FC_STATE_PREFIX_t\<close>); they are extensions of one record, so the cast to the
  prefix in cfs_core_app is a selection on the record scheme.
\<close>

section \<open>Waypoints and routes\<close>

abbreviation (input) ROUTE_MAX_WAYPOINTS :: nat where "ROUTE_MAX_WAYPOINTS \<equiv> 37"
abbreviation (input) ROUTE_WAYPOINT_WIRE_SIZE :: nat where "ROUTE_WAYPOINT_WIRE_SIZE \<equiv> 29"

record ROUTE_WAYPOINT =
  wp_CmdType :: u8
  wp_Param1 :: f32
  wp_Param2 :: f32
  wp_Param3 :: f32
  wp_Param4 :: f32
  wp_LatE7 :: i32
  wp_LonE7 :: i32
  wp_Z :: f32

definition wp_zero :: ROUTE_WAYPOINT where
  "wp_zero = \<lparr> wp_CmdType = 0, wp_Param1 = 0, wp_Param2 = 0, wp_Param3 = 0, wp_Param4 = 0,
     wp_LatE7 = 0, wp_LonE7 = 0, wp_Z = 0 \<rparr>"

record ROUTE_UPDATE_TLM =
  ru_Seq :: u32
  ru_TimestampMs :: u32
  ru_SourceSequence :: u32
  ru_RouteType :: u8
  ru_RouteVersion :: u8
  ru_WaypointCount :: u8
  ru_Waypoints :: "ROUTE_WAYPOINT list"

section \<open>Forwarded commands and their results\<close>

record CONFIG_CMD_TLM =
  cc_Seq :: u32
  cc_TimestampMs :: u32
  cc_SourceSequence :: u16
  cc_PayloadLength :: u8
  cc_Payload :: "u8 list"

record RECOVERY_CMD_TLM =
  rc_Seq :: u32
  rc_TimestampMs :: u32
  rc_SourceSequence :: u16
  rc_RecoveryAction :: u8
  rc_TargetComponent :: u8
  rc_ReasonCode :: u16
  rc_RequestToken :: u32

record MODE_CMD_TLM =
  mc_Seq :: u32
  mc_TimestampMs :: u32
  mc_SourceSequence :: u16
  mc_ModeAction :: u8
  mc_RequestedState :: u8
  mc_RequestToken :: u32

record DIAGNOSTIC_CMD_TLM =
  dc_Seq :: u32
  dc_TimestampMs :: u32
  dc_SourceSequence :: u16
  dc_DiagAction :: u8
  dc_DiagTarget :: u8
  dc_RequestToken :: u32

record VIEWPOINT_CMD_TLM =
  vc_Seq :: u32
  vc_TimestampMs :: u32
  vc_SourceSequence :: u16
  vc_ViewpointType :: u8
  vc_PositionFrame :: u8
  vc_X :: f32
  vc_Y :: f32
  vc_Z :: f32
  vc_Yaw :: f32
  vc_Pitch :: f32
  vc_HoldTimeMs :: u32

datatype EXEC_RESULT_Source = SOURCE_CFS_CORE | SOURCE_MAVLINK_BRIDGE | SOURCE_LORA_TDM

fun source_val :: "EXEC_RESULT_Source \<Rightarrow> u8" where
  "source_val SOURCE_CFS_CORE = 1"
| "source_val SOURCE_MAVLINK_BRIDGE = 2"
| "source_val SOURCE_LORA_TDM = 3"

abbreviation (input) EXEC_RESULT_GENERIC_OK :: u8 where "EXEC_RESULT_GENERIC_OK \<equiv> 0"
abbreviation (input) EXEC_RESULT_GENERIC_FAILED :: u8 where "EXEC_RESULT_GENERIC_FAILED \<equiv> 1"

record EXEC_RESULT_TLM =
  er_SourceSequence :: u16
  er_SourceApp :: u8
  er_CommandClass :: u8
  er_GenericResult :: u8
  er_DetailCode :: u8

record UPLINK_FWD_CMD =
  fw_Version :: u8
  fw_CommandClass :: u8
  fw_PayloadLength :: u8
  fw_Flags :: u8
  fw_Sequence :: u16
  fw_Checksum :: u16
  fw_Payload :: "u8 list"

section \<open>State of the flight controller and of the applications\<close>

record FC_STATE_PREFIX =
  fc_TimestampMs :: u32
  fc_Seq :: u32
  fc_Valid :: u8
  fc_Stale :: u8
  fc_ErrorCode :: u8

record FC_ATTITUDE_TLM = FC_STATE_PREFIX +
  fa_RollRad :: f32
  fa_PitchRad :: f32
  fa_YawRad :: f32
  fa_RollspeedRps :: f32
  fa_PitchspeedRps :: f32
  fa_YawspeedRps :: f32

record FC_EKF_LOCAL_TLM = FC_STATE_PREFIX +
  fl_X_m :: f32
  fl_Y_m :: f32
  fl_Z_m :: f32
  fl_Vx_mps :: f32
  fl_Vy_mps :: f32
  fl_Vz_mps :: f32

record FC_GPS_RAW_TLM = FC_STATE_PREFIX +
  fg_FixType :: u8
  fg_SatellitesVisible :: u8
  fg_LatE7 :: i32
  fg_LonE7 :: i32
  fg_AltMm :: i32

record FC_EKF_STATUS_TLM = FC_STATE_PREFIX +
  fe_Flags :: u16

record FC_SYS_TIME_TLM = FC_STATE_PREFIX +
  ft_TimeUnixUsec :: u64

record INPUT_STATUS =
  is_Valid :: u8
  is_Stale :: u8
  is_ErrorCode :: u8
  is_TimedOut :: u8

record BRIDGE_STATUS =
  bs_LinkState :: u8
  bs_ErrorCode :: u8
  bs_TimedOut :: u8

record SYSTEM_HEALTH_TLM =
  sh_Seq :: u32
  sh_TimestampMs :: u32
  sh_LastValidInputTimestampMs :: u32
  sh_HealthState :: u8
  sh_FaultCode :: u8
  sh_RecoveryRequested :: u8
  sh_AttitudeStatus :: INPUT_STATUS
  sh_LocalStatus :: INPUT_STATUS
  sh_GpsStatus :: INPUT_STATUS
  sh_EkfStatus :: INPUT_STATUS
  sh_BridgeStatus :: BRIDGE_STATUS
  sh_UplinkTimedOut :: u8
  sh_LoraTimedOut :: u8

record BRIDGE_HK_TLM =
  bh_CommandCounter :: u8
  bh_CommandErrorCounter :: u8
  bh_LinkState :: u8
  bh_LastErrorCode :: u8
  bh_BytesReceived :: u32
  bh_ReconnectAttemptCount :: u32
  bh_ParseErrorCount :: u32
  bh_NonFiniteValueCount :: u32
  bh_LastRxTimestampMs :: u32
  bh_MissionUploadSuccessCount :: u32
  bh_MissionUploadFailCount :: u32
  bh_LastUploadTimestampMs :: u32
  bh_LastUploadWaypointCount :: u8
  bh_LastUploadResult :: u8

record UPLINK_STATUS_TLM =
  us_Seq :: u32
  us_TimestampMs :: u32
  us_LastRxTimestampMs :: u32
  us_AcceptedCount :: u32
  us_RejectedCount :: u32
  us_RoutingFailureCount :: u32
  us_LastCommandCode :: u16
  us_LastCommandSequence :: u16
  us_LastCommandResult :: u8
  us_LinkState :: u8
  us_Valid :: u8
  us_ActiveTransportId :: u8
  us_LastRouteTarget :: u8
  us_ConfigPendingState :: u8
  us_LastConfigResult :: u8
  us_LastRollbackReason :: u8
  us_FcMissionResult :: u8
  us_FcMissionUploadState :: u8
  us_BootCount :: u8
  us_BootLoopSuspect :: u8
  us_ShortBootStreak :: u8
  us_LastResetReason :: u8
  us_FcMissionUploadSuccessCount :: u32
  us_LastAcceptedSequence :: u16

record UPLINK_HK_TLM =
  uh_CommandCounter :: u8
  uh_CommandErrorCounter :: u8
  uh_PublishCount :: u32
  uh_LastPublishTimestampMs :: u32

record CORE_HK_TLM =
  ch_CommandCounter :: u8
  ch_CommandErrorCounter :: u8
  ch_MissionRouteWaypointCount :: u8
  ch_PublishCount :: u32
  ch_LastPublishTimestampMs :: u32
  ch_LastRouteUpdateTimestampMs :: u32
  ch_RouteUpdateCount :: u32
  ch_BridgeRestartCount :: u32
  ch_UplinkRestartCount :: u32
  ch_LoraRestartCount :: u32
  ch_LastFaultCode :: u8
  ch_TimebaseShiftCount :: u32

record LORA_HK_TLM =
  lh_CommandCounter :: u8
  lh_CommandErrorCounter :: u8
  lh_LinkState :: u8
  lh_PacketType :: u8
  lh_AttitudeValid :: u8
  lh_LocalValid :: u8
  lh_GpsValid :: u8
  lh_EkfValid :: u8
  lh_SystemHealthState :: u8
  lh_PendingUplinkFeedback :: u8
  lh_TxCount :: u32
  lh_RxAckCount :: u32
  lh_RxCmdCount :: u32
  lh_RxErrorCount :: u16
  lh_NoAckCount :: u16
  lh_LastAckTimestampMs :: u32

record LORA_LINK_STATUS_TLM =
  ls_Seq :: u32
  ls_TimestampMs :: u32
  ls_LinkState :: u8
  ls_LastAckTimestampMs :: u32
  ls_NoAckCount :: u16
  ls_RxErrorCount :: u16
  ls_TxCount :: u32
  ls_RxAckCount :: u32
  ls_RxCmdCount :: u32

section \<open>The software bus\<close>

text \<open>\<^verbatim>\<open>Unreadable\<close>: CFE_MSG_GetMsgId fails.  \<^verbatim>\<open>Command mid fcn bytes\<close>: a
  command packet (the SEND_HK requests of the scheduler and every other id without a
  struct of its own included), with \<^verbatim>\<open>fcn = None\<close> when CFE_MSG_GetFcnCode fails and
  the payload bytes that follow the command header.  Every other constructor is one
  telemetry packet of the program; the dispatchers' comparisons of message ids are
  case distinctions on the constructor.\<close>

datatype sb_msg =
    Unreadable
  | Command u16 "u8 option" "u8 list"
  | BridgeHk BRIDGE_HK_TLM
  | UplinkHk UPLINK_HK_TLM
  | CoreHk CORE_HK_TLM
  | LoraHk LORA_HK_TLM
  | FcEkfLocal FC_EKF_LOCAL_TLM
  | FcAttitude FC_ATTITUDE_TLM
  | FcGpsRaw FC_GPS_RAW_TLM
  | FcEkfStatus FC_EKF_STATUS_TLM
  | SystemHealth SYSTEM_HEALTH_TLM
  | FcSysTime FC_SYS_TIME_TLM
  | UplinkStatus UPLINK_STATUS_TLM
  | RouteUpdate ROUTE_UPDATE_TLM
  | RecoveryCmd RECOVERY_CMD_TLM
  | ViewpointCmd VIEWPOINT_CMD_TLM
  | ConfigCmd CONFIG_CMD_TLM
  | ModeCmd MODE_CMD_TLM
  | DiagnosticCmd DIAGNOSTIC_CMD_TLM
  | LoraLinkStatus LORA_LINK_STATUS_TLM
  | ExecResult EXEC_RESULT_TLM
  | RouteSnapshot ROUTE_UPDATE_TLM
  | FcMissionReadback ROUTE_UPDATE_TLM

datatype event_type = DEBUG | INFORMATION | ERROR

datatype es_app = BRIDGE_APP | UPLINK_APP | LORA_APP

text \<open>What an operation leaves behind, in the order the code does it: an event (id and
  type; the text is not modelled), a packet on the bus, new contents of the state file
  (after the rename succeeded), a call of CFE_ES_RestartApp, or bytes written to the
  application's serial port.\<close>

datatype out =
    Event nat event_type
  | Send sb_msg
  | StateFile "u8 list"
  | Restart es_app
  | Serial "u8 list"

fun sent :: "out list \<Rightarrow> sb_msg list" where
  "sent [] = []"
| "sent (Send m # os) = m # sent os"
| "sent (x # os) = sent os"

lemma sent_append [simp]: "sent (xs @ ys) = sent xs @ sent ys"
  by (induction xs rule: sent.induct) simp_all

text \<open>The contents of the state file after an operation.\<close>

fun disk_after :: "u8 list option \<Rightarrow> out list \<Rightarrow> u8 list option" where
  "disk_after d [] = d"
| "disk_after d (StateFile bs # os) = disk_after (Some bs) os"
| "disk_after d (x # os) = disk_after d os"

lemma disk_after_append [simp]: "disk_after d (xs @ ys) = disk_after (disk_after d xs) ys"
  by (induction d xs rule: disk_after.induct) simp_all

text \<open>What the open, write and rename of a state file do.\<close>

datatype save_outcome = Save_Ok | Open_Fails | Write_Fails | Rename_Fails

definition save_file :: "nat \<Rightarrow> save_outcome \<Rightarrow> u8 list \<Rightarrow> out list" where
  "save_file fail_eid r bs = (if r = Save_Ok then [StateFile bs] else [Event fail_eid ERROR])"

lemma sent_save_file [simp]: "sent (save_file e r bs) = []"
  by (simp add: save_file_def)

lemma disk_after_save_ok [simp]: "disk_after d (save_file e Save_Ok bs) = Some bs"
  by (simp add: save_file_def)

text \<open>What reading a state file gives: no file (ENOENT), another error of open, or the
  bytes that could be read.\<close>

datatype file_read = No_File | Open_Error | Contents "u8 list"

definition read_disk :: "u8 list option \<Rightarrow> file_read" where
  "read_disk d = (case d of None \<Rightarrow> No_File | Some bs \<Rightarrow> Contents bs)"

end
