(* ===== verification/Crc.thy ===== *)
theory Crc
  imports Prelude
begin

text \<open>
  The two checksums that protect the program's frames: CRC-16/CCITT-FALSE
  (\<^verbatim>\<open>UPLINK_APP_CRC16\<close> in uplink_app_utils.c and \<^verbatim>\<open>LORA_TDM_APP_Crc16\<close> in
  lora_tdm_app_utils.c, the same loop twice) and the MAVLink X.25 accumulation
  (\<^verbatim>\<open>MAVLINK_BRIDGE_APP_CrcAccumulate\<close>).  The locale \<^verbatim>\<open>crc_step\<close> states what a
  receiver needs of one accumulation step, and its lemmas say which corruptions of a
  buffer are detected; both algorithms are interpretations of it.
\<close>

section \<open>The loops of the source\<close>

definition crc16_bit :: "u16 \<Rightarrow> u16" where
  "crc16_bit c = (if c AND 0x8000 \<noteq> 0 then push_bit 1 c XOR 0x1021 else push_bit 1 c)"

primrec crc16_bits :: "nat \<Rightarrow> u16 \<Rightarrow> u16" where
  "crc16_bits 0 c = c"
| "crc16_bits (Suc j) c = crc16_bits j (crc16_bit c)"

definition crc16_byte :: "u16 \<Rightarrow> u8 \<Rightarrow> u16" where
  "crc16_byte c b = crc16_bits 8 (c XOR push_bit 8 (ucast b))"

definition UPLINK_APP_CRC16 :: "u8 list \<Rightarrow> u16" where
  "UPLINK_APP_CRC16 xs = foldl crc16_byte 0xFFFF xs"

definition LORA_TDM_APP_Crc16 :: "u8 list \<Rightarrow> u16" where
  "LORA_TDM_APP_Crc16 xs = foldl crc16_byte 0xFFFF xs"

definition CrcAccumulate :: "u16 \<Rightarrow> u8 \<Rightarrow> u16" where
  "CrcAccumulate c b =
     (let tmp = b XOR ucast (c AND 0xFF);
          tmp = tmp XOR push_bit 4 tmp;
          t = (ucast tmp :: u16)
      in drop_bit 8 c XOR push_bit 8 t XOR push_bit 3 t XOR drop_bit 4 t)"

section \<open>What a receiver needs of a step\<close>

text \<open>\<^verbatim>\<open>inj_state\<close>: a difference in the state is never lost.  \<^verbatim>\<open>inj_pair\<close>: two
  consecutive bytes fed from one state are determined by the state they lead to.\<close>

locale crc_step =
  fixes step :: "'c \<Rightarrow> 'b \<Rightarrow> 'c"
  assumes inj_state: "step c b = step c' b \<Longrightarrow> c = c'"
    and inj_pair: "step (step c a) b = step (step c a') b' \<Longrightarrow> a = a' \<and> b = b'"
begin

lemma inj_byte: "step c b = step c b' \<Longrightarrow> b = b'"
  using inj_pair[of c b b b' b] by simp

lemma foldl_inj: "foldl step c xs = foldl step c' xs \<Longrightarrow> c = c'"
  by (induction xs arbitrary: c c') (auto dest: inj_state)

lemma detects_byte:
  "b \<noteq> b' \<Longrightarrow> foldl step c (xs @ b # ys) \<noteq> foldl step c (xs @ b' # ys)"
  by (auto dest!: foldl_inj inj_byte)

lemma detects_update:
  assumes "i < length xs" "xs ! i \<noteq> b"
  shows "foldl step c (xs[i := b]) \<noteq> foldl step c xs"
  using assms detects_byte[of b "xs ! i" c "take i xs" "drop (Suc i) xs"]
  by (metis id_take_nth_drop upd_conv_take_nth_drop)

lemma detects_burst:
  "(a, b) \<noteq> (a', b') \<Longrightarrow>
    foldl step c (xs @ a # b # ys) \<noteq> foldl step c (xs @ a' # b' # ys)"
  by (auto dest!: foldl_inj inj_pair)

end

section \<open>CRC-16/CCITT-FALSE is such a step\<close>

lemma msb16: "(c AND 0x8000 \<noteq> (0 :: u16)) = bit c 15"
proof -
  have "bit (0x8000 :: u16) n \<longleftrightarrow> n = 15" for n
    using bit_exp_iff[where 'a = "16 word", of 15 n] by auto
  then have "bit (c AND 0x8000) n \<longleftrightarrow> n = 15 \<and> bit c 15" for n
    by (auto simp: bit_and_iff)
  then show ?thesis
    by (metis bit_0_eq bot_apply bot_bool_def bit_eqI)
qed

lemma bit_poly: "bit (0x1021 :: u16) n \<longleftrightarrow> n = 0 \<or> n = 5 \<or> n = 12"
proof (cases "n < 16")
  case True
  then have "n \<in> set [0..<16]" by simp
  then show ?thesis by (auto simp: upt_rec)
qed (auto dest: bit_imp_le_length)

lemma bit_crc16_bit:
  "bit (crc16_bit c) n \<longleftrightarrow>
     n < 16 \<and> ((0 < n \<and> bit c (n - 1)) \<noteq> (bit c 15 \<and> (n = 0 \<or> n = 5 \<or> n = 12)))"
proof -
  have "bit (crc16_bit c) n \<longleftrightarrow>
      bit (push_bit 1 c) n \<noteq> (bit c 15 \<and> bit (0x1021 :: u16) n)"
    unfolding crc16_bit_def msb16 by (simp only: bit_xor_iff split: if_split) blast
  then show ?thesis
    by (simp only: bit_push_bit_iff bit_poly) (auto dest: bit_imp_le_length)
qed

lemma crc16_bits_8:
  "crc16_bits 8 c = crc16_bit (crc16_bit (crc16_bit (crc16_bit
     (crc16_bit (crc16_bit (crc16_bit (crc16_bit c)))))))"
  by (simp add: eval_nat_numeral)

lemma crc16_byte_eval:
  "crc16_byte c b = crc16_bit (crc16_bit (crc16_bit (crc16_bit
     (crc16_bit (crc16_bit (crc16_bit (crc16_bit (c XOR push_bit 8 (ucast b)))))))))"
  by (simp add: crc16_byte_def crc16_bits_8)

lemma all_less_16: "(\<forall>n<16. P n) \<longleftrightarrow> P 0 \<and> P 1 \<and> P 2 \<and> P 3 \<and> P 4 \<and> P 5 \<and> P 6 \<and> P 7 \<and>
   P 8 \<and> P 9 \<and> P 10 \<and> P 11 \<and> P 12 \<and> P 13 \<and> P 14 \<and> P (15::nat)"
  by (simp add: eval_nat_numeral All_less_Suc conj_ac)

lemma word16_eq_iff: "(a :: u16) = b \<longleftrightarrow> (\<forall>n<16. bit a n = bit b n)"
  by (auto simp: bit_eq_iff dest: bit_imp_le_length intro: bit_word_eqI)

text \<open>The eight shift-and-xor rounds equal the branch-free form in common use.\<close>

definition crc16_fast :: "u16 \<Rightarrow> u8 \<Rightarrow> u16" where
  "crc16_fast c b =
     (let x = ucast (drop_bit 8 c) XOR b; x = x XOR drop_bit 4 x; t = (ucast x :: u16)
      in push_bit 8 c XOR push_bit 12 t XOR push_bit 5 t XOR t)"

lemmas bit_op_iffs = bit_xor_iff bit_or_iff bit_and_iff bit_push_bit_iff bit_drop_bit_eq
  bit_ucast_iff

lemma crc16_byte_fast: "crc16_byte c b = crc16_fast c b"
  unfolding word16_eq_iff all_less_16
  by (intro conjI; simp add: crc16_byte_eval bit_crc16_bit crc16_fast_def Let_def bit_op_iffs not_bit_u8; blast)

text \<open>Writing a step as \<^verbatim>\<open>push_bit 8 c XOR crc16_tab x\<close>, the low byte of the result
  depends on the table index alone and determines it.\<close>

definition crc16_tab :: "u8 \<Rightarrow> u16" where
  "crc16_tab v = (let x = v XOR drop_bit 4 v; t = (ucast x :: u16)
     in push_bit 12 t XOR push_bit 5 t XOR t)"

lemma crc16_byte_tab:
  "crc16_byte c b = push_bit 8 c XOR crc16_tab (ucast (drop_bit 8 c) XOR b)"
  unfolding crc16_byte_fast crc16_fast_def crc16_tab_def Let_def by (simp only: ac_simps)

lemma xor_cancel_right [simp]: "(x :: 'a::len word) XOR a = y XOR a \<longleftrightarrow> x = y"
  by (metis xor.assoc xor_self_eq xor.right_neutral)

lemma xor_cancel_left [simp]: "(a :: 'a::len word) XOR x = a XOR y \<longleftrightarrow> x = y"
  by (metis xor.commute xor_cancel_right)

lemma all_less_8: "(\<forall>n<8. P n) \<longleftrightarrow>
    P 0 \<and> P 1 \<and> P 2 \<and> P 3 \<and> P 4 \<and> P 5 \<and> P 6 \<and> P (7::nat)"
  by (simp add: eval_nat_numeral All_less_Suc conj_ac)

lemma word8_eq_iff: "(a :: u8) = b \<longleftrightarrow> (\<forall>n<8. bit a n = bit b n)"
  by (auto simp: bit_eq_iff dest: bit_imp_le_length intro: bit_word_eqI)

lemma crc16_tab_inj:
  assumes "\<forall>n<8. bit (crc16_tab x) n = bit (crc16_tab y) n"
  shows "x = y"
proof -
  have b: "bit (crc16_tab v) 0 = (bit v 0 \<noteq> bit v 4)" "bit (crc16_tab v) 1 = (bit v 1 \<noteq> bit v 5)"
    "bit (crc16_tab v) 2 = (bit v 2 \<noteq> bit v 6)" "bit (crc16_tab v) 3 = (bit v 3 \<noteq> bit v 7)"
    "bit (crc16_tab v) 4 = bit v 4" "bit (crc16_tab v) 5 = (bit v 5 \<noteq> (bit v 0 \<noteq> bit v 4))"
    "bit (crc16_tab v) 6 = (bit v 6 \<noteq> (bit v 1 \<noteq> bit v 5))"
    "bit (crc16_tab v) 7 = (bit v 7 \<noteq> (bit v 2 \<noteq> bit v 6))" for v
    by (simp_all add: crc16_tab_def Let_def bit_op_iffs not_bit_u8; blast)+
  note h = assms[unfolded all_less_8 b]
  from h have e4: "bit x 4 = bit y 4" by (simp only: simp_thms)
  from h have e0: "bit x 0 = bit y 0" unfolding e4 by blast
  from h have e5: "bit x 5 = bit y 5" unfolding e4 e0 by blast
  from h have e1: "bit x 1 = bit y 1" unfolding e5 by blast
  from h have e6: "bit x 6 = bit y 6" unfolding e5 e1 by blast
  from h have e2: "bit x 2 = bit y 2" unfolding e6 by blast
  from h have e7: "bit x 7 = bit y 7" unfolding e6 e2 by blast
  from h have e3: "bit x 3 = bit y 3" unfolding e7 by blast
  show ?thesis unfolding word8_eq_iff all_less_8 by (intro conjI e0 e1 e2 e3 e4 e5 e6 e7)
qed

lemma crc16_byte_inj:
  assumes "crc16_byte c b = crc16_byte c' b'"
  shows "(ucast c :: u8) = ucast c'"
    and "ucast (drop_bit 8 c) XOR b = ucast (drop_bit 8 c') XOR b'"
proof -
  let ?x = "ucast (drop_bit 8 c) XOR b" and ?y = "ucast (drop_bit 8 c') XOR b'"
  have eq: "bit (push_bit 8 c XOR crc16_tab ?x) n = bit (push_bit 8 c' XOR crc16_tab ?y) n" for n
    using assms by (simp only: crc16_byte_tab)
  have "bit (crc16_tab ?x) n = bit (crc16_tab ?y) n" if "n < 8" for n
    using eq[of n] that by (simp add: bit_xor_iff bit_push_bit_iff)
  then show xy: "?x = ?y" by (blast intro: crc16_tab_inj)
  have "bit c n = bit c' n" if "n < 8" for n
    using eq[of "n + 8"] that unfolding xy by (simp add: bit_xor_iff bit_push_bit_iff) blast
  then show "(ucast c :: u8) = ucast c'"
    by (simp add: word8_eq_iff bit_ucast_iff)
qed

lemma u16_of_halves:
  assumes "(ucast c :: u8) = ucast c'" "(ucast (drop_bit 8 c) :: u8) = ucast (drop_bit 8 (c' :: u16))"
  shows "c = c'"
proof (rule bit_word_eqI)
  fix n assume n: "n < LENGTH(16)"
  have lo: "bit c k = bit c' k" if "k < 8" for k
    using assms(1) that by (simp add: word8_eq_iff bit_ucast_iff)
  have hi: "bit c (8 + k) = bit c' (8 + k)" if "k < 8" for k
    using assms(2) that by (simp add: word8_eq_iff bit_ucast_iff bit_drop_bit_eq)
  show "bit c n = bit c' n"
    using lo[of n] hi[of "n - 8"] n by (cases "n < 8") auto
qed

interpretation ccitt: crc_step crc16_byte
proof
  fix c c' b assume "crc16_byte c b = crc16_byte c' b"
  from crc16_byte_inj[OF this] show "c = c'"
    by (intro u16_of_halves) auto
next
  fix c a b a' b'
  assume e: "crc16_byte (crc16_byte c a) b = crc16_byte (crc16_byte c a') b'"
  from crc16_byte_inj(1)[OF e]
  have "\<forall>n<8. bit (crc16_byte c a) n = bit (crc16_byte c a') n"
    by (simp add: word8_eq_iff bit_ucast_iff)
  then have "\<forall>n<8. bit (crc16_tab (ucast (drop_bit 8 c) XOR a)) n =
      bit (crc16_tab (ucast (drop_bit 8 c) XOR a')) n"
    by (simp add: crc16_byte_tab bit_xor_iff bit_push_bit_iff)
  then have a: "a = a'" by (auto dest: crc16_tab_inj)
  then show "a = a' \<and> b = b'" using crc16_byte_inj(2)[OF e] by auto
qed

section \<open>MAVLink X.25 is such a step\<close>

definition x25_tab :: "u8 \<Rightarrow> u16" where
  "x25_tab v = (let x = v XOR push_bit 4 v; t = (ucast x :: u16)
     in push_bit 8 t XOR push_bit 3 t XOR drop_bit 4 t)"

lemma and_0xFF_ucast: "(ucast (c AND 0xFF) :: u8) = ucast (c :: u16)"
proof -
  have "c AND 0xFF = take_bit 8 c"
    by (simp add: take_bit_eq_mask mask_eq_exp_minus_1)
  then show ?thesis
    by (auto simp: word8_eq_iff bit_ucast_iff bit_take_bit_iff)
qed

lemma CrcAccumulate_tab:
  "CrcAccumulate c b = drop_bit 8 c XOR x25_tab (b XOR ucast c)"
  unfolding CrcAccumulate_def x25_tab_def Let_def and_0xFF_ucast by (simp only: ac_simps)

lemma x25_tab_inj:
  assumes "\<forall>n<8. bit (x25_tab x) (8 + n) = bit (x25_tab y) (8 + n)"
  shows "x = y"
proof -
  have b: "bit (x25_tab v) (8 + 7) = (bit v 7 \<noteq> bit v 3)" "bit (x25_tab v) (8 + 6) = (bit v 6 \<noteq> bit v 2)"
    "bit (x25_tab v) (8 + 5) = (bit v 5 \<noteq> bit v 1)" "bit (x25_tab v) (8 + 4) = (bit v 4 \<noteq> bit v 0)"
    "bit (x25_tab v) (8 + 3) = bit v 3" "bit (x25_tab v) (8 + 2) = (bit v 2 \<noteq> (bit v 7 \<noteq> bit v 3))"
    "bit (x25_tab v) (8 + 1) = (bit v 1 \<noteq> (bit v 6 \<noteq> bit v 2))"
    "bit (x25_tab v) (8 + 0) = (bit v 0 \<noteq> (bit v 5 \<noteq> bit v 1))" for v
    by (simp_all add: x25_tab_def Let_def bit_op_iffs not_bit_u8; blast)+
  note h = assms[unfolded all_less_8 b]
  from h have e3: "bit x 3 = bit y 3" by (simp only: simp_thms)
  from h have e7: "bit x 7 = bit y 7" unfolding e3 by blast
  from h have e2: "bit x 2 = bit y 2" unfolding e3 e7 by blast
  from h have e6: "bit x 6 = bit y 6" unfolding e2 by blast
  from h have e1: "bit x 1 = bit y 1" unfolding e2 e6 by blast
  from h have e5: "bit x 5 = bit y 5" unfolding e1 by blast
  from h have e0: "bit x 0 = bit y 0" unfolding e1 e5 by blast
  from h have e4: "bit x 4 = bit y 4" unfolding e0 by blast
  show ?thesis unfolding word8_eq_iff all_less_8 by (intro conjI e0 e1 e2 e3 e4 e5 e6 e7)
qed

lemma CrcAccumulate_inj:
  assumes "CrcAccumulate c b = CrcAccumulate c' b'"
  shows "(ucast (drop_bit 8 c) :: u8) = ucast (drop_bit 8 c')"
    and "b XOR ucast c = b' XOR ucast c'"
proof -
  have eq: "bit (drop_bit 8 c XOR x25_tab (b XOR ucast c)) n =
      bit (drop_bit 8 c' XOR x25_tab (b' XOR ucast c')) n" for n
    using assms by (simp only: CrcAccumulate_tab)
  have "\<not> bit c (16 + n)" "\<not> bit c' (16 + n)" for n
    by (auto dest: bit_imp_le_length)
  then have "bit (x25_tab (b XOR ucast c)) (8 + n) = bit (x25_tab (b' XOR ucast c')) (8 + n)" for n
    using eq[of "8 + n"] by (simp add: bit_xor_iff bit_drop_bit_eq add.assoc[symmetric])
  then show xy: "b XOR ucast c = b' XOR ucast c'" by (blast intro: x25_tab_inj)
  have "drop_bit 8 c = drop_bit 8 c'"
    using assms unfolding CrcAccumulate_tab xy by simp
  then show "(ucast (drop_bit 8 c) :: u8) = ucast (drop_bit 8 c')" by simp
qed

interpretation x25: crc_step CrcAccumulate
proof
  fix c c' b assume "CrcAccumulate c b = CrcAccumulate c' b"
  from CrcAccumulate_inj[OF this] show "c = c'"
    by (intro u16_of_halves) auto
next
  fix c a b a' b'
  assume e: "CrcAccumulate (CrcAccumulate c a) b = CrcAccumulate (CrcAccumulate c a') b'"
  have z: "\<not> bit c (16 + n)" for n
    by (auto dest: bit_imp_le_length)
  from CrcAccumulate_inj(1)[OF e]
  have "\<forall>n<8. bit (CrcAccumulate c a) (8 + n) = bit (CrcAccumulate c a') (8 + n)"
    by (simp add: word8_eq_iff bit_ucast_iff bit_drop_bit_eq)
  then have "\<forall>n<8. bit (x25_tab (a XOR ucast c)) (8 + n) = bit (x25_tab (a' XOR ucast c)) (8 + n)"
    using z by (simp add: CrcAccumulate_tab bit_xor_iff bit_drop_bit_eq)
  then have a: "a = a'" by (auto dest: x25_tab_inj)
  then show "a = a' \<and> b = b'" using CrcAccumulate_inj(2)[OF e] by auto
qed

end
