(* ===== verification/Float32.thy ===== *)
theory Float32
  imports Prelude
begin

text \<open>
  IEEE 754 single precision as its bit pattern: what the applications do with a C
  \<^verbatim>\<open>float\<close> is to store it, copy it, test it with \<^verbatim>\<open>isfinite\<close> and compare it with
  a constant.  The order is that of the exact values: a finite or infinite pattern is
  read as an integer multiple of 2^-149 (an infinity is read as one step above the
  largest finite value), and every comparison with a NaN is false.
\<close>

definition f32_exp :: "f32 \<Rightarrow> nat" where
  "f32_exp w = unat (drop_bit 23 w AND 0xFF)"

definition f32_frac :: "f32 \<Rightarrow> nat" where
  "f32_frac w = unat (w AND 0x7FFFFF)"

definition isfinite :: "f32 \<Rightarrow> bool" where
  "isfinite w \<longleftrightarrow> f32_exp w \<noteq> 255"

definition isnan :: "f32 \<Rightarrow> bool" where
  "isnan w \<longleftrightarrow> f32_exp w = 255 \<and> f32_frac w \<noteq> 0"

definition f32_scaled :: "f32 \<Rightarrow> int" where
  "f32_scaled w =
     (let m = (if f32_exp w = 0 then int (f32_frac w)
               else (int (f32_frac w) + 2 ^ 23) * 2 ^ (f32_exp w - 1))
      in if bit w 31 then - m else m)"

definition f32_le :: "f32 \<Rightarrow> f32 \<Rightarrow> bool" where
  "f32_le a b \<longleftrightarrow> \<not> isnan a \<and> \<not> isnan b \<and> f32_scaled a \<le> f32_scaled b"

definition f32_lt :: "f32 \<Rightarrow> f32 \<Rightarrow> bool" where
  "f32_lt a b \<longleftrightarrow> \<not> isnan a \<and> \<not> isnan b \<and> f32_scaled a < f32_scaled b"

lemma isfinite_not_isnan: "isfinite w \<Longrightarrow> \<not> isnan w"
  by (simp add: isfinite_def isnan_def)

lemma f32_not_lt: "\<not> isnan a \<Longrightarrow> \<not> isnan b \<Longrightarrow> \<not> f32_lt a b \<longleftrightarrow> f32_le b a"
  by (auto simp: f32_lt_def f32_le_def)

lemma f32_le_trans: "f32_le a b \<Longrightarrow> f32_le b c \<Longrightarrow> f32_le a c"
  by (auto simp: f32_le_def)

lemmas f32_defs = f32_exp_def f32_frac_def isfinite_def isnan_def f32_scaled_def
  f32_le_def f32_lt_def Let_def

end
