(* ===== verification/Uplink_Types.thy ===== *)
theory Uplink_Types
  imports Shared_Msgs Crc Float32
begin

text \<open>
  uplink_app: its constants (\<^verbatim>\<open>config/default_uplink_app_*.h\<close>), its global state
  \<^verbatim>\<open>UPLINK_APP_Data\<close> (\<^verbatim>\<open>fsw/src/uplink_app.h\<close>) and what the platform answers
  during one operation (\<^verbatim>\<open>uplink_env\<close>): the clock readings, the status of
  CFE_SB_TransmitMsg for the forwarded packet and of CFE_MSG_SetFcnCode, and the outcome
  of writing the state file.  The two telemetry buffers of the C struct are rebuilt
  at every use and are not part of the record.
\<close>

section \<open>Constants and enumerations\<close>

datatype UPLINK_APP_Result =
    RESULT_NONE | RESULT_ACCEPT | RESULT_REJECT | RESULT_ROUTED | RESULT_FAILED
  | REJECT_VERSION | REJECT_CLASS | REJECT_LENGTH | ROUTE_MISS | REJECT_ROUTE
  | REJECT_SEQUENCE | REJECT_STATE | REJECT_CHECKSUM | REJECT_VIEWPOINT | RESULT_DUPLICATE
  | EXECUTED_OK | EXECUTED_FAILED | REJECT_COUNTER | REJECT_FLIGHT_MODE

fun result_val :: "UPLINK_APP_Result \<Rightarrow> u8" where
  "result_val RESULT_NONE = 0"
| "result_val RESULT_ACCEPT = 1"
| "result_val RESULT_REJECT = 2"
| "result_val RESULT_ROUTED = 3"
| "result_val RESULT_FAILED = 4"
| "result_val REJECT_VERSION = 5"
| "result_val REJECT_CLASS = 6"
| "result_val REJECT_LENGTH = 7"
| "result_val ROUTE_MISS = 8"
| "result_val REJECT_ROUTE = 9"
| "result_val REJECT_SEQUENCE = 10"
| "result_val REJECT_STATE = 11"
| "result_val REJECT_CHECKSUM = 12"
| "result_val REJECT_VIEWPOINT = 13"
| "result_val RESULT_DUPLICATE = 14"
| "result_val EXECUTED_OK = 15"
| "result_val EXECUTED_FAILED = 16"
| "result_val REJECT_COUNTER = 17"
| "result_val REJECT_FLIGHT_MODE = 18"

datatype UPLINK_APP_LinkState = LINK_NOMINAL | LINK_DEGRADED | LINK_LOST | LINK_FAILED

fun link_val :: "UPLINK_APP_LinkState \<Rightarrow> u8" where
  "link_val LINK_NOMINAL = 0"
| "link_val LINK_DEGRADED = 1"
| "link_val LINK_LOST = 2"
| "link_val LINK_FAILED = 3"

datatype UPLINK_APP_RouteTarget =
  ROUTE_NONE | ROUTE_CORE | ROUTE_DOWNLINK | ROUTE_COUNTER_MGMT | ROUTE_FLIGHT_MODE

fun target_val :: "UPLINK_APP_RouteTarget \<Rightarrow> u8" where
  "target_val ROUTE_NONE = 0"
| "target_val ROUTE_CORE = 1"
| "target_val ROUTE_DOWNLINK = 2"
| "target_val ROUTE_COUNTER_MGMT = 3"
| "target_val ROUTE_FLIGHT_MODE = 4"

text \<open>Command classes and the other values that arrive in a byte from the ground.\<close>

abbreviation (input) CLASS_NONE :: u8 where "CLASS_NONE \<equiv> 0"
abbreviation (input) CLASS_CONFIG :: u8 where "CLASS_CONFIG \<equiv> 1"
abbreviation (input) CLASS_ROUTE_UPDATE :: u8 where "CLASS_ROUTE_UPDATE \<equiv> 2"
abbreviation (input) CLASS_VIEWPOINT :: u8 where "CLASS_VIEWPOINT \<equiv> 3"
abbreviation (input) CLASS_RECOVERY :: u8 where "CLASS_RECOVERY \<equiv> 4"
abbreviation (input) CLASS_MODE :: u8 where "CLASS_MODE \<equiv> 5"
abbreviation (input) CLASS_DIAGNOSTIC :: u8 where "CLASS_DIAGNOSTIC \<equiv> 6"
abbreviation (input) CLASS_COUNTER_MGMT :: u8 where "CLASS_COUNTER_MGMT \<equiv> 7"
abbreviation (input) CLASS_FLIGHT_MODE :: u8 where "CLASS_FLIGHT_MODE \<equiv> 8"

abbreviation (input) FLIGHT_MODE_HOVER :: u8 where "FLIGHT_MODE_HOVER \<equiv> 0"
abbreviation (input) FLIGHT_MODE_WAYPOINT :: u8 where "FLIGHT_MODE_WAYPOINT \<equiv> 1"
abbreviation (input) FLIGHT_MODE_LAND :: u8 where "FLIGHT_MODE_LAND \<equiv> 2"

abbreviation (input) COUNTER_SCOPE_MAVLINK_BRIDGE :: u8 where "COUNTER_SCOPE_MAVLINK_BRIDGE \<equiv> 1"
abbreviation (input) COUNTER_SCOPE_CFS_CORE :: u8 where "COUNTER_SCOPE_CFS_CORE \<equiv> 2"
abbreviation (input) COUNTER_SCOPE_UPLINK :: u8 where "COUNTER_SCOPE_UPLINK \<equiv> 3"
abbreviation (input) COUNTER_SCOPE_LORA_TDM :: u8 where "COUNTER_SCOPE_LORA_TDM \<equiv> 4"

abbreviation (input) ROUTE_OP_REPLACE :: u8 where "ROUTE_OP_REPLACE \<equiv> 1"
abbreviation (input) ROUTE_OP_ADD :: u8 where "ROUTE_OP_ADD \<equiv> 2"
abbreviation (input) ROUTE_OP_DELETE :: u8 where "ROUTE_OP_DELETE \<equiv> 3"
abbreviation (input) ROUTE_OP_MODIFY :: u8 where "ROUTE_OP_MODIFY \<equiv> 4"
abbreviation (input) UPLINK_APP_ROUTE_VERSION :: u8 where "UPLINK_APP_ROUTE_VERSION \<equiv> 2"

abbreviation (input) CONFIG_IDLE :: u8 where "CONFIG_IDLE \<equiv> 0"
abbreviation (input) CONFIG_PENDING :: u8 where "CONFIG_PENDING \<equiv> 1"
abbreviation (input) CONFIG_REJECTED :: u8 where "CONFIG_REJECTED \<equiv> 3"

abbreviation (input) UPLINK_APP_PROTOTYPE_PERIOD_MS :: u32 where "UPLINK_APP_PROTOTYPE_PERIOD_MS \<equiv> 1000"
abbreviation (input) UPLINK_APP_PROTOCOL_VERSION :: u8 where "UPLINK_APP_PROTOCOL_VERSION \<equiv> 1"
abbreviation (input) UPLINK_APP_MAX_PAYLOAD_LENGTH :: nat where "UPLINK_APP_MAX_PAYLOAD_LENGTH \<equiv> 196"
abbreviation (input) UPLINK_APP_FORCE_FLAG :: u8 where "UPLINK_APP_FORCE_FLAG \<equiv> 1"
abbreviation (input) UPLINK_APP_VIEWPOINT_VERSION :: u8 where "UPLINK_APP_VIEWPOINT_VERSION \<equiv> 1"
abbreviation (input) VIEWPOINT_MAX_HOLD_MS :: u32 where "VIEWPOINT_MAX_HOLD_MS \<equiv> 30000"

text \<open>Float constants as bit patterns: 2.0f, 8.0f, -50.0f, 50.0f, 3.14159265f and
  1.57079632f with their negations.\<close>

abbreviation (input) F32_2 :: f32 where "F32_2 \<equiv> 0x40000000"
abbreviation (input) F32_8 :: f32 where "F32_8 \<equiv> 0x41000000"
abbreviation (input) F32_m50 :: f32 where "F32_m50 \<equiv> 0xC2480000"
abbreviation (input) F32_50 :: f32 where "F32_50 \<equiv> 0x42480000"
abbreviation (input) F32_pi :: f32 where "F32_pi \<equiv> 0x40490FDB"
abbreviation (input) F32_mpi :: f32 where "F32_mpi \<equiv> 0xC0490FDB"
abbreviation (input) F32_pi2 :: f32 where "F32_pi2 \<equiv> 0x3FC90FDB"
abbreviation (input) F32_mpi2 :: f32 where "F32_mpi2 \<equiv> 0xBFC90FDB"

text \<open>Message ids, function codes and event ids.\<close>

abbreviation (input) UPLINK_APP_CMD_MID :: u16 where "UPLINK_APP_CMD_MID \<equiv> 0x18D0"
abbreviation (input) UPLINK_APP_SEND_HK_MID :: u16 where "UPLINK_APP_SEND_HK_MID \<equiv> 0x18D1"
abbreviation (input) MAVLINK_BRIDGE_CMD_MID :: u16 where "MAVLINK_BRIDGE_CMD_MID \<equiv> 0x18A0"
abbreviation (input) CFS_CORE_CMD_MID :: u16 where "CFS_CORE_CMD_MID \<equiv> 0x18C0"
abbreviation (input) LORA_TDM_CMD_MID :: u16 where "LORA_TDM_CMD_MID \<equiv> 0x18E0"
abbreviation (input) RESET_COUNTERS_CC :: u8 where "RESET_COUNTERS_CC \<equiv> 1"
abbreviation (input) SET_FLIGHT_MODE_CC :: u8 where "SET_FLIGHT_MODE_CC \<equiv> 5"
abbreviation (input) UPLINK_APP_NOOP_CC :: u8 where "UPLINK_APP_NOOP_CC \<equiv> 0"
abbreviation (input) UPLINK_APP_RESET_COUNTERS_CC :: u8 where "UPLINK_APP_RESET_COUNTERS_CC \<equiv> 1"
abbreviation (input) UPLINK_APP_PROCESS_UPLINK_CC :: u8 where "UPLINK_APP_PROCESS_UPLINK_CC \<equiv> 2"

abbreviation (input) UP_STARTUP_EID :: nat where "UP_STARTUP_EID \<equiv> 1"
abbreviation (input) UP_COMMAND_ERR_EID :: nat where "UP_COMMAND_ERR_EID \<equiv> 2"
abbreviation (input) UP_NOOP_EID :: nat where "UP_NOOP_EID \<equiv> 3"
abbreviation (input) UP_RESET_EID :: nat where "UP_RESET_EID \<equiv> 4"
abbreviation (input) UP_PUBLISH_EID :: nat where "UP_PUBLISH_EID \<equiv> 5"
abbreviation (input) UP_STATE_BLOCK_EID :: nat where "UP_STATE_BLOCK_EID \<equiv> 6"
abbreviation (input) UP_AUTHZ_BLOCK_EID :: nat where "UP_AUTHZ_BLOCK_EID \<equiv> 7"
abbreviation (input) UP_DUPLICATE_EID :: nat where "UP_DUPLICATE_EID \<equiv> 8"
abbreviation (input) UP_STATE_CORRUPT_EID :: nat where "UP_STATE_CORRUPT_EID \<equiv> 9"
abbreviation (input) UP_STATE_SAVE_FAIL_EID :: nat where "UP_STATE_SAVE_FAIL_EID \<equiv> 10"

section \<open>State\<close>

datatype run_status = APP_RUN | APP_ERROR

record FLIGHT_MODE_CTRL_CMD =
  fm_SourceSequence :: u16
  fm_FlightMode :: u8
  fm_WaypointStartIndex :: u8

record UPLINK_APP_Data =
  u_CmdCounter :: u8
  u_ErrCounter :: u8
  u_RunStatus :: run_status
  u_SequenceCounter :: u32
  u_PublishCount :: u32
  u_LastPublishTimeMs :: u32
  u_LastRxTimeMs :: u32
  u_AcceptedCount :: u32
  u_RejectedCount :: u32
  u_DuplicateCount :: u32
  u_RoutingFailureCount :: u32
  u_LastAcceptedSequence :: u32
  u_BootCount :: u8
  u_LastResetReason :: u8
  u_SurvivedMark :: u8
  u_PrevSurvivedMark :: u8
  u_ShortBootStreak :: u8
  u_BootLoopSuspect :: u8
  u_BootStartMs :: u32
  u_LastCommandCode :: u16
  u_LastRxSequence :: u16
  u_LastCommandResult :: u8
  u_LastRouteTarget :: u8
  u_LinkState :: u8
  u_Valid :: u8
  u_ActiveTransportId :: u8
  u_ConfigPendingState :: u8
  u_LastConfigResult :: u8
  u_LastRollbackReason :: u8
  u_CfsHealthState :: u8
  u_CfsHealthReceived :: u8
  u_FcMissionResult :: u8
  u_FcMissionUploadState :: u8
  u_FcMissionUploadSuccessCount :: u32
  u_FlightModeCtrlCmd :: FLIGHT_MODE_CTRL_CMD

record uplink_env =
  ue_now :: sys_time
  ue_tlm_time :: sys_time
  ue_tx_ok :: bool
  ue_fcn_ok :: bool
  ue_save :: save_outcome
end
