(* ===== verification/Uplink.thy ===== *)
theory Uplink
  imports Uplink_Types
begin

text \<open>
  uplink_app: the gate every ground command passes on its way into the vehicle
  (\<^verbatim>\<open>uplink_app_cmds.c\<close>, \<^verbatim>\<open>uplink_app_utils.c\<close>, \<^verbatim>\<open>uplink_app_dispatch.c\<close>,
  \<^verbatim>\<open>uplink_app.c\<close>), one definition per C function in the order of the source.
  An operation takes the platform's answers and the application's state and returns the
  new state and what it left behind (events, packets, state files).
\<close>

section \<open>Telemetry and housekeeping\<close>

definition UPLINK_APP_StatusTlm :: "u32 \<Rightarrow> UPLINK_APP_Data \<Rightarrow> UPLINK_STATUS_TLM" where
  "UPLINK_APP_StatusTlm NowMs d =
     \<lparr> us_Seq = u_SequenceCounter d,
       us_TimestampMs = NowMs,
       us_LastRxTimestampMs = u_LastRxTimeMs d,
       us_AcceptedCount = u_AcceptedCount d,
       us_RejectedCount = u_RejectedCount d,
       us_RoutingFailureCount = u_RoutingFailureCount d,
       us_LastCommandCode = u_LastCommandCode d,
       us_LastCommandSequence = u_LastRxSequence d,
       us_LastCommandResult = u_LastCommandResult d,
       us_LinkState = u_LinkState d,
       us_Valid = u_Valid d,
       us_ActiveTransportId = u_ActiveTransportId d,
       us_LastRouteTarget = u_LastRouteTarget d,
       us_ConfigPendingState = u_ConfigPendingState d,
       us_LastConfigResult = u_LastConfigResult d,
       us_LastRollbackReason = u_LastRollbackReason d,
       us_FcMissionResult = u_FcMissionResult d,
       us_FcMissionUploadState = u_FcMissionUploadState d,
       us_BootCount = u_BootCount d,
       us_BootLoopSuspect = u_BootLoopSuspect d,
       us_ShortBootStreak = u_ShortBootStreak d,
       us_LastResetReason = u_LastResetReason d,
       us_FcMissionUploadSuccessCount = u_FcMissionUploadSuccessCount d,
       us_LastAcceptedSequence = ucast (u_LastAcceptedSequence d) \<rparr>"

definition UPLINK_APP_UpdateStatusTelemetry ::
    "sys_time \<Rightarrow> u32 \<Rightarrow> UPLINK_APP_Data \<Rightarrow> UPLINK_APP_Data \<times> out list" where
  "UPLINK_APP_UpdateStatusTelemetry t NowMs d =
     (let now = (if NowMs = 0 then GetTimeMs t else NowMs);
          d = d\<lparr> u_LastPublishTimeMs := now,
                 u_PublishCount := u_PublishCount d + 1,
                 u_SequenceCounter := u_SequenceCounter d + 1 \<rparr>
      in (d, [Send (UplinkStatus (UPLINK_APP_StatusTlm now d))]))"

definition UPLINK_APP_ReportHousekeeping :: "UPLINK_APP_Data \<Rightarrow> out list" where
  "UPLINK_APP_ReportHousekeeping d =
     [Send (UplinkHk \<lparr> uh_CommandCounter = u_CmdCounter d,
                       uh_CommandErrorCounter = u_ErrCounter d,
                       uh_PublishCount = u_PublishCount d,
                       uh_LastPublishTimestampMs = u_LastPublishTimeMs d \<rparr>)]"

section \<open>The state file\<close>

abbreviation (input) UPLINK_APP_STATE_MAGIC :: u32 where "UPLINK_APP_STATE_MAGIC \<equiv> 0x55504C4B"
abbreviation (input) UPLINK_APP_BOOT_SURVIVE_MS :: u32 where "UPLINK_APP_BOOT_SURVIVE_MS \<equiv> 120000"
abbreviation (input) UPLINK_APP_BOOT_LOOP_THRESHOLD :: u8 where "UPLINK_APP_BOOT_LOOP_THRESHOLD \<equiv> 5"

record UPLINK_APP_PersistentState =
  ups_Magic :: u32
  ups_LastAcceptedSequence :: u32
  ups_BootCount :: u32
  ups_LastResetReason :: u8
  ups_SurvivedMark :: u8
  ups_ShortBootStreak :: u8
  ups_BootReserved :: u8
  ups_Checksum :: u32

text \<open>The struct as the little-endian machine lays it out (20 bytes, no padding);
  the checksum covers the bytes before its own field.\<close>

definition ups_prefix :: "UPLINK_APP_PersistentState \<Rightarrow> u8 list" where
  [bytes_defs]: "ups_prefix s = put_u32 (ups_Magic s) @ put_u32 (ups_LastAcceptedSequence s) @
     put_u32 (ups_BootCount s) @
     [ups_LastResetReason s, ups_SurvivedMark s, ups_ShortBootStreak s, ups_BootReserved s]"

definition ups_bytes :: "UPLINK_APP_PersistentState \<Rightarrow> u8 list" where
  [bytes_defs]: "ups_bytes s = ups_prefix s @ put_u32 (ups_Checksum s)"

definition ups_of_bytes :: "u8 list \<Rightarrow> UPLINK_APP_PersistentState" where
  "ups_of_bytes bs = \<lparr> ups_Magic = get_u32 bs 0, ups_LastAcceptedSequence = get_u32 bs 4,
     ups_BootCount = get_u32 bs 8, ups_LastResetReason = byte_at bs 12,
     ups_SurvivedMark = byte_at bs 13, ups_ShortBootStreak = byte_at bs 14,
     ups_BootReserved = byte_at bs 15, ups_Checksum = get_u32 bs 16 \<rparr>"

definition UPLINK_APP_SaveState :: "save_outcome \<Rightarrow> UPLINK_APP_Data \<Rightarrow> out list" where
  "UPLINK_APP_SaveState r d =
     (let s = \<lparr> ups_Magic = UPLINK_APP_STATE_MAGIC,
                ups_LastAcceptedSequence = u_LastAcceptedSequence d,
                ups_BootCount = ucast (u_BootCount d),
                ups_LastResetReason = u_LastResetReason d,
                ups_SurvivedMark = u_SurvivedMark d,
                ups_ShortBootStreak = u_ShortBootStreak d,
                ups_BootReserved = 0,
                ups_Checksum = 0 \<rparr>;
          s = s\<lparr> ups_Checksum := ucast (UPLINK_APP_CRC16 (ups_prefix s)) \<rparr>
      in save_file UP_STATE_SAVE_FAIL_EID r (ups_bytes s))"

definition UPLINK_APP_LoadState :: "file_read \<Rightarrow> UPLINK_APP_Data \<Rightarrow> UPLINK_APP_Data \<times> out list" where
  "UPLINK_APP_LoadState f d =
     (case f of
        No_File \<Rightarrow> (d, [])
      | Open_Error \<Rightarrow> (d, [Event UP_STATE_CORRUPT_EID ERROR])
      | Contents bs \<Rightarrow>
          if length bs < 20 then (d, [Event UP_STATE_CORRUPT_EID ERROR])
          else let s = ups_of_bytes (take 20 bs) in
            if ups_Magic s \<noteq> UPLINK_APP_STATE_MAGIC
            then (d, [Event UP_STATE_CORRUPT_EID ERROR])
            else if ups_Checksum s \<noteq> ucast (UPLINK_APP_CRC16 (take 16 bs))
            then (d, [Event UP_STATE_CORRUPT_EID ERROR])
            else (d\<lparr> u_LastAcceptedSequence := ups_LastAcceptedSequence s,
                     u_AcceptedCount := 1,
                     u_BootCount := ucast (ups_BootCount s),
                     u_PrevSurvivedMark := ups_SurvivedMark s,
                     u_ShortBootStreak := ups_ShortBootStreak s \<rparr>,
                  [Event UP_STARTUP_EID INFORMATION]))"

definition UPLINK_APP_IncrementBootCount ::
    "save_outcome \<Rightarrow> UPLINK_APP_Data \<Rightarrow> UPLINK_APP_Data \<times> out list" where
  "UPLINK_APP_IncrementBootCount r d =
     (let d = d\<lparr> u_BootCount := u_BootCount d + 1 \<rparr> in (d, UPLINK_APP_SaveState r d))"

definition UPLINK_APP_ProcessBootMarker ::
    "sys_time \<Rightarrow> u8 \<Rightarrow> save_outcome \<Rightarrow> UPLINK_APP_Data \<Rightarrow> UPLINK_APP_Data \<times> out list" where
  "UPLINK_APP_ProcessBootMarker t reset_type r d =
     (let d = d\<lparr> u_BootStartMs := GetTimeMs t, u_LastResetReason := reset_type \<rparr>;
          d = (if u_PrevSurvivedMark d = 0
               then (if u_ShortBootStreak d < 255
                     then d\<lparr> u_ShortBootStreak := u_ShortBootStreak d + 1 \<rparr> else d)
               else d\<lparr> u_ShortBootStreak := 0 \<rparr>);
          d = d\<lparr> u_BootLoopSuspect :=
                 (if u_ShortBootStreak d \<ge> UPLINK_APP_BOOT_LOOP_THRESHOLD then 1 else 0) \<rparr>;
          evs = (if u_BootLoopSuspect d \<noteq> 0 then [Event UP_STARTUP_EID ERROR] else []);
          d = d\<lparr> u_SurvivedMark := 0 \<rparr>
      in (d, evs @ UPLINK_APP_SaveState r d))"

definition UPLINK_APP_CheckBootSurvival ::
    "sys_time \<Rightarrow> save_outcome \<Rightarrow> UPLINK_APP_Data \<Rightarrow> UPLINK_APP_Data \<times> out list" where
  "UPLINK_APP_CheckBootSurvival t r d =
     (if u_SurvivedMark d \<noteq> 0 then (d, [])
      else if GetTimeMs t - u_BootStartMs d \<ge> UPLINK_APP_BOOT_SURVIVE_MS
      then let d = d\<lparr> u_SurvivedMark := 1 \<rparr>
           in (d, UPLINK_APP_SaveState r d @ [Event UP_STARTUP_EID INFORMATION])
      else (d, []))"

section \<open>Checks on a received command\<close>

datatype UPLINK_APP_SeqCheck = SEQ_NEW | SEQ_DUPLICATE | SEQ_REPLAY

definition UPLINK_APP_CheckSequence :: "UPLINK_APP_Data \<Rightarrow> u16 \<Rightarrow> UPLINK_APP_SeqCheck" where
  "UPLINK_APP_CheckSequence d Sequence =
     (if u_AcceptedCount d = 0 then SEQ_NEW
      else let Last = (ucast (u_LastAcceptedSequence d) :: u16) in
        if Sequence = Last then SEQ_DUPLICATE
        else if Sequence - Last < 0x8000 then SEQ_NEW else SEQ_REPLAY)"

definition UPLINK_APP_GetClassRequiredLevel :: "u8 \<Rightarrow> u8" where
  "UPLINK_APP_GetClassRequiredLevel c =
     (if c = CLASS_NONE then 1
      else if c = CLASS_CONFIG then 2
      else if c = CLASS_ROUTE_UPDATE then 2
      else if c = CLASS_VIEWPOINT then 2
      else if c = CLASS_RECOVERY then 3
      else if c = CLASS_MODE then 3
      else if c = CLASS_DIAGNOSTIC then 1
      else if c = CLASS_COUNTER_MGMT then 3
      else if c = CLASS_FLIGHT_MODE then 3
      else 0xFF)"

definition auth_level :: "UPLINK_FWD_CMD \<Rightarrow> u8" where
  "auth_level Cmd = drop_bit 6 (fw_Flags Cmd) AND 3"

definition UPLINK_APP_IsAuthorized :: "UPLINK_FWD_CMD \<Rightarrow> u32 \<Rightarrow> bool" where
  "UPLINK_APP_IsAuthorized Cmd RequestToken =
     (let required = UPLINK_APP_GetClassRequiredLevel (fw_CommandClass Cmd) in
      if auth_level Cmd < required then False
      else if required = 3 \<and> RequestToken = 0 then False
      else True)"

text \<open>\<^verbatim>\<open>Len\<close> is computed in 16 bits and cut at the size of the buffer.\<close>

definition proxy_crc_buf :: "UPLINK_FWD_CMD \<Rightarrow> u8 list" where
  "proxy_crc_buf Cmd =
     [fw_Version Cmd, fw_CommandClass Cmd, fw_PayloadLength Cmd, fw_Flags Cmd] @
     put_u16 (fw_Sequence Cmd) @
     take (min (unat (fw_PayloadLength Cmd)) UPLINK_APP_MAX_PAYLOAD_LENGTH) (fw_Payload Cmd)"

definition UPLINK_APP_ComputeProxyCrc :: "UPLINK_FWD_CMD \<Rightarrow> u16" where
  "UPLINK_APP_ComputeProxyCrc Cmd = UPLINK_APP_CRC16 (proxy_crc_buf Cmd)"

text \<open>The left value is the reason of the rejection; \<^verbatim>\<open>Inr ()\<close> is
  \<^verbatim>\<open>UPLINK_APP_RESULT_ACCEPT\<close>.\<close>

definition UPLINK_APP_ValidateProxyCommand :: "UPLINK_FWD_CMD \<Rightarrow> UPLINK_APP_Result + unit" where
  "UPLINK_APP_ValidateProxyCommand Cmd =
     (if fw_Version Cmd \<noteq> UPLINK_APP_PROTOCOL_VERSION then Inl REJECT_VERSION
      else if unat (fw_PayloadLength Cmd) > UPLINK_APP_MAX_PAYLOAD_LENGTH then Inl REJECT_LENGTH
      else if fw_CommandClass Cmd \<notin> {CLASS_CONFIG, CLASS_ROUTE_UPDATE, CLASS_VIEWPOINT,
             CLASS_RECOVERY, CLASS_MODE, CLASS_DIAGNOSTIC, CLASS_COUNTER_MGMT, CLASS_FLIGHT_MODE}
      then Inl REJECT_CLASS
      else if (fw_CommandClass Cmd = CLASS_ROUTE_UPDATE \<or> fw_CommandClass Cmd = CLASS_VIEWPOINT)
              \<and> fw_PayloadLength Cmd = 0
      then Inl REJECT_LENGTH
      else if UPLINK_APP_ComputeProxyCrc Cmd \<noteq> fw_Checksum Cmd then Inl REJECT_CHECKSUM
      else Inr ())"

definition UPLINK_APP_ResolveRouteTarget :: "u8 \<Rightarrow> UPLINK_APP_RouteTarget" where
  "UPLINK_APP_ResolveRouteTarget c =
     (if c = CLASS_CONFIG \<or> c = CLASS_ROUTE_UPDATE \<or> c = CLASS_VIEWPOINT \<or>
         c = CLASS_RECOVERY \<or> c = CLASS_MODE then ROUTE_CORE
      else if c = CLASS_DIAGNOSTIC then ROUTE_DOWNLINK
      else if c = CLASS_COUNTER_MGMT then ROUTE_COUNTER_MGMT
      else if c = CLASS_FLIGHT_MODE then ROUTE_FLIGHT_MODE
      else ROUTE_NONE)"

section \<open>Payload parsers\<close>

definition IsWaypointFinite :: "ROUTE_WAYPOINT \<Rightarrow> bool" where
  "IsWaypointFinite w \<longleftrightarrow> isfinite (wp_Param1 w) \<and> isfinite (wp_Param2 w) \<and>
     isfinite (wp_Param3 w) \<and> isfinite (wp_Param4 w) \<and> isfinite (wp_Z w)"

definition IsWaypointAltitudeValid :: "ROUTE_WAYPOINT \<Rightarrow> bool" where
  "IsWaypointAltitudeValid w \<longleftrightarrow> f32_le F32_2 (wp_Z w) \<and> f32_le (wp_Z w) F32_8"

definition ParseWaypointWire :: "u8 list \<Rightarrow> ROUTE_WAYPOINT" where
  "ParseWaypointWire Raw =
     \<lparr> wp_CmdType = byte_at Raw 0, wp_Param1 = get_u32 Raw 1, wp_Param2 = get_u32 Raw 5,
       wp_Param3 = get_u32 Raw 9, wp_Param4 = get_u32 Raw 13, wp_LatE7 = get_u32 Raw 17,
       wp_LonE7 = get_u32 Raw 21, wp_Z = get_u32 Raw 25 \<rparr>"

record UPLINK_APP_RouteUpdatePayload =
  rp_RouteType :: u8
  rp_RouteVersion :: u8
  rp_WaypointCount :: u8
  rp_Reserved :: u8
  rp_Waypoints :: "ROUTE_WAYPOINT list"

text \<open>The loop over the waypoints of a REPLACE or ADD: parse, check, go on.\<close>

fun parse_waypoints :: "nat \<Rightarrow> u8 list \<Rightarrow> ROUTE_WAYPOINT list option" where
  "parse_waypoints 0 raw = Some []"
| "parse_waypoints (Suc n) raw =
     (let w = ParseWaypointWire raw in
      if \<not> IsWaypointFinite w then None
      else if \<not> IsWaypointAltitudeValid w then None
      else case parse_waypoints n (drop ROUTE_WAYPOINT_WIRE_SIZE raw) of
             None \<Rightarrow> None | Some ws \<Rightarrow> Some (w # ws))"

text \<open>The fixed array of 37 waypoints, zero behind the ones that were parsed.\<close>

definition wp_array :: "ROUTE_WAYPOINT list \<Rightarrow> ROUTE_WAYPOINT list" where
  "wp_array ws = take ROUTE_MAX_WAYPOINTS (ws @ replicate ROUTE_MAX_WAYPOINTS wp_zero)"

definition UPLINK_APP_ParseRouteUpdatePayload ::
    "UPLINK_FWD_CMD \<Rightarrow> UPLINK_APP_RouteUpdatePayload option" where
  "UPLINK_APP_ParseRouteUpdatePayload Cmd =
     (let len = unat (fw_PayloadLength Cmd); pl = fw_Payload Cmd;
          op = byte_at pl 0; n = byte_at pl 2;
          result = (\<lambda>ws. \<lparr> rp_RouteType = op, rp_RouteVersion = byte_at pl 1,
                           rp_WaypointCount = n, rp_Reserved = byte_at pl 3,
                           rp_Waypoints = wp_array ws \<rparr>)
      in if len < 4 then None
         else if byte_at pl 1 \<noteq> UPLINK_APP_ROUTE_VERSION then None
         else if op \<noteq> ROUTE_OP_REPLACE \<and> op \<noteq> ROUTE_OP_ADD \<and>
                 op \<noteq> ROUTE_OP_DELETE \<and> op \<noteq> ROUTE_OP_MODIFY then None
         else if op = ROUTE_OP_DELETE then
           (if unat n \<ge> ROUTE_MAX_WAYPOINTS then None
            else if len \<noteq> 4 then None
            else Some (result []))
         else if op = ROUTE_OP_MODIFY then
           (if unat n \<ge> ROUTE_MAX_WAYPOINTS then None
            else if len \<noteq> 4 + ROUTE_WAYPOINT_WIRE_SIZE then None
            else let w = ParseWaypointWire (drop 4 pl) in
              if \<not> IsWaypointFinite w then None
              else if \<not> IsWaypointAltitudeValid w then None
              else Some (result [w]))
         else if n = 0 \<or> unat n > ROUTE_MAX_WAYPOINTS then None
         else if len \<noteq> 4 + unat n * ROUTE_WAYPOINT_WIRE_SIZE then None
         else map_option result (parse_waypoints (unat n) (drop 4 pl)))"

record UPLINK_APP_ViewpointPayload =
  vp_ViewpointType :: u8
  vp_ViewpointVersion :: u8
  vp_PositionFrame :: u8
  vp_Reserved :: u8
  vp_X :: f32
  vp_Y :: f32
  vp_Z :: f32
  vp_Yaw :: f32
  vp_Pitch :: f32
  vp_HoldTimeMs :: u32

definition viewpoint_of_bytes :: "u8 list \<Rightarrow> UPLINK_APP_ViewpointPayload" where
  "viewpoint_of_bytes pl =
     \<lparr> vp_ViewpointType = byte_at pl 0, vp_ViewpointVersion = byte_at pl 1,
       vp_PositionFrame = byte_at pl 2, vp_Reserved = byte_at pl 3,
       vp_X = get_u32 pl 4, vp_Y = get_u32 pl 8, vp_Z = get_u32 pl 12,
       vp_Yaw = get_u32 pl 16, vp_Pitch = get_u32 pl 20, vp_HoldTimeMs = get_u32 pl 24 \<rparr>"

text \<open>\<^verbatim>\<open>!isfinite(x) || x < lo || x > hi\<close>\<close>

definition float_outside :: "f32 \<Rightarrow> f32 \<Rightarrow> f32 \<Rightarrow> bool" where
  "float_outside x lo hi \<longleftrightarrow> \<not> isfinite x \<or> f32_lt x lo \<or> f32_lt hi x"

definition UPLINK_APP_ParseViewpointPayload ::
    "UPLINK_FWD_CMD \<Rightarrow> UPLINK_APP_ViewpointPayload option" where
  "UPLINK_APP_ParseViewpointPayload Cmd =
     (if fw_PayloadLength Cmd \<noteq> 28 then None
      else let p = viewpoint_of_bytes (fw_Payload Cmd) in
        if vp_ViewpointVersion p \<noteq> UPLINK_APP_VIEWPOINT_VERSION then None
        else if vp_ViewpointType p > 2 then None
        else if vp_PositionFrame p > 0 then None
        else if float_outside (vp_X p) F32_m50 F32_50 then None
        else if float_outside (vp_Y p) F32_m50 F32_50 then None
        else if float_outside (vp_Z p) F32_2 F32_8 then None
        else if float_outside (vp_Yaw p) F32_mpi F32_pi then None
        else if float_outside (vp_Pitch p) F32_mpi2 F32_pi2 then None
        else if vp_HoldTimeMs p > VIEWPOINT_MAX_HOLD_MS then None
        else Some p)"

record UPLINK_APP_FlightModePayload =
  fp_FlightMode :: u8
  fp_WaypointStartIndex :: u8
  fp_RequestToken :: u32

definition UPLINK_APP_ParseFlightModePayload ::
    "UPLINK_FWD_CMD \<Rightarrow> UPLINK_APP_FlightModePayload option" where
  "UPLINK_APP_ParseFlightModePayload Cmd =
     (let pl = fw_Payload Cmd in
      if fw_PayloadLength Cmd < 6 then None
      else if byte_at pl 0 > FLIGHT_MODE_LAND then None
      else if byte_at pl 0 \<noteq> FLIGHT_MODE_WAYPOINT \<and> byte_at pl 1 \<noteq> 0 then None
      else Some \<lparr> fp_FlightMode = byte_at pl 0, fp_WaypointStartIndex = byte_at pl 1,
                  fp_RequestToken = get_u32 pl 2 \<rparr>)"

section \<open>Forwarding to the target applications\<close>

text \<open>A packet is on the bus when CFE_SB_TransmitMsg returned CFE_SUCCESS.\<close>

definition transmit :: "bool \<Rightarrow> sb_msg \<Rightarrow> bool \<times> out list" where
  "transmit ok m = (ok, if ok then [Send m] else [])"

definition UPLINK_APP_PublishRouteUpdate ::
    "uplink_env \<Rightarrow> UPLINK_APP_Data \<Rightarrow> UPLINK_FWD_CMD \<Rightarrow> UPLINK_APP_RouteUpdatePayload \<Rightarrow> bool \<times> out list" where
  "UPLINK_APP_PublishRouteUpdate env d Cmd p =
     transmit (ue_tx_ok env) (RouteUpdate
       \<lparr> ru_Seq = u_SequenceCounter d + 1, ru_TimestampMs = u_LastRxTimeMs d,
         ru_SourceSequence = ucast (fw_Sequence Cmd), ru_RouteType = rp_RouteType p,
         ru_RouteVersion = rp_RouteVersion p, ru_WaypointCount = rp_WaypointCount p,
         ru_Waypoints = rp_Waypoints p \<rparr>)"

definition UPLINK_APP_ForwardRecoveryCommand ::
    "uplink_env \<Rightarrow> UPLINK_APP_Data \<Rightarrow> UPLINK_FWD_CMD \<Rightarrow> bool \<times> out list" where
  "UPLINK_APP_ForwardRecoveryCommand env d Cmd =
     (let pl = fw_Payload Cmd in
      if fw_PayloadLength Cmd < 8 then (False, [])
      else transmit (ue_tx_ok env) (RecoveryCmd
       \<lparr> rc_Seq = u_SequenceCounter d + 1, rc_TimestampMs = u_LastRxTimeMs d,
         rc_SourceSequence = fw_Sequence Cmd, rc_RecoveryAction = byte_at pl 0,
         rc_TargetComponent = byte_at pl 1, rc_ReasonCode = get_u16 pl 2,
         rc_RequestToken = get_u32 pl 4 \<rparr>))"

definition UPLINK_APP_ForwardViewpointCommand ::
    "uplink_env \<Rightarrow> UPLINK_APP_Data \<Rightarrow> UPLINK_FWD_CMD \<Rightarrow> UPLINK_APP_ViewpointPayload \<Rightarrow> bool \<times> out list" where
  "UPLINK_APP_ForwardViewpointCommand env d Cmd p =
     transmit (ue_tx_ok env) (ViewpointCmd
       \<lparr> vc_Seq = u_SequenceCounter d + 1, vc_TimestampMs = u_LastRxTimeMs d,
         vc_SourceSequence = fw_Sequence Cmd, vc_ViewpointType = vp_ViewpointType p,
         vc_PositionFrame = vp_PositionFrame p, vc_X = vp_X p, vc_Y = vp_Y p, vc_Z = vp_Z p,
         vc_Yaw = vp_Yaw p, vc_Pitch = vp_Pitch p, vc_HoldTimeMs = vp_HoldTimeMs p \<rparr>)"

definition UPLINK_APP_ForwardModeCommand ::
    "uplink_env \<Rightarrow> UPLINK_APP_Data \<Rightarrow> UPLINK_FWD_CMD \<Rightarrow> bool \<times> out list" where
  "UPLINK_APP_ForwardModeCommand env d Cmd =
     (let pl = fw_Payload Cmd in
      if fw_PayloadLength Cmd < 6 then (False, [])
      else transmit (ue_tx_ok env) (ModeCmd
       \<lparr> mc_Seq = u_SequenceCounter d + 1, mc_TimestampMs = u_LastRxTimeMs d,
         mc_SourceSequence = fw_Sequence Cmd, mc_ModeAction = byte_at pl 0,
         mc_RequestedState = byte_at pl 1, mc_RequestToken = get_u32 pl 2 \<rparr>))"

definition UPLINK_APP_ForwardDiagnosticCommand ::
    "uplink_env \<Rightarrow> UPLINK_APP_Data \<Rightarrow> UPLINK_FWD_CMD \<Rightarrow> bool \<times> out list" where
  "UPLINK_APP_ForwardDiagnosticCommand env d Cmd =
     (let pl = fw_Payload Cmd in
      if fw_PayloadLength Cmd < 6 then (False, [])
      else transmit (ue_tx_ok env) (DiagnosticCmd
       \<lparr> dc_Seq = u_SequenceCounter d + 1, dc_TimestampMs = u_LastRxTimeMs d,
         dc_SourceSequence = fw_Sequence Cmd, dc_DiagAction = byte_at pl 0,
         dc_DiagTarget = byte_at pl 1, dc_RequestToken = get_u32 pl 2 \<rparr>))"

definition UPLINK_APP_ForwardCounterMgmtCommand ::
    "uplink_env \<Rightarrow> UPLINK_APP_Data \<Rightarrow> UPLINK_FWD_CMD \<Rightarrow> UPLINK_APP_Data \<times> bool \<times> out list" where
  "UPLINK_APP_ForwardCounterMgmtCommand env d Cmd =
     (let scope = byte_at (fw_Payload Cmd) 0; action = byte_at (fw_Payload Cmd) 1;
          send = (\<lambda>mid. if \<not> ue_fcn_ok env then (d, False, [])
                        else (d, transmit (ue_tx_ok env) (Command mid (Some RESET_COUNTERS_CC) [])))
      in if fw_PayloadLength Cmd < 6 then (d, False, [])
         else if action \<noteq> 0 then (d, False, [])
         else if scope = COUNTER_SCOPE_UPLINK
         then (d\<lparr> u_CmdCounter := 0, u_ErrCounter := 0 \<rparr>, True, [])
         else if scope = COUNTER_SCOPE_MAVLINK_BRIDGE then send MAVLINK_BRIDGE_CMD_MID
         else if scope = COUNTER_SCOPE_CFS_CORE then send CFS_CORE_CMD_MID
         else if scope = COUNTER_SCOPE_LORA_TDM then send LORA_TDM_CMD_MID
         else (d, False, []))"

definition flight_mode_ctrl_bytes :: "FLIGHT_MODE_CTRL_CMD \<Rightarrow> u8 list" where
  "flight_mode_ctrl_bytes c =
     put_u16 (fm_SourceSequence c) @ [fm_FlightMode c, fm_WaypointStartIndex c]"

definition UPLINK_APP_ForwardFlightModeCommand ::
    "uplink_env \<Rightarrow> UPLINK_APP_Data \<Rightarrow> UPLINK_FWD_CMD \<Rightarrow> UPLINK_APP_FlightModePayload
       \<Rightarrow> UPLINK_APP_Data \<times> bool \<times> out list" where
  "UPLINK_APP_ForwardFlightModeCommand env d Cmd p =
     (if \<not> ue_fcn_ok env then (d, False, [])
      else let c = \<lparr> fm_SourceSequence = fw_Sequence Cmd, fm_FlightMode = fp_FlightMode p,
                     fm_WaypointStartIndex = fp_WaypointStartIndex p \<rparr>
           in (d\<lparr> u_FlightModeCtrlCmd := c \<rparr>,
               transmit (ue_tx_ok env)
                 (Command MAVLINK_BRIDGE_CMD_MID (Some SET_FLIGHT_MODE_CC) (flight_mode_ctrl_bytes c))))"

text \<open>The 8-byte header of a configuration payload is the struct the code casts to.\<close>

record ConfigPayloadHdr =
  cp_ConfigScope :: u8
  cp_ConfigVersion :: u8
  cp_ParameterId :: u16
  cp_ValueType :: u8
  cp_ValueLength :: u8
  cp_Checksum :: u16

definition config_hdr :: "u8 list \<Rightarrow> ConfigPayloadHdr" where
  "config_hdr pl = \<lparr> cp_ConfigScope = byte_at pl 0, cp_ConfigVersion = byte_at pl 1,
     cp_ParameterId = get_u16 pl 2, cp_ValueType = byte_at pl 4, cp_ValueLength = byte_at pl 5,
     cp_Checksum = get_u16 pl 6 \<rparr>"

definition UPLINK_APP_ConfigChecksum :: "ConfigPayloadHdr \<Rightarrow> u8 list \<Rightarrow> u8 \<Rightarrow> u16" where
  "UPLINK_APP_ConfigChecksum h vb n =
     foldl (\<lambda>s i. s + ucast (byte_at vb i))
       (ucast (cp_ConfigScope h) + ucast (cp_ConfigVersion h) + (cp_ParameterId h AND 0xFF)
        + (drop_bit 8 (cp_ParameterId h) AND 0xFF) + ucast (cp_ValueType h)
        + ucast (cp_ValueLength h))
       [0..<unat n]"

definition UPLINK_APP_ForwardConfigCommand ::
    "uplink_env \<Rightarrow> UPLINK_APP_Data \<Rightarrow> UPLINK_FWD_CMD \<Rightarrow> UPLINK_APP_Data \<times> bool \<times> out list" where
  "UPLINK_APP_ForwardConfigCommand env d Cmd =
     (let bad = (d\<lparr> u_ErrCounter := u_ErrCounter d + 1 \<rparr>, False, [Event UP_COMMAND_ERR_EID ERROR]);
          h = config_hdr (fw_Payload Cmd)
      in if fw_PayloadLength Cmd < 8 then bad
         else if cp_ValueLength h \<noteq> 4 \<or> 8 + cp_ValueLength h > fw_PayloadLength Cmd then bad
         else if cp_Checksum h \<noteq>
                 UPLINK_APP_ConfigChecksum h (drop 8 (fw_Payload Cmd)) (cp_ValueLength h) then bad
         else let (ok, os) = transmit (ue_tx_ok env) (ConfigCmd
                    \<lparr> cc_Seq = u_SequenceCounter d + 1, cc_TimestampMs = u_LastRxTimeMs d,
                      cc_SourceSequence = fw_Sequence Cmd, cc_PayloadLength = fw_PayloadLength Cmd,
                      cc_Payload = take (unat (fw_PayloadLength Cmd)) (fw_Payload Cmd) @
                        replicate (196 - unat (fw_PayloadLength Cmd)) 0 \<rparr>)
              in (d\<lparr> u_ConfigPendingState := (if ok then CONFIG_IDLE else CONFIG_REJECTED),
                     u_LastConfigResult := (if ok then 0 else 1) \<rparr>, ok, os))"

section \<open>The command gate\<close>

definition prepend :: "out list \<Rightarrow> 'a \<times> out list \<Rightarrow> 'a \<times> out list" where
  "prepend os r = (fst r, os @ snd r)"

text \<open>The block every rejection of \<^verbatim>\<open>UPLINK_APP_ProcessUplink\<close> repeats: count it, record
  the reason, mark the link degraded, report it and publish the status.\<close>

definition reject_command ::
    "uplink_env \<Rightarrow> UPLINK_APP_Data \<Rightarrow> UPLINK_APP_Result \<Rightarrow> nat \<Rightarrow> UPLINK_APP_Data \<times> out list" where
  "reject_command env d res eid =
     prepend [Event eid ERROR]
       (UPLINK_APP_UpdateStatusTelemetry (ue_tlm_time env) 0
          (d\<lparr> u_ErrCounter := u_ErrCounter d + 1,
              u_RejectedCount := u_RejectedCount d + 1,
              u_LastCommandResult := result_val res,
              u_LinkState := link_val LINK_DEGRADED \<rparr>))"

text \<open>The block of a command that was valid but could not be delivered.\<close>

definition routing_failure ::
    "uplink_env \<Rightarrow> UPLINK_APP_Data \<Rightarrow> UPLINK_APP_Result \<Rightarrow> UPLINK_APP_RouteTarget
       \<Rightarrow> UPLINK_APP_Data \<times> out list" where
  "routing_failure env d res target =
     prepend [Event UP_COMMAND_ERR_EID ERROR]
       (UPLINK_APP_UpdateStatusTelemetry (ue_tlm_time env) 0
          (d\<lparr> u_ErrCounter := u_ErrCounter d + 1,
              u_RoutingFailureCount := u_RoutingFailureCount d + 1,
              u_LastCommandResult := result_val res,
              u_LastRouteTarget := target_val target,
              u_LinkState := link_val LINK_DEGRADED \<rparr>))"

text \<open>The health gate: \<^verbatim>\<open>(blocked, events)\<close>.  HOVER and LAND are exempt, and the force
  flag of the command lets any class through, each with an event.\<close>

definition blocked_by_health :: "u8 \<Rightarrow> UPLINK_FWD_CMD \<Rightarrow> bool" where
  "blocked_by_health State Cmd =
     (let c = fw_CommandClass Cmd in
      if State = 3 then c \<noteq> CLASS_RECOVERY \<and> c \<noteq> CLASS_DIAGNOSTIC
      else if State = 2 then c \<noteq> CLASS_RECOVERY \<and> c \<noteq> CLASS_DIAGNOSTIC
      else if State = 1 then
        c = CLASS_VIEWPOINT \<or> c = CLASS_CONFIG \<or>
        (c = CLASS_FLIGHT_MODE \<and> fw_PayloadLength Cmd \<ge> 1 \<and>
         byte_at (fw_Payload Cmd) 0 = FLIGHT_MODE_WAYPOINT)
      else False)"

definition hover_or_land :: "UPLINK_FWD_CMD \<Rightarrow> bool" where
  "hover_or_land Cmd \<longleftrightarrow> fw_CommandClass Cmd = CLASS_FLIGHT_MODE \<and> fw_PayloadLength Cmd \<ge> 1 \<and>
     (byte_at (fw_Payload Cmd) 0 = FLIGHT_MODE_HOVER \<or> byte_at (fw_Payload Cmd) 0 = FLIGHT_MODE_LAND)"

definition force_flag :: "UPLINK_FWD_CMD \<Rightarrow> bool" where
  "force_flag Cmd \<longleftrightarrow> fw_Flags Cmd AND UPLINK_APP_FORCE_FLAG \<noteq> 0"

definition health_gate :: "u8 \<Rightarrow> UPLINK_FWD_CMD \<Rightarrow> bool \<times> out list" where
  "health_gate State Cmd =
     (let blocked = blocked_by_health State Cmd;
          exempt = blocked \<and> hover_or_land Cmd;
          evs1 = (if exempt then [Event UP_STATE_BLOCK_EID INFORMATION] else []);
          blocked = (blocked \<and> \<not> exempt);
          forced = blocked \<and> force_flag Cmd;
          evs2 = (if forced then [Event UP_STATE_BLOCK_EID INFORMATION] else []);
          blocked = (blocked \<and> \<not> forced)
      in (blocked, evs1 @ evs2))"

definition request_token :: "UPLINK_FWD_CMD \<Rightarrow> u32" where
  "request_token Cmd =
     (let c = fw_CommandClass Cmd; len = fw_PayloadLength Cmd; pl = fw_Payload Cmd in
      if UPLINK_APP_GetClassRequiredLevel c = 3 \<and> len \<ge> 4 then
        (if c = CLASS_RECOVERY \<and> len \<ge> 8 then get_u32 pl 4
         else if c = CLASS_MODE \<and> len \<ge> 6 then get_u32 pl 2
         else if c = CLASS_COUNTER_MGMT \<and> len \<ge> 6 then get_u32 pl 2
         else if c = CLASS_FLIGHT_MODE \<and> len \<ge> 6 then get_u32 pl 2
         else 0)
      else 0)"

text \<open>The common ending of a routed command.\<close>

definition commit_routed ::
    "uplink_env \<Rightarrow> UPLINK_APP_Data \<Rightarrow> UPLINK_FWD_CMD \<Rightarrow> UPLINK_APP_RouteTarget
       \<Rightarrow> UPLINK_APP_Data \<times> out list" where
  "commit_routed env d Cmd target =
     (let d = d\<lparr> u_CmdCounter := u_CmdCounter d + 1,
                 u_AcceptedCount := u_AcceptedCount d + 1,
                 u_LastAcceptedSequence := ucast (fw_Sequence Cmd) \<rparr>;
          saved = UPLINK_APP_SaveState (ue_save env) d;
          d = d\<lparr> u_LastCommandResult := result_val RESULT_ROUTED,
                 u_LastRouteTarget := target_val target,
                 u_LinkState := link_val LINK_NOMINAL \<rparr>
      in prepend (saved @ [Event UP_PUBLISH_EID INFORMATION])
           (UPLINK_APP_UpdateStatusTelemetry (ue_tlm_time env) 0 d))"

definition after_forward ::
    "uplink_env \<Rightarrow> UPLINK_FWD_CMD \<Rightarrow> UPLINK_APP_RouteTarget \<Rightarrow> UPLINK_APP_Data \<times> bool \<times> out list
       \<Rightarrow> UPLINK_APP_Data \<times> out list" where
  "after_forward env Cmd target r =
     (let (d, ok, os) = r in
      prepend os (if ok then commit_routed env d Cmd target
                  else routing_failure env d RESULT_FAILED target))"

definition counter_mgmt_command ::
    "uplink_env \<Rightarrow> UPLINK_APP_Data \<Rightarrow> UPLINK_FWD_CMD \<Rightarrow> UPLINK_APP_RouteTarget
       \<Rightarrow> UPLINK_APP_Data \<times> out list" where
  "counter_mgmt_command env d Cmd target =
     (let (d, ok, os) = UPLINK_APP_ForwardCounterMgmtCommand env d Cmd in
      prepend os
        (if \<not> ok then reject_command env d REJECT_COUNTER UP_COMMAND_ERR_EID
         else if byte_at (fw_Payload Cmd) 0 = COUNTER_SCOPE_UPLINK
         then UPLINK_APP_UpdateStatusTelemetry (ue_tlm_time env) 0
                (d\<lparr> u_RejectedCount := 0, u_DuplicateCount := 0, u_RoutingFailureCount := 0,
                    u_LastCommandResult := result_val RESULT_ROUTED \<rparr>)
         else commit_routed env d Cmd target))"

definition dispatch_class ::
    "uplink_env \<Rightarrow> UPLINK_APP_Data \<Rightarrow> UPLINK_FWD_CMD \<Rightarrow> UPLINK_APP_RouteTarget
       \<Rightarrow> UPLINK_APP_Data \<times> out list" where
  "dispatch_class env d Cmd target =
     (let c = fw_CommandClass Cmd in
      if c = CLASS_ROUTE_UPDATE then
        (case UPLINK_APP_ParseRouteUpdatePayload Cmd of
           None \<Rightarrow> reject_command env d REJECT_ROUTE UP_COMMAND_ERR_EID
         | Some p \<Rightarrow> after_forward env Cmd target (d, UPLINK_APP_PublishRouteUpdate env d Cmd p))
      else if c = CLASS_RECOVERY then
        after_forward env Cmd target (d, UPLINK_APP_ForwardRecoveryCommand env d Cmd)
      else if c = CLASS_VIEWPOINT then
        (case UPLINK_APP_ParseViewpointPayload Cmd of
           None \<Rightarrow> reject_command env d REJECT_VIEWPOINT UP_COMMAND_ERR_EID
         | Some p \<Rightarrow> after_forward env Cmd target (d, UPLINK_APP_ForwardViewpointCommand env d Cmd p))
      else if c = CLASS_CONFIG then
        after_forward env Cmd target (UPLINK_APP_ForwardConfigCommand env d Cmd)
      else if c = CLASS_MODE then
        after_forward env Cmd target (d, UPLINK_APP_ForwardModeCommand env d Cmd)
      else if c = CLASS_DIAGNOSTIC then
        after_forward env Cmd target (d, UPLINK_APP_ForwardDiagnosticCommand env d Cmd)
      else if c = CLASS_COUNTER_MGMT then counter_mgmt_command env d Cmd target
      else if c = CLASS_FLIGHT_MODE then
        (case UPLINK_APP_ParseFlightModePayload Cmd of
           None \<Rightarrow> reject_command env d REJECT_FLIGHT_MODE UP_COMMAND_ERR_EID
         | Some p \<Rightarrow> after_forward env Cmd target (UPLINK_APP_ForwardFlightModeCommand env d Cmd p))
      else commit_routed env d Cmd target)"

text \<open>From the route target to the class: health received, health gate, authorization.\<close>

definition gated_command ::
    "uplink_env \<Rightarrow> UPLINK_APP_Data \<Rightarrow> UPLINK_FWD_CMD \<Rightarrow> UPLINK_APP_Data \<times> out list" where
  "gated_command env d Cmd =
     (let target = UPLINK_APP_ResolveRouteTarget (fw_CommandClass Cmd) in
      if target = ROUTE_NONE then routing_failure env d ROUTE_MISS ROUTE_NONE
      else if u_CfsHealthReceived d = 0 then reject_command env d REJECT_STATE UP_STATE_BLOCK_EID
      else let (blocked, evs) = health_gate (u_CfsHealthState d) Cmd in
        prepend evs
          (if blocked then reject_command env d REJECT_STATE UP_STATE_BLOCK_EID
           else if \<not> UPLINK_APP_IsAuthorized Cmd (request_token Cmd)
           then reject_command env d REJECT_STATE UP_AUTHZ_BLOCK_EID
           else dispatch_class env d Cmd target))"

definition note_arrival :: "uplink_env \<Rightarrow> UPLINK_FWD_CMD \<Rightarrow> UPLINK_APP_Data \<Rightarrow> UPLINK_APP_Data" where
  "note_arrival env Cmd d =
     d\<lparr> u_LastRxTimeMs := GetTimeMs (ue_now env),
        u_LastCommandCode := ucast (fw_CommandClass Cmd),
        u_LastRxSequence := fw_Sequence Cmd \<rparr>"

definition UPLINK_APP_ProcessUplink ::
    "uplink_env \<Rightarrow> UPLINK_FWD_CMD \<Rightarrow> UPLINK_APP_Data \<Rightarrow> UPLINK_APP_Data \<times> out list" where
  "UPLINK_APP_ProcessUplink env Cmd d =
     (let d = note_arrival env Cmd d in
      case UPLINK_APP_CheckSequence d (fw_Sequence Cmd) of
        SEQ_DUPLICATE \<Rightarrow>
          prepend [Event UP_DUPLICATE_EID DEBUG]
            (UPLINK_APP_UpdateStatusTelemetry (ue_tlm_time env) 0
               (d\<lparr> u_DuplicateCount := u_DuplicateCount d + 1,
                   u_LastCommandResult := result_val RESULT_DUPLICATE \<rparr>))
      | SEQ_REPLAY \<Rightarrow> reject_command env d REJECT_SEQUENCE UP_COMMAND_ERR_EID
      | SEQ_NEW \<Rightarrow>
          (case UPLINK_APP_ValidateProxyCommand Cmd of
             Inl res \<Rightarrow> reject_command env d res UP_COMMAND_ERR_EID
           | Inr _ \<Rightarrow> gated_command env d Cmd))"

section \<open>The other commands, the result channel and the dispatcher\<close>

definition UPLINK_APP_Noop :: "UPLINK_APP_Data \<Rightarrow> UPLINK_APP_Data \<times> out list" where
  "UPLINK_APP_Noop d = (d\<lparr> u_CmdCounter := u_CmdCounter d + 1 \<rparr>, [Event UP_NOOP_EID INFORMATION])"

definition UPLINK_APP_ResetCounters :: "UPLINK_APP_Data \<Rightarrow> UPLINK_APP_Data \<times> out list" where
  "UPLINK_APP_ResetCounters d =
     (d\<lparr> u_CmdCounter := 0, u_ErrCounter := 0, u_RejectedCount := 0, u_DuplicateCount := 0,
         u_RoutingFailureCount := 0, u_LastCommandCode := 0,
         u_LastCommandResult := result_val RESULT_NONE,
         u_LastRouteTarget := target_val ROUTE_NONE \<rparr>, [Event UP_RESET_EID INFORMATION])"

definition UPLINK_APP_ProcessExecResult ::
    "uplink_env \<Rightarrow> EXEC_RESULT_TLM \<Rightarrow> UPLINK_APP_Data \<Rightarrow> UPLINK_APP_Data \<times> out list" where
  "UPLINK_APP_ProcessExecResult env Msg d =
     (if er_SourceSequence Msg \<noteq> ucast (u_LastAcceptedSequence d) then (d, [])
      else prepend [Event UP_PUBLISH_EID INFORMATION]
        (UPLINK_APP_UpdateStatusTelemetry (ue_tlm_time env) 0
          (d\<lparr> u_LastCommandResult := result_val
                 (if er_GenericResult Msg = 0 then EXECUTED_OK else EXECUTED_FAILED) \<rparr>)))"

definition UPLINK_APP_ServicePrototype ::
    "sys_time \<Rightarrow> uplink_env \<Rightarrow> UPLINK_APP_Data \<Rightarrow> UPLINK_APP_Data \<times> out list" where
  "UPLINK_APP_ServicePrototype t env d =
     (let (d, os) = UPLINK_APP_CheckBootSurvival t (ue_save env) d;
          NowMs = GetTimeMs (ue_now env)
      in if NowMs - u_LastPublishTimeMs d < UPLINK_APP_PROTOTYPE_PERIOD_MS then (d, os)
         else prepend os (UPLINK_APP_UpdateStatusTelemetry (ue_tlm_time env) NowMs d))"

text \<open>The 204 payload bytes of a PROCESS_UPLINK packet as the struct the handler casts to.\<close>

definition fwd_of_bytes :: "u8 list \<Rightarrow> UPLINK_FWD_CMD" where
  "fwd_of_bytes bs =
     \<lparr> fw_Version = byte_at bs 0, fw_CommandClass = byte_at bs 1, fw_PayloadLength = byte_at bs 2,
       fw_Flags = byte_at bs 3, fw_Sequence = get_u16 bs 4, fw_Checksum = get_u16 bs 6,
       fw_Payload = take 196 (drop 8 bs) \<rparr>"

definition fwd_bytes :: "UPLINK_FWD_CMD \<Rightarrow> u8 list" where
  "fwd_bytes c = [fw_Version c, fw_CommandClass c, fw_PayloadLength c, fw_Flags c] @
     put_u16 (fw_Sequence c) @ put_u16 (fw_Checksum c) @ fw_Payload c"

definition UPLINK_APP_VerifyCmdLength ::
    "nat \<Rightarrow> nat \<Rightarrow> UPLINK_APP_Data \<Rightarrow> bool \<times> UPLINK_APP_Data \<times> out list" where
  "UPLINK_APP_VerifyCmdLength actual expected d =
     (if actual \<noteq> expected
      then (False, d\<lparr> u_ErrCounter := u_ErrCounter d + 1 \<rparr>, [Event UP_COMMAND_ERR_EID ERROR])
      else (True, d, []))"

definition count_error :: "UPLINK_APP_Data \<Rightarrow> UPLINK_APP_Data \<times> out list" where
  "count_error d = (d\<lparr> u_ErrCounter := u_ErrCounter d + 1 \<rparr>, [])"

definition uplink_command ::
    "uplink_env \<Rightarrow> u8 \<Rightarrow> u8 list \<Rightarrow> UPLINK_APP_Data \<Rightarrow> UPLINK_APP_Data \<times> out list" where
  "uplink_command env FcnCode bs d =
     (if FcnCode = UPLINK_APP_NOOP_CC then
        (let (ok, r) = UPLINK_APP_VerifyCmdLength (length bs) 0 d in
         if ok then UPLINK_APP_Noop d else r)
      else if FcnCode = UPLINK_APP_RESET_COUNTERS_CC then
        (let (ok, r) = UPLINK_APP_VerifyCmdLength (length bs) 0 d in
         if ok then UPLINK_APP_ResetCounters d else r)
      else if FcnCode = UPLINK_APP_PROCESS_UPLINK_CC then
        (let (ok, r) = UPLINK_APP_VerifyCmdLength (length bs) 204 d in
         if ok then UPLINK_APP_ProcessUplink env (fwd_of_bytes bs) d else r)
      else (fst (count_error d), [Event UP_COMMAND_ERR_EID ERROR]))"

definition UPLINK_APP_TaskPipe ::
    "uplink_env \<Rightarrow> sb_msg \<Rightarrow> UPLINK_APP_Data \<Rightarrow> UPLINK_APP_Data \<times> out list" where
  "UPLINK_APP_TaskPipe env msg d =
     (case msg of
        Unreadable \<Rightarrow> count_error d
      | SystemHealth h \<Rightarrow>
          (d\<lparr> u_CfsHealthState := sh_HealthState h, u_CfsHealthReceived := 1 \<rparr>, [])
      | BridgeHk h \<Rightarrow>
          (d\<lparr> u_FcMissionResult := bh_LastUploadResult h, u_FcMissionUploadState := 1,
              u_FcMissionUploadSuccessCount := bh_MissionUploadSuccessCount h \<rparr>, [])
      | ExecResult r \<Rightarrow> UPLINK_APP_ProcessExecResult env r d
      | Command mid fcn bs \<Rightarrow>
          if mid = UPLINK_APP_SEND_HK_MID then (d, UPLINK_APP_ReportHousekeeping d)
          else if mid \<noteq> UPLINK_APP_CMD_MID then count_error d
          else (case fcn of None \<Rightarrow> count_error d | Some c \<Rightarrow> uplink_command env c bs d)
      | _ \<Rightarrow> count_error d)"

section \<open>Start-up and the main loop\<close>

definition uplink_initial :: UPLINK_APP_Data where
  "uplink_initial =
     \<lparr> u_CmdCounter = 0, u_ErrCounter = 0, u_RunStatus = APP_RUN, u_SequenceCounter = 0,
       u_PublishCount = 0, u_LastPublishTimeMs = 0, u_LastRxTimeMs = 0, u_AcceptedCount = 0,
       u_RejectedCount = 0, u_DuplicateCount = 0, u_RoutingFailureCount = 0,
       u_LastAcceptedSequence = 0, u_BootCount = 0, u_LastResetReason = 0, u_SurvivedMark = 0,
       u_PrevSurvivedMark = 1, u_ShortBootStreak = 0, u_BootLoopSuspect = 0, u_BootStartMs = 0,
       u_LastCommandCode = 0, u_LastRxSequence = 0, u_LastCommandResult = 0,
       u_LastRouteTarget = 0, u_LinkState = 0, u_Valid = 0, u_ActiveTransportId = 0,
       u_ConfigPendingState = 0, u_LastConfigResult = 0, u_LastRollbackReason = 0,
       u_CfsHealthState = 0, u_CfsHealthReceived = 0, u_FcMissionResult = 0,
       u_FcMissionUploadState = 0, u_FcMissionUploadSuccessCount = 0,
       u_FlightModeCtrlCmd = \<lparr> fm_SourceSequence = 0, fm_FlightMode = 0, fm_WaypointStartIndex = 0 \<rparr> \<rparr>"

text \<open>\<^verbatim>\<open>platform_ok\<close>: every registration, packet initialisation, pipe creation and
  subscription of UPLINK_APP_Init returned CFE_SUCCESS; the first that fails ends Init.\<close>

record uplink_boot =
  ub_platform_ok :: bool
  ub_file :: file_read
  ub_time :: sys_time
  ub_reset_type :: u8
  ub_save1 :: save_outcome
  ub_save2 :: save_outcome

definition UPLINK_APP_Init :: "uplink_boot \<Rightarrow> bool \<times> UPLINK_APP_Data \<times> out list" where
  "UPLINK_APP_Init b =
     (if \<not> ub_platform_ok b then (False, uplink_initial, [])
      else let d = uplink_initial\<lparr> u_Valid := 1 \<rparr>;
               (d, o1) = UPLINK_APP_LoadState (ub_file b) d;
               (d, o2) = UPLINK_APP_IncrementBootCount (ub_save1 b) d;
               (d, o3) = UPLINK_APP_ProcessBootMarker (ub_time b) (ub_reset_type b) (ub_save2 b) d
           in (True, d, o1 @ o2 @ o3 @ [Event UP_STARTUP_EID INFORMATION]))"

text \<open>One turn of the main loop: what CFE_SB_ReceiveBuffer returned.\<close>

datatype uplink_input =
    Received uplink_env sb_msg
  | Time_Out sys_time uplink_env
  | Pipe_Error

fun uplink_turn :: "uplink_input \<Rightarrow> UPLINK_APP_Data \<Rightarrow> UPLINK_APP_Data \<times> out list" where
  "uplink_turn (Received env m) d = UPLINK_APP_TaskPipe env m d"
| "uplink_turn (Time_Out t env) d = UPLINK_APP_ServicePrototype t env d"
| "uplink_turn Pipe_Error d =
     (d\<lparr> u_RunStatus := APP_ERROR \<rparr>, [Event UP_COMMAND_ERR_EID ERROR])"

text \<open>CFE_ES_RunLoop goes on while the status is APP_RUN; the inputs are the finite
  history of what the loop received.\<close>

fun uplink_loop :: "uplink_input list \<Rightarrow> UPLINK_APP_Data \<Rightarrow> UPLINK_APP_Data \<times> out list" where
  "uplink_loop [] d = (d, [])"
| "uplink_loop (i # is) d =
     (if u_RunStatus d \<noteq> APP_RUN then (d, [])
      else let (d', os) = uplink_turn i d in prepend os (uplink_loop is d'))"

definition UPLINK_APP_Main :: "uplink_boot \<Rightarrow> uplink_input list \<Rightarrow> UPLINK_APP_Data \<times> out list" where
  "UPLINK_APP_Main b is =
     (let (ok, d, os) = UPLINK_APP_Init b;
          d = (if ok then d else d\<lparr> u_RunStatus := APP_ERROR \<rparr>)
      in prepend os (uplink_loop is d))"

end
