(* ===== verification/Uplink_Gate.thy ===== *)
theory Uplink_Gate
  imports Uplink
begin

text \<open>
  The command gate of uplink_app: which commands \<^verbatim>\<open>UPLINK_APP_ProcessUplink\<close>
  lets through, stated against the predicate \<^verbatim>\<open>admissible\<close> (freshness, framing,
  checksum, health policy, authority) and \<^verbatim>\<open>payload_accepted\<close>, and what happens to
  the replay state (last accepted sequence and accepted count) on every path.
\<close>

section \<open>What leaves the application\<close>

fun is_status :: "sb_msg \<Rightarrow> bool" where
  "is_status (UplinkStatus t) = True"
| "is_status (UplinkHk t) = True"
| "is_status m = False"

definition forwarded :: "out list \<Rightarrow> sb_msg list" where
  "forwarded os = filter (\<lambda>m. \<not> is_status m) (sent os)"

definition replay_state :: "UPLINK_APP_Data \<Rightarrow> u32 \<times> u32" where
  "replay_state d = (u_LastAcceptedSequence d, u_AcceptedCount d)"

lemma forwarded_simps [simp]:
  "forwarded [] = []"
  "forwarded (Event e t # os) = forwarded os"
  "forwarded (StateFile bs # os) = forwarded os"
  "forwarded (Send m # os) = (if is_status m then forwarded os else m # forwarded os)"
  "forwarded (xs @ ys) = forwarded xs @ forwarded ys"
  by (simp_all add: forwarded_def)

lemma forwarded_SaveState [simp]: "forwarded (UPLINK_APP_SaveState r d) = []"
  by (simp add: UPLINK_APP_SaveState_def forwarded_def)

lemma prepend_simps [simp]:
  "fst (prepend os r) = fst r" "snd (prepend os r) = os @ snd r"
  by (simp_all add: prepend_def)

section \<open>Every block of the handler, once\<close>

lemma status_effect [simp]:
  "replay_state (fst (UPLINK_APP_UpdateStatusTelemetry t n d)) = replay_state d"
  "forwarded (snd (UPLINK_APP_UpdateStatusTelemetry t n d)) = []"
  by (simp_all add: UPLINK_APP_UpdateStatusTelemetry_def Let_def replay_state_def)

lemma reject_effect [simp]:
  "replay_state (fst (reject_command env d r e)) = replay_state d"
  "forwarded (snd (reject_command env d r e)) = []"
  by (simp_all add: reject_command_def) (simp add: replay_state_def)

lemma routing_failure_effect [simp]:
  "replay_state (fst (routing_failure env d r t)) = replay_state d"
  "forwarded (snd (routing_failure env d r t)) = []"
  by (simp_all add: routing_failure_def) (simp add: replay_state_def)

lemma commit_effect [simp]:
  "replay_state (fst (commit_routed env d c t)) = (ucast (fw_Sequence c), u_AcceptedCount d + 1)"
  "forwarded (snd (commit_routed env d c t)) = []"
  by (simp_all add: commit_routed_def Let_def) (simp add: replay_state_def)

lemma health_gate_events [simp]: "forwarded (snd (health_gate s c)) = []"
  by (simp add: health_gate_def Let_def)

lemma replay_state_frame [simp]:
  "replay_state (d\<lparr>u_CmdCounter := x\<rparr>) = replay_state d"
  "replay_state (d\<lparr>u_ErrCounter := x\<rparr>) = replay_state d"
  "replay_state (d\<lparr>u_RejectedCount := y\<rparr>) = replay_state d"
  "replay_state (d\<lparr>u_DuplicateCount := y\<rparr>) = replay_state d"
  "replay_state (d\<lparr>u_RoutingFailureCount := y\<rparr>) = replay_state d"
  "replay_state (d\<lparr>u_LastCommandResult := x\<rparr>) = replay_state d"
  "replay_state (d\<lparr>u_ConfigPendingState := x\<rparr>) = replay_state d"
  "replay_state (d\<lparr>u_LastConfigResult := x\<rparr>) = replay_state d"
  "replay_state (d\<lparr>u_FlightModeCtrlCmd := z\<rparr>) = replay_state d"
  by (simp_all add: replay_state_def)

lemma replay_stateD: "replay_state d' = replay_state d \<Longrightarrow> u_AcceptedCount d' = u_AcceptedCount d"
  by (simp add: replay_state_def)

lemma note_arrival_simps [simp]:
  "u_LastAcceptedSequence (note_arrival env c d) = u_LastAcceptedSequence d"
  "u_AcceptedCount (note_arrival env c d) = u_AcceptedCount d"
  "u_DuplicateCount (note_arrival env c d) = u_DuplicateCount d"
  "u_CfsHealthReceived (note_arrival env c d) = u_CfsHealthReceived d"
  "u_CfsHealthState (note_arrival env c d) = u_CfsHealthState d"
  "replay_state (note_arrival env c d) = replay_state d"
  by (simp_all add: note_arrival_def replay_state_def)

lemma CheckSequence_note_arrival [simp]:
  "UPLINK_APP_CheckSequence (note_arrival env c d) s = UPLINK_APP_CheckSequence d s"
  by (simp add: UPLINK_APP_CheckSequence_def)

section \<open>The requirement\<close>

text \<open>A sequence number is fresh when nothing was accepted yet or it is ahead of the last
  accepted one by less than half the number circle.\<close>

definition fresh :: "UPLINK_APP_Data \<Rightarrow> u16 \<Rightarrow> bool" where
  "fresh d s \<longleftrightarrow> u_AcceptedCount d = 0 \<or>
     (let ahead = unat (s - ucast (u_LastAcceptedSequence d)) in 0 < ahead \<and> ahead < 2 ^ 15)"

definition well_formed :: "UPLINK_FWD_CMD \<Rightarrow> bool" where
  "well_formed c \<longleftrightarrow> fw_Version c = 1 \<and> unat (fw_PayloadLength c) \<le> 196 \<and>
     1 \<le> unat (fw_CommandClass c) \<and> unat (fw_CommandClass c) \<le> 8 \<and>
     (fw_CommandClass c \<in> {CLASS_ROUTE_UPDATE, CLASS_VIEWPOINT} \<longrightarrow> fw_PayloadLength c \<noteq> 0) \<and>
     fw_Checksum c = UPLINK_APP_CRC16 (proxy_crc_buf c)"

text \<open>The vehicle's health permits a command: in RECOVERY and FAILED only RECOVERY and
  DIAGNOSTIC, in DEGRADED all but CONFIG, VIEWPOINT and a change to WAYPOINT flight;
  HOVER, LAND and a command with the force flag always.\<close>

definition health_permits :: "u8 \<Rightarrow> UPLINK_FWD_CMD \<Rightarrow> bool" where
  "health_permits s c \<longleftrightarrow> force_flag c \<or> hover_or_land c \<or>
     (s \<in> {2, 3} \<longrightarrow> fw_CommandClass c \<in> {CLASS_RECOVERY, CLASS_DIAGNOSTIC}) \<and>
     (s = 1 \<longrightarrow> fw_CommandClass c \<notin> {CLASS_CONFIG, CLASS_VIEWPOINT} \<and>
        \<not> (fw_CommandClass c = CLASS_FLIGHT_MODE \<and> fw_PayloadLength c \<noteq> 0 \<and>
           byte_at (fw_Payload c) 0 = FLIGHT_MODE_WAYPOINT))"

text \<open>The authority in the two top bits of the flags suffices: 1 for DIAGNOSTIC, 2 for
  CONFIG, ROUTE_UPDATE and VIEWPOINT, and 3 with a token in the payload for the rest.\<close>

definition authority_permits :: "UPLINK_FWD_CMD \<Rightarrow> bool" where
  "authority_permits c \<longleftrightarrow>
     (if fw_CommandClass c = CLASS_DIAGNOSTIC then auth_level c \<ge> 1
      else if fw_CommandClass c \<in> {CLASS_CONFIG, CLASS_ROUTE_UPDATE, CLASS_VIEWPOINT}
      then auth_level c \<ge> 2
      else auth_level c = 3 \<and>
        (if fw_CommandClass c = CLASS_RECOVERY
         then fw_PayloadLength c \<ge> 8 \<and> get_u32 (fw_Payload c) 4 \<noteq> 0
         else fw_PayloadLength c \<ge> 6 \<and> get_u32 (fw_Payload c) 2 \<noteq> 0))"

definition admissible :: "UPLINK_APP_Data \<Rightarrow> UPLINK_FWD_CMD \<Rightarrow> bool" where
  "admissible d c \<longleftrightarrow> fresh d (fw_Sequence c) \<and> well_formed c \<and> u_CfsHealthReceived d \<noteq> 0 \<and>
     health_permits (u_CfsHealthState d) c \<and> authority_permits c"

definition config_accepted :: "UPLINK_FWD_CMD \<Rightarrow> bool" where
  "config_accepted c \<longleftrightarrow> fw_PayloadLength c \<ge> 12 \<and>
     (let h = config_hdr (fw_Payload c) in cp_ValueLength h = 4 \<and>
      cp_Checksum h = UPLINK_APP_ConfigChecksum h (drop 8 (fw_Payload c)) 4)"

definition payload_accepted :: "UPLINK_FWD_CMD \<Rightarrow> bool" where
  "payload_accepted c \<longleftrightarrow>
     (let k = fw_CommandClass c in
      (k = CLASS_CONFIG \<longrightarrow> config_accepted c) \<and>
      (k = CLASS_ROUTE_UPDATE \<longrightarrow> UPLINK_APP_ParseRouteUpdatePayload c \<noteq> None) \<and>
      (k = CLASS_VIEWPOINT \<longrightarrow> UPLINK_APP_ParseViewpointPayload c \<noteq> None) \<and>
      (k = CLASS_RECOVERY \<longrightarrow> fw_PayloadLength c \<ge> 8) \<and>
      (k = CLASS_MODE \<or> k = CLASS_DIAGNOSTIC \<longrightarrow> fw_PayloadLength c \<ge> 6) \<and>
      (k = CLASS_COUNTER_MGMT \<longrightarrow> fw_PayloadLength c \<ge> 6 \<and> byte_at (fw_Payload c) 1 = 0 \<and>
         byte_at (fw_Payload c) 0 \<in> {COUNTER_SCOPE_MAVLINK_BRIDGE, COUNTER_SCOPE_CFS_CORE,
            COUNTER_SCOPE_UPLINK, COUNTER_SCOPE_LORA_TDM}) \<and>
      (k = CLASS_FLIGHT_MODE \<longrightarrow> UPLINK_APP_ParseFlightModePayload c \<noteq> None))"

definition own_counters :: "UPLINK_FWD_CMD \<Rightarrow> bool" where
  "own_counters c \<longleftrightarrow> fw_CommandClass c = CLASS_COUNTER_MGMT \<and>
     byte_at (fw_Payload c) 0 = COUNTER_SCOPE_UPLINK"

text \<open>What the bus must do for a command to be delivered: take the packet, and for the two
  classes that address an application's command id, take the function code.\<close>

definition bus_delivers :: "uplink_env \<Rightarrow> UPLINK_FWD_CMD \<Rightarrow> bool" where
  "bus_delivers env c \<longleftrightarrow> ue_tx_ok env \<and>
     (fw_CommandClass c \<in> {CLASS_COUNTER_MGMT, CLASS_FLIGHT_MODE} \<longrightarrow> ue_fcn_ok env)"

text \<open>The packet carries the command of class \<^verbatim>\<open>k\<close> and sequence \<^verbatim>\<open>s\<close>.\<close>

fun carries :: "u8 \<Rightarrow> u16 \<Rightarrow> sb_msg \<Rightarrow> bool" where
  "carries k s (ConfigCmd m) = (k = CLASS_CONFIG \<and> cc_SourceSequence m = s)"
| "carries k s (RouteUpdate m) = (k = CLASS_ROUTE_UPDATE \<and> ru_SourceSequence m = ucast s)"
| "carries k s (ViewpointCmd m) = (k = CLASS_VIEWPOINT \<and> vc_SourceSequence m = s)"
| "carries k s (RecoveryCmd m) = (k = CLASS_RECOVERY \<and> rc_SourceSequence m = s)"
| "carries k s (ModeCmd m) = (k = CLASS_MODE \<and> mc_SourceSequence m = s)"
| "carries k s (DiagnosticCmd m) = (k = CLASS_DIAGNOSTIC \<and> dc_SourceSequence m = s)"
| "carries k s (Command mid fcn bs) =
     (k = CLASS_COUNTER_MGMT \<and> fcn = Some RESET_COUNTERS_CC \<and> bs = [] \<and>
        mid \<in> {MAVLINK_BRIDGE_CMD_MID, CFS_CORE_CMD_MID, LORA_TDM_CMD_MID} \<or>
      k = CLASS_FLIGHT_MODE \<and> fcn = Some SET_FLIGHT_MODE_CC \<and> mid = MAVLINK_BRIDGE_CMD_MID \<and>
        take 2 bs = put_u16 s)"
| "carries k s m = False"

section \<open>The code meets it\<close>

lemma CheckSequence_new: "UPLINK_APP_CheckSequence d s = SEQ_NEW \<longleftrightarrow> fresh d s"
  by (auto simp: UPLINK_APP_CheckSequence_def fresh_def Let_def word_less_nat_alt
      unat_gt_0 diff_eq_eq)

lemma class_values:
  "(c :: u8) \<in> {1, 2, 3, 4, 5, 6, 7, 8} \<longleftrightarrow> 1 \<le> unat c \<and> unat c \<le> 8"
proof
  assume "1 \<le> unat c \<and> unat c \<le> 8"
  then have "unat c \<in> {1, 2, 3, 4, 5, 6, 7, 8}" by auto
  then show "c \<in> {1, 2, 3, 4, 5, 6, 7, 8}"
    by (auto dest!: word_unat_eq_iff[THEN iffD2, rotated] simp: word_unat_eq_iff)
qed auto

lemma Validate_ok: "UPLINK_APP_ValidateProxyCommand c = Inr () \<longleftrightarrow> well_formed c"
  unfolding UPLINK_APP_ValidateProxyCommand_def well_formed_def UPLINK_APP_ComputeProxyCrc_def
    class_values by auto

lemma ResolveRouteTarget_none: "well_formed c \<Longrightarrow> UPLINK_APP_ResolveRouteTarget (fw_CommandClass c) \<noteq> ROUTE_NONE"
  unfolding well_formed_def UPLINK_APP_ResolveRouteTarget_def
  using class_values[of "fw_CommandClass c"] by auto

lemma one_le_word: "1 \<le> (x :: 'a::len word) \<longleftrightarrow> x \<noteq> 0"
  using word_less_1[of x] by (simp add: linorder_not_less[symmetric])

lemma health_gate_ok: "\<not> fst (health_gate s c) \<longleftrightarrow> health_permits s c"
  by (auto simp: health_gate_def health_permits_def blocked_by_health_def hover_or_land_def Let_def
      one_le_word)

lemma auth_level_le: "auth_level c \<le> 3"
  by (simp add: auth_level_def word_and_le1)

lemma IsAuthorized_ok:
  assumes "well_formed c"
  shows "UPLINK_APP_IsAuthorized c (request_token c) \<longleftrightarrow> authority_permits c"
proof -
  have "fw_CommandClass c \<in> {1, 2, 3, 4, 5, 6, 7, 8}"
    using assms unfolding well_formed_def class_values by blast
  moreover have "\<not> auth_level c < 3 \<longleftrightarrow> auth_level c = 3"
    using auth_level_le[of c] by auto
  moreover have "fw_PayloadLength c \<ge> 6 \<Longrightarrow> fw_PayloadLength c \<ge> 4"
    "fw_PayloadLength c \<ge> 8 \<Longrightarrow> fw_PayloadLength c \<ge> 4"
    by (auto simp: word_le_nat_alt)
  ultimately show ?thesis
    by (auto simp: UPLINK_APP_IsAuthorized_def request_token_def authority_permits_def
        UPLINK_APP_GetClassRequiredLevel_def Let_def linorder_not_less)
qed

text \<open>What delivering a command to its application does to the replay state and the bus.\<close>

definition delivered :: "UPLINK_FWD_CMD \<Rightarrow> UPLINK_APP_Data \<Rightarrow> UPLINK_APP_Data \<times> out list \<Rightarrow> bool" where
  "delivered c d r \<longleftrightarrow>
     (\<exists>m. forwarded (snd r) = [m] \<and> carries (fw_CommandClass c) (fw_Sequence c) m) \<and>
     replay_state (fst r) = (ucast (fw_Sequence c), u_AcceptedCount d + 1)"

definition withheld :: "UPLINK_APP_Data \<Rightarrow> UPLINK_APP_Data \<times> out list \<Rightarrow> bool" where
  "withheld d r \<longleftrightarrow> forwarded (snd r) = [] \<and> replay_state (fst r) = replay_state d"

lemma delivered_prepend [simp]:
  "forwarded os = [] \<Longrightarrow> delivered c d (prepend os r) = delivered c d r"
  "forwarded os = [] \<Longrightarrow> withheld d (prepend os r) = withheld d r"
  by (simp_all add: delivered_def withheld_def)

lemma withheld_blocks [simp]:
  "replay_state d' = replay_state d \<Longrightarrow> withheld d (reject_command env d' r e)"
  "replay_state d' = replay_state d \<Longrightarrow> withheld d (routing_failure env d' r t)"
  by (simp_all add: withheld_def)

lemma withheld_status [simp]:
  "replay_state d' = replay_state d \<Longrightarrow> withheld d (UPLINK_APP_UpdateStatusTelemetry t n d')"
  by (simp add: withheld_def)

lemma after_forward_plain:
  assumes "carries (fw_CommandClass c) (fw_Sequence c) m" "\<not> is_status m"
    "replay_state d' = replay_state d"
  shows "ok \<Longrightarrow> delivered c d (after_forward env c t (d', transmit ok m))"
    and "\<not> ok \<Longrightarrow> withheld d (after_forward env c t (d', transmit ok m))"
  using assms by (auto simp: after_forward_def transmit_def delivered_def withheld_def
      dest: replay_stateD)

lemma after_forward_refused:
  assumes "forwarded os = []" "replay_state d' = replay_state d"
  shows "withheld d (after_forward env c t (d', False, os))"
  using assms by (auto simp: after_forward_def withheld_def)

lemma dispatch_class_delivers:
  assumes "well_formed c" "\<not> own_counters c"
  shows "payload_accepted c \<and> bus_delivers env c \<Longrightarrow> delivered c d (dispatch_class env d c t)"
    and "\<not> (payload_accepted c \<and> bus_delivers env c) \<Longrightarrow> withheld d (dispatch_class env d c t)"
proof -
  let ?k = "fw_CommandClass c"
  let ?P = "payload_accepted c \<and> bus_delivers env c"
  let ?R = "(?P \<longrightarrow> delivered c d (dispatch_class env d c t)) \<and>
            (\<not> ?P \<longrightarrow> withheld d (dispatch_class env d c t))"
  have "?k \<in> {1, 2, 3, 4, 5, 6, 7, 8}"
    using assms(1) unfolding well_formed_def class_values by blast
  then consider "?k = 1" | "?k = 2" | "?k = 3" | "?k = 4" | "?k = 5" | "?k = 6" | "?k = 7" | "?k = 8"
    by blast
  then have ?R
  proof cases
    case 1
    have "12 \<le> fw_PayloadLength c \<Longrightarrow> \<not> fw_PayloadLength c < 8"
      by (auto simp: word_le_nat_alt word_less_nat_alt)
    with 1 show ?thesis
      by (auto simp: dispatch_class_def payload_accepted_def bus_delivers_def config_accepted_def
          UPLINK_APP_ForwardConfigCommand_def Let_def linorder_not_less
          transmit_def after_forward_def delivered_def withheld_def)
  next
    case 2
    then show ?thesis
      by (auto simp: dispatch_class_def payload_accepted_def bus_delivers_def
          UPLINK_APP_PublishRouteUpdate_def split: option.splits intro!: after_forward_plain)
  next
    case 3
    then show ?thesis
      by (auto simp: dispatch_class_def payload_accepted_def bus_delivers_def
          UPLINK_APP_ForwardViewpointCommand_def split: option.splits intro!: after_forward_plain)
  next
    case 4
    then show ?thesis
      by (auto simp: dispatch_class_def payload_accepted_def bus_delivers_def Let_def linorder_not_less
          UPLINK_APP_ForwardRecoveryCommand_def intro!: after_forward_plain after_forward_refused)
  next
    case 5
    then show ?thesis
      by (auto simp: dispatch_class_def payload_accepted_def bus_delivers_def Let_def linorder_not_less
          UPLINK_APP_ForwardModeCommand_def intro!: after_forward_plain after_forward_refused)
  next
    case 6
    then show ?thesis
      by (auto simp: dispatch_class_def payload_accepted_def bus_delivers_def Let_def linorder_not_less
          UPLINK_APP_ForwardDiagnosticCommand_def intro!: after_forward_plain after_forward_refused)
  next
    case 7
    then show ?thesis
      using assms(2)
      by (auto simp: dispatch_class_def counter_mgmt_command_def payload_accepted_def bus_delivers_def
          own_counters_def UPLINK_APP_ForwardCounterMgmtCommand_def Let_def linorder_not_less
          transmit_def delivered_def withheld_def)
  next
    case 8
    then show ?thesis
      by (auto simp: dispatch_class_def payload_accepted_def bus_delivers_def Let_def
          UPLINK_APP_ForwardFlightModeCommand_def flight_mode_ctrl_bytes_def
          split: option.splits intro!: after_forward_plain after_forward_refused)
  qed
  then show "?P \<Longrightarrow> delivered c d (dispatch_class env d c t)"
    and "\<not> ?P \<Longrightarrow> withheld d (dispatch_class env d c t)" by blast+
qed

lemma gated_command_eq:
  assumes "well_formed c" "u_CfsHealthReceived d \<noteq> 0" "health_permits (u_CfsHealthState d) c"
    "authority_permits c"
  shows "gated_command env d c = prepend (snd (health_gate (u_CfsHealthState d) c))
           (dispatch_class env d c (UPLINK_APP_ResolveRouteTarget (fw_CommandClass c)))"
  using assms ResolveRouteTarget_none[OF assms(1)] IsAuthorized_ok[OF assms(1)]
    health_gate_ok[of "u_CfsHealthState d" c]
  by (auto simp: gated_command_def Let_def split: prod.splits)

lemma gated_command_withheld:
  assumes "well_formed c" "\<not> (u_CfsHealthReceived d \<noteq> 0 \<and>
     health_permits (u_CfsHealthState d) c \<and> authority_permits c)"
  shows "withheld d (gated_command env d c)"
  using assms ResolveRouteTarget_none[OF assms(1)] IsAuthorized_ok[OF assms(1)]
    health_gate_ok[of "u_CfsHealthState d" c]
  by (auto simp: gated_command_def Let_def case_prod_unfold)

text \<open>The handler as a whole.  The counter reset of uplink_app itself is the one admitted
  command that goes to no other application.\<close>

lemma ProcessUplink_admissible:
  assumes "admissible d c"
  shows "UPLINK_APP_ProcessUplink env c d =
     prepend (snd (health_gate (u_CfsHealthState d) c))
       (dispatch_class env (note_arrival env c d) c (UPLINK_APP_ResolveRouteTarget (fw_CommandClass c)))"
proof -
  have "UPLINK_APP_CheckSequence d (fw_Sequence c) = SEQ_NEW"
    "UPLINK_APP_ValidateProxyCommand c = Inr ()"
    using assms by (auto simp: admissible_def CheckSequence_new Validate_ok)
  then show ?thesis
    using assms by (simp add: UPLINK_APP_ProcessUplink_def Let_def admissible_def gated_command_eq)
qed

lemma withheld_note_arrival [simp]: "withheld (note_arrival env c d) r = withheld d r"
  by (simp add: withheld_def)

lemma delivered_note_arrival [simp]: "delivered c (note_arrival env c' d) r = delivered c d r"
  by (simp add: delivered_def)

lemma ProcessUplink_not_admissible:
  assumes "\<not> admissible d c"
  shows "withheld d (UPLINK_APP_ProcessUplink env c d)"
proof (cases "UPLINK_APP_CheckSequence d (fw_Sequence c)")
  case SEQ_NEW
  show ?thesis
  proof (cases "UPLINK_APP_ValidateProxyCommand c")
    case (Inl a)
    have "withheld (note_arrival env c d) (reject_command env (note_arrival env c d) a UP_COMMAND_ERR_EID)"
      by simp
    then show ?thesis using SEQ_NEW Inl by (simp add: UPLINK_APP_ProcessUplink_def Let_def)
  next
    case (Inr u)
    then have wf: "well_formed c" using Validate_ok by simp
    have "withheld (note_arrival env c d) (gated_command env (note_arrival env c d) c)"
      using assms SEQ_NEW wf by (intro gated_command_withheld) (auto simp: admissible_def CheckSequence_new)
    then show ?thesis using SEQ_NEW Inr by (simp add: UPLINK_APP_ProcessUplink_def Let_def)
  qed
next
  case SEQ_DUPLICATE
  then show ?thesis by (simp add: UPLINK_APP_ProcessUplink_def Let_def)
next
  case SEQ_REPLAY
  have "withheld (note_arrival env c d)
      (reject_command env (note_arrival env c d) REJECT_SEQUENCE UP_COMMAND_ERR_EID)"
    by simp
  then show ?thesis using SEQ_REPLAY by (simp add: UPLINK_APP_ProcessUplink_def Let_def)
qed

lemma own_counters_withheld:
  assumes "own_counters c"
  shows "withheld d (dispatch_class env d c t)"
proof -
  have "replay_state (fst (UPLINK_APP_ForwardCounterMgmtCommand env d c)) = replay_state d"
    "forwarded (snd (snd (UPLINK_APP_ForwardCounterMgmtCommand env d c))) = []"
    using assms by (auto simp: own_counters_def UPLINK_APP_ForwardCounterMgmtCommand_def Let_def)
  then show ?thesis
    using assms
    by (auto simp: own_counters_def dispatch_class_def counter_mgmt_command_def case_prod_unfold Let_def)
qed

lemma ProcessUplink_delivers:
  assumes "admissible d c" "payload_accepted c" "bus_delivers env c" "\<not> own_counters c"
  shows "delivered c d (UPLINK_APP_ProcessUplink env c d)"
proof -
  have "well_formed c" using assms by (simp add: admissible_def)
  from dispatch_class_delivers(1)[OF this assms(4), of env "note_arrival env c d"]
  show ?thesis using assms by (simp add: ProcessUplink_admissible)
qed

lemma ProcessUplink_withholds:
  assumes "\<not> (admissible d c \<and> payload_accepted c \<and> bus_delivers env c \<and> \<not> own_counters c)"
  shows "withheld d (UPLINK_APP_ProcessUplink env c d)"
proof (cases "admissible d c")
  case True
  then have "well_formed c" by (simp add: admissible_def)
  from dispatch_class_delivers(2)[OF this, of env "note_arrival env c d"]
  have "withheld (note_arrival env c d) (dispatch_class env (note_arrival env c d) c
      (UPLINK_APP_ResolveRouteTarget (fw_CommandClass c)))"
    using assms True own_counters_withheld by blast
  then show ?thesis using True by (simp add: ProcessUplink_admissible)
qed (rule ProcessUplink_not_admissible)

end
