(* ===== verification/Acceptor.thy ===== *)
theory Acceptor
  imports Prelude
begin

text \<open>
  Two components of the program refuse messages by their sequence number: uplink_app
  (a window on a 16-bit circle) and the state cache of cfs_core_app (an order on 32
  bits).  Both keep the last number they took and take a new one only if it is ahead of
  it.  The locale states that contract; its lemma says that the numbers taken along any
  history form a chain of the relation \<^verbatim>\<open>ahead\<close>.  \<^verbatim>\<open>live n s\<close>: the state
  has taken something before and can go on for \<^verbatim>\<open>n\<close> more steps (a counter that the
  contract rests on does not wrap).
\<close>

fun taken :: "('i \<Rightarrow> 's \<Rightarrow> 's) \<Rightarrow> ('i \<Rightarrow> 's \<Rightarrow> 'k option) \<Rightarrow> 'i list \<Rightarrow> 's \<Rightarrow> 'k list" where
  "taken step took [] s = []"
| "taken step took (i # is) s =
     (case took i s of None \<Rightarrow> taken step took is (step i s)
      | Some k \<Rightarrow> k # taken step took is (step i s))"

lemma taken_append: "taken step took (is @ js) s = taken step took is s @ taken step took js (fold step is s)"
  by (induction "is" arbitrary: s) (auto split: option.splits)

text \<open>An entry of the list was made by one step, and those before it by the steps before.\<close>

lemma taken_split:
  "taken step took is s = xs @ k # ys \<Longrightarrow>
     \<exists>pre i post. is = pre @ i # post \<and> taken step took pre s = xs \<and>
       took i (fold step pre s) = Some k"
proof (induction "is" arbitrary: s xs)
  case (Cons j "is")
  show ?case
  proof (cases "took j s")
    case None
    then have "taken step took is (step j s) = xs @ k # ys" using Cons.prems by simp
    from Cons.IH[OF this] obtain pre i post where "is = pre @ i # post"
      "taken step took pre (step j s) = xs" "took i (fold step pre (step j s)) = Some k" by blast
    then show ?thesis using None by (intro exI[of _ "j # pre"] exI[of _ i] exI[of _ post]) simp
  next
    case (Some x)
    show ?thesis
    proof (cases xs)
      case Nil
      then show ?thesis using Some Cons.prems by (intro exI[of _ "[]"]) simp
    next
      case (Cons x' xs')
      then have "x' = x" "taken step took is (step j s) = xs' @ k # ys" using Some Cons.prems by auto
      moreover from Cons.IH[OF this(2)] obtain pre i post where "is = pre @ i # post"
        "taken step took pre (step j s) = xs'" "took i (fold step pre (step j s)) = Some k" by blast
      ultimately show ?thesis using Some Cons by (intro exI[of _ "j # pre"] exI[of _ i] exI[of _ post]) simp
    qed
  qed
qed simp

locale acceptor =
  fixes step :: "'i \<Rightarrow> 's \<Rightarrow> 's"
    and took :: "'i \<Rightarrow> 's \<Rightarrow> 'k option"
    and last :: "'s \<Rightarrow> 'k"
    and ahead :: "'k \<Rightarrow> 'k \<Rightarrow> bool"
    and live :: "nat \<Rightarrow> 's \<Rightarrow> bool"
  assumes takes: "live (Suc n) s \<Longrightarrow> took i s = Some k \<Longrightarrow> ahead (last s) k \<and> last (step i s) = k"
    and refuses: "live (Suc n) s \<Longrightarrow> took i s = None \<Longrightarrow> last (step i s) = last s"
    and stays_live: "live (Suc n) s \<Longrightarrow> live n (step i s)"
begin

lemma taken_chain: "live (length is) s \<Longrightarrow> successively ahead (last s # taken step took is s)"
proof (induction "is" arbitrary: s)
  case (Cons i "is")
  then have l: "live (Suc (length is)) s" by simp
  then have IH: "successively ahead (last (step i s) # taken step took is (step i s))"
    using Cons.IH stays_live by blast
  show ?case
    using takes[OF l, of i] refuses[OF l, of i] IH by (cases "took i s") auto
qed simp

end

section \<open>The window on the circle of 16-bit numbers\<close>

definition window_ahead :: "u16 \<Rightarrow> u16 \<Rightarrow> bool" where
  "window_ahead a b \<longleftrightarrow> 0 < unat (b - a) \<and> unat (b - a) < 2 ^ 15"

fun advance :: "u16 \<Rightarrow> u16 list \<Rightarrow> nat" where
  "advance a [] = 0"
| "advance a (b # bs) = unat (b - a) + advance b bs"

lemma unat_diff_chain:
  fixes a b c :: u16
  assumes "unat (c - b) + unat (b - a) < 2 ^ 16"
  shows "unat (c - a) = unat (c - b) + unat (b - a)"
proof -
  have "c - a = (c - b) + (b - a)" by simp
  moreover have "unat ((c - b) + (b - a)) = unat (c - b) + unat (b - a)"
    using assms by (intro unat_add_lem[THEN iffD1]) simp
  ultimately show ?thesis by simp
qed

lemma window_member:
  "successively window_ahead (a # bs) \<Longrightarrow> advance a bs < 2 ^ 16 \<Longrightarrow> x \<in> set bs \<Longrightarrow>
     0 < unat (x - a) \<and> unat (x - a) \<le> advance a bs"
proof (induction bs arbitrary: a)
  case (Cons b bs)
  show ?case
  proof (cases "x \<in> set bs")
    case True
    have "successively window_ahead (b # bs)" "advance b bs < 2 ^ 16"
      using Cons.prems by auto
    from Cons.IH[OF this True] have x: "0 < unat (x - b)" "unat (x - b) \<le> advance b bs" by auto
    then have "unat (x - b) + unat (b - a) < 2 ^ 16" using Cons.prems by auto
    from unat_diff_chain[OF this] x show ?thesis by auto
  next
    case False
    then show ?thesis using Cons.prems by (auto simp: window_ahead_def)
  qed
qed simp

lemma window_chain_distinct:
  "successively window_ahead (a # bs) \<Longrightarrow> advance a bs < 2 ^ 16 \<Longrightarrow> distinct (a # bs)"
proof (induction bs arbitrary: a)
  case (Cons b bs)
  then have "distinct (b # bs)" by auto
  moreover have "a \<notin> set (b # bs)"
    using window_member[OF Cons.prems, of a] by auto
  ultimately show ?case by simp
qed simp

end
