(* ===== verification/Uplink_Replay.thy ===== *)
theory Uplink_Replay
  imports Uplink_Gate Acceptor
begin

text \<open>
  Properties of the gate of uplink_app: exactly which commands reach the vehicle, the
  answer every command gets, the replay window over whole histories of the main loop,
  the retransmission slots of the ground station, and the detection of corrupted frames.
\<close>

section \<open>Every turn of the main loop\<close>

text \<open>The packet lora_tdm_app builds is the command uplink_app reads.\<close>

lemma fwd_of_bytes_fwd_bytes:
  "length (fw_Payload c) = 196 \<Longrightarrow> fwd_of_bytes (fwd_bytes c) = c"
  by (cases c) (simp add: fwd_of_bytes_def fwd_bytes_def get_u16_append2)

lemma withheld_pair: "withheld d (d', os) \<longleftrightarrow> forwarded os = [] \<and> replay_state d' = replay_state d"
  by (simp add: withheld_def)

lemma withheld_count_error [simp]: "withheld d (count_error d)"
  by (simp add: count_error_def withheld_pair)

lemma uplink_command_withheld:
  assumes "fcn \<noteq> UPLINK_APP_PROCESS_UPLINK_CC \<or> length bs \<noteq> 204"
  shows "withheld d (uplink_command env fcn bs d)"
  using assms
  by (auto simp: uplink_command_def UPLINK_APP_VerifyCmdLength_def UPLINK_APP_Noop_def count_error_def
      UPLINK_APP_ResetCounters_def withheld_pair replay_state_def)

lemma TaskPipe_withheld:
  assumes "\<nexists>bs. m = Command UPLINK_APP_CMD_MID (Some UPLINK_APP_PROCESS_UPLINK_CC) bs \<and> length bs = 204"
  shows "withheld d (UPLINK_APP_TaskPipe env m d)"
proof (cases m)
  case (Command mid fcn bs)
  then show ?thesis
    using assms uplink_command_withheld
    by (auto simp: UPLINK_APP_TaskPipe_def UPLINK_APP_ReportHousekeeping_def withheld_pair
        split: option.splits)
qed (simp_all add: UPLINK_APP_TaskPipe_def UPLINK_APP_ProcessExecResult_def withheld_pair,
     simp_all add: replay_state_def)

lemma turn_withheld:
  assumes "\<nexists>env bs. i = Received env (Command UPLINK_APP_CMD_MID (Some UPLINK_APP_PROCESS_UPLINK_CC) bs)
     \<and> length bs = 204"
  shows "withheld d (uplink_turn i d)"
proof (cases i)
  case (Received env m)
  then show ?thesis using assms by (auto intro!: TaskPipe_withheld)
next
  case (Time_Out t env)
  have "withheld d (UPLINK_APP_CheckBootSurvival t (ue_save env) d)"
    by (simp add: UPLINK_APP_CheckBootSurvival_def Let_def withheld_pair) (simp add: replay_state_def)
  then show ?thesis
    by (auto simp: Time_Out UPLINK_APP_ServicePrototype_def Let_def case_prod_unfold withheld_def)
next
  case Pipe_Error
  then show ?thesis by (simp add: withheld_pair replay_state_def)
qed

lemma turn_ProcessUplink:
  "length bs = 204 \<Longrightarrow>
   uplink_turn (Received env (Command UPLINK_APP_CMD_MID (Some UPLINK_APP_PROCESS_UPLINK_CC) bs)) d =
     UPLINK_APP_ProcessUplink env (fwd_of_bytes bs) d"
  by (simp add: UPLINK_APP_TaskPipe_def uplink_command_def UPLINK_APP_VerifyCmdLength_def)

section \<open>The chain of accepted sequence numbers\<close>

definition turn_step :: "uplink_input \<Rightarrow> UPLINK_APP_Data \<Rightarrow> UPLINK_APP_Data" where
  "turn_step i d = fst (uplink_turn i d)"

text \<open>The sequence number of the command a turn forwarded, if it forwarded one.\<close>

definition turn_took :: "uplink_input \<Rightarrow> UPLINK_APP_Data \<Rightarrow> u16 option" where
  "turn_took i d =
     (if forwarded (snd (uplink_turn i d)) = [] then None
      else case i of Received env (Command mid fcn bs) \<Rightarrow> Some (fw_Sequence (fwd_of_bytes bs))
           | _ \<Rightarrow> None)"

lemma ProcessUplink_cases:
  "delivered c d (UPLINK_APP_ProcessUplink env c d) \<and> admissible d c \<or>
   withheld d (UPLINK_APP_ProcessUplink env c d)"
  using ProcessUplink_delivers ProcessUplink_withholds by blast

lemma withheld_took: "withheld d (uplink_turn i d) \<Longrightarrow> turn_took i d = None"
  by (simp add: turn_took_def withheld_def)

lemma turn_took_cases:
  obtains (None) "turn_took i d = None" "replay_state (turn_step i d) = replay_state d"
  | (Some) k where "turn_took i d = Some k" "fresh d k"
      "replay_state (turn_step i d) = (ucast k, u_AcceptedCount d + 1)"
proof (cases "\<exists>env bs. i = Received env (Command UPLINK_APP_CMD_MID
    (Some UPLINK_APP_PROCESS_UPLINK_CC) bs) \<and> length bs = 204")
  case False
  then have "withheld d (uplink_turn i d)" by (rule turn_withheld)
  then show ?thesis using None withheld_took by (simp add: withheld_def turn_step_def)
next
  case True
  then obtain env bs where i: "i = Received env (Command UPLINK_APP_CMD_MID
      (Some UPLINK_APP_PROCESS_UPLINK_CC) bs)" and l: "length bs = 204" by blast
  let ?c = "fwd_of_bytes bs"
  have eq: "uplink_turn i d = UPLINK_APP_ProcessUplink env ?c d"
    unfolding i using l by (rule turn_ProcessUplink)
  from ProcessUplink_cases[of ?c d env] show ?thesis
  proof
    assume "delivered ?c d (UPLINK_APP_ProcessUplink env ?c d) \<and> admissible d ?c"
    then have "turn_took i d = Some (fw_Sequence ?c)" "fresh d (fw_Sequence ?c)"
      "replay_state (turn_step i d) = (ucast (fw_Sequence ?c), u_AcceptedCount d + 1)"
      unfolding turn_took_def turn_step_def eq
      by (auto simp: delivered_def admissible_def i)
    then show ?thesis by (rule Some)
  next
    assume "withheld d (UPLINK_APP_ProcessUplink env ?c d)"
    then show ?thesis using None withheld_took[of d i] by (simp add: eq withheld_def turn_step_def)
  qed
qed

lemma ucast_u16_u32 [simp]: "(ucast (ucast (k :: u16) :: u32) :: u16) = k"
  by (rule bit_word_eqI) (simp add: bit_ucast_iff)

lemma fresh_window:
  "u_AcceptedCount d \<noteq> 0 \<Longrightarrow> fresh d k \<longleftrightarrow> window_ahead (ucast (u_LastAcceptedSequence d)) k"
  by (simp add: fresh_def window_ahead_def Let_def)

interpretation uplink_acceptor: acceptor turn_step turn_took
  "\<lambda>d. ucast (u_LastAcceptedSequence d)" window_ahead
  "\<lambda>n d. u_AcceptedCount d \<noteq> 0 \<and> unat (u_AcceptedCount d) + n < 2 ^ 32"
proof
  fix n and d :: UPLINK_APP_Data and i k
  assume live: "u_AcceptedCount d \<noteq> 0 \<and> unat (u_AcceptedCount d) + Suc n < 2 ^ 32"
  { assume "turn_took i d = Some k"
    with live show "window_ahead (ucast (u_LastAcceptedSequence d)) k \<and>
        ucast (u_LastAcceptedSequence (turn_step i d)) = k"
      by (cases rule: turn_took_cases[of i d]) (auto simp: fresh_window replay_state_def) }
  { assume "turn_took i d = None"
    then show "ucast (u_LastAcceptedSequence (turn_step i d)) = (ucast (u_LastAcceptedSequence d) :: u16)"
      by (cases rule: turn_took_cases[of i d]) (auto simp: replay_state_def) }
  have "unat (u_AcceptedCount d + 1) = unat (u_AcceptedCount d) + 1"
    using live by (intro unat_add_lem[THEN iffD1, THEN trans]) auto
  then have "u_AcceptedCount d + 1 \<noteq> 0" by (metis Suc_eq_plus1 nat.distinct(1) unat_0)
  then show "u_AcceptedCount (turn_step i d) \<noteq> 0 \<and> unat (u_AcceptedCount (turn_step i d)) + n < 2 ^ 32"
    using live \<open>unat (u_AcceptedCount d + 1) = unat (u_AcceptedCount d) + 1\<close>
    by (cases rule: turn_took_cases[of i d]) (auto simp: replay_state_def)
qed

section \<open>A concrete command\<close>

text \<open>A MODE command with sequence 10, authority 3 and token 1, arriving at an application
  that has accepted sequence 9 and knows a nominal vehicle; and the same frame as a reset of
  uplink_app's own counters.\<close>

definition demo_env :: uplink_env where
  "demo_env = \<lparr> ue_now = \<lparr> Seconds = 50, Subseconds = 0 \<rparr>, ue_tlm_time = \<lparr> Seconds = 50, Subseconds = 0 \<rparr>,
     ue_tx_ok = True, ue_fcn_ok = True, ue_save = Save_Ok \<rparr>"

definition demo_data :: UPLINK_APP_Data where
  "demo_data = uplink_initial\<lparr> u_CfsHealthReceived := 1, u_AcceptedCount := 1,
     u_LastAcceptedSequence := 9 \<rparr>"

definition demo_mode :: UPLINK_FWD_CMD where
  "demo_mode = \<lparr> fw_Version = 1, fw_CommandClass = 5, fw_PayloadLength = 6, fw_Flags = 0xC0,
     fw_Sequence = 10, fw_Checksum = 0xD0CF, fw_Payload = [0, 1, 1, 0, 0, 0] @ replicate 190 0 \<rparr>"

definition demo_reset :: UPLINK_FWD_CMD where
  "demo_reset = \<lparr> fw_Version = 1, fw_CommandClass = 7, fw_PayloadLength = 6, fw_Flags = 0xC0,
     fw_Sequence = 10, fw_Checksum = 0x14CD, fw_Payload = [3, 0, 1, 0, 0, 0] @ replicate 190 0 \<rparr>"

lemmas crc_eval = UPLINK_APP_CRC16_def crc16_byte_fast crc16_fast_def Let_def

lemma demo_admissible: "admissible demo_data demo_mode"
  by (simp add: admissible_def demo_data_def demo_mode_def uplink_initial_def fresh_def
      well_formed_def health_permits_def authority_permits_def auth_level_def
      proxy_crc_buf_def bytes_defs crc_eval)

lemma demo_reset_admissible: "admissible demo_data demo_reset"
  by (simp add: admissible_def demo_data_def demo_reset_def uplink_initial_def fresh_def
      well_formed_def health_permits_def authority_permits_def auth_level_def
      proxy_crc_buf_def bytes_defs crc_eval)

lemma demo_payload: "payload_accepted demo_mode" "bus_delivers demo_env demo_mode" "\<not> own_counters demo_mode"
  "payload_accepted demo_reset" "own_counters demo_reset"
  by (simp_all add: payload_accepted_def demo_mode_def demo_reset_def bus_delivers_def demo_env_def
      own_counters_def)

section \<open>Properties\<close>


text \<open>C2: along any history of turns of the main loop (commands of every kind, telemetry,
  timeouts), once one command was accepted and fewer than 2^32 are, each command forwarded is
  ahead of the previous one by less than half the circle of sequence numbers; while the numbers
  advance by less than one circle in total, no sequence number is forwarded twice.\<close>

theorem uplink_replay_window:
  assumes "u_AcceptedCount d \<noteq> 0" "unat (u_AcceptedCount d) + length is < 2 ^ 32"
  shows "let start = ucast (u_LastAcceptedSequence d); ks = taken turn_step turn_took is d
    in successively window_ahead (start # ks) \<and>
       (advance start ks < 2 ^ 16 \<longrightarrow> distinct (start # ks))"
  using uplink_acceptor.taken_chain[of d "is"] assms window_chain_distinct
  unfolding Let_def by blast

theorem uplink_replay_window_witness:
  "let ks = taken turn_step turn_took
     [Received demo_env (Command UPLINK_APP_CMD_MID (Some 2) (fwd_bytes demo_mode)),
      Received demo_env (Command UPLINK_APP_CMD_MID (Some 2) (fwd_bytes demo_mode))] demo_data
   in successively window_ahead (9 # ks) \<and> (advance 9 ks < 2 ^ 16 \<longrightarrow> distinct (9 # ks))"
  using uplink_replay_window[of demo_data "[Received demo_env (Command UPLINK_APP_CMD_MID (Some 2) (fwd_bytes demo_mode)),
      Received demo_env (Command UPLINK_APP_CMD_MID (Some 2) (fwd_bytes demo_mode))]"]
  by (simp add: demo_data_def uplink_initial_def)

text \<open>The answer to a command: one status packet, sent last, that shows the state after
  the command under the next sequence number.\<close>

definition answered :: "UPLINK_APP_Data \<Rightarrow> UPLINK_APP_Data \<times> out list \<Rightarrow> bool" where
  "answered d r \<longleftrightarrow>
     sent (snd r) = forwarded (snd r) @
       [UplinkStatus (UPLINK_APP_StatusTlm (u_LastPublishTimeMs (fst r)) (fst r))] \<and>
     u_SequenceCounter (fst r) = u_SequenceCounter d + 1 \<and>
     u_LastRxSequence (fst r) = u_LastRxSequence d"

lemma answered_prepend: "sent os = forwarded os \<Longrightarrow> answered d r \<Longrightarrow> answered d (prepend os r)"
  by (simp add: answered_def)

lemma answered_status:
  "u_SequenceCounter d' = u_SequenceCounter d \<Longrightarrow> u_LastRxSequence d' = u_LastRxSequence d \<Longrightarrow>
     answered d (UPLINK_APP_UpdateStatusTelemetry t n d')"
  by (simp add: answered_def UPLINK_APP_UpdateStatusTelemetry_def Let_def)

lemma sent_SaveState [simp]: "sent (UPLINK_APP_SaveState r d) = []"
  by (simp add: UPLINK_APP_SaveState_def)

lemma answered_blocks:
  assumes "u_SequenceCounter d' = u_SequenceCounter d" "u_LastRxSequence d' = u_LastRxSequence d"
  shows "answered d (reject_command env d' r e)" "answered d (routing_failure env d' r t)"
    "answered d (commit_routed env d' c t)"
  using assms by (auto simp: reject_command_def routing_failure_def commit_routed_def Let_def
      intro!: answered_prepend answered_status)

definition keeps_numbers :: "UPLINK_APP_Data \<Rightarrow> UPLINK_APP_Data \<times> bool \<times> out list \<Rightarrow> bool" where
  "keeps_numbers d r \<longleftrightarrow> u_SequenceCounter (fst r) = u_SequenceCounter d \<and>
     u_LastRxSequence (fst r) = u_LastRxSequence d \<and> sent (snd (snd r)) = forwarded (snd (snd r))"

lemma forwarders_keep_numbers:
  "keeps_numbers d (d, UPLINK_APP_PublishRouteUpdate env d c p)"
  "keeps_numbers d (d, UPLINK_APP_ForwardRecoveryCommand env d c)"
  "keeps_numbers d (d, UPLINK_APP_ForwardViewpointCommand env d c q)"
  "keeps_numbers d (d, UPLINK_APP_ForwardModeCommand env d c)"
  "keeps_numbers d (d, UPLINK_APP_ForwardDiagnosticCommand env d c)"
  "keeps_numbers d (UPLINK_APP_ForwardConfigCommand env d c)"
  "keeps_numbers d (UPLINK_APP_ForwardFlightModeCommand env d c f)"
  "keeps_numbers d (UPLINK_APP_ForwardCounterMgmtCommand env d c)"
  by (simp_all add: keeps_numbers_def transmit_def UPLINK_APP_PublishRouteUpdate_def
      UPLINK_APP_ForwardRecoveryCommand_def UPLINK_APP_ForwardViewpointCommand_def
      UPLINK_APP_ForwardModeCommand_def UPLINK_APP_ForwardDiagnosticCommand_def
      UPLINK_APP_ForwardConfigCommand_def UPLINK_APP_ForwardFlightModeCommand_def
      UPLINK_APP_ForwardCounterMgmtCommand_def Let_def)

lemma answered_after_forward: "keeps_numbers d r \<Longrightarrow> answered d (after_forward env c t r)"
  by (auto simp: after_forward_def keeps_numbers_def case_prod_unfold Let_def
      intro!: answered_prepend answered_blocks)

lemma answered_counter_mgmt: "answered d (counter_mgmt_command env d c t)"
  using forwarders_keep_numbers(8)[of d env c]
  by (auto simp: counter_mgmt_command_def keeps_numbers_def case_prod_unfold Let_def
      intro!: answered_prepend answered_blocks answered_status)

lemma answered_dispatch: "answered d (dispatch_class env d c t)"
  by (auto simp: dispatch_class_def Let_def split: option.splits
      intro!: answered_after_forward answered_blocks answered_counter_mgmt forwarders_keep_numbers)

lemma sent_health_gate [simp]: "sent (snd (health_gate s c)) = []"
  by (simp add: health_gate_def Let_def)

lemma answered_gated: "answered d (gated_command env d c)"
  by (auto simp: gated_command_def Let_def case_prod_unfold
      intro!: answered_prepend answered_blocks answered_dispatch)

lemma ProcessUplink_answered: "answered (note_arrival env c d) (UPLINK_APP_ProcessUplink env c d)"
  by (auto simp: UPLINK_APP_ProcessUplink_def Let_def simp del: CheckSequence_note_arrival
      split: UPLINK_APP_SeqCheck.splits sum.splits
      intro!: answered_prepend answered_blocks answered_gated answered_status)

text \<open>C35: every command, whatever becomes of it, is answered by exactly one status packet: it
  is the last packet sent, carries the next packet number and the command's sequence number,
  and shows the result and the last accepted sequence number after the command.\<close>

theorem uplink_always_answers:
  "let r = UPLINK_APP_ProcessUplink env c d in
   \<exists>t. sent (snd r) = forwarded (snd r) @ [UplinkStatus t] \<and>
       us_Seq t = u_SequenceCounter d + 1 \<and>
       us_LastCommandSequence t = fw_Sequence c \<and>
       us_LastCommandResult t = u_LastCommandResult (fst r) \<and>
       us_LastAcceptedSequence t = ucast (u_LastAcceptedSequence (fst r))"
  using ProcessUplink_answered[of env c d]
  by (auto simp: answered_def Let_def note_arrival_def UPLINK_APP_StatusTlm_def)

text \<open>Processing a list of commands, each with the platform's answers.\<close>

fun process_all ::
    "(uplink_env \<times> UPLINK_FWD_CMD) list \<Rightarrow> UPLINK_APP_Data \<Rightarrow> UPLINK_APP_Data \<times> out list" where
  "process_all [] d = (d, [])"
| "process_all ((env, c) # cs) d =
     (let (d', os) = UPLINK_APP_ProcessUplink env c d in prepend os (process_all cs d'))"

lemma duplicate_step:
  assumes "u_AcceptedCount d \<noteq> 0" "ucast (u_LastAcceptedSequence d) = fw_Sequence c"
  shows "forwarded (snd (UPLINK_APP_ProcessUplink env c d)) = []"
    and "u_DuplicateCount (fst (UPLINK_APP_ProcessUplink env c d)) = u_DuplicateCount d + 1"
    and "u_ErrCounter (fst (UPLINK_APP_ProcessUplink env c d)) = u_ErrCounter d"
    and "u_LinkState (fst (UPLINK_APP_ProcessUplink env c d)) = u_LinkState d"
    and "replay_state (fst (UPLINK_APP_ProcessUplink env c d)) = replay_state d"
proof -
  have "UPLINK_APP_CheckSequence d (fw_Sequence c) = SEQ_DUPLICATE"
    using assms by (simp add: UPLINK_APP_CheckSequence_def)
  then have "UPLINK_APP_ProcessUplink env c d = prepend [Event UP_DUPLICATE_EID DEBUG]
      (UPLINK_APP_UpdateStatusTelemetry (ue_tlm_time env) 0
        ((note_arrival env c d)\<lparr> u_DuplicateCount := u_DuplicateCount d + 1,
           u_LastCommandResult := result_val RESULT_DUPLICATE \<rparr>))"
    by (simp add: UPLINK_APP_ProcessUplink_def Let_def)
  then show "forwarded (snd (UPLINK_APP_ProcessUplink env c d)) = []"
    "u_DuplicateCount (fst (UPLINK_APP_ProcessUplink env c d)) = u_DuplicateCount d + 1"
    "u_ErrCounter (fst (UPLINK_APP_ProcessUplink env c d)) = u_ErrCounter d"
    "u_LinkState (fst (UPLINK_APP_ProcessUplink env c d)) = u_LinkState d"
    "replay_state (fst (UPLINK_APP_ProcessUplink env c d)) = replay_state d"
    by (simp_all add: UPLINK_APP_UpdateStatusTelemetry_def Let_def note_arrival_def replay_state_def)
qed

lemma duplicates_run:
  assumes "u_AcceptedCount d \<noteq> 0" "\<forall>(env, c) \<in> set cs. fw_Sequence c = ucast (u_LastAcceptedSequence d)"
  shows "forwarded (snd (process_all cs d)) = [] \<and>
    u_DuplicateCount (fst (process_all cs d)) = u_DuplicateCount d + of_nat (length cs) \<and>
    u_ErrCounter (fst (process_all cs d)) = u_ErrCounter d \<and>
    u_LinkState (fst (process_all cs d)) = u_LinkState d \<and>
    replay_state (fst (process_all cs d)) = replay_state d"
  using assms
proof (induction cs arbitrary: d)
  case (Cons x cs)
  obtain env c where x: "x = (env, c)" by (cases x)
  let ?d = "fst (UPLINK_APP_ProcessUplink env c d)"
  have seq: "ucast (u_LastAcceptedSequence d) = fw_Sequence c" using Cons.prems x by simp
  note step = duplicate_step[OF Cons.prems(1) seq, of env]
  have "u_AcceptedCount ?d \<noteq> 0" "u_LastAcceptedSequence ?d = u_LastAcceptedSequence d"
    using step(5) Cons.prems(1) by (auto simp: replay_state_def)
  then have IH: "forwarded (snd (process_all cs ?d)) = [] \<and>
    u_DuplicateCount (fst (process_all cs ?d)) = u_DuplicateCount ?d + of_nat (length cs) \<and>
    u_ErrCounter (fst (process_all cs ?d)) = u_ErrCounter ?d \<and>
    u_LinkState (fst (process_all cs ?d)) = u_LinkState ?d \<and>
    replay_state (fst (process_all cs ?d)) = replay_state ?d"
    using Cons.prems(2) by (intro Cons.IH) auto
  then show ?case using step by (simp add: x case_prod_unfold Let_def)
qed simp

text \<open>C21: the ground station sends a command in four slots.  Once one slot got through to its
  application, any number of further copies (other retransmission index, other flags, damaged
  or not) forwards nothing, is counted as a duplicate and neither as an error nor against the
  link, and leaves the replay state alone: a command is executed at most once.\<close>

theorem uplink_retransmission_once:
  assumes "forwarded (snd (UPLINK_APP_ProcessUplink env c d)) \<noteq> []"
    and "u_AcceptedCount d + 1 \<noteq> 0"
    and "\<forall>(env', c') \<in> set copies. fw_Sequence c' = fw_Sequence c"
  defines "d1 \<equiv> fst (UPLINK_APP_ProcessUplink env c d)"
  shows "forwarded (snd (process_all copies d1)) = [] \<and>
    u_DuplicateCount (fst (process_all copies d1)) = u_DuplicateCount d1 + of_nat (length copies) \<and>
    u_ErrCounter (fst (process_all copies d1)) = u_ErrCounter d1 \<and>
    u_LinkState (fst (process_all copies d1)) = u_LinkState d1 \<and>
    replay_state (fst (process_all copies d1)) = replay_state d1"
proof -
  have "replay_state d1 = (ucast (fw_Sequence c), u_AcceptedCount d + 1)"
    using assms(1) ProcessUplink_cases[of c d env] by (auto simp: delivered_def withheld_def d1_def)
  then show ?thesis using assms(2,3) by (intro duplicates_run) (auto simp: replay_state_def)
qed

theorem uplink_retransmission_once_witness:
  "let d1 = fst (UPLINK_APP_ProcessUplink demo_env demo_mode demo_data);
       copies = replicate 3 (demo_env, demo_mode\<lparr> fw_Flags := 0xC2 \<rparr>)
   in forwarded (snd (process_all copies d1)) = [] \<and>
      u_DuplicateCount (fst (process_all copies d1)) = u_DuplicateCount d1 + 3"
  using uplink_retransmission_once[of demo_env demo_mode demo_data
      "replicate 3 (demo_env, demo_mode\<lparr> fw_Flags := 0xC2 \<rparr>)"]
    ProcessUplink_delivers[OF demo_admissible demo_payload(1-3)]
  by (simp add: delivered_def) (force simp: demo_data_def uplink_initial_def Let_def)

text \<open>The reset of uplink_app's own counters is executed without being entered into the
  replay state: after it the same frame is still admissible, so each of its retransmission
  slots, and any later replay of it, resets the counters again.\<close>

lemma uplink_own_reset_repeats:
  fixes env :: uplink_env
  assumes "admissible d c" "payload_accepted c" "own_counters c"
  defines "d1 \<equiv> fst (UPLINK_APP_ProcessUplink env c d)"
  shows "admissible d1 c \<and> replay_state d1 = replay_state d \<and>
    u_LastCommandResult d1 = result_val RESULT_ROUTED \<and>
    u_CmdCounter d1 = 0 \<and> u_ErrCounter d1 = 0 \<and> u_RejectedCount d1 = 0 \<and> u_DuplicateCount d1 = 0"
proof -
  have k: "fw_CommandClass c = CLASS_COUNTER_MGMT" "byte_at (fw_Payload c) 0 = COUNTER_SCOPE_UPLINK"
    using assms(3) by (simp_all add: own_counters_def)
  have p: "\<not> fw_PayloadLength c < 6" "byte_at (fw_Payload c) 1 = 0"
    using assms(2) k by (auto simp: payload_accepted_def linorder_not_less)
  have d1: "d1 = fst (UPLINK_APP_UpdateStatusTelemetry (ue_tlm_time env) 0
      ((note_arrival env c d)\<lparr> u_CmdCounter := 0, u_ErrCounter := 0, u_RejectedCount := 0,
         u_DuplicateCount := 0, u_RoutingFailureCount := 0,
         u_LastCommandResult := result_val RESULT_ROUTED \<rparr>))"
    using p k by (simp add: d1_def ProcessUplink_admissible[OF assms(1)] dispatch_class_def
        counter_mgmt_command_def UPLINK_APP_ForwardCounterMgmtCommand_def Let_def)
  have same: "replay_state d1 = replay_state d" "u_CfsHealthReceived d1 = u_CfsHealthReceived d"
    "u_CfsHealthState d1 = u_CfsHealthState d"
    unfolding d1 by (simp_all add: UPLINK_APP_UpdateStatusTelemetry_def Let_def note_arrival_def
        replay_state_def)
  have "fresh d1 (fw_Sequence c) = fresh d (fw_Sequence c)"
    using same(1) by (simp add: fresh_def replay_state_def)
  then have "admissible d1 c" using assms(1) same by (simp add: admissible_def)
  then show ?thesis using same(1)
    unfolding d1 by (simp add: UPLINK_APP_UpdateStatusTelemetry_def Let_def)
qed

lemma uplink_own_reset_repeats_witness:
  "let d1 = fst (UPLINK_APP_ProcessUplink demo_env demo_reset demo_data) in
   admissible d1 demo_reset \<and> u_LastCommandResult d1 = 3"
  using uplink_own_reset_repeats[OF demo_reset_admissible demo_payload(4,5), of demo_env]
  by (simp add: Let_def)

text \<open>Nothing but an admissible PROCESS_UPLINK command moves the replay state: not the
  local counter reset, no telemetry, no result report, no timeout, no malformed packet.\<close>

lemma uplink_replay_state_guarded:
  assumes "replay_state (fst (uplink_turn i d)) \<noteq> replay_state d"
  shows "\<exists>env bs. i = Received env (Command UPLINK_APP_CMD_MID (Some UPLINK_APP_PROCESS_UPLINK_CC) bs) \<and>
     length bs = 204 \<and> admissible d (fwd_of_bytes bs) \<and> payload_accepted (fwd_of_bytes bs) \<and>
     bus_delivers env (fwd_of_bytes bs) \<and> \<not> own_counters (fwd_of_bytes bs)"
proof (rule ccontr)
  assume no: "\<not> ?thesis"
  have "withheld d (uplink_turn i d)"
  proof (cases "\<exists>env bs. i = Received env (Command UPLINK_APP_CMD_MID
      (Some UPLINK_APP_PROCESS_UPLINK_CC) bs) \<and> length bs = 204")
    case True
    then show ?thesis using no ProcessUplink_withholds turn_ProcessUplink by metis
  qed (rule turn_withheld)
  then show False using assms by (simp add: withheld_def)
qed

lemma uplink_replay_state_guarded_witness:
  "\<exists>env bs. Received demo_env (Command UPLINK_APP_CMD_MID (Some 2) (fwd_bytes demo_mode)) =
       Received env (Command UPLINK_APP_CMD_MID (Some UPLINK_APP_PROCESS_UPLINK_CC) bs) \<and>
     length bs = 204 \<and> admissible demo_data (fwd_of_bytes bs) \<and> payload_accepted (fwd_of_bytes bs) \<and>
     bus_delivers env (fwd_of_bytes bs) \<and> \<not> own_counters (fwd_of_bytes bs)"
proof (rule uplink_replay_state_guarded)
  let ?bs = "fwd_bytes demo_mode"
  have l: "length ?bs = 204" by (simp add: fwd_bytes_def demo_mode_def)
  have "fwd_of_bytes ?bs = demo_mode"
    by (rule fwd_of_bytes_fwd_bytes) (simp add: demo_mode_def)
  then show "replay_state (fst (uplink_turn (Received demo_env
      (Command UPLINK_APP_CMD_MID (Some 2) ?bs)) demo_data)) \<noteq> replay_state demo_data"
    using ProcessUplink_delivers[OF demo_admissible demo_payload(1-3)] turn_ProcessUplink[OF l]
    by (simp add: delivered_def replay_state_def demo_data_def demo_mode_def)
qed

section \<open>Corrupted frames\<close>



end
