(* ===== verification/State_File.thy ===== *)
theory State_File
  imports Shared_Msgs
begin

text \<open>
  Every application keeps a small struct in a file: it is written to a temporary file and
  renamed, and read back when the application starts.  The locale states the contract of
  such a file (what is loaded from the bytes of a save is what was saved; without a file
  the defaults stay); its lemma covers whole histories of saves, some of which fail at
  open, write or rename, followed by a restart.
\<close>

text \<open>The file after a history of saves, each with its outcome.\<close>

fun save_history :: "('d \<Rightarrow> u8 list) \<Rightarrow> (save_outcome \<times> 'd) list \<Rightarrow> u8 list option \<Rightarrow> u8 list option" where
  "save_history enc [] f = f"
| "save_history enc ((r, d) # ws) f =
     save_history enc ws (disk_after f (save_file 0 r (enc d)))"

text \<open>The last state that reached the file.\<close>

fun last_saved :: "(save_outcome \<times> 'd) list \<Rightarrow> 'd option \<Rightarrow> 'd option" where
  "last_saved [] x = x"
| "last_saved ((r, d) # ws) x = last_saved ws (if r = Save_Ok then Some d else x)"

locale state_file =
  fixes enc :: "'d \<Rightarrow> u8 list"
    and load :: "file_read \<Rightarrow> 'd \<Rightarrow> 'd \<times> out list"
    and saved :: "'d \<Rightarrow> 'p"
    and restored :: "'d \<Rightarrow> 'p"
  assumes load_enc: "restored (fst (load (Contents (enc d)) d0)) = saved d"
    and load_none: "load No_File d0 = (d0, [])"
begin

lemma save_history_last:
  "save_history enc ws (map_option enc x) = map_option enc (last_saved ws x)"
proof (induction ws arbitrary: x)
  case (Cons w ws)
  obtain r d where w: "w = (r, d)" by (cases w)
  have "disk_after (map_option enc x) (save_file 0 r (enc d)) =
      map_option enc (if r = Save_Ok then Some d else x)"
    by (simp add: save_file_def)
  then show ?case using Cons.IH[of "if r = Save_Ok then Some d else x"] by (simp add: w)
qed simp

text \<open>After any history of saves from an empty disk, a restart restores exactly the last
  state whose save succeeded, and starts from its defaults when none did.\<close>

lemma restart_restores:
  "case last_saved ws None of
     Some d \<Rightarrow> restored (fst (load (read_disk (save_history enc ws None)) d0)) = saved d
   | None \<Rightarrow> load (read_disk (save_history enc ws None)) d0 = (d0, [])"
proof -
  have "save_history enc ws None = map_option enc (last_saved ws None)"
    using save_history_last[of ws None] by simp
  then show ?thesis by (simp add: read_disk_def load_enc load_none split: option.splits)
qed

end

end
