(* ===== verification/Uplink_Persist.thy ===== *)
theory Uplink_Persist
  imports Uplink_Replay State_File
begin

text \<open>
  The state file of uplink_app: what a restart restores, that a damaged file is refused,
  that replay protection survives a restart, and the boot-loop detection by the survival
  mark.
\<close>

section \<open>Bytes of the state file\<close>

definition ups_make :: "u32 \<Rightarrow> u8 \<Rightarrow> u8 \<Rightarrow> u8 \<Rightarrow> u8 \<Rightarrow> UPLINK_APP_PersistentState" where
  "ups_make seq boot reset mark streak =
     (let s = \<lparr> ups_Magic = UPLINK_APP_STATE_MAGIC, ups_LastAcceptedSequence = seq,
                ups_BootCount = ucast boot, ups_LastResetReason = reset, ups_SurvivedMark = mark,
                ups_ShortBootStreak = streak, ups_BootReserved = 0, ups_Checksum = 0 \<rparr>
      in s\<lparr> ups_Checksum := ucast (UPLINK_APP_CRC16 (ups_prefix s)) \<rparr>)"

definition uplink_file :: "UPLINK_APP_Data \<Rightarrow> u8 list" where
  "uplink_file d = ups_bytes (ups_make (u_LastAcceptedSequence d) (u_BootCount d)
     (u_LastResetReason d) (u_SurvivedMark d) (u_ShortBootStreak d))"

lemma SaveState_file:
  "UPLINK_APP_SaveState r d = save_file UP_STATE_SAVE_FAIL_EID r (uplink_file d)"
  by (simp add: UPLINK_APP_SaveState_def uplink_file_def ups_make_def Let_def)

lemma length_ups [simp]: "length (ups_prefix s) = 16" "length (ups_bytes s) = 20"
  by (simp_all add: ups_prefix_def ups_bytes_def)

lemma ups_of_bytes_bytes [simp]: "ups_of_bytes (ups_bytes s) = s"
  by (cases s) (simp add: ups_of_bytes_def ups_bytes_def ups_prefix_def get_u32_append2
      byte_at_append2)

lemma ups_prefix_checksum [simp]: "ups_prefix (s\<lparr>ups_Checksum := x\<rparr>) = ups_prefix s"
  by (simp add: ups_prefix_def)

lemma load_make:
  "UPLINK_APP_LoadState (Contents (ups_bytes (ups_make seq boot reset mark streak))) d =
     (d\<lparr> u_LastAcceptedSequence := seq, u_AcceptedCount := 1, u_BootCount := boot,
         u_PrevSurvivedMark := mark, u_ShortBootStreak := streak \<rparr>,
      [Event UP_STARTUP_EID INFORMATION])"
proof -
  let ?s = "ups_make seq boot reset mark streak"
  have t: "take 16 (ups_bytes ?s) = ups_prefix ?s" by (simp add: ups_bytes_def)
  have c: "ups_Checksum ?s = ucast (UPLINK_APP_CRC16 (ups_prefix ?s))"
    by (simp add: ups_make_def Let_def ups_prefix_def)
  have f: "ups_Magic ?s = UPLINK_APP_STATE_MAGIC" "ups_LastAcceptedSequence ?s = seq"
    "ups_BootCount ?s = ucast boot" "ups_SurvivedMark ?s = mark" "ups_ShortBootStreak ?s = streak"
    by (simp_all add: ups_make_def Let_def)
  have u: "(ucast (ucast boot :: u32) :: u8) = boot"
    by (rule bit_word_eqI) (simp add: bit_ucast_iff)
  show ?thesis
    by (simp add: UPLINK_APP_LoadState_def Let_def t c f u)
qed

interpretation uplink_file: state_file uplink_file UPLINK_APP_LoadState
  "\<lambda>d. (u_LastAcceptedSequence d, u_BootCount d, u_SurvivedMark d, u_ShortBootStreak d)"
  "\<lambda>d. (u_LastAcceptedSequence d, u_BootCount d, u_PrevSurvivedMark d, u_ShortBootStreak d)"
proof
  show "UPLINK_APP_LoadState No_File d0 = (d0, [])" for d0
    by (simp add: UPLINK_APP_LoadState_def)
qed (simp add: uplink_file_def load_make)

section \<open>Properties\<close>


lemma load_refused:
  assumes "length bs = 20" "get_u32 bs 0 \<noteq> UPLINK_APP_STATE_MAGIC \<or>
     get_u32 bs 16 \<noteq> ucast (UPLINK_APP_CRC16 (take 16 bs))"
  shows "UPLINK_APP_LoadState (Contents bs) d = (d, [Event UP_STATE_CORRUPT_EID ERROR])"
  using assms by (auto simp: UPLINK_APP_LoadState_def Let_def ups_of_bytes_def)

lemma ucast_u16_u32_inj: "(ucast (a :: u16) :: u32) = ucast b \<longleftrightarrow> a = b"
  by (metis ucast_u16_u32)

text \<open>A state file damaged in one byte (any of the 20, the checksum's own included) is
  refused with an error event, and the application starts from its defaults.\<close>

lemma uplink_damaged_file_refused:
  assumes "i < 20" "b \<noteq> uplink_file d ! i"
  shows "UPLINK_APP_LoadState (Contents ((uplink_file d)[i := b])) d0 =
     (d0, [Event UP_STATE_CORRUPT_EID ERROR])"
proof -
  let ?s = "ups_make (u_LastAcceptedSequence d) (u_BootCount d) (u_LastResetReason d)
     (u_SurvivedMark d) (u_ShortBootStreak d)"
  let ?p = "ups_prefix ?s" and ?ck = "ucast (UPLINK_APP_CRC16 (ups_prefix ?s)) :: u32"
  have ck: "ups_Checksum ?s = ?ck"
    by (simp add: ups_make_def Let_def ups_prefix_def)
  have f: "uplink_file d = ?p @ put_u32 ?ck"
    by (simp add: uplink_file_def ups_bytes_def ck)
  have "get_u32 ((uplink_file d)[i := b]) 16 \<noteq> ucast (UPLINK_APP_CRC16 (take 16 ((uplink_file d)[i := b])))"
  proof (cases "i < 16")
    case True
    have "(uplink_file d)[i := b] = ?p[i := b] @ put_u32 ?ck"
      using True by (simp add: f list_update_append)
    moreover have "UPLINK_APP_CRC16 (?p[i := b]) \<noteq> UPLINK_APP_CRC16 ?p"
      unfolding UPLINK_APP_CRC16_def
      using True assms(2) by (intro ccitt.detects_update) (auto simp: f nth_append)
    ultimately show ?thesis by (simp add: get_u32_append2 ucast_u16_u32_inj)
  next
    case False
    have u: "(uplink_file d)[i := b] = ?p @ (put_u32 ?ck)[i - 16 := b]"
      using False by (simp add: f list_update_append)
    have "get_u32 ((put_u32 ?ck)[i - 16 := b]) 0 \<noteq> ?ck"
    proof
      assume "get_u32 ((put_u32 ?ck)[i - 16 := b]) 0 = ?ck"
      then have "put_u32 (get_u32 ((put_u32 ?ck)[i - 16 := b]) 0) = put_u32 ?ck" by simp
      moreover have "put_u32 (get_u32 xs 0) = xs" if "length xs = 4" for xs
        using that by (auto simp: put_get_u32 byte_at_nth intro: nth_equalityI
            simp: length_Suc_conv eval_nat_numeral)
      ultimately have "(put_u32 ?ck)[i - 16 := b] = put_u32 ?ck" by simp
      then have "put_u32 ?ck ! (i - 16) = b"
        using nth_list_update_eq[of "i - 16" "put_u32 ?ck" b] assms(1) False by simp
      then show False using assms False by (simp add: f nth_append)
    qed
    then show ?thesis by (simp add: u get_u32_append2)
  qed
  then show ?thesis
    by (intro load_refused) (simp_all add: uplink_file_def)
qed

lemma uplink_damaged_file_refused_witness:
  "UPLINK_APP_LoadState (Contents ((uplink_file demo_data)[4 := 10])) uplink_initial =
     (uplink_initial, [Event UP_STATE_CORRUPT_EID ERROR])"
proof (rule uplink_damaged_file_refused)
  show "10 \<noteq> uplink_file demo_data ! 4"
    by (simp add: uplink_file_def ups_bytes_def ups_prefix_def ups_make_def Let_def demo_data_def
        uplink_initial_def bytes_defs)
qed simp

section \<open>Start-up\<close>

lemma Init_from_file:
  assumes "ub_platform_ok b" "ub_file b = Contents (ups_bytes (ups_make seq boot reset mark streak))"
  shows "fst (UPLINK_APP_Init b)"
    and "replay_state (fst (snd (UPLINK_APP_Init b))) = (seq, 1)"
    and "u_ShortBootStreak (fst (snd (UPLINK_APP_Init b))) =
       (if mark = 0 then if streak < 255 then streak + 1 else streak else 0)"
    and "u_SurvivedMark (fst (snd (UPLINK_APP_Init b))) = 0"
    and "u_BootCount (fst (snd (UPLINK_APP_Init b))) = boot + 1"
  using assms by (simp_all add: UPLINK_APP_Init_def load_make UPLINK_APP_IncrementBootCount_def
      UPLINK_APP_ProcessBootMarker_def Let_def replay_state_def)

lemma Init_suspect:
  assumes "ub_platform_ok b"
  shows "u_BootLoopSuspect (fst (snd (UPLINK_APP_Init b))) =
     (if u_ShortBootStreak (fst (snd (UPLINK_APP_Init b))) \<ge> 5 then 1 else 0)"
  using assms by (simp add: UPLINK_APP_Init_def UPLINK_APP_IncrementBootCount_def
      UPLINK_APP_ProcessBootMarker_def Let_def case_prod_unfold)

lemma Init_file:
  assumes "ub_platform_ok b" "ub_save2 b = Save_Ok"
  shows "disk_after f (snd (snd (UPLINK_APP_Init b))) = Some (uplink_file (fst (snd (UPLINK_APP_Init b))))"
  using assms by (simp add: UPLINK_APP_Init_def UPLINK_APP_ProcessBootMarker_def
      SaveState_file Let_def case_prod_unfold)

text \<open>A delivered command leaves its sequence number in the state file.\<close>

definition files_saved :: "u32 \<Rightarrow> UPLINK_APP_Data \<times> out list \<Rightarrow> bool" where
  "files_saved seq r \<longleftrightarrow> (\<forall>f. \<exists>d'. disk_after f (snd r) = Some (uplink_file d') \<and>
     u_LastAcceptedSequence d' = seq)"

lemma files_saved_prepend [simp]: "files_saved seq r \<Longrightarrow> files_saved seq (prepend os r)"
  by (simp add: files_saved_def)

lemma disk_after_status [simp]:
  "disk_after f (snd (UPLINK_APP_UpdateStatusTelemetry t n d)) = f"
  by (simp add: UPLINK_APP_UpdateStatusTelemetry_def Let_def)

lemma files_saved_commit:
  "ue_save env = Save_Ok \<Longrightarrow> files_saved (ucast (fw_Sequence c)) (commit_routed env d c t)"
  by (auto simp: files_saved_def commit_routed_def Let_def SaveState_file)

lemma replay_state_moved: "replay_state d \<noteq> (x, u_AcceptedCount d + 1)"
  by (simp add: replay_state_def)

lemma after_forward_saves:
  assumes "ue_save env = Save_Ok" "delivered c d (after_forward env c t r)"
    "replay_state (fst r) = replay_state d"
  shows "files_saved (ucast (fw_Sequence c)) (after_forward env c t r)"
proof (cases "fst (snd r)")
  case True
  then show ?thesis using files_saved_commit[OF assms(1)]
    by (simp add: after_forward_def Let_def case_prod_unfold)
next
  case False
  then have "replay_state (fst (after_forward env c t r)) = replay_state d"
    using assms(3) by (simp add: after_forward_def Let_def case_prod_unfold)
  then show ?thesis using assms(2) replay_state_moved by (simp add: delivered_def)
qed

lemma counter_mgmt_saves:
  assumes "ue_save env = Save_Ok" "delivered c d (counter_mgmt_command env d c t)"
  shows "files_saved (ucast (fw_Sequence c)) (counter_mgmt_command env d c t)"
proof -
  let ?r = "UPLINK_APP_ForwardCounterMgmtCommand env d c"
  have same: "replay_state (fst ?r) = replay_state d"
    by (simp add: UPLINK_APP_ForwardCounterMgmtCommand_def Let_def)
  show ?thesis
  proof (cases "fst (snd ?r) \<and> byte_at (fw_Payload c) 0 \<noteq> COUNTER_SCOPE_UPLINK")
    case True
    then show ?thesis using files_saved_commit[OF assms(1)]
      by (simp add: counter_mgmt_command_def Let_def case_prod_unfold)
  next
    case False
    then have "replay_state (fst (counter_mgmt_command env d c t)) = replay_state d"
      using same by (auto simp: counter_mgmt_command_def Let_def case_prod_unfold)
    then show ?thesis using assms(2) replay_state_moved by (simp add: delivered_def)
  qed
qed

lemma forwarders_keep_replay_state:
  "replay_state (fst (UPLINK_APP_ForwardConfigCommand env d c)) = replay_state d"
  "replay_state (fst (UPLINK_APP_ForwardFlightModeCommand env d c p)) = replay_state d"
  by (simp_all add: UPLINK_APP_ForwardConfigCommand_def UPLINK_APP_ForwardFlightModeCommand_def Let_def
      case_prod_unfold)

lemma not_delivered_reject [simp]: "\<not> delivered c d (reject_command env d r e)"
  using replay_state_moved by (simp add: delivered_def)

lemma dispatch_saves:
  assumes "ue_save env = Save_Ok" "delivered c d (dispatch_class env d c t)"
  shows "files_saved (ucast (fw_Sequence c)) (dispatch_class env d c t)"
  using assms
  by (auto simp: dispatch_class_def Let_def forwarders_keep_replay_state
      split: if_splits option.splits
      intro!: after_forward_saves counter_mgmt_saves files_saved_commit)

lemma disk_ProcessUplink:
  assumes "forwarded (snd (UPLINK_APP_ProcessUplink env c d)) \<noteq> []" "ue_save env = Save_Ok"
  shows "\<exists>d'. disk_after f (snd (UPLINK_APP_ProcessUplink env c d)) = Some (uplink_file d') \<and>
     u_LastAcceptedSequence d' = ucast (fw_Sequence c)"
proof -
  have d: "delivered c d (UPLINK_APP_ProcessUplink env c d)" and a: "admissible d c"
    using assms(1) ProcessUplink_cases[of c d env] by (auto simp: withheld_def)
  let ?t = "UPLINK_APP_ResolveRouteTarget (fw_CommandClass c)"
  have "delivered c (note_arrival env c d) (dispatch_class env (note_arrival env c d) c ?t)"
    using d by (simp add: ProcessUplink_admissible[OF a])
  from dispatch_saves[OF assms(2) this]
  have "files_saved (ucast (fw_Sequence c)) (UPLINK_APP_ProcessUplink env c d)"
    by (simp add: ProcessUplink_admissible[OF a])
  then show ?thesis by (simp add: files_saved_def)
qed


text \<open>A start from a given disk on which every call and every save succeeds.\<close>

definition boot_from :: "u8 list option \<Rightarrow> sys_time \<Rightarrow> u8 \<Rightarrow> uplink_boot" where
  "boot_from f t reset = \<lparr> ub_platform_ok = True, ub_file = read_disk f, ub_time = t,
     ub_reset_type = reset, ub_save1 = Save_Ok, ub_save2 = Save_Ok \<rparr>"

lemma boot_from_simps [simp]:
  "ub_platform_ok (boot_from f t r) = True" "ub_file (boot_from f t r) = read_disk f"
  "ub_save2 (boot_from f t r) = Save_Ok"
  by (simp_all add: boot_from_def)


text \<open>One power cycle: start, and if the application lives on to a service call at time
  \<^verbatim>\<open>t\<close>, the survival check of that call.\<close>

definition boot_session :: "u8 \<Rightarrow> sys_time \<Rightarrow> sys_time option \<Rightarrow> u8 list option \<Rightarrow> u8 list option" where
  "boot_session reset t0 alive f =
     (let (ok, d, os) = UPLINK_APP_Init (boot_from f t0 reset); f1 = disk_after f os
      in case alive of None \<Rightarrow> f1
         | Some t \<Rightarrow> disk_after f1 (snd (UPLINK_APP_CheckBootSurvival t Save_Ok d)))"

definition marked_file :: "u8 \<Rightarrow> u8 \<Rightarrow> u8 list option \<Rightarrow> bool" where
  "marked_file mark streak f \<longleftrightarrow>
     (\<exists>seq boot reset. f = Some (ups_bytes (ups_make seq boot reset mark streak)))"

lemma Init_streak:
  assumes "marked_file mark streak f"
  shows "u_ShortBootStreak (fst (snd (UPLINK_APP_Init (boot_from f t r)))) =
     (if mark = 0 then if streak < 255 then streak + 1 else streak else 0)"
proof -
  obtain seq boot reset where "f = Some (ups_bytes (ups_make seq boot reset mark streak))"
    using assms by (auto simp: marked_file_def)
  then show ?thesis by (intro Init_from_file(3)) (auto simp: read_disk_def)
qed

lemma Init_mark: "u_SurvivedMark (fst (snd (UPLINK_APP_Init (boot_from f t r)))) = 0"
  by (simp add: UPLINK_APP_Init_def UPLINK_APP_ProcessBootMarker_def Let_def case_prod_unfold)

lemma short_session:
  assumes "marked_file mark streak f"
  shows "marked_file 0 (if mark = 0 then if streak < 255 then streak + 1 else streak else 0)
     (boot_session r t None f)"
proof -
  let ?d = "fst (snd (UPLINK_APP_Init (boot_from f t r)))"
  have "boot_session r t None f = Some (uplink_file ?d)"
    by (simp add: boot_session_def Let_def case_prod_unfold Init_file)
  then show ?thesis
    unfolding marked_file_def uplink_file_def Init_mark Init_streak[OF assms] by blast
qed

lemma survived_session:
  assumes "GetTimeMs t - GetTimeMs t0 \<ge> UPLINK_APP_BOOT_SURVIVE_MS"
  shows "\<exists>streak. marked_file 1 streak (boot_session r t0 (Some t) f)"
proof -
  let ?d = "fst (snd (UPLINK_APP_Init (boot_from f t0 r)))"
  have "u_BootStartMs ?d = GetTimeMs t0"
    by (simp add: UPLINK_APP_Init_def UPLINK_APP_ProcessBootMarker_def boot_from_def Let_def
        case_prod_unfold)
  then have "boot_session r t0 (Some t) f = Some (uplink_file (?d\<lparr> u_SurvivedMark := 1 \<rparr>))"
    using assms by (simp add: boot_session_def Let_def case_prod_unfold Init_mark SaveState_file
        UPLINK_APP_CheckBootSurvival_def)
  then show ?thesis unfolding marked_file_def uplink_file_def by auto
qed

lemma of_nat_min_Suc:
  "(if (of_nat (min k 255) :: u8) < 255 then of_nat (min k 255) + 1 else of_nat (min k 255)) =
     (of_nat (min (Suc k) 255) :: u8)"
proof (cases "k < 255")
  case True
  then have "(of_nat (min k 255) :: u8) < 255"
    by (simp add: word_less_nat_alt unat_of_nat)
  then show ?thesis using True by simp
qed (auto simp: min_def)

lemma short_sessions:
  assumes "marked_file mark streak f" "mark \<noteq> 0" "sessions \<noteq> []"
  shows "marked_file 0 (of_nat (min (length sessions - 1) 255))
     (foldl (\<lambda>f (r, t). boot_session r t None f) f sessions)"
  using assms(3)
proof (induction sessions rule: rev_induct)
  case (snoc x xs)
  obtain r t where x: "x = (r, t)" by (cases x)
  show ?case
  proof (cases "xs = []")
    case True
    then show ?thesis using short_session[OF assms(1), of r t] assms(2) x by simp
  next
    case False
    then obtain n where n: "length xs = Suc n" by (cases xs) auto
    from snoc.IH[OF False] have "marked_file 0 (of_nat (min n 255))
        (foldl (\<lambda>f (r, t). boot_session r t None f) f xs)" using n by simp
    from short_session[OF this, of r t] show ?thesis
      using n of_nat_min_Suc[of n] by (simp add: x del: of_nat_Suc)
  qed
qed simp



text \<open>The first boot writes a state file before any command was accepted, and the next
  boot reads it as an accepted sequence number 0: the very first command of a ground station is
  then dropped as a duplicate if it has sequence 0 and refused as a replay if its sequence is
  in the upper half of the circle, although the vehicle never accepted anything.  The first
  boot itself takes every sequence number.\<close>

lemma uplink_second_boot_misjudges_first_command:
  "let first = UPLINK_APP_Init (boot_from None t0 r0); d1 = fst (snd first);
       d2 = fst (snd (UPLINK_APP_Init (boot_from (disk_after None (snd (snd first))) t r)))
   in UPLINK_APP_CheckSequence d1 s = SEQ_NEW \<and>
      UPLINK_APP_CheckSequence d2 s =
        (if s = 0 then SEQ_DUPLICATE else if s < 0x8000 then SEQ_NEW else SEQ_REPLAY)"
proof -
  let ?d1 = "fst (snd (UPLINK_APP_Init (boot_from None t0 r0)))"
  have d1: "u_AcceptedCount ?d1 = 0" "u_LastAcceptedSequence ?d1 = 0"
    by (simp_all add: UPLINK_APP_Init_def UPLINK_APP_ProcessBootMarker_def UPLINK_APP_LoadState_def
        UPLINK_APP_IncrementBootCount_def read_disk_def Let_def case_prod_unfold uplink_initial_def)
  have f: "disk_after None (snd (snd (UPLINK_APP_Init (boot_from None t0 r0)))) = Some (uplink_file ?d1)"
    by (rule Init_file) simp_all
  have "replay_state (fst (snd (UPLINK_APP_Init (boot_from (Some (uplink_file ?d1)) t r)))) = (0, 1)"
    by (subst Init_from_file(2)) (auto simp: read_disk_def uplink_file_def d1)
  then show ?thesis
    using d1 by (auto simp: f Let_def UPLINK_APP_CheckSequence_def replay_state_def)
qed

end
