(* ===== verification/Uplink_Route.thy ===== *)
theory Uplink_Route
  imports Uplink
begin

text \<open>
  The route payload of uplink_app (29-byte waypoints on the wire): the parser is the
  inverse of the ground station's layout, it accepts exactly the payloads whose waypoints are
  finite and between 2 m and 8 m, and what the frame size leaves of the 37 waypoints.
\<close>

section \<open>The wire layout of a waypoint\<close>

definition waypoint_wire :: "ROUTE_WAYPOINT \<Rightarrow> u8 list" where
  "waypoint_wire w = [wp_CmdType w] @ put_u32 (wp_Param1 w) @ put_u32 (wp_Param2 w) @
     put_u32 (wp_Param3 w) @ put_u32 (wp_Param4 w) @ put_u32 (wp_LatE7 w) @
     put_u32 (wp_LonE7 w) @ put_u32 (wp_Z w)"

lemma length_waypoint_wire [simp]: "length (waypoint_wire w) = 29"
  by (simp add: waypoint_wire_def)

lemma parse_waypoint_wire [simp]: "ParseWaypointWire (waypoint_wire w @ rest) = w"
  by (cases w) (simp add: ParseWaypointWire_def waypoint_wire_def get_u32_append2)

lemma take_split: "take (m + n) xs = take m xs @ take n (drop m xs)"
  by (simp add: take_add)

lemma take_put_u32: "4 \<le> length (drop k raw) \<Longrightarrow> put_u32 (get_u32 raw k) = take 4 (drop k raw)"
  by (rule nth_equalityI) (auto simp: put_get_u32 byte_at_def nth_Cons' less_Suc_eq eval_nat_numeral add.commute)

lemma waypoint_wire_parse: "29 \<le> length raw \<Longrightarrow> waypoint_wire (ParseWaypointWire raw) = take 29 raw"
proof -
  assume l: "29 \<le> length raw"
  have "take 29 raw = take 1 raw @ take 4 (drop 1 raw) @ take 4 (drop 5 raw) @ take 4 (drop 9 raw) @
      take 4 (drop 13 raw) @ take 4 (drop 17 raw) @ take 4 (drop 21 raw) @ take 4 (drop 25 raw)"
    using take_split[of 1 28 raw] take_split[of 4 24 "drop 1 raw"] take_split[of 4 20 "drop 5 raw"]
      take_split[of 4 16 "drop 9 raw"] take_split[of 4 12 "drop 13 raw"]
      take_split[of 4 8 "drop 17 raw"] take_split[of 4 4 "drop 21 raw"] by simp
  moreover have "take 1 raw = [byte_at raw 0]"
    using l by (cases raw) auto
  ultimately show ?thesis
    using l by (simp add: waypoint_wire_def ParseWaypointWire_def take_put_u32)
qed

definition waypoint_ok :: "ROUTE_WAYPOINT \<Rightarrow> bool" where
  "waypoint_ok w \<longleftrightarrow> IsWaypointFinite w \<and> IsWaypointAltitudeValid w"

lemma parse_waypoints_wire:
  "list_all waypoint_ok ws \<Longrightarrow>
     parse_waypoints (length ws) (concat (map waypoint_wire ws) @ rest) = Some ws"
  by (induction ws) (simp_all add: waypoint_ok_def Let_def)

lemma parse_waypoints_sound:
  "parse_waypoints n raw = Some ws \<Longrightarrow> n * 29 \<le> length raw \<Longrightarrow>
     length ws = n \<and> list_all waypoint_ok ws \<and> concat (map waypoint_wire ws) = take (n * 29) raw"
proof (induction n raw arbitrary: ws rule: parse_waypoints.induct)
  case (2 n raw)
  from "2.prems" obtain vs where vs: "ws = ParseWaypointWire raw # vs"
      "waypoint_ok (ParseWaypointWire raw)" "parse_waypoints n (drop 29 raw) = Some vs"
    by (auto simp: waypoint_ok_def Let_def split: if_splits option.splits)
  have "\<not> \<not> IsWaypointFinite (ParseWaypointWire raw)" "\<not> \<not> IsWaypointAltitudeValid (ParseWaypointWire raw)"
    using vs(2) by (simp_all add: waypoint_ok_def)
  with "2.IH"[OF refl _ _ vs(3)] "2.prems"(2)
  have "length vs = n \<and> list_all waypoint_ok vs \<and> concat (map waypoint_wire vs) = take (n * 29) (drop 29 raw)"
    by simp
  then show ?case using vs "2.prems"(2)
    by (simp add: waypoint_wire_parse take_add)
qed simp

section \<open>Properties\<close>

text \<open>The REPLACE or ADD command the ground station builds for a list of waypoints.\<close>

definition route_payload :: "u8 \<Rightarrow> ROUTE_WAYPOINT list \<Rightarrow> u8 list" where
  "route_payload op ws = [op, 2, of_nat (length ws), 0] @ concat (map waypoint_wire ws)"

definition route_cmd :: "u8 \<Rightarrow> ROUTE_WAYPOINT list \<Rightarrow> UPLINK_FWD_CMD \<Rightarrow> UPLINK_FWD_CMD" where
  "route_cmd op ws c = c\<lparr> fw_PayloadLength := of_nat (4 + 29 * length ws),
     fw_Payload := route_payload op ws @ replicate (196 - length (route_payload op ws)) 0 \<rparr>"

lemma length_concat_wire [simp]: "length (concat (map waypoint_wire ws)) = 29 * length ws"
  by (induction ws) simp_all

lemma wp_array_take: "length ws \<le> 37 \<Longrightarrow> take (length ws) (wp_array ws) = ws"
  by (simp add: wp_array_def)

definition demo_waypoint :: ROUTE_WAYPOINT where
  "demo_waypoint = wp_zero\<lparr> wp_CmdType := 16, wp_LatE7 := 374220000, wp_Z := 0x40A00000 \<rparr>"

lemma demo_waypoint_ok: "waypoint_ok demo_waypoint"
  by (simp add: waypoint_ok_def IsWaypointFinite_def IsWaypointAltitudeValid_def demo_waypoint_def
      wp_zero_def f32_defs)

text \<open>C26: the waypoints of a REPLACE or ADD survive the wire: for one to six waypoints that are
  finite and between 2 m and 8 m high, parsing the payload the ground station builds gives back
  the operation, the count and exactly those waypoints, with zeros behind them.\<close>

theorem uplink_route_roundtrip:
  assumes "op = ROUTE_OP_REPLACE \<or> op = ROUTE_OP_ADD"
    and "1 \<le> length ws" "length ws \<le> 6" "list_all waypoint_ok ws"
  shows "UPLINK_APP_ParseRouteUpdatePayload (route_cmd op ws c) = Some
     \<lparr> rp_RouteType = op, rp_RouteVersion = 2, rp_WaypointCount = of_nat (length ws),
       rp_Reserved = 0, rp_Waypoints = wp_array ws \<rparr>"
proof -
  have n: "length ws < 256" "4 + 29 * length ws < 256" using assms(3) by auto
  have u: "unat (of_nat (length ws) :: u8) = length ws"
    "unat (of_nat (4 + 29 * length ws) :: u8) = 4 + 29 * length ws"
    using n by (simp_all add: unat_of_nat del: of_nat_add of_nat_mult)
  have nz: "(of_nat (length ws) :: u8) \<noteq> 0"
    using u(1) assms(2) by (metis not_one_le_zero unat_0)
  have parse: "parse_waypoints (length ws) (concat (map waypoint_wire ws) @ rest) = Some ws" for rest
    using assms(4) by (rule parse_waypoints_wire)
  show ?thesis
    using assms(1,3) u nz
    by (auto simp: UPLINK_APP_ParseRouteUpdatePayload_def route_cmd_def route_payload_def Let_def
        parse mult.commute simp del: of_nat_add of_nat_mult)
qed

theorem uplink_route_roundtrip_witness:
  "UPLINK_APP_ParseRouteUpdatePayload (route_cmd 2 [demo_waypoint]
     \<lparr> fw_Version = 1, fw_CommandClass = 2, fw_PayloadLength = 0, fw_Flags = 0x80, fw_Sequence = 3,
       fw_Checksum = 0, fw_Payload = [] \<rparr>) = Some
     \<lparr> rp_RouteType = 2, rp_RouteVersion = 2, rp_WaypointCount = 1, rp_Reserved = 0,
       rp_Waypoints = wp_array [demo_waypoint] \<rparr>"
  using uplink_route_roundtrip[of 2 "[demo_waypoint]"] demo_waypoint_ok by simp

text \<open>C39: whatever the route parser accepts of a frame (196 payload bytes at most) is version 2
  and one of the four operations; a REPLACE or ADD brings between one and six waypoints, not the
  37 the route holds, each finite and between 2 m and 8 m, and re-encoding them gives the payload
  back; a MODIFY brings exactly one such waypoint and an index below 37, a DELETE an index only.\<close>

theorem uplink_route_accepted_payloads:
  assumes "UPLINK_APP_ParseRouteUpdatePayload c = Some p"
    and "length (fw_Payload c) = 196" "unat (fw_PayloadLength c) \<le> 196"
  shows "rp_RouteVersion p = 2 \<and>
    (let n = unat (rp_WaypointCount p); k = rp_RouteType p; ws = rp_Waypoints p in
     if k = ROUTE_OP_REPLACE \<or> k = ROUTE_OP_ADD
     then 1 \<le> n \<and> n \<le> 6 \<and> list_all waypoint_ok (take n ws) \<and>
          take (unat (fw_PayloadLength c)) (fw_Payload c) =
            [k, 2, rp_WaypointCount p, rp_Reserved p] @ concat (map waypoint_wire (take n ws))
     else if k = ROUTE_OP_MODIFY then n < 37 \<and> waypoint_ok (ws ! 0)
     else k = ROUTE_OP_DELETE \<and> n < 37 \<and> ws = wp_array [])"
proof -
  let ?pl = "fw_Payload c" and ?n = "unat (byte_at (fw_Payload c) 2)"
  note D = assms(1)[unfolded UPLINK_APP_ParseRouteUpdatePayload_def Let_def]
  have v: "rp_RouteVersion p = 2" "rp_RouteType p = byte_at ?pl 0" "rp_WaypointCount p = byte_at ?pl 2"
    "rp_Reserved p = byte_at ?pl 3" "byte_at ?pl 1 = 2"
    using D by (auto split: if_splits)
  have head: "take 4 ?pl = [byte_at ?pl 0, byte_at ?pl 1, byte_at ?pl 2, byte_at ?pl 3]"
    using assms(2) by (intro nth_equalityI) (auto simp: byte_at_def less_Suc_eq eval_nat_numeral)
  consider (add) "byte_at ?pl 0 = ROUTE_OP_REPLACE \<or> byte_at ?pl 0 = ROUTE_OP_ADD"
    | (del) "byte_at ?pl 0 = ROUTE_OP_DELETE" | (mod) "byte_at ?pl 0 = ROUTE_OP_MODIFY"
    using D by (auto split: if_splits)
  then show ?thesis
  proof cases
    case add
    then obtain ws where ws: "parse_waypoints ?n (drop 4 ?pl) = Some ws" "rp_Waypoints p = wp_array ws"
      and len: "byte_at ?pl 2 \<noteq> 0" "unat (fw_PayloadLength c) = 4 + ?n * 29"
      using D by (auto split: if_splits)
    then have n: "?n \<le> 6" "?n * 29 \<le> length (drop 4 ?pl)" "1 \<le> ?n"
      using assms(2,3) by (auto simp: unat_gt_0[symmetric] simp del: unat_gt_0)
    note s = parse_waypoints_sound[OF ws(1) n(2)]
    have "take ?n (wp_array ws) = ws" using s n(1) wp_array_take[of ws] by simp
    moreover have "take (4 + ?n * 29) ?pl = take 4 ?pl @ take (?n * 29) (drop 4 ?pl)"
      by (rule take_split)
    ultimately show ?thesis
      using add v s n len ws(2) head by (simp add: Let_def)
  next
    case mod
    then show ?thesis using D v
      by (auto simp: waypoint_ok_def wp_array_def split: if_splits)
  next
    case del
    then show ?thesis using D v by (auto simp: Let_def split: if_splits)
  qed
qed

theorem uplink_route_accepted_payloads_witness:
  "\<exists>c p. UPLINK_APP_ParseRouteUpdatePayload c = Some p \<and> rp_RouteVersion p = 2 \<and>
     unat (rp_WaypointCount p) \<le> 6"
proof -
  let ?c = "route_cmd 1 [demo_waypoint] \<lparr> fw_Version = 1, fw_CommandClass = 2, fw_PayloadLength = 0,
     fw_Flags = 0x80, fw_Sequence = 3, fw_Checksum = 0, fw_Payload = [] \<rparr>"
  have p: "UPLINK_APP_ParseRouteUpdatePayload ?c = Some
     \<lparr> rp_RouteType = 1, rp_RouteVersion = 2, rp_WaypointCount = of_nat (length [demo_waypoint]),
       rp_Reserved = 0, rp_Waypoints = wp_array [demo_waypoint] \<rparr>"
    using demo_waypoint_ok parse_waypoints_wire[of "[demo_waypoint]"]
    by (simp add: UPLINK_APP_ParseRouteUpdatePayload_def route_cmd_def route_payload_def Let_def
        waypoint_ok_def)
  have l: "length (fw_Payload ?c) = 196" "unat (fw_PayloadLength ?c) \<le> 196"
    by (simp_all add: route_cmd_def route_payload_def)
  from uplink_route_accepted_payloads[OF p l] p show ?thesis
    by (intro exI conjI) (assumption, simp_all add: Let_def)
qed

end
