(* ===== verification/Core_Types.thy ===== *)
theory Core_Types
  imports Uplink_Types
begin

text \<open>
  cfs_core_app: its constants and enumerations (\<^verbatim>\<open>config/default_cfs_core_app_*.h\<close>) and
  its global state \<^verbatim>\<open>CFS_CORE_APP_Data\<close> (\<^verbatim>\<open>fsw/src/cfs_core_app.h\<close>).  The
  buffers of outgoing packets that are rebuilt at every use are not part of the record, but
  the health packet is, because a recovery command writes into it.
\<close>

section \<open>Enumerations\<close>

datatype CFS_CORE_APP_HealthState = HEALTH_NOMINAL | HEALTH_DEGRADED | HEALTH_RECOVERY | HEALTH_FAILED

fun health_val :: "CFS_CORE_APP_HealthState \<Rightarrow> u8" where
  "health_val HEALTH_NOMINAL = 0"
| "health_val HEALTH_DEGRADED = 1"
| "health_val HEALTH_RECOVERY = 2"
| "health_val HEALTH_FAILED = 3"

lemma health_val_inj [simp]: "health_val x = health_val y \<longleftrightarrow> x = y"
  by (cases x; cases y) simp_all

text \<open>The health states in the order of severity, which is the order of their codes.\<close>

instantiation CFS_CORE_APP_HealthState :: linorder
begin

definition less_eq_CFS_CORE_APP_HealthState ::
    "CFS_CORE_APP_HealthState \<Rightarrow> CFS_CORE_APP_HealthState \<Rightarrow> bool" where
  "less_eq_CFS_CORE_APP_HealthState a b \<longleftrightarrow> health_val a \<le> health_val b"

definition less_CFS_CORE_APP_HealthState ::
    "CFS_CORE_APP_HealthState \<Rightarrow> CFS_CORE_APP_HealthState \<Rightarrow> bool" where
  "less_CFS_CORE_APP_HealthState a b \<longleftrightarrow> health_val a < health_val b"

instance
proof
  fix x y z :: CFS_CORE_APP_HealthState
  show "(x < y) = (x \<le> y \<and> \<not> y \<le> x)"
    by (simp add: less_eq_CFS_CORE_APP_HealthState_def less_CFS_CORE_APP_HealthState_def
        less_le_not_le)
  show "x \<le> x" by (simp add: less_eq_CFS_CORE_APP_HealthState_def)
  show "x \<le> y \<Longrightarrow> y \<le> z \<Longrightarrow> x \<le> z" by (simp add: less_eq_CFS_CORE_APP_HealthState_def)
  show "x \<le> y \<Longrightarrow> y \<le> x \<Longrightarrow> x = y"
    using order_antisym[of "health_val x" "health_val y"]
    by (simp add: less_eq_CFS_CORE_APP_HealthState_def)
  show "x \<le> y \<or> y \<le> x" by (auto simp: less_eq_CFS_CORE_APP_HealthState_def)
qed

end

datatype CFS_CORE_APP_FaultCode =
    FAULT_NONE | FAULT_BRIDGE_TIMEOUT | FAULT_GPS_STALE | FAULT_EKF_INVALID | FAULT_LOCAL_TIMEOUT
  | FAULT_ATTITUDE_TIMEOUT | FAULT_UPLINK_TIMEOUT | FAULT_LORA_TIMEOUT

fun fault_val :: "CFS_CORE_APP_FaultCode \<Rightarrow> u8" where
  "fault_val FAULT_NONE = 0"
| "fault_val FAULT_BRIDGE_TIMEOUT = 1"
| "fault_val FAULT_GPS_STALE = 2"
| "fault_val FAULT_EKF_INVALID = 3"
| "fault_val FAULT_LOCAL_TIMEOUT = 4"
| "fault_val FAULT_ATTITUDE_TIMEOUT = 5"
| "fault_val FAULT_UPLINK_TIMEOUT = 6"
| "fault_val FAULT_LORA_TIMEOUT = 7"

datatype CFS_CORE_APP_ConfigResult =
    CONFIG_OK | BAD_SCOPE | BAD_VERSION | BAD_PARAM | BAD_VALUE | BAD_LENGTH | BAD_CHECKSUM

fun config_result_val :: "CFS_CORE_APP_ConfigResult \<Rightarrow> u8" where
  "config_result_val CONFIG_OK = 0"
| "config_result_val BAD_SCOPE = 1"
| "config_result_val BAD_VERSION = 2"
| "config_result_val BAD_PARAM = 3"
| "config_result_val BAD_VALUE = 4"
| "config_result_val BAD_LENGTH = 5"
| "config_result_val BAD_CHECKSUM = 6"

abbreviation (input) RECOVERY_RESET_COUNTER :: u8 where "RECOVERY_RESET_COUNTER \<equiv> 0"
abbreviation (input) RECOVERY_RESTART_BRIDGE :: u8 where "RECOVERY_RESTART_BRIDGE \<equiv> 1"
abbreviation (input) RECOVERY_PARSER_RESET :: u8 where "RECOVERY_PARSER_RESET \<equiv> 2"
abbreviation (input) RECOVERY_SERIAL_RECONNECT :: u8 where "RECOVERY_SERIAL_RECONNECT \<equiv> 3"
abbreviation (input) RECOVERY_RESTART_UPLINK :: u8 where "RECOVERY_RESTART_UPLINK \<equiv> 4"
abbreviation (input) RECOVERY_RESTART_LORA :: u8 where "RECOVERY_RESTART_LORA \<equiv> 5"
abbreviation (input) MODE_ACTION_ENTER :: u8 where "MODE_ACTION_ENTER \<equiv> 0"
abbreviation (input) MODE_ACTION_EXIT :: u8 where "MODE_ACTION_EXIT \<equiv> 1"
abbreviation (input) MODE_STATE_NORMAL :: u8 where "MODE_STATE_NORMAL \<equiv> 0"
abbreviation (input) MODE_STATE_RECOVERY :: u8 where "MODE_STATE_RECOVERY \<equiv> 1"
abbreviation (input) DIAG_ACTION_ROUTE_READBACK_REQUEST :: u8 where "DIAG_ACTION_ROUTE_READBACK_REQUEST \<equiv> 3"
abbreviation (input) DIAG_TARGET_CFS_CORE :: u8 where "DIAG_TARGET_CFS_CORE \<equiv> 1"
abbreviation (input) ROUTE_SEGMENT_NONE :: u8 where "ROUTE_SEGMENT_NONE \<equiv> 0"
abbreviation (input) CORE_PENDING_IDLE :: u8 where "CORE_PENDING_IDLE \<equiv> 0"
abbreviation (input) CORE_PENDING_PENDING :: u8 where "CORE_PENDING_PENDING \<equiv> 1"
abbreviation (input) CORE_PENDING_REJECTED :: u8 where "CORE_PENDING_REJECTED \<equiv> 2"

section \<open>Constants\<close>

abbreviation (input) NOMINAL_STABILITY_MS :: u32 where "NOMINAL_STABILITY_MS \<equiv> 10000"
abbreviation (input) FAILED_ESCALATION_MS :: u32 where "FAILED_ESCALATION_MS \<equiv> 30000"
abbreviation (input) TIMESTAMP_MAX_FUTURE_MS :: u32 where "TIMESTAMP_MAX_FUTURE_MS \<equiv> 5000"
abbreviation (input) TIMEBASE_SHIFT_MS :: u32 where "TIMEBASE_SHIFT_MS \<equiv> 10000"
abbreviation (input) RESTART_INTERVAL_MS :: u32 where "RESTART_INTERVAL_MS \<equiv> 5000"
abbreviation (input) UPLINK_TIMEOUT_MS :: u32 where "UPLINK_TIMEOUT_MS \<equiv> 5000"
abbreviation (input) LORA_TIMEOUT_MS :: u32 where "LORA_TIMEOUT_MS \<equiv> 5000"
abbreviation (input) CORE_STATE_MAGIC :: u32 where "CORE_STATE_MAGIC \<equiv> 0xCF5C0A00"
abbreviation (input) CORE_CONFIG_VERSION :: u8 where "CORE_CONFIG_VERSION \<equiv> 1"
abbreviation (input) CORE_CONFIG_SCOPE :: u8 where "CORE_CONFIG_SCOPE \<equiv> 1"
abbreviation (input) CORE_PARAM_MIN_MS :: u32 where "CORE_PARAM_MIN_MS \<equiv> 100"
abbreviation (input) CORE_PARAM_MAX_MS :: u32 where "CORE_PARAM_MAX_MS \<equiv> 60000"
abbreviation (input) CFS_CORE_APP_CMD_MID :: u16 where "CFS_CORE_APP_CMD_MID \<equiv> 0x18C0"
abbreviation (input) CFS_CORE_APP_SEND_HK_MID :: u16 where "CFS_CORE_APP_SEND_HK_MID \<equiv> 0x18C1"
abbreviation (input) BRIDGE_PARSER_RESET_CC :: u8 where "BRIDGE_PARSER_RESET_CC \<equiv> 3"
abbreviation (input) BRIDGE_SERIAL_RECONNECT_CC :: u8 where "BRIDGE_SERIAL_RECONNECT_CC \<equiv> 4"
abbreviation (input) CFS_CORE_APP_NOOP_CC :: u8 where "CFS_CORE_APP_NOOP_CC \<equiv> 0"
abbreviation (input) CFS_CORE_APP_RESET_COUNTERS_CC :: u8 where "CFS_CORE_APP_RESET_COUNTERS_CC \<equiv> 1"

abbreviation (input) CO_STARTUP_EID :: nat where "CO_STARTUP_EID \<equiv> 1"
abbreviation (input) CO_COMMAND_ERR_EID :: nat where "CO_COMMAND_ERR_EID \<equiv> 2"
abbreviation (input) CO_NOOP_EID :: nat where "CO_NOOP_EID \<equiv> 3"
abbreviation (input) CO_RESET_EID :: nat where "CO_RESET_EID \<equiv> 4"
abbreviation (input) CO_HK_EID :: nat where "CO_HK_EID \<equiv> 6"
abbreviation (input) CO_HEALTH_TRANSITION_EID :: nat where "CO_HEALTH_TRANSITION_EID \<equiv> 7"
abbreviation (input) CO_SEQ_ERR_EID :: nat where "CO_SEQ_ERR_EID \<equiv> 8"
abbreviation (input) CO_TIMESTAMP_ERR_EID :: nat where "CO_TIMESTAMP_ERR_EID \<equiv> 9"
abbreviation (input) CO_BRIDGE_RESTART_EID :: nat where "CO_BRIDGE_RESTART_EID \<equiv> 10"
abbreviation (input) CO_VIEWPOINT_EID :: nat where "CO_VIEWPOINT_EID \<equiv> 11"
abbreviation (input) CO_SEQ_GAP_EID :: nat where "CO_SEQ_GAP_EID \<equiv> 12"
abbreviation (input) CO_RECOVERY_CMD_EID :: nat where "CO_RECOVERY_CMD_EID \<equiv> 13"
abbreviation (input) CO_MODE_CMD_EID :: nat where "CO_MODE_CMD_EID \<equiv> 14"
abbreviation (input) CO_UPLINK_RESTART_EID :: nat where "CO_UPLINK_RESTART_EID \<equiv> 15"
abbreviation (input) CO_LORA_RESTART_EID :: nat where "CO_LORA_RESTART_EID \<equiv> 16"
abbreviation (input) CO_STATE_SAVE_FAIL_EID :: nat where "CO_STATE_SAVE_FAIL_EID \<equiv> 17"
abbreviation (input) CO_ROUTE_READBACK_EID :: nat where "CO_ROUTE_READBACK_EID \<equiv> 18"
abbreviation (input) CO_STATE_CORRUPT_EID :: nat where "CO_STATE_CORRUPT_EID \<equiv> 19"
abbreviation (input) CO_TIMEBASE_SHIFT_EID :: nat where "CO_TIMEBASE_SHIFT_EID \<equiv> 20"
abbreviation (input) CO_NONFINITE_VALUE_EID :: nat where "CO_NONFINITE_VALUE_EID \<equiv> 21"

section \<open>State\<close>

record CFS_CORE_APP_ConfigParams =
  cfg_AttitudeTimeoutMs :: u32
  cfg_LocalTimeoutMs :: u32
  cfg_GpsTimeoutMs :: u32
  cfg_EkfTimeoutMs :: u32
  cfg_BridgeTimeoutMs :: u32
  cfg_PublishPeriodMs :: u32

record CFS_CORE_APP_StateCache =
  sc_TimestampMs :: u32
  sc_ArrivalMs :: u32
  sc_Seq :: u32
  sc_Valid :: u8
  sc_Stale :: u8
  sc_ErrorCode :: u8
  sc_Received :: bool

record CFS_CORE_APP_BridgeCache =
  bc_LinkState :: u8
  bc_LastErrorCode :: u8
  bc_LastRxTimestampMs :: u32
  bc_Received :: bool

record CFS_CORE_APP_AppHkCache =
  ac_LastHkRxMs :: u32
  ac_Received :: bool

record CFS_CORE_APP_RouteCache =
  mr_TimestampMs :: u32
  mr_SourceSequence :: u32
  mr_UpdateCount :: u32
  mr_RouteType :: u8
  mr_RouteVersion :: u8
  mr_WaypointCount :: u8
  mr_Valid :: bool
  mr_Waypoints :: "ROUTE_WAYPOINT list"

record CFS_CORE_APP_ViewpointCache =
  vv_TimestampMs :: u32
  vv_SourceSequence :: u32
  vv_ViewpointType :: u8
  vv_PositionFrame :: u8
  vv_Valid :: bool
  vv_X :: f32
  vv_Y :: f32
  vv_Z :: f32
  vv_Yaw :: f32
  vv_Pitch :: f32
  vv_HoldTimeMs :: u32

record CFS_CORE_APP_Data =
  c_CmdCounter :: u8
  c_ErrCounter :: u8
  c_LastHealthState :: u8
  c_ConfigPendingState :: u8
  c_LastConfigResult :: u8
  c_ConfigGeneration :: u32
  c_ActiveConfig :: CFS_CORE_APP_ConfigParams
  c_PendingConfig :: CFS_CORE_APP_ConfigParams
  c_PreviousConfig :: CFS_CORE_APP_ConfigParams
  c_SeqRejectedCount :: u32
  c_SeqGapCount :: u32
  c_TimestampRejectedCount :: u32
  c_TimebaseShiftCount :: u32
  c_BridgeRestartCount :: u32
  c_NextBridgeRestartMs :: u32
  c_UplinkRestartCount :: u32
  c_NextUplinkRestartMs :: u32
  c_LoraRestartCount :: u32
  c_NextLoraRestartMs :: u32
  c_LastFaultCode :: u8
  c_NominalEligibleSince :: u32
  c_RecoveryStartMs :: u32
  c_RecoveryRequestedCount :: u32
  c_CurrentModeState :: u8
  c_LastModeRequestToken :: u32
  c_RunStatus :: run_status
  c_SequenceCounter :: u32
  c_PublishCount :: u32
  c_LastPublishTimeMs :: u32
  c_AttitudeState :: CFS_CORE_APP_StateCache
  c_LocalState :: CFS_CORE_APP_StateCache
  c_GpsState :: CFS_CORE_APP_StateCache
  c_EkfState :: CFS_CORE_APP_StateCache
  c_BridgeState :: CFS_CORE_APP_BridgeCache
  c_UplinkAppState :: CFS_CORE_APP_AppHkCache
  c_LoraAppState :: CFS_CORE_APP_AppHkCache
  c_MissionRoute :: CFS_CORE_APP_RouteCache
  c_ViewpointCmd :: CFS_CORE_APP_ViewpointCache
  c_SystemHealthTlm :: SYSTEM_HEALTH_TLM

text \<open>The platform's answers: clock, whether CFE_ES_GetAppIDByName finds an application,
  the status of CFE_MSG_SetFcnCode and CFE_SB_TransmitMsg for the command to the bridge,
  and the outcome of the (at most two) saves of one operation.\<close>

record core_env =
  ce_now :: sys_time
  ce_app_found :: "es_app \<Rightarrow> bool"
  ce_fcn_ok :: bool
  ce_tx_ok :: bool
  ce_save_restart :: save_outcome
  ce_save :: save_outcome

end
