(* ===== verification/Core.thy ===== *)
theory Core
  imports Core_Types Uplink
begin

text \<open>
  cfs_core_app: the caches of the flight controller's state, the health state machine with
  its restarts of the other applications, the double-buffered configuration, the recovery,
  mode, viewpoint and diagnostic commands, the state file and the dispatcher
  (\<^verbatim>\<open>cfs_core_app_utils.c\<close>, \<^verbatim>\<open>cfs_core_app_dispatch.c\<close>,
  \<^verbatim>\<open>cfs_core_app_cmds.c\<close>, \<^verbatim>\<open>cfs_core_app.c\<close>), in the order of the source.
\<close>

section \<open>State caches\<close>

text \<open>The cache, the counters the update bumps (timestamp rejected, time base shift,
  sequence rejected, gap) and the events.\<close>

record cache_counters =
  k_TimestampRejected :: u32
  k_TimebaseShift :: u32
  k_SeqRejected :: u32
  k_SeqGap :: u32

definition CFS_CORE_APP_UpdateStateCache ::
    "'m FC_STATE_PREFIX_scheme \<Rightarrow> u32 \<Rightarrow> CFS_CORE_APP_StateCache \<Rightarrow> cache_counters
       \<Rightarrow> CFS_CORE_APP_StateCache \<times> cache_counters \<times> out list" where
  "CFS_CORE_APP_UpdateStateCache Msg NowMs Cache k =
     (if fc_TimestampMs Msg > NowMs + TIMESTAMP_MAX_FUTURE_MS
      then (Cache, k\<lparr> k_TimestampRejected := k_TimestampRejected k + 1 \<rparr>,
            [Event CO_TIMESTAMP_ERR_EID ERROR])
      else
        let shifted = sc_Received Cache \<and>
              fc_TimestampMs Msg + TIMEBASE_SHIFT_MS < sc_TimestampMs Cache;
            k = (if shifted then k\<lparr> k_TimebaseShift := k_TimebaseShift k + 1 \<rparr> else k);
            ev = (if shifted then [Event CO_TIMEBASE_SHIFT_EID INFORMATION] else [])
        in if sc_Received Cache \<and> fc_Seq Msg = sc_Seq Cache
           then (Cache, k\<lparr> k_SeqRejected := k_SeqRejected k + 1 \<rparr>, ev @ [Event CO_SEQ_ERR_EID DEBUG])
           else if sc_Received Cache \<and> fc_Seq Msg < sc_Seq Cache
           then (Cache, k\<lparr> k_SeqRejected := k_SeqRejected k + 1 \<rparr>, ev @ [Event CO_SEQ_ERR_EID ERROR])
           else
             let gap = sc_Received Cache \<and> fc_Seq Msg > sc_Seq Cache + 1;
                 k = (if gap then k\<lparr> k_SeqGap := k_SeqGap k + 1 \<rparr> else k);
                 ev = ev @ (if gap then [Event CO_SEQ_GAP_EID DEBUG] else [])
             in (Cache\<lparr> sc_TimestampMs := fc_TimestampMs Msg, sc_ArrivalMs := NowMs,
                       sc_Seq := fc_Seq Msg, sc_Valid := fc_Valid Msg, sc_Stale := fc_Stale Msg,
                       sc_ErrorCode := fc_ErrorCode Msg, sc_Received := True \<rparr>, k, ev))"

definition CFS_CORE_APP_AttitudeFieldsFinite :: "FC_ATTITUDE_TLM \<Rightarrow> bool" where
  "CFS_CORE_APP_AttitudeFieldsFinite m \<longleftrightarrow>
     isfinite (fa_RollRad m) \<and> isfinite (fa_PitchRad m) \<and> isfinite (fa_YawRad m) \<and>
     isfinite (fa_RollspeedRps m) \<and> isfinite (fa_PitchspeedRps m) \<and> isfinite (fa_YawspeedRps m)"

definition CFS_CORE_APP_EkfLocalFieldsFinite :: "FC_EKF_LOCAL_TLM \<Rightarrow> bool" where
  "CFS_CORE_APP_EkfLocalFieldsFinite m \<longleftrightarrow>
     isfinite (fl_X_m m) \<and> isfinite (fl_Y_m m) \<and> isfinite (fl_Z_m m) \<and>
     isfinite (fl_Vx_mps m) \<and> isfinite (fl_Vy_mps m) \<and> isfinite (fl_Vz_mps m)"

definition CFS_CORE_APP_StateExpired :: "CFS_CORE_APP_StateCache \<Rightarrow> u32 \<Rightarrow> u32 \<Rightarrow> bool" where
  "CFS_CORE_APP_StateExpired Cache NowMs TimeoutMs =
     (if \<not> sc_Received Cache then True else NowMs - sc_ArrivalMs Cache > TimeoutMs)"

definition CFS_CORE_APP_SetRouteCacheWaypoints ::
    "ROUTE_UPDATE_TLM \<Rightarrow> CFS_CORE_APP_RouteCache \<Rightarrow> CFS_CORE_APP_RouteCache" where
  "CFS_CORE_APP_SetRouteCacheWaypoints Msg Cache =
     Cache\<lparr> mr_RouteType := ru_RouteType Msg, mr_RouteVersion := ru_RouteVersion Msg,
            mr_WaypointCount := ru_WaypointCount Msg, mr_Valid := True,
            mr_Waypoints := ru_Waypoints Msg \<rparr>"

definition CFS_CORE_APP_BumpRouteCacheCounters ::
    "ROUTE_UPDATE_TLM \<Rightarrow> CFS_CORE_APP_RouteCache \<Rightarrow> CFS_CORE_APP_RouteCache" where
  "CFS_CORE_APP_BumpRouteCacheCounters Msg Cache =
     Cache\<lparr> mr_TimestampMs := ru_TimestampMs Msg, mr_SourceSequence := ru_SourceSequence Msg,
            mr_UpdateCount := mr_UpdateCount Cache + 1 \<rparr>"

definition CFS_CORE_APP_ReportHousekeeping :: "CFS_CORE_APP_Data \<Rightarrow> out list" where
  "CFS_CORE_APP_ReportHousekeeping d =
     [Event CO_HK_EID INFORMATION,
      Send (CoreHk \<lparr> ch_CommandCounter = c_CmdCounter d, ch_CommandErrorCounter = c_ErrCounter d,
        ch_MissionRouteWaypointCount = mr_WaypointCount (c_MissionRoute d),
        ch_PublishCount = c_PublishCount d, ch_LastPublishTimestampMs = c_LastPublishTimeMs d,
        ch_LastRouteUpdateTimestampMs = mr_TimestampMs (c_MissionRoute d),
        ch_RouteUpdateCount = mr_UpdateCount (c_MissionRoute d),
        ch_BridgeRestartCount = c_BridgeRestartCount d, ch_UplinkRestartCount = c_UplinkRestartCount d,
        ch_LoraRestartCount = c_LoraRestartCount d, ch_LastFaultCode = c_LastFaultCode d,
        ch_TimebaseShiftCount = c_TimebaseShiftCount d \<rparr>)]"

section \<open>The state file\<close>

record CFS_CORE_APP_PersistentState =
  cps_Magic :: u32
  cps_LastHealthState :: u8
  cps_ConfigVersion :: u8
  cps_AttitudeTimeoutMs :: u32
  cps_LocalTimeoutMs :: u32
  cps_GpsTimeoutMs :: u32
  cps_EkfTimeoutMs :: u32
  cps_BridgeTimeoutMs :: u32
  cps_PublishPeriodMs :: u32
  cps_BridgeRestartCount :: u32
  cps_UplinkRestartCount :: u32
  cps_LoraRestartCount :: u32
  cps_LastFaultCode :: u8
  cps_Checksum :: u32

text \<open>The 52 bytes of the struct, with its reserved bytes (written as zero, not read).\<close>

definition cps_bytes :: "CFS_CORE_APP_PersistentState \<Rightarrow> u8 list" where
  [bytes_defs]: "cps_bytes s = put_u32 (cps_Magic s) @
     [cps_LastHealthState s, cps_ConfigVersion s, 0, 0] @
     put_u32 (cps_AttitudeTimeoutMs s) @ put_u32 (cps_LocalTimeoutMs s) @
     put_u32 (cps_GpsTimeoutMs s) @ put_u32 (cps_EkfTimeoutMs s) @
     put_u32 (cps_BridgeTimeoutMs s) @ put_u32 (cps_PublishPeriodMs s) @
     put_u32 (cps_BridgeRestartCount s) @ put_u32 (cps_UplinkRestartCount s) @
     put_u32 (cps_LoraRestartCount s) @ [cps_LastFaultCode s, 0, 0, 0] @ put_u32 (cps_Checksum s)"

definition cps_of_bytes :: "u8 list \<Rightarrow> CFS_CORE_APP_PersistentState" where
  "cps_of_bytes bs = \<lparr> cps_Magic = get_u32 bs 0, cps_LastHealthState = byte_at bs 4,
     cps_ConfigVersion = byte_at bs 5, cps_AttitudeTimeoutMs = get_u32 bs 8,
     cps_LocalTimeoutMs = get_u32 bs 12, cps_GpsTimeoutMs = get_u32 bs 16,
     cps_EkfTimeoutMs = get_u32 bs 20, cps_BridgeTimeoutMs = get_u32 bs 24,
     cps_PublishPeriodMs = get_u32 bs 28, cps_BridgeRestartCount = get_u32 bs 32,
     cps_UplinkRestartCount = get_u32 bs 36, cps_LoraRestartCount = get_u32 bs 40,
     cps_LastFaultCode = byte_at bs 44, cps_Checksum = get_u32 bs 48 \<rparr>"

definition CFS_CORE_APP_ComputeStateChecksum :: "CFS_CORE_APP_PersistentState \<Rightarrow> u32" where
  "CFS_CORE_APP_ComputeStateChecksum s =
     cps_Magic s + ucast (cps_LastHealthState s) + ucast (cps_ConfigVersion s) +
     cps_AttitudeTimeoutMs s + cps_LocalTimeoutMs s + cps_GpsTimeoutMs s + cps_EkfTimeoutMs s +
     cps_BridgeTimeoutMs s + cps_PublishPeriodMs s + cps_BridgeRestartCount s +
     cps_UplinkRestartCount s + cps_LoraRestartCount s + ucast (cps_LastFaultCode s)"

definition CFS_CORE_APP_SaveState :: "save_outcome \<Rightarrow> CFS_CORE_APP_Data \<Rightarrow> out list" where
  "CFS_CORE_APP_SaveState r d =
     (let a = c_ActiveConfig d;
          s = \<lparr> cps_Magic = CORE_STATE_MAGIC, cps_LastHealthState = c_LastHealthState d,
                cps_ConfigVersion = CORE_CONFIG_VERSION,
                cps_AttitudeTimeoutMs = cfg_AttitudeTimeoutMs a,
                cps_LocalTimeoutMs = cfg_LocalTimeoutMs a, cps_GpsTimeoutMs = cfg_GpsTimeoutMs a,
                cps_EkfTimeoutMs = cfg_EkfTimeoutMs a, cps_BridgeTimeoutMs = cfg_BridgeTimeoutMs a,
                cps_PublishPeriodMs = cfg_PublishPeriodMs a,
                cps_BridgeRestartCount = c_BridgeRestartCount d,
                cps_UplinkRestartCount = c_UplinkRestartCount d,
                cps_LoraRestartCount = c_LoraRestartCount d,
                cps_LastFaultCode = c_LastFaultCode d, cps_Checksum = 0 \<rparr>
      in save_file CO_STATE_SAVE_FAIL_EID r
           (cps_bytes (s\<lparr> cps_Checksum := CFS_CORE_APP_ComputeStateChecksum s \<rparr>)))"

definition CFS_CORE_APP_LoadState ::
    "file_read \<Rightarrow> CFS_CORE_APP_Data \<Rightarrow> CFS_CORE_APP_Data \<times> out list" where
  "CFS_CORE_APP_LoadState f d =
     (let corrupt = (d, [Event CO_STATE_CORRUPT_EID ERROR]) in
      case f of
        No_File \<Rightarrow> (d, [])
      | Open_Error \<Rightarrow> corrupt
      | Contents bs \<Rightarrow>
          if length bs < 52 then corrupt
          else let s = cps_of_bytes (take 52 bs) in
            if cps_Magic s \<noteq> CORE_STATE_MAGIC then corrupt
            else if cps_Checksum s \<noteq> CFS_CORE_APP_ComputeStateChecksum s then corrupt
            else if cps_ConfigVersion s \<noteq> CORE_CONFIG_VERSION then corrupt
            else (d\<lparr> c_LastHealthState := cps_LastHealthState s,
                     c_ActiveConfig := \<lparr> cfg_AttitudeTimeoutMs = cps_AttitudeTimeoutMs s,
                        cfg_LocalTimeoutMs = cps_LocalTimeoutMs s,
                        cfg_GpsTimeoutMs = cps_GpsTimeoutMs s, cfg_EkfTimeoutMs = cps_EkfTimeoutMs s,
                        cfg_BridgeTimeoutMs = cps_BridgeTimeoutMs s,
                        cfg_PublishPeriodMs = cps_PublishPeriodMs s \<rparr>,
                     c_BridgeRestartCount := cps_BridgeRestartCount s,
                     c_UplinkRestartCount := cps_UplinkRestartCount s,
                     c_LoraRestartCount := cps_LoraRestartCount s,
                     c_LastFaultCode := cps_LastFaultCode s \<rparr>,
                  [Event CO_STARTUP_EID INFORMATION]))"

section \<open>Health\<close>

definition last_valid_input :: "u32 \<Rightarrow> CFS_CORE_APP_Data \<Rightarrow> u32" where
  "last_valid_input NowMs d =
     (let pick = (\<lambda>c best. if sc_Received c \<and> sc_TimestampMs c > best then sc_TimestampMs c else best);
          t = pick (c_EkfState d) (pick (c_GpsState d) (pick (c_LocalState d) (pick (c_AttitudeState d) 0)))
      in if t = 0 then NowMs else t)"

record core_faults =
  f_Bridge :: bool
  f_Gps :: bool
  f_Ekf :: bool
  f_Local :: bool
  f_Attitude :: bool
  f_Uplink :: bool
  f_Lora :: bool

definition state_unavailable :: "CFS_CORE_APP_StateCache \<Rightarrow> u32 \<Rightarrow> u32 \<Rightarrow> bool" where
  "state_unavailable c NowMs TimeoutMs \<longleftrightarrow>
     CFS_CORE_APP_StateExpired c NowMs TimeoutMs \<or> sc_Valid c = 0 \<or> sc_Stale c \<noteq> 0"

definition core_faults_at :: "u32 \<Rightarrow> CFS_CORE_APP_Data \<Rightarrow> core_faults" where
  "core_faults_at NowMs d =
     (let a = c_ActiveConfig d in
      \<lparr> f_Bridge = (\<not> bc_Received (c_BridgeState d) \<or>
          NowMs - bc_LastRxTimestampMs (c_BridgeState d) > cfg_BridgeTimeoutMs a),
        f_Gps = state_unavailable (c_GpsState d) NowMs (cfg_GpsTimeoutMs a),
        f_Ekf = state_unavailable (c_EkfState d) NowMs (cfg_EkfTimeoutMs a),
        f_Local = state_unavailable (c_LocalState d) NowMs (cfg_LocalTimeoutMs a),
        f_Attitude = state_unavailable (c_AttitudeState d) NowMs (cfg_AttitudeTimeoutMs a),
        f_Uplink = (\<not> ac_Received (c_UplinkAppState d) \<or>
          NowMs - ac_LastHkRxMs (c_UplinkAppState d) > UPLINK_TIMEOUT_MS),
        f_Lora = (\<not> ac_Received (c_LoraAppState d) \<or>
          NowMs - ac_LastHkRxMs (c_LoraAppState d) > LORA_TIMEOUT_MS) \<rparr>)"

text \<open>The restart timer of one application: the time of the next restart and whether it is
  due in this cycle.\<close>

definition restart_timer :: "u32 \<Rightarrow> bool \<Rightarrow> u32 \<Rightarrow> u32 \<times> bool" where
  "restart_timer NowMs timed_out next =
     (if timed_out
      then let next = (if next = 0 then NowMs + RESTART_INTERVAL_MS else next) in (next, NowMs \<ge> next)
      else (0, False))"

definition check_bridge ::
    "core_env \<Rightarrow> u32 \<Rightarrow> bool \<Rightarrow> CFS_CORE_APP_Data \<Rightarrow> bool \<times> CFS_CORE_APP_Data \<times> out list" where
  "check_bridge env NowMs timed_out d =
     (let (next, due) = restart_timer NowMs timed_out (c_NextBridgeRestartMs d);
          d = d\<lparr> c_NextBridgeRestartMs := next \<rparr>
      in if due \<and> ce_app_found env BRIDGE_APP
         then let d = d\<lparr> c_BridgeRestartCount := c_BridgeRestartCount d + 1 \<rparr>
              in (True, d\<lparr> c_NextBridgeRestartMs := NowMs + RESTART_INTERVAL_MS \<rparr>,
                  Restart BRIDGE_APP # CFS_CORE_APP_SaveState (ce_save_restart env) d @
                  [Event CO_BRIDGE_RESTART_EID INFORMATION])
         else (False, d, []))"

definition check_uplink ::
    "core_env \<Rightarrow> u32 \<Rightarrow> bool \<Rightarrow> CFS_CORE_APP_Data \<Rightarrow> bool \<times> CFS_CORE_APP_Data \<times> out list" where
  "check_uplink env NowMs timed_out d =
     (let (next, due) = restart_timer NowMs timed_out (c_NextUplinkRestartMs d);
          d = d\<lparr> c_NextUplinkRestartMs := next \<rparr>
      in if due \<and> ce_app_found env UPLINK_APP
         then let d = d\<lparr> c_UplinkRestartCount := c_UplinkRestartCount d + 1 \<rparr>
              in (True, d\<lparr> c_NextUplinkRestartMs := NowMs + RESTART_INTERVAL_MS \<rparr>,
                  Restart UPLINK_APP # CFS_CORE_APP_SaveState (ce_save_restart env) d @
                  [Event CO_UPLINK_RESTART_EID INFORMATION])
         else (False, d, []))"

definition check_lora ::
    "core_env \<Rightarrow> u32 \<Rightarrow> bool \<Rightarrow> CFS_CORE_APP_Data \<Rightarrow> bool \<times> CFS_CORE_APP_Data \<times> out list" where
  "check_lora env NowMs timed_out d =
     (let (next, due) = restart_timer NowMs timed_out (c_NextLoraRestartMs d);
          d = d\<lparr> c_NextLoraRestartMs := next \<rparr>
      in if due \<and> ce_app_found env LORA_APP
         then let d = d\<lparr> c_LoraRestartCount := c_LoraRestartCount d + 1 \<rparr>
              in (True, d\<lparr> c_NextLoraRestartMs := NowMs + RESTART_INTERVAL_MS \<rparr>,
                  Restart LORA_APP # CFS_CORE_APP_SaveState (ce_save_restart env) d @
                  [Event CO_LORA_RESTART_EID INFORMATION])
         else (False, d, []))"

text \<open>One restart per cycle, in the order bridge, uplink, lora: an application is looked at
  only when none before it was restarted in this cycle.\<close>

definition CFS_CORE_APP_CheckAppRestarts ::
    "core_env \<Rightarrow> u32 \<Rightarrow> core_faults \<Rightarrow> CFS_CORE_APP_Data \<Rightarrow> CFS_CORE_APP_Data \<times> out list" where
  "CFS_CORE_APP_CheckAppRestarts env NowMs f d =
     (let (issued, d, o1) = check_bridge env NowMs (f_Bridge f) d in
      if issued then (d, o1)
      else let (issued, d, o2) = check_uplink env NowMs (f_Uplink f) d in
        if issued then (d, o1 @ o2)
        else let (issued, d, o3) = check_lora env NowMs (f_Lora f) d in (d, o1 @ o2 @ o3))"

text \<open>The priority chain: health state, fault code and recovery request of this cycle, with
  the two timers it keeps (start of the recovery, start of the stable period).\<close>

definition assess_health ::
    "u32 \<Rightarrow> core_faults \<Rightarrow> CFS_CORE_APP_Data
       \<Rightarrow> (CFS_CORE_APP_HealthState \<times> CFS_CORE_APP_FaultCode \<times> u8) \<times> CFS_CORE_APP_Data" where
  "assess_health NowMs f d =
     (let clear = d\<lparr> c_RecoveryStartMs := 0, c_NominalEligibleSince := 0 \<rparr> in
      if f_Bridge f then
        (let d = (if c_RecoveryStartMs d = 0 then d\<lparr> c_RecoveryStartMs := NowMs \<rparr> else d);
             d = d\<lparr> c_NominalEligibleSince := 0 \<rparr>
         in ((if NowMs - c_RecoveryStartMs d \<ge> FAILED_ESCALATION_MS then HEALTH_FAILED
              else HEALTH_RECOVERY, FAULT_BRIDGE_TIMEOUT, 1), d))
      else if f_Ekf f then ((HEALTH_DEGRADED, FAULT_EKF_INVALID, 0), clear)
      else if f_Local f then ((HEALTH_DEGRADED, FAULT_LOCAL_TIMEOUT, 0), clear)
      else if f_Attitude f then ((HEALTH_DEGRADED, FAULT_ATTITUDE_TIMEOUT, 0), clear)
      else if f_Uplink f then ((HEALTH_DEGRADED, FAULT_UPLINK_TIMEOUT, 0), clear)
      else if f_Lora f then ((HEALTH_DEGRADED, FAULT_LORA_TIMEOUT, 0), clear)
      else if c_LastHealthState d = health_val HEALTH_NOMINAL
      then ((HEALTH_NOMINAL, FAULT_NONE, 0), clear)
      else
        (let d = d\<lparr> c_RecoveryStartMs := 0 \<rparr>;
             d = (if c_NominalEligibleSince d = 0 then d\<lparr> c_NominalEligibleSince := NowMs \<rparr> else d)
         in if NowMs - c_NominalEligibleSince d \<ge> NOMINAL_STABILITY_MS
            then ((HEALTH_NOMINAL, FAULT_NONE, 0), d\<lparr> c_NominalEligibleSince := 0 \<rparr>)
            else ((HEALTH_DEGRADED, FAULT_NONE, 0), d)))"

definition bool_u8 :: "bool \<Rightarrow> u8" where
  "bool_u8 b = (if b then 1 else 0)"

definition input_status :: "CFS_CORE_APP_StateCache \<Rightarrow> bool \<Rightarrow> INPUT_STATUS" where
  "input_status c timed_out = \<lparr> is_Valid = sc_Valid c, is_Stale = sc_Stale c,
     is_ErrorCode = sc_ErrorCode c, is_TimedOut = bool_u8 timed_out \<rparr>"

definition health_packet ::
    "u32 \<Rightarrow> u32 \<Rightarrow> core_faults \<Rightarrow> CFS_CORE_APP_HealthState \<times> CFS_CORE_APP_FaultCode \<times> u8
       \<Rightarrow> CFS_CORE_APP_Data \<Rightarrow> SYSTEM_HEALTH_TLM" where
  "health_packet NowMs last_valid f r d =
     (let (h, fault, req) = r in
      \<lparr> sh_Seq = c_SequenceCounter d, sh_TimestampMs = NowMs,
        sh_LastValidInputTimestampMs = last_valid,
        sh_HealthState = health_val h, sh_FaultCode = fault_val fault, sh_RecoveryRequested = req,
        sh_AttitudeStatus = input_status (c_AttitudeState d) (f_Attitude f),
        sh_LocalStatus = input_status (c_LocalState d) (f_Local f),
        sh_GpsStatus = input_status (c_GpsState d) (f_Gps f),
        sh_EkfStatus = input_status (c_EkfState d) (f_Ekf f),
        sh_BridgeStatus = \<lparr> bs_LinkState = bc_LinkState (c_BridgeState d),
          bs_ErrorCode = bc_LastErrorCode (c_BridgeState d), bs_TimedOut = bool_u8 (f_Bridge f) \<rparr>,
        sh_UplinkTimedOut = bool_u8 (f_Uplink f), sh_LoraTimedOut = bool_u8 (f_Lora f) \<rparr>)"

definition health_transition ::
    "core_env \<Rightarrow> CFS_CORE_APP_HealthState \<times> CFS_CORE_APP_FaultCode \<times> u8 \<Rightarrow> CFS_CORE_APP_Data
       \<Rightarrow> CFS_CORE_APP_Data \<times> out list" where
  "health_transition env r d =
     (let (h, fault, req) = r in
      if health_val h \<noteq> c_LastHealthState d
      then let d = d\<lparr> c_LastHealthState := health_val h, c_LastFaultCode := fault_val fault \<rparr>
           in (d, Event CO_HEALTH_TRANSITION_EID INFORMATION # CFS_CORE_APP_SaveState (ce_save env) d)
      else (d, []))"

definition CFS_CORE_APP_UpdateHealth ::
    "core_env \<Rightarrow> u32 \<Rightarrow> bool \<Rightarrow> CFS_CORE_APP_Data \<Rightarrow> CFS_CORE_APP_Data \<times> out list" where
  "CFS_CORE_APP_UpdateHealth env NowMs ForcePublish d =
     (if \<not> ForcePublish \<and> NowMs - c_LastPublishTimeMs d < cfg_PublishPeriodMs (c_ActiveConfig d)
      then (d, [])
      else
        let last_valid = last_valid_input NowMs d;
            f = core_faults_at NowMs d;
            (d, o1) = CFS_CORE_APP_CheckAppRestarts env NowMs f d;
            d = d\<lparr> c_LastPublishTimeMs := NowMs, c_PublishCount := c_PublishCount d + 1,
                   c_SequenceCounter := c_SequenceCounter d + 1 \<rparr>;
            (r, d) = assess_health NowMs f d;
            tlm = health_packet NowMs last_valid f r d;
            d = d\<lparr> c_SystemHealthTlm := tlm \<rparr>;
            (d, o2) = health_transition env r d
        in (d, o1 @ o2 @ [Send (SystemHealth tlm)]))"

section \<open>Messages of the flight controller and of the other applications\<close>

definition counters_of :: "CFS_CORE_APP_Data \<Rightarrow> cache_counters" where
  "counters_of d = \<lparr> k_TimestampRejected = c_TimestampRejectedCount d,
     k_TimebaseShift = c_TimebaseShiftCount d, k_SeqRejected = c_SeqRejectedCount d,
     k_SeqGap = c_SeqGapCount d \<rparr>"

definition put_counters :: "cache_counters \<Rightarrow> CFS_CORE_APP_Data \<Rightarrow> CFS_CORE_APP_Data" where
  "put_counters k d = d\<lparr> c_TimestampRejectedCount := k_TimestampRejected k,
     c_TimebaseShiftCount := k_TimebaseShift k, c_SeqRejectedCount := k_SeqRejected k,
     c_SeqGapCount := k_SeqGap k \<rparr>"

definition state_message :: "u32 \<Rightarrow> sb_msg \<Rightarrow> CFS_CORE_APP_Data \<Rightarrow> CFS_CORE_APP_Data \<times> out list" where
  "state_message NowMs msg d =
     (case msg of
        BridgeHk h \<Rightarrow>
          (d\<lparr> c_BridgeState := \<lparr> bc_LinkState = bh_LinkState h, bc_LastErrorCode = bh_LastErrorCode h,
               bc_LastRxTimestampMs = bh_LastRxTimestampMs h, bc_Received = True \<rparr> \<rparr>, [])
      | UplinkHk h \<Rightarrow> (d\<lparr> c_UplinkAppState := \<lparr> ac_LastHkRxMs = NowMs, ac_Received = True \<rparr> \<rparr>, [])
      | LoraHk h \<Rightarrow> (d\<lparr> c_LoraAppState := \<lparr> ac_LastHkRxMs = NowMs, ac_Received = True \<rparr> \<rparr>, [])
      | FcAttitude m \<Rightarrow>
          (let (c, k, ev) = CFS_CORE_APP_UpdateStateCache m NowMs (c_AttitudeState d) (counters_of d);
               ok = CFS_CORE_APP_AttitudeFieldsFinite m;
               c = (if ok then c else c\<lparr> sc_Valid := 0 \<rparr>)
           in (put_counters k (d\<lparr> c_AttitudeState := c \<rparr>),
               ev @ (if ok then [] else [Event CO_NONFINITE_VALUE_EID ERROR])))
      | FcEkfLocal m \<Rightarrow>
          (let (c, k, ev) = CFS_CORE_APP_UpdateStateCache m NowMs (c_LocalState d) (counters_of d);
               ok = CFS_CORE_APP_EkfLocalFieldsFinite m;
               c = (if ok then c else c\<lparr> sc_Valid := 0 \<rparr>)
           in (put_counters k (d\<lparr> c_LocalState := c \<rparr>),
               ev @ (if ok then [] else [Event CO_NONFINITE_VALUE_EID ERROR])))
      | FcGpsRaw m \<Rightarrow>
          (let (c, k, ev) = CFS_CORE_APP_UpdateStateCache m NowMs (c_GpsState d) (counters_of d)
           in (put_counters k (d\<lparr> c_GpsState := c \<rparr>), ev))
      | FcEkfStatus m \<Rightarrow>
          (let (c, k, ev) = CFS_CORE_APP_UpdateStateCache m NowMs (c_EkfState d) (counters_of d)
           in (put_counters k (d\<lparr> c_EkfState := c \<rparr>), ev))
      | FcMissionReadback m \<Rightarrow>
          (d\<lparr> c_MissionRoute := CFS_CORE_APP_BumpRouteCacheCounters m
                (CFS_CORE_APP_SetRouteCacheWaypoints m (c_MissionRoute d)) \<rparr>,
           [Event CO_ROUTE_READBACK_EID INFORMATION])
      | RouteUpdate m \<Rightarrow>
          ((if ru_RouteType m = ROUTE_OP_REPLACE
            then d\<lparr> c_MissionRoute := CFS_CORE_APP_BumpRouteCacheCounters m
                     (CFS_CORE_APP_SetRouteCacheWaypoints m (c_MissionRoute d)) \<rparr>
            else d), [Event CO_STARTUP_EID INFORMATION])
      | _ \<Rightarrow> (d, []))"

definition CFS_CORE_APP_ProcessStateMessage ::
    "core_env \<Rightarrow> sb_msg \<Rightarrow> CFS_CORE_APP_Data \<Rightarrow> CFS_CORE_APP_Data \<times> out list" where
  "CFS_CORE_APP_ProcessStateMessage env msg d =
     (let NowMs = GetTimeMs (ce_now env) in
      if msg = Unreadable then (d\<lparr> c_ErrCounter := c_ErrCounter d + 1 \<rparr>, [])
      else let (d, o1) = state_message NowMs msg d
           in prepend o1 (CFS_CORE_APP_UpdateHealth env NowMs True d))"

definition CFS_CORE_APP_ServicePrototype ::
    "core_env \<Rightarrow> CFS_CORE_APP_Data \<Rightarrow> CFS_CORE_APP_Data \<times> out list" where
  "CFS_CORE_APP_ServicePrototype env d =
     CFS_CORE_APP_UpdateHealth env (GetTimeMs (ce_now env)) False d"

section \<open>Commands from the ground\<close>

definition core_exec_result :: "u16 \<Rightarrow> u8 \<Rightarrow> bool \<Rightarrow> u8 \<Rightarrow> out list" where
  "core_exec_result SourceSequence CommandClass Ok DetailCode =
     [Send (ExecResult \<lparr> er_SourceSequence = SourceSequence,
        er_SourceApp = source_val SOURCE_CFS_CORE, er_CommandClass = CommandClass,
        er_GenericResult = (if Ok then EXEC_RESULT_GENERIC_OK else EXEC_RESULT_GENERIC_FAILED),
        er_DetailCode = DetailCode \<rparr>)]"

definition CFS_CORE_APP_ConfigChecksum :: "ConfigPayloadHdr \<Rightarrow> u8 list \<Rightarrow> u8 \<Rightarrow> u16" where
  "CFS_CORE_APP_ConfigChecksum h vb n =
     foldl (\<lambda>s i. s + ucast (byte_at vb i))
       (ucast (cp_ConfigScope h) + ucast (cp_ConfigVersion h) + (cp_ParameterId h AND 0xFF)
        + (drop_bit 8 (cp_ParameterId h) AND 0xFF) + ucast (cp_ValueType h)
        + ucast (cp_ValueLength h))
       [0..<unat n]"

text \<open>The switch over the parameter id: the candidate configuration, if the id is known.\<close>

definition core_param_update ::
    "u16 \<Rightarrow> u32 \<Rightarrow> CFS_CORE_APP_ConfigParams \<Rightarrow> CFS_CORE_APP_ConfigParams option" where
  "core_param_update p v a =
     (if p = 0 then Some (a\<lparr> cfg_AttitudeTimeoutMs := v \<rparr>)
      else if p = 1 then Some (a\<lparr> cfg_LocalTimeoutMs := v \<rparr>)
      else if p = 2 then Some (a\<lparr> cfg_GpsTimeoutMs := v \<rparr>)
      else if p = 3 then Some (a\<lparr> cfg_EkfTimeoutMs := v \<rparr>)
      else if p = 4 then Some (a\<lparr> cfg_BridgeTimeoutMs := v \<rparr>)
      else if p = 5 then Some (a\<lparr> cfg_PublishPeriodMs := v \<rparr>)
      else None)"

definition core_config_reject ::
    "CFS_CORE_APP_ConfigResult \<Rightarrow> CFS_CORE_APP_Data \<Rightarrow> CFS_CORE_APP_Data" where
  "core_config_reject res d = d\<lparr> c_ErrCounter := c_ErrCounter d + 1,
     c_ConfigPendingState := CORE_PENDING_REJECTED, c_LastConfigResult := config_result_val res \<rparr>"

definition CFS_CORE_APP_ProcessConfigCommand ::
    "core_env \<Rightarrow> CONFIG_CMD_TLM \<Rightarrow> CFS_CORE_APP_Data \<Rightarrow> CFS_CORE_APP_Data \<times> out list" where
  "CFS_CORE_APP_ProcessConfigCommand env Msg d =
     (let pl = cc_Payload Msg; len = cc_PayloadLength Msg; h = config_hdr pl;
          answer = (\<lambda>res. core_exec_result (cc_SourceSequence Msg) 1 (res = CONFIG_OK)
                     (config_result_val res));
          refuse = (\<lambda>res evs d. (core_config_reject res d, evs @ answer res));
          Value = get_u32 pl 8
      in if len < 8 then refuse BAD_LENGTH [Event CO_COMMAND_ERR_EID ERROR] d
         else if cp_ConfigScope h \<noteq> CORE_CONFIG_SCOPE then (core_config_reject BAD_SCOPE d, [])
         else if cp_ConfigVersion h \<noteq> CORE_CONFIG_VERSION then refuse BAD_VERSION [] d
         else if cp_ValueLength h \<noteq> 4 \<or> 8 + cp_ValueLength h > len then refuse BAD_LENGTH [] d
         else if cp_Checksum h \<noteq> CFS_CORE_APP_ConfigChecksum h (drop 8 pl) (cp_ValueLength h)
         then refuse BAD_CHECKSUM [Event CO_COMMAND_ERR_EID ERROR] d
         else if Value < CORE_PARAM_MIN_MS \<or> Value > CORE_PARAM_MAX_MS then refuse BAD_VALUE [] d
         else
           let d = d\<lparr> c_PendingConfig := c_ActiveConfig d, c_ConfigPendingState := CORE_PENDING_PENDING \<rparr>
           in case core_param_update (cp_ParameterId h) Value (c_PendingConfig d) of
                None \<Rightarrow> refuse BAD_PARAM [] d
              | Some cand \<Rightarrow>
                  let d = d\<lparr> c_PendingConfig := cand \<rparr> in
                  if cfg_AttitudeTimeoutMs cand < CORE_PARAM_MIN_MS \<or>
                     cfg_LocalTimeoutMs cand < CORE_PARAM_MIN_MS \<or>
                     cfg_GpsTimeoutMs cand < CORE_PARAM_MIN_MS \<or>
                     cfg_EkfTimeoutMs cand < CORE_PARAM_MIN_MS \<or>
                     cfg_BridgeTimeoutMs cand < CORE_PARAM_MIN_MS \<or>
                     cfg_PublishPeriodMs cand < CORE_PARAM_MIN_MS
                  then refuse BAD_VALUE [] d
                  else let d = d\<lparr> c_PreviousConfig := c_ActiveConfig d, c_ActiveConfig := cand,
                                c_ConfigGeneration := c_ConfigGeneration d + 1,
                                c_ConfigPendingState := CORE_PENDING_IDLE,
                                c_LastConfigResult := config_result_val CONFIG_OK,
                                c_CmdCounter := c_CmdCounter d + 1 \<rparr>
                       in (d, CFS_CORE_APP_SaveState (ce_save env) d @
                              [Event CO_STARTUP_EID INFORMATION] @ answer CONFIG_OK))"

definition CFS_CORE_APP_ProcessViewpointCommand ::
    "VIEWPOINT_CMD_TLM \<Rightarrow> CFS_CORE_APP_Data \<Rightarrow> CFS_CORE_APP_Data \<times> out list" where
  "CFS_CORE_APP_ProcessViewpointCommand Msg d =
     (d\<lparr> c_ViewpointCmd := \<lparr> vv_TimestampMs = vc_TimestampMs Msg,
          vv_SourceSequence = ucast (vc_SourceSequence Msg), vv_ViewpointType = vc_ViewpointType Msg,
          vv_PositionFrame = vc_PositionFrame Msg, vv_Valid = True, vv_X = vc_X Msg, vv_Y = vc_Y Msg,
          vv_Z = vc_Z Msg, vv_Yaw = vc_Yaw Msg, vv_Pitch = vc_Pitch Msg,
          vv_HoldTimeMs = vc_HoldTimeMs Msg \<rparr> \<rparr>,
      Event CO_VIEWPOINT_EID INFORMATION #
      core_exec_result (vc_SourceSequence Msg) 3 False (vc_ViewpointType Msg))"

definition CFS_CORE_APP_SendBridgeCtrlCmd :: "core_env \<Rightarrow> u8 \<Rightarrow> bool \<times> out list" where
  "CFS_CORE_APP_SendBridgeCtrlCmd env FcnCode =
     (if \<not> ce_fcn_ok env then (False, [])
      else transmit (ce_tx_ok env) (Command MAVLINK_BRIDGE_CMD_MID (Some FcnCode) []))"

definition core_restart_command :: "core_env \<Rightarrow> es_app \<Rightarrow> nat \<Rightarrow> bool \<times> out list" where
  "core_restart_command env app eid =
     (if ce_app_found env app
      then (True, [Event CO_RECOVERY_CMD_EID INFORMATION, Restart app, Event eid INFORMATION])
      else (False, [Event CO_RECOVERY_CMD_EID INFORMATION]))"

definition core_reset_counters_action ::
    "core_env \<Rightarrow> CFS_CORE_APP_Data \<Rightarrow> CFS_CORE_APP_Data \<times> out list" where
  "core_reset_counters_action env d =
     (let d = d\<lparr> c_RecoveryStartMs := 0, c_BridgeRestartCount := 0, c_UplinkRestartCount := 0,
                 c_LoraRestartCount := 0, c_NextBridgeRestartMs := 0, c_NextUplinkRestartMs := 0,
                 c_NextLoraRestartMs := 0 \<rparr>
      in (d, CFS_CORE_APP_SaveState (ce_save env) d @ [Event CO_RECOVERY_CMD_EID INFORMATION]))"

definition CFS_CORE_APP_ProcessRecoveryCommand ::
    "core_env \<Rightarrow> RECOVERY_CMD_TLM \<Rightarrow> CFS_CORE_APP_Data \<Rightarrow> CFS_CORE_APP_Data \<times> out list" where
  "CFS_CORE_APP_ProcessRecoveryCommand env Msg d =
     (let d = d\<lparr> c_RecoveryRequestedCount := c_RecoveryRequestedCount d + 1,
                 c_SystemHealthTlm := (c_SystemHealthTlm d)\<lparr> sh_RecoveryRequested := 1 \<rparr>,
                 c_CmdCounter := c_CmdCounter d + 1 \<rparr>;
          a = rc_RecoveryAction Msg;
          reply = (\<lambda>ok. core_exec_result (rc_SourceSequence Msg) 4 ok a)
      in if a = RECOVERY_RESET_COUNTER then
           (let (d, os) = core_reset_counters_action env d in (d, os @ reply True))
         else if a = RECOVERY_RESTART_BRIDGE then
           (let (ok, os) = core_restart_command env BRIDGE_APP CO_BRIDGE_RESTART_EID in (d, os @ reply ok))
         else if a = RECOVERY_RESTART_UPLINK then
           (let (ok, os) = core_restart_command env UPLINK_APP CO_UPLINK_RESTART_EID in (d, os @ reply ok))
         else if a = RECOVERY_RESTART_LORA then
           (let (ok, os) = core_restart_command env LORA_APP CO_LORA_RESTART_EID in (d, os @ reply ok))
         else if a = RECOVERY_PARSER_RESET then
           (let (ok, os) = CFS_CORE_APP_SendBridgeCtrlCmd env BRIDGE_PARSER_RESET_CC
            in (d, Event CO_RECOVERY_CMD_EID INFORMATION # os @ reply ok))
         else if a = RECOVERY_SERIAL_RECONNECT then
           (let (ok, os) = CFS_CORE_APP_SendBridgeCtrlCmd env BRIDGE_SERIAL_RECONNECT_CC
            in (d, Event CO_RECOVERY_CMD_EID INFORMATION # os @ reply ok))
         else (d, Event CO_RECOVERY_CMD_EID ERROR # reply False))"

definition CFS_CORE_APP_ProcessModeCommand ::
    "MODE_CMD_TLM \<Rightarrow> CFS_CORE_APP_Data \<Rightarrow> CFS_CORE_APP_Data \<times> out list" where
  "CFS_CORE_APP_ProcessModeCommand Msg d =
     (let d = d\<lparr> c_CmdCounter := c_CmdCounter d + 1, c_LastModeRequestToken := mc_RequestToken Msg \<rparr>;
          (allowed, d) =
            (if mc_ModeAction Msg = MODE_ACTION_ENTER then
               (if mc_RequestedState Msg = MODE_STATE_RECOVERY \<and> c_CurrentModeState d = MODE_STATE_NORMAL
                then (True, d\<lparr> c_CurrentModeState := MODE_STATE_RECOVERY \<rparr>) else (False, d))
             else if mc_ModeAction Msg = MODE_ACTION_EXIT then
               (if mc_RequestedState Msg = MODE_STATE_NORMAL \<and> c_CurrentModeState d = MODE_STATE_RECOVERY
                then (True, d\<lparr> c_CurrentModeState := MODE_STATE_NORMAL \<rparr>) else (False, d))
             else (False, d));
          reply = core_exec_result (mc_SourceSequence Msg) 5 allowed (mc_RequestedState Msg)
      in if allowed then (d, Event CO_MODE_CMD_EID INFORMATION # reply)
         else (d\<lparr> c_ErrCounter := c_ErrCounter d + 1 \<rparr>, Event CO_MODE_CMD_EID ERROR # reply))"

definition CFS_CORE_APP_ProcessDiagnosticCommand ::
    "DIAGNOSTIC_CMD_TLM \<Rightarrow> CFS_CORE_APP_Data \<Rightarrow> CFS_CORE_APP_Data \<times> out list" where
  "CFS_CORE_APP_ProcessDiagnosticCommand Msg d =
     (if dc_DiagTarget Msg \<noteq> DIAG_TARGET_CFS_CORE then (d, [])
      else if dc_DiagAction Msg \<noteq> DIAG_ACTION_ROUTE_READBACK_REQUEST
      then (d, [Event CO_ROUTE_READBACK_EID ERROR])
      else let r = c_MissionRoute d in
        (d\<lparr> c_CmdCounter := c_CmdCounter d + 1 \<rparr>,
         [Event CO_ROUTE_READBACK_EID INFORMATION,
          Send (RouteSnapshot \<lparr> ru_Seq = mr_UpdateCount r, ru_TimestampMs = mr_TimestampMs r,
            ru_SourceSequence = ucast (dc_SourceSequence Msg), ru_RouteType = ROUTE_SEGMENT_NONE,
            ru_RouteVersion = mr_RouteVersion r, ru_WaypointCount = mr_WaypointCount r,
            ru_Waypoints = mr_Waypoints r \<rparr>)]))"

section \<open>Dispatcher, start-up and main loop\<close>

definition CFS_CORE_APP_Noop :: "CFS_CORE_APP_Data \<Rightarrow> CFS_CORE_APP_Data \<times> out list" where
  "CFS_CORE_APP_Noop d = (d\<lparr> c_CmdCounter := c_CmdCounter d + 1 \<rparr>, [Event CO_NOOP_EID INFORMATION])"

definition CFS_CORE_APP_ResetCounters :: "CFS_CORE_APP_Data \<Rightarrow> CFS_CORE_APP_Data \<times> out list" where
  "CFS_CORE_APP_ResetCounters d =
     (d\<lparr> c_CmdCounter := 0, c_ErrCounter := 0 \<rparr>, [Event CO_RESET_EID INFORMATION])"

definition core_count_error :: "CFS_CORE_APP_Data \<Rightarrow> CFS_CORE_APP_Data \<times> out list" where
  "core_count_error d = (d\<lparr> c_ErrCounter := c_ErrCounter d + 1 \<rparr>, [])"

text \<open>CFS_CORE_APP_VerifyCmdLength: a wrong length counts an error and ends the command.\<close>

definition CFS_CORE_APP_VerifyCmdLength ::
    "nat \<Rightarrow> nat \<Rightarrow> CFS_CORE_APP_Data \<Rightarrow> bool \<times> CFS_CORE_APP_Data \<times> out list" where
  "CFS_CORE_APP_VerifyCmdLength actual expected d =
     (if actual \<noteq> expected
      then (False, fst (core_count_error d), [Event CO_COMMAND_ERR_EID ERROR])
      else (True, d, []))"

definition core_command :: "u8 \<Rightarrow> u8 list \<Rightarrow> CFS_CORE_APP_Data \<Rightarrow> CFS_CORE_APP_Data \<times> out list" where
  "core_command FcnCode bs d =
     (if FcnCode = CFS_CORE_APP_NOOP_CC then
        (let (ok, r) = CFS_CORE_APP_VerifyCmdLength (length bs) 0 d in
         if ok then CFS_CORE_APP_Noop d else r)
      else if FcnCode = CFS_CORE_APP_RESET_COUNTERS_CC then
        (let (ok, r) = CFS_CORE_APP_VerifyCmdLength (length bs) 0 d in
         if ok then CFS_CORE_APP_ResetCounters d else r)
      else (fst (core_count_error d), [Event CO_COMMAND_ERR_EID ERROR]))"

definition CFS_CORE_APP_TaskPipe ::
    "core_env \<Rightarrow> sb_msg \<Rightarrow> CFS_CORE_APP_Data \<Rightarrow> CFS_CORE_APP_Data \<times> out list" where
  "CFS_CORE_APP_TaskPipe env msg d =
     (case msg of
        Unreadable \<Rightarrow> core_count_error d
      | BridgeHk h \<Rightarrow> CFS_CORE_APP_ProcessStateMessage env msg d
      | UplinkHk h \<Rightarrow> CFS_CORE_APP_ProcessStateMessage env msg d
      | LoraHk h \<Rightarrow> CFS_CORE_APP_ProcessStateMessage env msg d
      | FcEkfLocal m \<Rightarrow> CFS_CORE_APP_ProcessStateMessage env msg d
      | FcAttitude m \<Rightarrow> CFS_CORE_APP_ProcessStateMessage env msg d
      | FcGpsRaw m \<Rightarrow> CFS_CORE_APP_ProcessStateMessage env msg d
      | FcEkfStatus m \<Rightarrow> CFS_CORE_APP_ProcessStateMessage env msg d
      | RouteUpdate m \<Rightarrow> CFS_CORE_APP_ProcessStateMessage env msg d
      | FcMissionReadback m \<Rightarrow> CFS_CORE_APP_ProcessStateMessage env msg d
      | ConfigCmd m \<Rightarrow> CFS_CORE_APP_ProcessConfigCommand env m d
      | ViewpointCmd m \<Rightarrow> CFS_CORE_APP_ProcessViewpointCommand m d
      | RecoveryCmd m \<Rightarrow> CFS_CORE_APP_ProcessRecoveryCommand env m d
      | ModeCmd m \<Rightarrow> CFS_CORE_APP_ProcessModeCommand m d
      | DiagnosticCmd m \<Rightarrow> CFS_CORE_APP_ProcessDiagnosticCommand m d
      | Command mid fcn bs \<Rightarrow>
          if mid = CFS_CORE_APP_SEND_HK_MID then (d, CFS_CORE_APP_ReportHousekeeping d)
          else if mid \<noteq> CFS_CORE_APP_CMD_MID then core_count_error d
          else (case fcn of None \<Rightarrow> core_count_error d | Some c \<Rightarrow> core_command c bs d)
      | _ \<Rightarrow> core_count_error d)"

definition cfg_default :: CFS_CORE_APP_ConfigParams where
  "cfg_default = \<lparr> cfg_AttitudeTimeoutMs = 2000, cfg_LocalTimeoutMs = 2000, cfg_GpsTimeoutMs = 3000,
     cfg_EkfTimeoutMs = 2000, cfg_BridgeTimeoutMs = 3000, cfg_PublishPeriodMs = 1000 \<rparr>"

definition sc_zero :: CFS_CORE_APP_StateCache where
  "sc_zero = \<lparr> sc_TimestampMs = 0, sc_ArrivalMs = 0, sc_Seq = 0, sc_Valid = 0, sc_Stale = 0,
     sc_ErrorCode = 0, sc_Received = False \<rparr>"

definition is_zero :: INPUT_STATUS where
  "is_zero = \<lparr> is_Valid = 0, is_Stale = 0, is_ErrorCode = 0, is_TimedOut = 0 \<rparr>"

definition core_initial :: CFS_CORE_APP_Data where
  "core_initial = \<lparr> c_CmdCounter = 0, c_ErrCounter = 0, c_LastHealthState = 0,
     c_ConfigPendingState = 0, c_LastConfigResult = 0, c_ConfigGeneration = 0,
     c_ActiveConfig = cfg_default, c_PendingConfig = cfg_default, c_PreviousConfig = cfg_default,
     c_SeqRejectedCount = 0, c_SeqGapCount = 0, c_TimestampRejectedCount = 0,
     c_TimebaseShiftCount = 0, c_BridgeRestartCount = 0, c_NextBridgeRestartMs = 0,
     c_UplinkRestartCount = 0, c_NextUplinkRestartMs = 0, c_LoraRestartCount = 0,
     c_NextLoraRestartMs = 0, c_LastFaultCode = 0, c_NominalEligibleSince = 0,
     c_RecoveryStartMs = 0, c_RecoveryRequestedCount = 0, c_CurrentModeState = 0,
     c_LastModeRequestToken = 0, c_RunStatus = APP_RUN, c_SequenceCounter = 0, c_PublishCount = 0,
     c_LastPublishTimeMs = 0, c_AttitudeState = sc_zero, c_LocalState = sc_zero, c_GpsState = sc_zero,
     c_EkfState = sc_zero,
     c_BridgeState = \<lparr> bc_LinkState = 0, bc_LastErrorCode = 0, bc_LastRxTimestampMs = 0, bc_Received = False \<rparr>,
     c_UplinkAppState = \<lparr> ac_LastHkRxMs = 0, ac_Received = False \<rparr>,
     c_LoraAppState = \<lparr> ac_LastHkRxMs = 0, ac_Received = False \<rparr>,
     c_MissionRoute = \<lparr> mr_TimestampMs = 0, mr_SourceSequence = 0, mr_UpdateCount = 0, mr_RouteType = 0,
       mr_RouteVersion = 0, mr_WaypointCount = 0, mr_Valid = False,
       mr_Waypoints = replicate ROUTE_MAX_WAYPOINTS wp_zero \<rparr>,
     c_ViewpointCmd = \<lparr> vv_TimestampMs = 0, vv_SourceSequence = 0, vv_ViewpointType = 0,
       vv_PositionFrame = 0, vv_Valid = False, vv_X = 0, vv_Y = 0, vv_Z = 0, vv_Yaw = 0, vv_Pitch = 0,
       vv_HoldTimeMs = 0 \<rparr>,
     c_SystemHealthTlm = \<lparr> sh_Seq = 0, sh_TimestampMs = 0, sh_LastValidInputTimestampMs = 0,
       sh_HealthState = 0, sh_FaultCode = 0, sh_RecoveryRequested = 0, sh_AttitudeStatus = is_zero,
       sh_LocalStatus = is_zero, sh_GpsStatus = is_zero, sh_EkfStatus = is_zero,
       sh_BridgeStatus = \<lparr> bs_LinkState = 0, bs_ErrorCode = 0, bs_TimedOut = 0 \<rparr>,
       sh_UplinkTimedOut = 0, sh_LoraTimedOut = 0 \<rparr> \<rparr>"

definition CFS_CORE_APP_Init :: "bool \<Rightarrow> file_read \<Rightarrow> bool \<times> CFS_CORE_APP_Data \<times> out list" where
  "CFS_CORE_APP_Init platform_ok f =
     (if \<not> platform_ok then (False, core_initial, [])
      else let (d, os) = CFS_CORE_APP_LoadState f core_initial
           in (True, d, os @ [Event CO_STARTUP_EID INFORMATION]))"

datatype core_input = Core_Received core_env sb_msg | Core_Time_Out core_env | Core_Pipe_Error

fun core_turn :: "core_input \<Rightarrow> CFS_CORE_APP_Data \<Rightarrow> CFS_CORE_APP_Data \<times> out list" where
  "core_turn (Core_Received env m) d = CFS_CORE_APP_TaskPipe env m d"
| "core_turn (Core_Time_Out env) d = CFS_CORE_APP_ServicePrototype env d"
| "core_turn Core_Pipe_Error d = (d\<lparr> c_RunStatus := APP_ERROR \<rparr>, [Event CO_COMMAND_ERR_EID ERROR])"

fun core_loop :: "core_input list \<Rightarrow> CFS_CORE_APP_Data \<Rightarrow> CFS_CORE_APP_Data \<times> out list" where
  "core_loop [] d = (d, [])"
| "core_loop (i # is) d =
     (if c_RunStatus d \<noteq> APP_RUN then (d, [])
      else let (d', os) = core_turn i d in prepend os (core_loop is d'))"

definition CFS_CORE_APP_Main ::
    "bool \<Rightarrow> file_read \<Rightarrow> core_input list \<Rightarrow> CFS_CORE_APP_Data \<times> out list" where
  "CFS_CORE_APP_Main platform_ok f is =
     (let (ok, d, os) = CFS_CORE_APP_Init platform_ok f;
          d = (if ok then d else d\<lparr> c_RunStatus := APP_ERROR \<rparr>)
      in prepend os (core_loop is d))"

end
