(* ===== verification/Hold_Timer.thy ===== *)
theory Hold_Timer
  imports Acceptor
begin

text \<open>
  A timer that runs while a condition holds: a variable keeps the time at which the
  condition was first reported, is cleared when a report comes without the condition, and
  a decision falls once the time of a report is far enough from it.  cfs_core_app keeps two
  of them (the start of a recovery, the start of the stable period).  The locale states how
  the variable moves; its lemma says what a running timer means about the history of
  reports: an unbroken run of them carries the condition, and the variable is the time of
  the first of that run.  Reports are collected by \<^verbatim>\<open>taken\<close>.
\<close>

locale hold_timer =
  fixes step :: "'i \<Rightarrow> 's \<Rightarrow> 's"
    and report :: "'i \<Rightarrow> 's \<Rightarrow> 'p option"
    and since :: "'s \<Rightarrow> u32"
    and condition :: "'p \<Rightarrow> bool"
    and stamp :: "'p \<Rightarrow> u32"
  assumes quiet: "report i s = None \<Longrightarrow> since (step i s) = since s \<or> since (step i s) = 0"
    and runs: "report i s = Some p \<Longrightarrow>
      since (step i s) = (if \<not> condition p then 0 else if since s = 0 then stamp p else since s)"
begin

text \<open>\<^verbatim>\<open>hist\<close> ends with an unbroken run that began at the time in the variable.\<close>

definition running_since :: "'p list \<Rightarrow> u32 \<Rightarrow> bool" where
  "running_since hist t \<longleftrightarrow> (\<exists>xs zs. hist = xs @ zs \<and> zs \<noteq> [] \<and> list_all condition zs \<and> stamp (hd zs) = t)"

lemma running_step:
  assumes "since s \<noteq> 0 \<longrightarrow> running_since hist (since s)" "report i s = Some p" "since (step i s) \<noteq> 0"
  shows "running_since (hist @ [p]) (since (step i s))"
proof (cases "since s = 0")
  case True
  then show ?thesis using runs[OF assms(2)] assms(3)
    unfolding running_since_def by (intro exI[of _ hist] exI[of _ "[p]"]) (simp split: if_splits)
next
  case False
  then obtain xs zs where "hist = xs @ zs" "zs \<noteq> []" "list_all condition zs" "stamp (hd zs) = since s"
    using assms(1) unfolding running_since_def by blast
  then show ?thesis using runs[OF assms(2)] assms(3) False
    unfolding running_since_def by (intro exI[of _ xs] exI[of _ "zs @ [p]"]) (simp split: if_splits)
qed

text \<open>After any history from a cleared timer.\<close>

lemma run_history:
  assumes "since s = 0"
  shows "since (fold step is s) \<noteq> 0 \<longrightarrow> running_since (taken step report is s) (since (fold step is s))"
proof (induction "is" rule: rev_induct)
  case (snoc i "is")
  show ?case
  proof (cases "report i (fold step is s)")
    case None
    then show ?thesis using quiet[OF None] snoc by (auto simp: taken_append)
  next
    case (Some p)
    then show ?thesis using running_step[OF snoc Some] by (simp add: taken_append)
  qed
qed (simp add: assms)

end

text \<open>The unbroken run at the end of a history, and its first stamp that is not 0 (the
  program takes 0 for "not running", so a run that began at the instant 0 counts from its
  next report).\<close>

definition trailing_run :: "('p \<Rightarrow> bool) \<Rightarrow> 'p list \<Rightarrow> 'p list" where
  "trailing_run c hist = rev (takeWhile c (rev hist))"

fun first_nonzero :: "u32 list \<Rightarrow> u32" where
  "first_nonzero [] = 0"
| "first_nonzero (t # ts) = (if t = 0 then first_nonzero ts else t)"

lemma first_nonzero_append:
  "first_nonzero (xs @ ys) = (if first_nonzero xs = 0 then first_nonzero ys else first_nonzero xs)"
  by (induction xs) auto

lemma trailing_run_snoc [simp]:
  "trailing_run c (xs @ [p]) = (if c p then trailing_run c xs @ [p] else [])"
  by (simp add: trailing_run_def)

lemma trailing_run_Nil [simp]: "trailing_run c [] = []"
  by (simp add: trailing_run_def)

text \<open>A timer that nothing but a report touches: its variable is exactly the start of the
  current run.\<close>

locale steady_timer = hold_timer +
  assumes steady: "report i s = None \<Longrightarrow> since (step i s) = since s"
begin

lemma since_exact:
  assumes "since s = 0"
  shows "since (fold step is s) = first_nonzero (map stamp (trailing_run condition (taken step report is s)))"
proof (induction "is" rule: rev_induct)
  case (snoc i "is")
  show ?case
  proof (cases "report i (fold step is s)")
    case None
    then show ?thesis using steady[OF None] snoc by (simp add: taken_append)
  next
    case (Some p)
    then show ?thesis using runs[OF Some] snoc by (simp add: taken_append first_nonzero_append)
  qed
qed (simp add: assms)

end

end
