(* ===== verification/Core_Health.thy ===== *)
theory Core_Health
  imports Core Hold_Timer
begin

text \<open>
  The health state machine of cfs_core_app, seen from outside: the SYSTEM_HEALTH packets it
  publishes along a history of turns of the main loop.  The two hold timers of
  \<^verbatim>\<open>CFS_CORE_APP_UpdateHealth\<close> (\<^verbatim>\<open>NominalEligibleSince\<close>,
  \<^verbatim>\<open>RecoveryStartMs\<close>) are shown to be the times of unbroken runs of packets, so the
  properties speak about packets only.
\<close>

section \<open>The packets of a history\<close>

fun health_report :: "sb_msg \<Rightarrow> SYSTEM_HEALTH_TLM option" where
  "health_report (SystemHealth p) = Some p"
| "health_report _ = None"

definition health_packets :: "out list \<Rightarrow> SYSTEM_HEALTH_TLM list" where
  "health_packets os = List.map_filter health_report (sent os)"

lemma health_packets_simps [simp]:
  "health_packets [] = []"
  "health_packets (xs @ ys) = health_packets xs @ health_packets ys"
  "health_packets (Event e t # os) = health_packets os"
  "health_packets (Restart a # os) = health_packets os"
  "health_packets (StateFile bs # os) = health_packets os"
  "health_packets (Send m # os) = (case health_report m of None \<Rightarrow> [] | Some p \<Rightarrow> [p]) @ health_packets os"
  by (simp_all add: health_packets_def List.map_filter_def split: option.splits)

lemma health_packets_save [simp]:
  "health_packets (CFS_CORE_APP_SaveState r d) = []"
  "health_packets (core_exec_result s c b n) = []"
  "health_packets (CFS_CORE_APP_ReportHousekeeping d) = []"
  by (simp_all add: CFS_CORE_APP_SaveState_def save_file_def core_exec_result_def
      CFS_CORE_APP_ReportHousekeeping_def Let_def)

text \<open>One turn of the main loop, which does nothing once the run status has left RUN.\<close>

definition core_step :: "core_input \<Rightarrow> CFS_CORE_APP_Data \<Rightarrow> CFS_CORE_APP_Data \<times> out list" where
  "core_step i d = (if c_RunStatus d \<noteq> APP_RUN then (d, []) else core_turn i d)"

abbreviation core_next :: "core_input \<Rightarrow> CFS_CORE_APP_Data \<Rightarrow> CFS_CORE_APP_Data" where
  "core_next i d \<equiv> fst (core_step i d)"

definition core_report :: "core_input \<Rightarrow> CFS_CORE_APP_Data \<Rightarrow> SYSTEM_HEALTH_TLM option" where
  "core_report i d = (case health_packets (snd (core_step i d)) of [] \<Rightarrow> None | p # _ \<Rightarrow> Some p)"

text \<open>The timers and the state they lead to.\<close>

definition health_regs :: "CFS_CORE_APP_Data \<Rightarrow> u8 \<times> u32 \<times> u32" where
  "health_regs d = (c_LastHealthState d, c_NominalEligibleSince d, c_RecoveryStartMs d)"

text \<open>No fault of the priority chain; the GPS is not part of it.\<close>

definition all_clear :: "core_faults \<Rightarrow> bool" where
  "all_clear f \<longleftrightarrow> \<not> (f_Bridge f \<or> f_Ekf f \<or> f_Local f \<or> f_Attitude f \<or> f_Uplink f \<or> f_Lora f)"

text \<open>The faults read off a packet.\<close>

definition packet_faults :: "SYSTEM_HEALTH_TLM \<Rightarrow> core_faults" where
  "packet_faults p = \<lparr> f_Bridge = (bs_TimedOut (sh_BridgeStatus p) \<noteq> 0),
     f_Gps = (is_TimedOut (sh_GpsStatus p) \<noteq> 0), f_Ekf = (is_TimedOut (sh_EkfStatus p) \<noteq> 0),
     f_Local = (is_TimedOut (sh_LocalStatus p) \<noteq> 0),
     f_Attitude = (is_TimedOut (sh_AttitudeStatus p) \<noteq> 0),
     f_Uplink = (sh_UplinkTimedOut p \<noteq> 0), f_Lora = (sh_LoraTimedOut p \<noteq> 0) \<rparr>"

definition reports_clear :: "SYSTEM_HEALTH_TLM \<Rightarrow> bool" where
  "reports_clear p \<longleftrightarrow> all_clear (packet_faults p)"

definition reports_bridge_lost :: "SYSTEM_HEALTH_TLM \<Rightarrow> bool" where
  "reports_bridge_lost p \<longleftrightarrow> f_Bridge (packet_faults p)"

text \<open>The first fault in the order of priority.\<close>

definition first_fault :: "core_faults \<Rightarrow> CFS_CORE_APP_FaultCode" where
  "first_fault f = (if f_Bridge f then FAULT_BRIDGE_TIMEOUT else if f_Ekf f then FAULT_EKF_INVALID
     else if f_Local f then FAULT_LOCAL_TIMEOUT else if f_Attitude f then FAULT_ATTITUDE_TIMEOUT
     else if f_Uplink f then FAULT_UPLINK_TIMEOUT else if f_Lora f then FAULT_LORA_TIMEOUT
     else FAULT_NONE)"

section \<open>One publication\<close>

lemma bool_u8_0 [simp]: "bool_u8 b = 0 \<longleftrightarrow> \<not> b"
  by (simp add: bool_u8_def)

lemma check_frames:
  "health_regs (fst (snd (check_bridge env now t d))) = health_regs d"
  "health_regs (fst (snd (check_uplink env now t d))) = health_regs d"
  "health_regs (fst (snd (check_lora env now t d))) = health_regs d"
  "health_packets (snd (snd (check_bridge env now t d))) = []"
  "health_packets (snd (snd (check_uplink env now t d))) = []"
  "health_packets (snd (snd (check_lora env now t d))) = []"
  by (simp_all add: check_bridge_def check_uplink_def check_lora_def health_regs_def Let_def
      case_prod_unfold)

lemma CheckAppRestarts_frames:
  "health_regs (fst (CFS_CORE_APP_CheckAppRestarts env now f d)) = health_regs d"
  "health_packets (snd (CFS_CORE_APP_CheckAppRestarts env now f d)) = []"
  by (simp_all add: CFS_CORE_APP_CheckAppRestarts_def Let_def case_prod_unfold check_frames)

text \<open>The verdict of the priority chain as a function of the faults and the timers.\<close>

definition verdict :: "u32 \<Rightarrow> core_faults \<Rightarrow> u8 \<times> u32 \<times> u32
    \<Rightarrow> (CFS_CORE_APP_HealthState \<times> CFS_CORE_APP_FaultCode \<times> u8) \<times> (u8 \<times> u32 \<times> u32)" where
  "verdict now f regs =
     (let (last, elig, start) = regs;
          start' = (if start = 0 then now else start);
          elig' = (if elig = 0 then now else elig);
          stable = last = 0 \<or> now - elig' \<ge> 10000;
          h = (if f_Bridge f then (if now - start' \<ge> 30000 then HEALTH_FAILED else HEALTH_RECOVERY)
               else if all_clear f \<and> stable then HEALTH_NOMINAL else HEALTH_DEGRADED)
      in ((h, first_fault f, if f_Bridge f then 1 else 0),
          (health_val h, if all_clear f \<and> \<not> stable then elig' else 0,
           if f_Bridge f then start' else 0)))"

lemma assess_verdict:
  "fst (assess_health now f d) = fst (verdict now f (health_regs d))"
  "snd (health_regs (snd (assess_health now f d))) = snd (snd (verdict now f (health_regs d)))"
  by (auto simp: assess_health_def verdict_def first_fault_def health_regs_def all_clear_def Let_def)

lemma transition_regs:
  "health_regs (fst (health_transition env r d)) =
     (health_val (fst r), snd (health_regs d))"
  "health_packets (snd (health_transition env r d)) = []"
  by (simp_all add: health_transition_def health_regs_def Let_def case_prod_unfold)

text \<open>A cycle that is due publishes one packet, with the faults of this moment and the
  verdict on them.\<close>

definition cycle_due :: "u32 \<Rightarrow> bool \<Rightarrow> CFS_CORE_APP_Data \<Rightarrow> bool" where
  "cycle_due now force d \<longleftrightarrow>
     force \<or> now - c_LastPublishTimeMs d \<ge> cfg_PublishPeriodMs (c_ActiveConfig d)"

definition packet_shows :: "u32 \<Rightarrow> core_faults \<Rightarrow> CFS_CORE_APP_HealthState \<times> CFS_CORE_APP_FaultCode \<times> u8
    \<Rightarrow> SYSTEM_HEALTH_TLM \<Rightarrow> bool" where
  "packet_shows now f r p \<longleftrightarrow> sh_TimestampMs p = now \<and>
     (sh_HealthState p, sh_FaultCode p, sh_RecoveryRequested p) =
       (health_val (fst r), fault_val (fst (snd r)), snd (snd r)) \<and>
     packet_faults p = f"

lemma health_packet_shows: "packet_shows now f r (health_packet now lv f r d)"
  by (cases r) (simp add: packet_shows_def health_packet_def packet_faults_def input_status_def)

lemma UpdateHealth_not_due:
  "\<not> cycle_due now force d \<Longrightarrow> CFS_CORE_APP_UpdateHealth env now force d = (d, [])"
  by (auto simp: CFS_CORE_APP_UpdateHealth_def cycle_due_def not_le)

lemma UpdateHealth_due:
  assumes "cycle_due now force d"
  shows "\<exists>p. health_packets (snd (CFS_CORE_APP_UpdateHealth env now force d)) = [p] \<and>
      packet_shows now (core_faults_at now d) (fst (verdict now (core_faults_at now d) (health_regs d))) p \<and>
      health_regs (fst (CFS_CORE_APP_UpdateHealth env now force d)) =
        snd (verdict now (core_faults_at now d) (health_regs d))"
proof -
  define f where "f = core_faults_at now d"
  define d1 where "d1 = (fst (CFS_CORE_APP_CheckAppRestarts env now f d))
    \<lparr> c_LastPublishTimeMs := now,
      c_PublishCount := c_PublishCount (fst (CFS_CORE_APP_CheckAppRestarts env now f d)) + 1,
      c_SequenceCounter := c_SequenceCounter (fst (CFS_CORE_APP_CheckAppRestarts env now f d)) + 1 \<rparr>"
  have d1: "health_regs d1 = health_regs d"
    using CheckAppRestarts_frames(1)[of env now f d] by (simp add: d1_def health_regs_def)
  define r where "r = fst (assess_health now f d1)"
  define d2 where "d2 = snd (assess_health now f d1)"
  define p where "p = health_packet now (last_valid_input now d) f r d2"
  have due: "\<not> (\<not> force \<and> now - c_LastPublishTimeMs d < cfg_PublishPeriodMs (c_ActiveConfig d))"
    using assms by (auto simp: cycle_due_def)
  have eq: "CFS_CORE_APP_UpdateHealth env now force d =
     (fst (health_transition env r (d2\<lparr> c_SystemHealthTlm := p \<rparr>)),
      snd (CFS_CORE_APP_CheckAppRestarts env now f d) @
      snd (health_transition env r (d2\<lparr> c_SystemHealthTlm := p \<rparr>)) @ [Send (SystemHealth p)])"
    unfolding CFS_CORE_APP_UpdateHealth_def if_not_P[OF due]
    by (simp only: Let_def case_prod_unfold f_def d1_def r_def d2_def p_def fst_conv snd_conv)
  have r: "r = fst (verdict now f (health_regs d))"
    using assess_verdict(1)[of now f d1] by (simp add: r_def d1)
  have d2: "snd (health_regs d2) = snd (snd (verdict now f (health_regs d)))"
    using assess_verdict(2)[of now f d1] by (simp add: d2_def d1)
  have v: "fst (snd (verdict now f (health_regs d))) = health_val (fst r)"
    by (simp add: r verdict_def Let_def case_prod_unfold)
  have "health_regs (fst (CFS_CORE_APP_UpdateHealth env now force d)) = (health_val (fst r), snd (health_regs d2))"
    by (simp add: eq transition_regs) (simp add: health_regs_def)
  also have "\<dots> = snd (verdict now f (health_regs d))"
    using d2 v by (metis prod.collapse)
  finally have "health_regs (fst (CFS_CORE_APP_UpdateHealth env now force d)) =
    snd (verdict now f (health_regs d))" .
  moreover have "health_packets (snd (CFS_CORE_APP_UpdateHealth env now force d)) = [p]"
    by (simp add: eq CheckAppRestarts_frames transition_regs)
  moreover have "packet_shows now f r p" unfolding p_def by (rule health_packet_shows)
  ultimately show ?thesis unfolding f_def[symmetric] r by blast
qed

section \<open>One turn of the main loop\<close>

lemma put_counters_regs [simp]: "health_regs (put_counters k d) = health_regs d"
  by (simp add: put_counters_def health_regs_def)

lemma UpdateStateCache_silent:
  "health_packets (snd (snd (CFS_CORE_APP_UpdateStateCache m now c k))) = []"
  by (simp add: CFS_CORE_APP_UpdateStateCache_def Let_def)

lemma state_message_regs:
  "health_regs (fst (state_message now m d)) = health_regs d"
  "health_packets (snd (state_message now m d)) = []"
  by (cases m; simp add: state_message_def Let_def case_prod_unfold UpdateStateCache_silent;
      simp add: health_regs_def)+

definition quiet_turn :: "CFS_CORE_APP_Data \<Rightarrow> CFS_CORE_APP_Data \<times> out list \<Rightarrow> bool" where
  "quiet_turn d r \<longleftrightarrow> health_packets (snd r) = [] \<and>
     fst (health_regs (fst r)) = fst (health_regs d) \<and>
     fst (snd (health_regs (fst r))) = fst (snd (health_regs d)) \<and>
     snd (snd (health_regs (fst r))) \<in> {snd (snd (health_regs d)), 0}"

definition publishing_turn :: "CFS_CORE_APP_Data \<Rightarrow> CFS_CORE_APP_Data \<times> out list \<Rightarrow> bool" where
  "publishing_turn d r \<longleftrightarrow> (\<exists>now f p. health_packets (snd r) = [p] \<and>
     packet_shows now f (fst (verdict now f (health_regs d))) p \<and>
     health_regs (fst r) = snd (verdict now f (health_regs d)))"

lemma prepend_pair [simp]:
  "fst (prepend os r) = fst r" "snd (prepend os r) = os @ snd r"
  by (simp_all add: prepend_def)

lemma UpdateHealth_turn:
  "quiet_turn d (CFS_CORE_APP_UpdateHealth env now force d) \<or>
   publishing_turn d (CFS_CORE_APP_UpdateHealth env now force d)"
proof (cases "cycle_due now force d")
  case True
  then show ?thesis using UpdateHealth_due[OF True, of env] unfolding publishing_turn_def by blast
next
  case False
  then show ?thesis by (simp add: UpdateHealth_not_due quiet_turn_def)
qed

lemma ProcessStateMessage_turn:
  "quiet_turn d (CFS_CORE_APP_ProcessStateMessage env m d) \<or>
   publishing_turn d (CFS_CORE_APP_ProcessStateMessage env m d)"
proof (cases "m = Unreadable")
  case True
  then show ?thesis
    by (simp add: CFS_CORE_APP_ProcessStateMessage_def quiet_turn_def health_regs_def)
next
  case False
  then show ?thesis
    using UpdateHealth_turn[of "fst (state_message (GetTimeMs (ce_now env)) m d)" env "GetTimeMs (ce_now env)" True]
    by (simp add: CFS_CORE_APP_ProcessStateMessage_def case_prod_unfold Let_def quiet_turn_def
        publishing_turn_def state_message_regs)
qed

lemma quiet_commands:
  "quiet_turn d (CFS_CORE_APP_ProcessConfigCommand env m1 d)"
  "quiet_turn d (CFS_CORE_APP_ProcessViewpointCommand m2 d)"
  "quiet_turn d (CFS_CORE_APP_ProcessRecoveryCommand env m3 d)"
  "quiet_turn d (CFS_CORE_APP_ProcessModeCommand m4 d)"
  "quiet_turn d (CFS_CORE_APP_ProcessDiagnosticCommand m5 d)"
  "quiet_turn d (core_count_error d)"
  "quiet_turn d (core_command c bs d)"
  "quiet_turn d (d, CFS_CORE_APP_ReportHousekeeping d)"
  by (simp_all add: quiet_turn_def health_regs_def CFS_CORE_APP_ProcessConfigCommand_def
      core_config_reject_def Let_def CFS_CORE_APP_ProcessViewpointCommand_def
      CFS_CORE_APP_ProcessRecoveryCommand_def core_reset_counters_action_def
      core_restart_command_def CFS_CORE_APP_SendBridgeCtrlCmd_def transmit_def
      CFS_CORE_APP_ProcessModeCommand_def CFS_CORE_APP_ProcessDiagnosticCommand_def
      core_count_error_def core_command_def CFS_CORE_APP_VerifyCmdLength_def CFS_CORE_APP_Noop_def
      CFS_CORE_APP_ResetCounters_def split: option.splits)

lemma core_step_turn: "quiet_turn d (core_step i d) \<or> publishing_turn d (core_step i d)"
proof (cases "c_RunStatus d = APP_RUN")
  case True
  show ?thesis
  proof (cases i)
    case (Core_Received env m)
    then show ?thesis using True
      by (cases m) (simp_all add: core_step_def CFS_CORE_APP_TaskPipe_def quiet_commands
          ProcessStateMessage_turn split: option.splits)
  next
    case (Core_Time_Out env)
    then show ?thesis using True by (simp add: core_step_def CFS_CORE_APP_ServicePrototype_def UpdateHealth_turn)
  next
    case Core_Pipe_Error
    then show ?thesis using True by (simp add: core_step_def quiet_turn_def health_regs_def)
  qed
qed (simp add: core_step_def quiet_turn_def)

lemma core_report_None: "core_report i d = None \<Longrightarrow> quiet_turn d (core_step i d)"
  using core_step_turn[of d i] by (auto simp: core_report_def publishing_turn_def)

lemma core_report_Some:
  "core_report i d = Some p \<Longrightarrow> health_packets (snd (core_step i d)) = [p] \<and>
     (\<exists>now f. packet_shows now f (fst (verdict now f (health_regs d))) p \<and>
        health_regs (core_next i d) = snd (verdict now f (health_regs d)))"
proof -
  assume r: "core_report i d = Some p"
  then have "\<not> quiet_turn d (core_step i d)" by (auto simp: core_report_def quiet_turn_def)
  then have "publishing_turn d (core_step i d)" using core_step_turn[of d i] by blast
  then obtain now f q where "health_packets (snd (core_step i d)) = [q]"
      "packet_shows now f (fst (verdict now f (health_regs d))) q"
      "health_regs (core_next i d) = snd (verdict now f (health_regs d))"
    unfolding publishing_turn_def by blast
  moreover from this(1) r have "q = p" by (simp add: core_report_def)
  ultimately show ?thesis by blast
qed

text \<open>The packets of the main loop are those of its turns.\<close>

lemma stopped_reports: "c_RunStatus d \<noteq> APP_RUN \<Longrightarrow> taken core_next core_report is d = []"
  by (induction "is") (simp_all add: core_report_def core_step_def)

lemma core_loop_packets:
  "health_packets (snd (core_loop is d)) = taken core_next core_report is d"
proof (induction "is" arbitrary: d)
  case (Cons i "is")
  show ?case
  proof (cases "c_RunStatus d = APP_RUN")
    case True
    then have step: "core_step i d = core_turn i d" by (simp add: core_step_def)
    then have "health_packets (snd (core_turn i d)) = (case core_report i d of None \<Rightarrow> [] | Some p \<Rightarrow> [p])"
      using core_report_None[of i d] core_report_Some[of i d]
      by (cases "core_report i d") (auto simp: quiet_turn_def)
    then show ?thesis using True Cons
      by (simp add: case_prod_unfold Let_def step split: option.splits)
  next
    case False
    then show ?thesis using stopped_reports[of d "i # is"] by simp
  qed
qed simp

section \<open>The two hold timers\<close>

interpretation stable: steady_timer core_next core_report c_NominalEligibleSince
  "\<lambda>p. reports_clear p \<and> sh_HealthState p \<noteq> 0" sh_TimestampMs
proof
  fix i d p
  assume "core_report i d = None"
  then show "c_NominalEligibleSince (core_next i d) = c_NominalEligibleSince d"
    using core_report_None[of i d] by (simp add: quiet_turn_def health_regs_def)
  then show "c_NominalEligibleSince (core_next i d) = c_NominalEligibleSince d \<or>
      c_NominalEligibleSince (core_next i d) = 0" by simp
next
  fix i d p
  assume "core_report i d = Some p"
  then show "c_NominalEligibleSince (core_next i d) =
      (if \<not> (reports_clear p \<and> sh_HealthState p \<noteq> 0) then 0
       else if c_NominalEligibleSince d = 0 then sh_TimestampMs p else c_NominalEligibleSince d)"
    using core_report_Some[of i d p]
    by (auto simp: health_regs_def verdict_def Let_def reports_clear_def reports_bridge_lost_def packet_shows_def all_clear_def split: if_splits)
qed

interpretation recovering: hold_timer core_next core_report c_RecoveryStartMs
  reports_bridge_lost sh_TimestampMs
proof
  fix i d p
  show "core_report i d = None \<Longrightarrow> c_RecoveryStartMs (core_next i d) = c_RecoveryStartMs d \<or>
      c_RecoveryStartMs (core_next i d) = 0"
    using core_report_None[of i d] by (auto simp: quiet_turn_def health_regs_def)
  assume "core_report i d = Some p"
  then show "c_RecoveryStartMs (core_next i d) =
      (if \<not> reports_bridge_lost p then 0
       else if c_RecoveryStartMs d = 0 then sh_TimestampMs p else c_RecoveryStartMs d)"
    using core_report_Some[of i d p]
    by (auto simp: health_regs_def verdict_def Let_def reports_clear_def reports_bridge_lost_def packet_shows_def split: if_splits)
qed

text \<open>The last published state is the one the next verdict starts from.\<close>

lemma last_published:
  "taken core_next core_report is d \<noteq> [] \<Longrightarrow>
     c_LastHealthState (fold core_next is d) = sh_HealthState (last (taken core_next core_report is d))"
proof (induction "is" rule: rev_induct)
  case (snoc i "is")
  show ?case
  proof (cases "core_report i (fold core_next is d)")
    case None
    then show ?thesis using core_report_None[OF None] snoc
      by (simp add: taken_append quiet_turn_def health_regs_def)
  next
    case (Some p)
    then show ?thesis using core_report_Some[OF Some]
      by (auto simp: taken_append health_regs_def packet_shows_def verdict_def Let_def case_prod_unfold)
  qed
qed simp

section \<open>The packets of a whole run\<close>

text \<open>The packets from the start of the application on.\<close>

definition published :: "bool \<Rightarrow> file_read \<Rightarrow> core_input list \<Rightarrow> SYSTEM_HEALTH_TLM list" where
  "published ok f is = health_packets (snd (CFS_CORE_APP_Main ok f is))"

lemma core_initial_regs: "health_regs core_initial = (0, 0, 0)"
  by (simp add: core_initial_def health_regs_def)

lemma LoadState_timers:
  "snd (health_regs (fst (CFS_CORE_APP_LoadState f d))) = snd (health_regs d)"
  "health_packets (snd (CFS_CORE_APP_LoadState f d)) = []"
  by (simp_all add: CFS_CORE_APP_LoadState_def Let_def health_regs_def split: file_read.splits)

definition core_start :: "bool \<Rightarrow> file_read \<Rightarrow> CFS_CORE_APP_Data" where
  "core_start ok f = (if ok then fst (CFS_CORE_APP_LoadState f core_initial)
     else core_initial\<lparr> c_RunStatus := APP_ERROR \<rparr>)"

lemma core_start_timers:
  "c_NominalEligibleSince (core_start ok f) = 0" "c_RecoveryStartMs (core_start ok f) = 0"
  using LoadState_timers(1)[of f core_initial] core_initial_regs
  by (simp_all add: core_start_def health_regs_def)

lemma published_taken:
  "published ok f is = taken core_next core_report is (core_start ok f)"
  by (cases ok) (simp_all add: published_def CFS_CORE_APP_Main_def CFS_CORE_APP_Init_def
      core_loop_packets core_start_def case_prod_unfold Let_def LoadState_timers(2))

text \<open>Two concrete runs.  In the first every input is refreshed in time (the state file
  sets all timeouts of the configuration to 60 s) and the vehicle becomes NOMINAL at the
  11th second; in the second nothing is ever received.\<close>

definition at_second :: "nat \<Rightarrow> core_env" where
  "at_second t = \<lparr> ce_now = \<lparr> Seconds = of_nat t, Subseconds = 0 \<rparr>, ce_app_found = (\<lambda>_. True), ce_fcn_ok = True,
     ce_tx_ok = True, ce_save_restart = Save_Ok, ce_save = Save_Ok \<rparr>"


definition sample_bridge_hk :: "u32 \<Rightarrow> BRIDGE_HK_TLM" where
  "sample_bridge_hk t = \<lparr> bh_CommandCounter = 0, bh_CommandErrorCounter = 0, bh_LinkState = 1,
     bh_LastErrorCode = 0, bh_BytesReceived = 0, bh_ReconnectAttemptCount = 0, bh_ParseErrorCount = 0,
     bh_NonFiniteValueCount = 0, bh_LastRxTimestampMs = t, bh_MissionUploadSuccessCount = 0,
     bh_MissionUploadFailCount = 0, bh_LastUploadTimestampMs = 0, bh_LastUploadWaypointCount = 0,
     bh_LastUploadResult = 0 \<rparr>"

definition sample_uplink_hk :: UPLINK_HK_TLM where
  "sample_uplink_hk = \<lparr> uh_CommandCounter = 0, uh_CommandErrorCounter = 0, uh_PublishCount = 0, uh_LastPublishTimestampMs = 0 \<rparr>"

definition sample_lora_hk :: LORA_HK_TLM where
  "sample_lora_hk = \<lparr> lh_CommandCounter = 0, lh_CommandErrorCounter = 0, lh_LinkState = 1, lh_PacketType = 0,
     lh_AttitudeValid = 1, lh_LocalValid = 1, lh_GpsValid = 1, lh_EkfValid = 1, lh_SystemHealthState = 0,
     lh_PendingUplinkFeedback = 0, lh_TxCount = 0, lh_RxAckCount = 0, lh_RxCmdCount = 0,
     lh_RxErrorCount = 0, lh_NoAckCount = 0, lh_LastAckTimestampMs = 0 \<rparr>"

definition sample_attitude :: "u32 \<Rightarrow> FC_ATTITUDE_TLM" where
  "sample_attitude s = \<lparr> fc_TimestampMs = 900, fc_Seq = s, fc_Valid = 1, fc_Stale = 0, fc_ErrorCode = 0,
     fa_RollRad = 0, fa_PitchRad = 0, fa_YawRad = 0, fa_RollspeedRps = 0, fa_PitchspeedRps = 0, fa_YawspeedRps = 0 \<rparr>"

definition sample_local :: "u32 \<Rightarrow> FC_EKF_LOCAL_TLM" where
  "sample_local s = \<lparr> fc_TimestampMs = 900, fc_Seq = s, fc_Valid = 1, fc_Stale = 0, fc_ErrorCode = 0,
     fl_X_m = 0, fl_Y_m = 0, fl_Z_m = 0, fl_Vx_mps = 0, fl_Vy_mps = 0, fl_Vz_mps = 0 \<rparr>"

definition sample_ekf :: "u32 \<Rightarrow> FC_EKF_STATUS_TLM" where
  "sample_ekf s = \<lparr> fc_TimestampMs = 900, fc_Seq = s, fc_Valid = 1, fc_Stale = 0, fc_ErrorCode = 0, fe_Flags = 0 \<rparr>"


definition patient_file :: file_read where
  "patient_file = Contents (put_u32 0xCF5C0A00 @ [0, 1, 0, 0] @ put_u32 60000 @ put_u32 60000 @ put_u32 60000 @
     put_u32 60000 @ put_u32 60000 @ put_u32 60000 @ put_u32 0 @ put_u32 0 @ put_u32 0 @
     [0, 0, 0, 0] @ put_u32 (0xCF5C0A00 + 1 + 6 * 60000))"


definition stable_run :: "core_input list" where
  "stable_run = [Core_Received (at_second 1) (BridgeHk (sample_bridge_hk 900)),
     Core_Received (at_second 1) (FcEkfStatus (sample_ekf 1)),
     Core_Received (at_second 1) (FcEkfLocal (sample_local 1)),
     Core_Received (at_second 1) (FcAttitude (sample_attitude 1)),
     Core_Received (at_second 1) (UplinkHk sample_uplink_hk),
     Core_Received (at_second 1) (LoraHk sample_lora_hk),
     Core_Received (at_second 5) (UplinkHk sample_uplink_hk),
     Core_Received (at_second 5) (LoraHk sample_lora_hk),
     Core_Received (at_second 9) (UplinkHk sample_uplink_hk),
     Core_Received (at_second 9) (LoraHk sample_lora_hk),
     Core_Received (at_second 11) (UplinkHk sample_uplink_hk)]"

lemma stable_run_states:
  "map sh_HealthState (published True patient_file stable_run) = [1, 1, 1, 1, 1, 1, 1, 1, 1, 1, 0]"
  by code_simp

definition dead_run :: "core_input list" where
  "dead_run = [Core_Time_Out (at_second 1), Core_Time_Out (at_second 31)]"

lemma dead_run_states:
  "map sh_HealthState (published True No_File dead_run) = [2, 3]"
  by code_simp

text \<open>A packet of a run, with the state it was made in.\<close>

lemma published_split:
  assumes "published ok f is = xs @ q # ys"
  obtains pre i where "taken core_next core_report pre (core_start ok f) = xs"
    "core_report i (fold core_next pre (core_start ok f)) = Some q"
  using assms taken_split[of core_next core_report "is" "core_start ok f" xs q ys]
  unfolding published_taken by blast

text \<open>C10: the vehicle is declared NOMINAL again exactly when it is stable.  After any start,
  consider a packet published after others.  It is NOMINAL if and only if none of the faults
  of the priority chain is present in it and either the packet before was NOMINAL, or the
  unbroken run of fault-free packets just before it began at least 10 s before it.\<close>

theorem core_nominal_exact:
  assumes "published ok f is = xs @ q # ys" "xs \<noteq> []"
  defines "start \<equiv> first_nonzero (map sh_TimestampMs
     (trailing_run (\<lambda>p. reports_clear p \<and> sh_HealthState p \<noteq> 0) xs))"
  shows "sh_HealthState q = health_val HEALTH_NOMINAL \<longleftrightarrow>
     reports_clear q \<and> (sh_HealthState (last xs) = health_val HEALTH_NOMINAL \<or>
       start \<noteq> 0 \<and> sh_TimestampMs q - start \<ge> NOMINAL_STABILITY_MS)"
proof -
  obtain pre i where pre: "taken core_next core_report pre (core_start ok f) = xs"
    "core_report i (fold core_next pre (core_start ok f)) = Some q"
    using published_split[OF assms(1)] by blast
  define d where "d = fold core_next pre (core_start ok f)"
  have "c_LastHealthState d = sh_HealthState (last xs)"
    using last_published[of pre "core_start ok f"] pre assms(2) by (simp add: d_def)
  moreover have "c_NominalEligibleSince d = start"
    using stable.since_exact[of "core_start ok f" pre] core_start_timers pre
    by (simp add: d_def start_def)
  moreover obtain now g where
    "packet_shows now g (fst (verdict now g (health_regs d))) q"
    using core_report_Some[OF pre(2)] by (auto simp: d_def)
  ultimately show ?thesis
    by (auto simp: reports_clear_def reports_bridge_lost_def packet_shows_def verdict_def health_regs_def Let_def all_clear_def)
qed

theorem core_nominal_exact_witness:
  "\<exists>xs q. published True patient_file stable_run = xs @ [q] \<and> sh_HealthState (last xs) = 1 \<and>
     sh_HealthState q = 0 \<and> reports_clear q \<and>
     sh_TimestampMs q - first_nonzero (map sh_TimestampMs
       (trailing_run (\<lambda>p. reports_clear p \<and> sh_HealthState p \<noteq> 0) xs)) \<ge> 10000"
proof -
  define ps where "ps = published True patient_file stable_run"
  have states: "map sh_HealthState ps = [1, 1, 1, 1, 1, 1, 1, 1, 1, 1, 0]"
    unfolding ps_def by (rule stable_run_states)
  then have ne: "ps \<noteq> []" "butlast ps \<noteq> []" and split: "ps = butlast ps @ last ps # []"
    by (auto simp: butlast_conv_take dest: arg_cong[of _ _ length])
  have "last (map sh_HealthState ps) = sh_HealthState (last ps)"
    "last (map sh_HealthState (butlast ps)) = sh_HealthState (last (butlast ps))"
    using ne by (simp_all add: last_map)
  then have "sh_HealthState (last ps) = 0" "sh_HealthState (last (butlast ps)) = 1"
    by (simp_all add: map_butlast states)
  then show ?thesis
    using core_nominal_exact[OF split[unfolded ps_def] ne(2)[unfolded ps_def]] split
    by (intro exI[of _ "butlast ps"] exI[of _ "last ps"]) (simp add: ps_def)
qed

text \<open>C18: FAILED is declared only after the flight controller link was lost for 30 s.  A
  packet is FAILED only if it and an unbroken run of packets before it report the bridge
  timeout, and the run began at least 30 s before it.\<close>

theorem core_failed_needs_escalation:
  assumes "published ok f is = xs @ q # ys" "sh_HealthState q = health_val HEALTH_FAILED"
  shows "reports_bridge_lost q \<and> (\<exists>us zs. xs = us @ zs \<and> zs \<noteq> [] \<and>
     list_all reports_bridge_lost zs \<and>
     sh_TimestampMs q - sh_TimestampMs (hd zs) \<ge> FAILED_ESCALATION_MS)"
proof -
  obtain pre i where pre: "taken core_next core_report pre (core_start ok f) = xs"
    "core_report i (fold core_next pre (core_start ok f)) = Some q"
    using published_split[OF assms(1)] by blast
  define d where "d = fold core_next pre (core_start ok f)"
  obtain now g where q: "packet_shows now g (fst (verdict now g (health_regs d))) q"
    using core_report_Some[OF pre(2)] by (auto simp: d_def)
  then have lost: "reports_bridge_lost q" and start: "c_RecoveryStartMs d \<noteq> 0"
    "sh_TimestampMs q - c_RecoveryStartMs d \<ge> FAILED_ESCALATION_MS"
    using assms(2)
    by (auto simp: reports_clear_def reports_bridge_lost_def packet_shows_def verdict_def health_regs_def Let_def split: if_splits)
  from start(1) have "recovering.running_since xs (c_RecoveryStartMs d)"
    using recovering.run_history[of "core_start ok f" pre] core_start_timers pre
    by (simp add: d_def)
  then obtain us zs where "xs = us @ zs" "zs \<noteq> []" "list_all reports_bridge_lost zs"
    "sh_TimestampMs (hd zs) = c_RecoveryStartMs d"
    unfolding recovering.running_since_def by blast
  then show ?thesis using lost start(2) by (intro conjI exI[of _ us] exI[of _ zs]) simp_all
qed

theorem core_failed_needs_escalation_witness:
  "\<exists>p q. published True No_File dead_run = [p] @ q # [] \<and> reports_bridge_lost p \<and>
     reports_bridge_lost q \<and> sh_TimestampMs q - sh_TimestampMs p \<ge> 30000"
proof -
  obtain p q where ps: "published True No_File dead_run = [p] @ q # []" and "sh_HealthState q = 3"
    using dead_run_states by (auto simp: map_eq_Cons_conv)
  from core_failed_needs_escalation[OF ps] this(2)
  obtain us zs where "reports_bridge_lost q" "[p] = us @ zs" "zs \<noteq> []" "list_all reports_bridge_lost zs"
    "sh_TimestampMs q - sh_TimestampMs (hd zs) \<ge> 30000" by auto
  moreover from this(2,3) have "zs = [p]" by (cases us) auto
  ultimately show ?thesis using ps by auto
qed

definition consistent_packet :: "SYSTEM_HEALTH_TLM \<Rightarrow> bool" where
  "consistent_packet p \<longleftrightarrow>
     (let f = packet_faults p; s = sh_HealthState p in
      sh_FaultCode p = fault_val (first_fault f) \<and>
      sh_RecoveryRequested p = (if f_Bridge f then 1 else 0) \<and>
      s \<in> health_val ` (if f_Bridge f then {HEALTH_RECOVERY, HEALTH_FAILED}
           else if \<not> all_clear f then {HEALTH_DEGRADED} else {HEALTH_NOMINAL, HEALTH_DEGRADED}))"

text \<open>Every packet is consistent with the faults it lists.  Its fault code is the first
  of bridge, EKF, local position, attitude, uplink and lora; a lost bridge, and only that,
  means RECOVERY or FAILED with a recovery requested; any other fault means DEGRADED; without
  one the state is NOMINAL or, while not yet stable, DEGRADED.  The GPS never counts.\<close>

lemma core_packets_consistent: "list_all consistent_packet (published ok f is)"
proof -
  have "consistent_packet q" if "q \<in> set (published ok f is)" for q
  proof -
    from that obtain xs ys where "published ok f is = xs @ q # ys" by (meson split_list)
    then obtain pre i where "core_report i (fold core_next pre (core_start ok f)) = Some q"
      using published_split by blast
    then obtain now g regs where "packet_shows now g (fst (verdict now g regs)) q"
      using core_report_Some by blast
    then show ?thesis
      by (auto simp: packet_shows_def verdict_def Let_def consistent_packet_def case_prod_unfold
          all_clear_def split: if_splits)
  qed
  then show ?thesis by (simp add: list_all_iff)
qed

end
