(* ===== verification/Core_Restart.thy ===== *)
theory Core_Restart
  imports Core_Health
begin

text \<open>
  The restarts of the other applications that cfs_core_app orders in its health cycle
  (\<^verbatim>\<open>CFS_CORE_APP_CheckAppRestarts\<close>): whom, how many and how often.
\<close>

section \<open>Restarts of a turn\<close>

fun restarts :: "out list \<Rightarrow> es_app list" where
  "restarts [] = []"
| "restarts (Restart a # os) = a # restarts os"
| "restarts (x # os) = restarts os"

lemma restarts_append [simp]: "restarts (xs @ ys) = restarts xs @ restarts ys"
  by (induction xs rule: restarts.induct) simp_all

lemma restarts_save [simp]:
  "restarts (CFS_CORE_APP_SaveState r d) = []"
  "restarts (core_exec_result s c b n) = []"
  "restarts (CFS_CORE_APP_ReportHousekeeping d) = []"
  by (simp_all add: CFS_CORE_APP_SaveState_def save_file_def core_exec_result_def
      CFS_CORE_APP_ReportHousekeeping_def Let_def)

fun next_restart :: "es_app \<Rightarrow> CFS_CORE_APP_Data \<Rightarrow> u32" where
  "next_restart BRIDGE_APP d = c_NextBridgeRestartMs d"
| "next_restart UPLINK_APP d = c_NextUplinkRestartMs d"
| "next_restart LORA_APP d = c_NextLoraRestartMs d"

fun app_fault :: "es_app \<Rightarrow> core_faults \<Rightarrow> bool" where
  "app_fault BRIDGE_APP f = f_Bridge f"
| "app_fault UPLINK_APP f = f_Uplink f"
| "app_fault LORA_APP f = f_Lora f"

text \<open>The instant of a turn.\<close>

fun turn_now :: "core_input \<Rightarrow> u32" where
  "turn_now (Core_Received env m) = GetTimeMs (ce_now env)"
| "turn_now (Core_Time_Out env) = GetTimeMs (ce_now env)"
| "turn_now Core_Pipe_Error = 0"

definition turn_ms :: "core_input \<Rightarrow> nat" where
  "turn_ms i = unat (turn_now i)"

text \<open>A restart by the health cycle, not by a command from the ground.\<close>

definition ordered_from_ground :: "core_input \<Rightarrow> bool" where
  "ordered_from_ground i \<longleftrightarrow> (\<exists>env m. i = Core_Received env (RecoveryCmd m))"

definition auto_restarts :: "core_input \<Rightarrow> CFS_CORE_APP_Data \<Rightarrow> es_app list" where
  "auto_restarts i d = (case i of
     Core_Received env (RecoveryCmd m) \<Rightarrow> [] | _ \<Rightarrow> restarts (snd (core_step i d)))"

definition auto_restart :: "es_app \<Rightarrow> core_input \<Rightarrow> CFS_CORE_APP_Data \<Rightarrow> nat option" where
  "auto_restart app i d = (if app \<in> set (auto_restarts i d) then Some (turn_ms i) else None)"

section \<open>One cycle\<close>

text \<open>What a cycle may do to one application's timer.\<close>

definition timer_effect :: "u32 \<Rightarrow> bool \<Rightarrow> bool \<Rightarrow> u32 \<Rightarrow> u32 \<Rightarrow> bool" where
  "timer_effect now timed_out restarted n n' \<longleftrightarrow>
     (if restarted
      then timed_out \<and> n' = now + 5000 \<and> (if n = 0 then now + 5000 else n) \<le> now
      else n' = n \<or> n' = 0 \<or> (n = 0 \<and> n' = now + 5000))"

lemma check_effects:
  "timer_effect now t (fst (check_bridge env now t d)) (c_NextBridgeRestartMs d)
     (c_NextBridgeRestartMs (fst (snd (check_bridge env now t d))))"
  "timer_effect now t (fst (check_uplink env now t d)) (c_NextUplinkRestartMs d)
     (c_NextUplinkRestartMs (fst (snd (check_uplink env now t d))))"
  "timer_effect now t (fst (check_lora env now t d)) (c_NextLoraRestartMs d)
     (c_NextLoraRestartMs (fst (snd (check_lora env now t d))))"
  by (auto simp: timer_effect_def check_bridge_def check_uplink_def check_lora_def
      restart_timer_def Let_def)

lemma check_restarts:
  "restarts (snd (snd (check_bridge env now t d))) = (if fst (check_bridge env now t d) then [BRIDGE_APP] else [])"
  "restarts (snd (snd (check_uplink env now t d))) = (if fst (check_uplink env now t d) then [UPLINK_APP] else [])"
  "restarts (snd (snd (check_lora env now t d))) = (if fst (check_lora env now t d) then [LORA_APP] else [])"
  by (simp_all add: check_bridge_def check_uplink_def check_lora_def Let_def case_prod_unfold)

lemma check_other_timers:
  "c_NextUplinkRestartMs (fst (snd (check_bridge env now t d))) = c_NextUplinkRestartMs d"
  "c_NextLoraRestartMs (fst (snd (check_bridge env now t d))) = c_NextLoraRestartMs d"
  "c_NextBridgeRestartMs (fst (snd (check_uplink env now t d))) = c_NextBridgeRestartMs d"
  "c_NextLoraRestartMs (fst (snd (check_uplink env now t d))) = c_NextLoraRestartMs d"
  "c_NextBridgeRestartMs (fst (snd (check_lora env now t d))) = c_NextBridgeRestartMs d"
  "c_NextUplinkRestartMs (fst (snd (check_lora env now t d))) = c_NextUplinkRestartMs d"
  by (simp_all add: check_bridge_def check_uplink_def check_lora_def Let_def case_prod_unfold)

lemma timer_effect_refl [simp]: "timer_effect now t False n n"
  by (simp add: timer_effect_def)

lemma CheckAppRestarts_effect:
  fixes env :: core_env and now :: u32 and f :: core_faults and d :: CFS_CORE_APP_Data and app :: es_app
  defines "r \<equiv> CFS_CORE_APP_CheckAppRestarts env now f d"
  shows "length (restarts (snd r)) \<le> 1 \<and>
     timer_effect now (app_fault app f) (app \<in> set (restarts (snd r)))
       (next_restart app d) (next_restart app (fst r))"
proof -
  define b where "b = check_bridge env now (f_Bridge f) d"
  define u where "u = check_uplink env now (f_Uplink f) (fst (snd b))"
  define l where "l = check_lora env now (f_Lora f) (fst (snd u))"
  have r: "r = (if fst b then snd b else if fst u then (fst (snd u), snd (snd b) @ snd (snd u))
      else (fst (snd l), snd (snd b) @ snd (snd u) @ snd (snd l)))"
    by (simp add: r_def CFS_CORE_APP_CheckAppRestarts_def b_def u_def l_def case_prod_unfold Let_def)
  have eff: "timer_effect now (f_Bridge f) (fst b) (c_NextBridgeRestartMs d) (c_NextBridgeRestartMs (fst (snd b)))"
    "timer_effect now (f_Uplink f) (fst u) (c_NextUplinkRestartMs d) (c_NextUplinkRestartMs (fst (snd u)))"
    "timer_effect now (f_Lora f) (fst l) (c_NextLoraRestartMs d) (c_NextLoraRestartMs (fst (snd l)))"
    unfolding b_def u_def l_def
    using check_effects(1)[of now "f_Bridge f" env d]
      check_effects(2)[of now "f_Uplink f" env "fst (snd (check_bridge env now (f_Bridge f) d))"]
      check_effects(3)[of now "f_Lora f" env "fst (snd (check_uplink env now (f_Uplink f)
        (fst (snd (check_bridge env now (f_Bridge f) d)))))"]
    by (simp_all add: check_other_timers)
  have rs: "restarts (snd (snd b)) = (if fst b then [BRIDGE_APP] else [])"
    "restarts (snd (snd u)) = (if fst u then [UPLINK_APP] else [])"
    "restarts (snd (snd l)) = (if fst l then [LORA_APP] else [])"
    unfolding b_def u_def l_def by (rule check_restarts)+
  have keep: "c_NextUplinkRestartMs (fst (snd b)) = c_NextUplinkRestartMs d"
    "c_NextLoraRestartMs (fst (snd b)) = c_NextLoraRestartMs d"
    "c_NextBridgeRestartMs (fst (snd u)) = c_NextBridgeRestartMs (fst (snd b))"
    "c_NextLoraRestartMs (fst (snd u)) = c_NextLoraRestartMs (fst (snd b))"
    "c_NextBridgeRestartMs (fst (snd l)) = c_NextBridgeRestartMs (fst (snd u))"
    "c_NextUplinkRestartMs (fst (snd l)) = c_NextUplinkRestartMs (fst (snd u))"
    unfolding b_def u_def l_def by (rule check_other_timers)+
  show ?thesis
    by (cases app; cases "fst b"; cases "fst u"; cases "fst l"; insert eff; simp add: r rs keep)
qed

lemma assess_timers: "next_restart app (snd (assess_health now f d)) = next_restart app d"
  by (cases app) (auto simp: assess_health_def Let_def)

lemma transition_timers:
  "next_restart app (fst (health_transition env r d)) = next_restart app d"
  "restarts (snd (health_transition env r d)) = []"
  by (cases app; simp add: health_transition_def Let_def case_prod_unfold)+

lemma next_restart_frame [simp]:
  "next_restart app (d\<lparr> c_LastPublishTimeMs := x, c_PublishCount := y, c_SequenceCounter := z \<rparr>) = next_restart app d"
  "next_restart app (d\<lparr> c_SystemHealthTlm := p \<rparr>) = next_restart app d"
  by (cases app; simp)+

lemma UpdateHealth_restarts:
  assumes "cycle_due now force d"
  shows "restarts (snd (CFS_CORE_APP_UpdateHealth env now force d)) =
      restarts (snd (CFS_CORE_APP_CheckAppRestarts env now (core_faults_at now d) d))"
    "next_restart app (fst (CFS_CORE_APP_UpdateHealth env now force d)) =
      next_restart app (fst (CFS_CORE_APP_CheckAppRestarts env now (core_faults_at now d) d))"
proof -
  have due: "\<not> (\<not> force \<and> now - c_LastPublishTimeMs d < cfg_PublishPeriodMs (c_ActiveConfig d))"
    using assms by (auto simp: cycle_due_def)
  show "restarts (snd (CFS_CORE_APP_UpdateHealth env now force d)) =
      restarts (snd (CFS_CORE_APP_CheckAppRestarts env now (core_faults_at now d) d))"
    "next_restart app (fst (CFS_CORE_APP_UpdateHealth env now force d)) =
      next_restart app (fst (CFS_CORE_APP_CheckAppRestarts env now (core_faults_at now d) d))"
    unfolding CFS_CORE_APP_UpdateHealth_def if_not_P[OF due]
    by (simp_all only: Let_def case_prod_unfold fst_conv snd_conv restarts_append restarts.simps
        transition_timers assess_timers next_restart_frame append_Nil2)
qed

section \<open>One turn\<close>

definition restart_turn :: "es_app \<Rightarrow> u32 \<Rightarrow> es_app list \<Rightarrow> CFS_CORE_APP_Data \<Rightarrow> CFS_CORE_APP_Data \<Rightarrow> bool" where
  "restart_turn app now rs d d' \<longleftrightarrow> length rs \<le> 1 \<and>
     timer_effect now True (app \<in> set rs) (next_restart app d) (next_restart app d')"

lemma UpdateHealth_restart_turn:
  "restart_turn app now (restarts (snd (CFS_CORE_APP_UpdateHealth env now force d))) d
     (fst (CFS_CORE_APP_UpdateHealth env now force d))"
proof (cases "cycle_due now force d")
  case True
  show ?thesis
    using CheckAppRestarts_effect[of env now "core_faults_at now d" d app]
    unfolding restart_turn_def UpdateHealth_restarts[OF True]
    by (auto simp: timer_effect_def split: if_splits)
qed (simp add: UpdateHealth_not_due restart_turn_def)

lemma UpdateStateCache_restarts:
  "restarts (snd (snd (CFS_CORE_APP_UpdateStateCache m now c k))) = []"
  by (simp add: CFS_CORE_APP_UpdateStateCache_def Let_def)

lemma state_message_restarts:
  "next_restart app (fst (state_message now m d)) = next_restart app d"
  "restarts (snd (state_message now m d)) = []"
  by (cases m; cases app; simp add: state_message_def Let_def case_prod_unfold
      UpdateStateCache_restarts put_counters_def)+

lemma ProcessStateMessage_restart_turn:
  "restart_turn app (GetTimeMs (ce_now env)) (restarts (snd (CFS_CORE_APP_ProcessStateMessage env m d))) d
     (fst (CFS_CORE_APP_ProcessStateMessage env m d))"
proof (cases "m = Unreadable")
  case True
  then show ?thesis
    by (cases app) (simp_all add: CFS_CORE_APP_ProcessStateMessage_def restart_turn_def timer_effect_def)
next
  case False
  then show ?thesis
    using UpdateHealth_restart_turn[of app "GetTimeMs (ce_now env)" env True
        "fst (state_message (GetTimeMs (ce_now env)) m d)"]
    by (simp add: CFS_CORE_APP_ProcessStateMessage_def case_prod_unfold Let_def restart_turn_def
        state_message_restarts)
qed

text \<open>A command from the ground leaves a timer alone or clears it.\<close>

definition tame :: "es_app \<Rightarrow> CFS_CORE_APP_Data \<Rightarrow> CFS_CORE_APP_Data \<times> out list \<Rightarrow> bool" where
  "tame app d r \<longleftrightarrow> restarts (snd r) = [] \<and> next_restart app (fst r) \<in> {next_restart app d, 0}"

lemma tame_turn: "tame app d r \<Longrightarrow> restart_turn app now (restarts (snd r)) d (fst r)"
  by (auto simp: tame_def restart_turn_def timer_effect_def)

lemma tame_commands:
  "tame app d (CFS_CORE_APP_ProcessConfigCommand env m1 d)"
  "tame app d (CFS_CORE_APP_ProcessViewpointCommand m2 d)"
  "tame app d (CFS_CORE_APP_ProcessModeCommand m4 d)"
  "tame app d (CFS_CORE_APP_ProcessDiagnosticCommand m5 d)"
  "tame app d (core_count_error d)"
  "tame app d (core_command c bs d)"
  "tame app d (d, CFS_CORE_APP_ReportHousekeeping d)"
  by (cases app; simp add: tame_def CFS_CORE_APP_ProcessConfigCommand_def
      core_config_reject_def Let_def CFS_CORE_APP_ProcessViewpointCommand_def
      CFS_CORE_APP_ProcessModeCommand_def CFS_CORE_APP_ProcessDiagnosticCommand_def
      core_count_error_def core_command_def CFS_CORE_APP_VerifyCmdLength_def CFS_CORE_APP_Noop_def
      CFS_CORE_APP_ResetCounters_def split: option.splits)+

lemma recovery_timers:
  "next_restart app (fst (CFS_CORE_APP_ProcessRecoveryCommand env m d)) \<in> {next_restart app d, 0}"
  by (cases app; simp add: CFS_CORE_APP_ProcessRecoveryCommand_def core_reset_counters_action_def
      Let_def case_prod_unfold)

lemma core_restart_turn:
  "restart_turn app (turn_now i) (auto_restarts i d) d (core_next i d)"
proof (cases "c_RunStatus d = APP_RUN")
  case True
  then have step: "core_step j d = core_turn j d" for j by (simp add: core_step_def)
  show ?thesis
  proof (cases i)
    case (Core_Received env m)
    then show ?thesis
    proof (cases m)
      case (RecoveryCmd x)
      have "core_step i d = CFS_CORE_APP_ProcessRecoveryCommand env x d"
        unfolding step by (simp add: Core_Received RecoveryCmd CFS_CORE_APP_TaskPipe_def)
      moreover have "auto_restarts i d = []" by (simp add: auto_restarts_def Core_Received RecoveryCmd)
      ultimately show ?thesis using recovery_timers[of app env x d]
        by (auto simp: restart_turn_def timer_effect_def)
    qed (simp_all add: auto_restarts_def step CFS_CORE_APP_TaskPipe_def tame_commands tame_turn
        ProcessStateMessage_restart_turn split: option.splits)
  next
    case (Core_Time_Out env)
    then show ?thesis
      by (simp add: auto_restarts_def step CFS_CORE_APP_ServicePrototype_def UpdateHealth_restart_turn)
  next
    case Core_Pipe_Error
    then show ?thesis
      by (cases app) (simp_all add: auto_restarts_def step restart_turn_def timer_effect_def)
  qed
next
  case False
  then show ?thesis
    by (auto simp: core_step_def auto_restarts_def restart_turn_def split: core_input.splits sb_msg.splits)
qed

section \<open>Histories\<close>

text \<open>While the clock neither runs backwards nor reaches its last 5 s: if the timer stands
  at \<^verbatim>\<open>x\<close> or later (or is off and \<^verbatim>\<open>x\<close> is less than 5 s away), the next restart is
  not before \<^verbatim>\<open>x\<close>.\<close>

lemma restart_chain:
  assumes "sorted (t0 # map turn_ms is)" "list_all (\<lambda>i. turn_ms i + 5000 < 2 ^ 32) is"
    and "x \<le> t0 + 5000" "next_restart app d = 0 \<or> x \<le> unat (next_restart app d)"
  shows "case taken core_next (auto_restart app) is d of [] \<Rightarrow> True
    | t # ts \<Rightarrow> x \<le> t \<and> successively (\<lambda>a b. a + 5000 \<le> b) (t # ts)"
  using assms
proof (induction "is" arbitrary: t0 x d)
  case (Cons i "is")
  define n where "n = next_restart app d"
  define n' where "n' = next_restart app (core_next i d)"
  have t: "t0 \<le> turn_ms i" "turn_ms i + 5000 < 2 ^ 32" using Cons.prems by auto
  have plus: "unat (turn_now i + 5000) = turn_ms i + 5000"
    using t(2) unat_add_lem[of "turn_now i" "5000 :: u32"] by (simp add: turn_ms_def)
  have eff: "timer_effect (turn_now i) True (app \<in> set (auto_restarts i d)) n n'"
    using core_restart_turn[of app i d] by (simp add: restart_turn_def n_def n'_def)
  have rest: "sorted (turn_ms i # map turn_ms is)" "list_all (\<lambda>i. turn_ms i + 5000 < 2 ^ 32) is"
    using Cons.prems by auto
  show ?case
  proof (cases "app \<in> set (auto_restarts i d)")
    case True
    then have n': "n' = turn_now i + 5000" and due: "(if n = 0 then turn_now i + 5000 else n) \<le> turn_now i"
      using eff by (auto simp: timer_effect_def)
    have "n \<noteq> 0" using due plus by (auto simp: word_le_nat_alt turn_ms_def)
    then have "x \<le> turn_ms i" using due Cons.prems(4) by (simp add: n_def word_le_nat_alt turn_ms_def)
    moreover have "case taken core_next (auto_restart app) is (core_next i d) of [] \<Rightarrow> True
      | t # ts \<Rightarrow> turn_ms i + 5000 \<le> t \<and> successively (\<lambda>a b. a + 5000 \<le> b) (t # ts)"
      using Cons.IH[OF rest, of "turn_ms i + 5000" "core_next i d"] n' plus by (simp add: n'_def)
    moreover have "auto_restart app i d = Some (turn_ms i)" using True by (simp add: auto_restart_def)
    ultimately show ?thesis by (auto split: list.splits)
  next
    case False
    then have "n' = n \<or> n' = 0 \<or> n' = turn_now i + 5000"
      using eff by (auto simp: timer_effect_def)
    then have "n' = 0 \<or> x \<le> unat n'" using Cons.prems(3,4) t(1) plus by (auto simp: n_def)
    then have "case taken core_next (auto_restart app) is (core_next i d) of [] \<Rightarrow> True
      | t # ts \<Rightarrow> x \<le> t \<and> successively (\<lambda>a b. a + 5000 \<le> b) (t # ts)"
      using Cons.IH[OF rest, of x "core_next i d"] Cons.prems(3) t(1) by (simp add: n'_def)
    moreover have "auto_restart app i d = None" using False by (simp add: auto_restart_def)
    ultimately show ?thesis by simp
  qed
qed simp

text \<open>C19: an application is not restarted in a loop.  As long as the clock does not run
  backwards and stays 5 s away from the end of its 32 bits, any two restarts of the same
  application that the health cycles of a history order are at least 5 s apart, whatever
  messages and commands come in between.\<close>

theorem core_restart_cooldown:
  assumes "sorted (map turn_ms is)" "list_all (\<lambda>i. turn_ms i + 5000 < 2 ^ 32) is"
  shows "successively (\<lambda>a b. a + 5000 \<le> b) (taken core_next (auto_restart app) is d)"
  using restart_chain[of 0 "is" 0 app d] assms by (auto split: list.splits)

definition silent_run :: "core_input list" where
  "silent_run = [Core_Time_Out (at_second 1), Core_Time_Out (at_second 7), Core_Time_Out (at_second 13)]"

lemma silent_run_restarts:
  "taken core_next (auto_restart BRIDGE_APP) silent_run core_initial = [7000, 13000]"
  by code_simp

theorem core_restart_cooldown_witness:
  "taken core_next (auto_restart BRIDGE_APP) silent_run core_initial = [7000, 13000] \<and>
     successively (\<lambda>a b. a + 5000 \<le> b) [7000, 13000 :: nat]"
proof -
  have "sorted (map turn_ms silent_run)" "list_all (\<lambda>i. turn_ms i + 5000 < 2 ^ 32) silent_run"
    by (simp_all add: silent_run_def turn_ms_def at_second_def GetTimeMs_def time_ms64_def)
  from core_restart_cooldown[OF this, of BRIDGE_APP core_initial] show ?thesis
    by (simp add: silent_run_restarts)
qed

section \<open>Justified restarts\<close>

definition justified :: "es_app list \<Rightarrow> SYSTEM_HEALTH_TLM list \<Rightarrow> bool" where
  "justified rs ps \<longleftrightarrow> rs = [] \<or> (\<exists>app p. rs = [app] \<and> ps = [p] \<and> app_fault app (packet_faults p))"

lemma UpdateHealth_justified:
  "justified (restarts (snd (CFS_CORE_APP_UpdateHealth env now force d)))
     (health_packets (snd (CFS_CORE_APP_UpdateHealth env now force d)))"
proof (cases "cycle_due now force d")
  case True
  define rs where "rs = restarts (snd (CFS_CORE_APP_CheckAppRestarts env now (core_faults_at now d) d))"
  have len: "length rs \<le> 1" and fault: "app_fault app (core_faults_at now d)" if "app \<in> set rs" for app
    using CheckAppRestarts_effect[of env now "core_faults_at now d" d app] that
    by (simp_all add: rs_def timer_effect_def)
  obtain p where "health_packets (snd (CFS_CORE_APP_UpdateHealth env now force d)) = [p]"
    "packet_faults p = core_faults_at now d"
    using UpdateHealth_due[OF True, of env] by (auto simp: packet_shows_def)
  then show ?thesis
    using len fault unfolding UpdateHealth_restarts(1)[OF True] justified_def rs_def[symmetric]
    by (cases rs) auto
qed (simp add: UpdateHealth_not_due justified_def)

lemma ProcessStateMessage_justified:
  "justified (restarts (snd (CFS_CORE_APP_ProcessStateMessage env m d)))
     (health_packets (snd (CFS_CORE_APP_ProcessStateMessage env m d)))"
  using UpdateHealth_justified[of env "GetTimeMs (ce_now env)" True
      "fst (state_message (GetTimeMs (ce_now env)) m d)"]
  by (simp add: CFS_CORE_APP_ProcessStateMessage_def case_prod_unfold Let_def justified_def
      state_message_restarts state_message_regs)

text \<open>C14: no restart without a cause.  A turn of the main loop that is not a recovery command
  orders at most one restart, and only of an application whose time-out the health packet of
  the same turn reports.\<close>

theorem core_restart_justified:
  "justified (auto_restarts i d) (health_packets (snd (core_step i d)))"
proof (cases "c_RunStatus d = APP_RUN")
  case True
  then have step: "core_step j d = core_turn j d" for j by (simp add: core_step_def)
  have tame: "justified (restarts (snd r)) ps" if "tame BRIDGE_APP d r" for r ps
    using that by (simp add: tame_def justified_def)
  show ?thesis
  proof (cases i)
    case (Core_Received env m)
    then show ?thesis
      by (cases m) (simp_all add: auto_restarts_def step CFS_CORE_APP_TaskPipe_def tame tame_commands
          ProcessStateMessage_justified justified_def[of "[]"] split: option.splits)
  qed (simp_all add: auto_restarts_def step CFS_CORE_APP_ServicePrototype_def UpdateHealth_justified
      justified_def[of "[]"])
next
  case False
  then show ?thesis
    by (auto simp: core_step_def auto_restarts_def justified_def split: core_input.splits sb_msg.splits)
qed

section \<open>The last five seconds of the clock\<close>

lemma bridge_restart_now:
  assumes "f_Bridge (core_faults_at now d)" "ce_app_found env BRIDGE_APP"
    "(if c_NextBridgeRestartMs d = 0 then now + 5000 else c_NextBridgeRestartMs d) \<le> now"
  shows "restarts (snd (CFS_CORE_APP_UpdateHealth env now True d)) = [BRIDGE_APP]"
    "c_NextBridgeRestartMs (fst (CFS_CORE_APP_UpdateHealth env now True d)) = now + 5000"
proof -
  have due: "cycle_due now True d" by (simp add: cycle_due_def)
  have b: "check_bridge env now (f_Bridge (core_faults_at now d)) d =
      (True, snd (check_bridge env now True d))"
    using assms by (auto simp: check_bridge_def restart_timer_def Let_def)
  then have r: "CFS_CORE_APP_CheckAppRestarts env now (core_faults_at now d) d = snd (check_bridge env now True d)"
    unfolding CFS_CORE_APP_CheckAppRestarts_def b by simp
  show "restarts (snd (CFS_CORE_APP_UpdateHealth env now True d)) = [BRIDGE_APP]"
    "c_NextBridgeRestartMs (fst (CFS_CORE_APP_UpdateHealth env now True d)) = now + 5000"
    using UpdateHealth_restarts(1)[OF due, of env] UpdateHealth_restarts(2)[OF due, of BRIDGE_APP env] assms
    by (auto simp: r check_bridge_def restart_timer_def Let_def)
qed

text \<open>Near the end of the 32-bit millisecond clock the cooldown is lost.  In its last 5 s
  the time of the next restart wraps to a small number and is due at once: with the bridge
  timed out, every cycle, that is every telemetry message, orders another restart of the
  bridge, however close together they are.\<close>

lemma core_restart_storm_before_wrap:
  fixes now now' :: u32
  assumes "2 ^ 32 \<le> unat now + 5000" "now \<le> now'"
    and "c_NextBridgeRestartMs d = 0 \<or> c_NextBridgeRestartMs d \<le> now"
    and "ce_app_found env BRIDGE_APP" "ce_app_found env' BRIDGE_APP"
    and "f_Bridge (core_faults_at now d)"
    and "f_Bridge (core_faults_at now' (fst (CFS_CORE_APP_UpdateHealth env now True d)))"
  shows "restarts (snd (CFS_CORE_APP_UpdateHealth env now True d)) = [BRIDGE_APP] \<and>
     restarts (snd (CFS_CORE_APP_UpdateHealth env' now' True
       (fst (CFS_CORE_APP_UpdateHealth env now True d)))) = [BRIDGE_APP]"
proof -
  have wrap: "unat (now + 5000) = unat now + 5000 - 2 ^ 32"
    using assms(1) unat_plus_if'[of now "5000 :: u32"] by simp
  have before: "unat now < 2 ^ 32" by (unat_arith, simp)
  have before': "unat now' < 2 ^ 32" by (unat_arith, simp)
  have "now + 5000 \<le> now" using wrap before by (simp add: word_le_nat_alt)
  then have due: "(if c_NextBridgeRestartMs d = 0 then now + 5000 else c_NextBridgeRestartMs d) \<le> now"
    using assms(3) by auto
  note first = bridge_restart_now[OF assms(6,4) due]
  have "now' + 5000 \<le> now'"
  proof -
    have "2 ^ 32 \<le> unat now' + 5000" using assms(1,2) by (simp add: word_le_nat_alt)
    then have "unat (now' + 5000) = unat now' + 5000 - 2 ^ 32"
      using unat_plus_if'[of now' "5000 :: u32"] by simp
    then show ?thesis using before' by (simp add: word_le_nat_alt)
  qed
  moreover have "now + 5000 \<le> now'" using \<open>now + 5000 \<le> now\<close> assms(2) by simp
  ultimately have "(if c_NextBridgeRestartMs (fst (CFS_CORE_APP_UpdateHealth env now True d)) = 0
      then now' + 5000 else c_NextBridgeRestartMs (fst (CFS_CORE_APP_UpdateHealth env now True d))) \<le> now'"
    using first(2) by simp
  from bridge_restart_now(1)[OF assms(7,5) this] first(1) show ?thesis by simp
qed

text \<open>At the two last milliseconds, from the initial state.\<close>

lemma core_restart_storm_before_wrap_witness:
  "restarts (snd (CFS_CORE_APP_UpdateHealth (at_second 1) 0xFFFFFFFE True core_initial)) = [BRIDGE_APP] \<and>
   restarts (snd (CFS_CORE_APP_UpdateHealth (at_second 1) 0xFFFFFFFF True
     (fst (CFS_CORE_APP_UpdateHealth (at_second 1) 0xFFFFFFFE True core_initial)))) = [BRIDGE_APP]"
proof -
  have "(2 :: nat) ^ 32 \<le> unat (0xFFFFFFFE :: u32) + 5000" by simp
  moreover have "c_NextBridgeRestartMs core_initial = 0" by (simp add: core_initial_def)
  moreover have "ce_app_found (at_second 1) BRIDGE_APP" by (simp add: at_second_def)
  moreover have "f_Bridge (core_faults_at 0xFFFFFFFE core_initial)"
    by (simp add: core_faults_at_def core_initial_def)
  moreover have "f_Bridge (core_faults_at 0xFFFFFFFF
      (fst (CFS_CORE_APP_UpdateHealth (at_second 1) 0xFFFFFFFE True core_initial)))"
    by code_simp
  ultimately show ?thesis
    using core_restart_storm_before_wrap[of "0xFFFFFFFE" "0xFFFFFFFF" core_initial "at_second 1" "at_second 1"]
    by simp
qed

end
