(* ===== verification/Core_Frames.thy ===== *)
theory Core_Frames
  imports Core
begin

text \<open>
  What the operations of cfs_core_app leave alone: the health cycle touches neither the
  configuration nor the caches nor the mode, and among the turns of the main loop each of
  these parts belongs to few messages.
\<close>

text \<open>The configuration, the four state caches, the route cache and the mode.\<close>

definition core_inputs ::
    "CFS_CORE_APP_Data \<Rightarrow> CFS_CORE_APP_ConfigParams \<times> CFS_CORE_APP_StateCache \<times> CFS_CORE_APP_StateCache \<times>
       CFS_CORE_APP_StateCache \<times> CFS_CORE_APP_StateCache \<times> CFS_CORE_APP_RouteCache \<times> u8" where
  "core_inputs d = (c_ActiveConfig d, c_AttitudeState d, c_LocalState d, c_GpsState d, c_EkfState d,
     c_MissionRoute d, c_CurrentModeState d)"

lemma core_inputsD:
  "core_inputs d' = core_inputs d \<Longrightarrow> c_ActiveConfig d' = c_ActiveConfig d"
  "core_inputs d' = core_inputs d \<Longrightarrow> c_AttitudeState d' = c_AttitudeState d"
  "core_inputs d' = core_inputs d \<Longrightarrow> c_LocalState d' = c_LocalState d"
  "core_inputs d' = core_inputs d \<Longrightarrow> c_GpsState d' = c_GpsState d"
  "core_inputs d' = core_inputs d \<Longrightarrow> c_EkfState d' = c_EkfState d"
  "core_inputs d' = core_inputs d \<Longrightarrow> c_MissionRoute d' = c_MissionRoute d"
  "core_inputs d' = core_inputs d \<Longrightarrow> c_CurrentModeState d' = c_CurrentModeState d"
  by (simp_all add: core_inputs_def)

lemma check_inputs [simp]:
  "core_inputs (fst (snd (check_bridge env now t d))) = core_inputs d"
  "core_inputs (fst (snd (check_uplink env now t d))) = core_inputs d"
  "core_inputs (fst (snd (check_lora env now t d))) = core_inputs d"
  by (simp_all add: check_bridge_def check_uplink_def check_lora_def core_inputs_def Let_def
      case_prod_unfold)

lemma CheckAppRestarts_inputs [simp]:
  "core_inputs (fst (CFS_CORE_APP_CheckAppRestarts env now f d)) = core_inputs d"
  by (simp add: CFS_CORE_APP_CheckAppRestarts_def Let_def case_prod_unfold)

lemma assess_inputs [simp]: "core_inputs (snd (assess_health now f d)) = core_inputs d"
  by (simp add: assess_health_def core_inputs_def Let_def)

lemma transition_inputs [simp]: "core_inputs (fst (health_transition env r d)) = core_inputs d"
  by (simp add: health_transition_def core_inputs_def Let_def case_prod_unfold)

lemma publication_inputs [simp]:
  "core_inputs (d\<lparr> c_LastPublishTimeMs := x, c_PublishCount := y, c_SequenceCounter := z \<rparr>) = core_inputs d"
  "core_inputs (d\<lparr> c_SystemHealthTlm := p \<rparr>) = core_inputs d"
  by (simp_all add: core_inputs_def)

lemma UpdateHealth_inputs [simp]:
  "core_inputs (fst (CFS_CORE_APP_UpdateHealth env now force d)) = core_inputs d"
proof (cases "\<not> force \<and> now - c_LastPublishTimeMs d < cfg_PublishPeriodMs (c_ActiveConfig d)")
  case False
  show ?thesis
    unfolding CFS_CORE_APP_UpdateHealth_def if_not_P[OF False]
    by (simp only: Let_def case_prod_unfold fst_conv snd_conv transition_inputs publication_inputs
        assess_inputs CheckAppRestarts_inputs)
qed (simp add: CFS_CORE_APP_UpdateHealth_def)

lemma ProcessStateMessage_inputs:
  "m \<noteq> Unreadable \<Longrightarrow> core_inputs (fst (CFS_CORE_APP_ProcessStateMessage env m d)) =
     core_inputs (fst (state_message (GetTimeMs (ce_now env)) m d))"
  by (simp add: CFS_CORE_APP_ProcessStateMessage_def prepend_def case_prod_unfold Let_def)

lemma state_message_config:
  "c_ActiveConfig (fst (state_message now m d)) = c_ActiveConfig d"
  "c_CurrentModeState (fst (state_message now m d)) = c_CurrentModeState d"
  by (cases m; simp add: state_message_def Let_def case_prod_unfold put_counters_def)+

lemma command_inputs:
  "core_inputs (fst (CFS_CORE_APP_ProcessViewpointCommand m2 d)) = core_inputs d"
  "core_inputs (fst (CFS_CORE_APP_ProcessRecoveryCommand env m3 d)) = core_inputs d"
  "core_inputs (fst (CFS_CORE_APP_ProcessDiagnosticCommand m5 d)) = core_inputs d"
  "core_inputs (fst (core_count_error d)) = core_inputs d"
  "core_inputs (fst (core_command c bs d)) = core_inputs d"
  by (simp_all add: core_inputs_def CFS_CORE_APP_ProcessViewpointCommand_def
      CFS_CORE_APP_ProcessRecoveryCommand_def core_reset_counters_action_def
      CFS_CORE_APP_ProcessDiagnosticCommand_def
      core_count_error_def core_command_def CFS_CORE_APP_VerifyCmdLength_def CFS_CORE_APP_Noop_def
      CFS_CORE_APP_ResetCounters_def Let_def case_prod_unfold)

lemma mode_frame:
  "c_ActiveConfig (fst (CFS_CORE_APP_ProcessModeCommand m d)) = c_ActiveConfig d"
  "c_AttitudeState (fst (CFS_CORE_APP_ProcessModeCommand m d)) = c_AttitudeState d"
  "c_LocalState (fst (CFS_CORE_APP_ProcessModeCommand m d)) = c_LocalState d"
  "c_GpsState (fst (CFS_CORE_APP_ProcessModeCommand m d)) = c_GpsState d"
  "c_EkfState (fst (CFS_CORE_APP_ProcessModeCommand m d)) = c_EkfState d"
  "c_MissionRoute (fst (CFS_CORE_APP_ProcessModeCommand m d)) = c_MissionRoute d"
  by (simp_all add: CFS_CORE_APP_ProcessModeCommand_def Let_def case_prod_unfold)

lemma config_frame:
  "c_AttitudeState (fst (CFS_CORE_APP_ProcessConfigCommand env m d)) = c_AttitudeState d"
  "c_LocalState (fst (CFS_CORE_APP_ProcessConfigCommand env m d)) = c_LocalState d"
  "c_GpsState (fst (CFS_CORE_APP_ProcessConfigCommand env m d)) = c_GpsState d"
  "c_EkfState (fst (CFS_CORE_APP_ProcessConfigCommand env m d)) = c_EkfState d"
  "c_MissionRoute (fst (CFS_CORE_APP_ProcessConfigCommand env m d)) = c_MissionRoute d"
  "c_CurrentModeState (fst (CFS_CORE_APP_ProcessConfigCommand env m d)) = c_CurrentModeState d"
  by (simp_all add: CFS_CORE_APP_ProcessConfigCommand_def core_config_reject_def Let_def split: option.splits)

end
