(* ===== verification/Core_Cache.thy ===== *)
theory Core_Cache
  imports Core_Restart Core_Frames
begin

text \<open>
  The caches of the flight controller's state in cfs_core_app: each of the four streams
  (attitude, local position, GPS, EKF) takes packets in the order of their sequence numbers
  only.  The route cache follows the last full route.
\<close>

section \<open>The four streams\<close>

datatype fc_stream = Attitude_Stream | Local_Stream | Gps_Stream | Ekf_Stream

fun cache_of :: "fc_stream \<Rightarrow> CFS_CORE_APP_Data \<Rightarrow> CFS_CORE_APP_StateCache" where
  "cache_of Attitude_Stream d = c_AttitudeState d"
| "cache_of Local_Stream d = c_LocalState d"
| "cache_of Gps_Stream d = c_GpsState d"
| "cache_of Ekf_Stream d = c_EkfState d"

text \<open>The number a message carries for a stream.\<close>

fun stream_seq :: "fc_stream \<Rightarrow> sb_msg \<Rightarrow> u32 option" where
  "stream_seq Attitude_Stream (FcAttitude m) = Some (fc_Seq m)"
| "stream_seq Local_Stream (FcEkfLocal m) = Some (fc_Seq m)"
| "stream_seq Gps_Stream (FcGpsRaw m) = Some (fc_Seq m)"
| "stream_seq Ekf_Stream (FcEkfStatus m) = Some (fc_Seq m)"
| "stream_seq _ _ = None"

text \<open>What one turn may do to a cache: nothing, take a packet ahead of it, or withdraw its
  validity because a packet's values are not finite.\<close>

definition cache_effect :: "u32 option \<Rightarrow> CFS_CORE_APP_StateCache \<Rightarrow> CFS_CORE_APP_StateCache \<Rightarrow> bool" where
  "cache_effect sq c c' \<longleftrightarrow> c' = c \<or> c' = c\<lparr> sc_Valid := 0 \<rparr> \<or>
     (sc_Received c' \<and> Some (sc_Seq c') = sq \<and> (sc_Received c \<longrightarrow> sc_Seq c < sc_Seq c'))"

lemma UpdateStateCache_effect:
  fixes m :: "'m FC_STATE_PREFIX_scheme" and now :: u32 and c :: CFS_CORE_APP_StateCache
    and k :: cache_counters
  defines "c' \<equiv> fst (CFS_CORE_APP_UpdateStateCache m now c k)"
  shows "c' = c \<or> (sc_Received c' \<and> sc_Seq c' = fc_Seq m \<and> (sc_Received c \<longrightarrow> sc_Seq c < sc_Seq c'))"
proof (cases "c' = c")
  case False
  then have nf: "\<not> fc_TimestampMs m > now + TIMESTAMP_MAX_FUTURE_MS"
    and nd: "\<not> (sc_Received c \<and> fc_Seq m = sc_Seq c)" and nr: "\<not> (sc_Received c \<and> fc_Seq m < sc_Seq c)"
    by (auto simp: c'_def CFS_CORE_APP_UpdateStateCache_def Let_def)
  from nf have "sc_Received c' \<and> sc_Seq c' = fc_Seq m"
    unfolding c'_def CFS_CORE_APP_UpdateStateCache_def Let_def if_not_P[OF nf] if_not_P[OF nd] if_not_P[OF nr]
    by simp
  then show ?thesis using nd nr by auto
qed simp

lemma UpdateStateCache_effect':
  "cache_effect (Some (fc_Seq m)) c (fst (CFS_CORE_APP_UpdateStateCache m now c k))"
  "cache_effect (Some (fc_Seq m)) c ((fst (CFS_CORE_APP_UpdateStateCache m now c k))\<lparr> sc_Valid := 0 \<rparr>)"
  using UpdateStateCache_effect[of m now c k] by (auto simp: cache_effect_def)

lemma cache_effect_refl [simp]: "cache_effect sq c c"
  by (simp add: cache_effect_def)

lemma state_message_cache:
  "cache_effect (stream_seq st m) (cache_of st d) (cache_of st (fst (state_message now m d)))"
proof (cases m)
  case (FcAttitude x)
  then show ?thesis
    by (cases st) (auto simp: state_message_def put_counters_def Let_def case_prod_unfold
        UpdateStateCache_effect')
next
  case (FcEkfLocal x)
  then show ?thesis
    by (cases st) (auto simp: state_message_def put_counters_def Let_def case_prod_unfold
        UpdateStateCache_effect')
next
  case (FcGpsRaw x)
  then show ?thesis
    by (cases st) (auto simp: state_message_def put_counters_def Let_def case_prod_unfold
        UpdateStateCache_effect')
next
  case (FcEkfStatus x)
  then show ?thesis
    by (cases st) (auto simp: state_message_def put_counters_def Let_def case_prod_unfold
        UpdateStateCache_effect')
qed (cases st; simp add: state_message_def)+

lemma inputs_cache: "core_inputs d' = core_inputs d \<Longrightarrow> cache_of st d' = cache_of st d"
  by (cases st) (auto dest: core_inputsD)

lemma mode_config_cache:
  "cache_of st (fst (CFS_CORE_APP_ProcessModeCommand m d)) = cache_of st d"
  "cache_of st (fst (CFS_CORE_APP_ProcessConfigCommand env x d)) = cache_of st d"
  by (cases st; simp add: mode_frame config_frame)+

text \<open>The number that a turn brings for a stream.\<close>

definition turn_seq :: "fc_stream \<Rightarrow> core_input \<Rightarrow> u32 option" where
  "turn_seq st i = (case i of Core_Received env m \<Rightarrow> stream_seq st m | _ \<Rightarrow> None)"

lemma ProcessStateMessage_cache:
  "cache_effect (stream_seq st m) (cache_of st d) (cache_of st (fst (CFS_CORE_APP_ProcessStateMessage env m d)))"
proof (cases "m = Unreadable")
  case True
  then have "cache_of st (fst (CFS_CORE_APP_ProcessStateMessage env m d)) = cache_of st d"
    by (cases st) (simp_all add: CFS_CORE_APP_ProcessStateMessage_def)
  then show ?thesis by simp
next
  case False
  from inputs_cache[OF ProcessStateMessage_inputs[OF False]] state_message_cache
  show ?thesis by simp
qed

lemmas quiet_caches = mode_config_cache inputs_cache[OF command_inputs(1)] inputs_cache[OF command_inputs(2)]
  inputs_cache[OF command_inputs(3)] inputs_cache[OF command_inputs(4)] inputs_cache[OF command_inputs(5)]
  inputs_cache[OF UpdateHealth_inputs]

lemma core_turn_cache:
  "cache_effect (turn_seq st i) (cache_of st d) (cache_of st (core_next i d))"
proof (cases "c_RunStatus d = APP_RUN")
  case True
  then have step: "core_step j d = core_turn j d" for j by (simp add: core_step_def)
  show ?thesis
  proof (cases i)
    case (Core_Received env m)
    then show ?thesis using ProcessStateMessage_cache[of st m d env]
      by (cases m) (simp_all add: step turn_seq_def CFS_CORE_APP_TaskPipe_def quiet_caches
          split: option.splits)
  next
    case Core_Pipe_Error
    have "cache_of st (d\<lparr> c_RunStatus := x \<rparr>) = cache_of st d" for x by (cases st) simp_all
    then show ?thesis by (simp add: step Core_Pipe_Error)
  qed (simp add: step CFS_CORE_APP_ServicePrototype_def quiet_caches)
qed (simp add: core_step_def)

section \<open>The contract\<close>

text \<open>The number taken in a turn.\<close>

definition cache_took :: "fc_stream \<Rightarrow> core_input \<Rightarrow> CFS_CORE_APP_Data \<Rightarrow> u32 option" where
  "cache_took st i d = (if sc_Seq (cache_of st (core_next i d)) \<noteq> sc_Seq (cache_of st d)
     then Some (sc_Seq (cache_of st (core_next i d))) else None)"

interpretation cache: acceptor core_next "cache_took st" "\<lambda>d. sc_Seq (cache_of st d)"
  "(<) :: u32 \<Rightarrow> u32 \<Rightarrow> bool" "\<lambda>_ d. sc_Received (cache_of st d)" for st
proof
  fix n i d k
  assume live: "sc_Received (cache_of st d)"
  note eff = core_turn_cache[of st i d]
  show "cache_took st i d = Some k \<Longrightarrow> sc_Seq (cache_of st d) < k \<and> sc_Seq (cache_of st (core_next i d)) = k"
    using eff live by (auto simp: cache_took_def cache_effect_def split: if_splits)
  show "sc_Received (cache_of st (core_next i d))"
    using eff live by (auto simp: cache_effect_def)
qed (simp add: cache_took_def split: if_splits)

text \<open>C33: no stream runs backwards.  Once a stream has delivered a packet, the sequence
  numbers its cache goes through along any further history of turns are strictly
  increasing: a repeated or late packet never overwrites a newer one.\<close>

theorem core_cache_monotone:
  assumes "sc_Received (cache_of st d)"
  shows "successively (<) (sc_Seq (cache_of st d) # taken core_next (cache_took st) is d)"
  using cache.taken_chain assms .

definition attitude_run :: "core_input list" where
  "attitude_run = map (\<lambda>s. Core_Received (at_second 1) (FcAttitude (sample_attitude s))) [3, 2, 5, 5, 4, 9]"

theorem core_cache_monotone_witness:
  "taken core_next (cache_took Attitude_Stream) (tl attitude_run) (core_next (hd attitude_run) core_initial) = [5, 9] \<and>
   successively (<) [3, 5, 9 :: u32]"
proof -
  have "sc_Received (cache_of Attitude_Stream (core_next (hd attitude_run) core_initial))"
    "sc_Seq (cache_of Attitude_Stream (core_next (hd attitude_run) core_initial)) = 3"
    "taken core_next (cache_took Attitude_Stream) (tl attitude_run) (core_next (hd attitude_run) core_initial) = [5, 9]"
    by code_simp+
  with core_cache_monotone[OF this(1), of "tl attitude_run"] show ?thesis by simp
qed

section \<open>A source that starts again\<close>

lemma late_turn:
  assumes "sc_Received c" "cache_effect sq c c'" "\<forall>s. sq = Some s \<longrightarrow> s \<le> sc_Seq c"
  shows "sc_Received c' \<and> sc_Seq c' = sc_Seq c \<and> sc_ArrivalMs c' = sc_ArrivalMs c"
  using assms by (auto simp: cache_effect_def)

lemma late_history:
  assumes "sc_Received (cache_of st d)"
    "\<forall>i\<in>set is. \<forall>s. turn_seq st i = Some s \<longrightarrow> s \<le> sc_Seq (cache_of st d)"
  shows "sc_Received (cache_of st (fold core_next is d)) \<and>
     sc_Seq (cache_of st (fold core_next is d)) = sc_Seq (cache_of st d) \<and>
     sc_ArrivalMs (cache_of st (fold core_next is d)) = sc_ArrivalMs (cache_of st d) \<and>
     taken core_next (cache_took st) is d = []"
  using assms
proof (induction "is" arbitrary: d)
  case (Cons i "is")
  have "sc_Received (cache_of st (core_next i d)) \<and>
     sc_Seq (cache_of st (core_next i d)) = sc_Seq (cache_of st d) \<and>
     sc_ArrivalMs (cache_of st (core_next i d)) = sc_ArrivalMs (cache_of st d)"
    using late_turn[OF Cons.prems(1) core_turn_cache[of st i d]] Cons.prems(2) by simp
  then show ?case using Cons.IH[of "core_next i d"] Cons.prems(2) by (auto simp: cache_took_def)
qed simp

text \<open>A restarted source is not heard.  The bridge numbers its packets from 1 again
  after a restart, for instance one ordered by cfs_core_app itself.  As long as it has not
  passed the last number of its former life, the cache of a stream takes nothing of what it
  sends, however long that lasts and whatever else is received, and is unavailable once the
  time-out has passed since the last packet of the former life.\<close>

lemma core_cache_deaf_after_source_restart:
  assumes "sc_Received (cache_of st d)"
    and "\<forall>i\<in>set is. \<forall>s. turn_seq st i = Some s \<longrightarrow> s \<le> sc_Seq (cache_of st d)"
    and "now - sc_ArrivalMs (cache_of st d) > timeout"
  shows "taken core_next (cache_took st) is d = [] \<and>
     state_unavailable (cache_of st (fold core_next is d)) now timeout"
  using late_history[OF assms(1,2)] assms(3)
  by (simp add: state_unavailable_def CFS_CORE_APP_StateExpired_def)

text \<open>Number 9 was the last before the restart; 1, 2 and 3 follow, and the attitude is
  unavailable after 2 s.\<close>

definition restarted_run :: "core_input list" where
  "restarted_run = map (\<lambda>s. Core_Received (at_second 2) (FcAttitude (sample_attitude s))) [1, 2, 3]"

lemma core_cache_deaf_after_source_restart_witness:
  "let d = fold core_next attitude_run core_initial
   in sc_Seq (c_AttitudeState d) = 9 \<and>
     taken core_next (cache_took Attitude_Stream) restarted_run d = [] \<and>
     state_unavailable (c_AttitudeState (fold core_next restarted_run d)) 3001 2000"
proof -
  let ?d = "fold core_next attitude_run core_initial"
  have d: "sc_Received (cache_of Attitude_Stream ?d)" "sc_Seq (cache_of Attitude_Stream ?d) = 9"
    "3001 - sc_ArrivalMs (cache_of Attitude_Stream ?d) > 2000" by code_simp+
  have "\<forall>i\<in>set restarted_run. \<forall>s. turn_seq Attitude_Stream i = Some s \<longrightarrow> s \<le> sc_Seq (cache_of Attitude_Stream ?d)"
    unfolding d(2) by (simp add: restarted_run_def turn_seq_def sample_attitude_def)
  from core_cache_deaf_after_source_restart[OF d(1) this d(3)] d(2) show ?thesis
    by (simp only: Let_def cache_of.simps simp_thms)
qed

end
