(* ===== verification/Config_Receiver.thy ===== *)
theory Config_Receiver
  imports Shared_Msgs
begin

text \<open>
  Three applications subscribe to the same CONFIG command packet; the scope byte of its
  payload says whom it is for.  The locale states what each promises: a command for another
  scope is ignored without an answer (the answer of the application addressed must not race
  with others), a command for its own scope is answered by exactly one execution result, and
  the active configuration only changes when that result is OK.  Its lemmas are about whole
  sequences of commands.
\<close>

fun exec_result_of :: "sb_msg \<Rightarrow> EXEC_RESULT_TLM option" where
  "exec_result_of (ExecResult r) = Some r"
| "exec_result_of _ = None"

definition exec_results :: "out list \<Rightarrow> EXEC_RESULT_TLM list" where
  "exec_results os = List.map_filter exec_result_of (sent os)"

lemma exec_results_simps [simp]:
  "exec_results [] = []"
  "exec_results (xs @ ys) = exec_results xs @ exec_results ys"
  "exec_results (Event e t # os) = exec_results os"
  "exec_results (Restart a # os) = exec_results os"
  "exec_results (StateFile bs # os) = exec_results os"
  "exec_results (Serial bs # os) = exec_results os"
  "exec_results (Send m # os) = (case exec_result_of m of None \<Rightarrow> [] | Some p \<Rightarrow> [p]) @ exec_results os"
  by (simp_all add: exec_results_def List.map_filter_def split: option.splits)

definition config_scope :: "CONFIG_CMD_TLM \<Rightarrow> u8" where
  "config_scope m = byte_at (cc_Payload m) 0"

text \<open>The header is complete: uplink_app forwards no shorter payload.\<close>

definition has_config_header :: "CONFIG_CMD_TLM \<Rightarrow> bool" where
  "has_config_header m \<longleftrightarrow> cc_PayloadLength m \<ge> 8"

fun config_run :: "(CONFIG_CMD_TLM \<Rightarrow> 'd \<Rightarrow> 'd \<times> out list) \<Rightarrow> CONFIG_CMD_TLM list \<Rightarrow> 'd \<Rightarrow> 'd \<times> out list" where
  "config_run ap [] d = (d, [])"
| "config_run ap (m # ms) d =
     (let (d', os) = ap m d; (d'', os') = config_run ap ms d' in (d'', os @ os'))"

locale config_receiver =
  fixes ap :: "CONFIG_CMD_TLM \<Rightarrow> 'd \<Rightarrow> 'd \<times> out list"
    and scope :: u8
    and source :: EXEC_RESULT_Source
    and active :: "'d \<Rightarrow> 'c"
  assumes foreign: "has_config_header m \<Longrightarrow> config_scope m \<noteq> scope \<Longrightarrow>
      exec_results (snd (ap m d)) = [] \<and> active (fst (ap m d)) = active d"
    and own: "has_config_header m \<Longrightarrow> config_scope m = scope \<Longrightarrow>
      \<exists>r. exec_results (snd (ap m d)) = [r] \<and> er_SourceSequence r = cc_SourceSequence m \<and>
        er_SourceApp r = source_val source \<and> er_CommandClass r = 1 \<and>
        (er_GenericResult r = EXEC_RESULT_GENERIC_OK \<or> active (fst (ap m d)) = active d)"
begin

lemma answers:
  "list_all has_config_header ms \<Longrightarrow>
     map er_SourceSequence (exec_results (snd (config_run ap ms d))) =
       map cc_SourceSequence (filter (\<lambda>m. config_scope m = scope) ms) \<and>
     list_all (\<lambda>r. er_SourceApp r = source_val source \<and> er_CommandClass r = 1)
       (exec_results (snd (config_run ap ms d)))"
proof (induction ms arbitrary: d)
  case (Cons m ms)
  then show ?case
    using foreign[of m d] own[of m d]
    by (cases "config_scope m = scope") (auto simp: case_prod_unfold Let_def)
qed simp

lemma unchanged_without_ok:
  "list_all has_config_header ms \<Longrightarrow>
     list_all (\<lambda>r. er_GenericResult r \<noteq> EXEC_RESULT_GENERIC_OK) (exec_results (snd (config_run ap ms d))) \<Longrightarrow>
     active (fst (config_run ap ms d)) = active d"
proof (induction ms arbitrary: d)
  case (Cons m ms)
  then show ?case
    using foreign[of m d] own[of m d]
    by (cases "config_scope m = scope") (auto simp: case_prod_unfold Let_def)
qed simp

end

end
