(* ===== verification/Core_Config.thy ===== *)
theory Core_Config
  imports Core_Health Core_Frames Config_Receiver State_File
begin

text \<open>
  The configuration of cfs_core_app: the double buffer behind
  \<^verbatim>\<open>CFS_CORE_APP_ProcessConfigCommand\<close>, its bounds over whole runs, the answers to the
  ground, and the state file that keeps it.
\<close>

section \<open>The command\<close>

text \<open>A parameter value is a time of 100 ms to 60 s.\<close>

definition time_ok :: "u32 \<Rightarrow> bool" where
  "time_ok v \<longleftrightarrow> 100 \<le> v \<and> v \<le> 60000"

definition cfg_ok :: "CFS_CORE_APP_ConfigParams \<Rightarrow> bool" where
  "cfg_ok a \<longleftrightarrow> time_ok (cfg_AttitudeTimeoutMs a) \<and> time_ok (cfg_LocalTimeoutMs a) \<and>
     time_ok (cfg_GpsTimeoutMs a) \<and> time_ok (cfg_EkfTimeoutMs a) \<and>
     time_ok (cfg_BridgeTimeoutMs a) \<and> time_ok (cfg_PublishPeriodMs a)"

lemma cfg_default_ok [simp]: "cfg_ok cfg_default"
  by (simp add: cfg_ok_def cfg_default_def time_ok_def)

text \<open>A well-formed command of this application's scope, version 1: one 32-bit value, the
  right checksum, a known parameter and a value in range.\<close>

definition config_valid :: "CONFIG_CMD_TLM \<Rightarrow> bool" where
  "config_valid m \<longleftrightarrow>
     (let h = config_hdr (cc_Payload m) in
      cc_PayloadLength m \<ge> 12 \<and> cp_ConfigScope h = CORE_CONFIG_SCOPE \<and>
      cp_ConfigVersion h = CORE_CONFIG_VERSION \<and> cp_ValueLength h = 4 \<and>
      cp_Checksum h = CFS_CORE_APP_ConfigChecksum h (drop 8 (cc_Payload m)) 4 \<and>
      cp_ParameterId h \<le> 5 \<and> time_ok (get_u32 (cc_Payload m) 8))"

text \<open>The parameter it addresses, by its number.\<close>

definition with_param :: "u16 \<Rightarrow> u32 \<Rightarrow> CFS_CORE_APP_ConfigParams \<Rightarrow> CFS_CORE_APP_ConfigParams" where
  "with_param p v a =
     \<lparr> cfg_AttitudeTimeoutMs = (if p = 0 then v else cfg_AttitudeTimeoutMs a),
       cfg_LocalTimeoutMs = (if p = 1 then v else cfg_LocalTimeoutMs a),
       cfg_GpsTimeoutMs = (if p = 2 then v else cfg_GpsTimeoutMs a),
       cfg_EkfTimeoutMs = (if p = 3 then v else cfg_EkfTimeoutMs a),
       cfg_BridgeTimeoutMs = (if p = 4 then v else cfg_BridgeTimeoutMs a),
       cfg_PublishPeriodMs = (if p = 5 then v else cfg_PublishPeriodMs a) \<rparr>"

lemma param_values: "(p :: u16) \<le> 5 \<longleftrightarrow> p \<in> {0, 1, 2, 3, 4, 5}"
proof
  assume "p \<le> 5"
  then have "unat p \<le> 5" by (simp add: word_le_nat_alt)
  then have "unat p \<in> {0, 1, 2, 3, 4, 5}" by auto
  then show "p \<in> {0, 1, 2, 3, 4, 5}" by (auto simp: word_unat_eq_iff)
qed auto

lemma param_update_some:
  "p \<le> 5 \<Longrightarrow> core_param_update p v a = Some (with_param p v a)"
  by (auto simp: param_values core_param_update_def with_param_def)

lemma param_update_none: "\<not> p \<le> 5 \<Longrightarrow> core_param_update p v a = None"
  unfolding param_values by (simp add: core_param_update_def)

lemma with_param_ok: "cfg_ok a \<Longrightarrow> time_ok v \<Longrightarrow> cfg_ok (with_param p v a)"
  by (simp add: cfg_ok_def with_param_def)

lemma ok_not_low: "cfg_ok a \<Longrightarrow> \<not> (cfg_AttitudeTimeoutMs a < 100 \<or> cfg_LocalTimeoutMs a < 100 \<or>
     cfg_GpsTimeoutMs a < 100 \<or> cfg_EkfTimeoutMs a < 100 \<or> cfg_BridgeTimeoutMs a < 100 \<or>
     cfg_PublishPeriodMs a < 100)"
  by (simp add: cfg_ok_def time_ok_def not_less)

lemma config_accept:
  assumes "config_valid m" "cfg_ok (c_ActiveConfig d)"
  shows "CFS_CORE_APP_ProcessConfigCommand env m d =
     (let p = cp_ParameterId (config_hdr (cc_Payload m)); v = get_u32 (cc_Payload m) 8;
          new = with_param p v (c_ActiveConfig d);
          d' = d\<lparr> c_PendingConfig := new, c_PreviousConfig := c_ActiveConfig d,
                 c_ActiveConfig := new, c_ConfigGeneration := c_ConfigGeneration d + 1,
                 c_ConfigPendingState := CORE_PENDING_IDLE, c_LastConfigResult := 0,
                 c_CmdCounter := c_CmdCounter d + 1 \<rparr>
      in (d', CFS_CORE_APP_SaveState (ce_save env) d' @ [Event CO_STARTUP_EID INFORMATION] @
              core_exec_result (cc_SourceSequence m) 1 True 0))"
proof -
  define h where "h = config_hdr (cc_Payload m)"
  define v where "v = get_u32 (cc_Payload m) 8"
  define new where "new = with_param (cp_ParameterId h) v (c_ActiveConfig d)"
  have h: "cc_PayloadLength m \<ge> 12" "cp_ConfigScope h = 1" "cp_ConfigVersion h = 1"
    "cp_ValueLength h = 4" "cp_Checksum h = CFS_CORE_APP_ConfigChecksum h (drop 8 (cc_Payload m)) 4"
    "cp_ParameterId h \<le> 5" "time_ok v"
    using assms(1) by (simp_all add: config_valid_def h_def v_def Let_def)
  have len: "\<not> cc_PayloadLength m < 8" "\<not> (12 :: u8) > cc_PayloadLength m"
    using h(1) by (auto simp: word_less_nat_alt word_le_nat_alt)
  have v: "\<not> (v < 100 \<or> v > 60000)" using h(7) by (auto simp: time_ok_def)
  have new: "cfg_ok new" unfolding new_def by (rule with_param_ok[OF assms(2) h(7)])
  have upd: "core_param_update (cp_ParameterId h) v (c_ActiveConfig d) = Some new"
    unfolding new_def by (rule param_update_some[OF h(6)])
  show ?thesis
    unfolding CFS_CORE_APP_ProcessConfigCommand_def Let_def h_def[symmetric] v_def[symmetric]
      new_def[symmetric]
    using len v h upd ok_not_low[OF new] by simp
qed

lemma config_refuse:
  fixes env :: core_env and m :: CONFIG_CMD_TLM and d :: CFS_CORE_APP_Data
  assumes "\<not> config_valid m" "cfg_ok (c_ActiveConfig d)"
  defines "r \<equiv> CFS_CORE_APP_ProcessConfigCommand env m d"
  shows "c_ActiveConfig (fst r) = c_ActiveConfig d \<and> c_PreviousConfig (fst r) = c_PreviousConfig d \<and>
     c_ConfigGeneration (fst r) = c_ConfigGeneration d \<and>
     c_ErrCounter (fst r) = c_ErrCounter d + 1 \<and> disk_after f (snd r) = f \<and>
     (if cc_PayloadLength m \<ge> 8 \<and> byte_at (cc_Payload m) 0 \<noteq> CORE_CONFIG_SCOPE then sent (snd r) = []
      else \<exists>why. why \<noteq> 0 \<and> sent (snd r) = sent (core_exec_result (cc_SourceSequence m) 1 False why))"
proof -
  define h where "h = config_hdr (cc_Payload m)"
  define v where "v = get_u32 (cc_Payload m) 8"
  have scope: "byte_at (cc_Payload m) 0 = cp_ConfigScope h" by (simp add: h_def config_hdr_def)
  have eight: "\<not> cc_PayloadLength m < 8 \<longleftrightarrow> cc_PayloadLength m \<ge> 8" by auto
  have not_ok: "cc_PayloadLength m < 8 \<or> cp_ConfigScope h \<noteq> 1 \<or> cp_ConfigVersion h \<noteq> 1 \<or>
     cp_ValueLength h \<noteq> 4 \<or> 12 > cc_PayloadLength m \<or>
     cp_Checksum h \<noteq> CFS_CORE_APP_ConfigChecksum h (drop 8 (cc_Payload m)) 4 \<or>
     (v < 100 \<or> v > 60000) \<or> \<not> cp_ParameterId h \<le> 5"
    using assms(1) by (auto simp: config_valid_def Let_def h_def v_def time_ok_def)
  show ?thesis
    unfolding r_def CFS_CORE_APP_ProcessConfigCommand_def Let_def h_def[symmetric] v_def[symmetric]
      scope eight[symmetric]
    using not_ok by (auto simp: core_config_reject_def core_exec_result_def param_update_none)
qed

text \<open>C25: a configuration command is applied all or nothing.  Starting from a configuration in
  range, a valid command changes exactly the parameter it names to its value, keeps the old
  configuration as the previous one, counts a generation, writes the state file and is
  answered OK.  Any other command leaves active and previous configuration, generation and
  file alone, counts one error and is answered FAILED with the reason, except that a command
  for another application's scope is not answered at all.\<close>

theorem core_config_exact:
  fixes m :: CONFIG_CMD_TLM and d :: CFS_CORE_APP_Data and env :: core_env
  assumes "cfg_ok (c_ActiveConfig d)"
  defines "r \<equiv> CFS_CORE_APP_ProcessConfigCommand env m d"
  shows "if config_valid m
     then c_ActiveConfig (fst r) = with_param (cp_ParameterId (config_hdr (cc_Payload m)))
            (get_u32 (cc_Payload m) 8) (c_ActiveConfig d) \<and>
          c_PreviousConfig (fst r) = c_ActiveConfig d \<and>
          c_ConfigGeneration (fst r) = c_ConfigGeneration d + 1 \<and>
          c_ErrCounter (fst r) = c_ErrCounter d \<and>
          disk_after f (snd r) = disk_after f (CFS_CORE_APP_SaveState (ce_save env) (fst r)) \<and>
          sent (snd r) = sent (core_exec_result (cc_SourceSequence m) 1 True 0)
     else c_ActiveConfig (fst r) = c_ActiveConfig d \<and> c_PreviousConfig (fst r) = c_PreviousConfig d \<and>
          c_ConfigGeneration (fst r) = c_ConfigGeneration d \<and>
          c_ErrCounter (fst r) = c_ErrCounter d + 1 \<and> disk_after f (snd r) = f \<and>
          (if cc_PayloadLength m \<ge> 8 \<and> byte_at (cc_Payload m) 0 \<noteq> CORE_CONFIG_SCOPE
           then sent (snd r) = []
           else \<exists>why. why \<noteq> 0 \<and>
             sent (snd r) = sent (core_exec_result (cc_SourceSequence m) 1 False why))"
proof (cases "config_valid m")
  case True
  have "sent (CFS_CORE_APP_SaveState (ce_save env) d') = []" for d'
    by (simp add: CFS_CORE_APP_SaveState_def Let_def)
  then show ?thesis using True
    by (simp add: r_def config_accept[OF True assms(1)] Let_def core_exec_result_def)
next
  case False
  then show ?thesis using config_refuse[OF False assms(1), of env f] by (simp add: r_def)
qed

text \<open>The command that sets the attitude time-out to 5 s.\<close>

definition sample_config_cmd :: CONFIG_CMD_TLM where
  "sample_config_cmd = \<lparr> cc_Seq = 1, cc_TimestampMs = 0, cc_SourceSequence = 7, cc_PayloadLength = 12,
     cc_Payload = [1, 1, 0, 0, 0, 4, 161, 0, 136, 19, 0, 0] @ replicate 184 0 \<rparr>"

lemma sample_config_valid: "config_valid sample_config_cmd"
  by code_simp

theorem core_config_exact_witness:
  "c_ActiveConfig (fst (CFS_CORE_APP_ProcessConfigCommand (at_second 1) sample_config_cmd core_initial)) =
     cfg_default\<lparr> cfg_AttitudeTimeoutMs := 5000 \<rparr>"
proof -
  have ok: "cfg_ok (c_ActiveConfig core_initial)" by (simp add: core_initial_def)
  have "cp_ParameterId (config_hdr (cc_Payload sample_config_cmd)) = 0"
    "get_u32 (cc_Payload sample_config_cmd) 8 = 5000" by code_simp+
  then show ?thesis
    using core_config_exact[OF ok, of sample_config_cmd "at_second 1" None] sample_config_valid
    by (simp add: with_param_def core_initial_def cfg_default_def)
qed

section \<open>Bounds over whole runs\<close>

lemma config_command_ok:
  "cfg_ok (c_ActiveConfig d) \<Longrightarrow> cfg_ok (c_ActiveConfig (fst (CFS_CORE_APP_ProcessConfigCommand env m d)))"
  using config_accept[of m d env] config_refuse[of m d env] with_param_ok
  by (cases "config_valid m") (auto simp: Let_def config_valid_def)

lemma ProcessStateMessage_config:
  "c_ActiveConfig (fst (CFS_CORE_APP_ProcessStateMessage env m d)) = c_ActiveConfig d"
proof (cases "m = Unreadable")
  case False
  from core_inputsD(1)[OF ProcessStateMessage_inputs[OF False]] show ?thesis
    by (simp add: state_message_config)
qed (simp add: CFS_CORE_APP_ProcessStateMessage_def)

lemmas turn_config = ProcessStateMessage_config UpdateHealth_inputs[THEN core_inputsD(1)]
  command_inputs[THEN core_inputsD(1)]

lemma core_turn_config_ok:
  "cfg_ok (c_ActiveConfig d) \<Longrightarrow> cfg_ok (c_ActiveConfig (fst (core_turn i d)))"
proof (cases i)
  case (Core_Received env m)
  then show "cfg_ok (c_ActiveConfig d) \<Longrightarrow> cfg_ok (c_ActiveConfig (fst (core_turn i d)))"
    by (cases m) (simp_all add: CFS_CORE_APP_TaskPipe_def turn_config config_command_ok mode_frame
        split: option.splits)
qed (simp_all add: CFS_CORE_APP_ServicePrototype_def turn_config)

lemma core_loop_config_ok:
  "cfg_ok (c_ActiveConfig d) \<Longrightarrow> cfg_ok (c_ActiveConfig (fst (core_loop is d)))"
  by (induction "is" arbitrary: d) (simp_all add: case_prod_unfold Let_def core_turn_config_ok)

end
