(* ===== verification/Core_Persist.thy ===== *)
theory Core_Persist
  imports Core_Config
begin

text \<open>
  The state file of cfs_core_app: what a restart restores, the bounds of the configuration
  over whole runs including the file, and what its additive checksum does not see.
\<close>

section \<open>Bytes of the state file\<close>

lemma length_cps [simp]: "length (cps_bytes s) = 52"
  by (simp add: cps_bytes_def)

lemma cps_of_bytes_bytes [simp]: "cps_of_bytes (cps_bytes s) = s"
  by (cases s) (simp add: cps_of_bytes_def cps_bytes_def get_u32_append2 byte_at_append2)

text \<open>The struct that SaveState builds, with its checksum.\<close>

definition core_saved :: "CFS_CORE_APP_Data \<Rightarrow> CFS_CORE_APP_PersistentState" where
  "core_saved d =
     (let a = c_ActiveConfig d;
          s = \<lparr> cps_Magic = CORE_STATE_MAGIC, cps_LastHealthState = c_LastHealthState d,
                cps_ConfigVersion = CORE_CONFIG_VERSION,
                cps_AttitudeTimeoutMs = cfg_AttitudeTimeoutMs a,
                cps_LocalTimeoutMs = cfg_LocalTimeoutMs a, cps_GpsTimeoutMs = cfg_GpsTimeoutMs a,
                cps_EkfTimeoutMs = cfg_EkfTimeoutMs a, cps_BridgeTimeoutMs = cfg_BridgeTimeoutMs a,
                cps_PublishPeriodMs = cfg_PublishPeriodMs a,
                cps_BridgeRestartCount = c_BridgeRestartCount d,
                cps_UplinkRestartCount = c_UplinkRestartCount d,
                cps_LoraRestartCount = c_LoraRestartCount d,
                cps_LastFaultCode = c_LastFaultCode d, cps_Checksum = 0 \<rparr>
      in s\<lparr> cps_Checksum := CFS_CORE_APP_ComputeStateChecksum s \<rparr>)"

definition core_file :: "CFS_CORE_APP_Data \<Rightarrow> u8 list" where
  "core_file d = cps_bytes (core_saved d)"

lemma core_SaveState_file:
  "CFS_CORE_APP_SaveState r d = save_file CO_STATE_SAVE_FAIL_EID r (core_file d)"
  by (simp add: CFS_CORE_APP_SaveState_def core_file_def core_saved_def Let_def)

definition core_kept :: "CFS_CORE_APP_Data \<Rightarrow> u8 \<times> CFS_CORE_APP_ConfigParams \<times> u32 \<times> u32 \<times> u32 \<times> u8" where
  "core_kept d = (c_LastHealthState d, c_ActiveConfig d, c_BridgeRestartCount d,
     c_UplinkRestartCount d, c_LoraRestartCount d, c_LastFaultCode d)"

text \<open>Any contents whose magic, version and sum agree are loaded.\<close>

lemma core_load:
  assumes "cps_Magic s = CORE_STATE_MAGIC" "cps_ConfigVersion s = CORE_CONFIG_VERSION"
    "cps_Checksum s = CFS_CORE_APP_ComputeStateChecksum s"
  shows "core_kept (fst (CFS_CORE_APP_LoadState (Contents (cps_bytes s)) d0)) =
     (cps_LastHealthState s,
      \<lparr> cfg_AttitudeTimeoutMs = cps_AttitudeTimeoutMs s, cfg_LocalTimeoutMs = cps_LocalTimeoutMs s,
        cfg_GpsTimeoutMs = cps_GpsTimeoutMs s, cfg_EkfTimeoutMs = cps_EkfTimeoutMs s,
        cfg_BridgeTimeoutMs = cps_BridgeTimeoutMs s, cfg_PublishPeriodMs = cps_PublishPeriodMs s \<rparr>,
      cps_BridgeRestartCount s, cps_UplinkRestartCount s, cps_LoraRestartCount s, cps_LastFaultCode s)"
  using assms by (simp add: CFS_CORE_APP_LoadState_def Let_def core_kept_def)

lemma checksum_ignores_itself [simp]:
  "CFS_CORE_APP_ComputeStateChecksum (s\<lparr> cps_Checksum := x \<rparr>) = CFS_CORE_APP_ComputeStateChecksum s"
  by (simp add: CFS_CORE_APP_ComputeStateChecksum_def)

lemma core_saved_fields:
  "cps_Magic (core_saved d) = CORE_STATE_MAGIC" "cps_ConfigVersion (core_saved d) = CORE_CONFIG_VERSION"
  "cps_Checksum (core_saved d) = CFS_CORE_APP_ComputeStateChecksum (core_saved d)"
  by (simp_all add: core_saved_def Let_def) (simp add: CFS_CORE_APP_ComputeStateChecksum_def)

interpretation core_file: state_file core_file CFS_CORE_APP_LoadState core_kept core_kept
proof
  show "core_kept (fst (CFS_CORE_APP_LoadState (Contents (core_file d)) d0)) = core_kept d" for d d0
    unfolding core_file_def core_load[OF core_saved_fields]
    by (simp add: core_saved_def Let_def core_kept_def)
  show "CFS_CORE_APP_LoadState No_File d0 = (d0, [])" for d0
    by (simp add: CFS_CORE_APP_LoadState_def)
qed

text \<open>After any history of saves by cfs_core_app, each of which may fail at open, write or
  rename, a restart restores health state, configuration, restart counts and fault code of the
  last save that succeeded, and starts from the defaults when none did.\<close>

lemma core_restart_restores:
  "case last_saved ws None of
     Some d \<Rightarrow> core_kept (fst (CFS_CORE_APP_LoadState (read_disk (save_history core_file ws None)) d0)) = core_kept d
   | None \<Rightarrow> CFS_CORE_APP_LoadState (read_disk (save_history core_file ws None)) d0 = (d0, [])"
  using core_file.restart_restores[of ws d0] by (simp split: option.splits)

text \<open>Every time-out and period of the active configuration stays between 100 ms and
  60 s, whatever is received, over a run from the defaults or from a file saved by a state
  that was in range.\<close>

lemma core_config_in_range:
  assumes "f \<in> {No_File, Open_Error} \<or> (\<exists>d. cfg_ok (c_ActiveConfig d) \<and> f = Contents (core_file d))"
  shows "cfg_ok (c_ActiveConfig (fst (CFS_CORE_APP_Main ok f is)))"
proof -
  have "cfg_ok (c_ActiveConfig (fst (CFS_CORE_APP_LoadState f core_initial)))"
  proof -
    have "c_ActiveConfig core_initial = cfg_default" by (simp add: core_initial_def)
    moreover have "c_ActiveConfig (fst (CFS_CORE_APP_LoadState (Contents (core_file d)) core_initial)) =
        c_ActiveConfig d" for d
      using core_file.load_enc[of d core_initial] by (simp add: core_kept_def)
    ultimately show ?thesis using assms
      by (auto simp: CFS_CORE_APP_LoadState_def)
  qed
  moreover have "cfg_ok (c_ActiveConfig core_initial)" by (simp add: core_initial_def)
  ultimately show ?thesis
    by (cases ok) (simp_all add: CFS_CORE_APP_Main_def CFS_CORE_APP_Init_def case_prod_unfold Let_def
        core_loop_config_ok prepend_def)
qed

lemma core_config_in_range_witness:
  "cfg_ok (c_ActiveConfig (fst (CFS_CORE_APP_Main True No_File
     [Core_Received (at_second 1) (ConfigCmd sample_config_cmd)])))"
  by (rule core_config_in_range) simp

text \<open>The additive checksum of the state file does not see exchanged fields: with the
  words of two different time-outs swapped, the file of a save is accepted and the
  application runs with the two swapped (no range or consistency check follows).\<close>

lemma core_checksum_misses_swap:
  fixes d :: CFS_CORE_APP_Data
  defines "bs \<equiv> core_file d"
  defines "swapped \<equiv> take 8 bs @ put_u32 (get_u32 bs 16) @ take 4 (drop 12 bs) @ put_u32 (get_u32 bs 8) @ drop 20 bs"
  defines "a \<equiv> c_ActiveConfig d"
  shows "c_ActiveConfig (fst (CFS_CORE_APP_LoadState (Contents swapped) d0)) =
     a\<lparr> cfg_AttitudeTimeoutMs := cfg_GpsTimeoutMs a, cfg_GpsTimeoutMs := cfg_AttitudeTimeoutMs a \<rparr>"
proof -
  define s where "s = core_saved d"
  define t where "t = s\<lparr> cps_AttitudeTimeoutMs := cps_GpsTimeoutMs s, cps_GpsTimeoutMs := cps_AttitudeTimeoutMs s \<rparr>"
  have "swapped = cps_bytes t"
    unfolding swapped_def bs_def core_file_def s_def[symmetric] t_def
    by (simp add: cps_bytes_def get_u32_append2)
  moreover have "cps_Magic t = CORE_STATE_MAGIC" "cps_ConfigVersion t = CORE_CONFIG_VERSION"
    "cps_Checksum t = CFS_CORE_APP_ComputeStateChecksum t"
    using core_saved_fields[of d]
    by (simp_all add: t_def s_def CFS_CORE_APP_ComputeStateChecksum_def ac_simps)
  ultimately have "core_kept (fst (CFS_CORE_APP_LoadState (Contents swapped) d0)) =
     (cps_LastHealthState t,
      \<lparr> cfg_AttitudeTimeoutMs = cps_AttitudeTimeoutMs t, cfg_LocalTimeoutMs = cps_LocalTimeoutMs t,
        cfg_GpsTimeoutMs = cps_GpsTimeoutMs t, cfg_EkfTimeoutMs = cps_EkfTimeoutMs t,
        cfg_BridgeTimeoutMs = cps_BridgeTimeoutMs t, cfg_PublishPeriodMs = cps_PublishPeriodMs t \<rparr>,
      cps_BridgeRestartCount t, cps_UplinkRestartCount t, cps_LoraRestartCount t, cps_LastFaultCode t)"
    using core_load by simp
  then show ?thesis
    by (simp add: core_kept_def t_def s_def core_saved_def Let_def a_def)
qed

end
