(* ===== verification/Core_Commands.thy ===== *)
theory Core_Commands
  imports Core_Config Core_Frames
begin

text \<open>
  What cfs_core_app answers to the commands that uplink_app forwards, over whole runs, and
  the route it reports when asked to read it back.
\<close>

section \<open>Execution results\<close>

text \<open>The answers (sequence number, command class) that an input calls for.\<close>

definition expected_answers :: "core_input \<Rightarrow> (u16 \<times> u8) list" where
  "expected_answers i = (case i of
     Core_Received env (ConfigCmd m) \<Rightarrow>
       (if has_config_header m \<and> config_scope m \<noteq> CORE_CONFIG_SCOPE then [] else [(cc_SourceSequence m, CLASS_CONFIG)])
   | Core_Received env (ViewpointCmd m) \<Rightarrow> [(vc_SourceSequence m, CLASS_VIEWPOINT)]
   | Core_Received env (RecoveryCmd m) \<Rightarrow> [(rc_SourceSequence m, CLASS_RECOVERY)]
   | Core_Received env (ModeCmd m) \<Rightarrow> [(mc_SourceSequence m, CLASS_MODE)]
   | _ \<Rightarrow> [])"

definition given_answers :: "out list \<Rightarrow> (u16 \<times> u8) list" where
  "given_answers os = map (\<lambda>r. (er_SourceSequence r, er_CommandClass r)) (exec_results os)"

lemma given_answers_simps [simp]:
  "given_answers [] = []"
  "given_answers (xs @ ys) = given_answers xs @ given_answers ys"
  "given_answers (Event e t # os) = given_answers os"
  "given_answers (Restart a # os) = given_answers os"
  "given_answers (Send m # os) = (case exec_result_of m of None \<Rightarrow> []
     | Some r \<Rightarrow> [(er_SourceSequence r, er_CommandClass r)]) @ given_answers os"
  by (simp_all add: given_answers_def split: option.splits)

lemma answers_blocks [simp]:
  "given_answers (CFS_CORE_APP_SaveState r d) = []"
  "given_answers (CFS_CORE_APP_ReportHousekeeping d) = []"
  "given_answers (core_exec_result s c b n) = [(s, c)]"
  by (simp_all add: CFS_CORE_APP_SaveState_def save_file_def CFS_CORE_APP_ReportHousekeeping_def
      core_exec_result_def given_answers_def Let_def)

lemma check_answers [simp]:
  "given_answers (snd (snd (check_bridge env now t d))) = []"
  "given_answers (snd (snd (check_uplink env now t d))) = []"
  "given_answers (snd (snd (check_lora env now t d))) = []"
  by (simp_all add: check_bridge_def check_uplink_def check_lora_def Let_def case_prod_unfold)

lemma CheckAppRestarts_answers [simp]:
  "given_answers (snd (CFS_CORE_APP_CheckAppRestarts env now f d)) = []"
  by (simp add: CFS_CORE_APP_CheckAppRestarts_def Let_def case_prod_unfold)

lemma transition_answers [simp]: "given_answers (snd (health_transition env r d)) = []"
  by (simp add: health_transition_def Let_def case_prod_unfold)

lemma UpdateHealth_answers [simp]:
  "given_answers (snd (CFS_CORE_APP_UpdateHealth env now force d)) = []"
proof (cases "\<not> force \<and> now - c_LastPublishTimeMs d < cfg_PublishPeriodMs (c_ActiveConfig d)")
  case False
  show ?thesis
    unfolding CFS_CORE_APP_UpdateHealth_def if_not_P[OF False]
    by (simp only: Let_def case_prod_unfold fst_conv snd_conv transition_answers given_answers_simps
        CheckAppRestarts_answers exec_result_of.simps option.case append_Nil)
qed (simp add: CFS_CORE_APP_UpdateHealth_def)

lemma UpdateStateCache_answers [simp]:
  "given_answers (snd (snd (CFS_CORE_APP_UpdateStateCache m now c k))) = []"
  by (simp add: CFS_CORE_APP_UpdateStateCache_def Let_def)

lemma ProcessStateMessage_answers [simp]:
  "given_answers (snd (CFS_CORE_APP_ProcessStateMessage env m d)) = []"
proof -
  have "given_answers (snd (state_message now m d)) = []" for now
    by (cases m) (simp_all add: state_message_def Let_def case_prod_unfold)
  then show ?thesis
    by (simp add: CFS_CORE_APP_ProcessStateMessage_def prepend_def case_prod_unfold Let_def)
qed

lemma config_answers:
  "given_answers (snd (CFS_CORE_APP_ProcessConfigCommand env m d)) =
     (if has_config_header m \<and> config_scope m \<noteq> CORE_CONFIG_SCOPE then [] else [(cc_SourceSequence m, CLASS_CONFIG)])"
proof -
  have "cp_ConfigScope (config_hdr (cc_Payload m)) = config_scope m"
    by (simp add: config_hdr_def config_scope_def)
  moreover have "cc_PayloadLength m < 8 \<longleftrightarrow> \<not> has_config_header m"
    by (auto simp: has_config_header_def)
  ultimately show ?thesis
    by (simp add: CFS_CORE_APP_ProcessConfigCommand_def Let_def split: option.splits)
qed

lemma command_answers:
  "given_answers (snd (CFS_CORE_APP_ProcessViewpointCommand m2 d)) = [(vc_SourceSequence m2, CLASS_VIEWPOINT)]"
  "given_answers (snd (CFS_CORE_APP_ProcessRecoveryCommand env m3 d)) = [(rc_SourceSequence m3, CLASS_RECOVERY)]"
  "given_answers (snd (CFS_CORE_APP_ProcessModeCommand m4 d)) = [(mc_SourceSequence m4, CLASS_MODE)]"
  "given_answers (snd (CFS_CORE_APP_ProcessDiagnosticCommand m5 d)) = []"
  "given_answers (snd (core_count_error d)) = []"
  "given_answers (snd (core_command c bs d)) = []"
  by (simp_all add: CFS_CORE_APP_ProcessViewpointCommand_def
      CFS_CORE_APP_ProcessRecoveryCommand_def core_reset_counters_action_def core_restart_command_def
      CFS_CORE_APP_SendBridgeCtrlCmd_def transmit_def CFS_CORE_APP_ProcessModeCommand_def
      CFS_CORE_APP_ProcessDiagnosticCommand_def core_count_error_def core_command_def
      CFS_CORE_APP_VerifyCmdLength_def CFS_CORE_APP_Noop_def CFS_CORE_APP_ResetCounters_def
      Let_def case_prod_unfold)

lemma core_turn_answers: "given_answers (snd (core_turn i d)) = expected_answers i"
proof (cases i)
  case (Core_Received env m)
  then show ?thesis
    by (cases m) (simp_all add: CFS_CORE_APP_TaskPipe_def expected_answers_def config_answers
        command_answers split: option.splits)
qed (simp_all add: CFS_CORE_APP_ServicePrototype_def expected_answers_def)

text \<open>Only a broken pipe ends the main loop.\<close>

lemma UpdateHealth_RunStatus:
  "c_RunStatus (fst (CFS_CORE_APP_UpdateHealth env now force d)) = c_RunStatus d"
proof -
  have "c_RunStatus (fst (snd (check_bridge env now t d))) = c_RunStatus d"
    "c_RunStatus (fst (snd (check_uplink env now t d))) = c_RunStatus d"
    "c_RunStatus (fst (snd (check_lora env now t d))) = c_RunStatus d" for t d
    by (simp_all add: check_bridge_def check_uplink_def check_lora_def Let_def case_prod_unfold)
  then have c: "c_RunStatus (fst (CFS_CORE_APP_CheckAppRestarts env now f d)) = c_RunStatus d" for f d
    by (simp add: CFS_CORE_APP_CheckAppRestarts_def Let_def case_prod_unfold)
  have a: "c_RunStatus (snd (assess_health now f d)) = c_RunStatus d" for f d
    by (simp add: assess_health_def Let_def)
  have t: "c_RunStatus (fst (health_transition env r d)) = c_RunStatus d" for r d
    by (simp add: health_transition_def Let_def case_prod_unfold)
  have u: "c_RunStatus (d\<lparr> c_SystemHealthTlm := p \<rparr>) = c_RunStatus d"
    "c_RunStatus (d\<lparr> c_LastPublishTimeMs := x, c_PublishCount := y, c_SequenceCounter := z \<rparr>) = c_RunStatus d"
    for p x y z d by simp_all
  show ?thesis
  proof (cases "\<not> force \<and> now - c_LastPublishTimeMs d < cfg_PublishPeriodMs (c_ActiveConfig d)")
    case False
    show ?thesis
      unfolding CFS_CORE_APP_UpdateHealth_def if_not_P[OF False]
      by (simp only: Let_def case_prod_unfold fst_conv snd_conv t u a c)
  qed (simp add: CFS_CORE_APP_UpdateHealth_def)
qed

lemma core_turn_RunStatus:
  "i \<noteq> Core_Pipe_Error \<Longrightarrow> c_RunStatus (fst (core_turn i d)) = c_RunStatus d"
proof (cases i)
  case (Core_Received env m)
  have s: "c_RunStatus (fst (state_message now m d)) = c_RunStatus d" for now
    by (cases m) (simp_all add: state_message_def Let_def case_prod_unfold put_counters_def)
  have p: "c_RunStatus (fst (CFS_CORE_APP_ProcessStateMessage env m d)) = c_RunStatus d"
    by (simp add: CFS_CORE_APP_ProcessStateMessage_def case_prod_unfold Let_def UpdateHealth_RunStatus s
        prepend_def)
  have c: "c_RunStatus (fst (CFS_CORE_APP_ProcessViewpointCommand m2 d)) = c_RunStatus d"
    "c_RunStatus (fst (CFS_CORE_APP_ProcessRecoveryCommand env m3 d)) = c_RunStatus d"
    "c_RunStatus (fst (CFS_CORE_APP_ProcessModeCommand m4 d)) = c_RunStatus d"
    "c_RunStatus (fst (CFS_CORE_APP_ProcessDiagnosticCommand m5 d)) = c_RunStatus d"
    "c_RunStatus (fst (core_count_error d)) = c_RunStatus d"
    "c_RunStatus (fst (core_command c bs d)) = c_RunStatus d"
    "c_RunStatus (fst (CFS_CORE_APP_ProcessConfigCommand env m1 d)) = c_RunStatus d" for m1 m2 m3 m4 m5 c bs
    by (simp_all add: CFS_CORE_APP_ProcessViewpointCommand_def
        CFS_CORE_APP_ProcessRecoveryCommand_def core_reset_counters_action_def
        CFS_CORE_APP_ProcessModeCommand_def CFS_CORE_APP_ProcessDiagnosticCommand_def
        core_count_error_def core_command_def CFS_CORE_APP_VerifyCmdLength_def CFS_CORE_APP_Noop_def
        CFS_CORE_APP_ResetCounters_def CFS_CORE_APP_ProcessConfigCommand_def core_config_reject_def
        Let_def case_prod_unfold split: option.splits)
  show ?thesis using Core_Received p c
    by (cases m) (simp_all add: CFS_CORE_APP_TaskPipe_def split: option.splits)
qed (simp_all add: CFS_CORE_APP_ServicePrototype_def UpdateHealth_RunStatus)

lemma core_loop_answers:
  "c_RunStatus d = APP_RUN \<Longrightarrow> given_answers (snd (core_loop is d)) =
     concat (map expected_answers (takeWhile (\<lambda>i. i \<noteq> Core_Pipe_Error) is))"
proof (induction "is" arbitrary: d)
  case (Cons i "is")
  show ?case
  proof (cases "i = Core_Pipe_Error")
    case True
    then show ?thesis using Cons.prems
      by (cases "is") (simp_all add: prepend_def)
  next
    case False
    then show ?thesis
      using Cons core_turn_RunStatus[OF False, of d] core_turn_answers[of i d]
      by (simp add: case_prod_unfold Let_def prepend_def)
  qed
qed simp

text \<open>C36: every command gets its answer, and only it.  Over a whole run, the execution results
  that cfs_core_app sends are, in order, one for each CONFIG command (of its scope, or too
  short to have one), VIEWPOINT, RECOVERY and MODE command received, with its sequence number
  and class; no other input, telemetry or time-out produces one.\<close>

theorem core_answers:
  "given_answers (snd (CFS_CORE_APP_Main True f is)) =
     concat (map expected_answers (takeWhile (\<lambda>i. i \<noteq> Core_Pipe_Error) is))"
proof -
  let ?d = "fst (CFS_CORE_APP_LoadState f core_initial)"
  have "c_RunStatus ?d = APP_RUN" "given_answers (snd (CFS_CORE_APP_LoadState f core_initial)) = []"
    by (simp_all add: CFS_CORE_APP_LoadState_def core_initial_def Let_def split: file_read.splits)
  then show ?thesis
    by (simp add: CFS_CORE_APP_Main_def CFS_CORE_APP_Init_def case_prod_unfold Let_def
        core_loop_answers prepend_def)
qed

interpretation core_receiver: config_receiver "CFS_CORE_APP_ProcessConfigCommand env" CORE_CONFIG_SCOPE
  SOURCE_CFS_CORE c_ActiveConfig for env
proof
  fix m d
  assume h: "has_config_header m"
  have scope: "cp_ConfigScope (config_hdr (cc_Payload m)) = config_scope m"
    by (simp add: config_hdr_def config_scope_def)
  have long: "\<not> cc_PayloadLength m < 8" using h by (auto simp: has_config_header_def)
  have save: "exec_results (CFS_CORE_APP_SaveState r d) = []" for r d
    by (simp add: CFS_CORE_APP_SaveState_def save_file_def Let_def)
  show "config_scope m \<noteq> CORE_CONFIG_SCOPE \<Longrightarrow>
      exec_results (snd (CFS_CORE_APP_ProcessConfigCommand env m d)) = [] \<and>
      c_ActiveConfig (fst (CFS_CORE_APP_ProcessConfigCommand env m d)) = c_ActiveConfig d"
    using long by (simp add: CFS_CORE_APP_ProcessConfigCommand_def Let_def scope core_config_reject_def)
  assume "config_scope m = CORE_CONFIG_SCOPE"
  then show "\<exists>r. exec_results (snd (CFS_CORE_APP_ProcessConfigCommand env m d)) = [r] \<and>
      er_SourceSequence r = cc_SourceSequence m \<and> er_SourceApp r = source_val SOURCE_CFS_CORE \<and>
      er_CommandClass r = 1 \<and> (er_GenericResult r = EXEC_RESULT_GENERIC_OK \<or>
        c_ActiveConfig (fst (CFS_CORE_APP_ProcessConfigCommand env m d)) = c_ActiveConfig d)"
    using long
    by (simp add: CFS_CORE_APP_ProcessConfigCommand_def Let_def scope core_config_reject_def
        core_exec_result_def save split: option.splits)
qed

section \<open>The route\<close>

text \<open>The inputs that bring a whole route: a REPLACE from the ground, and a mission read back
  from the flight controller.\<close>

definition full_route :: "core_input \<Rightarrow> ROUTE_UPDATE_TLM list" where
  "full_route i = (case i of
     Core_Received env (RouteUpdate m) \<Rightarrow> (if ru_RouteType m = ROUTE_OP_REPLACE then [m] else [])
   | Core_Received env (FcMissionReadback m) \<Rightarrow> [m]
   | _ \<Rightarrow> [])"

definition take_route :: "CFS_CORE_APP_RouteCache \<Rightarrow> ROUTE_UPDATE_TLM \<Rightarrow> CFS_CORE_APP_RouteCache" where
  "take_route c m = CFS_CORE_APP_BumpRouteCacheCounters m (CFS_CORE_APP_SetRouteCacheWaypoints m c)"

lemma core_turn_route:
  "c_MissionRoute (fst (core_turn i d)) = foldl take_route (c_MissionRoute d) (full_route i)"
proof (cases i)
  case (Core_Received env m)
  have s: "c_MissionRoute (fst (state_message now m d)) = foldl take_route (c_MissionRoute d) (full_route i)" for now
    by (cases m) (simp_all add: Core_Received state_message_def full_route_def take_route_def
        Let_def case_prod_unfold put_counters_def)
  show ?thesis
  proof (cases "m = Unreadable")
    case True
    then show ?thesis by (simp add: Core_Received CFS_CORE_APP_TaskPipe_def core_count_error_def full_route_def)
  next
    case False
    have p: "c_MissionRoute (fst (CFS_CORE_APP_ProcessStateMessage env m d)) =
        foldl take_route (c_MissionRoute d) (full_route i)"
      using core_inputsD(6)[OF ProcessStateMessage_inputs[OF False]] s by simp
    show ?thesis using p Core_Received
      by (cases m) (simp_all add: CFS_CORE_APP_TaskPipe_def full_route_def mode_frame config_frame
          command_inputs[THEN core_inputsD(6)] split: option.splits)
  qed
qed (simp_all add: CFS_CORE_APP_ServicePrototype_def full_route_def UpdateHealth_inputs[THEN core_inputsD(6)])

lemma core_loop_route:
  "c_RunStatus d = APP_RUN \<Longrightarrow> c_MissionRoute (fst (core_loop is d)) =
     foldl take_route (c_MissionRoute d) (concat (map full_route (takeWhile (\<lambda>i. i \<noteq> Core_Pipe_Error) is)))"
proof (induction "is" arbitrary: d)
  case (Cons i "is")
  show ?case
  proof (cases "i = Core_Pipe_Error")
    case True
    then show ?thesis using Cons.prems
      by (cases "is") (simp_all add: prepend_def)
  next
    case False
    then show ?thesis
      using Cons core_turn_RunStatus[OF False, of d] core_turn_route[of i d]
      by (simp add: case_prod_unfold Let_def prepend_def)
  qed
qed simp

lemma fold_routes:
  "mr_UpdateCount (foldl take_route c ms) = mr_UpdateCount c + of_nat (length ms) \<and>
   (if ms = [] then foldl take_route c ms = c
    else mr_WaypointCount (foldl take_route c ms) = ru_WaypointCount (last ms) \<and>
      mr_Waypoints (foldl take_route c ms) = ru_Waypoints (last ms) \<and>
      mr_TimestampMs (foldl take_route c ms) = ru_TimestampMs (last ms) \<and>
      mr_RouteVersion (foldl take_route c ms) = ru_RouteVersion (last ms))"
  by (induction ms rule: rev_induct)
    (auto simp: take_route_def CFS_CORE_APP_BumpRouteCacheCounters_def
      CFS_CORE_APP_SetRouteCacheWaypoints_def)

text \<open>C37: the read-back shows the route of record.  After any run, the answer to a route
  read-back request is one snapshot: it is numbered by the count of whole routes received (a
  REPLACE from the ground or the mission read from the flight controller) and carries exactly
  the waypoints of the last of them, an empty route if there was none; ADD, DELETE and MODIFY
  requests do not show before the flight controller confirms them.\<close>

theorem core_route_readback:
  fixes q :: DIAGNOSTIC_CMD_TLM and f :: file_read and "is" :: "core_input list" and env :: core_env
  defines "routes \<equiv> concat (map full_route (takeWhile (\<lambda>i. i \<noteq> Core_Pipe_Error) is))"
  assumes "dc_DiagTarget q = DIAG_TARGET_CFS_CORE" "dc_DiagAction q = DIAG_ACTION_ROUTE_READBACK_REQUEST"
  shows "\<exists>r. sent (snd (core_turn (Core_Received env (DiagnosticCmd q)) (fst (CFS_CORE_APP_Main True f is)))) =
       [RouteSnapshot r] \<and> ru_SourceSequence r = ucast (dc_SourceSequence q) \<and>
     ru_Seq r = of_nat (length routes) \<and>
     (if routes = [] then ru_WaypointCount r = 0
      else ru_WaypointCount r = ru_WaypointCount (last routes) \<and> ru_Waypoints r = ru_Waypoints (last routes))"
proof -
  define d0 where "d0 = fst (CFS_CORE_APP_LoadState f core_initial)"
  have d0: "c_RunStatus d0 = APP_RUN" "c_MissionRoute d0 = c_MissionRoute core_initial"
    by (simp_all add: d0_def CFS_CORE_APP_LoadState_def core_initial_def Let_def split: file_read.splits)
  have init: "mr_UpdateCount (c_MissionRoute core_initial) = 0" "mr_WaypointCount (c_MissionRoute core_initial) = 0"
    by (simp_all add: core_initial_def)
  have main: "c_MissionRoute (fst (CFS_CORE_APP_Main True f is)) = foldl take_route (c_MissionRoute d0) routes"
    using core_loop_route[OF d0(1), of "is"]
    by (simp add: CFS_CORE_APP_Main_def CFS_CORE_APP_Init_def case_prod_unfold Let_def
        prepend_def d0_def routes_def)
  show ?thesis
    using fold_routes[of "c_MissionRoute core_initial" routes] init assms(2,3)
    by (auto simp: CFS_CORE_APP_TaskPipe_def CFS_CORE_APP_ProcessDiagnosticCommand_def Let_def main d0(2))
qed

definition sample_readback :: DIAGNOSTIC_CMD_TLM where
  "sample_readback = \<lparr> dc_Seq = 1, dc_TimestampMs = 0, dc_SourceSequence = 9,
     dc_DiagAction = DIAG_ACTION_ROUTE_READBACK_REQUEST, dc_DiagTarget = DIAG_TARGET_CFS_CORE,
     dc_RequestToken = 0 \<rparr>"

theorem core_route_readback_witness:
  "\<exists>r. sent (snd (core_turn (Core_Received (at_second 1) (DiagnosticCmd sample_readback))
       (fst (CFS_CORE_APP_Main True No_File [])))) = [RouteSnapshot r] \<and> ru_SourceSequence r = 9 \<and>
     ru_Seq r = 0 \<and> ru_WaypointCount r = 0"
  using core_route_readback[of sample_readback "at_second 1" No_File "[]"]
  by (simp add: sample_readback_def)

end
