(* ===== verification/Serial_Baud.thy ===== *)
theory Serial_Baud
  imports Prelude
begin

text \<open>
  The table of baud rates both owners of a serial line share (\<^verbatim>\<open>shared_msgs/serial_baud.h\<close>) and the
  rates they are configured with.  The constants of termios are a datatype.
\<close>

datatype speed_t = B9600 | B19200 | B38400 | B57600 | B115200 | B230400 | B460800 | B921600

definition SERIAL_BAUD_GetConstant :: "32 word \<Rightarrow> speed_t option" where
  "SERIAL_BAUD_GetConstant Baudrate =
     (if Baudrate = 9600 then Some B9600
      else if Baudrate = 19200 then Some B19200
      else if Baudrate = 38400 then Some B38400
      else if Baudrate = 57600 then Some B57600
      else if Baudrate = 115200 then Some B115200
      else if Baudrate = 230400 then Some B230400
      else if Baudrate = 460800 then Some B460800
      else if Baudrate = 921600 then Some B921600
      else None)"

abbreviation (input) LORA_BAUDRATE :: "32 word" where "LORA_BAUDRATE \<equiv> 57600"
abbreviation (input) BRIDGE_SERIAL_BAUDRATE :: "32 word" where "BRIDGE_SERIAL_BAUDRATE \<equiv> 921600"

text \<open>Both configured rates are in the table.\<close>

lemma configured_baud [simp]:
  "SERIAL_BAUD_GetConstant LORA_BAUDRATE = Some B57600"
  "SERIAL_BAUD_GetConstant BRIDGE_SERIAL_BAUDRATE = Some B921600"
  by (simp_all add: SERIAL_BAUD_GetConstant_def)

text \<open>The table names each constant by its rate.\<close>

fun rate_of :: "speed_t \<Rightarrow> 32 word" where
  "rate_of B9600 = 9600"
| "rate_of B19200 = 19200"
| "rate_of B38400 = 38400"
| "rate_of B57600 = 57600"
| "rate_of B115200 = 115200"
| "rate_of B230400 = 230400"
| "rate_of B460800 = 460800"
| "rate_of B921600 = 921600"

lemma baud_constant_iff: "SERIAL_BAUD_GetConstant r = Some b \<longleftrightarrow> r = rate_of b"
  by (cases b) (auto simp: SERIAL_BAUD_GetConstant_def)

end
