(* ===== verification/Lora_Types.thy ===== *)
theory Lora_Types
  imports Uplink_Types Serial_Baud
begin

text \<open>
  lora_tdm_app: its constants (\<^verbatim>\<open>config/default_lora_tdm_app_*.h\<close>,
  \<^verbatim>\<open>fsw/inc/lora_tdm_app_*.h\<close>), its global state \<^verbatim>\<open>LORA_TDM_APP_Data\<close>
  (\<^verbatim>\<open>fsw/src/lora_tdm_app.h\<close>) and the answers of the platform it depends on.
\<close>

section \<open>Constants\<close>

abbreviation (input) LORA_RX_WINDOW_MS :: u32 where "LORA_RX_WINDOW_MS \<equiv> 50"
abbreviation (input) LINK_LOSS_THRESHOLD :: u16 where "LINK_LOSS_THRESHOLD \<equiv> 30"
abbreviation (input) LINK_TIMEOUT_MS :: u32 where "LINK_TIMEOUT_MS \<equiv> 5000"
abbreviation (input) SERIAL_REOPEN_BACKOFF_MS :: u32 where "SERIAL_REOPEN_BACKOFF_MS \<equiv> 1000"
abbreviation (input) FC_STATE_PACKET_TYPE :: u8 where "FC_STATE_PACKET_TYPE \<equiv> 1"
abbreviation (input) SYSTEM_HEALTH_PACKET_TYPE :: u8 where "SYSTEM_HEALTH_PACKET_TYPE \<equiv> 2"
abbreviation (input) UPLINK_FB_OK :: u8 where "UPLINK_FB_OK \<equiv> 0"
abbreviation (input) UPLINK_FB_CRC_FAIL :: u8 where "UPLINK_FB_CRC_FAIL \<equiv> 1"
abbreviation (input) UPLINK_FB_SEQ_FAIL :: u8 where "UPLINK_FB_SEQ_FAIL \<equiv> 2"
abbreviation (input) UPLINK_FB_STATE_BLOCKED :: u8 where "UPLINK_FB_STATE_BLOCKED \<equiv> 3"
abbreviation (input) UPLINK_FB_FAILED :: u8 where "UPLINK_FB_FAILED \<equiv> 4"
abbreviation (input) UPLINK_FB_REJECT_VERSION :: u8 where "UPLINK_FB_REJECT_VERSION \<equiv> 5"
abbreviation (input) UPLINK_FB_REJECT_CLASS :: u8 where "UPLINK_FB_REJECT_CLASS \<equiv> 6"
abbreviation (input) UPLINK_FB_REJECT_LENGTH :: u8 where "UPLINK_FB_REJECT_LENGTH \<equiv> 7"
abbreviation (input) UPLINK_FB_ROUTE_MISS :: u8 where "UPLINK_FB_ROUTE_MISS \<equiv> 8"
abbreviation (input) UPLINK_FB_REJECT_ROUTE :: u8 where "UPLINK_FB_REJECT_ROUTE \<equiv> 9"
abbreviation (input) UPLINK_FB_REJECT_CHECKSUM :: u8 where "UPLINK_FB_REJECT_CHECKSUM \<equiv> 10"
abbreviation (input) UPLINK_FB_REJECT_VIEWPOINT :: u8 where "UPLINK_FB_REJECT_VIEWPOINT \<equiv> 11"
abbreviation (input) UPLINK_FB_REJECT_COUNTER :: u8 where "UPLINK_FB_REJECT_COUNTER \<equiv> 12"
abbreviation (input) UPLINK_FB_REJECT_FLIGHT_MODE :: u8 where "UPLINK_FB_REJECT_FLIGHT_MODE \<equiv> 13"
abbreviation (input) UPLINK_FB_APPLIED :: u8 where "UPLINK_FB_APPLIED \<equiv> 14"
abbreviation (input) LORA_LINK_DISCONNECTED :: u8 where "LORA_LINK_DISCONNECTED \<equiv> 0"
abbreviation (input) LORA_LINK_CONNECTED :: u8 where "LORA_LINK_CONNECTED \<equiv> 1"
abbreviation (input) LORA_LINK_DEGRADED :: u8 where "LORA_LINK_DEGRADED \<equiv> 2"
abbreviation (input) UPLINK_PROCESS_UPLINK_CC :: u8 where "UPLINK_PROCESS_UPLINK_CC \<equiv> 2"
abbreviation (input) LORA_CONFIG_SCOPE :: u8 where "LORA_CONFIG_SCOPE \<equiv> 3"
abbreviation (input) LORA_CONFIG_VERSION :: u8 where "LORA_CONFIG_VERSION \<equiv> 1"
abbreviation (input) PARAM_DOWNLINK_PROTOCOL :: u16 where "PARAM_DOWNLINK_PROTOCOL \<equiv> 0"
abbreviation (input) LORA_STATE_MAGIC :: u32 where "LORA_STATE_MAGIC \<equiv> 0x10A7D3B0"
abbreviation (input) DIAG_TARGET_LORA_TDM :: u8 where "DIAG_TARGET_LORA_TDM \<equiv> 0"
abbreviation (input) LORA_DIAG_LINK_STATUS :: u8 where "LORA_DIAG_LINK_STATUS \<equiv> 0"
abbreviation (input) LORA_DIAG_RX_STATS :: u8 where "LORA_DIAG_RX_STATS \<equiv> 1"
abbreviation (input) LORA_DIAG_TX_STATS :: u8 where "LORA_DIAG_TX_STATS \<equiv> 2"
abbreviation (input) LINE_BUF_LEN :: nat where "LINE_BUF_LEN \<equiv> 256"
abbreviation (input) DL2_MAGIC :: u8 where "DL2_MAGIC \<equiv> 0xD2"
abbreviation (input) UP2_MAGIC :: u8 where "UP2_MAGIC \<equiv> 0xB2"
abbreviation (input) ACK2_MAGIC :: u8 where "ACK2_MAGIC \<equiv> 0xA2"
abbreviation (input) DL2_BASE_LEN :: nat where "DL2_BASE_LEN \<equiv> 45"
abbreviation (input) DL2_TAIL_LEN :: nat where "DL2_TAIL_LEN \<equiv> 3"
abbreviation (input) DL2_FRAME_LEN :: nat where "DL2_FRAME_LEN \<equiv> 50"
abbreviation (input) DL2_SYSTIME_BLOCK_LEN :: nat where "DL2_SYSTIME_BLOCK_LEN \<equiv> 8"
abbreviation (input) DL2_FLAG_SYSTIME :: u8 where "DL2_FLAG_SYSTIME \<equiv> 0x01"
abbreviation (input) DL2_WAYPOINT_BLOCK_LEN :: nat where "DL2_WAYPOINT_BLOCK_LEN \<equiv> 30"
abbreviation (input) DL2_FLAG_WAYPOINT :: u8 where "DL2_FLAG_WAYPOINT \<equiv> 0x04"
abbreviation (input) DL2_WAYPOINTS_PER_PAGE :: u8 where "DL2_WAYPOINTS_PER_PAGE \<equiv> 2"
abbreviation (input) DL2_MAX_FRAME_LEN :: nat where "DL2_MAX_FRAME_LEN \<equiv> 88"
abbreviation (input) LORA_SEND_HK_MID :: u16 where "LORA_SEND_HK_MID \<equiv> 0x18E1"
abbreviation (input) LORA_NOOP_CC :: u8 where "LORA_NOOP_CC \<equiv> 0"
abbreviation (input) LORA_RESET_COUNTERS_CC :: u8 where "LORA_RESET_COUNTERS_CC \<equiv> 1"
abbreviation (input) SET_DOWNLINK_PROTO_CC :: u8 where "SET_DOWNLINK_PROTO_CC \<equiv> 2"

abbreviation (input) LO_INIT_INF_EID :: nat where "LO_INIT_INF_EID \<equiv> 1"
abbreviation (input) LO_NOOP_INF_EID :: nat where "LO_NOOP_INF_EID \<equiv> 2"
abbreviation (input) LO_RESET_INF_EID :: nat where "LO_RESET_INF_EID \<equiv> 3"
abbreviation (input) LO_MID_ERR_EID :: nat where "LO_MID_ERR_EID \<equiv> 4"
abbreviation (input) LO_CMD_LEN_ERR_EID :: nat where "LO_CMD_LEN_ERR_EID \<equiv> 5"
abbreviation (input) LO_CC_ERR_EID :: nat where "LO_CC_ERR_EID \<equiv> 6"
abbreviation (input) LO_SERIAL_OPEN_ERR_EID :: nat where "LO_SERIAL_OPEN_ERR_EID \<equiv> 7"
abbreviation (input) LO_SERIAL_WRITE_ERR_EID :: nat where "LO_SERIAL_WRITE_ERR_EID \<equiv> 8"
abbreviation (input) LO_SERIAL_READ_ERR_EID :: nat where "LO_SERIAL_READ_ERR_EID \<equiv> 9"
abbreviation (input) LO_ACK_PARSE_ERR_EID :: nat where "LO_ACK_PARSE_ERR_EID \<equiv> 10"
abbreviation (input) LO_CRC_FAIL_EID :: nat where "LO_CRC_FAIL_EID \<equiv> 11"
abbreviation (input) LO_SEQ_FAIL_EID :: nat where "LO_SEQ_FAIL_EID \<equiv> 12"
abbreviation (input) LO_LINK_LOST_EID :: nat where "LO_LINK_LOST_EID \<equiv> 13"
abbreviation (input) LO_LINK_DEGRADED_EID :: nat where "LO_LINK_DEGRADED_EID \<equiv> 14"
abbreviation (input) LO_LINK_RESTORED_EID :: nat where "LO_LINK_RESTORED_EID \<equiv> 15"
abbreviation (input) LO_DIAGNOSTIC_CMD_EID :: nat where "LO_DIAGNOSTIC_CMD_EID \<equiv> 19"
abbreviation (input) LO_SET_DL_PROTO_INF_EID :: nat where "LO_SET_DL_PROTO_INF_EID \<equiv> 20"
abbreviation (input) LO_SET_DL_PROTO_ERR_EID :: nat where "LO_SET_DL_PROTO_ERR_EID \<equiv> 21"
abbreviation (input) LO_ROUTE_SNAPSHOT_EID :: nat where "LO_ROUTE_SNAPSHOT_EID \<equiv> 22"
abbreviation (input) LO_STATE_SAVE_FAIL_EID :: nat where "LO_STATE_SAVE_FAIL_EID \<equiv> 23"
abbreviation (input) LO_STATE_CORRUPT_EID :: nat where "LO_STATE_CORRUPT_EID \<equiv> 24"

section \<open>State\<close>

record LORA_TDM_APP_FcStateCache =
  lf_RollRad :: f32
  lf_PitchRad :: f32
  lf_YawRad :: f32
  lf_PosX :: f32
  lf_PosY :: f32
  lf_PosZ :: f32
  lf_VelX :: f32
  lf_VelY :: f32
  lf_VelZ :: f32
  lf_LatE7 :: i32
  lf_LonE7 :: i32
  lf_AltMm :: i32
  lf_GpsFix :: u8
  lf_SatellitesVisible :: u8
  lf_AttitudeValid :: u8
  lf_LocalValid :: u8
  lf_GpsValid :: u8
  lf_EkfValid :: u8
  lf_TimestampMs :: u32
  lf_TimeUnixUsec :: u64
  lf_TimeValid :: u8

record LORA_TDM_APP_SystemHealthCache =
  lsh_SystemHealthState :: u8
  lsh_FaultCode :: u8
  lsh_TimestampMs :: u32

datatype LORA_TDM_RxFrameMode = RXFRAME_NONE | RXFRAME_TEXT | RXFRAME_ACK2 | RXFRAME_UP2_HDR | RXFRAME_UP2_BODY

text \<open>\<^verbatim>\<open>l_RxLineBuf\<close> holds the \<^verbatim>\<open>RxLineBufLen\<close> bytes received so far (the rest of
  the 256 bytes of the array is never read), \<^verbatim>\<open>l_PortOpen\<close> says whether
  \<^verbatim>\<open>LoRaFd\<close> is not negative.\<close>

record LORA_TDM_APP_Data =
  l_CmdCounter :: u8
  l_ErrCounter :: u8
  l_LinkState :: u8
  l_PacketType :: u8
  l_DownlinkSeq :: u32
  l_LastSentSeq :: u32
  l_TxCount :: u32
  l_RxAckCount :: u32
  l_RxCmdCount :: u32
  l_RxErrorCount :: u16
  l_NoAckCount :: u16
  l_AckReceivedThisCycle :: bool
  l_SeqFailCount :: u16
  l_LastAckTimestampMs :: u32
  l_LastSerialOpenAttemptMs :: u32
  l_PendingUplinkFeedback :: u8
  l_LinkStateInitialized :: u8
  l_UplinkLastAcceptedSequence :: u16
  l_UplinkBootCount :: u8
  l_RouteReadbackPending :: u8
  l_RouteType :: u8
  l_RouteWaypointCount :: u8
  l_RoutePageIndex :: u8
  l_RouteTotalPages :: u8
  l_RouteWaypoints :: "ROUTE_WAYPOINT list"
  l_PortOpen :: bool
  l_UseV2Downlink :: u8
  l_RxLineBuf :: "u8 list"
  l_RxFrameMode :: LORA_TDM_RxFrameMode
  l_RxFrameTargetLen :: nat
  l_RunStatus :: run_status
  l_FcState :: LORA_TDM_APP_FcStateCache
  l_SystemHealth :: LORA_TDM_APP_SystemHealthCache

section \<open>The platform\<close>

text \<open>One message of the drained pipe comes with the clock and the outcome of a save.\<close>

record lora_env =
  lo_now :: sys_time
  lo_save :: save_outcome

text \<open>One pass of the receive loop: the clock, what \<^verbatim>\<open>read\<close> gives, and the clock when an
  acknowledgement is noted.\<close>

datatype rx_read = Rx_Byte u8 | Rx_Nothing | Rx_Interrupted | Rx_Again | Rx_Error

record rx_pass =
  rx_now :: sys_time
  rx_result :: rx_read
  rx_ack_now :: sys_time

datatype open_result = Open_Ok | Open_Path_Fails | Open_Attr_Fails

text \<open>One TDM cycle.  \<^verbatim>\<open>cy_nan\<close> is what the machine gives for the conversion of a NaN to
  a 16-bit integer, which C leaves undefined.\<close>

record lora_cycle =
  cy_msgs :: "(lora_env \<times> sb_msg) list"
  cy_open_now :: sys_time
  cy_open :: open_result
  cy_nan :: u16
  cy_write_ok :: bool
  cy_rx_start :: sys_time
  cy_rx :: "rx_pass list"
  cy_end :: sys_time

end
