(* ===== verification/Lora_Text.thy ===== *)
theory Lora_Text
  imports Lora_Types "HOL-Library.Char_ord"
begin

text \<open>
  The text protocol (v1) of lora_tdm_app rests on C library functions; this theory models
  what it uses of them on byte strings: \<^verbatim>\<open>strtoul\<close>, the conversions of
  \<^verbatim>\<open>sscanf\<close> and \<^verbatim>\<open>snprintf\<close> in its formats (64-bit \<^verbatim>\<open>long\<close>).  A C
  string is the part of a buffer before its first zero byte.
\<close>

definition ascii :: "string \<Rightarrow> u8 list" where
  "ascii s = map of_char s"

definition cstr :: "u8 list \<Rightarrow> u8 list" where
  "cstr bs = takeWhile (\<lambda>c. c \<noteq> 0) bs"

text \<open>\<^verbatim>\<open>strncmp(s, prefix, strlen(prefix)) == 0\<close>\<close>

definition starts_with :: "u8 list \<Rightarrow> u8 list \<Rightarrow> bool" where
  "starts_with p s \<longleftrightarrow> take (length p) s = p"

section \<open>strtoul\<close>

definition isspace :: "u8 \<Rightarrow> bool" where
  "isspace c \<longleftrightarrow> c = 32 \<or> (9 \<le> c \<and> c \<le> 13)"

definition digit_value :: "u8 \<Rightarrow> nat" where
  "digit_value c = (if 48 \<le> c \<and> c \<le> 57 then unat c - 48
     else if 97 \<le> c \<and> c \<le> 122 then unat c - 87
     else if 65 \<le> c \<and> c \<le> 90 then unat c - 55 else 36)"

text \<open>The result and the number of characters consumed (0 when there is no number).\<close>

definition strtoul :: "nat \<Rightarrow> u8 list \<Rightarrow> u64 \<times> nat" where
  "strtoul base s =
     (let n0 = length (takeWhile isspace s); s1 = drop n0 s;
          neg = (s1 \<noteq> [] \<and> hd s1 = 45);
          n1 = (if s1 \<noteq> [] \<and> (hd s1 = 45 \<or> hd s1 = 43) then 1 else 0); s2 = drop n1 s1;
          hex = ((base = 0 \<or> base = 16) \<and> length s2 > 2 \<and> s2 ! 0 = 48 \<and> (s2 ! 1 = 120 \<or> s2 ! 1 = 88) \<and>
                 digit_value (s2 ! 2) < 16);
          b = (if base \<noteq> 0 then base else if hex then 16 else if s2 \<noteq> [] \<and> hd s2 = 48 then 8 else 10);
          n2 = (if hex then 2 else 0);
          ds = takeWhile (\<lambda>c. digit_value c < b) (drop n2 s2);
          v = foldl (\<lambda>v c. v * b + digit_value c) 0 ds
      in if ds = [] then (0, 0)
         else (if v \<ge> 2 ^ 64 then - 1 else if neg then - of_nat v else of_nat v, n0 + n1 + n2 + length ds))"

section \<open>sscanf\<close>

text \<open>\<^verbatim>\<open>%<n>[^,]\<close> (or without width), a literal character, and \<^verbatim>\<open>%<n>s\<close>: the
  converted characters and the rest of the input, if the conversion succeeds.\<close>

definition scan_not_comma :: "nat option \<Rightarrow> u8 list \<Rightarrow> (u8 list \<times> u8 list) option" where
  "scan_not_comma width s =
     (let t = takeWhile (\<lambda>c. c \<noteq> 44) s; t = (case width of None \<Rightarrow> t | Some n \<Rightarrow> take n t)
      in if t = [] then None else Some (t, drop (length t) s))"

definition scan_char :: "u8 \<Rightarrow> u8 list \<Rightarrow> u8 list option" where
  "scan_char c s = (if s \<noteq> [] \<and> hd s = c then Some (tl s) else None)"

definition scan_word :: "nat \<Rightarrow> u8 list \<Rightarrow> (u8 list \<times> u8 list) option" where
  "scan_word n s =
     (let s = dropWhile isspace s; t = take n (takeWhile (\<lambda>c. \<not> isspace c) s)
      in if t = [] then None else Some (t, drop (length t) s))"

text \<open>A field \<^verbatim>\<open>%7[^,],\<close> with its comma.\<close>

definition scan_field :: "u8 list \<Rightarrow> (u8 list \<times> u8 list) option" where
  "scan_field s = (case scan_not_comma (Some 7) s of None \<Rightarrow> None
     | Some (t, r) \<Rightarrow> (case scan_char 44 r of None \<Rightarrow> None | Some r' \<Rightarrow> Some (t, r')))"

definition scan_four :: "u8 list \<Rightarrow> ((u8 list \<times> u8 list \<times> u8 list \<times> u8 list) \<times> u8 list) option" where
  "scan_four s = (case scan_field s of None \<Rightarrow> None
     | Some (a, s) \<Rightarrow> (case scan_field s of None \<Rightarrow> None
     | Some (b, s) \<Rightarrow> (case scan_field s of None \<Rightarrow> None
     | Some (c, s) \<Rightarrow> (case scan_field s of None \<Rightarrow> None
     | Some (d, s) \<Rightarrow> Some ((a, b, c, d), s)))))"

text \<open>\<^verbatim>\<open>"%7[^,],%7[^,],%7[^,],%7[^,],%[^,],%7s"\<close>, and the second format for an empty payload,
  \<^verbatim>\<open>"%7[^,],%7[^,],%7[^,],%7[^,],,%7s"\<close>.\<close>

definition scan_up :: "u8 list \<Rightarrow> ((u8 list \<times> u8 list \<times> u8 list \<times> u8 list) \<times> u8 list \<times> u8 list) option" where
  "scan_up s = (case scan_four s of None \<Rightarrow> None
     | Some (f, s) \<Rightarrow>
         (case scan_not_comma None s of
            None \<Rightarrow> (case scan_char 44 s of None \<Rightarrow> None
              | Some s \<Rightarrow> (case scan_word 7 s of None \<Rightarrow> None | Some (crc, _) \<Rightarrow> Some (f, [], crc)))
          | Some (p, s) \<Rightarrow> (case scan_char 44 s of None \<Rightarrow> None
              | Some s \<Rightarrow> (case scan_word 7 s of None \<Rightarrow> None | Some (crc, _) \<Rightarrow> Some (f, p, crc)))))"

section \<open>snprintf\<close>

fun dec_digits :: "nat \<Rightarrow> u8 list" where
  "dec_digits n = (if n < 10 then [48 + of_nat n] else dec_digits (n div 10) @ [48 + of_nat (n mod 10)])"

declare dec_digits.simps [simp del]

text \<open>\<^verbatim>\<open>%lu\<close> and \<^verbatim>\<open>%u\<close>, \<^verbatim>\<open>%ld\<close> of a 32-bit value.\<close>

definition fmt_u :: "'a::len word \<Rightarrow> u8 list" where
  "fmt_u w = dec_digits (unat w)"

definition fmt_d :: "i32 \<Rightarrow> u8 list" where
  "fmt_d w = (if sint w < 0 then 45 # dec_digits (nat (- sint w)) else dec_digits (nat (sint w)))"

text \<open>\<^verbatim>\<open>%.4f\<close> of a float converted to double (which is exact): the exact value rounded to
  four decimals, ties to even.\<close>

definition round_half_even :: "nat \<Rightarrow> nat \<Rightarrow> nat" where
  "round_half_even a b = (let q = a div b; r = a mod b in
     if 2 * r > b \<or> (2 * r = b \<and> odd q) then q + 1 else q)"

definition fmt_f4 :: "f32 \<Rightarrow> u8 list" where
  "fmt_f4 w =
     (if bit w 31 then [45] else []) @
     (if isnan w then ascii ''nan''
      else if \<not> isfinite w then ascii ''inf''
      else let n = round_half_even (nat \<bar>f32_scaled w\<bar> * 10000) (2 ^ 149); d = dec_digits (n mod 10000)
           in dec_digits (n div 10000) @ [46] @ replicate (4 - length d) 48 @ d)"

text \<open>The fields of a line with commas between them and the final newline.\<close>

fun join_fields :: "u8 list list \<Rightarrow> u8 list" where
  "join_fields [] = []"
| "join_fields [x] = x"
| "join_fields (x # xs) = x @ 44 # join_fields xs"

text \<open>\<^verbatim>\<open>snprintf(Buf, BufLen, ...)\<close> with the check of its result: None (-1) when the text
  does not fit.\<close>

definition line_of :: "nat \<Rightarrow> u8 list list \<Rightarrow> u8 list option" where
  "line_of BufLen fs = (let s = join_fields fs @ [10] in if length s \<ge> BufLen then None else Some s)"

end
