(* ===== verification/Lora.thy ===== *)
theory Lora
  imports Lora_Text Uplink
begin

text \<open>
  lora_tdm_app: the text and binary downlink, the receiver with its two protocols, the link
  state, the configuration command, the caches, the route read-back, the state file, the
  dispatcher and the TDM cycle (\<^verbatim>\<open>lora_tdm_app_utils.c\<close>, \<^verbatim>\<open>lora_tdm_app.c\<close>,
  \<^verbatim>\<open>lora_tdm_app_dispatch.c\<close>, \<^verbatim>\<open>lora_tdm_app_cmds.c\<close>).
\<close>

section \<open>Frames\<close>

text \<open>The parsers return None for LORA_TDM_ACK_INVALID.\<close>

definition LORA_TDM_APP_ParseAckFrame :: "u8 list \<Rightarrow> u32 option" where
  "LORA_TDM_APP_ParseAckFrame Line =
     (if \<not> starts_with (ascii ''ACK,'') Line then None
      else let (Val, End) = strtoul 10 (drop 4 Line); rest = drop (4 + End) Line
           in if End = 0 \<or> (rest \<noteq> [] \<and> hd rest \<noteq> 10 \<and> hd rest \<noteq> 13) then None
              else Some (ucast Val))"

definition LORA_TDM_APP_BuildFcDownlinkLine :: "nat \<Rightarrow> LORA_TDM_APP_Data \<Rightarrow> u8 list option" where
  "LORA_TDM_APP_BuildFcDownlinkLine BufLen d =
     (let f = l_FcState d in
      line_of BufLen [ascii ''FC'', fmt_u (l_DownlinkSeq d), fmt_u (lf_TimestampMs f),
        fmt_f4 (lf_RollRad f), fmt_f4 (lf_PitchRad f), fmt_f4 (lf_YawRad f),
        fmt_f4 (lf_PosX f), fmt_f4 (lf_PosY f), fmt_f4 (lf_PosZ f),
        fmt_f4 (lf_VelX f), fmt_f4 (lf_VelY f), fmt_f4 (lf_VelZ f),
        fmt_d (lf_LatE7 f), fmt_d (lf_LonE7 f), fmt_d (lf_AltMm f),
        fmt_u (lf_GpsFix f), fmt_u (l_PendingUplinkFeedback d), fmt_u (lf_SatellitesVisible f)])"

definition LORA_TDM_APP_BuildShDownlinkLine :: "nat \<Rightarrow> LORA_TDM_APP_Data \<Rightarrow> u8 list option" where
  "LORA_TDM_APP_BuildShDownlinkLine BufLen d =
     (let h = l_SystemHealth d in
      line_of BufLen [ascii ''SH'', fmt_u (l_DownlinkSeq d), fmt_u (lsh_TimestampMs h),
        fmt_u (lsh_SystemHealthState h), fmt_u (lsh_FaultCode h), fmt_u (l_LinkState d),
        fmt_u (l_PendingUplinkFeedback d)])"

text \<open>\<^verbatim>\<open>(int16)((double)x * factor)\<close> with the clamp before it: a float is a multiple of
  2^-149, the product is exact in double precision, the conversion truncates.  The second
  component says whether the value was clamped; \<^verbatim>\<open>nan\<close> is the conversion of a NaN.\<close>

definition scale_i16 :: "u16 \<Rightarrow> int \<Rightarrow> f32 \<Rightarrow> u16 \<times> bool" where
  "scale_i16 nan factor x =
     (let v = f32_scaled x * factor in
      if isnan x then (nan, False)
      else if v > 32767 * 2 ^ 149 then (32767, True)
      else if v < - (32768 * 2 ^ 149) then (- 32768, True)
      else (of_int (sgn v * (\<bar>v\<bar> div 2 ^ 149)), False))"

definition ScaleRadToI16 :: "u16 \<Rightarrow> f32 \<Rightarrow> u16" where
  "ScaleRadToI16 nan Rad = fst (scale_i16 nan 10000 Rad)"

definition ScaleMeterToI16Cm :: "u16 \<Rightarrow> f32 \<Rightarrow> u16 \<times> bool" where
  "ScaleMeterToI16Cm nan Meters = scale_i16 nan 100 Meters"

text \<open>The block of one page of the route: at most two waypoints of 13 bytes.\<close>

definition dl2_waypoint :: "bool \<Rightarrow> ROUTE_WAYPOINT \<Rightarrow> u8 list" where
  "dl2_waypoint present w =
     (if present then wp_CmdType w # put_u32 (wp_LatE7 w) @ put_u32 (wp_LonE7 w) @ put_u32 (wp_Z w)
      else replicate 13 0)"

definition waypoint_at :: "ROUTE_WAYPOINT list \<Rightarrow> nat \<Rightarrow> ROUTE_WAYPOINT" where
  "waypoint_at ws i = (if i < length ws then ws ! i else wp_zero)"

definition page_block :: "LORA_TDM_APP_Data \<Rightarrow> u8 list" where
  "page_block d =
     (let PageIndex = l_RoutePageIndex d;
          StartIdx = PageIndex * DL2_WAYPOINTS_PER_PAGE;
          Remaining = (if StartIdx \<ge> l_RouteWaypointCount d then 0 else l_RouteWaypointCount d - StartIdx);
          InPage = (if Remaining < DL2_WAYPOINTS_PER_PAGE then Remaining else DL2_WAYPOINTS_PER_PAGE);
          i = unat StartIdx
      in [l_RouteType d, PageIndex, l_RouteTotalPages d, InPage] @
         dl2_waypoint (InPage \<ge> 1) (waypoint_at (l_RouteWaypoints d) i) @
         dl2_waypoint (InPage \<ge> 2) (waypoint_at (l_RouteWaypoints d) (i + 1)))"

definition LORA_TDM_APP_BuildDl2Frame :: "u16 \<Rightarrow> nat \<Rightarrow> LORA_TDM_APP_Data \<Rightarrow> u8 list option" where
  "LORA_TDM_APP_BuildDl2Frame nan BufLen d =
     (if BufLen < DL2_FRAME_LEN then None
      else
        let f = l_FcState d; h = l_SystemHealth d;
            IncludeSysTime = (lf_TimeValid f \<noteq> 0 \<and> \<not> BufLen < DL2_MAX_FRAME_LEN);
            TailOffset = DL2_BASE_LEN + (if IncludeSysTime then DL2_SYSTIME_BLOCK_LEN else 0);
            WaypointOffset = TailOffset + DL2_TAIL_LEN;
            IncludeWaypoints = (l_RouteReadbackPending d \<noteq> 0 \<and>
              \<not> BufLen < WaypointOffset + DL2_WAYPOINT_BLOCK_LEN + 2);
            BodyLen = WaypointOffset + (if IncludeWaypoints then DL2_WAYPOINT_BLOCK_LEN else 0);
            (px, s1) = ScaleMeterToI16Cm nan (lf_PosX f); (py, s2) = ScaleMeterToI16Cm nan (lf_PosY f);
            (pz, s3) = ScaleMeterToI16Cm nan (lf_PosZ f); (vx, s4) = ScaleMeterToI16Cm nan (lf_VelX f);
            (vy, s5) = ScaleMeterToI16Cm nan (lf_VelY f); (vz, s6) = ScaleMeterToI16Cm nan (lf_VelZ f);
            Saturated = (s1 \<or> s2 \<or> s3 \<or> s4 \<or> s5 \<or> s6);
            Flags = (if Saturated then 0x02 else 0) OR (if IncludeSysTime then DL2_FLAG_SYSTIME else 0)
                    OR (if IncludeWaypoints then DL2_FLAG_WAYPOINT else 0);
            body = [DL2_MAGIC, of_nat BodyLen] @ put_u16 (ucast (l_DownlinkSeq d)) @
              [Flags, l_PendingUplinkFeedback d] @ put_u32 (lf_TimestampMs f) @
              put_u16 (ScaleRadToI16 nan (lf_RollRad f)) @ put_u16 (ScaleRadToI16 nan (lf_PitchRad f)) @
              put_u16 (ScaleRadToI16 nan (lf_YawRad f)) @
              put_u16 px @ put_u16 py @ put_u16 pz @ put_u16 vx @ put_u16 vy @ put_u16 vz @
              put_u32 (lf_LatE7 f) @ put_u32 (lf_LonE7 f) @ put_u32 (lf_AltMm f) @
              [lf_GpsFix f, lf_SatellitesVisible f, lsh_SystemHealthState h, lsh_FaultCode h, l_LinkState d] @
              (if IncludeSysTime then put_u64 (lf_TimeUnixUsec f) else []) @
              put_u16 (l_UplinkLastAcceptedSequence d) @ [l_UplinkBootCount d] @
              (if IncludeWaypoints then page_block d else [])
        in Some (body @ put_u16 (LORA_TDM_APP_Crc16 body)))"

definition LORA_TDM_APP_ParseAck2Frame :: "u8 list \<Rightarrow> u32 option" where
  "LORA_TDM_APP_ParseAck2Frame Buf =
     (if length Buf < 5 then None
      else if byte_at Buf 0 \<noteq> ACK2_MAGIC then None
      else if LORA_TDM_APP_Crc16 (take 3 Buf) \<noteq> get_u16 Buf 3 then None
      else Some (ucast (get_u16 Buf 1)))"

record LORA_TDM_APP_Up2Decoded =
  up_Version :: u8
  up_CommandClass :: u8
  up_Seq :: u16
  up_Flags :: u8
  up_PayloadLen :: u8
  up_Payload :: "u8 list"

definition LORA_TDM_APP_ParseUp2Frame :: "u8 list \<Rightarrow> LORA_TDM_APP_Up2Decoded option" where
  "LORA_TDM_APP_ParseUp2Frame Buf =
     (let Plen = byte_at Buf 1; n = unat Plen in
      if length Buf < 8 then None
      else if byte_at Buf 0 \<noteq> UP2_MAGIC then None
      else if length Buf < 7 + n + 2 \<or> n > 196 then None
      else if LORA_TDM_APP_Crc16 (take (7 + n) Buf) \<noteq> get_u16 Buf (7 + n) then None
      else Some \<lparr> up_Version = byte_at Buf 2, up_CommandClass = byte_at Buf 3, up_Seq = get_u16 Buf 4,
                  up_Flags = byte_at Buf 6, up_PayloadLen = Plen, up_Payload = take n (drop 7 Buf) \<rparr>)"

section \<open>Link state\<close>

definition LORA_TDM_APP_UpdateLinkState ::
    "u32 \<Rightarrow> LORA_TDM_APP_Data \<Rightarrow> LORA_TDM_APP_Data \<times> out list" where
  "LORA_TDM_APP_UpdateLinkState NowMs d =
     (let OldState = l_LinkState d;
          Elapsed = (if l_LastAckTimestampMs d = 0 then 0
                     else if NowMs \<ge> l_LastAckTimestampMs d then NowMs - l_LastAckTimestampMs d else 0);
          NewState = (if Elapsed > LINK_TIMEOUT_MS then LORA_LINK_DISCONNECTED
                      else if l_NoAckCount d \<ge> LINK_LOSS_THRESHOLD then LORA_LINK_DEGRADED
                      else LORA_LINK_CONNECTED);
          d = d\<lparr> l_LinkState := NewState \<rparr>
      in if l_LinkStateInitialized d = 0 then (d\<lparr> l_LinkStateInitialized := 1 \<rparr>, [])
         else if NewState \<noteq> OldState
         then (d, [if NewState = LORA_LINK_DISCONNECTED then Event LO_LINK_LOST_EID ERROR
                   else if NewState = LORA_LINK_DEGRADED then Event LO_LINK_DEGRADED_EID ERROR
                   else Event LO_LINK_RESTORED_EID INFORMATION])
         else (d, []))"

section \<open>Received frames\<close>

definition HexNibble :: "u8 \<Rightarrow> u8 option" where
  "HexNibble c = (if 48 \<le> c \<and> c \<le> 57 then Some (c - 48)
     else if 97 \<le> c \<and> c \<le> 102 then Some (c - 97 + 10)
     else if 65 \<le> c \<and> c \<le> 70 then Some (c - 65 + 10) else None)"

fun unhex :: "u8 list \<Rightarrow> u8 list option" where
  "unhex (a # b # xs) =
     (case HexNibble a of None \<Rightarrow> None
      | Some hi \<Rightarrow> (case HexNibble b of None \<Rightarrow> None
      | Some lo \<Rightarrow> (case unhex xs of None \<Rightarrow> None | Some ys \<Rightarrow> Some ((push_bit 4 hi OR lo) # ys))))"
| "unhex _ = Some []"

text \<open>The command packet for uplink_app, with its own checksum.\<close>

definition fwd_command :: "u8 \<Rightarrow> u8 \<Rightarrow> u16 \<Rightarrow> u8 \<Rightarrow> u8 list \<Rightarrow> UPLINK_FWD_CMD" where
  "fwd_command Version CommandClass Seq Flags Payload =
     \<lparr> fw_Version = Version, fw_CommandClass = CommandClass, fw_PayloadLength = of_nat (length Payload),
       fw_Flags = Flags, fw_Sequence = Seq,
       fw_Checksum = LORA_TDM_APP_Crc16 ([Version, CommandClass, of_nat (length Payload), Flags] @
         put_u16 Seq @ Payload),
       fw_Payload = Payload @ replicate (196 - length Payload) 0 \<rparr>"

definition forward_command :: "UPLINK_FWD_CMD \<Rightarrow> LORA_TDM_APP_Data \<Rightarrow> LORA_TDM_APP_Data \<times> out list" where
  "forward_command c d =
     (d\<lparr> l_PendingUplinkFeedback := UPLINK_FB_OK, l_RxCmdCount := l_RxCmdCount d + 1 \<rparr>,
      [Send (Command UPLINK_APP_CMD_MID (Some UPLINK_PROCESS_UPLINK_CC) (fwd_bytes c))])"

definition up_error :: "out list \<Rightarrow> LORA_TDM_APP_Data \<Rightarrow> LORA_TDM_APP_Data \<times> out list" where
  "up_error ev d =
     (d\<lparr> l_PendingUplinkFeedback := UPLINK_FB_CRC_FAIL, l_RxErrorCount := l_RxErrorCount d + 1 \<rparr>, ev)"

definition ProcessUpFrame :: "u8 list \<Rightarrow> LORA_TDM_APP_Data \<Rightarrow> LORA_TDM_APP_Data \<times> out list" where
  "ProcessUpFrame Line d =
     (case scan_up (drop 3 Line) of
        None \<Rightarrow> up_error [Event LO_CRC_FAIL_EID ERROR] d
      | Some ((VersionStr, ClassStr, SeqStr, FlagsStr), PayloadHex, CrcStr) \<Rightarrow>
          let num = (\<lambda>base s. fst (strtoul base s));
              Canonical = ascii ''UP,'' @ join_fields [VersionStr, ClassStr, SeqStr, FlagsStr, PayloadHex]
          in if length Canonical \<ge> 640 then up_error [] d
             else if LORA_TDM_APP_Crc16 Canonical \<noteq> ucast (num 16 CrcStr)
             then up_error [Event LO_CRC_FAIL_EID ERROR] d
             else if odd (length PayloadHex) \<or> length PayloadHex div 2 > 196 then up_error [] d
             else (case unhex PayloadHex of
                 None \<Rightarrow> up_error [] d
               | Some Payload \<Rightarrow>
                   forward_command (fwd_command (ucast (num 0 VersionStr)) (ucast (num 0 ClassStr))
                     (ucast (num 0 SeqStr)) (ucast (num 0 FlagsStr)) Payload) d))"

definition note_ack :: "bool \<Rightarrow> u32 \<Rightarrow> LORA_TDM_APP_Data \<Rightarrow> LORA_TDM_APP_Data \<times> out list" where
  "note_ack mismatch now d =
     (let d' = (if mismatch then d\<lparr> l_SeqFailCount := l_SeqFailCount d + 1 \<rparr> else d)
      in (d'\<lparr> l_RxAckCount := l_RxAckCount d' + 1, l_NoAckCount := 0,
              l_AckReceivedThisCycle := True, l_LastAckTimestampMs := now \<rparr>,
          if mismatch then [Event LO_SEQ_FAIL_EID ERROR] else []))"

definition ack_error :: "LORA_TDM_APP_Data \<Rightarrow> LORA_TDM_APP_Data \<times> out list" where
  "ack_error d = (d\<lparr> l_RxErrorCount := l_RxErrorCount d + 1 \<rparr>, [Event LO_ACK_PARSE_ERR_EID ERROR])"

definition LORA_TDM_APP_ProcessRxLine ::
    "u32 \<Rightarrow> u8 list \<Rightarrow> LORA_TDM_APP_Data \<Rightarrow> LORA_TDM_APP_Data \<times> out list" where
  "LORA_TDM_APP_ProcessRxLine ack_now Line d =
     (if starts_with (ascii ''ACK,'') Line then
        (case LORA_TDM_APP_ParseAckFrame Line of
           Some SeqEcho \<Rightarrow> note_ack (SeqEcho \<noteq> l_LastSentSeq d) ack_now d
         | None \<Rightarrow> ack_error d)
      else if starts_with (ascii ''UP,'') Line then ProcessUpFrame Line d
      else (d, []))"

definition ForwardUp2ToUplinkApp ::
    "LORA_TDM_APP_Up2Decoded \<Rightarrow> LORA_TDM_APP_Data \<Rightarrow> LORA_TDM_APP_Data \<times> out list" where
  "ForwardUp2ToUplinkApp u d =
     forward_command (fwd_command (up_Version u) (up_CommandClass u) (up_Seq u) (up_Flags u) (up_Payload u)) d"

definition LORA_TDM_APP_ProcessRxBinaryFrame ::
    "u32 \<Rightarrow> u8 list \<Rightarrow> LORA_TDM_APP_Data \<Rightarrow> LORA_TDM_APP_Data \<times> out list" where
  "LORA_TDM_APP_ProcessRxBinaryFrame ack_now Buf d =
     (if byte_at Buf 0 = ACK2_MAGIC then
        (case LORA_TDM_APP_ParseAck2Frame Buf of
           Some SeqEcho \<Rightarrow> note_ack ((ucast SeqEcho :: u16) \<noteq> ucast (l_LastSentSeq d)) ack_now d
         | None \<Rightarrow> ack_error d)
      else if byte_at Buf 0 = UP2_MAGIC then
        (case LORA_TDM_APP_ParseUp2Frame Buf of
           Some u \<Rightarrow> ForwardUp2ToUplinkApp u d
         | None \<Rightarrow> up_error [Event LO_CRC_FAIL_EID ERROR] d)
      else (d, []))"

end
