(* ===== verification/Lora_App.thy ===== *)
theory Lora_App
  imports Lora
begin

text \<open>
  lora_tdm_app, second part: receive window, transmission, housekeeping, configuration,
  caches, route read-back, state file, dispatcher and the TDM cycle.
\<close>

section \<open>Receive window\<close>

definition CloseSerial :: "LORA_TDM_APP_Data \<Rightarrow> LORA_TDM_APP_Data" where
  "CloseSerial d = d\<lparr> l_PortOpen := False \<rparr>"

definition rx_idle :: "LORA_TDM_APP_Data \<Rightarrow> LORA_TDM_APP_Data" where
  "rx_idle d = d\<lparr> l_RxLineBuf := [], l_RxFrameMode := RXFRAME_NONE \<rparr>"

text \<open>One byte: it is stored (or the buffer is dropped when it is full), the first byte
  decides the protocol, and a complete line or frame is processed.\<close>

definition rx_byte :: "u32 \<Rightarrow> u8 \<Rightarrow> LORA_TDM_APP_Data \<Rightarrow> LORA_TDM_APP_Data \<times> out list" where
  "rx_byte ack_now C d =
     (if \<not> length (l_RxLineBuf d) < LINE_BUF_LEN - 1 then (rx_idle d, [])
      else
        let buf = l_RxLineBuf d @ [C];
            d = d\<lparr> l_RxLineBuf := buf \<rparr>;
            d = (if length buf = 1 then
                   (if C = ACK2_MAGIC then d\<lparr> l_RxFrameMode := RXFRAME_ACK2, l_RxFrameTargetLen := 5 \<rparr>
                    else if C = UP2_MAGIC then d\<lparr> l_RxFrameMode := RXFRAME_UP2_HDR \<rparr>
                    else d\<lparr> l_RxFrameMode := RXFRAME_TEXT \<rparr>)
                 else d)
        in case l_RxFrameMode d of
             RXFRAME_TEXT \<Rightarrow>
               if C = 10 then (let (d, os) = LORA_TDM_APP_ProcessRxLine ack_now (cstr buf) d in (rx_idle d, os))
               else (d, [])
           | RXFRAME_UP2_HDR \<Rightarrow>
               if length buf = 2 then
                 (let Plen = buf ! 1 in
                  if Plen > 196 then (rx_idle d, [])
                  else (d\<lparr> l_RxFrameTargetLen := 7 + unat Plen + 2, l_RxFrameMode := RXFRAME_UP2_BODY \<rparr>, []))
               else (d, [])
           | RXFRAME_NONE \<Rightarrow> (d, [])
           | _ \<Rightarrow>
               if length buf \<ge> l_RxFrameTargetLen d
               then (let (d, os) = LORA_TDM_APP_ProcessRxBinaryFrame ack_now buf d in (rx_idle d, os))
               else (d, []))"

fun rx_loop :: "u32 \<Rightarrow> rx_pass list \<Rightarrow> LORA_TDM_APP_Data \<Rightarrow> LORA_TDM_APP_Data \<times> out list" where
  "rx_loop DeadlineMs [] d = (d, [])"
| "rx_loop DeadlineMs (p # ps) d =
     (if GetTimeMs (rx_now p) \<ge> DeadlineMs then (d, [])
      else if \<not> l_PortOpen d then (d, [])
      else (case rx_result p of
          Rx_Nothing \<Rightarrow> rx_loop DeadlineMs ps d
        | Rx_Interrupted \<Rightarrow> rx_loop DeadlineMs ps d
        | Rx_Again \<Rightarrow> (d, [])
        | Rx_Error \<Rightarrow> (CloseSerial d, [Event LO_SERIAL_READ_ERR_EID ERROR])
        | Rx_Byte C \<Rightarrow> (let (d, os) = rx_byte (GetTimeMs (rx_ack_now p)) C d
                       in prepend os (rx_loop DeadlineMs ps d))))"

definition LORA_TDM_APP_RunRxWindow ::
    "lora_cycle \<Rightarrow> LORA_TDM_APP_Data \<Rightarrow> LORA_TDM_APP_Data \<times> out list" where
  "LORA_TDM_APP_RunRxWindow cy d =
     (let d = d\<lparr> l_AckReceivedThisCycle := False \<rparr>;
          (d, os) = rx_loop (GetTimeMs (cy_rx_start cy) + LORA_RX_WINDOW_MS) (cy_rx cy) d
      in (if \<not> l_AckReceivedThisCycle d \<and> l_NoAckCount d < 0xFFFF
          then d\<lparr> l_NoAckCount := l_NoAckCount d + 1 \<rparr> else d, os))"

section \<open>Transmission\<close>

definition note_sent :: "LORA_TDM_APP_Data \<Rightarrow> LORA_TDM_APP_Data" where
  "note_sent d = d\<lparr> l_TxCount := l_TxCount d + 1, l_LastSentSeq := l_DownlinkSeq d,
     l_DownlinkSeq := l_DownlinkSeq d + 1 \<rparr>"

definition next_page :: "LORA_TDM_APP_Data \<Rightarrow> LORA_TDM_APP_Data" where
  "next_page d =
     (if l_RouteReadbackPending d \<noteq> 0 then
        (if unat (l_RoutePageIndex d) + 1 \<ge> unat (l_RouteTotalPages d)
         then d\<lparr> l_RouteReadbackPending := 0, l_RoutePageIndex := 0 \<rparr>
         else d\<lparr> l_RoutePageIndex := l_RoutePageIndex d + 1 \<rparr>)
      else d)"

definition LORA_TDM_APP_RunTx ::
    "lora_cycle \<Rightarrow> LORA_TDM_APP_Data \<Rightarrow> LORA_TDM_APP_Data \<times> out list" where
  "LORA_TDM_APP_RunTx cy d =
     (let failed = (CloseSerial d, [Event LO_SERIAL_WRITE_ERR_EID ERROR]) in
      if \<not> l_PortOpen d then (d, [])
      else if l_UseV2Downlink d \<noteq> 0 then
        (case LORA_TDM_APP_BuildDl2Frame (cy_nan cy) DL2_MAX_FRAME_LEN d of
           None \<Rightarrow> (d, [])
         | Some bs \<Rightarrow> if cy_write_ok cy then (next_page (note_sent d), [Serial bs]) else failed)
      else
        let Type = (if l_DownlinkSeq d mod 2 = 0 then FC_STATE_PACKET_TYPE else SYSTEM_HEALTH_PACKET_TYPE)
        in case (if Type = SYSTEM_HEALTH_PACKET_TYPE then LORA_TDM_APP_BuildShDownlinkLine LINE_BUF_LEN d
                 else LORA_TDM_APP_BuildFcDownlinkLine LINE_BUF_LEN d) of
             None \<Rightarrow> (d, [])
           | Some bs \<Rightarrow> if cy_write_ok cy then (note_sent (d\<lparr> l_PacketType := Type \<rparr>), [Serial bs])
                        else failed)"

section \<open>Reports\<close>

definition LORA_TDM_APP_ReportHousekeeping :: "LORA_TDM_APP_Data \<Rightarrow> out list" where
  "LORA_TDM_APP_ReportHousekeeping d =
     [Send (LoraHk \<lparr> lh_CommandCounter = l_CmdCounter d, lh_CommandErrorCounter = l_ErrCounter d,
        lh_LinkState = l_LinkState d, lh_PacketType = l_PacketType d,
        lh_AttitudeValid = lf_AttitudeValid (l_FcState d), lh_LocalValid = lf_LocalValid (l_FcState d),
        lh_GpsValid = lf_GpsValid (l_FcState d), lh_EkfValid = lf_EkfValid (l_FcState d),
        lh_SystemHealthState = lsh_SystemHealthState (l_SystemHealth d),
        lh_PendingUplinkFeedback = l_PendingUplinkFeedback d, lh_TxCount = l_TxCount d,
        lh_RxAckCount = l_RxAckCount d, lh_RxCmdCount = l_RxCmdCount d,
        lh_RxErrorCount = l_RxErrorCount d, lh_NoAckCount = l_NoAckCount d,
        lh_LastAckTimestampMs = l_LastAckTimestampMs d \<rparr>)]"

definition LORA_TDM_APP_ReportLinkStatus :: "lora_env \<Rightarrow> LORA_TDM_APP_Data \<Rightarrow> out list" where
  "LORA_TDM_APP_ReportLinkStatus env d =
     [Send (LoraLinkStatus \<lparr> ls_Seq = l_DownlinkSeq d, ls_TimestampMs = GetTimeMs (lo_now env),
        ls_LinkState = l_LinkState d, ls_LastAckTimestampMs = l_LastAckTimestampMs d,
        ls_NoAckCount = l_NoAckCount d, ls_RxErrorCount = l_RxErrorCount d, ls_TxCount = l_TxCount d,
        ls_RxAckCount = l_RxAckCount d, ls_RxCmdCount = l_RxCmdCount d \<rparr>)]"

section \<open>State file\<close>

record LORA_TDM_APP_PersistentState =
  lps_Magic :: u32
  lps_ConfigVersion :: u8
  lps_UseV2Downlink :: u8
  lps_Checksum :: u32

definition lps_bytes :: "LORA_TDM_APP_PersistentState \<Rightarrow> u8 list" where
  [bytes_defs]: "lps_bytes s = put_u32 (lps_Magic s) @ [lps_ConfigVersion s, lps_UseV2Downlink s, 0, 0] @
     put_u32 (lps_Checksum s)"

definition lps_of_bytes :: "u8 list \<Rightarrow> LORA_TDM_APP_PersistentState" where
  "lps_of_bytes bs = \<lparr> lps_Magic = get_u32 bs 0, lps_ConfigVersion = byte_at bs 4,
     lps_UseV2Downlink = byte_at bs 5, lps_Checksum = get_u32 bs 8 \<rparr>"

definition LORA_TDM_APP_ComputeStateChecksum :: "LORA_TDM_APP_PersistentState \<Rightarrow> u32" where
  "LORA_TDM_APP_ComputeStateChecksum s =
     lps_Magic s + ucast (lps_ConfigVersion s) + ucast (lps_UseV2Downlink s)"

definition LORA_TDM_APP_SaveState :: "save_outcome \<Rightarrow> LORA_TDM_APP_Data \<Rightarrow> out list" where
  "LORA_TDM_APP_SaveState r d =
     (let s = \<lparr> lps_Magic = LORA_STATE_MAGIC, lps_ConfigVersion = LORA_CONFIG_VERSION,
                lps_UseV2Downlink = l_UseV2Downlink d, lps_Checksum = 0 \<rparr>
      in save_file LO_STATE_SAVE_FAIL_EID r
           (lps_bytes (s\<lparr> lps_Checksum := LORA_TDM_APP_ComputeStateChecksum s \<rparr>)))"

definition LORA_TDM_APP_LoadState ::
    "file_read \<Rightarrow> LORA_TDM_APP_Data \<Rightarrow> LORA_TDM_APP_Data \<times> out list" where
  "LORA_TDM_APP_LoadState f d =
     (let corrupt = (d, [Event LO_STATE_CORRUPT_EID ERROR]) in
      case f of
        No_File \<Rightarrow> (d, [])
      | Open_Error \<Rightarrow> corrupt
      | Contents bs \<Rightarrow>
          if length bs < 12 then corrupt
          else let s = lps_of_bytes (take 12 bs) in
            if lps_Magic s \<noteq> LORA_STATE_MAGIC then corrupt
            else if lps_Checksum s \<noteq> LORA_TDM_APP_ComputeStateChecksum s then corrupt
            else if lps_ConfigVersion s \<noteq> LORA_CONFIG_VERSION then corrupt
            else (d\<lparr> l_UseV2Downlink := (if lps_UseV2Downlink s \<noteq> 0 then 1 else 0) \<rparr>,
                  [Event LO_SET_DL_PROTO_INF_EID INFORMATION]))"

section \<open>Commands, caches and snapshots\<close>

definition lora_exec_result :: "u16 \<Rightarrow> u8 \<Rightarrow> bool \<Rightarrow> out list" where
  "lora_exec_result SourceSequence CommandClass Ok =
     (let g = (if Ok then EXEC_RESULT_GENERIC_OK else EXEC_RESULT_GENERIC_FAILED) in
      [Send (ExecResult \<lparr> er_SourceSequence = SourceSequence, er_SourceApp = source_val SOURCE_LORA_TDM,
         er_CommandClass = CommandClass, er_GenericResult = g, er_DetailCode = g \<rparr>)])"

definition LORA_ConfigChecksum :: "ConfigPayloadHdr \<Rightarrow> u8 list \<Rightarrow> u8 \<Rightarrow> u16" where
  "LORA_ConfigChecksum h vb n =
     foldl (\<lambda>s i. s + ucast (byte_at vb i))
       (ucast (cp_ConfigScope h) + ucast (cp_ConfigVersion h) + (cp_ParameterId h AND 0xFF)
        + (drop_bit 8 (cp_ParameterId h) AND 0xFF) + ucast (cp_ValueType h)
        + ucast (cp_ValueLength h))
       [0..<unat n]"

definition lora_count_error :: "LORA_TDM_APP_Data \<Rightarrow> LORA_TDM_APP_Data" where
  "lora_count_error d = d\<lparr> l_ErrCounter := l_ErrCounter d + 1 \<rparr>"

definition LORA_TDM_APP_ProcessConfigCommand ::
    "lora_env \<Rightarrow> CONFIG_CMD_TLM \<Rightarrow> LORA_TDM_APP_Data \<Rightarrow> LORA_TDM_APP_Data \<times> out list" where
  "LORA_TDM_APP_ProcessConfigCommand env Msg d =
     (let pl = cc_Payload Msg; len = cc_PayloadLength Msg; h = config_hdr pl;
          answer = lora_exec_result (cc_SourceSequence Msg) 1;
          Value = get_u32 pl 8
      in if len < 8 then (d, [])
         else if cp_ConfigScope h \<noteq> LORA_CONFIG_SCOPE then (d, [])
         else if cp_ConfigVersion h \<noteq> LORA_CONFIG_VERSION then (lora_count_error d, answer False)
         else if cp_ValueLength h \<noteq> 4 \<or> 8 + cp_ValueLength h > len then (lora_count_error d, answer False)
         else if cp_Checksum h \<noteq> LORA_ConfigChecksum h (drop 8 pl) (cp_ValueLength h)
         then (lora_count_error d, Event LO_CRC_FAIL_EID ERROR # answer False)
         else if cp_ParameterId h = PARAM_DOWNLINK_PROTOCOL then
           (if Value \<noteq> 0 \<and> Value \<noteq> 1
            then (lora_count_error d, Event LO_SET_DL_PROTO_ERR_EID ERROR # answer False)
            else let d = d\<lparr> l_UseV2Downlink := (if Value \<noteq> 0 then 1 else 0),
                            l_CmdCounter := l_CmdCounter d + 1 \<rparr>
                 in (d, LORA_TDM_APP_SaveState (lo_save env) d @
                        [Event LO_SET_DL_PROTO_INF_EID INFORMATION] @ answer True))
         else (lora_count_error d, answer False))"

definition LORA_TDM_APP_UpdateCacheFromMsg :: "sb_msg \<Rightarrow> LORA_TDM_APP_Data \<Rightarrow> LORA_TDM_APP_Data" where
  "LORA_TDM_APP_UpdateCacheFromMsg msg d =
     (let f = l_FcState d in
      case msg of
        FcAttitude m \<Rightarrow> d\<lparr> l_FcState := f\<lparr> lf_TimestampMs := fc_TimestampMs m, lf_AttitudeValid := fc_Valid m,
          lf_RollRad := fa_RollRad m, lf_PitchRad := fa_PitchRad m, lf_YawRad := fa_YawRad m \<rparr> \<rparr>
      | FcEkfLocal m \<Rightarrow> d\<lparr> l_FcState := f\<lparr> lf_TimestampMs := fc_TimestampMs m, lf_LocalValid := fc_Valid m,
          lf_PosX := fl_X_m m, lf_PosY := fl_Y_m m, lf_PosZ := fl_Z_m m,
          lf_VelX := fl_Vx_mps m, lf_VelY := fl_Vy_mps m, lf_VelZ := fl_Vz_mps m \<rparr> \<rparr>
      | FcGpsRaw m \<Rightarrow> d\<lparr> l_FcState := f\<lparr> lf_TimestampMs := fc_TimestampMs m, lf_GpsValid := fc_Valid m,
          lf_LatE7 := fg_LatE7 m, lf_LonE7 := fg_LonE7 m, lf_AltMm := fg_AltMm m,
          lf_GpsFix := fg_FixType m, lf_SatellitesVisible := fg_SatellitesVisible m \<rparr> \<rparr>
      | FcSysTime m \<Rightarrow> d\<lparr> l_FcState := f\<lparr> lf_TimeUnixUsec := ft_TimeUnixUsec m, lf_TimeValid := fc_Valid m \<rparr> \<rparr>
      | SystemHealth m \<Rightarrow> d\<lparr> l_SystemHealth := \<lparr> lsh_SystemHealthState = sh_HealthState m,
          lsh_FaultCode = sh_FaultCode m, lsh_TimestampMs = sh_TimestampMs m \<rparr>,
          l_PacketType := SYSTEM_HEALTH_PACKET_TYPE \<rparr>
      | FcEkfStatus m \<Rightarrow> d\<lparr> l_FcState := f\<lparr> lf_TimestampMs := fc_TimestampMs m, lf_EkfValid := fc_Valid m \<rparr>,
          l_PacketType := FC_STATE_PACKET_TYPE \<rparr>
      | _ \<Rightarrow> d)"

definition LORA_TDM_APP_ProcessDiagnosticCommand ::
    "DIAGNOSTIC_CMD_TLM \<Rightarrow> LORA_TDM_APP_Data \<Rightarrow> LORA_TDM_APP_Data \<times> out list" where
  "LORA_TDM_APP_ProcessDiagnosticCommand m d =
     (if dc_DiagTarget m \<noteq> DIAG_TARGET_LORA_TDM then (d, [])
      else (d\<lparr> l_CmdCounter := l_CmdCounter d + 1 \<rparr>,
        [Event LO_DIAGNOSTIC_CMD_EID
           (if dc_DiagAction m \<in> {LORA_DIAG_LINK_STATUS, LORA_DIAG_RX_STATS, LORA_DIAG_TX_STATS}
            then INFORMATION else ERROR)]))"

definition LORA_TDM_APP_ProcessRouteSnapshot ::
    "ROUTE_UPDATE_TLM \<Rightarrow> LORA_TDM_APP_Data \<Rightarrow> LORA_TDM_APP_Data \<times> out list" where
  "LORA_TDM_APP_ProcessRouteSnapshot m d =
     (let n = min (unat (ru_WaypointCount m)) ROUTE_MAX_WAYPOINTS;
          pages = (if n = 0 then 0 else (n + unat DL2_WAYPOINTS_PER_PAGE - 1) div unat DL2_WAYPOINTS_PER_PAGE)
      in (d\<lparr> l_RouteType := ru_RouteType m, l_RouteWaypointCount := of_nat n,
             l_RouteWaypoints := take n (ru_Waypoints m) @ drop n (l_RouteWaypoints d),
             l_RoutePageIndex := 0, l_RouteTotalPages := of_nat pages,
             l_RouteReadbackPending := (if pages > 0 then 1 else 0) \<rparr>,
          [Event LO_ROUTE_SNAPSHOT_EID INFORMATION]))"

text \<open>The feedback code for the ground, from the result of uplink_app; a result that is not
  mapped (duplicate, execution results) keeps the code.\<close>

definition uplink_feedback :: "u8 \<Rightarrow> u8 option" where
  "uplink_feedback r =
     (if r = 10 then Some UPLINK_FB_SEQ_FAIL
      else if r = 11 then Some UPLINK_FB_STATE_BLOCKED
      else if r = 4 then Some UPLINK_FB_FAILED
      else if r = 5 then Some UPLINK_FB_REJECT_VERSION
      else if r = 6 then Some UPLINK_FB_REJECT_CLASS
      else if r = 7 then Some UPLINK_FB_REJECT_LENGTH
      else if r = 8 then Some UPLINK_FB_ROUTE_MISS
      else if r = 9 then Some UPLINK_FB_REJECT_ROUTE
      else if r = 12 then Some UPLINK_FB_REJECT_CHECKSUM
      else if r = 13 then Some UPLINK_FB_REJECT_VIEWPOINT
      else if r = 17 then Some UPLINK_FB_REJECT_COUNTER
      else if r = 18 then Some UPLINK_FB_REJECT_FLIGHT_MODE
      else if r = 3 then Some UPLINK_FB_APPLIED
      else None)"

definition lora_uplink_status :: "UPLINK_STATUS_TLM \<Rightarrow> LORA_TDM_APP_Data \<Rightarrow> LORA_TDM_APP_Data" where
  "lora_uplink_status m d =
     (let d = d\<lparr> l_UplinkLastAcceptedSequence := us_LastAcceptedSequence m, l_UplinkBootCount := us_BootCount m \<rparr>
      in case uplink_feedback (us_LastCommandResult m) of
           None \<Rightarrow> d | Some fb \<Rightarrow> d\<lparr> l_PendingUplinkFeedback := fb \<rparr>)"

section \<open>Dispatcher\<close>

definition LORA_TDM_APP_Noop :: "LORA_TDM_APP_Data \<Rightarrow> LORA_TDM_APP_Data \<times> out list" where
  "LORA_TDM_APP_Noop d = (d\<lparr> l_CmdCounter := l_CmdCounter d + 1 \<rparr>, [Event LO_NOOP_INF_EID INFORMATION])"

definition LORA_TDM_APP_ResetCounters :: "LORA_TDM_APP_Data \<Rightarrow> LORA_TDM_APP_Data \<times> out list" where
  "LORA_TDM_APP_ResetCounters d =
     (d\<lparr> l_CmdCounter := 0, l_ErrCounter := 0, l_TxCount := 0, l_RxAckCount := 0, l_RxCmdCount := 0,
         l_RxErrorCount := 0, l_NoAckCount := 0 \<rparr>, [Event LO_RESET_INF_EID INFORMATION])"

definition LORA_TDM_APP_SetDownlinkProtocol ::
    "lora_env \<Rightarrow> u8 list \<Rightarrow> LORA_TDM_APP_Data \<Rightarrow> LORA_TDM_APP_Data \<times> out list" where
  "LORA_TDM_APP_SetDownlinkProtocol env bs d =
     (let UseV2 = byte_at bs 0 in
      if UseV2 \<noteq> 0 \<and> UseV2 \<noteq> 1 then (lora_count_error d, [Event LO_SET_DL_PROTO_ERR_EID ERROR])
      else let d = d\<lparr> l_UseV2Downlink := (if UseV2 \<noteq> 0 then 1 else 0), l_CmdCounter := l_CmdCounter d + 1 \<rparr>
           in (d, LORA_TDM_APP_SaveState (lo_save env) d @ [Event LO_SET_DL_PROTO_INF_EID INFORMATION]))"

definition LORA_TDM_APP_VerifyCmdLength ::
    "nat \<Rightarrow> nat \<Rightarrow> LORA_TDM_APP_Data \<Rightarrow> bool \<times> LORA_TDM_APP_Data \<times> out list" where
  "LORA_TDM_APP_VerifyCmdLength actual expected d =
     (if actual \<noteq> expected then (False, lora_count_error d, [Event LO_CMD_LEN_ERR_EID ERROR])
      else (True, d, []))"

definition LORA_TDM_APP_ProcessGroundCommand ::
    "lora_env \<Rightarrow> u8 option \<Rightarrow> u8 list \<Rightarrow> LORA_TDM_APP_Data \<Rightarrow> LORA_TDM_APP_Data \<times> out list" where
  "LORA_TDM_APP_ProcessGroundCommand env fcn bs d =
     (let FcnCode = (case fcn of None \<Rightarrow> 0 | Some c \<Rightarrow> c) in
      if FcnCode = LORA_NOOP_CC then
        (let (ok, r) = LORA_TDM_APP_VerifyCmdLength (length bs) 0 d in if ok then LORA_TDM_APP_Noop d else r)
      else if FcnCode = LORA_RESET_COUNTERS_CC then
        (let (ok, r) = LORA_TDM_APP_VerifyCmdLength (length bs) 0 d in
         if ok then LORA_TDM_APP_ResetCounters d else r)
      else if FcnCode = SET_DOWNLINK_PROTO_CC then
        (let (ok, r) = LORA_TDM_APP_VerifyCmdLength (length bs) 4 d in
         if ok then LORA_TDM_APP_SetDownlinkProtocol env bs d else r)
      else (lora_count_error d, [Event LO_CC_ERR_EID ERROR]))"

definition LORA_TDM_APP_ProcessCommandPacket ::
    "lora_env \<Rightarrow> sb_msg \<Rightarrow> LORA_TDM_APP_Data \<Rightarrow> LORA_TDM_APP_Data \<times> out list" where
  "LORA_TDM_APP_ProcessCommandPacket env msg d =
     (let unknown = (lora_count_error d, [Event LO_MID_ERR_EID ERROR]) in
      case msg of
        Command mid fcn bs \<Rightarrow>
          if mid = LORA_TDM_CMD_MID then LORA_TDM_APP_ProcessGroundCommand env fcn bs d
          else if mid = LORA_SEND_HK_MID
          then (d, LORA_TDM_APP_ReportHousekeeping d @ LORA_TDM_APP_ReportLinkStatus env d)
          else unknown
      | FcAttitude m \<Rightarrow> (LORA_TDM_APP_UpdateCacheFromMsg msg d, [])
      | FcEkfLocal m \<Rightarrow> (LORA_TDM_APP_UpdateCacheFromMsg msg d, [])
      | FcGpsRaw m \<Rightarrow> (LORA_TDM_APP_UpdateCacheFromMsg msg d, [])
      | FcEkfStatus m \<Rightarrow> (LORA_TDM_APP_UpdateCacheFromMsg msg d, [])
      | SystemHealth m \<Rightarrow> (LORA_TDM_APP_UpdateCacheFromMsg msg d, [])
      | DiagnosticCmd m \<Rightarrow> LORA_TDM_APP_ProcessDiagnosticCommand m d
      | RouteSnapshot m \<Rightarrow> LORA_TDM_APP_ProcessRouteSnapshot m d
      | ConfigCmd m \<Rightarrow> LORA_TDM_APP_ProcessConfigCommand env m d
      | UplinkStatus m \<Rightarrow> (lora_uplink_status m d, [])
      | _ \<Rightarrow> unknown)"

section \<open>The cycle\<close>

fun drain :: "(lora_env \<times> sb_msg) list \<Rightarrow> LORA_TDM_APP_Data \<Rightarrow> LORA_TDM_APP_Data \<times> out list" where
  "drain [] d = (d, [])"
| "drain ((env, m) # ms) d =
     (let (d, os) = LORA_TDM_APP_ProcessCommandPacket env m d in prepend os (drain ms d))"

definition reopen :: "lora_cycle \<Rightarrow> LORA_TDM_APP_Data \<Rightarrow> LORA_TDM_APP_Data \<times> out list" where
  "reopen cy d =
     (let NowMs = GetTimeMs (cy_open_now cy) in
      if \<not> l_PortOpen d \<and> NowMs - l_LastSerialOpenAttemptMs d \<ge> SERIAL_REOPEN_BACKOFF_MS
      then (d\<lparr> l_LastSerialOpenAttemptMs := NowMs, l_PortOpen := (cy_open cy = Open_Ok) \<rparr>,
            (if SERIAL_BAUD_GetConstant LORA_BAUDRATE = None then [Event LO_SERIAL_OPEN_ERR_EID ERROR] else []) @
            (if cy_open cy = Open_Path_Fails then [Event LO_SERIAL_OPEN_ERR_EID ERROR] else []))
      else (d, []))"

definition LORA_TDM_APP_RunCycle ::
    "lora_cycle \<Rightarrow> LORA_TDM_APP_Data \<Rightarrow> LORA_TDM_APP_Data \<times> out list" where
  "LORA_TDM_APP_RunCycle cy d =
     (let (d, o1) = drain (cy_msgs cy) d;
          (d, o2) = reopen cy d;
          (d, o3) = LORA_TDM_APP_RunTx cy d;
          (d, o4) = LORA_TDM_APP_RunRxWindow cy d;
          (d, o5) = LORA_TDM_APP_UpdateLinkState (GetTimeMs (cy_end cy)) d
      in (d, o1 @ o2 @ o3 @ o4 @ o5))"

definition lora_initial :: LORA_TDM_APP_Data where
  "lora_initial = \<lparr> l_CmdCounter = 0, l_ErrCounter = 0, l_LinkState = 0, l_PacketType = 0,
     l_DownlinkSeq = 0, l_LastSentSeq = 0, l_TxCount = 0, l_RxAckCount = 0, l_RxCmdCount = 0,
     l_RxErrorCount = 0, l_NoAckCount = 0, l_AckReceivedThisCycle = False, l_SeqFailCount = 0,
     l_LastAckTimestampMs = 0, l_LastSerialOpenAttemptMs = 0, l_PendingUplinkFeedback = 0,
     l_LinkStateInitialized = 0, l_UplinkLastAcceptedSequence = 0, l_UplinkBootCount = 0,
     l_RouteReadbackPending = 0, l_RouteType = 0, l_RouteWaypointCount = 0, l_RoutePageIndex = 0,
     l_RouteTotalPages = 0, l_RouteWaypoints = replicate ROUTE_MAX_WAYPOINTS wp_zero,
     l_PortOpen = False, l_UseV2Downlink = 1, l_RxLineBuf = [], l_RxFrameMode = RXFRAME_NONE,
     l_RxFrameTargetLen = 0, l_RunStatus = APP_RUN,
     l_FcState = \<lparr> lf_RollRad = 0, lf_PitchRad = 0, lf_YawRad = 0, lf_PosX = 0, lf_PosY = 0, lf_PosZ = 0,
       lf_VelX = 0, lf_VelY = 0, lf_VelZ = 0, lf_LatE7 = 0, lf_LonE7 = 0, lf_AltMm = 0, lf_GpsFix = 0,
       lf_SatellitesVisible = 0, lf_AttitudeValid = 0, lf_LocalValid = 0, lf_GpsValid = 0,
       lf_EkfValid = 0, lf_TimestampMs = 0, lf_TimeUnixUsec = 0, lf_TimeValid = 0 \<rparr>,
     l_SystemHealth = \<lparr> lsh_SystemHealthState = 0, lsh_FaultCode = 0, lsh_TimestampMs = 0 \<rparr> \<rparr>"

text \<open>The event service must be registered before the state file is read; the pipe and its
  subscriptions come after.\<close>

definition LORA_TDM_APP_Init :: "bool \<Rightarrow> bool \<Rightarrow> file_read \<Rightarrow> bool \<times> LORA_TDM_APP_Data \<times> out list" where
  "LORA_TDM_APP_Init evs_ok pipe_ok f =
     (if \<not> evs_ok then (False, lora_initial, [])
      else let (d, os) = LORA_TDM_APP_LoadState f lora_initial
           in if \<not> pipe_ok then (False, d, os)
              else (True, d, os @ [Event LO_INIT_INF_EID INFORMATION]))"

fun lora_loop :: "lora_cycle list \<Rightarrow> LORA_TDM_APP_Data \<Rightarrow> LORA_TDM_APP_Data \<times> out list" where
  "lora_loop [] d = (d, [])"
| "lora_loop (cy # cys) d =
     (if l_RunStatus d \<noteq> APP_RUN then (d, [])
      else let (d, os) = LORA_TDM_APP_RunCycle cy d in prepend os (lora_loop cys d))"

definition LORA_TDM_APP_Main ::
    "bool \<Rightarrow> bool \<Rightarrow> file_read \<Rightarrow> lora_cycle list \<Rightarrow> LORA_TDM_APP_Data \<times> out list" where
  "LORA_TDM_APP_Main evs_ok pipe_ok f cys =
     (let (ok, d, os) = LORA_TDM_APP_Init evs_ok pipe_ok f;
          d = (if ok then d else d\<lparr> l_RunStatus := APP_ERROR \<rparr>);
          (d, os') = lora_loop cys d
      in (d\<lparr> l_PortOpen := False \<rparr>, os @ os'))"

end
