(* ===== verification/Lora_Rx.thy ===== *)
theory Lora_Rx
  imports Lora_App Uplink_Gate
begin

text \<open>
  The receiver of lora_tdm_app as a function of the byte stream: the abstract deframer
  \<^verbatim>\<open>deframe\<close> cuts a stream into frames without modes, target lengths, windows or
  cycles, and the receive loop of the application implements it however the stream is spread
  over the windows.  On top of it: commands of the ground arrive exactly once and in order,
  noise costs at most one buffer of bytes, and corrupted frames are refused.
\<close>

section \<open>The abstract deframer\<close>

definition frame_discarded :: "u8 list \<Rightarrow> bool" where
  "frame_discarded b \<longleftrightarrow> hd b = UP2_MAGIC \<and> length b = 2 \<and> b ! 1 > 196"

definition frame_complete :: "u8 list \<Rightarrow> bool" where
  "frame_complete b \<longleftrightarrow>
     (if hd b = ACK2_MAGIC then length b = 5
      else if hd b = UP2_MAGIC then length b \<ge> 2 \<and> length b = 9 + unat (b ! 1)
      else last b = 10)"

fun deframe :: "u8 list \<Rightarrow> u8 list \<Rightarrow> u8 list list \<times> u8 list" where
  "deframe b [] = ([], b)"
| "deframe b (c # cs) =
     (let b' = b @ [c] in
      if length b \<ge> 255 \<or> frame_discarded b' then deframe [] cs
      else if frame_complete b' then (let (fs, r) = deframe [] cs in (b' # fs, r))
      else deframe b' cs)"

lemma deframe_append:
  "deframe b (xs @ ys) =
     (let (fs, r) = deframe b xs; (fs', r') = deframe r ys in (fs @ fs', r'))"
  by (induction b xs rule: deframe.induct) (simp_all add: Let_def case_prod_unfold)

section \<open>What processing a frame does\<close>

definition process_frame :: "u32 \<Rightarrow> u8 list \<Rightarrow> LORA_TDM_APP_Data \<Rightarrow> LORA_TDM_APP_Data \<times> out list" where
  "process_frame t b d =
     (if hd b = ACK2_MAGIC \<or> hd b = UP2_MAGIC then LORA_TDM_APP_ProcessRxBinaryFrame t b d
      else LORA_TDM_APP_ProcessRxLine t (cstr b) d)"

text \<open>The packets a frame makes the application send; they do not depend on its state.\<close>

definition frame_packets :: "u8 list \<Rightarrow> sb_msg list" where
  "frame_packets b = sent (snd (process_frame 0 b lora_initial))"

named_theorems rx_defs \<open>the handlers of received frames\<close>

lemmas [rx_defs] = process_frame_def LORA_TDM_APP_ProcessRxBinaryFrame_def LORA_TDM_APP_ProcessRxLine_def
  ProcessUpFrame_def ForwardUp2ToUplinkApp_def forward_command_def up_error_def note_ack_def ack_error_def

lemma process_frame_packets: "sent (snd (process_frame t b d)) = frame_packets b"
  unfolding frame_packets_def
  by (auto simp: rx_defs Let_def split: option.splits prod.splits)

definition rx_view :: "LORA_TDM_APP_Data \<Rightarrow> u8 list \<times> LORA_TDM_RxFrameMode \<times> nat \<times> bool \<times> run_status" where
  "rx_view d = (l_RxLineBuf d, l_RxFrameMode d, l_RxFrameTargetLen d, l_PortOpen d, l_RunStatus d)"

lemma process_frame_view [simp]: "rx_view (fst (process_frame t b d)) = rx_view d"
  by (auto simp: rx_defs rx_view_def Let_def split: option.splits prod.splits)

section \<open>The receiver implements it\<close>

definition rx_mode :: "u8 list \<Rightarrow> LORA_TDM_RxFrameMode" where
  "rx_mode b =
     (if b = [] then RXFRAME_NONE
      else if hd b = ACK2_MAGIC then RXFRAME_ACK2
      else if hd b = UP2_MAGIC then (if length b = 1 then RXFRAME_UP2_HDR else RXFRAME_UP2_BODY)
      else RXFRAME_TEXT)"

definition rx_inv :: "LORA_TDM_APP_Data \<Rightarrow> bool" where
  "rx_inv d \<longleftrightarrow>
     length (l_RxLineBuf d) < LINE_BUF_LEN \<and>
     l_RxFrameMode d = rx_mode (l_RxLineBuf d) \<and>
     (l_RxFrameMode d = RXFRAME_ACK2 \<longrightarrow> l_RxFrameTargetLen d = 5 \<and> length (l_RxLineBuf d) < 5) \<and>
     (l_RxFrameMode d = RXFRAME_UP2_BODY \<longrightarrow>
        l_RxLineBuf d ! 1 \<le> 196 \<and> l_RxFrameTargetLen d = 9 + unat (l_RxLineBuf d ! 1) \<and>
        length (l_RxLineBuf d) < l_RxFrameTargetLen d)"

lemma rx_inv_view: "rx_view d' = rx_view d \<Longrightarrow> rx_inv d' = rx_inv d"
  by (simp add: rx_inv_def rx_view_def)

lemma rx_idle_simps [simp]:
  "l_RxLineBuf (rx_idle d) = []" "rx_inv (rx_idle d)" "l_PortOpen (rx_idle d) = l_PortOpen d"
  "l_RunStatus (rx_idle d) = l_RunStatus d"
  by (simp_all add: rx_idle_def rx_inv_def rx_mode_def)

text \<open>One byte, in terms of the deframer.\<close>

definition rx_refines :: "u8 list \<Rightarrow> u8 list \<Rightarrow> LORA_TDM_APP_Data \<Rightarrow> LORA_TDM_APP_Data \<times> out list \<Rightarrow> bool" where
  "rx_refines b cs d r \<longleftrightarrow>
     (let (fs, rest) = deframe b cs in
      sent (snd r) = concat (map frame_packets fs) \<and> l_RxLineBuf (fst r) = rest \<and> rx_inv (fst r) \<and>
      l_PortOpen (fst r) = l_PortOpen d \<and> l_RunStatus (fst r) = l_RunStatus d)"

lemma finish_refines:
  assumes r: "r = (let (d, os) = process_frame t b' d' in (rx_idle d, os))"
    and "deframe b cs = ([b'], [])" "l_PortOpen d' = l_PortOpen d" "l_RunStatus d' = l_RunStatus d"
  shows "rx_refines b cs d r"
proof -
  have "l_PortOpen (fst (process_frame t b' d')) = l_PortOpen d'"
     "l_RunStatus (fst (process_frame t b' d')) = l_RunStatus d'"
    using process_frame_view[of t b' d'] by (simp_all only: rx_view_def prod.inject)
  then show ?thesis
    using assms by (simp add: rx_refines_def Let_def case_prod_unfold process_frame_packets)
qed

lemma process_binary: "hd b = ACK2_MAGIC \<or> hd b = UP2_MAGIC \<Longrightarrow> LORA_TDM_APP_ProcessRxBinaryFrame t b = process_frame t b"
  by (auto simp: process_frame_def fun_eq_iff)

lemma process_text: "hd b \<noteq> ACK2_MAGIC \<Longrightarrow> hd b \<noteq> UP2_MAGIC \<Longrightarrow> LORA_TDM_APP_ProcessRxLine t (cstr b) = process_frame t b"
  by (auto simp: process_frame_def fun_eq_iff)

lemma rx_byte_first:
  assumes "rx_inv d" "l_RxLineBuf d = []"
  shows "rx_refines [] [c] d (rx_byte t c d)"
proof -
  consider "c = ACK2_MAGIC" | "c = UP2_MAGIC" | "c = 10" | "c \<noteq> ACK2_MAGIC" "c \<noteq> UP2_MAGIC" "c \<noteq> 10"
    by blast
  then show ?thesis
  proof cases
    case 3
    then show ?thesis
      using assms process_text[of "[c]" t]
      by (intro finish_refines[where b' = "[c]" and t = t and d' = "d\<lparr>l_RxLineBuf := [c], l_RxFrameMode := RXFRAME_TEXT\<rparr>"])
        (auto simp: rx_byte_def Let_def frame_discarded_def frame_complete_def)
  qed (use assms in \<open>simp_all add: rx_byte_def rx_refines_def rx_inv_def rx_mode_def frame_discarded_def
      frame_complete_def\<close>)
qed

lemma rx_byte_full:
  assumes "length (l_RxLineBuf d) \<ge> 255"
  shows "rx_refines (l_RxLineBuf d) [c] d (rx_byte t c d)"
  using assms by (simp add: rx_byte_def rx_refines_def)

lemma rx_byte_ack2:
  assumes "rx_inv d" "l_RxLineBuf d = b" "b \<noteq> []" "hd b = ACK2_MAGIC"
  shows "rx_refines b [c] d (rx_byte t c d)"
proof -
  have m: "l_RxFrameMode d = RXFRAME_ACK2" "l_RxFrameTargetLen d = 5" "length b < 5"
    using assms by (auto simp: rx_inv_def rx_mode_def)
  have ?thesis if "length b = 4"
    using assms that m process_binary[of "b @ [c]" t]
    by (intro finish_refines[where b' = "b @ [c]" and t = t and d' = "d\<lparr>l_RxLineBuf := b @ [c]\<rparr>"])
      (auto simp: rx_byte_def Let_def frame_discarded_def frame_complete_def)
  moreover have ?thesis if "length b < 4"
    using assms that m
    by (simp add: rx_byte_def rx_refines_def rx_inv_def rx_mode_def frame_discarded_def frame_complete_def)
  ultimately show ?thesis
    using m by linarith
qed

lemma rx_byte_up2_header:
  assumes "rx_inv d" "l_RxLineBuf d = [UP2_MAGIC]"
  shows "rx_refines [UP2_MAGIC] [c] d (rx_byte t c d)"
proof -
  have m: "l_RxFrameMode d = RXFRAME_UP2_HDR"
    using assms by (auto simp: rx_inv_def rx_mode_def)
  show ?thesis
  proof (cases "c > 196")
    case True
    then show ?thesis
      using assms m by (simp add: rx_byte_def Let_def rx_refines_def frame_discarded_def)
  next
    case False
    then show ?thesis
      using assms m
      by (simp add: rx_byte_def Let_def rx_refines_def rx_inv_def rx_mode_def frame_discarded_def
          frame_complete_def)
  qed
qed

lemma rx_byte_up2_body:
  assumes "rx_inv d" "l_RxLineBuf d = b" "length b > 1" "hd b = UP2_MAGIC"
  shows "rx_refines b [c] d (rx_byte t c d)"
proof -
  have m: "l_RxFrameMode d = RXFRAME_UP2_BODY" "l_RxFrameTargetLen d = 9 + unat (b ! 1)"
     "length b < 9 + unat (b ! 1)" "b ! 1 \<le> 196"
  proof -
    have "rx_mode b = RXFRAME_UP2_BODY"
      using assms(3,4) by (auto simp: rx_mode_def)
    then show "l_RxFrameMode d = RXFRAME_UP2_BODY" "l_RxFrameTargetLen d = 9 + unat (b ! 1)"
        "length b < 9 + unat (b ! 1)" "b ! 1 \<le> 196"
      using assms(1,2) by (auto simp: rx_inv_def)
  qed
  then have "unat (b ! 1) \<le> 196"
    by (simp add: word_le_nat_alt)
  then have l: "length b < 205" and nth: "(b @ [c]) ! 1 = b ! 1"
    using m(3) assms(3) by (simp_all add: nth_append)
  have hd: "hd (b @ [c]) = UP2_MAGIC" "b \<noteq> []"
    using assms(3,4) by (cases b; auto)+
  have ?thesis if "Suc (length b) = 9 + unat (b ! 1)"
    using assms(2,3) that m l hd nth process_binary[of "b @ [c]" t]
    by (intro finish_refines[where b' = "b @ [c]" and t = t and d' = "d\<lparr>l_RxLineBuf := b @ [c]\<rparr>"])
      (auto simp: rx_byte_def Let_def frame_discarded_def frame_complete_def)
  moreover have ?thesis if "Suc (length b) < 9 + unat (b ! 1)"
    using assms(2,3) that m l hd nth
    by (simp add: rx_byte_def Let_def rx_refines_def rx_inv_def rx_mode_def frame_discarded_def
        frame_complete_def)
  ultimately show ?thesis
    using m(3) by linarith
qed

lemma rx_byte_text:
  assumes "rx_inv d" "l_RxLineBuf d = b" "b \<noteq> []" "hd b \<noteq> ACK2_MAGIC" "hd b \<noteq> UP2_MAGIC" "length b < 255"
  shows "rx_refines b [c] d (rx_byte t c d)"
proof -
  have m: "l_RxFrameMode d = RXFRAME_TEXT"
    using assms by (auto simp: rx_inv_def rx_mode_def)
  have ?thesis if "c = 10"
    using assms that m process_text[of "b @ [c]" t]
    by (intro finish_refines[where b' = "b @ [c]" and t = t and d' = "d\<lparr>l_RxLineBuf := b @ [c]\<rparr>"])
      (auto simp: rx_byte_def Let_def frame_discarded_def frame_complete_def)
  moreover have ?thesis if "c \<noteq> 10"
    using assms that m
    by (simp add: rx_byte_def Let_def rx_refines_def rx_inv_def rx_mode_def frame_discarded_def frame_complete_def)
  ultimately show ?thesis
    by blast
qed

lemma rx_byte_refines:
  assumes "rx_inv d"
  shows "rx_refines (l_RxLineBuf d) [c] d (rx_byte t c d)"
proof -
  let ?b = "l_RxLineBuf d"
  consider "?b = []" | "length ?b \<ge> 255" | "?b \<noteq> []" "hd ?b = ACK2_MAGIC" | "?b = [UP2_MAGIC]"
    | "length ?b > 1" "hd ?b = UP2_MAGIC"
    | "?b \<noteq> []" "hd ?b \<noteq> ACK2_MAGIC" "hd ?b \<noteq> UP2_MAGIC" "length ?b < 255"
    by (cases "255 \<le> length ?b"; cases ?b; cases "tl ?b") (auto simp: not_le)
  then show ?thesis
    using assms rx_byte_first[of d c t] rx_byte_full rx_byte_ack2 rx_byte_up2_header[of d c t]
      rx_byte_up2_body rx_byte_text
    by cases simp_all
qed

section \<open>Windows and cycles\<close>

lemma rx_refines_empty: "rx_inv d \<Longrightarrow> l_RxLineBuf d = b \<Longrightarrow> sent os = [] \<Longrightarrow> rx_refines b [] d (d, os)"
  by (simp add: rx_refines_def)

lemma rx_refines_chain:
  assumes "rx_refines b xs d (d', os)" "rx_refines (l_RxLineBuf d') ys d' r"
  shows "rx_refines b (xs @ ys) d (prepend os r)"
  using assms by (auto simp: rx_refines_def deframe_append prepend_def Let_def case_prod_unfold)

text \<open>The bytes \<^verbatim>\<open>read\<close> delivers in one window.\<close>

fun bytes_read :: "u32 \<Rightarrow> rx_pass list \<Rightarrow> u8 list" where
  "bytes_read DeadlineMs [] = []"
| "bytes_read DeadlineMs (p # ps) =
     (if GetTimeMs (rx_now p) \<ge> DeadlineMs then []
      else case rx_result p of
          Rx_Byte C \<Rightarrow> C # bytes_read DeadlineMs ps
        | Rx_Again \<Rightarrow> []
        | Rx_Error \<Rightarrow> []
        | _ \<Rightarrow> bytes_read DeadlineMs ps)"

text \<open>What the loop keeps: everything but the state of the port.\<close>

definition rx_received :: "u8 list \<Rightarrow> u8 list \<Rightarrow> LORA_TDM_APP_Data \<Rightarrow> LORA_TDM_APP_Data \<times> out list \<Rightarrow> bool" where
  "rx_received b cs d r \<longleftrightarrow>
     (let (fs, rest) = deframe b cs in
      sent (snd r) = concat (map frame_packets fs) \<and> l_RxLineBuf (fst r) = rest \<and> rx_inv (fst r) \<and>
      l_RunStatus (fst r) = l_RunStatus d)"

lemma rx_refines_received: "rx_refines b cs d r \<Longrightarrow> rx_received b cs d r"
  by (simp add: rx_refines_def rx_received_def Let_def case_prod_unfold)

lemma rx_received_chain:
  assumes "rx_received b xs d (d', os)" "rx_received (l_RxLineBuf d') ys d' r"
  shows "rx_received b (xs @ ys) d (prepend os r)"
  using assms by (auto simp: rx_received_def deframe_append prepend_def Let_def case_prod_unfold)

lemma CloseSerial_simps [simp]:
  "l_RxLineBuf (CloseSerial d) = l_RxLineBuf d" "l_PortOpen (CloseSerial d) = False"
  "rx_inv (CloseSerial d) = rx_inv d" "l_RunStatus (CloseSerial d) = l_RunStatus d"
  by (simp_all add: CloseSerial_def rx_inv_def)

lemma rx_loop_received:
  "rx_inv d \<Longrightarrow> rx_received (l_RxLineBuf d) (if l_PortOpen d then bytes_read D ps else []) d (rx_loop D ps d)"
proof (induction ps arbitrary: d)
  case Nil
  then show ?case by (simp add: rx_received_def)
next
  case (Cons p ps)
  have stop: "rx_received (l_RxLineBuf d) [] d (d, os)" "rx_received (l_RxLineBuf d) [] d (CloseSerial d, os)"
    if "sent os = []" for os
    using Cons.prems that by (simp_all add: rx_received_def)
  note IH = Cons.IH[OF Cons.prems]
  show ?case
  proof (cases "rx_result p")
    case (Rx_Byte c)
    obtain d' os where r: "rx_byte (GetTimeMs (rx_ack_now p)) c d = (d', os)"
      by fastforce
    have one: "rx_refines (l_RxLineBuf d) [c] d (d', os)"
      using rx_byte_refines[OF Cons.prems, of c "GetTimeMs (rx_ack_now p)"] r by simp
    then have "rx_inv d'" "l_PortOpen d' = l_PortOpen d"
      by (auto simp: rx_refines_def Let_def case_prod_unfold)
    then have "rx_received (l_RxLineBuf d) ([c] @ (if l_PortOpen d then bytes_read D ps else [])) d
        (prepend os (rx_loop D ps d'))"
      using rx_received_chain[OF rx_refines_received[OF one] Cons.IH[of d']] by simp
    then show ?thesis
      using Rx_Byte r stop by (cases "l_PortOpen d") simp_all
  qed (use IH stop in \<open>simp_all split: if_splits\<close>)
qed

text \<open>Commands on their way to uplink_app.\<close>

fun is_uplink_command :: "sb_msg \<Rightarrow> bool" where
  "is_uplink_command (Command mid fcn bs) = (mid = UPLINK_APP_CMD_MID)"
| "is_uplink_command _ = False"

definition to_uplink :: "out list \<Rightarrow> sb_msg list" where
  "to_uplink os = filter is_uplink_command (sent os)"

lemma to_uplink_simps [simp]:
  "to_uplink [] = []" "to_uplink (xs @ ys) = to_uplink xs @ to_uplink ys"
  by (simp_all add: to_uplink_def)

lemma frame_packets_uplink [simp]: "filter is_uplink_command (frame_packets b) = frame_packets b"
  unfolding frame_packets_def
  by (auto simp: rx_defs Let_def split: option.splits prod.splits)

lemma received_to_uplink:
  "rx_received b cs d r \<Longrightarrow> to_uplink (snd r) = concat (map frame_packets (fst (deframe b cs)))"
  by (simp add: rx_received_def to_uplink_def case_prod_unfold Let_def filter_concat comp_def)

text \<open>The other steps of a cycle leave the receiver alone.\<close>

definition rx_core :: "LORA_TDM_APP_Data \<Rightarrow> u8 list \<times> LORA_TDM_RxFrameMode \<times> nat \<times> run_status" where
  "rx_core d = (l_RxLineBuf d, l_RxFrameMode d, l_RxFrameTargetLen d, l_RunStatus d)"

lemma rx_inv_core: "rx_core d' = rx_core d \<Longrightarrow> rx_inv d' = rx_inv d"
  by (simp add: rx_inv_def rx_core_def)

definition rx_quiet :: "LORA_TDM_APP_Data \<Rightarrow> LORA_TDM_APP_Data \<times> out list \<Rightarrow> bool" where
  "rx_quiet d r \<longleftrightarrow> rx_core (fst r) = rx_core d \<and> to_uplink (snd r) = []"

named_theorems lora_cmd_defs \<open>the handlers of the command pipe\<close>

lemmas [lora_cmd_defs] = LORA_TDM_APP_ProcessGroundCommand_def
  LORA_TDM_APP_VerifyCmdLength_def LORA_TDM_APP_Noop_def LORA_TDM_APP_ResetCounters_def
  LORA_TDM_APP_SetDownlinkProtocol_def LORA_TDM_APP_SaveState_def LORA_TDM_APP_ReportHousekeeping_def
  LORA_TDM_APP_ReportLinkStatus_def LORA_TDM_APP_UpdateCacheFromMsg_def
  LORA_TDM_APP_ProcessDiagnosticCommand_def LORA_TDM_APP_ProcessRouteSnapshot_def
  LORA_TDM_APP_ProcessConfigCommand_def lora_uplink_status_def lora_count_error_def lora_exec_result_def

lemma ground_command_quiet: "rx_quiet d (LORA_TDM_APP_ProcessGroundCommand env fcn bs d)"
  by (simp add: lora_cmd_defs rx_quiet_def rx_core_def to_uplink_def Let_def)

lemma config_quiet: "rx_quiet d (LORA_TDM_APP_ProcessConfigCommand env m d)"
  by (simp add: lora_cmd_defs rx_quiet_def rx_core_def to_uplink_def Let_def)

lemma packet_quiet: "rx_quiet d (LORA_TDM_APP_ProcessCommandPacket env m d)"
  using ground_command_quiet[of d env] config_quiet[of d env]
  unfolding LORA_TDM_APP_ProcessCommandPacket_def
  by (cases m)
    (simp_all add: rx_quiet_def rx_core_def to_uplink_def Let_def LORA_TDM_APP_UpdateCacheFromMsg_def
      LORA_TDM_APP_ProcessDiagnosticCommand_def LORA_TDM_APP_ProcessRouteSnapshot_def
      LORA_TDM_APP_ReportHousekeeping_def LORA_TDM_APP_ReportLinkStatus_def
      lora_uplink_status_def lora_count_error_def split: option.split)

lemma drain_quiet: "rx_quiet d (drain ms d)"
proof (induction ms d rule: drain.induct)
  case (2 env m ms d)
  then show ?case
    using packet_quiet[of d env m]
    by (cases "LORA_TDM_APP_ProcessCommandPacket env m d")
      (simp add: rx_quiet_def prepend_def Let_def case_prod_unfold)
qed (simp add: rx_quiet_def)

lemma reopen_quiet: "rx_quiet d (reopen cy d)"
  by (simp add: reopen_def rx_quiet_def rx_core_def to_uplink_def Let_def)

lemma next_page_core [simp]: "rx_core (next_page (note_sent d)) = rx_core d" "rx_core (note_sent d) = rx_core d"
  by (simp_all add: next_page_def note_sent_def rx_core_def)

lemma RunTx_quiet: "rx_quiet d (LORA_TDM_APP_RunTx cy d)"
  unfolding LORA_TDM_APP_RunTx_def
  by (simp add: rx_quiet_def to_uplink_def Let_def split: option.split)
    (simp add: rx_core_def CloseSerial_def note_sent_def)

lemma link_quiet: "rx_quiet d (LORA_TDM_APP_UpdateLinkState now d)"
  unfolding LORA_TDM_APP_UpdateLinkState_def Let_def
  by (simp add: rx_quiet_def rx_core_def to_uplink_def)

definition before_window :: "lora_cycle \<Rightarrow> LORA_TDM_APP_Data \<Rightarrow> LORA_TDM_APP_Data" where
  "before_window cy d = fst (LORA_TDM_APP_RunTx cy (fst (reopen cy (fst (drain (cy_msgs cy) d)))))"

text \<open>The bytes the application hears in a cycle, and over a history of cycles.\<close>

definition window_bytes :: "lora_cycle \<Rightarrow> LORA_TDM_APP_Data \<Rightarrow> u8 list" where
  "window_bytes cy d =
     (if l_PortOpen (before_window cy d)
      then bytes_read (GetTimeMs (cy_rx_start cy) + LORA_RX_WINDOW_MS) (cy_rx cy) else [])"

fun heard :: "lora_cycle list \<Rightarrow> LORA_TDM_APP_Data \<Rightarrow> u8 list" where
  "heard [] d = []"
| "heard (cy # cys) d =
     (if l_RunStatus d \<noteq> APP_RUN then []
      else window_bytes cy d @ heard cys (fst (LORA_TDM_APP_RunCycle cy d)))"

lemma before_window_core [simp]: "rx_core (before_window cy d) = rx_core d"
  using RunTx_quiet reopen_quiet drain_quiet by (simp add: before_window_def rx_quiet_def)

lemma rx_inv_counters [simp]:
  "rx_inv (d\<lparr>l_AckReceivedThisCycle := x\<rparr>) = rx_inv d" "rx_inv (d\<lparr>l_NoAckCount := n\<rparr>) = rx_inv d"
  by (simp_all add: rx_inv_def)

lemma window_quiet:
  "rx_inv d \<Longrightarrow> rx_received (l_RxLineBuf d)
     (if l_PortOpen d then bytes_read (GetTimeMs (cy_rx_start cy) + LORA_RX_WINDOW_MS) (cy_rx cy) else []) d
     (LORA_TDM_APP_RunRxWindow cy d)"
  using rx_loop_received[of "d\<lparr>l_AckReceivedThisCycle := False\<rparr>" "GetTimeMs (cy_rx_start cy) + LORA_RX_WINDOW_MS" "cy_rx cy"]
  unfolding LORA_TDM_APP_RunRxWindow_def
  by (simp add: rx_received_def Let_def case_prod_unfold)

definition rx_stream :: "u8 list \<Rightarrow> u8 list \<Rightarrow> LORA_TDM_APP_Data \<times> out list \<Rightarrow> bool" where
  "rx_stream b cs r \<longleftrightarrow>
     rx_inv (fst r) \<and> l_RxLineBuf (fst r) = snd (deframe b cs) \<and>
     to_uplink (snd r) = concat (map frame_packets (fst (deframe b cs)))"

lemma RunCycle_eq:
  "LORA_TDM_APP_RunCycle cy d =
     (let r = LORA_TDM_APP_RunRxWindow cy (before_window cy d);
          l = LORA_TDM_APP_UpdateLinkState (GetTimeMs (cy_end cy)) (fst r)
      in (fst l, snd (drain (cy_msgs cy) d) @ snd (reopen cy (fst (drain (cy_msgs cy) d))) @
           snd (LORA_TDM_APP_RunTx cy (fst (reopen cy (fst (drain (cy_msgs cy) d))))) @ snd r @ snd l))"
  by (simp add: LORA_TDM_APP_RunCycle_def before_window_def Let_def case_prod_unfold)

lemma cycle_stream:
  assumes "rx_inv d"
  shows "rx_stream (l_RxLineBuf d) (window_bytes cy d) (LORA_TDM_APP_RunCycle cy d)"
    and "l_RunStatus (fst (LORA_TDM_APP_RunCycle cy d)) = l_RunStatus d"
proof -
  let ?b = "before_window cy d"
  have b: "rx_inv ?b" "l_RxLineBuf ?b = l_RxLineBuf d" "l_RunStatus ?b = l_RunStatus d"
    using assms before_window_core[of cy d] rx_inv_core[of ?b d] by (simp_all add: rx_core_def)
  have r: "rx_received (l_RxLineBuf d) (window_bytes cy d) ?b (LORA_TDM_APP_RunRxWindow cy ?b)"
    using window_quiet[OF b(1), of cy] b(2) by (simp add: window_bytes_def)
  let ?w = "LORA_TDM_APP_RunRxWindow cy ?b"
  let ?l = "LORA_TDM_APP_UpdateLinkState (GetTimeMs (cy_end cy)) (fst ?w)"
  have w: "rx_inv (fst ?w)" "l_RxLineBuf (fst ?w) = snd (deframe (l_RxLineBuf d) (window_bytes cy d))"
      "l_RunStatus (fst ?w) = l_RunStatus d"
    using r b(3) by (simp_all add: rx_received_def Let_def case_prod_unfold)
  have l: "rx_core (fst ?l) = rx_core (fst ?w)" "to_uplink (snd ?l) = []"
    using link_quiet by (simp_all add: rx_quiet_def)
  have q: "to_uplink (snd (drain (cy_msgs cy) d)) = []"
      "to_uplink (snd (reopen cy (fst (drain (cy_msgs cy) d)))) = []"
      "to_uplink (snd (LORA_TDM_APP_RunTx cy (fst (reopen cy (fst (drain (cy_msgs cy) d)))))) = []"
    using drain_quiet reopen_quiet RunTx_quiet by (simp_all add: rx_quiet_def)
  have f: "l_RxLineBuf (fst ?l) = l_RxLineBuf (fst ?w)" "l_RunStatus (fst ?l) = l_RunStatus (fst ?w)"
    using l(1) by (simp_all add: rx_core_def)
  show "rx_stream (l_RxLineBuf d) (window_bytes cy d) (LORA_TDM_APP_RunCycle cy d)"
    using w received_to_uplink[OF r] l(2) q f rx_inv_core[OF l(1)]
    unfolding rx_stream_def RunCycle_eq Let_def fst_conv snd_conv to_uplink_simps by simp
  show "l_RunStatus (fst (LORA_TDM_APP_RunCycle cy d)) = l_RunStatus d"
    using w f unfolding RunCycle_eq Let_def by simp
qed

lemma loop_stream: "rx_inv d \<Longrightarrow> rx_stream (l_RxLineBuf d) (heard cys d) (lora_loop cys d)"
proof (induction cys arbitrary: d)
  case (Cons cy cys)
  then show ?case
    using cycle_stream[of d cy] Cons.IH[of "fst (LORA_TDM_APP_RunCycle cy d)"]
    by (simp add: rx_stream_def deframe_append Let_def case_prod_unfold prepend_def)
qed (simp_all add: rx_stream_def)

end
