(* ===== verification/Lora_Stream.thy ===== *)
theory Lora_Stream
  imports Lora_Rx Uplink_Replay
begin

text \<open>
  The properties of the receiver of lora_tdm_app over whole histories of its main loop: it
  implements the deframer, the commands of the ground reach uplink_app exactly once and in
  order and in a form uplink_app reads back, noise costs at most one buffer, and corrupted
  frames forward nothing.
\<close>

definition lora_boot :: "bool \<Rightarrow> bool \<Rightarrow> file_read \<Rightarrow> LORA_TDM_APP_Data" where
  "lora_boot evs_ok pipe_ok f =
     (let (ok, d, os) = LORA_TDM_APP_Init evs_ok pipe_ok f in if ok then d else d\<lparr> l_RunStatus := APP_ERROR \<rparr>)"

lemma LoadState_core: "rx_core (fst (LORA_TDM_APP_LoadState f d)) = rx_core d"
  by (simp add: LORA_TDM_APP_LoadState_def rx_core_def Let_def split: file_read.split)

lemma LoadState_to_uplink: "to_uplink (snd (LORA_TDM_APP_LoadState f d)) = []"
  by (simp add: LORA_TDM_APP_LoadState_def to_uplink_def Let_def split: file_read.split)

lemma lora_boot_buf: "l_RxLineBuf (lora_boot e p f) = []" "rx_inv (lora_boot e p f)"
proof -
  have "l_RxLineBuf (lora_boot e p f) = [] \<and> l_RxFrameMode (lora_boot e p f) = RXFRAME_NONE"
    using LoadState_core[of f lora_initial]
    by (simp add: lora_boot_def LORA_TDM_APP_Init_def case_prod_unfold Let_def rx_core_def lora_initial_def)
  then show "l_RxLineBuf (lora_boot e p f) = []" "rx_inv (lora_boot e p f)"
    by (simp_all add: rx_inv_def rx_mode_def)
qed

lemma Init_to_uplink: "to_uplink (snd (snd (LORA_TDM_APP_Init e p f))) = []"
  using LoadState_to_uplink[of f lora_initial]
  by (simp add: LORA_TDM_APP_Init_def case_prod_unfold Let_def to_uplink_def)

lemma Main_eq:
  "LORA_TDM_APP_Main e p f cys =
     (let r = lora_loop cys (lora_boot e p f)
      in (fst r\<lparr> l_PortOpen := False \<rparr>, snd (snd (LORA_TDM_APP_Init e p f)) @ snd r))"
  by (simp add: LORA_TDM_APP_Main_def lora_boot_def Let_def case_prod_unfold)

section \<open>The receiver implements the deframer\<close>

text \<open>C9: over any history of the main loop - any distribution of the bytes over receive
  windows and cycles, with interrupted reads, reopened ports and any packets in between - the
  commands handed to uplink_app are exactly those of the frames the deframer cuts out of the
  concatenated byte stream, in that order, and the receive buffer is its unfinished rest, always
  shorter than the 256 bytes of the array.\<close>

theorem lora_receiver_refines_deframer:
  "to_uplink (snd (LORA_TDM_APP_Main evs_ok pipe_ok f cys)) =
     concat (map frame_packets (fst (deframe [] (heard cys (lora_boot evs_ok pipe_ok f))))) \<and>
   l_RxLineBuf (fst (LORA_TDM_APP_Main evs_ok pipe_ok f cys)) =
     snd (deframe [] (heard cys (lora_boot evs_ok pipe_ok f))) \<and>
   length (l_RxLineBuf (fst (LORA_TDM_APP_Main evs_ok pipe_ok f cys))) < LINE_BUF_LEN"
proof -
  have s: "rx_stream [] (heard cys (lora_boot evs_ok pipe_ok f)) (lora_loop cys (lora_boot evs_ok pipe_ok f))"
    using loop_stream[OF lora_boot_buf(2)] by (simp add: lora_boot_buf(1))
  then have "length (l_RxLineBuf (fst (lora_loop cys (lora_boot evs_ok pipe_ok f)))) < LINE_BUF_LEN"
    by (auto simp: rx_stream_def rx_inv_def)
  then show ?thesis
    using s by (simp add: Main_eq Let_def rx_stream_def Init_to_uplink)
qed

section \<open>The frames of the ground\<close>

definition up2_body :: "LORA_TDM_APP_Up2Decoded \<Rightarrow> u8 list" where
  "up2_body u = [UP2_MAGIC, up_PayloadLen u, up_Version u, up_CommandClass u] @ put_u16 (up_Seq u) @
     [up_Flags u] @ up_Payload u"

definition up2_bytes :: "LORA_TDM_APP_Up2Decoded \<Rightarrow> u8 list" where
  "up2_bytes u = up2_body u @ put_u16 (LORA_TDM_APP_Crc16 (up2_body u))"

definition ack2_bytes :: "u16 \<Rightarrow> u8 list" where
  "ack2_bytes s = (let b = ACK2_MAGIC # put_u16 s in b @ put_u16 (LORA_TDM_APP_Crc16 b))"

definition up2_valid :: "LORA_TDM_APP_Up2Decoded \<Rightarrow> bool" where
  "up2_valid u \<longleftrightarrow> length (up_Payload u) \<le> 196 \<and> up_PayloadLen u = of_nat (length (up_Payload u))"

lemma up2_valid_len: "up2_valid u \<Longrightarrow> unat (up_PayloadLen u) = length (up_Payload u)"
  by (simp add: up2_valid_def unat_of_nat)

lemma length_up2_body: "length (up2_body u) = 7 + length (up_Payload u)"
  by (simp add: up2_body_def)

lemma up2_body_bytes:
  "byte_at (up2_body u @ xs) 0 = UP2_MAGIC" "byte_at (up2_body u @ xs) 1 = up_PayloadLen u"
  "byte_at (up2_body u @ xs) 2 = up_Version u" "byte_at (up2_body u @ xs) 3 = up_CommandClass u"
  "get_u16 (up2_body u @ xs) 4 = up_Seq u" "byte_at (up2_body u @ xs) 6 = up_Flags u"
  "drop 7 (up2_body u @ xs) = up_Payload u @ xs"
  by (simp_all add: up2_body_def byte_at_append2)

lemma parse_up2:
  assumes "up2_valid u"
  shows "LORA_TDM_APP_ParseUp2Frame (up2_bytes u) = Some u"
proof -
  have "unat (up_PayloadLen u) = length (up_Payload u)" "length (up_Payload u) \<le> 196"
    using assms up2_valid_len by (simp_all add: up2_valid_def)
  then show ?thesis
    unfolding LORA_TDM_APP_ParseUp2Frame_def up2_bytes_def up2_body_bytes Let_def
    by (cases u) (simp add: length_up2_body get_u16_append2)
qed

text \<open>A buffer whose proper prefixes are unfinished is cut out whole.\<close>

definition one_frame :: "u8 list \<Rightarrow> bool" where
  "one_frame b \<longleftrightarrow> b \<noteq> [] \<and> length b \<le> 255 \<and> frame_complete b \<and> \<not> frame_discarded b \<and>
     (\<forall>k<length b. 0 < k \<longrightarrow> \<not> frame_complete (take k b) \<and> \<not> frame_discarded (take k b))"

lemma deframe_one:
  assumes "one_frame b"
  shows "deframe [] (b @ cs) = (let (fs, r) = deframe [] cs in (b # fs, r))"
proof -
  have "deframe (take k b) (drop k b @ cs) = (let (fs, r) = deframe [] cs in (b # fs, r))"
    if "k < length b" for k
    using that
  proof (induction "length b - k" arbitrary: k)
    case (Suc n)
    have d: "drop k b = b ! k # drop (Suc k) b"
      using Suc.prems by (simp add: Cons_nth_drop_Suc)
    have t: "take k b @ [b ! k] = take (Suc k) b"
      using Suc.prems by (simp add: take_Suc_conv_app_nth)
    have l: "\<not> 255 \<le> length (take k b)"
      using Suc.prems assms by (simp add: one_frame_def)
    show ?case
    proof (cases "Suc k = length b")
      case True
      then have "take (Suc k) b = b" "drop (Suc k) b = []" by simp_all
      then show ?thesis
        using assms t l unfolding d by (simp add: one_frame_def Let_def del: length_take)
    next
      case False
      then have "Suc k < length b" using Suc.prems by simp
      then show ?thesis
        using assms t l Suc.hyps(1)[of "Suc k"] Suc.hyps(2) unfolding d
        by (simp add: one_frame_def Let_def del: length_take)
    qed
  qed simp
  from this[of 0] show ?thesis
    using assms by (simp add: one_frame_def)
qed

lemma deframe_frames: "list_all one_frame bs \<Longrightarrow> deframe [] (concat bs) = (bs, [])"
  by (induction bs) (simp_all add: deframe_one)

lemma one_frame_like:
  assumes b: "b = UP2_MAGIC # n # r" and l: "length b = 9 + unat n" and le: "n \<le> 196"
  shows "one_frame b"
proof -
  have n: "unat n \<le> 196"
    using le by (simp add: word_le_nat_alt)
  have "\<not> frame_complete (take k b) \<and> \<not> frame_discarded (take k b)" if k: "k < length b" "0 < k" for k
  proof -
    have h: "hd (take k b) = UP2_MAGIC" "length (take k b) = k"
      using k b by (auto simp: hd_take)
    moreover have "take k b ! 1 = n" if "k \<ge> 2"
      using that b by simp
    ultimately show ?thesis
      using n le l k by (auto simp: frame_complete_def frame_discarded_def not_less)
  qed
  moreover have "frame_complete b" "\<not> frame_discarded b"
    using b l n le by (auto simp: frame_complete_def frame_discarded_def)
  ultimately show ?thesis
    using b l n by (auto simp: one_frame_def)
qed

lemma length_up2_bytes: "length (up2_bytes u) = 9 + length (up_Payload u)"
  by (simp add: up2_bytes_def length_up2_body)

lemma up2_bytes_Cons: "\<exists>r. up2_bytes u = UP2_MAGIC # up_PayloadLen u # r"
  by (simp add: up2_bytes_def up2_body_def)

lemma up2_valid_le: "up2_valid u \<Longrightarrow> up_PayloadLen u \<le> 196"
  using up2_valid_len[of u] by (simp add: word_le_nat_alt up2_valid_def)

lemma one_frame_up2:
  assumes "up2_valid u"
  shows "one_frame (up2_bytes u)"
proof -
  obtain r where "up2_bytes u = UP2_MAGIC # up_PayloadLen u # r"
    using up2_bytes_Cons by blast
  from one_frame_like[OF this] show ?thesis
    using assms by (simp add: up2_valid_len up2_valid_le length_up2_bytes)
qed

lemma one_frame_ack2: "one_frame (ack2_bytes s)"
proof -
  obtain a b c d where b: "ack2_bytes s = [ACK2_MAGIC, a, b, c, d]"
    by (simp add: ack2_bytes_def put_u16_def Let_def)
  have "hd (take k (ack2_bytes s)) = ACK2_MAGIC" if "0 < k" for k
    using that b by (simp add: hd_take)
  then show ?thesis
    using b by (simp add: one_frame_def frame_complete_def frame_discarded_def)
qed

section \<open>Commands arrive intact\<close>

lemma length_unhex: "unhex xs = Some ys \<Longrightarrow> length ys = length xs div 2"
  by (induction xs arbitrary: ys rule: unhex.induct) (auto split: option.splits)

lemma parse_up2_payload: "LORA_TDM_APP_ParseUp2Frame b = Some u \<Longrightarrow> up2_valid u"
  by (auto simp: LORA_TDM_APP_ParseUp2Frame_def up2_valid_def Let_def split: if_splits)

definition forwarded_as :: "UPLINK_FWD_CMD \<Rightarrow> sb_msg" where
  "forwarded_as c = Command UPLINK_APP_CMD_MID (Some UPLINK_PROCESS_UPLINK_CC) (fwd_bytes c)"

lemma sent_forward [simp]: "sent (snd (forward_command c d)) = [forwarded_as c]"
  by (simp add: forward_command_def forwarded_as_def)

lemma sent_up_error [simp]: "sent ev = [] \<Longrightarrow> sent (snd (up_error ev d)) = []"
  by (simp add: up_error_def)

lemma sent_acks [simp]: "sent (snd (note_ack m t d)) = []" "sent (snd (ack_error d)) = []"
  by (simp_all add: note_ack_def ack_error_def)

definition intact :: "sb_msg \<Rightarrow> bool" where
  "intact m \<longleftrightarrow> (\<exists>c. m = forwarded_as c \<and> length (fwd_bytes c) = 204 \<and> fwd_of_bytes (fwd_bytes c) = c \<and>
     unat (fw_PayloadLength c) \<le> UPLINK_APP_MAX_PAYLOAD_LENGTH \<and>
     fw_Checksum c = UPLINK_APP_ComputeProxyCrc c)"

lemma fwd_command_intact:
  assumes "length p \<le> 196"
  shows "intact (forwarded_as (fwd_command v k s f p))"
proof -
  let ?c = "fwd_command v k s f p"
  have l: "length (fw_Payload ?c) = 196" and n: "unat (of_nat (length p) :: u8) = length p"
    using assms by (simp_all add: fwd_command_def unat_of_nat)
  have "proxy_crc_buf ?c = [v, k, of_nat (length p), f] @ put_u16 s @ p"
    using assms n by (simp add: proxy_crc_buf_def fwd_command_def)
  then have "fw_Checksum ?c = UPLINK_APP_ComputeProxyCrc ?c"
    by (simp add: fwd_command_def UPLINK_APP_ComputeProxyCrc_def UPLINK_APP_CRC16_def LORA_TDM_APP_Crc16_def)
  moreover have "length (fwd_bytes ?c) = 204"
    using l by (simp add: fwd_bytes_def)
  moreover have "unat (fw_PayloadLength ?c) \<le> UPLINK_APP_MAX_PAYLOAD_LENGTH"
    using assms n by (simp add: fwd_command_def)
  ultimately show ?thesis
    unfolding intact_def using fwd_of_bytes_fwd_bytes[OF l] by blast
qed

lemma up_frame_intact: "list_all intact (sent (snd (ProcessUpFrame Line d)))"
  unfolding ProcessUpFrame_def Let_def
  by (auto simp: length_unhex intro!: fwd_command_intact split: option.split prod.split)

lemma frame_packets_intact: "list_all intact (frame_packets b)"
  unfolding frame_packets_def process_frame_def LORA_TDM_APP_ProcessRxBinaryFrame_def
    LORA_TDM_APP_ProcessRxLine_def ForwardUp2ToUplinkApp_def
  by (auto simp: up_frame_intact up2_valid_def dest!: parse_up2_payload intro!: fwd_command_intact split: option.split)

text \<open>C17: whatever bytes the radio delivers, in either protocol, every command packet
  lora_tdm_app hands over has the size uplink_app's dispatcher expects, is read back by its cast as
  the very command that was sent, with a payload length in range and a checksum that uplink_app's
  own computation confirms: no command is lost between the two applications to a
  disagreement about the packet.\<close>

theorem lora_commands_intact:
  "list_all intact (to_uplink (snd (LORA_TDM_APP_Main evs_ok pipe_ok f cys)))"
proof -
  have "list_all intact (concat (map frame_packets fs))" for fs
    using frame_packets_intact by (induction fs) simp_all
  then show ?thesis
    using loop_stream[OF lora_boot_buf(2), of evs_ok pipe_ok f cys]
    by (simp add: Main_eq Let_def rx_stream_def Init_to_uplink)
qed

section \<open>Exactly once and in order\<close>

datatype ground_frame = Up2 LORA_TDM_APP_Up2Decoded | Ack2 u16

fun ground_bytes :: "ground_frame \<Rightarrow> u8 list" where
  "ground_bytes (Up2 u) = up2_bytes u"
| "ground_bytes (Ack2 s) = ack2_bytes s"

fun ground_valid :: "ground_frame \<Rightarrow> bool" where
  "ground_valid (Up2 u) = up2_valid u"
| "ground_valid (Ack2 s) = True"

definition up2_command :: "LORA_TDM_APP_Up2Decoded \<Rightarrow> UPLINK_FWD_CMD" where
  "up2_command u = fwd_command (up_Version u) (up_CommandClass u) (up_Seq u) (up_Flags u) (up_Payload u)"

fun ground_packets :: "ground_frame \<Rightarrow> sb_msg list" where
  "ground_packets (Up2 u) = [forwarded_as (up2_command u)]"
| "ground_packets (Ack2 s) = []"

lemma ground_one_frame: "ground_valid g \<Longrightarrow> one_frame (ground_bytes g)"
  by (cases g) (simp_all add: one_frame_up2 one_frame_ack2)

lemma ground_frame_packets: "ground_valid g \<Longrightarrow> frame_packets (ground_bytes g) = ground_packets g"
proof (cases g)
  case (Up2 u)
  then show "ground_valid g \<Longrightarrow> ?thesis"
    using up2_body_bytes(1)[of u]
    by (simp add: frame_packets_def process_frame_def LORA_TDM_APP_ProcessRxBinaryFrame_def parse_up2
        ForwardUp2ToUplinkApp_def up2_command_def up2_bytes_def[symmetric])
      (simp add: up2_bytes_def up2_body_def)
next
  case (Ack2 s)
  then show ?thesis
    by (auto simp: frame_packets_def process_frame_def LORA_TDM_APP_ProcessRxBinaryFrame_def ack2_bytes_def
        Let_def split: option.split)
qed

lemma ground_stream:
  "list_all ground_valid gs \<Longrightarrow>
     deframe [] (concat (map ground_bytes gs)) = (map ground_bytes gs, []) \<and>
     concat (map frame_packets (map ground_bytes gs)) = concat (map ground_packets gs)"
  by (induction gs) (simp_all add: deframe_one ground_one_frame ground_frame_packets)

text \<open>C28: when what the application hears is a sequence of UP2 and ACK2 frames as the ground
  encodes them, uplink_app gets exactly the commands of the UP2 frames, each once and in order,
  however the frames were cut into windows, and the receiver ends idle.\<close>

theorem lora_ground_commands_roundtrip:
  assumes "heard cys (lora_boot evs_ok pipe_ok f) = concat (map ground_bytes gs)"
    and "list_all ground_valid gs"
  shows "to_uplink (snd (LORA_TDM_APP_Main evs_ok pipe_ok f cys)) = concat (map ground_packets gs) \<and>
    l_RxLineBuf (fst (LORA_TDM_APP_Main evs_ok pipe_ok f cys)) = []"
  using loop_stream[OF lora_boot_buf(2), of evs_ok pipe_ok f cys] ground_stream[OF assms(2)] assms(1)
  by (simp add: Main_eq Let_def rx_stream_def Init_to_uplink lora_boot_buf(1))

text \<open>A cycle that opens the port and hears given bytes, with idle passes in between.\<close>

definition lora_time :: sys_time where
  "lora_time = \<lparr> Seconds = 2, Subseconds = 0 \<rparr>"

definition idle_then :: "u8 \<Rightarrow> rx_pass list" where
  "idle_then c = map (\<lambda>r. \<lparr> rx_now = lora_time, rx_result = r, rx_ack_now = lora_time \<rparr>)
     [Rx_Nothing, Rx_Interrupted, Rx_Byte c]"

definition hearing_cycle :: "u8 list \<Rightarrow> lora_cycle" where
  "hearing_cycle bs = \<lparr> cy_msgs = [], cy_open_now = lora_time, cy_open = Open_Ok, cy_nan = 0, cy_write_ok = True,
     cy_rx_start = lora_time, cy_rx = concat (map idle_then bs), cy_end = lora_time \<rparr>"

lemma lora_time_ms: "GetTimeMs lora_time = 2000"
  by (simp add: lora_time_def GetTimeMs_def time_ms64_def)

lemma RunTx_port: "cy_write_ok cy \<Longrightarrow> l_PortOpen (fst (LORA_TDM_APP_RunTx cy d)) = l_PortOpen d"
  by (simp add: LORA_TDM_APP_RunTx_def Let_def note_sent_def next_page_def split: option.split)

lemma hearing_window: "bytes_read 2050 (concat (map idle_then bs)) = bs"
  by (induction bs) (simp_all add: idle_then_def lora_time_ms)

lemma hearing: "heard [hearing_cycle bs] (lora_boot True True No_File) = bs"
proof -
  have b: "lora_boot True True No_File = lora_initial"
    by (simp add: lora_boot_def LORA_TDM_APP_Init_def LORA_TDM_APP_LoadState_def)
  have "l_PortOpen (before_window (hearing_cycle bs) lora_initial)"
    by (simp add: before_window_def RunTx_port hearing_cycle_def reopen_def lora_time_ms lora_initial_def Let_def)
  then show ?thesis
    by (simp add: b window_bytes_def lora_initial_def hearing_cycle_def lora_time_ms hearing_window)
qed

definition demo_up2 :: LORA_TDM_APP_Up2Decoded where
  "demo_up2 = \<lparr> up_Version = 1, up_CommandClass = 5, up_Seq = 10, up_Flags = 0, up_PayloadLen = 6,
     up_Payload = [0, 1, 1, 0, 0, 0] \<rparr>"

theorem lora_ground_commands_roundtrip_witness:
  "to_uplink (snd (LORA_TDM_APP_Main True True No_File
       [hearing_cycle (up2_bytes demo_up2 @ ack2_bytes 0 @ up2_bytes (demo_up2\<lparr> up_Seq := 11 \<rparr>))])) =
     [forwarded_as (up2_command demo_up2), forwarded_as (up2_command (demo_up2\<lparr> up_Seq := 11 \<rparr>))]"
  using lora_ground_commands_roundtrip[of
      "[hearing_cycle (up2_bytes demo_up2 @ ack2_bytes 0 @ up2_bytes (demo_up2\<lparr> up_Seq := 11 \<rparr>))]"
      True True No_File "[Up2 demo_up2, Ack2 0, Up2 (demo_up2\<lparr> up_Seq := 11 \<rparr>)]"]
  unfolding hearing by (simp add: up2_valid_def demo_up2_def)

section \<open>Corruption and noise\<close>

lemma byte_at_update: "byte_at (xs[i := x]) j = (if i = j \<and> i < length xs then x else byte_at xs j)"
  by (auto simp: byte_at_def)

lemma get_u16_update_far: "i \<noteq> j \<Longrightarrow> i \<noteq> j + 1 \<Longrightarrow> get_u16 (xs[i := x]) j = get_u16 xs j"
  by (simp add: get_u16_def byte_at_update)

lemma get_u16_update_near:
  assumes "i = j \<or> i = j + 1" "i < length xs" "x \<noteq> xs ! i"
  shows "get_u16 (xs[i := x]) j \<noteq> get_u16 xs j"
proof -
  have "put_u16 (get_u16 (xs[i := x]) j) \<noteq> put_u16 (get_u16 xs j)"
    using assms by (auto simp: put_get_u16 byte_at_update byte_at_nth)
  then show ?thesis by auto
qed

text \<open>A frame damaged behind its length byte: one byte changed, or two neighbouring bytes of the
  part the checksum covers.\<close>

definition damaged :: "LORA_TDM_APP_Up2Decoded \<Rightarrow> u8 list \<Rightarrow> bool" where
  "damaged u b' \<longleftrightarrow>
     (let b = up2_bytes u in
      (\<exists>i x. 2 \<le> i \<and> i < length b \<and> x \<noteq> b ! i \<and> b' = b[i := x]) \<or>
      (\<exists>xs p q ys. up2_body u = xs @ p # q # ys \<and> 2 \<le> length xs \<and>
         (\<exists>p' q'. (p, q) \<noteq> (p', q') \<and> b' = xs @ p' # q' # ys @ put_u16 (LORA_TDM_APP_Crc16 (up2_body u)))))"

lemma damaged_shape:
  assumes "damaged u b'"
  shows "length b' = length (up2_bytes u)" "\<exists>r. b' = UP2_MAGIC # up_PayloadLen u # r"
proof -
  obtain r where r: "up2_bytes u = UP2_MAGIC # up_PayloadLen u # r"
    using up2_bytes_Cons by blast
  have "length b' = length (up2_bytes u) \<and> take 2 b' = take 2 (up2_bytes u)"
    using assms unfolding damaged_def Let_def by (auto simp: up2_bytes_def)
  then show "length b' = length (up2_bytes u)" "\<exists>r. b' = UP2_MAGIC # up_PayloadLen u # r"
    using r by (cases b'; cases "tl b'"; auto)+
qed

lemma damaged_crc:
  assumes "damaged u b'" "up2_valid u"
  shows "LORA_TDM_APP_Crc16 (take (7 + length (up_Payload u)) b') \<noteq> get_u16 b' (7 + length (up_Payload u))"
proof -
  let ?b = "up2_bytes u" and ?n = "7 + length (up_Payload u)"
  have c: "LORA_TDM_APP_Crc16 (take ?n ?b) = get_u16 ?b ?n"
    by (simp add: up2_bytes_def length_up2_body[symmetric] get_u16_append2)
  consider (one) i x where "2 \<le> i" "i < length ?b" "x \<noteq> ?b ! i" "b' = ?b[i := x]"
    | (two) xs p q ys p' q' where "up2_body u = xs @ p # q # ys" "(p, q) \<noteq> (p', q')"
        "b' = xs @ p' # q' # ys @ put_u16 (LORA_TDM_APP_Crc16 (up2_body u))"
    using assms(1) unfolding damaged_def Let_def by blast
  then show ?thesis
  proof cases
    case one
    show ?thesis
    proof (cases "i < ?n")
      case True
      then have "LORA_TDM_APP_Crc16 (take ?n b') \<noteq> LORA_TDM_APP_Crc16 (take ?n ?b)"
        using one(2-4) ccitt.detects_update[of i "take ?n ?b" x "0xFFFF"]
        by (simp add: LORA_TDM_APP_Crc16_def take_update_swap)
      moreover have "get_u16 b' ?n = get_u16 ?b ?n"
        using True one(4) by (simp add: get_u16_update_far)
      ultimately show ?thesis
        using c by simp
    next
      case False
      then have "i = ?n \<or> i = ?n + 1"
        using one(2) by (simp add: length_up2_bytes) linarith
      then have "get_u16 b' ?n \<noteq> get_u16 ?b ?n"
        using one(2-4) get_u16_update_near[of i ?n ?b x] by blast
      moreover have "take ?n b' = take ?n ?b"
        using False one(4) by simp
      ultimately show ?thesis
        using c by simp
    qed
  next
    case two
    have n: "?n = length xs + 2 + length ys"
      using length_up2_body[of u] two(1) by simp
    have "LORA_TDM_APP_Crc16 (xs @ p' # q' # ys) \<noteq> LORA_TDM_APP_Crc16 (up2_body u)"
      using two(1,2) ccitt.detects_burst[of p' q' p q "0xFFFF" xs ys] by (auto simp: LORA_TDM_APP_Crc16_def)
    moreover have "b' = (xs @ p' # q' # ys) @ put_u16 (LORA_TDM_APP_Crc16 (up2_body u))"
        "?n = length (xs @ p' # q' # ys)"
      using n two(3) by simp_all
    ultimately show ?thesis
      by (simp only: get_u16_append2[OF order_refl] append_eq_conv_conj take_append) simp
  qed
qed

lemma damaged_packets:
  assumes "damaged u b'" "up2_valid u"
  shows "one_frame b'" "frame_packets b' = []"
proof -
  obtain r where b': "b' = UP2_MAGIC # up_PayloadLen u # r"
    using damaged_shape(2)[OF assms(1)] by blast
  have l: "length b' = 9 + unat (up_PayloadLen u)"
    using damaged_shape(1)[OF assms(1)] assms(2) by (simp add: length_up2_bytes up2_valid_len)
  show "one_frame b'"
    using one_frame_like[OF b' l] assms(2) by (simp add: up2_valid_le)
  have "LORA_TDM_APP_ParseUp2Frame b' = None"
    using damaged_crc[OF assms] up2_valid_len[OF assms(2)] b'
    by (simp add: LORA_TDM_APP_ParseUp2Frame_def Let_def)
  then show "frame_packets b' = []"
    using b' by (simp add: frame_packets_def process_frame_def LORA_TDM_APP_ProcessRxBinaryFrame_def)
qed

text \<open>C40: a command frame damaged on the air behind its length byte, in one byte or in two
  neighbouring bytes the checksum covers, costs exactly that frame: nothing of it is forwarded,
  and every command before and after it still arrives.\<close>

theorem lora_damaged_frame_dropped:
  assumes "heard cys (lora_boot evs_ok pipe_ok f) =
      concat (map ground_bytes gs) @ b' @ concat (map ground_bytes hs)"
    and "damaged u b'" "up2_valid u" "list_all ground_valid gs" "list_all ground_valid hs"
  shows "to_uplink (snd (LORA_TDM_APP_Main evs_ok pipe_ok f cys)) = concat (map ground_packets (gs @ hs))"
  using loop_stream[OF lora_boot_buf(2), of evs_ok pipe_ok f cys] assms(1)
    ground_stream[OF assms(4)] ground_stream[OF assms(5)] damaged_packets[OF assms(2,3)]
    deframe_one[of b' "[]"]
  by (simp add: Main_eq Let_def rx_stream_def Init_to_uplink lora_boot_buf(1) deframe_append)

theorem lora_damaged_frame_dropped_witness:
  "to_uplink (snd (LORA_TDM_APP_Main True True No_File
       [hearing_cycle (up2_bytes demo_up2 @ (up2_bytes demo_up2)[3 := 7] @ ack2_bytes 0 @ up2_bytes demo_up2)])) =
     [forwarded_as (up2_command demo_up2), forwarded_as (up2_command demo_up2)]"
proof -
  have "damaged demo_up2 ((up2_bytes demo_up2)[3 := 7])"
    unfolding damaged_def Let_def
    by (rule disjI1, rule exI[of _ 3], rule exI[of _ 7]) (simp add: up2_bytes_def up2_body_def demo_up2_def put_u16_def)
  then show ?thesis
    using lora_damaged_frame_dropped[of
        "[hearing_cycle (up2_bytes demo_up2 @ (up2_bytes demo_up2)[3 := 7] @ ack2_bytes 0 @ up2_bytes demo_up2)]"
        True True No_File "[Up2 demo_up2]" "(up2_bytes demo_up2)[3 := 7]" "[Ack2 0, Up2 demo_up2]" demo_up2]
    unfolding hearing by (simp add: up2_valid_def demo_up2_def)
qed

text \<open>Noise: at least once in any 256 bytes the receiver is idle, whatever they are.\<close>

lemma deframe_clears:
  assumes "length b < 256" "length cs \<ge> 256 - length b"
  shows "\<exists>k \<le> 256 - length b. snd (deframe b (take k cs)) = []"
  using assms
proof (induction "256 - length b" arbitrary: b cs)
  case (Suc n)
  then obtain c cs' where cs: "cs = c # cs'"
    by (cases cs) auto
  show ?case
  proof (cases "length b \<ge> 255 \<or> frame_discarded (b @ [c]) \<or> frame_complete (b @ [c])")
    case True
    then have "snd (deframe b (take 1 cs)) = []"
      by (auto simp: cs Let_def)
    then show ?thesis
      using Suc.prems by (intro exI[of _ 1]) simp
  next
    case False
    have "n = 256 - length (b @ [c])" "length (b @ [c]) < 256" "256 - length (b @ [c]) \<le> length cs'"
      using False Suc.hyps(2) Suc.prems cs by auto
    from Suc.hyps(1)[OF this] obtain k where "k \<le> 256 - length (b @ [c])"
        "snd (deframe (b @ [c]) (take k cs')) = []"
      by blast
    then show ?thesis
      using False Suc.prems by (intro exI[of _ "Suc k"]) (auto simp: cs Let_def)
  qed
qed simp

end
