(* ===== verification/Lora_Link.thy ===== *)
theory Lora_Link
  imports Lora_Stream
begin

text \<open>
  The link state lora_tdm_app reports, as a function of the acknowledgements it has noted: the
  counters of the application are the number of silent cycles at the end of that log and the time of
  its last entry.
\<close>

definition link_view :: "LORA_TDM_APP_Data \<Rightarrow> u16 \<times> u32" where
  "link_view d = (l_NoAckCount d, l_LastAckTimestampMs d)"

text \<open>No cycle receives a command of its own (RESET_COUNTERS would clear the count of silent
  cycles).\<close>

definition no_own_command :: "lora_cycle \<Rightarrow> bool" where
  "no_own_command cy \<longleftrightarrow>
     list_all (\<lambda>(env, m). case m of Command mid fcn bs \<Rightarrow> mid \<noteq> LORA_TDM_CMD_MID | _ \<Rightarrow> True) (cy_msgs cy)"

lemma packet_link:
  "(case m of Command mid fcn bs \<Rightarrow> mid \<noteq> LORA_TDM_CMD_MID | _ \<Rightarrow> True) \<Longrightarrow>
    link_view (fst (LORA_TDM_APP_ProcessCommandPacket env m d)) = link_view d"
  unfolding LORA_TDM_APP_ProcessCommandPacket_def
  by (cases m)
    (simp_all add: link_view_def Let_def LORA_TDM_APP_UpdateCacheFromMsg_def
      LORA_TDM_APP_ProcessDiagnosticCommand_def LORA_TDM_APP_ProcessRouteSnapshot_def
      LORA_TDM_APP_ProcessConfigCommand_def lora_uplink_status_def lora_count_error_def split: option.split)

lemma drain_link:
  "list_all (\<lambda>(env, m). case m of Command mid fcn bs \<Rightarrow> mid \<noteq> LORA_TDM_CMD_MID | _ \<Rightarrow> True) ms \<Longrightarrow>
    link_view (fst (drain ms d)) = link_view d"
proof (induction ms d rule: drain.induct)
  case (2 env m ms d)
  then show ?case
    using packet_link[of m env d]
    by (cases "LORA_TDM_APP_ProcessCommandPacket env m d") (simp add: prepend_def case_prod_unfold)
qed simp

lemma before_window_link:
  assumes "no_own_command cy"
  shows "link_view (before_window cy d) = link_view d"
proof -
  have "link_view (fst (reopen cy d')) = link_view d'" for d'
    by (simp add: reopen_def link_view_def Let_def)
  moreover have "link_view (fst (LORA_TDM_APP_RunTx cy d')) = link_view d'" for d'
    by (simp add: LORA_TDM_APP_RunTx_def link_view_def Let_def note_sent_def next_page_def CloseSerial_def
        split: option.split)
  ultimately show ?thesis
    using drain_link assms by (simp add: before_window_def no_own_command_def)
qed

section \<open>Acknowledgements in a window\<close>

text \<open>Receiving changes the counters only by noting an acknowledgement.\<close>

definition notes_acks :: "LORA_TDM_APP_Data \<Rightarrow> LORA_TDM_APP_Data \<Rightarrow> bool" where
  "notes_acks d d' \<longleftrightarrow>
     (link_view d' = link_view d \<and> l_AckReceivedThisCycle d' = l_AckReceivedThisCycle d) \<or>
     (l_NoAckCount d' = 0 \<and> l_AckReceivedThisCycle d')"

lemma notes_acks_refl [simp]: "notes_acks d d"
  by (simp add: notes_acks_def)

lemma notes_acks_trans: "notes_acks d d' \<Longrightarrow> notes_acks d' d'' \<Longrightarrow> notes_acks d d''"
  by (auto simp: notes_acks_def link_view_def)

lemma process_notes:
  "notes_acks d (fst (LORA_TDM_APP_ProcessRxLine t b d))"
  "notes_acks d (fst (LORA_TDM_APP_ProcessRxBinaryFrame t b d))"
  unfolding LORA_TDM_APP_ProcessRxBinaryFrame_def LORA_TDM_APP_ProcessRxLine_def
    ProcessUpFrame_def ForwardUp2ToUplinkApp_def Let_def
  by (auto simp: notes_acks_def link_view_def forward_command_def up_error_def note_ack_def ack_error_def
      split: option.split prod.split)

lemma rx_byte_notes: "notes_acks d (fst (rx_byte t c d))"
proof -
  have i: "notes_acks d (rx_idle d')" if "notes_acks d d'" for d d'
    using that by (simp add: notes_acks_def rx_idle_def link_view_def)
  have f: "notes_acks d (d\<lparr>l_RxLineBuf := b\<rparr>)" "notes_acks d (d\<lparr>l_RxFrameMode := x\<rparr>)"
      "notes_acks d (d\<lparr>l_RxFrameTargetLen := n\<rparr>)" for d b x n
    by (simp_all add: notes_acks_def link_view_def)
  have p: "notes_acks d (rx_idle (fst (LORA_TDM_APP_ProcessRxLine t b d')))"
      "notes_acks d (rx_idle (fst (LORA_TDM_APP_ProcessRxBinaryFrame t b d')))" if "notes_acks d d'" for d d' b
    using i notes_acks_trans[OF that process_notes(1)] notes_acks_trans[OF that process_notes(2)] by blast+
  show ?thesis
    unfolding rx_byte_def Let_def case_prod_unfold
    by (auto simp: p split: LORA_TDM_RxFrameMode.split intro!: i p)
      (auto simp: notes_acks_def link_view_def)
qed

lemma rx_loop_notes: "notes_acks d (fst (rx_loop D ps d))"
proof (induction D ps d rule: rx_loop.induct)
  case (2 D p ps d)
  have c: "notes_acks d (CloseSerial d)"
    by (simp add: notes_acks_def CloseSerial_def link_view_def)
  show ?case
  proof (cases "rx_result p")
    case (Rx_Byte x)
    then show ?thesis
      using 2 notes_acks_trans[OF rx_byte_notes[of d "GetTimeMs (rx_ack_now p)" x]]
      by (cases "rx_byte (GetTimeMs (rx_ack_now p)) x d") (auto simp: prepend_def case_prod_unfold)
  qed (use 2 c in auto)
qed simp

section \<open>One cycle\<close>

text \<open>What a cycle adds to the log: the time of its last acknowledgement, if it noted one.\<close>

definition cycle_ack :: "lora_cycle \<Rightarrow> LORA_TDM_APP_Data \<Rightarrow> u32 option" where
  "cycle_ack cy d =
     (let d' = fst (LORA_TDM_APP_RunCycle cy d)
      in if l_AckReceivedThisCycle d' then Some (l_LastAckTimestampMs d') else None)"

definition note_silence :: "u16 \<times> u32 \<Rightarrow> u32 option \<Rightarrow> u16 \<times> u32" where
  "note_silence s a = (case a of None \<Rightarrow> (if fst s < 0xFFFF then fst s + 1 else fst s, snd s) | Some t \<Rightarrow> (0, t))"

definition link_of :: "u32 \<Rightarrow> u16 \<times> u32 \<Rightarrow> u8" where
  "link_of now s =
     (if snd s \<noteq> 0 \<and> snd s \<le> now \<and> now - snd s > LINK_TIMEOUT_MS then LORA_LINK_DISCONNECTED
      else if fst s \<ge> LINK_LOSS_THRESHOLD then LORA_LINK_DEGRADED else LORA_LINK_CONNECTED)"

lemma link_state_fields:
  "l_LinkState (fst (LORA_TDM_APP_UpdateLinkState now d)) = link_of now (link_view d)"
  "link_view (fst (LORA_TDM_APP_UpdateLinkState now d)) = link_view d"
  "l_AckReceivedThisCycle (fst (LORA_TDM_APP_UpdateLinkState now d)) = l_AckReceivedThisCycle d"
  "l_RunStatus (fst (LORA_TDM_APP_UpdateLinkState now d)) = l_RunStatus d"
  unfolding LORA_TDM_APP_UpdateLinkState_def Let_def
  by (auto simp: link_of_def link_view_def not_le not_less)

lemma window_link:
  "link_view (fst (LORA_TDM_APP_RunRxWindow cy d)) =
     note_silence (link_view d)
       (if l_AckReceivedThisCycle (fst (LORA_TDM_APP_RunRxWindow cy d))
        then Some (l_LastAckTimestampMs (fst (LORA_TDM_APP_RunRxWindow cy d))) else None)"
  using rx_loop_notes[of "d\<lparr>l_AckReceivedThisCycle := False\<rparr>" "GetTimeMs (cy_rx_start cy) + LORA_RX_WINDOW_MS" "cy_rx cy"]
  unfolding LORA_TDM_APP_RunRxWindow_def
  by (auto simp: notes_acks_def link_view_def note_silence_def Let_def case_prod_unfold)

lemma cycle_link:
  assumes "no_own_command cy"
  shows "link_view (fst (LORA_TDM_APP_RunCycle cy d)) = note_silence (link_view d) (cycle_ack cy d)"
    and "l_LinkState (fst (LORA_TDM_APP_RunCycle cy d)) =
      link_of (GetTimeMs (cy_end cy)) (note_silence (link_view d) (cycle_ack cy d))"
proof -
  let ?w = "fst (LORA_TDM_APP_RunRxWindow cy (before_window cy d))"
  have "fst (LORA_TDM_APP_RunCycle cy d) = fst (LORA_TDM_APP_UpdateLinkState (GetTimeMs (cy_end cy)) ?w)"
    by (simp add: RunCycle_eq Let_def)
  moreover from this have "cycle_ack cy d = (if l_AckReceivedThisCycle ?w then Some (l_LastAckTimestampMs ?w) else None)"
    using link_state_fields(2)[of "GetTimeMs (cy_end cy)" ?w]
    by (simp add: cycle_ack_def Let_def link_state_fields(3)) (simp add: link_view_def)
  ultimately show "link_view (fst (LORA_TDM_APP_RunCycle cy d)) = note_silence (link_view d) (cycle_ack cy d)"
    and "l_LinkState (fst (LORA_TDM_APP_RunCycle cy d)) =
      link_of (GetTimeMs (cy_end cy)) (note_silence (link_view d) (cycle_ack cy d))"
    using window_link[of cy "before_window cy d"] before_window_link[OF assms, of d]
    by (simp_all add: link_state_fields)
qed

section \<open>Histories\<close>

fun ack_log :: "lora_cycle list \<Rightarrow> LORA_TDM_APP_Data \<Rightarrow> u32 option list" where
  "ack_log [] d = []"
| "ack_log (cy # cys) d = cycle_ack cy d # ack_log cys (fst (LORA_TDM_APP_RunCycle cy d))"

text \<open>What the link state is meant to be: the silent cycles at the end of the log, and the time
  of its last acknowledgement.\<close>

definition silent :: "u32 option list \<Rightarrow> nat" where
  "silent log = length (takeWhile (\<lambda>a. a = None) (rev log))"

definition last_ack :: "u32 option list \<Rightarrow> u32 option" where
  "last_ack log = fold (\<lambda>a l. if a = None then l else a) log None"

definition intended_link :: "u32 option list \<Rightarrow> u32 \<Rightarrow> u8" where
  "intended_link log now =
     (if (case last_ack log of None \<Rightarrow> False | Some t \<Rightarrow> t \<noteq> 0 \<and> t \<le> now \<and> unat (now - t) > 5000)
      then LORA_LINK_DISCONNECTED
      else if silent log \<ge> 30 then LORA_LINK_DEGRADED else LORA_LINK_CONNECTED)"

lemma silent_snoc [simp]: "silent [] = 0" "silent (log @ [a]) = (if a = None then Suc (silent log) else 0)"
  by (simp_all add: silent_def)

lemma last_ack_snoc [simp]: "last_ack [] = None" "last_ack (log @ [a]) = (if a = None then last_ack log else a)"
  by (simp_all add: last_ack_def)

lemma silence_fold:
  "foldl note_silence (0, 0) log =
     (of_nat (min (silent log) 65535), case last_ack log of None \<Rightarrow> 0 | Some t \<Rightarrow> t)"
proof (induction log rule: rev_induct)
  case (snoc a log)
  have "of_nat (min (silent log) 65535) < (0xFFFF :: u16) \<longleftrightarrow> silent log < 65535"
    by (auto simp: word_less_nat_alt unat_of_nat min_def)
  then show ?case
    using snoc by (auto simp: note_silence_def min_def not_less le_Suc_eq split: option.split)
qed simp

lemma loop_link:
  "list_all no_own_command cys \<Longrightarrow> l_RunStatus d = APP_RUN \<Longrightarrow> rx_inv d \<Longrightarrow>
     link_view (fst (lora_loop cys d)) = foldl note_silence (link_view d) (ack_log cys d)"
proof (induction cys arbitrary: d)
  case (Cons cy cys)
  then show ?case
    using cycle_stream[of d cy] by (simp add: cycle_link prepend_def Let_def case_prod_unfold rx_stream_def)
qed simp

lemma loop_append:
  "l_RunStatus d = APP_RUN \<Longrightarrow> rx_inv d \<Longrightarrow>
     fst (lora_loop (cys @ [cy]) d) = fst (LORA_TDM_APP_RunCycle cy (fst (lora_loop cys d))) \<and>
     ack_log (cys @ [cy]) d = ack_log cys d @ [cycle_ack cy (fst (lora_loop cys d))] \<and>
     l_RunStatus (fst (lora_loop cys d)) = APP_RUN"
proof (induction cys arbitrary: d)
  case (Cons c cys)
  then show ?case
    using cycle_stream[of d c] by (simp add: prepend_def Let_def case_prod_unfold rx_stream_def)
qed (simp add: prepend_def Let_def case_prod_unfold)

lemma boot_link:
  "l_RunStatus (lora_boot True True f) = APP_RUN" "link_view (lora_boot True True f) = (0, 0)"
proof -
  have "rx_core (fst (LORA_TDM_APP_LoadState f lora_initial)) = rx_core lora_initial \<and>
      link_view (fst (LORA_TDM_APP_LoadState f lora_initial)) = link_view lora_initial"
    by (simp add: LORA_TDM_APP_LoadState_def rx_core_def link_view_def Let_def split: file_read.split)
  then show "l_RunStatus (lora_boot True True f) = APP_RUN" "link_view (lora_boot True True f) = (0, 0)"
    by (simp_all add: lora_boot_def LORA_TDM_APP_Init_def case_prod_unfold Let_def rx_core_def link_view_def lora_initial_def)
qed



end
