(* ===== verification/Lora_Downlink.thy ===== *)
theory Lora_Downlink
  imports Lora_App
begin

text \<open>
  The binary downlink: the frame lora_tdm_app builds, read back by the decoder of the ground
  station (\<^verbatim>\<open>bridge/lora_downlink_decoder.py\<close>), the accuracy of its scaled values, and
  the read-back of a route page by page into the assembler of the ground station.
\<close>

section \<open>The decoder of the ground station\<close>

text \<open>Angles, positions and velocities are kept as the signed 16-bit numbers of the frame; the
  ground divides them by 10000 and 100.\<close>

record Dl2Frame =
  dl_seq :: u16
  dl_flags :: u8
  dl_ufb :: u8
  dl_ts_ms :: u32
  dl_angles :: "u16 list"
  dl_pos :: "u16 list"
  dl_vel :: "u16 list"
  dl_lat_e7 :: i32
  dl_lon_e7 :: i32
  dl_alt_mm :: i32
  dl_fix :: u8
  dl_sats :: u8
  dl_health :: u8
  dl_fault :: u8
  dl_linkstate :: u8
  dl_sys_time :: "u64 option"
  dl_uplink_last_seq :: u16
  dl_uplink_boot_count :: u8
  dl_page :: "(u8 \<times> u8 \<times> u8 \<times> (u8 \<times> i32 \<times> i32 \<times> f32) list) option"

definition decode_waypoint :: "u8 list \<Rightarrow> nat \<Rightarrow> u8 \<times> i32 \<times> i32 \<times> f32" where
  "decode_waypoint bs i = (byte_at bs i, get_u32 bs (i + 1), get_u32 bs (i + 5), get_u32 bs (i + 9))"

definition decode_dl2 :: "u8 list \<Rightarrow> Dl2Frame" where
  "decode_dl2 bs =
     (let flags = byte_at bs 4;
          sys = (flags AND DL2_FLAG_SYSTIME \<noteq> 0 \<and>
                 length bs \<ge> DL2_BASE_LEN + DL2_SYSTIME_BLOCK_LEN + DL2_TAIL_LEN + 2);
          tail = DL2_BASE_LEN + (if sys then DL2_SYSTIME_BLOCK_LEN else 0);
          has_tail = length bs \<ge> tail + DL2_TAIL_LEN + 2;
          wp = tail + DL2_TAIL_LEN
      in \<lparr> dl_seq = get_u16 bs 2, dl_flags = flags, dl_ufb = byte_at bs 5, dl_ts_ms = get_u32 bs 6,
           dl_angles = map (get_u16 bs) [10, 12, 14], dl_pos = map (get_u16 bs) [16, 18, 20],
           dl_vel = map (get_u16 bs) [22, 24, 26], dl_lat_e7 = get_u32 bs 28, dl_lon_e7 = get_u32 bs 32,
           dl_alt_mm = get_u32 bs 36, dl_fix = byte_at bs 40, dl_sats = byte_at bs 41,
           dl_health = byte_at bs 42, dl_fault = byte_at bs 43, dl_linkstate = byte_at bs 44,
           dl_sys_time = (if sys then Some (get_u64 bs DL2_BASE_LEN) else None),
           dl_uplink_last_seq = (if has_tail then get_u16 bs tail else 0),
           dl_uplink_boot_count = (if has_tail then byte_at bs (tail + 2) else 0),
           dl_page =
             (if flags AND DL2_FLAG_WAYPOINT \<noteq> 0 \<and> length bs \<ge> wp + DL2_WAYPOINT_BLOCK_LEN + 2
              then Some (byte_at bs wp, byte_at bs (wp + 1), byte_at bs (wp + 2),
                         take (unat (byte_at bs (wp + 3)))
                           [decode_waypoint bs (wp + 4), decode_waypoint bs (wp + 17)])
              else None) \<rparr>)"

section \<open>What the application means to send\<close>

definition position_overflow :: "u16 \<Rightarrow> LORA_TDM_APP_FcStateCache \<Rightarrow> bool" where
  "position_overflow nan f \<longleftrightarrow>
     list_ex (\<lambda>x. snd (ScaleMeterToI16Cm nan x)) [lf_PosX f, lf_PosY f, lf_PosZ f, lf_VelX f, lf_VelY f, lf_VelZ f]"

fun wp_fields :: "ROUTE_WAYPOINT \<Rightarrow> u8 \<times> i32 \<times> i32 \<times> f32" where
  "wp_fields w = (wp_CmdType w, wp_LatE7 w, wp_LonE7 w, wp_Z w)"

text \<open>The waypoints of a page of a route of \<^verbatim>\<open>n\<close> waypoints.\<close>

definition page_waypoints :: "nat \<Rightarrow> ROUTE_WAYPOINT list \<Rightarrow> nat \<Rightarrow> (u8 \<times> i32 \<times> i32 \<times> f32) list" where
  "page_waypoints n ws p = map wp_fields (take 2 (drop (2 * p) (take n ws)))"

definition downlinked :: "u16 \<Rightarrow> LORA_TDM_APP_Data \<Rightarrow> Dl2Frame" where
  "downlinked nan d =
     (let f = l_FcState d; h = l_SystemHealth d; cm = \<lambda>x. fst (ScaleMeterToI16Cm nan x) in
      \<lparr> dl_seq = ucast (l_DownlinkSeq d),
        dl_flags = (if position_overflow nan f then 2 else 0) OR (if lf_TimeValid f \<noteq> 0 then 1 else 0) OR
          (if l_RouteReadbackPending d \<noteq> 0 then 4 else 0),
        dl_ufb = l_PendingUplinkFeedback d, dl_ts_ms = lf_TimestampMs f,
        dl_angles = map (ScaleRadToI16 nan) [lf_RollRad f, lf_PitchRad f, lf_YawRad f],
        dl_pos = map cm [lf_PosX f, lf_PosY f, lf_PosZ f], dl_vel = map cm [lf_VelX f, lf_VelY f, lf_VelZ f],
        dl_lat_e7 = lf_LatE7 f, dl_lon_e7 = lf_LonE7 f, dl_alt_mm = lf_AltMm f, dl_fix = lf_GpsFix f,
        dl_sats = lf_SatellitesVisible f, dl_health = lsh_SystemHealthState h, dl_fault = lsh_FaultCode h,
        dl_linkstate = l_LinkState d,
        dl_sys_time = (if lf_TimeValid f \<noteq> 0 then Some (lf_TimeUnixUsec f) else None),
        dl_uplink_last_seq = l_UplinkLastAcceptedSequence d, dl_uplink_boot_count = l_UplinkBootCount d,
        dl_page = (if l_RouteReadbackPending d \<noteq> 0
          then Some (l_RouteType d, l_RoutePageIndex d, l_RouteTotalPages d,
                 page_waypoints (unat (l_RouteWaypointCount d)) (l_RouteWaypoints d) (unat (l_RoutePageIndex d)))
          else None) \<rparr>)"

section \<open>The frame of the application\<close>

definition dl2_tail :: "LORA_TDM_APP_Data \<Rightarrow> u8 list" where
  "dl2_tail d = put_u16 (l_UplinkLastAcceptedSequence d) @ [l_UplinkBootCount d] @
     (if l_RouteReadbackPending d \<noteq> 0 then page_block d else [])"

definition dl2_head :: "u16 \<Rightarrow> LORA_TDM_APP_Data \<Rightarrow> u8 list" where
  "dl2_head nan d =
     (let f = l_FcState d; h = l_SystemHealth d; cm = \<lambda>x. put_u16 (fst (ScaleMeterToI16Cm nan x));
          sys = lf_TimeValid f \<noteq> 0; wp = l_RouteReadbackPending d \<noteq> 0
      in [DL2_MAGIC, of_nat (48 + (if sys then 8 else 0) + (if wp then 30 else 0))] @
         put_u16 (ucast (l_DownlinkSeq d)) @ [dl_flags (downlinked nan d), l_PendingUplinkFeedback d] @
         put_u32 (lf_TimestampMs f) @
         put_u16 (ScaleRadToI16 nan (lf_RollRad f)) @ put_u16 (ScaleRadToI16 nan (lf_PitchRad f)) @
         put_u16 (ScaleRadToI16 nan (lf_YawRad f)) @
         cm (lf_PosX f) @ cm (lf_PosY f) @ cm (lf_PosZ f) @ cm (lf_VelX f) @ cm (lf_VelY f) @ cm (lf_VelZ f) @
         put_u32 (lf_LatE7 f) @ put_u32 (lf_LonE7 f) @ put_u32 (lf_AltMm f) @
         [lf_GpsFix f, lf_SatellitesVisible f, lsh_SystemHealthState h, lsh_FaultCode h, l_LinkState d])"

definition dl2_body :: "u16 \<Rightarrow> LORA_TDM_APP_Data \<Rightarrow> u8 list" where
  "dl2_body nan d = dl2_head nan d @
     (if lf_TimeValid (l_FcState d) \<noteq> 0 then put_u64 (lf_TimeUnixUsec (l_FcState d)) else []) @ dl2_tail d"

lemma BuildDl2Frame_body:
  "LORA_TDM_APP_BuildDl2Frame nan DL2_MAX_FRAME_LEN d =
     Some (dl2_body nan d @ put_u16 (LORA_TDM_APP_Crc16 (dl2_body nan d)))"
  by (simp add: LORA_TDM_APP_BuildDl2Frame_def dl2_body_def dl2_head_def dl2_tail_def downlinked_def position_overflow_def
      Let_def case_prod_unfold or.assoc)

lemma length_page_block [simp]: "length (page_block d) = 30"
  by (simp add: page_block_def dl2_waypoint_def Let_def)

lemma length_dl2_body:
  "length (dl2_body nan d) = 48 + (if lf_TimeValid (l_FcState d) \<noteq> 0 then 8 else 0) +
     (if l_RouteReadbackPending d \<noteq> 0 then 30 else 0)"
  by (simp add: dl2_body_def dl2_head_def dl2_tail_def Let_def)

lemma length_dl2_head [simp]: "length (dl2_head nan d) = 45"
  by (simp add: dl2_head_def Let_def)

lemmas le_access = byte_at_append2 get_u16_append2 get_u32_append2

lemma dl2_head_fields:
  "byte_at (dl2_head nan d @ xs) 4 = dl_flags (downlinked nan d)"
  "get_u16 (dl2_head nan d @ xs) 2 = dl_seq (downlinked nan d)"
  "byte_at (dl2_head nan d @ xs) 5 = dl_ufb (downlinked nan d)"
  "get_u32 (dl2_head nan d @ xs) 6 = dl_ts_ms (downlinked nan d)"
  "map (get_u16 (dl2_head nan d @ xs)) [10, 12, 14] = dl_angles (downlinked nan d)"
  "map (get_u16 (dl2_head nan d @ xs)) [16, 18, 20] = dl_pos (downlinked nan d)"
  "map (get_u16 (dl2_head nan d @ xs)) [22, 24, 26] = dl_vel (downlinked nan d)"
  "get_u32 (dl2_head nan d @ xs) 28 = dl_lat_e7 (downlinked nan d)"
  "get_u32 (dl2_head nan d @ xs) 32 = dl_lon_e7 (downlinked nan d)"
  "get_u32 (dl2_head nan d @ xs) 36 = dl_alt_mm (downlinked nan d)"
  "byte_at (dl2_head nan d @ xs) 40 = dl_fix (downlinked nan d)"
  "byte_at (dl2_head nan d @ xs) 41 = dl_sats (downlinked nan d)"
  "byte_at (dl2_head nan d @ xs) 42 = dl_health (downlinked nan d)"
  "byte_at (dl2_head nan d @ xs) 43 = dl_fault (downlinked nan d)"
  "byte_at (dl2_head nan d @ xs) 44 = dl_linkstate (downlinked nan d)"
  by (simp_all add: dl2_head_def Let_def le_access) (simp_all add: downlinked_def Let_def)

lemma dl2_tail_fields:
  "get_u16 (dl2_tail d @ xs) 0 = l_UplinkLastAcceptedSequence d"
  "byte_at (dl2_tail d @ xs) 2 = l_UplinkBootCount d"
  "l_RouteReadbackPending d \<noteq> 0 \<Longrightarrow> drop 3 (dl2_tail d @ xs) = page_block d @ xs"
  by (simp_all add: dl2_tail_def le_access)

lemma get_u64_append2: "length xs \<le> n \<Longrightarrow> get_u64 (xs @ ys) n = get_u64 ys (n - length xs)"
  by (simp add: get_u64_def get_u32_append2)

section \<open>Pages\<close>

text \<open>The route being read back: at most 37 waypoints, as many pages as they need, the page to
  send next among them.\<close>

definition route_inv :: "LORA_TDM_APP_Data \<Rightarrow> bool" where
  "route_inv d \<longleftrightarrow>
     length (l_RouteWaypoints d) = ROUTE_MAX_WAYPOINTS \<and> unat (l_RouteWaypointCount d) \<le> ROUTE_MAX_WAYPOINTS \<and>
     unat (l_RouteTotalPages d) = (unat (l_RouteWaypointCount d) + 1) div 2 \<and>
     (l_RouteReadbackPending d \<noteq> 0 \<longrightarrow> unat (l_RoutePageIndex d) < unat (l_RouteTotalPages d))"

definition page_list :: "u8 list \<Rightarrow> nat \<Rightarrow> (u8 \<times> i32 \<times> i32 \<times> f32) list" where
  "page_list bs wp = take (unat (byte_at bs (wp + 3))) [decode_waypoint bs (wp + 4), decode_waypoint bs (wp + 17)]"

lemma decode_waypoint_present:
  "decode_waypoint (dl2_waypoint True w @ xs) 0 = wp_fields w"
  by (simp add: decode_waypoint_def dl2_waypoint_def le_access)

lemma decode_waypoint_append2:
  "length xs \<le> n \<Longrightarrow> decode_waypoint (xs @ ys) n = decode_waypoint ys (n - length xs)"
  by (simp add: decode_waypoint_def le_access Suc_diff_le)

lemma decode_waypoint_Cons [simp]:
  "decode_waypoint (x # xs) (Suc n) = decode_waypoint xs n"
  "decode_waypoint (x # xs) (numeral k) = decode_waypoint xs (pred_numeral k)"
  by (simp_all add: decode_waypoint_def numeral_eq_Suc get_u32_Cons_Suc[symmetric] del: get_u32_Cons_Suc)
    (simp_all add: add.commute)

lemma length_dl2_waypoint [simp]: "length (dl2_waypoint p w) = 13"
  by (simp add: dl2_waypoint_def)

lemma page_header:
  "byte_at (page_block d @ xs) 0 = l_RouteType d" "byte_at (page_block d @ xs) 1 = l_RoutePageIndex d"
  "byte_at (page_block d @ xs) 2 = l_RouteTotalPages d"
  by (simp_all add: page_block_def Let_def)

lemma page_block_list:
  assumes "route_inv d" "l_RouteReadbackPending d \<noteq> 0"
  shows "page_list (page_block d @ xs) 0 =
    page_waypoints (unat (l_RouteWaypointCount d)) (l_RouteWaypoints d) (unat (l_RoutePageIndex d))"
proof -
  let ?p = "unat (l_RoutePageIndex d)" and ?n = "unat (l_RouteWaypointCount d)" and ?ws = "l_RouteWaypoints d"
  let ?s = "l_RoutePageIndex d * 2" and ?r = "l_RouteWaypointCount d - l_RoutePageIndex d * 2"
  have i: "length ?ws = 37" "?n \<le> 37" "2 * ?p < ?n"
    using assms by (auto simp: route_inv_def)
  have s: "unat ?s = 2 * ?p"
    using i by (subst unat_mult_lem[THEN iffD1]) simp_all
  have le: "?s < l_RouteWaypointCount d"
    using i s by (simp add: word_less_nat_alt)
  then have r: "unat ?r = ?n - 2 * ?p"
    using s by (simp add: unat_sub less_imp_le)
  have w: "waypoint_at ?ws (unat ?s) = ?ws ! (2 * ?p)" "waypoint_at ?ws (unat ?s + 1) = ?ws ! (2 * ?p + 1)"
     if "2 * ?p + 1 < 37"
    using i s that by (simp_all add: waypoint_at_def)
  have d: "drop (2 * ?p) (take ?n ?ws) = ?ws ! (2 * ?p) # drop (2 * ?p + 1) (take ?n ?ws)"
    using i by (subst Cons_nth_drop_Suc[symmetric]) simp_all
  show ?thesis
  proof (cases "?n - 2 * ?p = 1")
    case True
    then have "?r = 1"
      using r by (simp add: word_unat_eq_iff)
    moreover have "drop (2 * ?p + 1) (take ?n ?ws) = []"
      using True i by simp
    moreover have "waypoint_at ?ws (unat ?s) = ?ws ! (2 * ?p)"
      using i s by (simp add: waypoint_at_def)
    moreover have "\<not> (2 :: u8) \<le> 1"
      by (simp add: word_le_nat_alt)
    ultimately show ?thesis
      using le d unfolding page_list_def page_block_def Let_def page_waypoints_def
      by (simp add: not_le[symmetric] decode_waypoint_append2 decode_waypoint_present)
  next
    case False
    then have m: "2 * ?p + 1 < ?n"
      using i by linarith
    then have "\<not> ?r < 2"
      using r by (simp add: word_less_nat_alt)
    moreover have "take 1 (drop (2 * ?p + 1) (take ?n ?ws)) = [?ws ! (2 * ?p + 1)]"
      using m i by (simp add: take_Suc_conv_app_nth hd_drop_conv_nth take_Suc)
    moreover have take2: "take 2 (x # xs) = x # take 1 xs" for x and xs :: "'a list"
      by (simp add: numeral_2_eq_2)
    ultimately show ?thesis
      using le d w m i unfolding page_list_def page_block_def Let_def page_waypoints_def
      by (simp add: not_le[symmetric] decode_waypoint_append2 decode_waypoint_present take2)
  qed
qed

lemma page_list_append2: "length xs \<le> n \<Longrightarrow> page_list (xs @ ys) n = page_list ys (n - length xs)"
  by (simp add: page_list_def byte_at_append2 decode_waypoint_append2 Suc_diff_le)

lemma dl2_tail_page:
  assumes "route_inv d" "l_RouteReadbackPending d \<noteq> 0"
  shows "page_list (dl2_tail d @ xs) 3 =
      page_waypoints (unat (l_RouteWaypointCount d)) (l_RouteWaypoints d) (unat (l_RoutePageIndex d))"
    and "byte_at (dl2_tail d @ xs) 3 = l_RouteType d" "byte_at (dl2_tail d @ xs) 4 = l_RoutePageIndex d"
    and "byte_at (dl2_tail d @ xs) 5 = l_RouteTotalPages d"
proof -
  obtain t where t: "dl2_tail d = t @ page_block d" "length t = 3"
    using assms(2) by (simp add: dl2_tail_def)
  then show "page_list (dl2_tail d @ xs) 3 =
      page_waypoints (unat (l_RouteWaypointCount d)) (l_RouteWaypoints d) (unat (l_RoutePageIndex d))"
    and "byte_at (dl2_tail d @ xs) 3 = l_RouteType d" "byte_at (dl2_tail d @ xs) 4 = l_RoutePageIndex d"
    and "byte_at (dl2_tail d @ xs) 5 = l_RouteTotalPages d"
    using page_block_list[OF assms, of xs] page_header[of d xs]
    by (simp_all add: page_list_append2 byte_at_append2)
qed

section \<open>The frame decodes\<close>

lemma lora_dl2_decodes:
  assumes "route_inv d"
  shows "\<exists>bs. LORA_TDM_APP_BuildDl2Frame nan DL2_MAX_FRAME_LEN d = Some bs \<and>
    50 \<le> length bs \<and> length bs \<le> 88 \<and> length bs = unat (byte_at bs 1) + 2 \<and>
    get_u16 bs (unat (byte_at bs 1)) = LORA_TDM_APP_Crc16 (take (unat (byte_at bs 1)) bs) \<and>
    decode_dl2 bs = downlinked nan d"
proof -
  let ?body = "dl2_body nan d" and ?sys = "lf_TimeValid (l_FcState d) \<noteq> 0" and ?wp = "l_RouteReadbackPending d \<noteq> 0"
  let ?bs = "?body @ put_u16 (LORA_TDM_APP_Crc16 ?body)"
  let ?t = "if ?sys then put_u64 (lf_TimeUnixUsec (l_FcState d)) else []"
  have l: "length ?body = 48 + (if ?sys then 8 else 0) + (if ?wp then 30 else 0)"
    by (rule length_dl2_body)
  have n: "unat (byte_at ?bs 1) = length ?body"
    unfolding l by (simp add: dl2_body_def dl2_head_def Let_def)
  have f: "dl_flags (downlinked nan d) AND DL2_FLAG_SYSTIME \<noteq> 0 \<longleftrightarrow> ?sys"
     "dl_flags (downlinked nan d) AND DL2_FLAG_WAYPOINT \<noteq> 0 \<longleftrightarrow> ?wp"
    by (simp_all add: downlinked_def Let_def)
  have b: "?bs = dl2_head nan d @ ?t @ dl2_tail d @ put_u16 (LORA_TDM_APP_Crc16 ?body)"
    by (simp add: dl2_body_def)
  let ?r = "dl2_tail d @ put_u16 (LORA_TDM_APP_Crc16 ?body)"
  have time: "get_u64 ?bs 45 = lf_TimeUnixUsec (l_FcState d)" if ?sys
    using that unfolding b by (simp add: get_u64_append2)
  have tail: "get_u16 ?bs (45 + length ?t) = l_UplinkLastAcceptedSequence d"
      "byte_at ?bs (45 + length ?t + 2) = l_UplinkBootCount d"
    unfolding b by (simp_all add: le_access dl2_tail_fields)
  have page: "page_list ?bs (45 + length ?t + 3) =
      page_waypoints (unat (l_RouteWaypointCount d)) (l_RouteWaypoints d) (unat (l_RoutePageIndex d))"
      "byte_at ?bs (45 + length ?t + 3) = l_RouteType d" "byte_at ?bs (45 + length ?t + 4) = l_RoutePageIndex d"
      "byte_at ?bs (45 + length ?t + 5) = l_RouteTotalPages d" if ?wp
    unfolding b using dl2_tail_page[OF assms that] by (simp_all add: byte_at_append2 page_list_append2)
  note head = dl2_head_fields[of nan d "?t @ ?r", folded b] f
  have len: "length ?bs = 50 + (if ?sys then 8 else 0) + (if ?wp then 30 else 0)"
    using l by simp
  have "decode_dl2 ?bs = downlinked nan d"
  proof (rule Dl2Frame.equality)
    show "dl_sys_time (decode_dl2 ?bs) = dl_sys_time (downlinked nan d)"
      using time head len by (simp add: decode_dl2_def Let_def downlinked_def)
    show "dl_uplink_last_seq (decode_dl2 ?bs) = dl_uplink_last_seq (downlinked nan d)"
         "dl_uplink_boot_count (decode_dl2 ?bs) = dl_uplink_boot_count (downlinked nan d)"
      using tail head len by (simp_all add: decode_dl2_def Let_def downlinked_def split: if_splits)
    show "dl_page (decode_dl2 ?bs) = dl_page (downlinked nan d)"
      using page head(1) f len
      by (simp add: decode_dl2_def Let_def downlinked_def page_list_def split: if_splits)
  qed (use head in \<open>simp_all add: decode_dl2_def Let_def\<close>)
  then show ?thesis
    using l n by (intro exI[of _ ?bs]) (simp add: BuildDl2Frame_body get_u16_append2)
qed

text \<open>The frame of every cycle - with or without the time block, with or without a page of
  the route - has the length its second byte announces (50 to 88 bytes), a checksum the ground
  computes alike, and is decoded by the ground station to exactly the state, the command feedback,
  the replay state of uplink_app and the waypoints it is meant to carry.\<close>

lemma lora_dl2_roundtrip:
  assumes "route_inv d"
  shows "\<exists>bs. LORA_TDM_APP_BuildDl2Frame nan DL2_MAX_FRAME_LEN d = Some bs \<and>
    50 \<le> length bs \<and> length bs \<le> 88 \<and> length bs = unat (byte_at bs 1) + 2 \<and>
    get_u16 bs (unat (byte_at bs 1)) = LORA_TDM_APP_Crc16 (take (unat (byte_at bs 1)) bs) \<and>
    decode_dl2 bs = downlinked nan d"
  by (rule lora_dl2_decodes[OF assms])

definition demo_downlink :: LORA_TDM_APP_Data where
  "demo_downlink = lora_initial\<lparr> l_RouteReadbackPending := 1, l_RouteWaypointCount := 3, l_RouteTotalPages := 2,
     l_RoutePageIndex := 1, l_LinkState := 1,
     l_FcState := (l_FcState lora_initial)\<lparr> lf_TimeValid := 1, lf_PosX := 0x3F800000, lf_VelX := 0x47000000 \<rparr> \<rparr>"

lemma lora_dl2_roundtrip_witness:
  "\<exists>bs. LORA_TDM_APP_BuildDl2Frame 0 DL2_MAX_FRAME_LEN demo_downlink = Some bs \<and>
    dl_pos (decode_dl2 bs) = [100, 0, 0] \<and> dl_vel (decode_dl2 bs) = [32767, 0, 0] \<and>
    dl_flags (decode_dl2 bs) = 7 \<and> dl_page (decode_dl2 bs) = Some (0, 1, 2, [(0, 0, 0, 0)])"
proof -
  have "route_inv demo_downlink"
    by (simp add: route_inv_def demo_downlink_def lora_initial_def)
  moreover have "dl_pos (downlinked 0 demo_downlink) = [100, 0, 0]" "dl_vel (downlinked 0 demo_downlink) = [32767, 0, 0]"
     "dl_flags (downlinked 0 demo_downlink) = 7"
     "dl_page (downlinked 0 demo_downlink) = Some (0, 1, 2, [(0, 0, 0, 0)])"
    by code_simp+
  ultimately show ?thesis
    using lora_dl2_roundtrip[of demo_downlink 0] by metis
qed

end
