(* ===== verification/Lora_Readback.thy ===== *)
theory Lora_Readback
  imports Lora_Downlink Lora_Stream "HOL-Library.AList"
begin

text \<open>
  The read-back of a route: lora_tdm_app sends one page with every binary frame that gets out,
  the assembler of the ground station (\<^verbatim>\<open>RouteReadbackAssembler\<close> in
  \<^verbatim>\<open>bridge/lora_downlink_decoder.py\<close>) puts the pages together again.
\<close>

section \<open>Frames on the air\<close>

fun serials :: "out list \<Rightarrow> u8 list list" where
  "serials [] = []"
| "serials (Serial bs # os) = bs # serials os"
| "serials (x # os) = serials os"

lemma serials_append [simp]: "serials (xs @ ys) = serials xs @ serials ys"
  by (induction xs rule: serials.induct) simp_all

definition dl2_frames :: "out list \<Rightarrow> u8 list list" where
  "dl2_frames os = filter (\<lambda>b. byte_at b 0 = DL2_MAGIC) (serials os)"

lemma dl2_frames_simps [simp]:
  "dl2_frames [] = []" "dl2_frames (xs @ ys) = dl2_frames xs @ dl2_frames ys"
  "dl2_frames (Event e t # os) = dl2_frames os" "dl2_frames (Send m # os) = dl2_frames os"
  "dl2_frames (StateFile bs # os) = dl2_frames os"
  "dl2_frames (Serial bs # os) = (if byte_at bs 0 = DL2_MAGIC then [bs] else []) @ dl2_frames os"
  by (simp_all add: dl2_frames_def)

section \<open>The pages still to be sent\<close>

definition route_view ::
    "LORA_TDM_APP_Data \<Rightarrow> u8 \<times> u8 \<times> u8 \<times> u8 \<times> u8 \<times> ROUTE_WAYPOINT list" where
  "route_view d = (l_RouteReadbackPending d, l_RouteType d, l_RouteWaypointCount d, l_RoutePageIndex d,
     l_RouteTotalPages d, l_RouteWaypoints d)"

lemma route_inv_view: "route_view d' = route_view d \<Longrightarrow> route_inv d' = route_inv d"
  by (simp add: route_inv_def route_view_def)

type_synonym page = "u8 \<times> u8 \<times> u8 \<times> (u8 \<times> i32 \<times> i32 \<times> f32) list"

definition the_page :: "LORA_TDM_APP_Data \<Rightarrow> nat \<Rightarrow> page" where
  "the_page d p = (l_RouteType d, of_nat p, l_RouteTotalPages d,
     page_waypoints (unat (l_RouteWaypointCount d)) (l_RouteWaypoints d) p)"

definition pages_left :: "LORA_TDM_APP_Data \<Rightarrow> page list" where
  "pages_left d = (if l_RouteReadbackPending d = 0 then []
     else map (the_page d) [unat (l_RoutePageIndex d) ..< unat (l_RouteTotalPages d)])"

lemma pages_left_view: "route_view d' = route_view d \<Longrightarrow> pages_left d' = pages_left d"
  unfolding route_view_def prod.inject by (simp add: pages_left_def the_page_def fun_eq_iff)

lemma unat_step: "unat (i :: u8) + 1 < unat (t :: u8) \<Longrightarrow> unat (i + 1) = unat i + 1"
  using unsigned_less[of t, where 'a = nat] by (simp add: unat_word_ariths)

lemma next_page_inv:
  assumes "route_inv d"
  shows "route_inv (next_page d)"
proof (cases "unat (l_RoutePageIndex d) + 1 < unat (l_RouteTotalPages d)")
  case True
  then show ?thesis
    using assms unat_step[OF True] by (simp add: route_inv_def next_page_def)
next
  case False
  then show ?thesis
    using assms by (simp add: route_inv_def next_page_def)
qed

lemma pages_left_next:
  assumes "route_inv d" "l_RouteReadbackPending d \<noteq> 0"
  shows "pages_left d = the_page d (unat (l_RoutePageIndex d)) # pages_left (next_page d)"
proof (cases "unat (l_RoutePageIndex d) + 1 < unat (l_RouteTotalPages d)")
  case True
  have "the_page (next_page d) = the_page d"
    by (simp add: the_page_def next_page_def fun_eq_iff)
  then show ?thesis
    using assms True unat_step[OF True] by (simp add: pages_left_def next_page_def upt_conv_Cons)
next
  case False
  then have "Suc (unat (l_RoutePageIndex d)) = unat (l_RouteTotalPages d)"
    using assms by (auto simp: route_inv_def)
  then show ?thesis
    using assms by (simp add: pages_left_def next_page_def upt_rec[of "unat (l_RoutePageIndex d)"])
qed

lemma pages_left_nothing: "l_RouteReadbackPending d = 0 \<Longrightarrow> pages_left d = [] \<and> next_page d = d"
  by (simp add: pages_left_def next_page_def)

text \<open>The page in the frame a state gives is the first of those left.\<close>

lemma downlinked_page:
  "dl_page (downlinked nan d) =
     (if l_RouteReadbackPending d \<noteq> 0 then Some (the_page d (unat (l_RoutePageIndex d))) else None)"
  by (simp add: downlinked_def the_page_def Let_def)

section \<open>A cycle sends at most one page\<close>

definition no_snapshot :: "lora_cycle \<Rightarrow> bool" where
  "no_snapshot cy \<longleftrightarrow> list_all (\<lambda>(env, m). case m of RouteSnapshot r \<Rightarrow> False | _ \<Rightarrow> True) (cy_msgs cy)"

definition route_quiet :: "LORA_TDM_APP_Data \<Rightarrow> LORA_TDM_APP_Data \<times> out list \<Rightarrow> bool" where
  "route_quiet d r \<longleftrightarrow> route_view (fst r) = route_view d \<and> dl2_frames (snd r) = []"

lemma ground_route_quiet: "route_quiet d (LORA_TDM_APP_ProcessGroundCommand env fcn bs d)"
  by (simp add: lora_cmd_defs route_quiet_def route_view_def Let_def save_file_def)

lemma config_route_quiet: "route_quiet d (LORA_TDM_APP_ProcessConfigCommand env m d)"
  by (simp add: lora_cmd_defs route_quiet_def route_view_def Let_def save_file_def)

lemma packet_route_quiet:
  "(case m of RouteSnapshot r \<Rightarrow> False | _ \<Rightarrow> True) \<Longrightarrow> route_quiet d (LORA_TDM_APP_ProcessCommandPacket env m d)"
  using ground_route_quiet[of d env] config_route_quiet[of d env]
  unfolding LORA_TDM_APP_ProcessCommandPacket_def
  by (cases m)
    (simp_all add: route_quiet_def route_view_def Let_def LORA_TDM_APP_UpdateCacheFromMsg_def
      LORA_TDM_APP_ProcessDiagnosticCommand_def LORA_TDM_APP_ReportHousekeeping_def LORA_TDM_APP_ReportLinkStatus_def
      lora_uplink_status_def lora_count_error_def split: option.split)

lemma drain_route_quiet:
  "list_all (\<lambda>(env, m). case m of RouteSnapshot r \<Rightarrow> False | _ \<Rightarrow> True) ms \<Longrightarrow> route_quiet d (drain ms d)"
proof (induction ms d rule: drain.induct)
  case (2 env m ms d)
  then have "route_quiet d (LORA_TDM_APP_ProcessCommandPacket env m d)"
    by (intro packet_route_quiet) auto
  then show ?case
    using 2 by (cases "LORA_TDM_APP_ProcessCommandPacket env m d")
      (simp add: route_quiet_def prepend_def Let_def case_prod_unfold)
qed (simp add: route_quiet_def)

lemma reopen_route_quiet: "route_quiet d (reopen cy d)"
  by (simp add: reopen_def route_quiet_def route_view_def Let_def)

lemma link_route_quiet: "route_quiet d (LORA_TDM_APP_UpdateLinkState now d)"
  unfolding LORA_TDM_APP_UpdateLinkState_def Let_def
  by (simp add: route_quiet_def route_view_def)

lemma process_frame_route: "route_quiet d (process_frame t b d)"
  unfolding process_frame_def LORA_TDM_APP_ProcessRxBinaryFrame_def LORA_TDM_APP_ProcessRxLine_def
    ProcessUpFrame_def ForwardUp2ToUplinkApp_def Let_def
  by (auto simp: route_quiet_def route_view_def forward_command_def up_error_def note_ack_def ack_error_def
      split: option.split prod.split)

lemma rx_byte_route: "route_quiet d (rx_byte t c d)"
proof -
  have p: "route_quiet d' (LORA_TDM_APP_ProcessRxLine t (cstr b) d')"
       "route_quiet d' (LORA_TDM_APP_ProcessRxBinaryFrame t b d')" for b d'
    unfolding LORA_TDM_APP_ProcessRxBinaryFrame_def LORA_TDM_APP_ProcessRxLine_def
      ProcessUpFrame_def ForwardUp2ToUplinkApp_def Let_def
    by (auto simp: route_quiet_def route_view_def forward_command_def up_error_def note_ack_def ack_error_def
        split: option.split prod.split)
  then show ?thesis
    unfolding rx_byte_def Let_def
    by (simp add: route_quiet_def route_view_def rx_idle_def case_prod_unfold
        split: LORA_TDM_RxFrameMode.split)
qed

lemma rx_loop_route: "route_quiet d (rx_loop D ps d)"
proof (induction D ps d rule: rx_loop.induct)
  case (2 D p ps d)
  have c: "route_quiet d (CloseSerial d, [Event LO_SERIAL_READ_ERR_EID ERROR])" "route_quiet d (d, [])"
    by (simp_all add: route_quiet_def CloseSerial_def route_view_def)
  show ?case
  proof (cases "rx_result p")
    case (Rx_Byte x)
    then show ?thesis
      using 2 c rx_byte_route[of d "GetTimeMs (rx_ack_now p)" x]
      by (cases "rx_byte (GetTimeMs (rx_ack_now p)) x d") (auto simp: route_quiet_def prepend_def Let_def case_prod_unfold)
  qed (use 2 c in auto)
qed (simp add: route_quiet_def)

lemma window_route_quiet: "route_quiet d (LORA_TDM_APP_RunRxWindow cy d)"
  using rx_loop_route[of "d\<lparr>l_AckReceivedThisCycle := False\<rparr>" "GetTimeMs (cy_rx_start cy) + LORA_RX_WINDOW_MS" "cy_rx cy"]
  unfolding LORA_TDM_APP_RunRxWindow_def
  by (simp add: route_quiet_def route_view_def Let_def case_prod_unfold)

lemma fmt_not_magic:
  "LORA_TDM_APP_BuildFcDownlinkLine n d = Some bs \<Longrightarrow> byte_at bs 0 \<noteq> DL2_MAGIC"
  "LORA_TDM_APP_BuildShDownlinkLine n d = Some bs \<Longrightarrow> byte_at bs 0 \<noteq> DL2_MAGIC"
  by (auto simp: LORA_TDM_APP_BuildFcDownlinkLine_def LORA_TDM_APP_BuildShDownlinkLine_def line_of_def
      Let_def ascii_def split: if_splits)

text \<open>Transmission: nothing, or one frame that carries the next page.\<close>

lemma RunTx_page:
  assumes "route_inv d"
  obtains "route_quiet d (LORA_TDM_APP_RunTx cy d)"
  | bs where "dl2_frames (snd (LORA_TDM_APP_RunTx cy d)) = [bs]"
      "dl_page (decode_dl2 bs) = dl_page (downlinked (cy_nan cy) d)"
      "route_view (fst (LORA_TDM_APP_RunTx cy d)) = route_view (next_page d)"
proof -
  obtain bs where bs: "LORA_TDM_APP_BuildDl2Frame (cy_nan cy) DL2_MAX_FRAME_LEN d = Some bs"
      "decode_dl2 bs = downlinked (cy_nan cy) d"
    using lora_dl2_decodes[OF assms] by blast
  have m: "byte_at bs 0 = DL2_MAGIC"
    using bs(1) by (auto simp: BuildDl2Frame_body dl2_body_def dl2_head_def Let_def)
  show thesis
  proof (cases "l_PortOpen d \<and> l_UseV2Downlink d \<noteq> 0 \<and> cy_write_ok cy")
    case True
    then have "LORA_TDM_APP_RunTx cy d = (next_page (note_sent d), [Serial bs])"
      using bs(1) by (simp add: LORA_TDM_APP_RunTx_def Let_def)
    then show thesis
      using bs(2) m that(2)[of bs]
      by (simp add: dl2_frames_def route_view_def next_page_def note_sent_def)
  next
    case False
    then have "route_quiet d (LORA_TDM_APP_RunTx cy d)"
      using bs(1) fmt_not_magic
      by (auto simp: LORA_TDM_APP_RunTx_def Let_def route_quiet_def route_view_def CloseSerial_def note_sent_def
          dl2_frames_def split: option.split)
    then show thesis by (rule that(1))
  qed
qed

section \<open>Histories\<close>

text \<open>The pages in the frames of an operation, frame by frame, and the law that every operation
  keeps: the pages left are sent in order, one with every frame, until there are none.\<close>

definition sent_pages :: "out list \<Rightarrow> page option list" where
  "sent_pages os = map (\<lambda>b. dl_page (decode_dl2 b)) (dl2_frames os)"

definition page_stream :: "nat \<Rightarrow> page list \<Rightarrow> page option list" where
  "page_stream f ps = map Some (take f ps) @ replicate (f - length ps) None"

lemma page_stream_add: "page_stream f ps @ page_stream f' (drop f ps) = page_stream (f + f') ps"
  by (cases "f \<le> length ps") (simp_all add: page_stream_def take_add replicate_add [symmetric])

definition sends_pages :: "LORA_TDM_APP_Data \<Rightarrow> LORA_TDM_APP_Data \<times> out list \<Rightarrow> bool" where
  "sends_pages d r \<longleftrightarrow> route_inv (fst r) \<and>
     sent_pages (snd r) = page_stream (length (dl2_frames (snd r))) (pages_left d) \<and>
     pages_left (fst r) = drop (length (dl2_frames (snd r))) (pages_left d)"

lemma sends_quiet: "route_quiet d r \<Longrightarrow> route_inv d \<Longrightarrow> sends_pages d r"
  using route_inv_view[of "fst r" d] pages_left_view[of "fst r" d]
  by (simp add: sends_pages_def route_quiet_def sent_pages_def page_stream_def)

lemma sends_chain:
  "sends_pages d (d', os) \<Longrightarrow> sends_pages d' (d'', os') \<Longrightarrow> sends_pages d (d'', os @ os')"
  by (simp add: sends_pages_def sent_pages_def page_stream_add add.commute)

lemma RunTx_sends:
  assumes "route_inv d"
  shows "sends_pages d (LORA_TDM_APP_RunTx cy d)"
  using assms
proof (rule RunTx_page[of d cy])
  assume "route_quiet d (LORA_TDM_APP_RunTx cy d)"
  then show ?thesis using assms by (rule sends_quiet)
next
  fix bs
  assume r: "dl2_frames (snd (LORA_TDM_APP_RunTx cy d)) = [bs]"
      "dl_page (decode_dl2 bs) = dl_page (downlinked (cy_nan cy) d)"
      "route_view (fst (LORA_TDM_APP_RunTx cy d)) = route_view (next_page d)"
  have "route_inv (fst (LORA_TDM_APP_RunTx cy d))" "pages_left (fst (LORA_TDM_APP_RunTx cy d)) = pages_left (next_page d)"
    using route_inv_view[OF r(3)] pages_left_view[OF r(3)] next_page_inv[OF assms] by simp_all
  then show ?thesis
    using r(1,2) pages_left_next[OF assms] pages_left_nothing[of d]
    by (cases "l_RouteReadbackPending d = 0")
      (simp_all add: sends_pages_def sent_pages_def page_stream_def downlinked_page)
qed

lemma RunCycle_sends:
  assumes "no_snapshot cy" "route_inv d"
  shows "sends_pages d (LORA_TDM_APP_RunCycle cy d)"
proof -
  obtain d1 o1 where 1: "drain (cy_msgs cy) d = (d1, o1)" by fastforce
  obtain d2 o2 where 2: "reopen cy d1 = (d2, o2)" by fastforce
  obtain d3 o3 where 3: "LORA_TDM_APP_RunTx cy d2 = (d3, o3)" by fastforce
  obtain d4 o4 where 4: "LORA_TDM_APP_RunRxWindow cy d3 = (d4, o4)" by fastforce
  obtain d5 o5 where 5: "LORA_TDM_APP_UpdateLinkState (GetTimeMs (cy_end cy)) d4 = (d5, o5)" by fastforce
  have s1: "sends_pages d (d1, o1)"
    using drain_route_quiet[of "cy_msgs cy" d] assms 1 by (intro sends_quiet) (simp_all add: no_snapshot_def)
  have s2: "sends_pages d1 (d2, o2)"
    using reopen_route_quiet[of d1 cy] s1 2 by (intro sends_quiet) (simp_all add: sends_pages_def)
  have s3: "sends_pages d2 (d3, o3)"
    using RunTx_sends[of d2 cy] s2 3 by (simp add: sends_pages_def)
  have s4: "sends_pages d3 (d4, o4)"
    using window_route_quiet[of d3 cy] s3 4 by (intro sends_quiet) (simp_all add: sends_pages_def)
  have s5: "sends_pages d4 (d5, o5)"
    using link_route_quiet[of d4 "GetTimeMs (cy_end cy)"] s4 5 by (intro sends_quiet) (simp_all add: sends_pages_def)
  show ?thesis
    using sends_chain[OF s1 sends_chain[OF s2 sends_chain[OF s3 sends_chain[OF s4 s5]]]]
    by (simp add: LORA_TDM_APP_RunCycle_def 1 2 3 4 5)
qed

lemma loop_sends: "list_all no_snapshot cys \<Longrightarrow> route_inv d \<Longrightarrow> sends_pages d (lora_loop cys d)"
proof (induction cys arbitrary: d)
  case Nil
  then show ?case by (simp add: sends_quiet route_quiet_def)
next
  case (Cons cy cys)
  obtain d' os where r: "LORA_TDM_APP_RunCycle cy d = (d', os)" by fastforce
  obtain d'' os' where r': "lora_loop cys d' = (d'', os')" by fastforce
  have "sends_pages d (d', os)"
    using RunCycle_sends[of cy d] Cons.prems r by simp
  moreover from this have "sends_pages d' (d'', os')"
    using Cons.IH[of d'] Cons.prems r' by (simp add: sends_pages_def)
  moreover have "sends_pages d (d, [])"
    using Cons.prems by (simp add: sends_quiet route_quiet_def)
  ultimately show ?case
    using r r' sends_chain by (simp add: prepend_def)
qed

section \<open>The assembler of the ground station\<close>

record assembler =
  ra_route_type :: "u8 option"
  ra_total_pages :: "u8 option"
  ra_pages :: "(u8 \<times> (u8 \<times> i32 \<times> i32 \<times> f32) list) list"

definition collect_pages :: "nat \<Rightarrow> (u8 \<times> 'a list) list \<Rightarrow> 'a list option" where
  "collect_pages n ps = map_option concat (those (map (\<lambda>i. map_of ps (of_nat i)) [0..<n]))"

definition feed :: "Dl2Frame \<Rightarrow> assembler \<Rightarrow> assembler \<times> (u8 \<times> i32 \<times> i32 \<times> f32) list option" where
  "feed e a =
     (case dl_page e of
        None \<Rightarrow> (a, None)
      | Some (t, p, n, ws) \<Rightarrow>
          let new = (ra_total_pages a \<noteq> Some n \<or> ra_route_type a \<noteq> Some t \<or> (p = 0 \<and> ra_pages a \<noteq> []));
              a = (if new then \<lparr> ra_route_type = Some t, ra_total_pages = Some n, ra_pages = [] \<rparr> else a);
              a = a\<lparr> ra_pages := AList.update p ws (ra_pages a) \<rparr>
          in (a, if n \<noteq> 0 \<and> length (ra_pages a) \<ge> unat n then collect_pages (unat n) (ra_pages a) else None))"

fun feed_all :: "Dl2Frame list \<Rightarrow> assembler \<Rightarrow> (u8 \<times> i32 \<times> i32 \<times> f32) list list" where
  "feed_all [] a = []"
| "feed_all (e # es) a =
     (let (a, r) = feed e a in (case r of None \<Rightarrow> [] | Some route \<Rightarrow> [route]) @ feed_all es a)"

text \<open>Feeding the pages of a route in order.\<close>

definition stored :: "(nat \<Rightarrow> 'a list) \<Rightarrow> nat \<Rightarrow> (u8 \<times> 'a list) list" where
  "stored g k = map (\<lambda>i. (of_nat i, g i)) [0..<k]"

lemma of_nat_u8_eq: "i < 256 \<Longrightarrow> j < 256 \<Longrightarrow> (of_nat i :: u8) = of_nat j \<longleftrightarrow> i = j"
proof -
  assume "i < 256" "j < 256"
  then have "unat (of_nat i :: u8) = i" "unat (of_nat j :: u8) = j"
    by (simp_all add: unat_of_nat)
  then show ?thesis by metis
qed

lemma map_of_stored: "i < k \<Longrightarrow> k \<le> 256 \<Longrightarrow> map_of (stored g k) (of_nat i) = Some (g i)"
proof -
  assume "i < k" "k \<le> 256"
  have "inj_on (of_nat :: nat \<Rightarrow> u8) {0..<k}"
    using \<open>k \<le> 256\<close> by (auto intro!: inj_onI simp: of_nat_u8_eq)
  then have "distinct (map fst (stored g k))"
    by (simp add: stored_def comp_def distinct_map)
  then show ?thesis
    using \<open>i < k\<close> by (auto intro!: map_of_is_SomeI simp: stored_def)
qed

lemma update_stored:
  assumes "k < 256"
  shows "AList.update (of_nat k) (g k) (stored g k) = stored g (Suc k)"
proof -
  have "AList.update x y ps = ps @ [(x, y)]" if "x \<notin> fst ` set ps" for x :: u8 and y :: "'a list" and ps
    using that by (induction ps) auto
  moreover have "of_nat k \<notin> fst ` set (stored g k)"
    using assms by (auto simp: stored_def of_nat_u8_eq)
  ultimately show ?thesis
    by (simp add: stored_def)
qed

lemma collect_stored: "n \<le> 256 \<Longrightarrow> collect_pages n (stored g n) = Some (concat (map g [0..<n]))"
proof -
  assume "n \<le> 256"
  then have "map (\<lambda>i. map_of (stored g n) (of_nat i)) [0..<n] = map Some (map g [0..<n])"
    by (simp add: map_of_stored)
  moreover have "those (map Some xs) = Some xs" for xs :: "'a list list"
    by (induction xs) simp_all
  ultimately show ?thesis
    by (simp add: collect_pages_def del: map_map)
qed

lemma feed_page:
  assumes "dl_page e = Some (t, of_nat k, n, g k)" "k < unat n"
    and "0 < k \<Longrightarrow> a = \<lparr> ra_route_type = Some t, ra_total_pages = Some n, ra_pages = stored g k \<rparr>"
  shows "feed e a = (\<lparr> ra_route_type = Some t, ra_total_pages = Some n, ra_pages = stored g (Suc k) \<rparr>,
     if Suc k = unat n then Some (concat (map g [0..<unat n])) else None)"
proof -
  have n: "unat n < 256" "n \<noteq> 0"
    using unsigned_less[of n, where 'a = nat] assms(2) by auto
  have l: "length (stored g (Suc k)) = Suc k"
    by (simp add: stored_def)
  let ?a = "\<lparr> ra_route_type = Some t, ra_total_pages = Some n, ra_pages = stored g k \<rparr>"
  have u: "AList.update (of_nat k) (g k) (ra_pages ?a) = stored g (Suc k)"
    using assms(2) n update_stored[of k g] by simp
  have "(if ra_total_pages a \<noteq> Some n \<or> ra_route_type a \<noteq> Some t \<or> (of_nat k = (0 :: u8) \<and> ra_pages a \<noteq> [])
      then \<lparr> ra_route_type = Some t, ra_total_pages = Some n, ra_pages = [] \<rparr> else a) = ?a"
  proof (cases "k = 0")
    case True
    then show ?thesis by (cases a) (auto simp: stored_def)
  next
    case False
    then have "of_nat k \<noteq> (0 :: u8)"
      using assms(2) n of_nat_u8_eq[of k 0] by simp
    then show ?thesis using assms(3) False by simp
  qed
  then show ?thesis
    using assms(1,2) n l u collect_stored[of "unat n" g]
    by (auto simp: feed_def Let_def)
qed

lemma feed_all_no_page: "(\<And>e. e \<in> set es \<Longrightarrow> dl_page e = None) \<Longrightarrow> feed_all es a = []"
  by (induction es) (simp_all add: feed_def)

lemma feed_all_pages:
  assumes "unat n > 0" "k < unat n"
    and "map dl_page es = map (\<lambda>i. Some (t, of_nat i, n, g i)) [k..<unat n]"
    and "0 < k \<Longrightarrow> a = \<lparr> ra_route_type = Some t, ra_total_pages = Some n, ra_pages = stored g k \<rparr>"
    and "\<And>e. e \<in> set rest \<Longrightarrow> dl_page e = None"
  shows "feed_all (es @ rest) a = [concat (map g [0..<unat n])]"
  using assms(2-4)
proof (induction "unat n - k" arbitrary: k es a)
  case (Suc m)
  then obtain e es' where es: "es = e # es'" "dl_page e = Some (t, of_nat k, n, g k)"
      "map dl_page es' = map (\<lambda>i. Some (t, of_nat i, n, g i)) [Suc k..<unat n]"
    by (auto simp: upt_conv_Cons map_eq_Cons_conv)
  note f = feed_page[OF es(2) Suc.prems(1) Suc.prems(3)]
  show ?case
  proof (cases "Suc k = unat n")
    case True
    then show ?thesis
      using es f feed_all_no_page[OF assms(5)] by simp
  next
    case False
    then have "feed_all (es' @ rest) (fst (feed e a)) = [concat (map g [0..<unat n])]"
      using Suc.hyps Suc.prems(1) es(3) f by (intro Suc.hyps(1)) auto
    then show ?thesis
      using False es(1) f by simp
  qed
qed simp

section \<open>The route arrives\<close>

lemma snapshot_inv:
  assumes "length (l_RouteWaypoints d) = ROUTE_MAX_WAYPOINTS" "length (ru_Waypoints m) = ROUTE_MAX_WAYPOINTS"
  shows "route_inv (fst (LORA_TDM_APP_ProcessRouteSnapshot m d))"
proof -
  let ?n = "min (unat (ru_WaypointCount m)) 37"
  have "unat (of_nat ?n :: u8) = ?n" "unat (of_nat ((?n + 1) div 2) :: u8) = (?n + 1) div 2"
    by (simp_all add: unat_of_nat)
  then show ?thesis
    using assms by (cases "?n = 0") (auto simp: LORA_TDM_APP_ProcessRouteSnapshot_def route_inv_def Let_def)
qed

lemma take_pairs: "concat (map (\<lambda>p. take 2 (drop (2 * p) xs)) [0..<(length xs + 1) div 2]) = xs"
proof (induction xs rule: induct_list012)
  case (3 x y xs)
  have "[0..<(length (x # y # xs) + 1) div 2] = 0 # map Suc [0..<(length xs + 1) div 2]"
    by (simp add: upt_conv_Cons map_Suc_upt del: upt_Suc)
  then show ?case
    using 3 by (simp add: comp_def)
qed (simp_all add: upt_rec)

lemma all_pages: "n \<le> length ws \<Longrightarrow>
    concat (map (page_waypoints n ws) [0..<(n + 1) div 2]) = map wp_fields (take n ws)"
  using arg_cong[OF take_pairs[of "take n ws"], of "map wp_fields"]
  by (simp add: page_waypoints_def[abs_def] map_concat comp_def min_absorb2)

text \<open>C23: after cfs_core_app's snapshot of a route of any number of waypoints, whatever happens
  in the cycles that follow - write errors, reopened ports, commands, a change of protocol - as soon
  as as many binary frames went out as the route has pages, the assembler of the ground station,
  whatever it held before, has put the route together exactly once, with every waypoint
  of the snapshot in order, and the read-back is over.\<close>

theorem lora_route_readback:
  assumes "length (l_RouteWaypoints d) = ROUTE_MAX_WAYPOINTS" "length (ru_Waypoints m) = ROUTE_MAX_WAYPOINTS"
    and "ru_WaypointCount m \<noteq> 0" "list_all no_snapshot cys"
    and "lora_loop cys (fst (LORA_TDM_APP_ProcessRouteSnapshot m d)) = (d', os)"
    and "(min (unat (ru_WaypointCount m)) ROUTE_MAX_WAYPOINTS + 1) div 2 \<le> length (dl2_frames os)"
  shows "feed_all (map decode_dl2 (dl2_frames os)) a =
      [map wp_fields (take (unat (ru_WaypointCount m)) (ru_Waypoints m))] \<and>
    pages_left d' = []"
proof -
  let ?d = "fst (LORA_TDM_APP_ProcessRouteSnapshot m d)" and ?n = "min (unat (ru_WaypointCount m)) 37"
  let ?g = "page_waypoints ?n (l_RouteWaypoints ?d)" and ?t = "l_RouteTotalPages ?d"
  have n: "0 < ?n" "unat (of_nat ?n :: u8) = ?n" "unat (of_nat ((?n + 1) div 2) :: u8) = (?n + 1) div 2"
    using assms(3) by (simp_all add: unat_of_nat unat_gt_0)
  have s: "l_RouteReadbackPending ?d \<noteq> 0" "l_RoutePageIndex ?d = 0" "unat ?t = (?n + 1) div 2"
      "unat (l_RouteWaypointCount ?d) = ?n" "take ?n (l_RouteWaypoints ?d) = take ?n (ru_Waypoints m)"
      "?n \<le> length (l_RouteWaypoints ?d)"
    using n assms(1,2) by (simp_all add: LORA_TDM_APP_ProcessRouteSnapshot_def Let_def)
  have p: "pages_left ?d = map (\<lambda>i. (l_RouteType ?d, of_nat i, ?t, ?g i)) [0..<unat ?t]"
    using s by (simp add: pages_left_def the_page_def)
  have lp: "length (pages_left ?d) = unat ?t"
    unfolding p by simp
  have "sends_pages ?d (d', os)"
    using loop_sends[OF assms(4) snapshot_inv[OF assms(1,2)]] assms(5) by simp
  then have sp: "sent_pages os = page_stream (length (dl2_frames os)) (pages_left ?d)"
      "pages_left d' = drop (length (dl2_frames os)) (pages_left ?d)"
    by (simp_all add: sends_pages_def)
  have f: "unat ?t \<le> length (dl2_frames os)"
    using assms(6) s by simp
  let ?es = "map decode_dl2 (dl2_frames os)"
  have m: "map dl_page ?es = map Some (pages_left ?d) @ replicate (length (dl2_frames os) - unat ?t) None"
    using sp(1) f lp by (simp add: sent_pages_def page_stream_def comp_def)
  have first: "map dl_page (take (unat ?t) ?es) = map (\<lambda>i. Some (l_RouteType ?d, of_nat i, ?t, ?g i)) [0..<unat ?t]"
    using arg_cong[OF m, of "take (unat ?t)"] lp unfolding take_map p by (simp add: comp_def)
  have rest: "dl_page e = None" if "e \<in> set (drop (unat ?t) ?es)" for e
  proof -
    have "set (map dl_page (drop (unat ?t) ?es)) \<subseteq> {None}"
      using arg_cong[OF m, of "drop (unat ?t)"] lp unfolding drop_map by (simp add: set_replicate_conv_if)
    moreover have "dl_page e \<in> set (map dl_page (drop (unat ?t) ?es))"
      unfolding set_map using that by (rule imageI)
    ultimately show ?thesis by blast
  qed
  have pos: "0 < unat ?t"
    using n(1) s(3) by simp
  have "feed_all (take (unat ?t) ?es @ drop (unat ?t) ?es) a = [concat (map ?g [0..<unat ?t])]"
    by (rule feed_all_pages[OF pos pos first _ rest]) simp_all
  moreover have "concat (map ?g [0..<unat ?t]) = map wp_fields (take ?n (ru_Waypoints m))"
    using all_pages[OF s(6)] s by simp
  moreover have "take ?n (ru_Waypoints m) = take (unat (ru_WaypointCount m)) (ru_Waypoints m)"
    using assms(2) by (simp add: min_def)
  ultimately show ?thesis
    using sp(2) f lp by simp
qed

lemma link_keeps [simp]:
  "l_UseV2Downlink (fst (LORA_TDM_APP_UpdateLinkState t d)) = l_UseV2Downlink d"
  "l_PortOpen (fst (LORA_TDM_APP_UpdateLinkState t d)) = l_PortOpen d"
  "l_RunStatus (fst (LORA_TDM_APP_UpdateLinkState t d)) = l_RunStatus d"
  "dl2_frames (snd (LORA_TDM_APP_UpdateLinkState t d)) = []"
  unfolding LORA_TDM_APP_UpdateLinkState_def Let_def by simp_all

lemma sending_cycle:
  assumes "l_UseV2Downlink d \<noteq> 0" "l_PortOpen d \<or> l_LastSerialOpenAttemptMs d = 0" "l_RunStatus d = APP_RUN"
  shows "length (dl2_frames (snd (LORA_TDM_APP_RunCycle (hearing_cycle []) d))) = 1 \<and>
    l_UseV2Downlink (fst (LORA_TDM_APP_RunCycle (hearing_cycle []) d)) \<noteq> 0 \<and>
    l_PortOpen (fst (LORA_TDM_APP_RunCycle (hearing_cycle []) d)) \<and>
    l_RunStatus (fst (LORA_TDM_APP_RunCycle (hearing_cycle []) d)) = APP_RUN"
proof -
  let ?d = "fst (reopen (hearing_cycle []) d)"
  have o: "l_UseV2Downlink ?d \<noteq> 0" "l_PortOpen ?d" "l_RunStatus ?d = APP_RUN"
      "dl2_frames (snd (reopen (hearing_cycle []) d)) = []"
    using assms by (auto simp: reopen_def hearing_cycle_def lora_time_ms Let_def word_le_nat_alt)
  have c: "drain (cy_msgs (hearing_cycle [])) d = (d, [])" "cy_write_ok (hearing_cycle [])" "cy_rx (hearing_cycle []) = []"
    by (simp_all add: hearing_cycle_def)
  obtain bs where "LORA_TDM_APP_RunTx (hearing_cycle []) ?d = (next_page (note_sent ?d), [Serial bs])" "byte_at bs 0 = DL2_MAGIC"
    using o c(2) by (simp add: LORA_TDM_APP_RunTx_def BuildDl2Frame_body dl2_body_def dl2_head_def Let_def)
  then show ?thesis
    using o c by (simp add: LORA_TDM_APP_RunCycle_def LORA_TDM_APP_RunRxWindow_def Let_def case_prod_unfold
        next_page_def note_sent_def)
qed

definition demo_route :: ROUTE_UPDATE_TLM where
  "demo_route = \<lparr> ru_Seq = 1, ru_TimestampMs = 0, ru_SourceSequence = 0, ru_RouteType = 1, ru_RouteVersion = 2,
     ru_WaypointCount = 3, ru_Waypoints = map (\<lambda>i. wp_zero\<lparr> wp_LatE7 := of_nat i \<rparr>) [0..<37] \<rparr>"

theorem lora_route_readback_witness:
  "\<exists>d' os. lora_loop [hearing_cycle [], hearing_cycle []]
      (fst (LORA_TDM_APP_ProcessRouteSnapshot demo_route lora_initial)) = (d', os) \<and>
    feed_all (map decode_dl2 (dl2_frames os)) \<lparr> ra_route_type = None, ra_total_pages = None, ra_pages = [] \<rparr> =
      [[(0, 0, 0, 0), (0, 1, 0, 0), (0, 2, 0, 0)]]"
proof -
  let ?d = "fst (LORA_TDM_APP_ProcessRouteSnapshot demo_route lora_initial)" and ?c = "hearing_cycle []"
  have r: "l_UseV2Downlink ?d \<noteq> 0" "l_LastSerialOpenAttemptMs ?d = 0" "l_RunStatus ?d = APP_RUN"
    by (simp_all add: LORA_TDM_APP_ProcessRouteSnapshot_def lora_initial_def Let_def)
  obtain d1 o1 where 1: "LORA_TDM_APP_RunCycle ?c ?d = (d1, o1)" by fastforce
  obtain d2 o2 where 2: "LORA_TDM_APP_RunCycle ?c d1 = (d2, o2)" by fastforce
  have l: "lora_loop [?c, ?c] ?d = (d2, o1 @ o2)" "length (dl2_frames (o1 @ o2)) = 2"
    using sending_cycle[of ?d] sending_cycle[of d1] r 1 2 by (simp_all add: prepend_def)
  have "list_all no_snapshot [?c, ?c]"
    by (simp add: no_snapshot_def hearing_cycle_def)
  moreover have "length (l_RouteWaypoints lora_initial) = 37" "length (ru_Waypoints demo_route) = 37"
      "unat (ru_WaypointCount demo_route) = 3" "ru_WaypointCount demo_route \<noteq> 0"
    by (simp_all add: lora_initial_def demo_route_def)
  moreover have "map wp_fields (take 3 (ru_Waypoints demo_route)) = [(0, 0, 0, 0), (0, 1, 0, 0), (0, 2, 0, 0)]"
    by (simp add: demo_route_def wp_zero_def upt_rec)
  ultimately show ?thesis
    using lora_route_readback[OF _ _ _ _ l(1)] l by simp
qed

end
