(* ===== verification/Lora_Commands.thy ===== *)
theory Lora_Commands
  imports Lora_Readback Config_Receiver State_File
begin

text \<open>
  What reaches lora_tdm_app over the bus: the configuration command and the state file that keeps
  its effect, the verdicts of uplink_app on their way to the ground, and the time message that
  is subscribed but never handled.
\<close>

section \<open>State file\<close>

definition lora_saved :: "LORA_TDM_APP_Data \<Rightarrow> LORA_TDM_APP_PersistentState" where
  "lora_saved d =
     (let s = \<lparr> lps_Magic = LORA_STATE_MAGIC, lps_ConfigVersion = LORA_CONFIG_VERSION,
                lps_UseV2Downlink = l_UseV2Downlink d, lps_Checksum = 0 \<rparr>
      in s\<lparr> lps_Checksum := LORA_TDM_APP_ComputeStateChecksum s \<rparr>)"

definition lora_file :: "LORA_TDM_APP_Data \<Rightarrow> u8 list" where
  "lora_file d = lps_bytes (lora_saved d)"

lemma lora_SaveState_file: "LORA_TDM_APP_SaveState r d = save_file LO_STATE_SAVE_FAIL_EID r (lora_file d)"
  by (simp add: LORA_TDM_APP_SaveState_def lora_file_def lora_saved_def Let_def)

lemma lps_roundtrip: "lps_of_bytes (lps_bytes s) = s" "length (lps_bytes s) = 12"
  by (cases s; simp add: lps_of_bytes_def lps_bytes_def get_u32_append2 byte_at_append2)+

text \<open>The protocol in use, as the flag the code tests.\<close>

definition lora_protocol :: "LORA_TDM_APP_Data \<Rightarrow> bool" where
  "lora_protocol d \<longleftrightarrow> l_UseV2Downlink d \<noteq> 0"

interpretation lora_file: state_file lora_file LORA_TDM_APP_LoadState lora_protocol lora_protocol
proof
  have "LORA_TDM_APP_ComputeStateChecksum (lora_saved d) = lps_Checksum (lora_saved d)" for d
    by (simp add: lora_saved_def LORA_TDM_APP_ComputeStateChecksum_def Let_def)
  moreover have "lps_Magic (lora_saved d) = LORA_STATE_MAGIC" "lps_ConfigVersion (lora_saved d) = LORA_CONFIG_VERSION"
      "lps_UseV2Downlink (lora_saved d) = l_UseV2Downlink d" for d
    by (simp_all add: lora_saved_def Let_def)
  ultimately show "lora_protocol (fst (LORA_TDM_APP_LoadState (Contents (lora_file d)) d0)) = lora_protocol d" for d d0
    by (simp add: LORA_TDM_APP_LoadState_def lora_file_def lps_roundtrip lora_protocol_def Let_def)
  show "LORA_TDM_APP_LoadState No_File d0 = (d0, [])" for d0
    by (simp add: LORA_TDM_APP_LoadState_def)
qed

section \<open>Configuration\<close>

lemma exec_results_save [simp]: "exec_results (save_file e r bs) = []"
  by (simp add: save_file_def)

interpretation lora_receiver: config_receiver "LORA_TDM_APP_ProcessConfigCommand env" LORA_CONFIG_SCOPE
  SOURCE_LORA_TDM l_UseV2Downlink for env
proof
  fix m d
  assume h: "has_config_header m"
  have scope: "cp_ConfigScope (config_hdr (cc_Payload m)) = config_scope m"
    by (simp add: config_hdr_def config_scope_def)
  have long: "\<not> cc_PayloadLength m < 8" using h by (auto simp: has_config_header_def)
  show "config_scope m \<noteq> LORA_CONFIG_SCOPE \<Longrightarrow>
      exec_results (snd (LORA_TDM_APP_ProcessConfigCommand env m d)) = [] \<and>
      l_UseV2Downlink (fst (LORA_TDM_APP_ProcessConfigCommand env m d)) = l_UseV2Downlink d"
    using long by (simp add: LORA_TDM_APP_ProcessConfigCommand_def Let_def scope)
  show "config_scope m = LORA_CONFIG_SCOPE \<Longrightarrow>
      \<exists>r. exec_results (snd (LORA_TDM_APP_ProcessConfigCommand env m d)) = [r] \<and>
        er_SourceSequence r = cc_SourceSequence m \<and> er_SourceApp r = source_val SOURCE_LORA_TDM \<and>
        er_CommandClass r = 1 \<and>
        (er_GenericResult r = EXEC_RESULT_GENERIC_OK \<or>
         l_UseV2Downlink (fst (LORA_TDM_APP_ProcessConfigCommand env m d)) = l_UseV2Downlink d)"
    using long
    by (simp add: LORA_TDM_APP_ProcessConfigCommand_def Let_def scope lora_exec_result_def lora_count_error_def
        LORA_TDM_APP_SaveState_def)
qed

definition lora_config_valid :: "CONFIG_CMD_TLM \<Rightarrow> bool" where
  "lora_config_valid m \<longleftrightarrow>
     (let h = config_hdr (cc_Payload m) in
      cc_PayloadLength m \<ge> 12 \<and> config_scope m = LORA_CONFIG_SCOPE \<and> cp_ConfigVersion h = LORA_CONFIG_VERSION \<and>
      cp_ValueLength h = 4 \<and> cp_Checksum h = LORA_ConfigChecksum h (drop 8 (cc_Payload m)) 4 \<and>
      cp_ParameterId h = PARAM_DOWNLINK_PROTOCOL \<and> get_u32 (cc_Payload m) 8 \<le> 1)"

lemma le_one_u32: "(v :: u32) \<le> 1 \<longleftrightarrow> v = 0 \<or> v = 1"
  by (auto simp: word_le_nat_alt word_unat_eq_iff le_Suc_eq)

lemma lora_config_accept:
  assumes "lora_config_valid m"
  shows "LORA_TDM_APP_ProcessConfigCommand env m d =
    (let d' = d\<lparr> l_UseV2Downlink := (if get_u32 (cc_Payload m) 8 = 1 then 1 else 0), l_CmdCounter := l_CmdCounter d + 1 \<rparr>
     in (d', LORA_TDM_APP_SaveState (lo_save env) d' @ [Event LO_SET_DL_PROTO_INF_EID INFORMATION] @
             lora_exec_result (cc_SourceSequence m) 1 True))"
proof -
  define v where "v = get_u32 (cc_Payload m) 8"
  define h where "h = config_hdr (cc_Payload m)"
  have h: "cc_PayloadLength m \<ge> 12" "cp_ConfigScope h = 3" "cp_ConfigVersion h = 1" "cp_ValueLength h = 4"
    "cp_Checksum h = LORA_ConfigChecksum h (drop 8 (cc_Payload m)) 4" "cp_ParameterId h = 0" "v = 0 \<or> v = 1"
  proof -
    have "config_scope m = cp_ConfigScope h" by (simp add: h_def config_hdr_def config_scope_def)
    then show "cc_PayloadLength m \<ge> 12" "cp_ConfigScope h = 3" "cp_ConfigVersion h = 1" "cp_ValueLength h = 4"
        "cp_Checksum h = LORA_ConfigChecksum h (drop 8 (cc_Payload m)) 4" "cp_ParameterId h = 0" "v = 0 \<or> v = 1"
      using assms unfolding lora_config_valid_def Let_def h_def[symmetric] v_def[symmetric] le_one_u32
      by simp_all
  qed
  have len: "\<not> cc_PayloadLength m < 8" "\<not> (12 :: u8) > cc_PayloadLength m"
    using h(1) by (auto simp: word_less_nat_alt word_le_nat_alt)
  show ?thesis
    unfolding LORA_TDM_APP_ProcessConfigCommand_def Let_def h_def[symmetric] v_def[symmetric]
    by (rule disjE[OF h(7)]) (simp_all add: len h(2-6))
qed

lemma lora_config_refuse:
  fixes env :: lora_env and m :: CONFIG_CMD_TLM and d :: LORA_TDM_APP_Data
  assumes "\<not> lora_config_valid m"
  defines "r \<equiv> LORA_TDM_APP_ProcessConfigCommand env m d"
  shows "l_UseV2Downlink (fst r) = l_UseV2Downlink d \<and> disk_after f (snd r) = f \<and>
     sent (snd r) = (if has_config_header m \<and> config_scope m = LORA_CONFIG_SCOPE
       then sent (lora_exec_result (cc_SourceSequence m) 1 False) else [])"
proof -
  define v where "v = get_u32 (cc_Payload m) 8"
  define h where "h = config_hdr (cc_Payload m)"
  have scope: "config_scope m = cp_ConfigScope h" by (simp add: h_def config_hdr_def config_scope_def)
  have header: "has_config_header m \<longleftrightarrow> \<not> cc_PayloadLength m < 8" by (auto simp: has_config_header_def)
  have not_ok: "cp_ConfigScope h \<noteq> 3 \<or> cp_ConfigVersion h \<noteq> 1 \<or> cp_ValueLength h \<noteq> 4 \<or>
     12 > cc_PayloadLength m \<or> cp_Checksum h \<noteq> LORA_ConfigChecksum h (drop 8 (cc_Payload m)) 4 \<or>
     cp_ParameterId h \<noteq> 0 \<or> (v \<noteq> 0 \<and> v \<noteq> 1)"
    using assms(1) by (auto simp: lora_config_valid_def Let_def h_def v_def config_scope_def config_hdr_def le_one_u32)
  show ?thesis
    unfolding r_def LORA_TDM_APP_ProcessConfigCommand_def Let_def h_def[symmetric] v_def[symmetric] scope header
    using not_ok by (auto simp: lora_count_error_def lora_exec_result_def)
qed

text \<open>A command to change the downlink protocol is applied all or nothing, and durably.  A
  valid command (scope, version, length, checksum, parameter 0, value 0 or 1) selects the protocol
  it names, is answered OK, and when its save succeeds an application restarted from the disk has
  that protocol, whatever its defaults.  Any other command leaves protocol and disk alone and is
  answered FAILED when it has a header with this application's scope, and not at all otherwise.\<close>

lemma lora_config_exact:
  "if lora_config_valid m
   then lora_protocol (fst (LORA_TDM_APP_ProcessConfigCommand env m d)) = (get_u32 (cc_Payload m) 8 = 1) \<and>
     sent (snd (LORA_TDM_APP_ProcessConfigCommand env m d)) = sent (lora_exec_result (cc_SourceSequence m) 1 True) \<and>
     (if lo_save env = Save_Ok
      then lora_protocol (fst (LORA_TDM_APP_LoadState
             (read_disk (disk_after f (snd (LORA_TDM_APP_ProcessConfigCommand env m d)))) d0)) =
           (get_u32 (cc_Payload m) 8 = 1)
      else disk_after f (snd (LORA_TDM_APP_ProcessConfigCommand env m d)) = f)
   else l_UseV2Downlink (fst (LORA_TDM_APP_ProcessConfigCommand env m d)) = l_UseV2Downlink d \<and>
     disk_after f (snd (LORA_TDM_APP_ProcessConfigCommand env m d)) = f \<and>
     sent (snd (LORA_TDM_APP_ProcessConfigCommand env m d)) =
       (if has_config_header m \<and> config_scope m = LORA_CONFIG_SCOPE
        then sent (lora_exec_result (cc_SourceSequence m) 1 False) else [])"
proof (cases "lora_config_valid m")
  case True
  define d' where "d' = fst (LORA_TDM_APP_ProcessConfigCommand env m d)"
  have d': "lora_protocol d' = (get_u32 (cc_Payload m) 8 = 1)"
    by (simp add: d'_def lora_config_accept[OF True] Let_def lora_protocol_def)
  have o: "snd (LORA_TDM_APP_ProcessConfigCommand env m d) =
      save_file LO_STATE_SAVE_FAIL_EID (lo_save env) (lora_file d') @ [Event LO_SET_DL_PROTO_INF_EID INFORMATION] @
      lora_exec_result (cc_SourceSequence m) 1 True"
    by (simp add: d'_def lora_config_accept[OF True] Let_def lora_SaveState_file)
  then show ?thesis
    using True d' lora_file.load_enc[of d' d0]
    by (simp add: d'_def[symmetric] lora_exec_result_def read_disk_def save_file_def)
next
  case False
  then show ?thesis using lora_config_refuse[OF False, of env d f] by simp
qed

section \<open>The verdict of uplink_app\<close>

definition verdict_code :: "UPLINK_APP_Result \<Rightarrow> u8 option" where
  "verdict_code r =
     (case r of
        RESULT_ROUTED \<Rightarrow> Some 14 | REJECT_SEQUENCE \<Rightarrow> Some 2 | REJECT_STATE \<Rightarrow> Some 3 | RESULT_FAILED \<Rightarrow> Some 4
      | REJECT_VERSION \<Rightarrow> Some 5 | REJECT_CLASS \<Rightarrow> Some 6 | REJECT_LENGTH \<Rightarrow> Some 7 | ROUTE_MISS \<Rightarrow> Some 8
      | REJECT_ROUTE \<Rightarrow> Some 9 | REJECT_CHECKSUM \<Rightarrow> Some 10 | REJECT_VIEWPOINT \<Rightarrow> Some 11 | REJECT_COUNTER \<Rightarrow> Some 12
      | REJECT_FLIGHT_MODE \<Rightarrow> Some 13 | _ \<Rightarrow> None)"

lemma verdict_feedback: "uplink_feedback (result_val r) = verdict_code r"
  by (cases r) (simp_all add: uplink_feedback_def verdict_code_def)

text \<open>Every command gets a verdict.\<close>

definition judged :: "UPLINK_APP_Data \<times> out list \<Rightarrow> bool" where
  "judged r \<longleftrightarrow> (\<exists>v. u_LastCommandResult (fst r) = result_val v)"

lemma judged_prepend [simp]: "judged (prepend os r) = judged r"
  by (simp add: judged_def)

lemma judged_status: "u_LastCommandResult d = result_val v \<Longrightarrow> judged (UPLINK_APP_UpdateStatusTelemetry t n d)"
  by (auto simp: judged_def UPLINK_APP_UpdateStatusTelemetry_def Let_def)

lemma judged_blocks:
  "judged (reject_command env d r e)" "judged (routing_failure env d r t)" "judged (commit_routed env d c t)"
  by (auto simp: reject_command_def routing_failure_def commit_routed_def Let_def simp del: result_val.simps intro!: judged_status)

lemma judged_after_forward: "judged (after_forward env c t r)"
  by (auto simp: after_forward_def case_prod_unfold Let_def intro!: judged_blocks)

lemma judged_counter_mgmt: "judged (counter_mgmt_command env d c t)"
  by (auto simp: counter_mgmt_command_def case_prod_unfold Let_def simp del: result_val.simps
      intro!: judged_blocks judged_status)

lemma judged_gated: "judged (gated_command env d c)"
  by (auto simp: gated_command_def dispatch_class_def Let_def case_prod_unfold split: option.splits
      intro!: judged_blocks judged_after_forward judged_counter_mgmt)

lemma judged_ProcessUplink: "judged (UPLINK_APP_ProcessUplink env c d)"
  by (auto simp: UPLINK_APP_ProcessUplink_def Let_def simp del: result_val.simps
      split: UPLINK_APP_SeqCheck.splits sum.splits intro!: judged_blocks judged_gated judged_status)

lemma downlinked_status:
  "dl_ufb (downlinked nan (lora_uplink_status t l)) =
     (case uplink_feedback (us_LastCommandResult t) of None \<Rightarrow> l_PendingUplinkFeedback l | Some k \<Rightarrow> k)"
  "dl_uplink_last_seq (downlinked nan (lora_uplink_status t l)) = us_LastAcceptedSequence t"
  by (simp_all add: downlinked_def lora_uplink_status_def Let_def split: option.split)


text \<open>The code of success does not last: the ground sends every command in several slots, and
  the next copy of an accepted command clears the code when it is forwarded, while its verdict,
  DUPLICATE, does not set it again.\<close>

lemma applied_code_lost:
  assumes "LORA_TDM_APP_ParseUp2Frame b = Some u" "byte_at b 0 = UP2_MAGIC"
    and "us_LastCommandResult t = result_val RESULT_DUPLICATE"
  shows "l_PendingUplinkFeedback (lora_uplink_status t (fst (LORA_TDM_APP_ProcessRxBinaryFrame now b l))) = UPLINK_FB_OK"
  using assms by (simp add: LORA_TDM_APP_ProcessRxBinaryFrame_def ForwardUp2ToUplinkApp_def forward_command_def
      lora_uplink_status_def uplink_feedback_def)

section \<open>The time message\<close>

text \<open>The dispatcher has no case for the time message it subscribes to: it counts every one as an
  error and the time block is never sent.\<close>

lemma sys_time_refused:
  "LORA_TDM_APP_ProcessCommandPacket env (FcSysTime m) d = (lora_count_error d, [Event LO_MID_ERR_EID ERROR])"
  by (simp add: LORA_TDM_APP_ProcessCommandPacket_def)

end
