(* ===== verification/Steps.thy ===== *)
theory Steps
  imports Uplink
begin

text \<open>
  Operations composed one after the other: a C function that is a sequence of calls and
  assignments is a list of steps, each taking the state to a new state and to what it leaves
  behind.  A relation between state, new state and outputs that is reflexive and composes
  (\<^verbatim>\<open>step_rel\<close>) holds for a sequence when it holds for its steps; an invariant is the special
  case \<^verbatim>\<open>keeps\<close>.
\<close>

definition update :: "('d \<Rightarrow> 'd) \<Rightarrow> 'd \<Rightarrow> 'd \<times> out list" where
  "update f d = (f d, [])"

definition emit :: "out list \<Rightarrow> 'd \<Rightarrow> 'd \<times> out list" where
  "emit os d = (d, os)"

fun steps :: "('d \<Rightarrow> 'd \<times> out list) list \<Rightarrow> 'd \<Rightarrow> 'd \<times> out list" where
  "steps [] d = (d, [])"
| "steps (f # fs) d = (let (d, os) = f d in prepend os (steps fs d))"

lemma prepend_simps2 [simp]:
  "fst (prepend os r) = fst r" "snd (prepend os r) = os @ snd r"
  by (cases r; simp add: prepend_def)+

lemma steps_Cons: "steps (f # fs) d = prepend (snd (f d)) (steps fs (fst (f d)))"
  by (simp add: case_prod_unfold Let_def)

declare steps.simps(2) [simp del] and steps_Cons [simp]

lemma steps_append: "steps (fs @ gs) d = prepend (snd (steps fs d)) (steps gs (fst (steps fs d)))"
proof (induction fs arbitrary: d)
  case Nil show ?case by (cases "steps gs d") (simp add: prepend_def)
next
  case (Cons f fs)
  show ?case by (simp add: Cons.IH) (simp add: prepend_def case_prod_unfold)
qed

text \<open>Relations that compose along a run.\<close>

locale step_rel =
  fixes rel :: "'d \<Rightarrow> 'd \<Rightarrow> out list \<Rightarrow> bool"
  assumes refl: "rel d d []"
    and trans: "rel d d' os \<Longrightarrow> rel d' d'' os' \<Longrightarrow> rel d d'' (os @ os')"
begin

definition step :: "('d \<Rightarrow> 'd \<times> out list) \<Rightarrow> bool" where
  "step f \<longleftrightarrow> (\<forall>d. rel d (fst (f d)) (snd (f d)))"

lemma stepI: "(\<And>d. rel d (fst (f d)) (snd (f d))) \<Longrightarrow> step f"
  by (simp add: step_def)

lemma stepD: "step f \<Longrightarrow> rel d (fst (f d)) (snd (f d))"
  by (simp add: step_def)

lemma steps: "list_all step fs \<Longrightarrow> step (steps fs)"
proof (rule stepI)
  fix d assume "list_all step fs"
  then show "rel d (fst (steps fs d)) (snd (steps fs d))"
  proof (induction fs arbitrary: d)
    case Nil show ?case by (simp add: refl)
  next
    case (Cons f fs)
    then have f: "rel d (fst (f d)) (snd (f d))" by (simp add: stepD)
    from Cons have "rel (fst (f d)) (fst (steps fs (fst (f d)))) (snd (steps fs (fst (f d))))" by simp
    from trans[OF f this] show ?case by simp
  qed
qed

lemma step_emit: "(\<And>d. rel d d os) \<Longrightarrow> step (emit os)"
  by (simp add: step_def emit_def)

lemma step_if: "step f \<Longrightarrow> step g \<Longrightarrow> step (\<lambda>d. if c d then f d else g d)"
  by (simp add: step_def)

end

text \<open>Invariants.\<close>

definition keeps :: "('d \<Rightarrow> bool) \<Rightarrow> ('d \<Rightarrow> 'd \<times> out list) \<Rightarrow> bool" where
  "keeps P f \<longleftrightarrow> (\<forall>d. P d \<longrightarrow> P (fst (f d)))"

lemma keepsI: "(\<And>d. P d \<Longrightarrow> P (fst (f d))) \<Longrightarrow> keeps P f"
  by (simp add: keeps_def)

lemma keepsD: "keeps P f \<Longrightarrow> P d \<Longrightarrow> P (fst (f d))"
  by (simp add: keeps_def)

lemma keeps_steps: "list_all (keeps P) fs \<Longrightarrow> keeps P (steps fs)"
proof (rule keepsI)
  fix d assume "list_all (keeps P) fs" "P d"
  then show "P (fst (steps fs d))"
    by (induction fs arbitrary: d) (simp_all add: keepsD)
qed

lemma keeps_emit [simp]: "keeps P (emit os)"
  by (simp add: keeps_def emit_def)

lemma keeps_update: "(\<And>d. P d \<Longrightarrow> P (f d)) \<Longrightarrow> keeps P (update f)"
  by (simp add: keeps_def update_def)

end
