(* ===== verification/Float_Arith.thy ===== *)
theory Float_Arith
  imports Float32
begin

text \<open>
  The float arithmetic of mavlink_bridge_app: conversions from integers and divisions by a
  constant, in IEEE 754 single precision with round-to-nearest-even.  The result of an
  operation is the rounding of the exact quotient of two integers.
\<close>

function bit_length :: "int \<Rightarrow> nat" where
  "bit_length n = (if n \<le> 0 then 0 else Suc (bit_length (n div 2)))"
  by pat_completeness auto
termination by (relation "measure nat") auto

declare bit_length.simps [simp del]

definition quotient_half_even :: "int \<Rightarrow> int \<Rightarrow> int" where
  "quotient_half_even n d =
     (let q = n div d; r = n mod d in
      if 2 * r > d \<or> 2 * r = d \<and> odd q then q + 1 else q)"

text \<open>The pattern of |n| / d: the quotient is scaled to multiples of 2^-149 and rounded to 24
  significant bits; a carry out of the significand moves into the exponent by itself.  Results
  beyond the largest float do not occur in the program.\<close>

definition f32_magnitude :: "int \<Rightarrow> int \<Rightarrow> int" where
  "f32_magnitude n d =
     (let e = bit_length (n * 2 ^ 149 div d) - 24
      in int e * 2 ^ 23 + quotient_half_even (n * 2 ^ 149) (d * 2 ^ e))"

definition f32_of_ratio :: "int \<Rightarrow> int \<Rightarrow> f32" where
  "f32_of_ratio n d =
     of_int (f32_magnitude \<bar>n\<bar> d) OR (if n < 0 then 0x80000000 else 0)"

text \<open>\<^verbatim>\<open>(float)n\<close>, \<^verbatim>\<open>w / c\<close> for an integral float constant, and \<^verbatim>\<open>-w\<close>.\<close>

definition f32_of_int :: "int \<Rightarrow> f32" where
  "f32_of_int n = f32_of_ratio n 1"

definition f32_div_const :: "f32 \<Rightarrow> int \<Rightarrow> f32" where
  "f32_div_const w c = f32_of_ratio (f32_scaled w) (c * 2 ^ 149)"

definition f32_neg :: "f32 \<Rightarrow> f32" where
  "f32_neg w = w XOR 0x80000000"

lemmas f32_arith_defs = f32_of_int_def f32_div_const_def f32_neg_def f32_of_ratio_def
  f32_magnitude_def quotient_half_even_def Let_def

end
