(* ===== verification/Bridge_Types.thy ===== *)
theory Bridge_Types
  imports Steps Float_Arith Serial_Baud
begin

text \<open>
  mavlink_bridge_app: its constants and enumerations (the head of
  \<^verbatim>\<open>fsw/src/mavlink_bridge_app_utils.c\<close> and \<^verbatim>\<open>config/default_mavlink_bridge_app_*.h\<close>),
  its global state \<^verbatim>\<open>MAVLINK_BRIDGE_APP_Data\<close> (\<^verbatim>\<open>fsw/src/mavlink_bridge_app.h\<close>) with
  the two static variables of the utilities (the frame parser and the transmit sequence), and
  the answers of the platform: clock readings, results of open, read, write and of saving the
  state file.  The eight parallel arrays of a mission are one list of waypoints, because the
  code always copies all eight entries together.
\<close>

section \<open>Enumerations\<close>

datatype MAVLINK_BRIDGE_APP_LinkState = BRIDGE_DISCONNECTED | BRIDGE_DEGRADED | BRIDGE_CONNECTED

fun bridge_link_val :: "MAVLINK_BRIDGE_APP_LinkState \<Rightarrow> u8" where
  "bridge_link_val BRIDGE_DISCONNECTED = 0"
| "bridge_link_val BRIDGE_DEGRADED = 1"
| "bridge_link_val BRIDGE_CONNECTED = 2"

datatype MAVLINK_BRIDGE_APP_MissionUploadState = UPLOAD_IDLE | UPLOAD_CLEARING | UPLOAD_ACTIVE

datatype MAVLINK_BRIDGE_APP_MissionDownloadState = DOWNLOAD_IDLE | DOWNLOAD_WAIT_COUNT | DOWNLOAD_WAIT_ITEM

datatype MAVLINK_BRIDGE_APP_ParseState =
    PARSE_WAIT_STX | PARSE_GOT_LENGTH | PARSE_GOT_INCOMPAT | PARSE_GOT_COMPAT | PARSE_GOT_SEQ
  | PARSE_GOT_SYSID | PARSE_GOT_COMPID | PARSE_GOT_MSGID1 | PARSE_GOT_MSGID2 | PARSE_GOT_MSGID3
  | PARSE_READING_PAYLOAD | PARSE_GOT_CRC1 | PARSE_GOT_CRC2

datatype MAVLINK_BRIDGE_APP_ConfigResult =
    BRIDGE_OK | BRIDGE_BAD_VERSION | BRIDGE_BAD_PARAM | BRIDGE_BAD_VALUE | BRIDGE_BAD_LENGTH
  | BRIDGE_BAD_CHECKSUM

fun bridge_result_val :: "MAVLINK_BRIDGE_APP_ConfigResult \<Rightarrow> u8" where
  "bridge_result_val BRIDGE_OK = 0"
| "bridge_result_val BRIDGE_BAD_VERSION = 2"
| "bridge_result_val BRIDGE_BAD_PARAM = 3"
| "bridge_result_val BRIDGE_BAD_VALUE = 4"
| "bridge_result_val BRIDGE_BAD_LENGTH = 5"
| "bridge_result_val BRIDGE_BAD_CHECKSUM = 6"

datatype MAVLINK_BRIDGE_APP_ConfigPendingState =
  BRIDGE_CONFIG_IDLE | BRIDGE_CONFIG_PENDING | BRIDGE_CONFIG_REJECTED

section \<open>Constants\<close>

abbreviation (input) BRIDGE_ERROR_NONE :: u8 where "BRIDGE_ERROR_NONE \<equiv> 0"
abbreviation (input) BRIDGE_ERROR_LINK_DOWN :: u8 where "BRIDGE_ERROR_LINK_DOWN \<equiv> 1"
abbreviation (input) BRIDGE_ERROR_READ_TIMEOUT :: u8 where "BRIDGE_ERROR_READ_TIMEOUT \<equiv> 2"
abbreviation (input) BRIDGE_ERROR_SERIAL_OPEN_FAIL :: u8 where "BRIDGE_ERROR_SERIAL_OPEN_FAIL \<equiv> 3"
abbreviation (input) BRIDGE_ERROR_PARSE_FAIL :: u8 where "BRIDGE_ERROR_PARSE_FAIL \<equiv> 4"
abbreviation (input) BRIDGE_ERROR_EKF_UNHEALTHY :: u8 where "BRIDGE_ERROR_EKF_UNHEALTHY \<equiv> 7"
abbreviation (input) BRIDGE_ERROR_GPS_NO_FIX :: u8 where "BRIDGE_ERROR_GPS_NO_FIX \<equiv> 8"
abbreviation (input) BRIDGE_ERROR_INVALID_VALUE :: u8 where "BRIDGE_ERROR_INVALID_VALUE \<equiv> 9"

abbreviation (input) UPLOAD_RESULT_SUCCESS :: u8 where "UPLOAD_RESULT_SUCCESS \<equiv> 1"
abbreviation (input) UPLOAD_RESULT_TIMEOUT :: u8 where "UPLOAD_RESULT_TIMEOUT \<equiv> 2"
abbreviation (input) UPLOAD_RESULT_NAK :: u8 where "UPLOAD_RESULT_NAK \<equiv> 3"

abbreviation (input) MAVLINK_STX_V1 :: u8 where "MAVLINK_STX_V1 \<equiv> 0xFE"
abbreviation (input) MAVLINK_STX_V2 :: u8 where "MAVLINK_STX_V2 \<equiv> 0xFD"
abbreviation (input) MAVLINK_MAX_FRAME_LEN :: nat where "MAVLINK_MAX_FRAME_LEN \<equiv> 64"
abbreviation (input) MAVLINK_MAX_PAYLOAD_LEN :: nat where "MAVLINK_MAX_PAYLOAD_LEN \<equiv> 255"
abbreviation (input) MAVLINK_SYSTEM_ID :: u8 where "MAVLINK_SYSTEM_ID \<equiv> 255"
abbreviation (input) MAVLINK_COMPONENT_ID :: u8 where "MAVLINK_COMPONENT_ID \<equiv> 190"

text \<open>Message ids, the seed byte each id adds to the checksum, payload lengths.\<close>

abbreviation (input) MSG_ID_HEARTBEAT :: u32 where "MSG_ID_HEARTBEAT \<equiv> 0"
abbreviation (input) MSG_ID_SYS_TIME :: u32 where "MSG_ID_SYS_TIME \<equiv> 2"
abbreviation (input) MSG_ID_GPS_RAW_INT :: u32 where "MSG_ID_GPS_RAW_INT \<equiv> 24"
abbreviation (input) MSG_ID_ATTITUDE :: u32 where "MSG_ID_ATTITUDE \<equiv> 30"
abbreviation (input) MSG_ID_LOCAL_POSITION_NED :: u32 where "MSG_ID_LOCAL_POSITION_NED \<equiv> 32"
abbreviation (input) MSG_ID_GLOBAL_POSITION_INT :: u32 where "MSG_ID_GLOBAL_POSITION_INT \<equiv> 33"
abbreviation (input) MSG_ID_MISSION_REQUEST :: u32 where "MSG_ID_MISSION_REQUEST \<equiv> 40"
abbreviation (input) MSG_ID_MISSION_ITEM :: u32 where "MSG_ID_MISSION_ITEM \<equiv> 39"
abbreviation (input) MSG_ID_MISSION_SET_CURRENT :: u32 where "MSG_ID_MISSION_SET_CURRENT \<equiv> 41"
abbreviation (input) MSG_ID_MISSION_CURRENT :: u32 where "MSG_ID_MISSION_CURRENT \<equiv> 42"
abbreviation (input) MSG_ID_MISSION_REQUEST_LIST :: u32 where "MSG_ID_MISSION_REQUEST_LIST \<equiv> 43"
abbreviation (input) MSG_ID_MISSION_COUNT :: u32 where "MSG_ID_MISSION_COUNT \<equiv> 44"
abbreviation (input) MSG_ID_MISSION_CLEAR_ALL :: u32 where "MSG_ID_MISSION_CLEAR_ALL \<equiv> 45"
abbreviation (input) MSG_ID_MISSION_ACK :: u32 where "MSG_ID_MISSION_ACK \<equiv> 47"
abbreviation (input) MSG_ID_MISSION_REQUEST_INT :: u32 where "MSG_ID_MISSION_REQUEST_INT \<equiv> 51"
abbreviation (input) MSG_ID_MISSION_ITEM_INT :: u32 where "MSG_ID_MISSION_ITEM_INT \<equiv> 73"
abbreviation (input) MSG_ID_COMMAND_LONG :: u32 where "MSG_ID_COMMAND_LONG \<equiv> 76"
abbreviation (input) MSG_ID_COMMAND_ACK :: u32 where "MSG_ID_COMMAND_ACK \<equiv> 77"
abbreviation (input) MSG_ID_EKF_STATUS_REPORT :: u32 where "MSG_ID_EKF_STATUS_REPORT \<equiv> 193"

abbreviation (input) HEARTBEAT_CRC_EXTRA :: u8 where "HEARTBEAT_CRC_EXTRA \<equiv> 50"
abbreviation (input) SYS_TIME_CRC_EXTRA :: u8 where "SYS_TIME_CRC_EXTRA \<equiv> 137"
abbreviation (input) GPS_RAW_INT_CRC_EXTRA :: u8 where "GPS_RAW_INT_CRC_EXTRA \<equiv> 24"
abbreviation (input) ATTITUDE_CRC_EXTRA :: u8 where "ATTITUDE_CRC_EXTRA \<equiv> 39"
abbreviation (input) LOCAL_POSITION_NED_CRC_EXTRA :: u8 where "LOCAL_POSITION_NED_CRC_EXTRA \<equiv> 185"
abbreviation (input) GLOBAL_POSITION_INT_CRC_EXTRA :: u8 where "GLOBAL_POSITION_INT_CRC_EXTRA \<equiv> 104"
abbreviation (input) EKF_STATUS_CRC_EXTRA :: u8 where "EKF_STATUS_CRC_EXTRA \<equiv> 71"
abbreviation (input) COMMAND_LONG_CRC_EXTRA :: u8 where "COMMAND_LONG_CRC_EXTRA \<equiv> 152"
abbreviation (input) COMMAND_ACK_CRC_EXTRA :: u8 where "COMMAND_ACK_CRC_EXTRA \<equiv> 143"
abbreviation (input) MISSION_COUNT_CRC_EXTRA :: u8 where "MISSION_COUNT_CRC_EXTRA \<equiv> 221"
abbreviation (input) MISSION_REQUEST_INT_CRC_EXTRA :: u8 where "MISSION_REQUEST_INT_CRC_EXTRA \<equiv> 196"
abbreviation (input) MISSION_REQUEST_CRC_EXTRA :: u8 where "MISSION_REQUEST_CRC_EXTRA \<equiv> 230"
abbreviation (input) MISSION_ITEM_INT_CRC_EXTRA :: u8 where "MISSION_ITEM_INT_CRC_EXTRA \<equiv> 38"
abbreviation (input) MISSION_ITEM_CRC_EXTRA :: u8 where "MISSION_ITEM_CRC_EXTRA \<equiv> 254"
abbreviation (input) MISSION_ACK_CRC_EXTRA :: u8 where "MISSION_ACK_CRC_EXTRA \<equiv> 153"
abbreviation (input) MISSION_CLEAR_ALL_CRC_EXTRA :: u8 where "MISSION_CLEAR_ALL_CRC_EXTRA \<equiv> 232"
abbreviation (input) MISSION_REQUEST_LIST_CRC_EXTRA :: u8 where "MISSION_REQUEST_LIST_CRC_EXTRA \<equiv> 132"
abbreviation (input) MISSION_SET_CURRENT_CRC_EXTRA :: u8 where "MISSION_SET_CURRENT_CRC_EXTRA \<equiv> 28"
abbreviation (input) MISSION_CURRENT_CRC_EXTRA :: u8 where "MISSION_CURRENT_CRC_EXTRA \<equiv> 28"

abbreviation (input) HEARTBEAT_LEN :: nat where "HEARTBEAT_LEN \<equiv> 9"
abbreviation (input) GPS_RAW_INT_PAYLOAD_LEN :: nat where "GPS_RAW_INT_PAYLOAD_LEN \<equiv> 30"
abbreviation (input) LOCAL_POSITION_NED_PAYLOAD_LEN :: nat where "LOCAL_POSITION_NED_PAYLOAD_LEN \<equiv> 28"
abbreviation (input) GLOBAL_POSITION_INT_PAYLOAD_LEN :: nat where "GLOBAL_POSITION_INT_PAYLOAD_LEN \<equiv> 28"
abbreviation (input) ATTITUDE_PAYLOAD_LEN :: nat where "ATTITUDE_PAYLOAD_LEN \<equiv> 28"
abbreviation (input) EKF_STATUS_MIN_PAYLOAD_LEN :: nat where "EKF_STATUS_MIN_PAYLOAD_LEN \<equiv> 21"
abbreviation (input) SYS_TIME_PAYLOAD_LEN :: nat where "SYS_TIME_PAYLOAD_LEN \<equiv> 12"

abbreviation (input) MAV_CMD_SET_MESSAGE_INTERVAL :: u16 where "MAV_CMD_SET_MESSAGE_INTERVAL \<equiv> 511"
abbreviation (input) MAV_CMD_DO_SET_MODE :: u16 where "MAV_CMD_DO_SET_MODE \<equiv> 176"
abbreviation (input) MAV_RESULT_ACCEPTED :: u8 where "MAV_RESULT_ACCEPTED \<equiv> 0"
abbreviation (input) MISSION_ACCEPTED :: u8 where "MISSION_ACCEPTED \<equiv> 0"
abbreviation (input) MISSION_TYPE_MISSION :: u8 where "MISSION_TYPE_MISSION \<equiv> 0"
abbreviation (input) MAV_FRAME_GLOBAL_RELATIVE_ALT :: u8 where "MAV_FRAME_GLOBAL_RELATIVE_ALT \<equiv> 3"
abbreviation (input) MAV_TYPE_ONBOARD_CONTROLLER :: u8 where "MAV_TYPE_ONBOARD_CONTROLLER \<equiv> 18"
abbreviation (input) MAV_AUTOPILOT_INVALID :: u8 where "MAV_AUTOPILOT_INVALID \<equiv> 8"
abbreviation (input) F32_1 :: f32 where "F32_1 \<equiv> 0x3F800000"
abbreviation (input) PX4_MAIN_MODE_AUTO :: int where "PX4_MAIN_MODE_AUTO \<equiv> 4"
abbreviation (input) PX4_SUB_MODE_AUTO_LOITER :: int where "PX4_SUB_MODE_AUTO_LOITER \<equiv> 3"
abbreviation (input) PX4_SUB_MODE_AUTO_MISSION :: int where "PX4_SUB_MODE_AUTO_MISSION \<equiv> 4"
abbreviation (input) PX4_SUB_MODE_AUTO_LAND :: int where "PX4_SUB_MODE_AUTO_LAND \<equiv> 6"

abbreviation (input) MISSION_UPLOAD_TIMEOUT_MS :: u32 where "MISSION_UPLOAD_TIMEOUT_MS \<equiv> 2000"
abbreviation (input) MISSION_CLEAR_DELAY_MS :: u32 where "MISSION_CLEAR_DELAY_MS \<equiv> 300"
abbreviation (input) MISSION_MAX_RETRIES :: u8 where "MISSION_MAX_RETRIES \<equiv> 3"
abbreviation (input) MISSION_DOWNLOAD_TIMEOUT_MS :: u32 where "MISSION_DOWNLOAD_TIMEOUT_MS \<equiv> 3000"
abbreviation (input) READBACK_BACKOFF_INITIAL_MS :: u32 where "READBACK_BACKOFF_INITIAL_MS \<equiv> 1000"
abbreviation (input) READBACK_BACKOFF_CAP_MS :: u32 where "READBACK_BACKOFF_CAP_MS \<equiv> 5000"
abbreviation (input) STALE_TIMEOUT_MS :: u32 where "STALE_TIMEOUT_MS \<equiv> 1000"
abbreviation (input) STREAM_REQUEST_RETRY_MS :: u32 where "STREAM_REQUEST_RETRY_MS \<equiv> 2000"
abbreviation (input) TARGET_DISCOVERY_TIMEOUT_MS :: u32 where "TARGET_DISCOVERY_TIMEOUT_MS \<equiv> 10000"
abbreviation (input) SYS_TIME_INTERVAL_US :: u32 where "SYS_TIME_INTERVAL_US \<equiv> 1000000"
abbreviation (input) MAX_READS_PER_SERVICE :: nat where "MAX_READS_PER_SERVICE \<equiv> 32"
abbreviation (input) BRIDGE_CONFIG_SCOPE :: u8 where "BRIDGE_CONFIG_SCOPE \<equiv> 2"
abbreviation (input) BRIDGE_CONFIG_VERSION :: u8 where "BRIDGE_CONFIG_VERSION \<equiv> 1"
abbreviation (input) PARAM_INTERVAL_MIN_US :: u32 where "PARAM_INTERVAL_MIN_US \<equiv> 10000"
abbreviation (input) PARAM_INTERVAL_MAX_US :: u32 where "PARAM_INTERVAL_MAX_US \<equiv> 10000000"
abbreviation (input) PARAM_MS_MIN :: u32 where "PARAM_MS_MIN \<equiv> 100"
abbreviation (input) PARAM_MS_MAX :: u32 where "PARAM_MS_MAX \<equiv> 60000"
abbreviation (input) BRIDGE_STATE_MAGIC :: u32 where "BRIDGE_STATE_MAGIC \<equiv> 0x3AB51DE0"
abbreviation (input) BRIDGE_SEND_HK_MID :: u16 where "BRIDGE_SEND_HK_MID \<equiv> 0x18A1"
abbreviation (input) BRIDGE_NOOP_CC :: u8 where "BRIDGE_NOOP_CC \<equiv> 0"
abbreviation (input) BRIDGE_RESET_COUNTERS_CC :: u8 where "BRIDGE_RESET_COUNTERS_CC \<equiv> 1"
abbreviation (input) MISSION_QUERY_CC :: u8 where "MISSION_QUERY_CC \<equiv> 2"
abbreviation (input) PARSER_RESET_CC :: u8 where "PARSER_RESET_CC \<equiv> 3"
abbreviation (input) SERIAL_RECONNECT_CC :: u8 where "SERIAL_RECONNECT_CC \<equiv> 4"

abbreviation (input) BR_STARTUP_EID :: nat where "BR_STARTUP_EID \<equiv> 1"
abbreviation (input) BR_COMMAND_ERR_EID :: nat where "BR_COMMAND_ERR_EID \<equiv> 2"
abbreviation (input) BR_NOOP_EID :: nat where "BR_NOOP_EID \<equiv> 3"
abbreviation (input) BR_RESET_EID :: nat where "BR_RESET_EID \<equiv> 4"
abbreviation (input) BR_LINK_EID :: nat where "BR_LINK_EID \<equiv> 5"
abbreviation (input) BR_PARSE_EID :: nat where "BR_PARSE_EID \<equiv> 6"
abbreviation (input) BR_STREAM_EID :: nat where "BR_STREAM_EID \<equiv> 7"
abbreviation (input) BR_MISSION_UPLOAD_INF_EID :: nat where "BR_MISSION_UPLOAD_INF_EID \<equiv> 8"
abbreviation (input) BR_MISSION_UPLOAD_ERR_EID :: nat where "BR_MISSION_UPLOAD_ERR_EID \<equiv> 9"
abbreviation (input) BR_MISSION_DOWNLOAD_INF_EID :: nat where "BR_MISSION_DOWNLOAD_INF_EID \<equiv> 10"
abbreviation (input) BR_MISSION_DOWNLOAD_ERR_EID :: nat where "BR_MISSION_DOWNLOAD_ERR_EID \<equiv> 11"
abbreviation (input) BR_NONFINITE_VALUE_ERR_EID :: nat where "BR_NONFINITE_VALUE_ERR_EID \<equiv> 13"
abbreviation (input) BR_STATE_SAVE_FAIL_EID :: nat where "BR_STATE_SAVE_FAIL_EID \<equiv> 14"
abbreviation (input) BR_STATE_CORRUPT_EID :: nat where "BR_STATE_CORRUPT_EID \<equiv> 15"
abbreviation (input) BR_MISSION_READBACK_EID :: nat where "BR_MISSION_READBACK_EID \<equiv> 16"
abbreviation (input) BR_SET_FLIGHT_MODE_EID :: nat where "BR_SET_FLIGHT_MODE_EID \<equiv> 17"

section \<open>The platform\<close>

text \<open>What the next readings of the clock, calls of \<^verbatim>\<open>write\<close>, \<^verbatim>\<open>read\<close> and of opening the
  port, and the next save give.  The clock keeps its last value when no further reading is
  listed; a port without further listed results takes every write, has nothing to read and
  does not open again.\<close>

datatype write_result = Wrote nat | Wr_Interrupted | Wr_Fails

datatype read_result = Rd_Bytes "u8 list" | Rd_Interrupted | Rd_Nothing | Rd_Error

record bridge_env =
  be_Now :: sys_time
  be_Ticks :: "sys_time list"
  be_Writes :: "write_result list"
  be_Reads :: "read_result list"
  be_Opens :: "bool list"
  be_Save :: save_outcome

section \<open>State\<close>

record MAVLINK_BRIDGE_APP_ConfigParams =
  bp_AttitudeIntervalUs :: u32
  bp_LocalPositionIntervalUs :: u32
  bp_GlobalPositionIntervalUs :: u32
  bp_GpsRawIntervalUs :: u32
  bp_EkfStatusIntervalUs :: u32
  bp_ReconnectIntervalMs :: u32
  bp_HeartbeatIntervalMs :: u32

record MAVLINK_BRIDGE_APP_PersistentState =
  bps_Magic :: u32
  bps_ConfigVersion :: u8
  bps_ActiveConfig :: MAVLINK_BRIDGE_APP_ConfigParams
  bps_Checksum :: u32

record MAVLINK_BRIDGE_APP_ParserContext =
  p_State :: MAVLINK_BRIDGE_APP_ParseState
  p_IsV2 :: bool
  p_PayloadLen :: u8
  p_PayloadIndex :: u8
  p_Seq :: u8
  p_SysId :: u8
  p_CompId :: u8
  p_MsgId :: u32
  p_CrcLow :: u8
  p_CrcHigh :: u8
  p_Payload :: "u8 list"

record MAVLINK_BRIDGE_APP_Data =
  b_CmdCounter :: u8
  b_ErrCounter :: u8
  b_RunStatus :: run_status
  b_SequenceCounter :: u32
  b_LastRxTimestampMs :: u32
  b_LastReconnectAttemptMs :: u32
  b_LastHeartbeatTxMs :: u32
  b_LastStreamRequestMs :: u32
  b_TargetDiscoveryStartMs :: u32
  b_LastAttitudeRxMs :: u32
  b_LastEkfLocalRxMs :: u32
  b_LastGpsRawRxMs :: u32
  b_LastEkfStatusRxMs :: u32
  b_LastSysTimeRxMs :: u32
  b_LastSysTimeUnixUsec :: u64
  b_ReconnectAttemptCount :: u32
  b_ParseErrorCount :: u32
  b_NonFiniteValueCount :: u32
  b_BytesReceived :: u32
  b_PortOpen :: bool
  b_TargetSystemId :: u8
  b_TargetComponentId :: u8
  b_StreamRequestPending :: u8
  b_StreamRequestAckCount :: u8
  b_LinkState :: MAVLINK_BRIDGE_APP_LinkState
  b_LastErrorCode :: u8
  b_MissionUploadState :: MAVLINK_BRIDGE_APP_MissionUploadState
  b_MissionUploadRetry :: u8
  b_MissionUploadWpCount :: u8
  b_MissionUploadTimeoutMs :: u32
  b_MissionUploadSuccessCount :: u32
  b_MissionUploadFailCount :: u32
  b_LastUploadTimestampMs :: u32
  b_LastUploadWaypointCount :: u8
  b_LastUploadResult :: u8
  b_MissionPending :: "ROUTE_WAYPOINT list"
  b_ActiveWaypoint :: "ROUTE_WAYPOINT list"
  b_ActiveWaypointCount :: u8
  b_ActiveResumeIndex :: u8
  b_MissionDownloadState :: MAVLINK_BRIDGE_APP_MissionDownloadState
  b_MissionDownloadSeq :: u8
  b_MissionDownloadExpectedCount :: u8
  b_MissionDownloadTimeoutMs :: u32
  b_MissionDownloadWaypoints :: "ROUTE_WAYPOINT list"
  b_MissionReadbackPending :: u8
  b_MissionReadbackBackoffMs :: u32
  b_MissionReadbackNextRetryMs :: u32
  b_MissionReadbackSeq :: u32
  b_FcMissionReadbackWaypoints :: "ROUTE_WAYPOINT list"
  b_FcBaseMode :: u8
  b_FcSystemStatus :: u8
  b_IsArmed :: u8
  b_ConfigPendingState :: MAVLINK_BRIDGE_APP_ConfigPendingState
  b_LastConfigResult :: u8
  b_ConfigGeneration :: u32
  b_ActiveConfig :: MAVLINK_BRIDGE_APP_ConfigParams
  b_PendingConfig :: MAVLINK_BRIDGE_APP_ConfigParams
  b_PreviousConfig :: MAVLINK_BRIDGE_APP_ConfigParams
  b_EkfLocalTlm :: FC_EKF_LOCAL_TLM
  b_AttitudeTlm :: FC_ATTITUDE_TLM
  b_GpsRawTlm :: FC_GPS_RAW_TLM
  b_EkfStatusTlm :: FC_EKF_STATUS_TLM
  b_SysTimeTlm :: FC_SYS_TIME_TLM
  b_Parser :: MAVLINK_BRIDGE_APP_ParserContext
  b_TxSequence :: u8
  b_Env :: bridge_env

end
