(* ===== verification/Bridge.thy ===== *)
theory Bridge
  imports Bridge_Types
begin

text \<open>
  mavlink_bridge_app, first part (\<^verbatim>\<open>fsw/src/mavlink_bridge_app_utils.c\<close>): transmission of
  MAVLink frames, upload of a mission to the flight controller and read-back of its mission,
  link state, stream requests and the serial port.
\<close>

section \<open>Clock and frames\<close>

definition read_clock :: "MAVLINK_BRIDGE_APP_Data \<Rightarrow> u32 \<times> MAVLINK_BRIDGE_APP_Data" where
  "read_clock d = (let e = b_Env d in
     case be_Ticks e of
       [] \<Rightarrow> (GetTimeMs (be_Now e), d)
     | t # ts \<Rightarrow> (GetTimeMs t, d\<lparr> b_Env := e\<lparr> be_Now := t, be_Ticks := ts \<rparr> \<rparr>))"

definition with_clock ::
    "(u32 \<Rightarrow> MAVLINK_BRIDGE_APP_Data \<Rightarrow> MAVLINK_BRIDGE_APP_Data \<times> out list)
       \<Rightarrow> MAVLINK_BRIDGE_APP_Data \<Rightarrow> MAVLINK_BRIDGE_APP_Data \<times> out list" where
  "with_clock f d = (let (NowMs, d) = read_clock d in f NowMs d)"

definition parser_zero :: MAVLINK_BRIDGE_APP_ParserContext where
  "parser_zero = \<lparr> p_State = PARSE_WAIT_STX, p_IsV2 = False, p_PayloadLen = 0, p_PayloadIndex = 0,
     p_Seq = 0, p_SysId = 0, p_CompId = 0, p_MsgId = 0, p_CrcLow = 0, p_CrcHigh = 0,
     p_Payload = replicate MAVLINK_MAX_PAYLOAD_LEN 0 \<rparr>"

definition ResetParser :: "MAVLINK_BRIDGE_APP_Data \<Rightarrow> MAVLINK_BRIDGE_APP_Data" where
  "ResetParser d = d\<lparr> b_Parser := parser_zero \<rparr>"

text \<open>The \<^verbatim>\<open>write\<close> loop: the rest of the frame is offered again after a partial write or an
  interruption; any other result gives up.\<close>

fun write_all :: "write_result list \<Rightarrow> u8 list \<Rightarrow> bool \<times> u8 list \<times> write_result list" where
  "write_all ws [] = (True, [], ws)"
| "write_all [] (b # bs) = (True, b # bs, [])"
| "write_all (Wrote n # ws) (b # bs) =
     (if n = 0 then (False, [], ws)
      else let (ok, out, ws') = write_all ws (drop n (b # bs)) in (ok, take n (b # bs) @ out, ws'))"
| "write_all (Wr_Interrupted # ws) (b # bs) = write_all ws (b # bs)"
| "write_all (Wr_Fails # ws) (b # bs) = (False, [], ws)"

definition mav_crc :: "u8 list \<Rightarrow> u8 \<Rightarrow> u16" where
  "mav_crc bs CrcExtra = foldl CrcAccumulate 0xFFFF (bs @ [CrcExtra])"

text \<open>The bytes of a version 2 frame between the start byte and the checksum.\<close>

definition mav_body :: "u8 \<Rightarrow> u8 \<Rightarrow> u8 \<Rightarrow> u32 \<Rightarrow> u8 list \<Rightarrow> u8 list" where
  "mav_body seq sys compid MsgId Payload =
     [of_nat (length Payload), 0, 0, seq, sys, compid, ucast MsgId, ucast (drop_bit 8 MsgId),
      ucast (drop_bit 16 MsgId)] @ Payload"

definition mav_frame :: "u8 \<Rightarrow> u8 \<Rightarrow> u8 \<Rightarrow> u32 \<Rightarrow> u8 list \<Rightarrow> u8 \<Rightarrow> u8 list" where
  "mav_frame seq sys compid MsgId Payload CrcExtra =
     (let body = mav_body seq sys compid MsgId Payload
      in MAVLINK_STX_V2 # body @ put_u16 (mav_crc body CrcExtra))"

definition MAVLINK_BRIDGE_APP_SendMavlinkV2 ::
    "u32 \<Rightarrow> u8 list \<Rightarrow> u8 \<Rightarrow> MAVLINK_BRIDGE_APP_Data \<Rightarrow> bool \<times> MAVLINK_BRIDGE_APP_Data \<times> out list" where
  "MAVLINK_BRIDGE_APP_SendMavlinkV2 MsgId Payload CrcExtra d =
     (if \<not> b_PortOpen d then (False, d, [])
      else if length Payload > MAVLINK_MAX_PAYLOAD_LEN \<or> 10 + length Payload + 2 > MAVLINK_MAX_FRAME_LEN
      then (False, d, [])
      else
        let frame = mav_frame (b_TxSequence d) MAVLINK_SYSTEM_ID MAVLINK_COMPONENT_ID MsgId Payload CrcExtra;
            (ok, written, ws) = write_all (be_Writes (b_Env d)) frame
        in (ok, d\<lparr> b_TxSequence := b_TxSequence d + 1, b_Env := (b_Env d)\<lparr> be_Writes := ws \<rparr> \<rparr>,
            (if written = [] then [] else [Serial written]) @
            (if ok then [] else [Event BR_STREAM_EID ERROR])))"

text \<open>Most callers ignore the result.\<close>

definition send_mavlink ::
    "u32 \<Rightarrow> u8 list \<Rightarrow> u8 \<Rightarrow> MAVLINK_BRIDGE_APP_Data \<Rightarrow> MAVLINK_BRIDGE_APP_Data \<times> out list" where
  "send_mavlink MsgId Payload CrcExtra d = snd (MAVLINK_BRIDGE_APP_SendMavlinkV2 MsgId Payload CrcExtra d)"

definition target :: "MAVLINK_BRIDGE_APP_Data \<Rightarrow> u8 list" where
  "target d = [b_TargetSystemId d, b_TargetComponentId d]"

section \<open>Frames of the mission protocol\<close>

definition wp_nth :: "ROUTE_WAYPOINT list \<Rightarrow> nat \<Rightarrow> ROUTE_WAYPOINT" where
  "wp_nth ws i = (if i < length ws then ws ! i else wp_zero)"

definition SendMissionClearAll :: "MAVLINK_BRIDGE_APP_Data \<Rightarrow> MAVLINK_BRIDGE_APP_Data \<times> out list" where
  "SendMissionClearAll d =
     send_mavlink MSG_ID_MISSION_CLEAR_ALL (target d @ [MISSION_TYPE_MISSION]) MISSION_CLEAR_ALL_CRC_EXTRA d"

definition SendMissionCount :: "u8 \<Rightarrow> MAVLINK_BRIDGE_APP_Data \<Rightarrow> MAVLINK_BRIDGE_APP_Data \<times> out list" where
  "SendMissionCount WpCount d =
     send_mavlink MSG_ID_MISSION_COUNT (put_u16 (ucast WpCount) @ target d @ [MISSION_TYPE_MISSION])
       MISSION_COUNT_CRC_EXTRA d"

definition mission_item_int :: "MAVLINK_BRIDGE_APP_Data \<Rightarrow> u8 \<Rightarrow> u8 list" where
  "mission_item_int d Seq =
     (let w = wp_nth (b_MissionPending d) (unat Seq) in
      put_u32 (wp_Param1 w) @ put_u32 (wp_Param2 w) @ put_u32 (wp_Param3 w) @ put_u32 (wp_Param4 w) @
      put_u32 (wp_LatE7 w) @ put_u32 (wp_LonE7 w) @ put_u32 (wp_Z w) @ put_u16 (ucast Seq) @
      put_u16 (ucast (wp_CmdType w)) @ target d @
      [MAV_FRAME_GLOBAL_RELATIVE_ALT, if Seq = b_ActiveResumeIndex d then 1 else 0, 1, MISSION_TYPE_MISSION])"

definition SendMissionItemInt :: "u8 \<Rightarrow> MAVLINK_BRIDGE_APP_Data \<Rightarrow> MAVLINK_BRIDGE_APP_Data \<times> out list" where
  "SendMissionItemInt Seq d =
     send_mavlink MSG_ID_MISSION_ITEM_INT (mission_item_int d Seq) MISSION_ITEM_INT_CRC_EXTRA d"

text \<open>The older message carries latitude and longitude as floats in degrees.\<close>

definition degrees :: "i32 \<Rightarrow> f32" where
  "degrees E7 = f32_div_const (f32_of_int (sint E7)) 10000000"

definition SendMissionItem :: "u8 \<Rightarrow> MAVLINK_BRIDGE_APP_Data \<Rightarrow> MAVLINK_BRIDGE_APP_Data \<times> out list" where
  "SendMissionItem Seq d =
     (let w = wp_nth (b_MissionPending d) (unat Seq) in
      send_mavlink MSG_ID_MISSION_ITEM
        (replicate 16 0 @ put_u32 (degrees (wp_LatE7 w)) @ put_u32 (degrees (wp_LonE7 w)) @
         put_u32 (wp_Z w) @ put_u16 (ucast Seq) @ put_u16 (ucast (wp_CmdType w)) @ target d @
         [MAV_FRAME_GLOBAL_RELATIVE_ALT, 0, 1]) MISSION_ITEM_CRC_EXTRA d)"

definition SendMissionRequestList :: "MAVLINK_BRIDGE_APP_Data \<Rightarrow> MAVLINK_BRIDGE_APP_Data \<times> out list" where
  "SendMissionRequestList d =
     send_mavlink MSG_ID_MISSION_REQUEST_LIST (target d @ [MISSION_TYPE_MISSION]) MISSION_REQUEST_LIST_CRC_EXTRA d"

definition SendMissionRequestIntDownload ::
    "u8 \<Rightarrow> MAVLINK_BRIDGE_APP_Data \<Rightarrow> MAVLINK_BRIDGE_APP_Data \<times> out list" where
  "SendMissionRequestIntDownload Seq d =
     send_mavlink MSG_ID_MISSION_REQUEST_INT (put_u16 (ucast Seq) @ target d @ [MISSION_TYPE_MISSION])
       MISSION_REQUEST_INT_CRC_EXTRA d"

definition SendMissionAckAccepted :: "MAVLINK_BRIDGE_APP_Data \<Rightarrow> MAVLINK_BRIDGE_APP_Data \<times> out list" where
  "SendMissionAckAccepted d =
     send_mavlink MSG_ID_MISSION_ACK (target d @ [MISSION_ACCEPTED]) MISSION_ACK_CRC_EXTRA d"

section \<open>Upload of a route\<close>

text \<open>The copying loops: entries 0 to n - 1 of the destination are overwritten one by one.\<close>

definition copy_waypoints ::
    "(nat \<Rightarrow> ROUTE_WAYPOINT) \<Rightarrow> nat \<Rightarrow> ROUTE_WAYPOINT list \<Rightarrow> ROUTE_WAYPOINT list" where
  "copy_waypoints src n dst = foldl (\<lambda>ws i. ws[i := src i]) dst [0..<n]"

text \<open>The four operations: the new count, the filled pending mission and the resume index, with a
  flag when an ADD had to be cut; \<^verbatim>\<open>None\<close> when a DELETE or MODIFY is refused.\<close>

definition route_edit ::
    "ROUTE_UPDATE_TLM \<Rightarrow> MAVLINK_BRIDGE_APP_Data \<Rightarrow> (bool \<times> u8 \<times> ROUTE_WAYPOINT list \<times> u8) option" where
  "route_edit Msg d =
     (let op = ru_RouteType Msg; n = ru_WaypointCount Msg; ActiveCount = b_ActiveWaypointCount d;
          active = wp_nth (b_ActiveWaypoint d); sent_wp = wp_nth (ru_Waypoints Msg);
          pend = b_MissionPending d; resume = b_ActiveResumeIndex d
      in if op = ROUTE_OP_ADD then
           (let wide = unat ActiveCount + unat n;
                trunc = wide > ROUTE_MAX_WAYPOINTS;
                NewCount = (if trunc then ROUTE_MAX_WAYPOINTS else wide)
            in Some (trunc, of_nat NewCount,
                 copy_waypoints (\<lambda>i. if i < unat ActiveCount then active i else sent_wp (i - unat ActiveCount))
                   NewCount pend, resume))
         else if op = ROUTE_OP_DELETE then
           (if n \<ge> ActiveCount then None
            else if n = resume then None
            else Some (False, ActiveCount - 1,
                   copy_waypoints (\<lambda>i. active (if i < unat n then i else i + 1)) (unat (ActiveCount - 1)) pend,
                   if n < resume then resume - 1 else resume))
         else if op = ROUTE_OP_MODIFY then
           (if n \<ge> ActiveCount then None
            else Some (False, ActiveCount,
                   copy_waypoints (\<lambda>i. if i = unat n then sent_wp 0 else active i) (unat ActiveCount) pend, resume))
         else
           (let NewCount = (if unat n > ROUTE_MAX_WAYPOINTS then of_nat ROUTE_MAX_WAYPOINTS else n)
            in Some (False, NewCount, copy_waypoints sent_wp (unat NewCount) pend, resume)))"

definition MAVLINK_BRIDGE_APP_StartMissionUpload ::
    "ROUTE_UPDATE_TLM \<Rightarrow> MAVLINK_BRIDGE_APP_Data \<Rightarrow> MAVLINK_BRIDGE_APP_Data \<times> out list" where
  "MAVLINK_BRIDGE_APP_StartMissionUpload Msg d =
     (let refused = (d, [Event BR_MISSION_UPLOAD_ERR_EID ERROR]) in
      prepend [Event BR_MISSION_UPLOAD_INF_EID INFORMATION]
        (if b_LinkState d \<noteq> BRIDGE_CONNECTED then refused
         else if b_MissionDownloadState d \<noteq> DOWNLOAD_IDLE then refused
         else case route_edit Msg d of
                None \<Rightarrow> refused
              | Some (trunc, NewCount, pend, resume) \<Rightarrow>
                  prepend (if trunc then [Event BR_MISSION_UPLOAD_ERR_EID ERROR] else [])
                    (with_clock
                      (\<lambda>NowMs d. SendMissionClearAll (d\<lparr> b_MissionUploadTimeoutMs := NowMs + MISSION_CLEAR_DELAY_MS \<rparr>))
                      (d\<lparr> b_MissionPending := pend, b_ActiveResumeIndex := resume,
                          b_MissionUploadWpCount := NewCount, b_MissionUploadState := UPLOAD_CLEARING,
                          b_MissionUploadRetry := 0 \<rparr>))))"

text \<open>\<^verbatim>\<open>(int32)(NowMs - t) >= 0\<close>.\<close>

definition reached :: "u32 \<Rightarrow> u32 \<Rightarrow> bool" where
  "reached NowMs t \<longleftrightarrow> 0 \<le> sint (NowMs - t)"

definition CheckMissionUploadTimeout ::
    "u32 \<Rightarrow> MAVLINK_BRIDGE_APP_Data \<Rightarrow> MAVLINK_BRIDGE_APP_Data \<times> out list" where
  "CheckMissionUploadTimeout NowMs d =
     (if b_MissionUploadState d = UPLOAD_CLEARING then
        (if reached NowMs (b_MissionUploadTimeoutMs d)
         then SendMissionCount (b_MissionUploadWpCount d)
                (d\<lparr> b_MissionUploadState := UPLOAD_ACTIVE,
                    b_MissionUploadTimeoutMs := NowMs + MISSION_UPLOAD_TIMEOUT_MS \<rparr>)
         else (d, []))
      else if b_MissionUploadState d \<noteq> UPLOAD_ACTIVE then (d, [])
      else if \<not> reached NowMs (b_MissionUploadTimeoutMs d) then (d, [])
      else if b_MissionUploadRetry d < MISSION_MAX_RETRIES then
        steps [SendMissionClearAll, SendMissionCount (b_MissionUploadWpCount d),
               emit [Event BR_MISSION_UPLOAD_ERR_EID ERROR]]
          (d\<lparr> b_MissionUploadRetry := b_MissionUploadRetry d + 1,
              b_MissionUploadTimeoutMs := NowMs + MISSION_UPLOAD_TIMEOUT_MS \<rparr>)
      else (d\<lparr> b_MissionUploadState := UPLOAD_IDLE,
               b_MissionUploadFailCount := b_MissionUploadFailCount d + 1,
               b_LastUploadResult := UPLOAD_RESULT_TIMEOUT \<rparr>,
            [Event BR_MISSION_UPLOAD_ERR_EID ERROR]))"

section \<open>Read-back of the mission\<close>

definition begin_download :: "u32 \<Rightarrow> MAVLINK_BRIDGE_APP_Data \<Rightarrow> MAVLINK_BRIDGE_APP_Data" where
  "begin_download NowMs d =
     d\<lparr> b_MissionDownloadState := DOWNLOAD_WAIT_COUNT, b_MissionDownloadSeq := 0,
        b_MissionDownloadExpectedCount := 0,
        b_MissionDownloadTimeoutMs := NowMs + MISSION_DOWNLOAD_TIMEOUT_MS \<rparr>"

definition StartFcMissionReadback :: "MAVLINK_BRIDGE_APP_Data \<Rightarrow> MAVLINK_BRIDGE_APP_Data \<times> out list" where
  "StartFcMissionReadback =
     steps [with_clock (\<lambda>NowMs. update (begin_download NowMs)),
            update (\<lambda>d. d\<lparr> b_MissionReadbackPending := 0 \<rparr>),
            SendMissionRequestList,
            emit [Event BR_MISSION_READBACK_EID INFORMATION]]"

definition PublishFcMissionReadback :: "MAVLINK_BRIDGE_APP_Data \<Rightarrow> MAVLINK_BRIDGE_APP_Data \<times> out list" where
  "PublishFcMissionReadback d =
     (let clamp = unat (b_MissionDownloadExpectedCount d) > ROUTE_MAX_WAYPOINTS;
          Count = (if clamp then of_nat ROUTE_MAX_WAYPOINTS else b_MissionDownloadExpectedCount d)
      in prepend (if clamp then [Event BR_MISSION_READBACK_EID INFORMATION] else [])
          (with_clock
            (\<lambda>NowMs d.
               let ws = copy_waypoints (wp_nth (b_MissionDownloadWaypoints d)) (unat Count)
                          (b_FcMissionReadbackWaypoints d)
               in (d\<lparr> b_FcMissionReadbackWaypoints := ws \<rparr>,
                   [Send (FcMissionReadback \<lparr> ru_Seq = b_MissionReadbackSeq d, ru_TimestampMs = NowMs,
                      ru_SourceSequence = 0, ru_RouteType = 1, ru_RouteVersion = 0,
                      ru_WaypointCount = Count, ru_Waypoints = ws \<rparr>),
                    Event BR_MISSION_READBACK_EID INFORMATION]))
            (d\<lparr> b_MissionReadbackSeq := b_MissionReadbackSeq d + 1 \<rparr>)))"

definition CheckMissionDownloadTimeout ::
    "u32 \<Rightarrow> MAVLINK_BRIDGE_APP_Data \<Rightarrow> MAVLINK_BRIDGE_APP_Data \<times> out list" where
  "CheckMissionDownloadTimeout NowMs d =
     (if b_MissionDownloadState d = DOWNLOAD_IDLE then (d, [])
      else if \<not> reached NowMs (b_MissionDownloadTimeoutMs d) then (d, [])
      else
        let d = d\<lparr> b_MissionDownloadState := DOWNLOAD_IDLE \<rparr>;
            ev = Event BR_MISSION_DOWNLOAD_ERR_EID ERROR
        in if b_LinkState d = BRIDGE_CONNECTED then
             (let Backoff = (if b_MissionReadbackBackoffMs d < READBACK_BACKOFF_INITIAL_MS
                             then READBACK_BACKOFF_INITIAL_MS else b_MissionReadbackBackoffMs d);
                  Next = Backoff * 2
              in (d\<lparr> b_MissionReadbackPending := 1, b_MissionReadbackNextRetryMs := NowMs + Backoff,
                     b_MissionReadbackBackoffMs :=
                       (if Next > READBACK_BACKOFF_CAP_MS then READBACK_BACKOFF_CAP_MS else Next) \<rparr>,
                  [ev, Event BR_MISSION_READBACK_EID INFORMATION]))
           else (d, [ev]))"

section \<open>Link state, errors, heartbeat and stream requests\<close>

definition MAVLINK_BRIDGE_APP_SetLinkState ::
    "MAVLINK_BRIDGE_APP_LinkState \<Rightarrow> MAVLINK_BRIDGE_APP_Data \<Rightarrow> MAVLINK_BRIDGE_APP_Data \<times> out list" where
  "MAVLINK_BRIDGE_APP_SetLinkState NewState d =
     (let PrevState = b_LinkState d; d = d\<lparr> b_LinkState := NewState \<rparr> in
      if NewState = BRIDGE_CONNECTED \<and> PrevState \<noteq> BRIDGE_CONNECTED then
        (let d = d\<lparr> b_MissionReadbackBackoffMs := READBACK_BACKOFF_INITIAL_MS, b_MissionReadbackPending := 0 \<rparr> in
         if b_MissionUploadState d = UPLOAD_IDLE \<and> b_MissionDownloadState d = DOWNLOAD_IDLE
         then StartFcMissionReadback d else (d, []))
      else if NewState = BRIDGE_DISCONNECTED then (d\<lparr> b_MissionReadbackPending := 0 \<rparr>, [])
      else (d, []))"

definition MAVLINK_BRIDGE_APP_RecordParseError ::
    "u8 \<Rightarrow> MAVLINK_BRIDGE_APP_Data \<Rightarrow> MAVLINK_BRIDGE_APP_Data \<times> out list" where
  "MAVLINK_BRIDGE_APP_RecordParseError ErrorCode d =
     (d\<lparr> b_LastErrorCode := ErrorCode, b_ParseErrorCount := b_ParseErrorCount d + 1 \<rparr>,
      [Event BR_PARSE_EID INFORMATION])"

definition RecordLengthError :: "MAVLINK_BRIDGE_APP_Data \<Rightarrow> MAVLINK_BRIDGE_APP_Data \<times> out list" where
  "RecordLengthError d =
     (d\<lparr> b_LastErrorCode := BRIDGE_ERROR_INVALID_VALUE, b_ParseErrorCount := b_ParseErrorCount d + 1 \<rparr>,
      [Event BR_PARSE_EID INFORMATION])"

definition RecordNonFiniteError :: "MAVLINK_BRIDGE_APP_Data \<Rightarrow> MAVLINK_BRIDGE_APP_Data \<times> out list" where
  "RecordNonFiniteError d =
     (d\<lparr> b_LastErrorCode := BRIDGE_ERROR_INVALID_VALUE, b_NonFiniteValueCount := b_NonFiniteValueCount d + 1 \<rparr>,
      [Event BR_NONFINITE_VALUE_ERR_EID ERROR])"

definition SendCompanionHeartbeat ::
    "u32 \<Rightarrow> MAVLINK_BRIDGE_APP_Data \<Rightarrow> MAVLINK_BRIDGE_APP_Data \<times> out list" where
  "SendCompanionHeartbeat NowMs d =
     (if NowMs - b_LastHeartbeatTxMs d < bp_HeartbeatIntervalMs (b_ActiveConfig d) then (d, [])
      else let (ok, d, os) = MAVLINK_BRIDGE_APP_SendMavlinkV2 MSG_ID_HEARTBEAT
                 [0, 0, 0, 0, MAV_TYPE_ONBOARD_CONTROLLER, MAV_AUTOPILOT_INVALID, 0, 0, 3] HEARTBEAT_CRC_EXTRA d
           in (if ok then d\<lparr> b_LastHeartbeatTxMs := NowMs \<rparr> else d, os))"

text \<open>The payload of COMMAND_LONG: three of its seven float parameters are used.\<close>

definition command_long :: "f32 \<Rightarrow> f32 \<Rightarrow> f32 \<Rightarrow> u16 \<Rightarrow> MAVLINK_BRIDGE_APP_Data \<Rightarrow> u8 list" where
  "command_long x y z cmd d =
     put_u32 x @ put_u32 y @ put_u32 z @ replicate 16 0 @ put_u16 cmd @ target d @ [0]"

definition RequestMessageInterval ::
    "u32 \<Rightarrow> u32 \<Rightarrow> MAVLINK_BRIDGE_APP_Data \<Rightarrow> bool \<times> MAVLINK_BRIDGE_APP_Data \<times> out list" where
  "RequestMessageInterval MsgId IntervalUs d =
     MAVLINK_BRIDGE_APP_SendMavlinkV2 MSG_ID_COMMAND_LONG
       (command_long (f32_of_int (uint MsgId)) (f32_of_int (uint IntervalUs)) 0 MAV_CMD_SET_MESSAGE_INTERVAL d)
       COMMAND_LONG_CRC_EXTRA d"

fun request_intervals ::
    "(u32 \<times> u32) list \<Rightarrow> MAVLINK_BRIDGE_APP_Data \<Rightarrow> bool \<times> MAVLINK_BRIDGE_APP_Data \<times> out list" where
  "request_intervals [] d = (True, d, [])"
| "request_intervals ((MsgId, us) # rs) d =
     (let (ok, d, os) = RequestMessageInterval MsgId us d in
      if ok then (let (ok, r) = request_intervals rs d in (ok, prepend os r))
      else (False, d, os @ [Event BR_STREAM_EID ERROR]))"

definition MAVLINK_BRIDGE_APP_RequestTelemetryStreams ::
    "MAVLINK_BRIDGE_APP_Data \<Rightarrow> MAVLINK_BRIDGE_APP_Data \<times> out list" where
  "MAVLINK_BRIDGE_APP_RequestTelemetryStreams d =
     (if b_TargetSystemId d = 0 then (d, [])
      else
        let c = b_ActiveConfig d;
            (ok, d, os) = request_intervals
              [(MSG_ID_ATTITUDE, bp_AttitudeIntervalUs c),
               (MSG_ID_LOCAL_POSITION_NED, bp_LocalPositionIntervalUs c),
               (MSG_ID_GLOBAL_POSITION_INT, bp_GlobalPositionIntervalUs c),
               (MSG_ID_GPS_RAW_INT, bp_GpsRawIntervalUs c),
               (MSG_ID_EKF_STATUS_REPORT, bp_EkfStatusIntervalUs c),
               (MSG_ID_SYS_TIME, SYS_TIME_INTERVAL_US)] d
        in prepend (Event BR_STREAM_EID INFORMATION # os)
            (if ok then with_clock (\<lambda>NowMs d. (d\<lparr> b_LastStreamRequestMs := NowMs \<rparr>,
                                             [Event BR_STREAM_EID INFORMATION])) d
             else (d, [])))"

section \<open>The serial port\<close>

definition CloseBridgeSerial :: "MAVLINK_BRIDGE_APP_Data \<Rightarrow> MAVLINK_BRIDGE_APP_Data" where
  "CloseBridgeSerial d = d\<lparr> b_PortOpen := False \<rparr>"

definition MarkOutputsStale :: "MAVLINK_BRIDGE_APP_Data \<Rightarrow> MAVLINK_BRIDGE_APP_Data" where
  "MarkOutputsStale d =
     d\<lparr> b_AttitudeTlm := (b_AttitudeTlm d)\<lparr> fc_Stale := 1 \<rparr>,
        b_EkfLocalTlm := (b_EkfLocalTlm d)\<lparr> fc_Stale := 1 \<rparr>,
        b_GpsRawTlm := (b_GpsRawTlm d)\<lparr> fc_Stale := 1 \<rparr>,
        b_EkfStatusTlm := (b_EkfStatusTlm d)\<lparr> fc_Stale := 1 \<rparr> \<rparr>"

text \<open>Opening succeeds, or fails in \<^verbatim>\<open>open\<close> or in the set-up of the line, with the same effect.\<close>

definition OpenSerial :: "MAVLINK_BRIDGE_APP_Data \<Rightarrow> bool \<times> MAVLINK_BRIDGE_APP_Data \<times> out list" where
  "OpenSerial d =
     (if SERIAL_BAUD_GetConstant BRIDGE_SERIAL_BAUDRATE = None
      then (False, d\<lparr> b_LastErrorCode := BRIDGE_ERROR_INVALID_VALUE \<rparr>, [Event BR_LINK_EID ERROR])
      else
      let e = b_Env d;
          ok = (case be_Opens e of [] \<Rightarrow> False | r # _ \<Rightarrow> r);
          d = d\<lparr> b_Env := e\<lparr> be_Opens := tl (be_Opens e) \<rparr> \<rparr>
      in if \<not> ok then (False, d\<lparr> b_LastErrorCode := BRIDGE_ERROR_SERIAL_OPEN_FAIL \<rparr>, [Event BR_LINK_EID ERROR])
         else (True,
           steps [update (\<lambda>d. d\<lparr> b_PortOpen := True, b_LastErrorCode := BRIDGE_ERROR_NONE,
                    b_LastRxTimestampMs := 0, b_LastHeartbeatTxMs := 0, b_LastStreamRequestMs := 0 \<rparr>),
                  with_clock (\<lambda>NowMs. update (\<lambda>d. d\<lparr> b_TargetDiscoveryStartMs := NowMs \<rparr>)),
                  update (\<lambda>d. d\<lparr> b_LastAttitudeRxMs := 0, b_LastEkfLocalRxMs := 0, b_LastGpsRawRxMs := 0,
                    b_LastEkfStatusRxMs := 0, b_LastSysTimeRxMs := 0, b_LastSysTimeUnixUsec := 0,
                    b_StreamRequestPending := 1 \<rparr>),
                  MAVLINK_BRIDGE_APP_SetLinkState BRIDGE_CONNECTED,
                  update ResetParser,
                  emit [Event BR_LINK_EID INFORMATION]] d))"

end
