(* ===== verification/Bridge_App.thy ===== *)
theory Bridge_App
  imports Bridge
begin

text \<open>
  mavlink_bridge_app, second part: the state packets it publishes and the handling of a complete
  frame (\<^verbatim>\<open>MAVLINK_BRIDGE_APP_HandleFrameComplete\<close> and the functions it calls).
\<close>

section \<open>State packets\<close>

text \<open>The fields every state packet begins with, and the event of the decoding log.\<close>

definition log_decoded :: "u32 \<Rightarrow> out list" where
  "log_decoded Sequence = (if Sequence \<le> 3 \<or> Sequence mod 25 = 0 then [Event BR_PARSE_EID INFORMATION] else [])"

definition ValuesFinite6 :: "f32 list \<Rightarrow> bool" where
  "ValuesFinite6 vs \<longleftrightarrow> list_all isfinite vs"

text \<open>The received payload; bytes the sender trimmed off the end read as zero.\<close>

definition rx_payload :: "MAVLINK_BRIDGE_APP_ParserContext \<Rightarrow> u8 list" where
  "rx_payload p = take (unat (p_PayloadLen p)) (p_Payload p)"

definition PublishAttitude ::
    "MAVLINK_BRIDGE_APP_ParserContext \<Rightarrow> u32 \<Rightarrow> MAVLINK_BRIDGE_APP_Data \<Rightarrow> MAVLINK_BRIDGE_APP_Data \<times> out list" where
  "PublishAttitude p RxMs d =
     (let pl = rx_payload p in
      if unat (p_PayloadLen p) > ATTITUDE_PAYLOAD_LEN then RecordLengthError d
      else if \<not> ValuesFinite6 (map (get_u32 pl) [4, 8, 12, 16, 20, 24]) then RecordNonFiniteError d
      else
        let Seq = b_SequenceCounter d + 1;
            m = \<lparr> fc_TimestampMs = get_u32 pl 0, fc_Seq = Seq, fc_Valid = 1, fc_Stale = 0,
                  fc_ErrorCode = BRIDGE_ERROR_NONE,
                  fa_RollRad = get_u32 pl 4, fa_PitchRad = get_u32 pl 8, fa_YawRad = get_u32 pl 12,
                  fa_RollspeedRps = get_u32 pl 16, fa_PitchspeedRps = get_u32 pl 20,
                  fa_YawspeedRps = get_u32 pl 24 \<rparr>
        in (d\<lparr> b_SequenceCounter := Seq, b_AttitudeTlm := m, b_LastAttitudeRxMs := RxMs \<rparr>,
            Send (FcAttitude m) # log_decoded Seq))"

definition PublishEkfLocal ::
    "MAVLINK_BRIDGE_APP_ParserContext \<Rightarrow> u32 \<Rightarrow> MAVLINK_BRIDGE_APP_Data \<Rightarrow> MAVLINK_BRIDGE_APP_Data \<times> out list" where
  "PublishEkfLocal p RxMs d =
     (let pl = rx_payload p in
      if unat (p_PayloadLen p) > LOCAL_POSITION_NED_PAYLOAD_LEN then RecordLengthError d
      else if \<not> ValuesFinite6 (map (get_u32 pl) [4, 8, 12, 16, 20, 24]) then RecordNonFiniteError d
      else
        let Seq = b_SequenceCounter d + 1;
            m = \<lparr> fc_TimestampMs = get_u32 pl 0, fc_Seq = Seq, fc_Valid = 1, fc_Stale = 0,
                  fc_ErrorCode = BRIDGE_ERROR_NONE,
                  fl_X_m = get_u32 pl 4, fl_Y_m = get_u32 pl 8, fl_Z_m = get_u32 pl 12,
                  fl_Vx_mps = get_u32 pl 16, fl_Vy_mps = get_u32 pl 20, fl_Vz_mps = get_u32 pl 24 \<rparr>
        in (d\<lparr> b_SequenceCounter := Seq, b_EkfLocalTlm := m, b_LastEkfLocalRxMs := RxMs \<rparr>,
            Send (FcEkfLocal m) # log_decoded Seq))"

text \<open>A GLOBAL_POSITION_INT is published as a local position: height over home and velocities,
  converted from integers.\<close>

definition cm_to_m :: "u16 \<Rightarrow> f32" where
  "cm_to_m w = f32_div_const (f32_of_int (sint w)) 100"

definition PublishGlobalPositionAsLocal ::
    "MAVLINK_BRIDGE_APP_ParserContext \<Rightarrow> u32 \<Rightarrow> MAVLINK_BRIDGE_APP_Data \<Rightarrow> MAVLINK_BRIDGE_APP_Data \<times> out list" where
  "PublishGlobalPositionAsLocal p RxMs d =
     (let pl = rx_payload p in
      if unat (p_PayloadLen p) > GLOBAL_POSITION_INT_PAYLOAD_LEN then RecordLengthError d
      else
        let Seq = b_SequenceCounter d + 1;
            m = \<lparr> fc_TimestampMs = get_u32 pl 0, fc_Seq = Seq, fc_Valid = 1, fc_Stale = 0,
                  fc_ErrorCode = BRIDGE_ERROR_NONE,
                  fl_X_m = 0, fl_Y_m = 0,
                  fl_Z_m = f32_neg (f32_div_const (f32_of_int (sint (get_u32 pl 16))) 1000),
                  fl_Vx_mps = cm_to_m (get_u16 pl 20), fl_Vy_mps = cm_to_m (get_u16 pl 22),
                  fl_Vz_mps = cm_to_m (get_u16 pl 24) \<rparr>
        in (d\<lparr> b_SequenceCounter := Seq, b_EkfLocalTlm := m, b_LastEkfLocalRxMs := RxMs \<rparr>,
            Send (FcEkfLocal m) # log_decoded Seq))"

definition PublishGpsRaw ::
    "MAVLINK_BRIDGE_APP_ParserContext \<Rightarrow> u32 \<Rightarrow> MAVLINK_BRIDGE_APP_Data \<Rightarrow> MAVLINK_BRIDGE_APP_Data \<times> out list" where
  "PublishGpsRaw p RxMs d =
     (let pl = p_Payload p; fix3 = (byte_at pl 28 \<ge> 3) in
      if unat (p_PayloadLen p) < GPS_RAW_INT_PAYLOAD_LEN then RecordLengthError d
      else
        let Seq = b_SequenceCounter d + 1;
            m = \<lparr> fc_TimestampMs = ucast (get_u64 pl 0 div 1000), fc_Seq = Seq,
                  fc_Valid = (if fix3 then 1 else 0), fc_Stale = 0,
                  fc_ErrorCode = (if fix3 then BRIDGE_ERROR_NONE else BRIDGE_ERROR_GPS_NO_FIX),
                  fg_FixType = byte_at pl 28, fg_SatellitesVisible = byte_at pl 29,
                  fg_LatE7 = get_u32 pl 8, fg_LonE7 = get_u32 pl 12, fg_AltMm = get_u32 pl 16 \<rparr>;
            d = d\<lparr> b_SequenceCounter := Seq, b_GpsRawTlm := m \<rparr>
        in (if fix3 then d\<lparr> b_LastGpsRawRxMs := RxMs \<rparr> else d\<lparr> b_LastErrorCode := BRIDGE_ERROR_GPS_NO_FIX \<rparr>,
            Send (FcGpsRaw m) # log_decoded Seq))"

definition PublishEkfStatus ::
    "MAVLINK_BRIDGE_APP_ParserContext \<Rightarrow> u32 \<Rightarrow> MAVLINK_BRIDGE_APP_Data \<Rightarrow> MAVLINK_BRIDGE_APP_Data \<times> out list" where
  "PublishEkfStatus p RxMs d =
     (let pl = p_Payload p; Flags = get_u16 pl 20 in
      if unat (p_PayloadLen p) < EKF_STATUS_MIN_PAYLOAD_LEN then RecordLengthError d
      else
        let Seq = b_SequenceCounter d + 1;
            m = \<lparr> fc_TimestampMs = RxMs, fc_Seq = Seq,
                  fc_Valid = (if Flags \<noteq> 0 then 1 else 0), fc_Stale = 0,
                  fc_ErrorCode = (if Flags \<noteq> 0 then BRIDGE_ERROR_NONE else BRIDGE_ERROR_EKF_UNHEALTHY),
                  fe_Flags = Flags \<rparr>;
            d = d\<lparr> b_SequenceCounter := Seq, b_EkfStatusTlm := m \<rparr>
        in (if Flags \<noteq> 0 then d\<lparr> b_LastEkfStatusRxMs := RxMs \<rparr>
            else d\<lparr> b_LastErrorCode := BRIDGE_ERROR_EKF_UNHEALTHY \<rparr>,
            Send (FcEkfStatus m) # log_decoded Seq))"

definition HandleSysTime ::
    "MAVLINK_BRIDGE_APP_ParserContext \<Rightarrow> u32 \<Rightarrow> MAVLINK_BRIDGE_APP_Data \<Rightarrow> MAVLINK_BRIDGE_APP_Data \<times> out list" where
  "HandleSysTime p RxMs d =
     (let pl = rx_payload p; TimeUnixUsec = get_u64 pl 0 in
      if unat (p_PayloadLen p) > SYS_TIME_PAYLOAD_LEN then RecordLengthError d
      else if TimeUnixUsec = 0 then (d, [])
      else
        let Seq = b_SequenceCounter d + 1;
            m = \<lparr> fc_TimestampMs = RxMs, fc_Seq = Seq, fc_Valid = 1, fc_Stale = 0,
                  fc_ErrorCode = BRIDGE_ERROR_NONE, ft_TimeUnixUsec = TimeUnixUsec \<rparr>
        in (d\<lparr> b_LastSysTimeUnixUsec := TimeUnixUsec, b_LastSysTimeRxMs := RxMs,
               b_SequenceCounter := Seq, b_SysTimeTlm := m \<rparr>,
            Send (FcSysTime m) # log_decoded Seq))"

section \<open>A complete frame\<close>

definition ComputeFrameCrc :: "MAVLINK_BRIDGE_APP_ParserContext \<Rightarrow> u8 \<Rightarrow> u16" where
  "ComputeFrameCrc p CrcExtra =
     foldl CrcAccumulate 0xFFFF
       ([p_PayloadLen p] @ (if p_IsV2 p then [0, 0] else []) @
        [p_Seq p, p_SysId p, p_CompId p, ucast (p_MsgId p AND 0xFF)] @
        (if p_IsV2 p then [ucast (drop_bit 8 (p_MsgId p) AND 0xFF), ucast (drop_bit 16 (p_MsgId p) AND 0xFF)]
         else []) @
        rx_payload p @ [CrcExtra])"

definition parse_failed :: "MAVLINK_BRIDGE_APP_Data \<Rightarrow> MAVLINK_BRIDGE_APP_Data \<times> out list" where
  "parse_failed = MAVLINK_BRIDGE_APP_RecordParseError BRIDGE_ERROR_PARSE_FAIL"

definition MAVLINK_BRIDGE_APP_UpdateFromHeartbeat ::
    "u8 \<Rightarrow> u8 \<Rightarrow> MAVLINK_BRIDGE_APP_Data \<Rightarrow> MAVLINK_BRIDGE_APP_Data" where
  "MAVLINK_BRIDGE_APP_UpdateFromHeartbeat BaseMode SystemStatus d =
     d\<lparr> b_FcBaseMode := BaseMode, b_FcSystemStatus := SystemStatus,
        b_IsArmed := (if BaseMode AND 0x80 \<noteq> 0 then 1 else 0) \<rparr>"

definition heartbeat_frame ::
    "MAVLINK_BRIDGE_APP_ParserContext \<Rightarrow> u32 \<Rightarrow> MAVLINK_BRIDGE_APP_Data \<Rightarrow> MAVLINK_BRIDGE_APP_Data \<times> out list" where
  "heartbeat_frame p RxMs d =
     (let Autopilot = byte_at (p_Payload p) 5;
          d = (if b_TargetSystemId d = 0 \<and> (Autopilot = 3 \<or> Autopilot = 12)
               then d\<lparr> b_TargetSystemId := p_SysId p, b_TargetComponentId := p_CompId p \<rparr> else d)
      in if p_SysId p = b_TargetSystemId d
         then steps [update (\<lambda>d. d\<lparr> b_LastRxTimestampMs := RxMs \<rparr>),
                     MAVLINK_BRIDGE_APP_SetLinkState BRIDGE_CONNECTED,
                     update (MAVLINK_BRIDGE_APP_UpdateFromHeartbeat (byte_at (p_Payload p) 6)
                       (byte_at (p_Payload p) 7))] d
         else (d, []))"

definition command_ack_frame ::
    "MAVLINK_BRIDGE_APP_ParserContext \<Rightarrow> MAVLINK_BRIDGE_APP_Data \<Rightarrow> MAVLINK_BRIDGE_APP_Data \<times> out list" where
  "command_ack_frame p d =
     (if get_u16 (p_Payload p) 0 = MAV_CMD_SET_MESSAGE_INTERVAL
      then (if byte_at (p_Payload p) 2 = MAV_RESULT_ACCEPTED
            then d\<lparr> b_StreamRequestAckCount := b_StreamRequestAckCount d + 1 \<rparr> else d,
            [Event BR_STREAM_EID INFORMATION])
      else (d, []))"

text \<open>A frame whose checksum was right counts as a sign of life; then its content is used.\<close>

definition live_frame ::
    "u32 \<Rightarrow> (MAVLINK_BRIDGE_APP_Data \<Rightarrow> MAVLINK_BRIDGE_APP_Data \<times> out list)
       \<Rightarrow> MAVLINK_BRIDGE_APP_Data \<Rightarrow> MAVLINK_BRIDGE_APP_Data \<times> out list" where
  "live_frame RxMs use =
     steps [update (\<lambda>d. d\<lparr> b_LastErrorCode := BRIDGE_ERROR_NONE, b_LastRxTimestampMs := RxMs \<rparr>),
            MAVLINK_BRIDGE_APP_SetLinkState BRIDGE_CONNECTED, use]"

definition telemetry_frame ::
    "MAVLINK_BRIDGE_APP_ParserContext \<Rightarrow> u16 \<Rightarrow> u8 \<Rightarrow> u32
       \<Rightarrow> (MAVLINK_BRIDGE_APP_Data \<Rightarrow> MAVLINK_BRIDGE_APP_Data \<times> out list)
       \<Rightarrow> MAVLINK_BRIDGE_APP_Data \<Rightarrow> MAVLINK_BRIDGE_APP_Data \<times> out list" where
  "telemetry_frame p ReceivedCrc CrcExtra RxMs publish =
     (if ComputeFrameCrc p CrcExtra = ReceivedCrc then live_frame RxMs publish
      else steps [emit [Event BR_PARSE_EID INFORMATION], parse_failed])"

text \<open>The flight controller asks for an item of the mission under upload.\<close>

definition mission_request_frame ::
    "MAVLINK_BRIDGE_APP_ParserContext \<Rightarrow> u32 \<Rightarrow> (u8 \<Rightarrow> MAVLINK_BRIDGE_APP_Data \<Rightarrow> MAVLINK_BRIDGE_APP_Data \<times> out list)
       \<Rightarrow> MAVLINK_BRIDGE_APP_Data \<Rightarrow> MAVLINK_BRIDGE_APP_Data \<times> out list" where
  "mission_request_frame p RxMs send_item d =
     (let Seq = get_u16 (p_Payload p) 0 in
      if b_MissionUploadState d = UPLOAD_ACTIVE \<and> Seq < ucast (b_MissionUploadWpCount d)
      then send_item (ucast Seq) (d\<lparr> b_MissionUploadTimeoutMs := RxMs + MISSION_UPLOAD_TIMEOUT_MS \<rparr>)
      else (d, []))"

definition mission_ack_frame ::
    "MAVLINK_BRIDGE_APP_ParserContext \<Rightarrow> u32 \<Rightarrow> MAVLINK_BRIDGE_APP_Data \<Rightarrow> MAVLINK_BRIDGE_APP_Data \<times> out list" where
  "mission_ack_frame p RxMs d =
     (let Result = (if unat (p_PayloadLen p) \<ge> 3 then byte_at (p_Payload p) 2 else 0) in
      if b_MissionUploadState d \<noteq> UPLOAD_ACTIVE then (d, [])
      else
        let d = d\<lparr> b_MissionUploadState := UPLOAD_IDLE \<rparr>;
            Count = b_MissionUploadWpCount d
        in if Result = MISSION_ACCEPTED then
             prepend [Event BR_MISSION_UPLOAD_INF_EID INFORMATION]
               (let d = d\<lparr> b_MissionUploadSuccessCount := b_MissionUploadSuccessCount d + 1,
                          b_LastUploadResult := UPLOAD_RESULT_SUCCESS, b_LastUploadTimestampMs := RxMs,
                          b_LastUploadWaypointCount := Count, b_ActiveWaypointCount := Count,
                          b_ActiveWaypoint := copy_waypoints (wp_nth (b_MissionPending d)) (unat Count)
                            (b_ActiveWaypoint d) \<rparr>
                in if b_MissionDownloadState d = DOWNLOAD_IDLE then StartFcMissionReadback d else (d, []))
           else (d\<lparr> b_MissionUploadFailCount := b_MissionUploadFailCount d + 1,
                    b_LastUploadResult := UPLOAD_RESULT_NAK \<rparr>,
                 [Event BR_MISSION_UPLOAD_ERR_EID ERROR]))"

definition mission_count_frame ::
    "MAVLINK_BRIDGE_APP_ParserContext \<Rightarrow> u32 \<Rightarrow> MAVLINK_BRIDGE_APP_Data \<Rightarrow> MAVLINK_BRIDGE_APP_Data \<times> out list" where
  "mission_count_frame p RxMs d =
     (let Count = get_u16 (p_Payload p) 0;
          d = d\<lparr> b_MissionDownloadExpectedCount := ucast (if Count > 255 then 255 else Count) \<rparr>
      in prepend [Event BR_MISSION_DOWNLOAD_INF_EID INFORMATION]
          (if Count = 0 then
             steps [update (\<lambda>d. d\<lparr> b_MissionDownloadState := DOWNLOAD_IDLE \<rparr>), SendMissionAckAccepted,
                    emit [Event BR_MISSION_DOWNLOAD_INF_EID INFORMATION], PublishFcMissionReadback] d
           else
             SendMissionRequestIntDownload 0
               (d\<lparr> b_MissionDownloadState := DOWNLOAD_WAIT_ITEM, b_MissionDownloadSeq := 0,
                   b_MissionDownloadTimeoutMs := RxMs + MISSION_DOWNLOAD_TIMEOUT_MS \<rparr>)))"

definition downloaded_waypoint :: "u8 list \<Rightarrow> ROUTE_WAYPOINT" where
  "downloaded_waypoint pl =
     \<lparr> wp_CmdType = ucast (get_u16 pl 30), wp_Param1 = get_u32 pl 0, wp_Param2 = get_u32 pl 4,
       wp_Param3 = get_u32 pl 8, wp_Param4 = get_u32 pl 12, wp_LatE7 = get_u32 pl 16,
       wp_LonE7 = get_u32 pl 20, wp_Z = get_u32 pl 24 \<rparr>"

definition mission_item_frame ::
    "MAVLINK_BRIDGE_APP_ParserContext \<Rightarrow> u32 \<Rightarrow> MAVLINK_BRIDGE_APP_Data \<Rightarrow> MAVLINK_BRIDGE_APP_Data \<times> out list" where
  "mission_item_frame p RxMs d =
     (let Idx = b_MissionDownloadSeq d;
          d = (if unat Idx < ROUTE_MAX_WAYPOINTS
               then d\<lparr> b_MissionDownloadWaypoints :=
                        (b_MissionDownloadWaypoints d)[unat Idx := downloaded_waypoint (p_Payload p)] \<rparr> else d);
          d = d\<lparr> b_MissionDownloadSeq := Idx + 1 \<rparr>
      in prepend [Event BR_MISSION_DOWNLOAD_INF_EID INFORMATION]
          (if b_MissionDownloadSeq d \<ge> b_MissionDownloadExpectedCount d then
             steps [SendMissionAckAccepted, update (\<lambda>d. d\<lparr> b_MissionDownloadState := DOWNLOAD_IDLE \<rparr>),
                    emit [Event BR_MISSION_DOWNLOAD_INF_EID INFORMATION], PublishFcMissionReadback] d
           else
             SendMissionRequestIntDownload (b_MissionDownloadSeq d)
               (d\<lparr> b_MissionDownloadTimeoutMs := RxMs + MISSION_DOWNLOAD_TIMEOUT_MS \<rparr>)))"

definition mission_current_frame ::
    "MAVLINK_BRIDGE_APP_ParserContext \<Rightarrow> MAVLINK_BRIDGE_APP_Data \<Rightarrow> MAVLINK_BRIDGE_APP_Data \<times> out list" where
  "mission_current_frame p =
     update (\<lambda>d. let Seq = get_u16 (p_Payload p) 0 in
               d\<lparr> b_ActiveResumeIndex := ucast (if Seq > 255 then 255 else Seq) \<rparr>)"

text \<open>A frame with a minimal payload length: a wrong checksum and a short payload are one error.\<close>

definition guarded_frame ::
    "MAVLINK_BRIDGE_APP_ParserContext \<Rightarrow> u16 \<Rightarrow> u8 \<Rightarrow> nat
       \<Rightarrow> (MAVLINK_BRIDGE_APP_Data \<Rightarrow> MAVLINK_BRIDGE_APP_Data \<times> out list)
       \<Rightarrow> MAVLINK_BRIDGE_APP_Data \<Rightarrow> MAVLINK_BRIDGE_APP_Data \<times> out list" where
  "guarded_frame p ReceivedCrc CrcExtra MinLen use =
     (if ComputeFrameCrc p CrcExtra = ReceivedCrc \<and> unat (p_PayloadLen p) \<ge> MinLen then use
      else parse_failed)"

definition frame_action ::
    "MAVLINK_BRIDGE_APP_ParserContext \<Rightarrow> u16 \<Rightarrow> u32 \<Rightarrow> MAVLINK_BRIDGE_APP_Data \<Rightarrow> MAVLINK_BRIDGE_APP_Data \<times> out list" where
  "frame_action p crc RxMs d =
     (let MsgId = p_MsgId p in
      if MsgId = MSG_ID_HEARTBEAT \<and> unat (p_PayloadLen p) \<ge> HEARTBEAT_LEN then
        (if ComputeFrameCrc p HEARTBEAT_CRC_EXTRA = crc then heartbeat_frame p RxMs d else parse_failed d)
      else if MsgId = MSG_ID_COMMAND_ACK then guarded_frame p crc COMMAND_ACK_CRC_EXTRA 3 (command_ack_frame p) d
      else if MsgId = MSG_ID_ATTITUDE then telemetry_frame p crc ATTITUDE_CRC_EXTRA RxMs (PublishAttitude p RxMs) d
      else if MsgId = MSG_ID_LOCAL_POSITION_NED then
        telemetry_frame p crc LOCAL_POSITION_NED_CRC_EXTRA RxMs (PublishEkfLocal p RxMs) d
      else if MsgId = MSG_ID_GLOBAL_POSITION_INT then
        telemetry_frame p crc GLOBAL_POSITION_INT_CRC_EXTRA RxMs (PublishGlobalPositionAsLocal p RxMs) d
      else if MsgId = MSG_ID_GPS_RAW_INT then
        telemetry_frame p crc GPS_RAW_INT_CRC_EXTRA RxMs (PublishGpsRaw p RxMs) d
      else if MsgId = MSG_ID_EKF_STATUS_REPORT then
        telemetry_frame p crc EKF_STATUS_CRC_EXTRA RxMs (PublishEkfStatus p RxMs) d
      else if MsgId = MSG_ID_SYS_TIME then
        telemetry_frame p crc SYS_TIME_CRC_EXTRA RxMs (HandleSysTime p RxMs) d
      else if MsgId = MSG_ID_MISSION_REQUEST_INT then
        guarded_frame p crc MISSION_REQUEST_INT_CRC_EXTRA 2 (mission_request_frame p RxMs SendMissionItemInt) d
      else if MsgId = MSG_ID_MISSION_REQUEST then
        steps [emit [Event BR_MISSION_UPLOAD_INF_EID INFORMATION],
               guarded_frame p crc MISSION_REQUEST_CRC_EXTRA 2 (mission_request_frame p RxMs SendMissionItem)] d
      else if MsgId = MSG_ID_MISSION_ACK then
        guarded_frame p crc MISSION_ACK_CRC_EXTRA 2 (mission_ack_frame p RxMs) d
      else if MsgId = MSG_ID_MISSION_COUNT \<and> b_MissionDownloadState d = DOWNLOAD_WAIT_COUNT then
        guarded_frame p crc MISSION_COUNT_CRC_EXTRA 2 (mission_count_frame p RxMs) d
      else if MsgId = MSG_ID_MISSION_ITEM_INT \<and> b_MissionDownloadState d = DOWNLOAD_WAIT_ITEM then
        guarded_frame p crc MISSION_ITEM_INT_CRC_EXTRA 32 (mission_item_frame p RxMs) d
      else if MsgId = MSG_ID_MISSION_CURRENT then
        guarded_frame p crc MISSION_CURRENT_CRC_EXTRA 2 (live_frame RxMs (mission_current_frame p)) d
      else (d, []))"

definition HandleFrameComplete :: "u32 \<Rightarrow> u8 \<Rightarrow> MAVLINK_BRIDGE_APP_Data \<Rightarrow> MAVLINK_BRIDGE_APP_Data \<times> out list" where
  "HandleFrameComplete RxMs CrcHigh d =
     (let p = b_Parser d; ReceivedCrc = push_bit 8 (ucast CrcHigh) OR ucast (p_CrcLow p)
      in steps [frame_action p ReceivedCrc RxMs, update ResetParser] d)"

end
