(* ===== verification/Bridge_Loop.thy ===== *)
theory Bridge_Loop
  imports Bridge_App
begin

text \<open>
  mavlink_bridge_app, third part: the byte-wise frame parser, the commands, the configuration
  and its state file, the service of the serial port, the dispatcher
  (\<^verbatim>\<open>mavlink_bridge_app_dispatch.c\<close>, \<^verbatim>\<open>_cmds.c\<close>) and the main loop
  (\<^verbatim>\<open>mavlink_bridge_app.c\<close>).
\<close>

section \<open>The parser\<close>

text \<open>One byte inside a frame; the byte that completes it is handled by the caller.\<close>

definition parser_step :: "u8 \<Rightarrow> MAVLINK_BRIDGE_APP_ParserContext \<Rightarrow> MAVLINK_BRIDGE_APP_ParserContext" where
  "parser_step Byte p =
     (let after_id = (if p_PayloadLen p = 0 then PARSE_GOT_CRC1 else PARSE_READING_PAYLOAD) in
      case p_State p of
        PARSE_WAIT_STX \<Rightarrow> p
      | PARSE_GOT_LENGTH \<Rightarrow>
          p\<lparr> p_PayloadLen := Byte, p_State := (if p_IsV2 p then PARSE_GOT_INCOMPAT else PARSE_GOT_SEQ) \<rparr>
      | PARSE_GOT_INCOMPAT \<Rightarrow> p\<lparr> p_State := PARSE_GOT_COMPAT \<rparr>
      | PARSE_GOT_COMPAT \<Rightarrow> p\<lparr> p_State := PARSE_GOT_SEQ \<rparr>
      | PARSE_GOT_SEQ \<Rightarrow> p\<lparr> p_Seq := Byte, p_State := PARSE_GOT_SYSID \<rparr>
      | PARSE_GOT_SYSID \<Rightarrow> p\<lparr> p_SysId := Byte, p_State := PARSE_GOT_COMPID \<rparr>
      | PARSE_GOT_COMPID \<Rightarrow> p\<lparr> p_CompId := Byte, p_State := PARSE_GOT_MSGID1 \<rparr>
      | PARSE_GOT_MSGID1 \<Rightarrow>
          p\<lparr> p_MsgId := ucast Byte, p_State := (if p_IsV2 p then PARSE_GOT_MSGID2 else after_id) \<rparr>
      | PARSE_GOT_MSGID2 \<Rightarrow>
          p\<lparr> p_MsgId := p_MsgId p OR push_bit 8 (ucast Byte), p_State := PARSE_GOT_MSGID3 \<rparr>
      | PARSE_GOT_MSGID3 \<Rightarrow>
          p\<lparr> p_MsgId := p_MsgId p OR push_bit 16 (ucast Byte), p_State := after_id \<rparr>
      | PARSE_READING_PAYLOAD \<Rightarrow>
          (let p = p\<lparr> p_Payload := (p_Payload p)[unat (p_PayloadIndex p) := Byte],
                      p_PayloadIndex := p_PayloadIndex p + 1 \<rparr>
           in if p_PayloadIndex p \<ge> p_PayloadLen p then p\<lparr> p_State := PARSE_GOT_CRC1 \<rparr> else p)
      | PARSE_GOT_CRC1 \<Rightarrow> p\<lparr> p_CrcLow := Byte, p_State := PARSE_GOT_CRC2 \<rparr>
      | PARSE_GOT_CRC2 \<Rightarrow> p\<lparr> p_CrcHigh := Byte \<rparr>)"

text \<open>A length byte above 255 is an error in the code; a byte never is.\<close>

definition ProcessReceivedByte ::
    "u8 \<Rightarrow> u32 \<Rightarrow> MAVLINK_BRIDGE_APP_Data \<Rightarrow> MAVLINK_BRIDGE_APP_Data \<times> out list" where
  "ProcessReceivedByte Byte RxMs d =
     (let p = b_Parser d in
      if p_State p = PARSE_WAIT_STX \<and> Byte = MAVLINK_STX_V1
      then (d\<lparr> b_Parser := parser_zero\<lparr> p_IsV2 := False, p_State := PARSE_GOT_LENGTH \<rparr> \<rparr>, [])
      else if p_State p = PARSE_WAIT_STX \<and> Byte = MAVLINK_STX_V2
      then (d\<lparr> b_Parser := parser_zero\<lparr> p_IsV2 := True, p_State := PARSE_GOT_LENGTH \<rparr> \<rparr>, [])
      else if p_State p = PARSE_GOT_LENGTH \<and> unat Byte > MAVLINK_MAX_PAYLOAD_LEN
      then steps [parse_failed, update ResetParser] (d\<lparr> b_Parser := p\<lparr> p_PayloadLen := Byte \<rparr> \<rparr>)
      else
        let d = d\<lparr> b_Parser := parser_step Byte p \<rparr>
        in if p_State p = PARSE_GOT_CRC2 then HandleFrameComplete RxMs Byte d else (d, []))"

definition HandleReceivedBytes ::
    "u8 list \<Rightarrow> u32 \<Rightarrow> MAVLINK_BRIDGE_APP_Data \<Rightarrow> MAVLINK_BRIDGE_APP_Data \<times> out list" where
  "HandleReceivedBytes Buffer TimestampMs =
     steps (update (\<lambda>d. d\<lparr> b_LastRxTimestampMs := TimestampMs,
                          b_BytesReceived := b_BytesReceived d + of_nat (length Buffer),
                          b_LastErrorCode := BRIDGE_ERROR_NONE \<rparr>)
            # map (\<lambda>b. ProcessReceivedByte b TimestampMs) Buffer)"

section \<open>Configuration and state file\<close>

text \<open>The struct as written: magic, version, three reserved bytes, the seven parameters in
  the order of the struct, checksum; 40 bytes.\<close>

definition config_bytes :: "MAVLINK_BRIDGE_APP_ConfigParams \<Rightarrow> u8 list" where
  "config_bytes c =
     put_u32 (bp_AttitudeIntervalUs c) @ put_u32 (bp_LocalPositionIntervalUs c) @
     put_u32 (bp_GlobalPositionIntervalUs c) @ put_u32 (bp_GpsRawIntervalUs c) @
     put_u32 (bp_EkfStatusIntervalUs c) @ put_u32 (bp_ReconnectIntervalMs c) @
     put_u32 (bp_HeartbeatIntervalMs c)"

definition bps_bytes :: "MAVLINK_BRIDGE_APP_PersistentState \<Rightarrow> u8 list" where
  "bps_bytes s = put_u32 (bps_Magic s) @ [bps_ConfigVersion s, 0, 0, 0] @
     config_bytes (bps_ActiveConfig s) @ put_u32 (bps_Checksum s)"

definition bps_of_bytes :: "u8 list \<Rightarrow> MAVLINK_BRIDGE_APP_PersistentState" where
  "bps_of_bytes bs =
     \<lparr> bps_Magic = get_u32 bs 0, bps_ConfigVersion = byte_at bs 4,
       bps_ActiveConfig =
         \<lparr> bp_AttitudeIntervalUs = get_u32 bs 8, bp_LocalPositionIntervalUs = get_u32 bs 12,
           bp_GlobalPositionIntervalUs = get_u32 bs 16, bp_GpsRawIntervalUs = get_u32 bs 20,
           bp_EkfStatusIntervalUs = get_u32 bs 24, bp_ReconnectIntervalMs = get_u32 bs 28,
           bp_HeartbeatIntervalMs = get_u32 bs 32 \<rparr>,
       bps_Checksum = get_u32 bs 36 \<rparr>"

definition MAVLINK_BRIDGE_APP_ComputeStateChecksum :: "MAVLINK_BRIDGE_APP_PersistentState \<Rightarrow> u32" where
  "MAVLINK_BRIDGE_APP_ComputeStateChecksum s =
     (let c = bps_ActiveConfig s in
      bps_Magic s + ucast (bps_ConfigVersion s) +
      bp_AttitudeIntervalUs c + bp_LocalPositionIntervalUs c +
      bp_GlobalPositionIntervalUs c + bp_GpsRawIntervalUs c +
      bp_EkfStatusIntervalUs c + bp_ReconnectIntervalMs c + bp_HeartbeatIntervalMs c)"

definition bridge_file :: "MAVLINK_BRIDGE_APP_Data \<Rightarrow> u8 list" where
  "bridge_file d =
     (let s = \<lparr> bps_Magic = BRIDGE_STATE_MAGIC, bps_ConfigVersion = BRIDGE_CONFIG_VERSION,
                bps_ActiveConfig = b_ActiveConfig d, bps_Checksum = 0 \<rparr>
      in bps_bytes (s\<lparr> bps_Checksum := MAVLINK_BRIDGE_APP_ComputeStateChecksum s \<rparr>))"

definition MAVLINK_BRIDGE_APP_SaveState :: "MAVLINK_BRIDGE_APP_Data \<Rightarrow> out list" where
  "MAVLINK_BRIDGE_APP_SaveState d = save_file BR_STATE_SAVE_FAIL_EID (be_Save (b_Env d)) (bridge_file d)"

definition MAVLINK_BRIDGE_APP_LoadState ::
    "file_read \<Rightarrow> MAVLINK_BRIDGE_APP_Data \<Rightarrow> MAVLINK_BRIDGE_APP_Data \<times> out list" where
  "MAVLINK_BRIDGE_APP_LoadState f d =
     (let corrupt = (d, [Event BR_STATE_CORRUPT_EID ERROR]) in
      case f of
        No_File \<Rightarrow> (d, [])
      | Open_Error \<Rightarrow> corrupt
      | Contents bs \<Rightarrow>
          if length bs < 40 then corrupt
          else let s = bps_of_bytes (take 40 bs) in
            if bps_Magic s \<noteq> BRIDGE_STATE_MAGIC then corrupt
            else if bps_Checksum s \<noteq> MAVLINK_BRIDGE_APP_ComputeStateChecksum s then corrupt
            else if bps_ConfigVersion s \<noteq> BRIDGE_CONFIG_VERSION then corrupt
            else (d\<lparr> b_ActiveConfig := bps_ActiveConfig s \<rparr>, [Event BR_STREAM_EID INFORMATION]))"

definition bridge_exec_result :: "u16 \<Rightarrow> u8 \<Rightarrow> bool \<Rightarrow> u8 \<Rightarrow> out list" where
  "bridge_exec_result SourceSequence CommandClass Success DetailCode =
     [Send (ExecResult \<lparr> er_SourceSequence = SourceSequence, er_SourceApp = source_val SOURCE_MAVLINK_BRIDGE,
        er_CommandClass = CommandClass,
        er_GenericResult = (if Success then EXEC_RESULT_GENERIC_OK else EXEC_RESULT_GENERIC_FAILED),
        er_DetailCode = DetailCode \<rparr>)]"

definition BRIDGE_ConfigChecksum :: "ConfigPayloadHdr \<Rightarrow> u8 list \<Rightarrow> u8 \<Rightarrow> u16" where
  "BRIDGE_ConfigChecksum h vb n =
     foldl (\<lambda>s i. s + ucast (byte_at vb i))
       (ucast (cp_ConfigScope h) + ucast (cp_ConfigVersion h) + (cp_ParameterId h AND 0xFF)
        + (drop_bit 8 (cp_ParameterId h) AND 0xFF) + ucast (cp_ValueType h)
        + ucast (cp_ValueLength h))
       [0..<unat n]"

text \<open>The switch over the parameters: unknown, out of range, or the candidate.\<close>

definition bridge_param_update ::
    "u16 \<Rightarrow> u32 \<Rightarrow> MAVLINK_BRIDGE_APP_ConfigParams
       \<Rightarrow> MAVLINK_BRIDGE_APP_ConfigResult + MAVLINK_BRIDGE_APP_ConfigParams" where
  "bridge_param_update ParameterId Value c =
     (let us = (\<lambda>c'. if Value < PARAM_INTERVAL_MIN_US \<or> Value > PARAM_INTERVAL_MAX_US
                    then Inl BRIDGE_BAD_VALUE else Inr c');
          ms = (\<lambda>c'. if Value < PARAM_MS_MIN \<or> Value > PARAM_MS_MAX then Inl BRIDGE_BAD_VALUE else Inr c')
      in if ParameterId = 0 then us (c\<lparr> bp_AttitudeIntervalUs := Value \<rparr>)
         else if ParameterId = 1 then us (c\<lparr> bp_LocalPositionIntervalUs := Value \<rparr>)
         else if ParameterId = 2 then us (c\<lparr> bp_GlobalPositionIntervalUs := Value \<rparr>)
         else if ParameterId = 3 then us (c\<lparr> bp_GpsRawIntervalUs := Value \<rparr>)
         else if ParameterId = 4 then us (c\<lparr> bp_EkfStatusIntervalUs := Value \<rparr>)
         else if ParameterId = 5 then ms (c\<lparr> bp_ReconnectIntervalMs := Value \<rparr>)
         else if ParameterId = 6 then ms (c\<lparr> bp_HeartbeatIntervalMs := Value \<rparr>)
         else Inl BRIDGE_BAD_PARAM)"

definition low_config :: "MAVLINK_BRIDGE_APP_ConfigParams \<Rightarrow> bool" where
  "low_config c \<longleftrightarrow>
     bp_AttitudeIntervalUs c < PARAM_INTERVAL_MIN_US \<or> bp_LocalPositionIntervalUs c < PARAM_INTERVAL_MIN_US \<or>
     bp_GlobalPositionIntervalUs c < PARAM_INTERVAL_MIN_US \<or> bp_GpsRawIntervalUs c < PARAM_INTERVAL_MIN_US \<or>
     bp_EkfStatusIntervalUs c < PARAM_INTERVAL_MIN_US \<or> bp_ReconnectIntervalMs c < PARAM_MS_MIN \<or>
     bp_HeartbeatIntervalMs c < PARAM_MS_MIN"

definition bridge_config_reject ::
    "MAVLINK_BRIDGE_APP_ConfigResult \<Rightarrow> MAVLINK_BRIDGE_APP_Data \<Rightarrow> MAVLINK_BRIDGE_APP_Data" where
  "bridge_config_reject res d =
     d\<lparr> b_ErrCounter := b_ErrCounter d + 1, b_ConfigPendingState := BRIDGE_CONFIG_REJECTED,
        b_LastConfigResult := bridge_result_val res \<rparr>"

definition MAVLINK_BRIDGE_APP_ProcessConfigCommand ::
    "CONFIG_CMD_TLM \<Rightarrow> MAVLINK_BRIDGE_APP_Data \<Rightarrow> MAVLINK_BRIDGE_APP_Data \<times> out list" where
  "MAVLINK_BRIDGE_APP_ProcessConfigCommand Msg d =
     (let pl = cc_Payload Msg; len = cc_PayloadLength Msg; h = config_hdr pl;
          refuse = (\<lambda>res evs d. (bridge_config_reject res d,
                      evs @ bridge_exec_result (cc_SourceSequence Msg) 1 False (bridge_result_val res)));
          Value = get_u32 pl 8
      in if len < 8 then refuse BRIDGE_BAD_LENGTH [Event BR_COMMAND_ERR_EID ERROR] d
         else if cp_ConfigScope h \<noteq> BRIDGE_CONFIG_SCOPE then (d, [])
         else if cp_ConfigVersion h \<noteq> BRIDGE_CONFIG_VERSION then refuse BRIDGE_BAD_VERSION [] d
         else if cp_ValueLength h \<noteq> 4 \<or> 8 + cp_ValueLength h > len then refuse BRIDGE_BAD_LENGTH [] d
         else if cp_Checksum h \<noteq> BRIDGE_ConfigChecksum h (drop 8 pl) (cp_ValueLength h)
         then refuse BRIDGE_BAD_CHECKSUM [Event BR_COMMAND_ERR_EID ERROR] d
         else
           let d = d\<lparr> b_PendingConfig := b_ActiveConfig d, b_ConfigPendingState := BRIDGE_CONFIG_PENDING \<rparr>
           in case bridge_param_update (cp_ParameterId h) Value (b_PendingConfig d) of
                Inl res \<Rightarrow> refuse res [] d
              | Inr cand \<Rightarrow>
                  let d = d\<lparr> b_PendingConfig := cand \<rparr> in
                  if low_config cand then refuse BRIDGE_BAD_VALUE [] d
                  else let d = d\<lparr> b_PreviousConfig := b_ActiveConfig d, b_ActiveConfig := cand,
                                b_ConfigGeneration := b_ConfigGeneration d + 1,
                                b_ConfigPendingState := BRIDGE_CONFIG_IDLE,
                                b_LastConfigResult := bridge_result_val BRIDGE_OK,
                                b_CmdCounter := b_CmdCounter d + 1, b_StreamRequestPending := 1 \<rparr>
                       in (d, MAVLINK_BRIDGE_APP_SaveState d @ [Event BR_STREAM_EID INFORMATION] @
                              bridge_exec_result (cc_SourceSequence Msg) 1 True (bridge_result_val BRIDGE_OK)))"

section \<open>Commands\<close>

definition MAVLINK_BRIDGE_APP_ReportHousekeeping :: "MAVLINK_BRIDGE_APP_Data \<Rightarrow> out list" where
  "MAVLINK_BRIDGE_APP_ReportHousekeeping d =
     [Send (BridgeHk \<lparr> bh_CommandCounter = b_CmdCounter d, bh_CommandErrorCounter = b_ErrCounter d,
        bh_LinkState = bridge_link_val (b_LinkState d), bh_LastErrorCode = b_LastErrorCode d,
        bh_BytesReceived = b_BytesReceived d, bh_ReconnectAttemptCount = b_ReconnectAttemptCount d,
        bh_ParseErrorCount = b_ParseErrorCount d, bh_NonFiniteValueCount = b_NonFiniteValueCount d,
        bh_LastRxTimestampMs = b_LastRxTimestampMs d,
        bh_MissionUploadSuccessCount = b_MissionUploadSuccessCount d,
        bh_MissionUploadFailCount = b_MissionUploadFailCount d,
        bh_LastUploadTimestampMs = b_LastUploadTimestampMs d,
        bh_LastUploadWaypointCount = b_LastUploadWaypointCount d,
        bh_LastUploadResult = b_LastUploadResult d \<rparr>)]"

definition bridge_count_error :: "MAVLINK_BRIDGE_APP_Data \<Rightarrow> MAVLINK_BRIDGE_APP_Data" where
  "bridge_count_error d = d\<lparr> b_ErrCounter := b_ErrCounter d + 1 \<rparr>"

definition bridge_count_command :: "MAVLINK_BRIDGE_APP_Data \<Rightarrow> MAVLINK_BRIDGE_APP_Data" where
  "bridge_count_command d = d\<lparr> b_CmdCounter := b_CmdCounter d + 1 \<rparr>"

definition MAVLINK_BRIDGE_APP_VerifyCmdLength ::
    "nat \<Rightarrow> nat \<Rightarrow> (MAVLINK_BRIDGE_APP_Data \<Rightarrow> MAVLINK_BRIDGE_APP_Data \<times> out list)
       \<Rightarrow> MAVLINK_BRIDGE_APP_Data \<Rightarrow> MAVLINK_BRIDGE_APP_Data \<times> out list" where
  "MAVLINK_BRIDGE_APP_VerifyCmdLength Actual Expected command =
     (if Actual \<noteq> Expected then (\<lambda>d. (bridge_count_error d, [Event BR_COMMAND_ERR_EID ERROR])) else command)"

definition MAVLINK_BRIDGE_APP_Noop :: "MAVLINK_BRIDGE_APP_Data \<Rightarrow> MAVLINK_BRIDGE_APP_Data \<times> out list" where
  "MAVLINK_BRIDGE_APP_Noop d = (bridge_count_command d, [Event BR_NOOP_EID INFORMATION])"

definition MAVLINK_BRIDGE_APP_ResetCountersCmd ::
    "MAVLINK_BRIDGE_APP_Data \<Rightarrow> MAVLINK_BRIDGE_APP_Data \<times> out list" where
  "MAVLINK_BRIDGE_APP_ResetCountersCmd d =
     (d\<lparr> b_CmdCounter := 0, b_ErrCounter := 0, b_ParseErrorCount := 0 \<rparr>, [Event BR_RESET_EID INFORMATION])"

definition MAVLINK_BRIDGE_APP_MissionQuery ::
    "MAVLINK_BRIDGE_APP_Data \<Rightarrow> MAVLINK_BRIDGE_APP_Data \<times> out list" where
  "MAVLINK_BRIDGE_APP_MissionQuery d =
     (if b_LinkState d \<noteq> BRIDGE_CONNECTED
      then (bridge_count_error d, [Event BR_MISSION_DOWNLOAD_ERR_EID ERROR])
      else steps [with_clock (\<lambda>NowMs. update (begin_download NowMs)), update bridge_count_command,
                  SendMissionRequestList, emit [Event BR_MISSION_DOWNLOAD_INF_EID INFORMATION]] d)"

definition MAVLINK_BRIDGE_APP_ProcessParserResetCmd ::
    "MAVLINK_BRIDGE_APP_Data \<Rightarrow> MAVLINK_BRIDGE_APP_Data \<times> out list" where
  "MAVLINK_BRIDGE_APP_ProcessParserResetCmd d =
     (bridge_count_command (ResetParser d), [Event BR_RESET_EID INFORMATION])"

definition MAVLINK_BRIDGE_APP_ProcessSerialReconnectCmd ::
    "MAVLINK_BRIDGE_APP_Data \<Rightarrow> MAVLINK_BRIDGE_APP_Data \<times> out list" where
  "MAVLINK_BRIDGE_APP_ProcessSerialReconnectCmd =
     steps [update CloseBridgeSerial, (\<lambda>d. snd (OpenSerial d)), update bridge_count_command,
            emit [Event BR_RESET_EID INFORMATION]]"

text \<open>The sub-mode of the flight controller for a flight mode of the ground.\<close>

definition px4_sub_mode :: "u8 \<Rightarrow> int option" where
  "px4_sub_mode FlightMode =
     (if FlightMode = 0 then Some PX4_SUB_MODE_AUTO_LOITER
      else if FlightMode = 1 then Some PX4_SUB_MODE_AUTO_MISSION
      else if FlightMode = 2 then Some PX4_SUB_MODE_AUTO_LAND
      else None)"

definition MAVLINK_BRIDGE_APP_ProcessSetFlightModeCmd ::
    "u8 list \<Rightarrow> MAVLINK_BRIDGE_APP_Data \<Rightarrow> MAVLINK_BRIDGE_APP_Data \<times> out list" where
  "MAVLINK_BRIDGE_APP_ProcessSetFlightModeCmd bs d =
     (let SourceSequence = get_u16 bs 0; FlightMode = byte_at bs 2; WaypointStartIndex = byte_at bs 3 in
      case px4_sub_mode FlightMode of
        None \<Rightarrow> (bridge_count_error d,
          Event BR_COMMAND_ERR_EID ERROR # bridge_exec_result SourceSequence 8 False FlightMode)
      | Some SubMode \<Rightarrow>
          let (ok1, d, o1) = MAVLINK_BRIDGE_APP_SendMavlinkV2 MSG_ID_COMMAND_LONG
                (command_long F32_1 (f32_of_int PX4_MAIN_MODE_AUTO) (f32_of_int SubMode) MAV_CMD_DO_SET_MODE d)
                COMMAND_LONG_CRC_EXTRA d;
              (ok, d, o2) = (if ok1 \<and> FlightMode = 1
                then MAVLINK_BRIDGE_APP_SendMavlinkV2 MSG_ID_MISSION_SET_CURRENT
                       (put_u16 (ucast WaypointStartIndex) @ target d) MISSION_SET_CURRENT_CRC_EXTRA d
                else (ok1, d, []))
          in (if ok then bridge_count_command d else bridge_count_error d,
              o1 @ o2 @ [Event BR_SET_FLIGHT_MODE_EID (if ok then INFORMATION else ERROR)] @
              bridge_exec_result SourceSequence 8 ok FlightMode))"

definition bridge_command ::
    "u8 \<Rightarrow> u8 list \<Rightarrow> MAVLINK_BRIDGE_APP_Data \<Rightarrow> MAVLINK_BRIDGE_APP_Data \<times> out list" where
  "bridge_command CommandCode bs =
     (let verified = MAVLINK_BRIDGE_APP_VerifyCmdLength (length bs) in
      if CommandCode = BRIDGE_NOOP_CC then verified 0 MAVLINK_BRIDGE_APP_Noop
      else if CommandCode = BRIDGE_RESET_COUNTERS_CC then verified 0 MAVLINK_BRIDGE_APP_ResetCountersCmd
      else if CommandCode = MISSION_QUERY_CC then verified 0 MAVLINK_BRIDGE_APP_MissionQuery
      else if CommandCode = PARSER_RESET_CC then verified 0 MAVLINK_BRIDGE_APP_ProcessParserResetCmd
      else if CommandCode = SERIAL_RECONNECT_CC then verified 0 MAVLINK_BRIDGE_APP_ProcessSerialReconnectCmd
      else if CommandCode = SET_FLIGHT_MODE_CC then verified 4 (MAVLINK_BRIDGE_APP_ProcessSetFlightModeCmd bs)
      else (\<lambda>d. (bridge_count_error d, [Event BR_COMMAND_ERR_EID ERROR])))"

text \<open>A function code that cannot be read is left as it was on the stack; the model takes 0.\<close>

definition MAVLINK_BRIDGE_APP_TaskPipe ::
    "sb_msg \<Rightarrow> MAVLINK_BRIDGE_APP_Data \<Rightarrow> MAVLINK_BRIDGE_APP_Data \<times> out list" where
  "MAVLINK_BRIDGE_APP_TaskPipe msg d =
     (let invalid = (bridge_count_error d, [Event BR_COMMAND_ERR_EID ERROR]) in
      case msg of
        Command mid fcn bs \<Rightarrow>
          if mid = BRIDGE_SEND_HK_MID then (d, MAVLINK_BRIDGE_APP_ReportHousekeeping d)
          else if mid = MAVLINK_BRIDGE_CMD_MID
          then bridge_command (case fcn of None \<Rightarrow> 0 | Some c \<Rightarrow> c) bs d
          else invalid
      | RouteUpdate m \<Rightarrow> MAVLINK_BRIDGE_APP_StartMissionUpload m d
      | ConfigCmd m \<Rightarrow> MAVLINK_BRIDGE_APP_ProcessConfigCommand m d
      | _ \<Rightarrow> invalid)"

section \<open>Service of the serial port\<close>

text \<open>The read loop: at most 32 reads that gave data.  Result: whether data came, and the read
  that ended the loop.  Interruptions do not count; the results listed for one turn are finite,
  and a read that gives data gives between 1 and 256 bytes.\<close>

fun read_loop ::
    "read_result list \<Rightarrow> nat \<Rightarrow> u32 \<Rightarrow> MAVLINK_BRIDGE_APP_Data
       \<Rightarrow> read_result \<times> MAVLINK_BRIDGE_APP_Data \<times> out list" where
  "read_loop [] n NowMs d = (Rd_Nothing, d, [])"
| "read_loop (r # rs) n NowMs d =
     (if n \<ge> MAX_READS_PER_SERVICE then (Rd_Bytes [], d, [])
      else case r of
        Rd_Bytes bs \<Rightarrow> (let (d, os) = HandleReceivedBytes bs NowMs d; (l, x) = read_loop rs (Suc n) NowMs d
                       in (l, prepend os x))
      | Rd_Interrupted \<Rightarrow> read_loop rs n NowMs d
      | _ \<Rightarrow> (r, d, []))"

fun saw_data :: "read_result list \<Rightarrow> bool" where
  "saw_data (Rd_Bytes bs # rs) = True"
| "saw_data (Rd_Interrupted # rs) = saw_data rs"
| "saw_data _ = False"

definition retry_readback :: "u32 \<Rightarrow> MAVLINK_BRIDGE_APP_Data \<Rightarrow> MAVLINK_BRIDGE_APP_Data \<times> out list" where
  "retry_readback NowMs d =
     (if b_MissionReadbackPending d \<noteq> 0 \<and> reached NowMs (b_MissionReadbackNextRetryMs d) \<and>
         b_LinkState d = BRIDGE_CONNECTED \<and> b_MissionUploadState d = UPLOAD_IDLE \<and>
         b_MissionDownloadState d = DOWNLOAD_IDLE
      then StartFcMissionReadback d else (d, []))"

definition request_streams :: "u32 \<Rightarrow> MAVLINK_BRIDGE_APP_Data \<Rightarrow> MAVLINK_BRIDGE_APP_Data \<times> out list" where
  "request_streams NowMs d =
     (if b_TargetSystemId d \<noteq> 0 \<and> NowMs - b_LastStreamRequestMs d \<ge> STREAM_REQUEST_RETRY_MS \<and>
         b_MissionUploadState d = UPLOAD_IDLE
      then MAVLINK_BRIDGE_APP_RequestTelemetryStreams (d\<lparr> b_StreamRequestPending := 1 \<rparr>)
      else if b_StreamRequestPending d \<noteq> 0 \<and> b_TargetSystemId d = 0 \<and>
         NowMs - b_TargetDiscoveryStartMs d \<ge> TARGET_DISCOVERY_TIMEOUT_MS
      then (d\<lparr> b_TargetDiscoveryStartMs := NowMs \<rparr>, [Event BR_STREAM_EID INFORMATION])
      else (d, []))"

definition reconnect :: "u32 \<Rightarrow> MAVLINK_BRIDGE_APP_Data \<Rightarrow> MAVLINK_BRIDGE_APP_Data \<times> out list" where
  "reconnect NowMs d =
     (if NowMs - b_LastReconnectAttemptMs d \<ge> bp_ReconnectIntervalMs (b_ActiveConfig d) then
        steps [update (\<lambda>d. d\<lparr> b_LastReconnectAttemptMs := NowMs,
                             b_ReconnectAttemptCount := b_ReconnectAttemptCount d + 1 \<rparr>),
               MAVLINK_BRIDGE_APP_SetLinkState BRIDGE_DISCONNECTED,
               (\<lambda>d. let (ok, d, os) = OpenSerial d
                    in (d, os @ (if ok then [] else [Event BR_LINK_EID INFORMATION])))] d
      else (d, []))"

text \<open>What follows when no read gave data: the stale check, or the port is closed.\<close>

definition after_reads ::
    "bool \<Rightarrow> read_result \<Rightarrow> u32 \<Rightarrow> MAVLINK_BRIDGE_APP_Data \<Rightarrow> MAVLINK_BRIDGE_APP_Data \<times> out list" where
  "after_reads SawData LastRead NowMs d =
     (if SawData then (d, [])
      else if LastRead = Rd_Nothing then
        (if NowMs - b_LastRxTimestampMs d \<ge> STALE_TIMEOUT_MS then
           steps [update (\<lambda>d. MarkOutputsStale (d\<lparr> b_LastErrorCode := BRIDGE_ERROR_READ_TIMEOUT \<rparr>)),
                  MAVLINK_BRIDGE_APP_SetLinkState BRIDGE_DEGRADED] d
         else (d, []))
      else
        steps [update (\<lambda>d. MarkOutputsStale (d\<lparr> b_LastErrorCode := BRIDGE_ERROR_LINK_DOWN \<rparr>)),
               MAVLINK_BRIDGE_APP_SetLinkState BRIDGE_DISCONNECTED,
               emit [Event BR_LINK_EID INFORMATION], update CloseBridgeSerial] d)"

definition read_port :: "u32 \<Rightarrow> MAVLINK_BRIDGE_APP_Data \<Rightarrow> MAVLINK_BRIDGE_APP_Data \<times> out list" where
  "read_port NowMs d =
     (let rs = be_Reads (b_Env d);
          (LastRead, d, os) = read_loop rs 0 NowMs (d\<lparr> b_Env := (b_Env d)\<lparr> be_Reads := [] \<rparr> \<rparr>)
      in prepend os (after_reads (saw_data rs) LastRead NowMs d))"

definition MAVLINK_BRIDGE_APP_ServiceSerial ::
    "MAVLINK_BRIDGE_APP_Data \<Rightarrow> MAVLINK_BRIDGE_APP_Data \<times> out list" where
  "MAVLINK_BRIDGE_APP_ServiceSerial =
     with_clock (\<lambda>NowMs d.
       if \<not> b_PortOpen d then reconnect NowMs d
       else steps [SendCompanionHeartbeat NowMs, request_streams NowMs, CheckMissionUploadTimeout NowMs,
                   CheckMissionDownloadTimeout NowMs, retry_readback NowMs, read_port NowMs] d)"

section \<open>Start-up and main loop\<close>

definition bridge_default_config :: MAVLINK_BRIDGE_APP_ConfigParams where
  "bridge_default_config =
     \<lparr> bp_AttitudeIntervalUs = 200000, bp_LocalPositionIntervalUs = 200000,
       bp_GlobalPositionIntervalUs = 200000, bp_GpsRawIntervalUs = 500000,
       bp_EkfStatusIntervalUs = 500000, bp_ReconnectIntervalMs = 1000, bp_HeartbeatIntervalMs = 1000 \<rparr>"

definition fc_prefix_zero :: FC_STATE_PREFIX where
  "fc_prefix_zero = \<lparr> fc_TimestampMs = 0, fc_Seq = 0, fc_Valid = 0, fc_Stale = 0, fc_ErrorCode = 0 \<rparr>"

definition bridge_initial :: "bridge_env \<Rightarrow> MAVLINK_BRIDGE_APP_Data" where
  "bridge_initial e =
     \<lparr> b_CmdCounter = 0, b_ErrCounter = 0, b_RunStatus = APP_RUN, b_SequenceCounter = 0,
       b_LastRxTimestampMs = 0, b_LastReconnectAttemptMs = 0, b_LastHeartbeatTxMs = 0,
       b_LastStreamRequestMs = 0, b_TargetDiscoveryStartMs = 0, b_LastAttitudeRxMs = 0,
       b_LastEkfLocalRxMs = 0, b_LastGpsRawRxMs = 0, b_LastEkfStatusRxMs = 0, b_LastSysTimeRxMs = 0,
       b_LastSysTimeUnixUsec = 0, b_ReconnectAttemptCount = 0, b_ParseErrorCount = 0,
       b_NonFiniteValueCount = 0, b_BytesReceived = 0, b_PortOpen = False, b_TargetSystemId = 0,
       b_TargetComponentId = 0, b_StreamRequestPending = 0, b_StreamRequestAckCount = 0,
       b_LinkState = BRIDGE_DISCONNECTED, b_LastErrorCode = 0, b_MissionUploadState = UPLOAD_IDLE,
       b_MissionUploadRetry = 0, b_MissionUploadWpCount = 0, b_MissionUploadTimeoutMs = 0,
       b_MissionUploadSuccessCount = 0, b_MissionUploadFailCount = 0, b_LastUploadTimestampMs = 0,
       b_LastUploadWaypointCount = 0, b_LastUploadResult = 0,
       b_MissionPending = replicate ROUTE_MAX_WAYPOINTS wp_zero,
       b_ActiveWaypoint = replicate ROUTE_MAX_WAYPOINTS wp_zero, b_ActiveWaypointCount = 0,
       b_ActiveResumeIndex = 0, b_MissionDownloadState = DOWNLOAD_IDLE, b_MissionDownloadSeq = 0,
       b_MissionDownloadExpectedCount = 0, b_MissionDownloadTimeoutMs = 0,
       b_MissionDownloadWaypoints = replicate ROUTE_MAX_WAYPOINTS wp_zero, b_MissionReadbackPending = 0,
       b_MissionReadbackBackoffMs = 1000, b_MissionReadbackNextRetryMs = 0, b_MissionReadbackSeq = 0,
       b_FcMissionReadbackWaypoints = replicate ROUTE_MAX_WAYPOINTS wp_zero, b_FcBaseMode = 0,
       b_FcSystemStatus = 0, b_IsArmed = 0, b_ConfigPendingState = BRIDGE_CONFIG_IDLE,
       b_LastConfigResult = 0, b_ConfigGeneration = 0, b_ActiveConfig = bridge_default_config,
       b_PendingConfig = bridge_default_config, b_PreviousConfig = bridge_default_config,
       b_EkfLocalTlm = FC_STATE_PREFIX.extend fc_prefix_zero
         (FC_EKF_LOCAL_TLM.fields 0 0 0 0 0 0),
       b_AttitudeTlm = FC_STATE_PREFIX.extend fc_prefix_zero
         (FC_ATTITUDE_TLM.fields 0 0 0 0 0 0),
       b_GpsRawTlm = FC_STATE_PREFIX.extend fc_prefix_zero (FC_GPS_RAW_TLM.fields 0 0 0 0 0),
       b_EkfStatusTlm = FC_STATE_PREFIX.extend fc_prefix_zero (FC_EKF_STATUS_TLM.fields 0),
       b_SysTimeTlm = FC_STATE_PREFIX.extend fc_prefix_zero (FC_SYS_TIME_TLM.fields 0),
       b_Parser = parser_zero, b_TxSequence = 0, b_Env = e \<rparr>"

text \<open>The event service must be registered before the state file is read; the packets, the pipe
  and its subscriptions come after.\<close>

definition MAVLINK_BRIDGE_APP_Init ::
    "bool \<Rightarrow> bool \<Rightarrow> file_read \<Rightarrow> bridge_env \<Rightarrow> bool \<times> MAVLINK_BRIDGE_APP_Data \<times> out list" where
  "MAVLINK_BRIDGE_APP_Init evs_ok pipe_ok f e =
     (if \<not> evs_ok then (False, bridge_initial e, [])
      else let (d, os) = MAVLINK_BRIDGE_APP_LoadState f (bridge_initial e)
           in if \<not> pipe_ok then (False, d, os)
              else (True, d, os @ [Event BR_STARTUP_EID INFORMATION]))"

text \<open>One turn: a message, a time-out of the pipe or an error of it, with what the platform
  gives during the turn.\<close>

datatype bridge_input = Bridge_Msg sb_msg | Bridge_Timeout | Bridge_Pipe_Error

definition bridge_turn ::
    "bridge_input \<times> bridge_env \<Rightarrow> MAVLINK_BRIDGE_APP_Data \<Rightarrow> MAVLINK_BRIDGE_APP_Data \<times> out list" where
  "bridge_turn i d =
     (let d = d\<lparr> b_Env := snd i \<rparr> in
      case fst i of
        Bridge_Msg m \<Rightarrow> steps [MAVLINK_BRIDGE_APP_TaskPipe m, MAVLINK_BRIDGE_APP_ServiceSerial] d
      | Bridge_Timeout \<Rightarrow> MAVLINK_BRIDGE_APP_ServiceSerial d
      | Bridge_Pipe_Error \<Rightarrow> (d\<lparr> b_RunStatus := APP_ERROR \<rparr>, [Event BR_COMMAND_ERR_EID ERROR]))"

fun bridge_loop ::
    "(bridge_input \<times> bridge_env) list \<Rightarrow> MAVLINK_BRIDGE_APP_Data \<Rightarrow> MAVLINK_BRIDGE_APP_Data \<times> out list" where
  "bridge_loop [] d = (d, [])"
| "bridge_loop (i # ins) d =
     (if b_RunStatus d \<noteq> APP_RUN then (d, [])
      else let (d, os) = bridge_turn i d in prepend os (bridge_loop ins d))"

definition MAV_BRIDGE_APP_Main ::
    "bool \<Rightarrow> bool \<Rightarrow> file_read \<Rightarrow> bridge_env \<Rightarrow> (bridge_input \<times> bridge_env) list
       \<Rightarrow> MAVLINK_BRIDGE_APP_Data \<times> out list" where
  "MAV_BRIDGE_APP_Main evs_ok pipe_ok f e ins =
     (let (ok, d, os) = MAVLINK_BRIDGE_APP_Init evs_ok pipe_ok f e;
          d = (if ok then d else d\<lparr> b_RunStatus := APP_ERROR \<rparr>)
      in prepend os (bridge_loop ins d))"

end
