(* ===== verification/Bridge_Safe.thy ===== *)
theory Bridge_Safe
  imports Bridge_Loop
begin

text \<open>
  What every step of mavlink_bridge_app keeps, whatever arrives and whatever the platform does:
  the sizes of its arrays and the bounds of every index into them (\<^verbatim>\<open>bridge_ok\<close>), the shape of
  what it sends, the numbering of the state packets, and that its mission is the result of
  applying some of the route commands of the ground (\<^verbatim>\<open>obtainable\<close>).  The four are one relation
  between the states before and after and the outputs, which composes along a run (locale
  \<^verbatim>\<open>step_rel\<close>); most operations satisfy it because they touch none of the fields it reads.
\<close>

section \<open>The invariant\<close>

definition parser_ok :: "MAVLINK_BRIDGE_APP_ParserContext \<Rightarrow> bool" where
  "parser_ok p \<longleftrightarrow> length (p_Payload p) = MAVLINK_MAX_PAYLOAD_LEN \<and>
     (p_State p \<in> {PARSE_GOT_LENGTH, PARSE_GOT_INCOMPAT, PARSE_GOT_COMPAT, PARSE_GOT_SEQ, PARSE_GOT_SYSID,
        PARSE_GOT_COMPID, PARSE_GOT_MSGID1, PARSE_GOT_MSGID2, PARSE_GOT_MSGID3} \<longrightarrow> p_PayloadIndex p = 0) \<and>
     (p_State p = PARSE_READING_PAYLOAD \<longrightarrow> p_PayloadIndex p < p_PayloadLen p)"

definition bridge_ok :: "MAVLINK_BRIDGE_APP_Data \<Rightarrow> bool" where
  "bridge_ok d \<longleftrightarrow>
     length (b_MissionPending d) = ROUTE_MAX_WAYPOINTS \<and> length (b_ActiveWaypoint d) = ROUTE_MAX_WAYPOINTS \<and>
     length (b_MissionDownloadWaypoints d) = ROUTE_MAX_WAYPOINTS \<and>
     length (b_FcMissionReadbackWaypoints d) = ROUTE_MAX_WAYPOINTS \<and>
     unat (b_MissionUploadWpCount d) \<le> ROUTE_MAX_WAYPOINTS \<and>
     unat (b_ActiveWaypointCount d) \<le> ROUTE_MAX_WAYPOINTS \<and>
     b_MissionUploadRetry d \<le> MISSION_MAX_RETRIES \<and>
     (b_MissionDownloadState d = DOWNLOAD_WAIT_ITEM \<longrightarrow> b_MissionDownloadSeq d < b_MissionDownloadExpectedCount d) \<and>
     READBACK_BACKOFF_INITIAL_MS \<le> b_MissionReadbackBackoffMs d \<and>
     b_MissionReadbackBackoffMs d \<le> READBACK_BACKOFF_CAP_MS \<and>
     parser_ok (b_Parser d)"

section \<open>What is sent\<close>

text \<open>The sequence number of a state packet of the flight controller.\<close>

fun fc_number :: "sb_msg \<Rightarrow> u32 option" where
  "fc_number (FcAttitude m) = Some (fc_Seq m)"
| "fc_number (FcEkfLocal m) = Some (fc_Seq m)"
| "fc_number (FcGpsRaw m) = Some (fc_Seq m)"
| "fc_number (FcEkfStatus m) = Some (fc_Seq m)"
| "fc_number (FcSysTime m) = Some (fc_Seq m)"
| "fc_number _ = None"

definition fc_numbers :: "out list \<Rightarrow> u32 list" where
  "fc_numbers os = List.map_filter fc_number (sent os)"

lemma fc_numbers_simps [simp]:
  "fc_numbers [] = []"
  "fc_numbers (xs @ ys) = fc_numbers xs @ fc_numbers ys"
  "fc_numbers (Event e t # os) = fc_numbers os"
  "fc_numbers (StateFile bs # os) = fc_numbers os"
  "fc_numbers (Serial bs # os) = fc_numbers os"
  "fc_numbers (Restart a # os) = fc_numbers os"
  "fc_numbers (Send m # os) = (case fc_number m of None \<Rightarrow> [] | Some n \<Rightarrow> [n]) @ fc_numbers os"
  by (simp_all add: fc_numbers_def List.map_filter_def split: option.splits)

fun count_up :: "u32 \<Rightarrow> u32 list \<Rightarrow> u32 \<Rightarrow> bool" where
  "count_up a [] b \<longleftrightarrow> a = b"
| "count_up a (n # ns) b \<longleftrightarrow> n = a + 1 \<and> count_up n ns b"

lemma count_up_append: "count_up a xs b \<Longrightarrow> count_up b ys c \<Longrightarrow> count_up a (xs @ ys) c"
  by (induction xs arbitrary: a) auto

text \<open>The packets the application owns.\<close>

fun bridge_packet :: "sb_msg \<Rightarrow> bool" where
  "bridge_packet (BridgeHk t) = True"
| "bridge_packet (FcAttitude t) = True"
| "bridge_packet (FcEkfLocal t) = True"
| "bridge_packet (FcGpsRaw t) = True"
| "bridge_packet (FcEkfStatus t) = True"
| "bridge_packet (FcSysTime t) = True"
| "bridge_packet (FcMissionReadback t) = True"
| "bridge_packet (ExecResult t) = True"
| "bridge_packet _ = False"

text \<open>A frame fits the transmit buffer; a read-back packet is filled within its array; no packet of
  another application is sent.\<close>

fun out_ok :: "out \<Rightarrow> bool" where
  "out_ok (Serial bs) \<longleftrightarrow> bs \<noteq> [] \<and> length bs \<le> MAVLINK_MAX_FRAME_LEN"
| "out_ok (Send (FcMissionReadback m)) \<longleftrightarrow>
     unat (ru_WaypointCount m) \<le> ROUTE_MAX_WAYPOINTS \<and> length (ru_Waypoints m) = ROUTE_MAX_WAYPOINTS"
| "out_ok (Send m) \<longleftrightarrow> bridge_packet m"
| "out_ok _ \<longleftrightarrow> True"

section \<open>The mission\<close>

text \<open>The array of 37 waypoints in a route packet, and the effect of a route command on the list
  of waypoints of a mission.\<close>

definition route_array :: "ROUTE_UPDATE_TLM \<Rightarrow> ROUTE_WAYPOINT list" where
  "route_array m = map (wp_nth (ru_Waypoints m)) [0..<ROUTE_MAX_WAYPOINTS]"

definition edit_mission :: "ROUTE_UPDATE_TLM \<Rightarrow> ROUTE_WAYPOINT list \<Rightarrow> ROUTE_WAYPOINT list option" where
  "edit_mission m ws =
     (let n = unat (ru_WaypointCount m) in
      if ru_RouteType m = ROUTE_OP_ADD then Some (take ROUTE_MAX_WAYPOINTS (ws @ take n (route_array m)))
      else if ru_RouteType m = ROUTE_OP_DELETE
      then (if n < length ws then Some (take n ws @ drop (Suc n) ws) else None)
      else if ru_RouteType m = ROUTE_OP_MODIFY
      then (if n < length ws then Some (ws[n := route_array m ! 0]) else None)
      else Some (take n (route_array m)))"

lemma edit_mission_length:
  "edit_mission m ws = Some ws' \<Longrightarrow> length ws \<le> ROUTE_MAX_WAYPOINTS \<Longrightarrow> length ws' \<le> ROUTE_MAX_WAYPOINTS"
  by (auto simp: edit_mission_def route_array_def Let_def split: if_splits)

text \<open>The missions that come from applying some of the commands, in order, each as a whole.\<close>

inductive obtainable :: "ROUTE_UPDATE_TLM list \<Rightarrow> ROUTE_WAYPOINT list \<Rightarrow> bool" where
  none: "obtainable [] []"
| ignored: "obtainable ms ws \<Longrightarrow> obtainable (ms @ [m]) ws"
| applied: "obtainable ms ws \<Longrightarrow> edit_mission m ws = Some ws' \<Longrightarrow> obtainable (ms @ [m]) ws'"

lemma obtainable_length: "obtainable ms ws \<Longrightarrow> length ws \<le> ROUTE_MAX_WAYPOINTS"
  by (induction rule: obtainable.induct) (auto dest: edit_mission_length)

lemma obtainable_append: "obtainable ms ws \<Longrightarrow> obtainable (ms @ ns) ws"
proof (induction ns rule: rev_induct)
  case (snoc n ns)
  then show ?case using obtainable.ignored[of "ms @ ns" ws n] by simp
qed simp

definition active_mission :: "MAVLINK_BRIDGE_APP_Data \<Rightarrow> ROUTE_WAYPOINT list" where
  "active_mission d = take (unat (b_ActiveWaypointCount d)) (b_ActiveWaypoint d)"

definition pending_mission :: "MAVLINK_BRIDGE_APP_Data \<Rightarrow> ROUTE_WAYPOINT list" where
  "pending_mission d = take (unat (b_MissionUploadWpCount d)) (b_MissionPending d)"

definition mission_ok :: "ROUTE_UPDATE_TLM list \<Rightarrow> MAVLINK_BRIDGE_APP_Data \<Rightarrow> bool" where
  "mission_ok ms d \<longleftrightarrow> obtainable ms (active_mission d) \<and>
     (b_MissionUploadState d \<noteq> UPLOAD_IDLE \<longrightarrow> obtainable ms (pending_mission d))"

section \<open>The relation\<close>

definition step_ok :: "MAVLINK_BRIDGE_APP_Data \<Rightarrow> MAVLINK_BRIDGE_APP_Data \<Rightarrow> out list \<Rightarrow> bool" where
  "step_ok d d' os \<longleftrightarrow> (bridge_ok d \<longrightarrow>
     bridge_ok d' \<and> list_all out_ok os \<and>
     count_up (b_SequenceCounter d) (fc_numbers os) (b_SequenceCounter d') \<and>
     (\<forall>ms. mission_ok ms d \<longrightarrow> mission_ok ms d'))"

interpretation safe: step_rel step_ok
  by unfold_locales (auto simp: step_ok_def intro: count_up_append)

text \<open>Fields the relation reads, and outputs it does not care about.\<close>

definition same_view :: "MAVLINK_BRIDGE_APP_Data \<Rightarrow> MAVLINK_BRIDGE_APP_Data \<Rightarrow> bool" where
  "same_view d d' \<longleftrightarrow>
     b_SequenceCounter d' = b_SequenceCounter d \<and> b_MissionUploadState d' = b_MissionUploadState d \<and>
     b_MissionUploadRetry d' = b_MissionUploadRetry d \<and> b_MissionUploadWpCount d' = b_MissionUploadWpCount d \<and>
     b_MissionPending d' = b_MissionPending d \<and> b_ActiveWaypoint d' = b_ActiveWaypoint d \<and>
     b_ActiveWaypointCount d' = b_ActiveWaypointCount d \<and>
     b_MissionDownloadState d' = b_MissionDownloadState d \<and> b_MissionDownloadSeq d' = b_MissionDownloadSeq d \<and>
     b_MissionDownloadExpectedCount d' = b_MissionDownloadExpectedCount d \<and>
     b_MissionDownloadWaypoints d' = b_MissionDownloadWaypoints d \<and>
     b_MissionReadbackBackoffMs d' = b_MissionReadbackBackoffMs d \<and>
     b_FcMissionReadbackWaypoints d' = b_FcMissionReadbackWaypoints d \<and> b_Parser d' = b_Parser d"

fun quiet_out :: "out \<Rightarrow> bool" where
  "quiet_out (Serial bs) \<longleftrightarrow> bs \<noteq> [] \<and> length bs \<le> MAVLINK_MAX_FRAME_LEN"
| "quiet_out (Send m) \<longleftrightarrow> bridge_packet m \<and> fc_number m = None \<and> (\<forall>r. m \<noteq> FcMissionReadback r)"
| "quiet_out _ \<longleftrightarrow> True"

lemma quiet_outs: "list_all quiet_out os \<Longrightarrow> list_all out_ok os \<and> fc_numbers os = []"
proof (induction os)
  case (Cons x os)
  have "quiet_out x \<Longrightarrow> out_ok x" by (cases x rule: out_ok.cases) simp_all
  with Cons show ?case by (cases x) simp_all
qed simp

lemma quiet_step: "same_view d d' \<Longrightarrow> list_all quiet_out os \<Longrightarrow> step_ok d d' os"
  using quiet_outs[of os]
  by (simp add: same_view_def step_ok_def bridge_ok_def mission_ok_def active_mission_def pending_mission_def)

definition quiet :: "(MAVLINK_BRIDGE_APP_Data \<Rightarrow> MAVLINK_BRIDGE_APP_Data \<times> out list) \<Rightarrow> bool" where
  "quiet f \<longleftrightarrow> (\<forall>d. same_view d (fst (f d)) \<and> list_all quiet_out (snd (f d)))"

lemma quietI: "(\<And>d. same_view d (fst (f d)) \<and> list_all quiet_out (snd (f d))) \<Longrightarrow> quiet f"
  by (simp add: quiet_def)

lemma quietD: "quiet f \<Longrightarrow> same_view d (fst (f d)) \<and> list_all quiet_out (snd (f d))"
  by (simp add: quiet_def)

lemma quiet_safe: "quiet f \<Longrightarrow> safe.step f"
  by (rule safe.stepI) (simp add: quiet_step quietD)

lemma same_view_refl [simp]: "same_view d d"
  by (simp add: same_view_def)

lemma same_view_trans: "same_view d d' \<Longrightarrow> same_view d' d'' \<Longrightarrow> same_view d d''"
  by (simp add: same_view_def)

lemma quiet_steps: "list_all quiet fs \<Longrightarrow> quiet (steps fs)"
proof (rule quietI)
  fix d assume "list_all quiet fs"
  then show "same_view d (fst (steps fs d)) \<and> list_all quiet_out (snd (steps fs d))"
    by (induction fs arbitrary: d) (auto dest: quietD intro: same_view_trans)
qed

lemma quiet_emit [simp]: "list_all quiet_out os \<Longrightarrow> quiet (emit os)"
  by (simp add: quiet_def emit_def)

lemma quiet_update: "(\<And>d. same_view d (f d)) \<Longrightarrow> quiet (update f)"
  by (simp add: quiet_def update_def)

section \<open>Transmission\<close>

lemma write_all_written:
  "write_all ws bs = (ok, out, ws') \<Longrightarrow> length out \<le> length bs \<and> (ok \<longrightarrow> out = bs)"
  by (induction ws bs arbitrary: ok out ws' rule: write_all.induct)
    (auto split: if_splits prod.splits simp: Let_def)

lemma write_all_none: "write_all [] bs = (True, bs, [])"
  by (cases bs) simp_all

lemma length_mav_frame: "length (mav_frame s y c m pl x) = 12 + length pl"
  by (simp add: mav_frame_def mav_body_def Let_def)

lemma SendMavlinkV2_quiet:
  "same_view d (fst (snd (MAVLINK_BRIDGE_APP_SendMavlinkV2 m pl x d))) \<and>
   list_all quiet_out (snd (snd (MAVLINK_BRIDGE_APP_SendMavlinkV2 m pl x d)))"
proof -
  let ?fr = "mav_frame (b_TxSequence d) MAVLINK_SYSTEM_ID MAVLINK_COMPONENT_ID m pl x"
  obtain ok out ws where w: "write_all (be_Writes (b_Env d)) ?fr = (ok, out, ws)"
    by (cases "write_all (be_Writes (b_Env d)) ?fr") auto
  show ?thesis
    using write_all_written[OF w] length_mav_frame[of "b_TxSequence d" MAVLINK_SYSTEM_ID MAVLINK_COMPONENT_ID m pl x]
    by (simp add: MAVLINK_BRIDGE_APP_SendMavlinkV2_def w same_view_def)
qed

lemma send_mavlink_quiet: "quiet (send_mavlink m pl x)"
  by (rule quietI) (simp add: send_mavlink_def SendMavlinkV2_quiet)

lemma clock_quiet: "(\<And>t. quiet (f t)) \<Longrightarrow> quiet (with_clock f)"
proof (rule quietI)
  fix d assume f: "\<And>t. quiet (f t)"
  have "same_view d (snd (read_clock d))"
    by (simp add: read_clock_def same_view_def Let_def split: list.split)
  then show "same_view d (fst (with_clock f d)) \<and> list_all quiet_out (snd (with_clock f d))"
    using quietD[OF f[of "fst (read_clock d)"], of "snd (read_clock d)"]
    by (auto simp: with_clock_def case_prod_unfold Let_def intro: same_view_trans)
qed

lemma clock_safe: "(\<And>t. safe.step (f t)) \<Longrightarrow> safe.step (with_clock f)"
proof (rule safe.stepI)
  fix d assume f: "\<And>t. safe.step (f t)"
  have "step_ok d (snd (read_clock d)) []"
    by (rule quiet_step) (simp_all add: read_clock_def same_view_def Let_def split: list.split)
  from safe.trans[OF this safe.stepD[OF f[of "fst (read_clock d)"]]]
  show "step_ok d (fst (with_clock f d)) (snd (with_clock f d))"
    by (simp add: with_clock_def case_prod_unfold Let_def)
qed

lemma senders_quiet:
  "quiet SendMissionClearAll" "quiet (SendMissionCount n)" "quiet (SendMissionItemInt s)"
  "quiet (SendMissionItem s)" "quiet SendMissionRequestList" "quiet (SendMissionRequestIntDownload s)"
  "quiet SendMissionAckAccepted"
  using quietD[OF send_mavlink_quiet]
  by (simp_all add: quiet_def SendMissionClearAll_def SendMissionCount_def SendMissionItemInt_def
      SendMissionItem_def SendMissionRequestList_def SendMissionRequestIntDownload_def
      SendMissionAckAccepted_def Let_def)

section \<open>Upload and read-back\<close>

lemma copy_waypoints_list:
  "n \<le> length dst \<Longrightarrow> copy_waypoints src n dst = map src [0..<n] @ drop n dst"
proof (induction n)
  case (Suc n)
  then have "copy_waypoints src (Suc n) dst = (map src [0..<n] @ drop n dst)[n := src n]"
    by (simp add: copy_waypoints_def)
  also have "\<dots> = map src [0..<n] @ (drop n dst)[0 := src n]"
    by (simp add: list_update_append)
  also have "drop n dst = dst ! n # drop (Suc n) dst"
    using Suc.prems by (simp add: Cons_nth_drop_Suc)
  finally show ?case by simp
qed (simp add: copy_waypoints_def)

lemma length_copy_waypoints [simp]: "length (copy_waypoints src n dst) = length dst"
proof -
  have "length (foldl (\<lambda>ws i. ws[i := src i]) dst is) = length dst" for "is"
    by (induction "is" arbitrary: dst) simp_all
  then show ?thesis by (simp add: copy_waypoints_def)
qed

lemma take_copy_waypoints [simp]:
  "n \<le> length dst \<Longrightarrow> take n (copy_waypoints src n dst) = map src [0..<n]"
  by (simp add: copy_waypoints_list)

lemma copy_waypoints_all [simp]: "length dst = n \<Longrightarrow> copy_waypoints src n dst = map src [0..<n]"
  using copy_waypoints_list[of n dst src] by simp

lemma map_wp_nth: "n \<le> length ws \<Longrightarrow> map (wp_nth ws) [0..<n] = take n ws"
  by (rule nth_equalityI) (simp_all add: wp_nth_def)

lemma length_route_array [simp]: "length (route_array m) = ROUTE_MAX_WAYPOINTS"
  by (simp add: route_array_def)

lemma map_route: "n \<le> ROUTE_MAX_WAYPOINTS \<Longrightarrow> map (wp_nth (ru_Waypoints m)) [0..<n] = take n (route_array m)"
  by (rule nth_equalityI) (simp_all add: route_array_def)

end
