(* ===== verification/Bridge_Steps.thy ===== *)
theory Bridge_Steps
  imports Bridge_Safe
begin

text \<open>
  Every operation of mavlink_bridge_app is a step in the sense of theory \<^verbatim>\<open>Bridge_Safe\<close>.
\<close>

section \<open>Route commands\<close>

lemma map_add: "map (\<lambda>i. if i < a then f i else g (i - a)) [0..<a + n] = map f [0..<a] @ map g [0..<n]"
proof -
  have "[0..<a + n] = [0..<a] @ map (\<lambda>i. i + a) [0..<n]"
    by (simp add: upt_add_eq_append[of 0 a n] map_add_upt add.commute)
  then show ?thesis by simp
qed

lemma active_nth:
  "bridge_ok d \<Longrightarrow> i < unat (b_ActiveWaypointCount d) \<Longrightarrow>
     wp_nth (b_ActiveWaypoint d) i = active_mission d ! i"
  by (simp add: bridge_ok_def active_mission_def wp_nth_def)

lemma length_active_mission: "bridge_ok d \<Longrightarrow> length (active_mission d) = unat (b_ActiveWaypointCount d)"
  by (simp add: bridge_ok_def active_mission_def)

lemma route_edit_mission:
  assumes ok: "bridge_ok d" and e: "route_edit m d = Some (t, n, pend, resume)"
  shows "length pend = ROUTE_MAX_WAYPOINTS \<and> unat n \<le> ROUTE_MAX_WAYPOINTS \<and>
    edit_mission m (active_mission d) = Some (take (unat n) pend)"
proof -
  let ?a = "b_ActiveWaypointCount d" and ?k = "ru_WaypointCount m"
  have len: "length (b_MissionPending d) = 37" "length (b_ActiveWaypoint d) = 37" "unat ?a \<le> 37"
    using ok by (simp_all add: bridge_ok_def)
  have act: "map (wp_nth (b_ActiveWaypoint d)) [0..<unat ?a] = active_mission d"
    using len by (simp add: map_wp_nth active_mission_def)
  note lam = length_active_mission[OF ok] and an = active_nth[OF ok]
  consider (add) "ru_RouteType m = ROUTE_OP_ADD" | (del) "ru_RouteType m = ROUTE_OP_DELETE"
    | (mod) "ru_RouteType m = ROUTE_OP_MODIFY"
    | (rep) "ru_RouteType m \<notin> {ROUTE_OP_ADD, ROUTE_OP_DELETE, ROUTE_OP_MODIFY}" by blast
  then show ?thesis
  proof cases
    case add
    let ?N = "min 37 (unat ?a + unat ?k)"
    have N: "unat (of_nat ?N :: u8) = ?N" by (subst unat_of_nat) simp
    have "map (\<lambda>i. if i < unat ?a then wp_nth (b_ActiveWaypoint d) i
          else wp_nth (ru_Waypoints m) (i - unat ?a)) [0..<?N] =
        active_mission d @ take (?N - unat ?a) (route_array m)"
      using map_add[of "unat ?a" "wp_nth (b_ActiveWaypoint d)" "wp_nth (ru_Waypoints m)" "?N - unat ?a"] len(3)
      by (simp add: act map_route min_absorb2)
    then show ?thesis
      using e add len N lam
      by (auto simp: route_edit_def edit_mission_def Let_def split: if_splits)
  next
    case del
    have k: "?k < ?a" and n: "n = ?a - 1"
      and pend: "pend = copy_waypoints (\<lambda>i. wp_nth (b_ActiveWaypoint d) (if i < unat ?k then i else i + 1))
          (unat (?a - 1)) (b_MissionPending d)"
      using e del by (auto simp: route_edit_def Let_def split: if_splits)
    then have a1: "unat (?a - 1) = unat ?a - 1" by unat_arith
    have "map (\<lambda>i. wp_nth (b_ActiveWaypoint d) (if i < unat ?k then i else i + 1)) [0..<unat ?a - 1] =
        take (unat ?k) (active_mission d) @ drop (Suc (unat ?k)) (active_mission d)"
      using k lam by (intro nth_equalityI) (auto simp: an nth_append word_less_nat_alt min_def)
    then show ?thesis
      using k del len lam by (auto simp: n pend a1 edit_mission_def word_less_nat_alt Let_def)
  next
    case mod
    have k: "?k < ?a" and n: "n = ?a"
      and pend: "pend = copy_waypoints (\<lambda>i. if i = unat ?k then wp_nth (ru_Waypoints m) 0
          else wp_nth (b_ActiveWaypoint d) i) (unat ?a) (b_MissionPending d)"
      using e mod by (auto simp: route_edit_def Let_def split: if_splits)
    have "map (\<lambda>i. if i = unat ?k then wp_nth (ru_Waypoints m) 0 else wp_nth (b_ActiveWaypoint d) i) [0..<unat ?a] =
        (active_mission d)[unat ?k := route_array m ! 0]"
      using k lam by (intro nth_equalityI) (auto simp: an nth_list_update route_array_def)
    then show ?thesis
      using k mod len lam by (simp add: n pend edit_mission_def word_less_nat_alt Let_def)
  next
    case rep
    let ?N = "min 37 (unat ?k)"
    have N: "unat (of_nat ?N :: u8) = ?N" by (subst unat_of_nat) simp
    have n: "n = of_nat ?N" and pend: "pend = copy_waypoints (wp_nth (ru_Waypoints m)) ?N (b_MissionPending d)"
      using e rep by (cases "unat ?k > 37"; auto simp: route_edit_def Let_def min_def word_unat_eq_iff split: if_splits)+
    have "take ?N (route_array m) = take (unat ?k) (route_array m)" by (simp add: min_def)
    then show ?thesis
      using rep len by (simp add: n pend N edit_mission_def map_route Let_def del: of_nat_min)
  qed
qed

text \<open>A route command: as \<^verbatim>\<open>step_ok\<close>, with the command added to those that were received.\<close>

definition step_after ::
    "ROUTE_UPDATE_TLM list \<Rightarrow> MAVLINK_BRIDGE_APP_Data \<Rightarrow> MAVLINK_BRIDGE_APP_Data \<Rightarrow> out list \<Rightarrow> bool" where
  "step_after cs d d' os \<longleftrightarrow> (bridge_ok d \<longrightarrow>
     bridge_ok d' \<and> list_all out_ok os \<and>
     count_up (b_SequenceCounter d) (fc_numbers os) (b_SequenceCounter d') \<and>
     (\<forall>ms. mission_ok ms d \<longrightarrow> mission_ok (ms @ cs) d'))"

lemma step_after_Nil: "step_after [] = step_ok"
  by (intro ext) (simp add: step_after_def step_ok_def)

lemma step_after_trans:
  "step_after cs d d' os \<Longrightarrow> step_after cs' d' d'' os' \<Longrightarrow> step_after (cs @ cs') d d'' (os @ os')"
  by (auto simp: step_after_def append_assoc[symmetric] simp del: append_assoc intro: count_up_append)

lemma step_after_ok: "step_after cs d d' os \<Longrightarrow> step_ok d' d'' os' \<Longrightarrow> step_after cs d d'' (os @ os')"
  using step_after_trans[of cs d d' os "[]" d'' os'] by (simp add: step_after_Nil)

lemma mission_ok_received: "mission_ok ms d \<Longrightarrow> mission_ok (ms @ cs) d"
  by (simp add: mission_ok_def obtainable_append)

lemma step_ok_after: "step_ok d d' os \<Longrightarrow> step_after cs d d' os"
  by (simp add: step_ok_def step_after_def mission_ok_received)

lemma StartMissionUpload_after:
  "step_after [m] d (fst (MAVLINK_BRIDGE_APP_StartMissionUpload m d))
     (snd (MAVLINK_BRIDGE_APP_StartMissionUpload m d))"
proof (cases "b_LinkState d = BRIDGE_CONNECTED \<and> b_MissionDownloadState d = DOWNLOAD_IDLE \<and> route_edit m d \<noteq> None")
  case False
  then have "MAVLINK_BRIDGE_APP_StartMissionUpload m d =
      (d, [Event BR_MISSION_UPLOAD_INF_EID INFORMATION, Event BR_MISSION_UPLOAD_ERR_EID ERROR])"
    by (cases "route_edit m d") (auto simp: MAVLINK_BRIDGE_APP_StartMissionUpload_def prepend_def Let_def)
  then show ?thesis by (simp add: step_ok_after quiet_step)
next
  case True
  then obtain t n pend resume where e: "route_edit m d = Some (t, n, pend, resume)" by auto
  let ?d = "d\<lparr> b_MissionPending := pend, b_ActiveResumeIndex := resume,
      b_MissionUploadWpCount := n, b_MissionUploadState := UPLOAD_CLEARING, b_MissionUploadRetry := 0 \<rparr>"
  let ?f = "with_clock (\<lambda>NowMs d. SendMissionClearAll (d\<lparr> b_MissionUploadTimeoutMs := NowMs + MISSION_CLEAR_DELAY_MS \<rparr>))"
  let ?o = "Event BR_MISSION_UPLOAD_INF_EID INFORMATION #
      (if t then [Event BR_MISSION_UPLOAD_ERR_EID ERROR] else [])"
  have "quiet ?f"
  proof (rule clock_quiet, rule quietI)
    fix NowMs x
    have v: "same_view x (x\<lparr> b_MissionUploadTimeoutMs := NowMs + MISSION_CLEAR_DELAY_MS \<rparr>)"
      by (simp add: same_view_def)
    show "same_view x (fst (SendMissionClearAll (x\<lparr> b_MissionUploadTimeoutMs := NowMs + MISSION_CLEAR_DELAY_MS \<rparr>))) \<and>
        list_all quiet_out (snd (SendMissionClearAll (x\<lparr> b_MissionUploadTimeoutMs := NowMs + MISSION_CLEAR_DELAY_MS \<rparr>)))"
      using quietD[OF senders_quiet(1)] same_view_trans[OF v] by blast
  qed
  then have f: "step_ok ?d (fst (?f ?d)) (snd (?f ?d))" by (simp add: quiet_safe safe.stepD)
  have "step_after [m] d ?d ?o"
    using route_edit_mission[OF _ e]
    by (auto simp: step_after_def bridge_ok_def mission_ok_def active_mission_def pending_mission_def
        intro: obtainable.applied obtainable_append)
  from step_after_ok[OF this f] show ?thesis
    using True e by (simp add: MAVLINK_BRIDGE_APP_StartMissionUpload_def)
qed

section \<open>Upload and read-back timers\<close>

lemma then_step: "step_ok d d' os \<Longrightarrow> safe.step f \<Longrightarrow> step_ok d (fst (f d')) (os @ snd (f d'))"
  by (rule safe.trans[OF _ safe.stepD])

lemmas then_step_silent = then_step[of _ _ "[]", simplified]

lemma safe_update: "(\<And>d. step_ok d (f d) []) \<Longrightarrow> safe.step (update f)"
  by (rule safe.stepI) (simp add: update_def)

lemma quiet_update_safe: "(\<And>d. same_view d (f d)) \<Longrightarrow> safe.step (update f)"
  by (rule safe_update) (simp add: quiet_step)

lemma emit_safe [simp]: "list_all quiet_out os \<Longrightarrow> safe.step (emit os)"
  by (rule quiet_safe) simp

lemmas senders_safe [simp] = senders_quiet[THEN quiet_safe]

lemma CheckMissionUploadTimeout_safe [simp]: "safe.step (CheckMissionUploadTimeout NowMs)"
proof (rule safe.stepI)
  fix d :: MAVLINK_BRIDGE_APP_Data
  have active: "b_MissionUploadState d = UPLOAD_CLEARING \<Longrightarrow>
      step_ok d (d\<lparr> b_MissionUploadState := UPLOAD_ACTIVE, b_MissionUploadTimeoutMs := t \<rparr>) []" for t
    by (simp add: step_ok_def bridge_ok_def mission_ok_def active_mission_def pending_mission_def)
  have retry: "b_MissionUploadRetry d < MISSION_MAX_RETRIES \<Longrightarrow>
      step_ok d (d\<lparr> b_MissionUploadRetry := b_MissionUploadRetry d + 1, b_MissionUploadTimeoutMs := t \<rparr>) []" for t
    using inc_le[of "b_MissionUploadRetry d" "MISSION_MAX_RETRIES"]
    by (simp add: step_ok_def bridge_ok_def mission_ok_def active_mission_def pending_mission_def add.commute)
  have giveup: "step_ok d (d\<lparr> b_MissionUploadState := UPLOAD_IDLE, b_MissionUploadFailCount := n,
      b_LastUploadResult := r \<rparr>) [Event BR_MISSION_UPLOAD_ERR_EID ERROR]" for n r
    by (simp add: step_ok_def bridge_ok_def mission_ok_def active_mission_def pending_mission_def)
  have seq: "safe.step (steps [SendMissionClearAll, SendMissionCount n, emit [Event BR_MISSION_UPLOAD_ERR_EID ERROR]])" for n
    by (rule safe.steps) simp
  show "step_ok d (fst (CheckMissionUploadTimeout NowMs d)) (snd (CheckMissionUploadTimeout NowMs d))"
    unfolding CheckMissionUploadTimeout_def
    using then_step_silent[OF active senders_safe(2)] then_step_silent[OF retry seq] giveup safe.refl
    by (simp del: steps.simps steps_Cons)
qed

lemma begin_download_safe [simp]: "safe.step (update (begin_download NowMs))"
  by (rule safe_update)
    (simp add: begin_download_def step_ok_def bridge_ok_def mission_ok_def active_mission_def pending_mission_def)

lemma StartFcMissionReadback_safe [simp]: "safe.step StartFcMissionReadback"
  unfolding StartFcMissionReadback_def
  by (rule safe.steps) (simp add: clock_safe quiet_update_safe same_view_def)

lemma PublishFcMissionReadback_safe [simp]: "safe.step PublishFcMissionReadback"
proof (rule safe.stepI)
  fix d :: MAVLINK_BRIDGE_APP_Data
  let ?c = "unat (b_MissionDownloadExpectedCount d) > ROUTE_MAX_WAYPOINTS"
  let ?n = "if ?c then of_nat ROUTE_MAX_WAYPOINTS else b_MissionDownloadExpectedCount d"
  let ?f = "\<lambda>NowMs x. let ws = copy_waypoints (wp_nth (b_MissionDownloadWaypoints x)) (unat ?n)
                          (b_FcMissionReadbackWaypoints x)
               in (x\<lparr> b_FcMissionReadbackWaypoints := ws \<rparr>,
                   [Send (FcMissionReadback \<lparr> ru_Seq = b_MissionReadbackSeq x, ru_TimestampMs = NowMs,
                      ru_SourceSequence = 0, ru_RouteType = 1, ru_RouteVersion = 0,
                      ru_WaypointCount = ?n, ru_Waypoints = ws \<rparr>),
                    Event BR_MISSION_READBACK_EID INFORMATION])"
  have n: "unat ?n \<le> ROUTE_MAX_WAYPOINTS" by simp
  have f: "safe.step (with_clock ?f)"
    using n
    by (intro clock_safe safe.stepI)
      (simp add: step_ok_def bridge_ok_def mission_ok_def active_mission_def pending_mission_def Let_def)
  have v: "step_ok d (d\<lparr> b_MissionReadbackSeq := b_MissionReadbackSeq d + 1 \<rparr>)
      (if ?c then [Event BR_MISSION_READBACK_EID INFORMATION] else [])"
    by (rule quiet_step) (simp_all add: same_view_def)
  show "step_ok d (fst (PublishFcMissionReadback d)) (snd (PublishFcMissionReadback d))"
    using then_step[OF v f] by (simp add: PublishFcMissionReadback_def Let_def)
qed

lemma backoff_bounds:
  fixes b :: u32
  assumes "1000 \<le> b" "b \<le> 5000"
  shows "1000 \<le> (if 5000 < b * 2 then 5000 else b * 2)"
proof -
  have "unat (b * 2) = unat b * 2" using assms by (simp add: unat_word_ariths word_le_nat_alt)
  then show ?thesis using assms by (simp add: word_le_nat_alt)
qed

lemma CheckMissionDownloadTimeout_safe [simp]: "safe.step (CheckMissionDownloadTimeout NowMs)"
proof (rule safe.stepI)
  fix d :: MAVLINK_BRIDGE_APP_Data
  show "step_ok d (fst (CheckMissionDownloadTimeout NowMs d)) (snd (CheckMissionDownloadTimeout NowMs d))"
    using backoff_bounds[of "b_MissionReadbackBackoffMs d"]
    by (auto simp: CheckMissionDownloadTimeout_def step_ok_def bridge_ok_def mission_ok_def active_mission_def
        pending_mission_def Let_def not_less split: if_splits)
qed

section \<open>Link, streams and port\<close>

lemma plain_safe:
  "(\<And>d. bridge_ok d \<Longrightarrow> bridge_ok (f d)) \<Longrightarrow> (\<And>d. b_SequenceCounter (f d) = b_SequenceCounter d) \<Longrightarrow>
   (\<And>d ms. mission_ok ms (f d) = mission_ok ms d) \<Longrightarrow> safe.step (update f)"
  by (rule safe_update) (simp add: step_ok_def)

lemma SetLinkState_safe [simp]: "safe.step (MAVLINK_BRIDGE_APP_SetLinkState s)"
proof (rule safe.stepI)
  fix d :: MAVLINK_BRIDGE_APP_Data
  have up: "step_ok d (d\<lparr> b_LinkState := BRIDGE_CONNECTED,
      b_MissionReadbackBackoffMs := READBACK_BACKOFF_INITIAL_MS, b_MissionReadbackPending := 0 \<rparr>) []"
    by (simp add: step_ok_def bridge_ok_def mission_ok_def active_mission_def pending_mission_def)
  have down: "step_ok d (d\<lparr> b_LinkState := BRIDGE_DISCONNECTED, b_MissionReadbackPending := 0 \<rparr>) []"
    and set: "step_ok d (d\<lparr> b_LinkState := s \<rparr>) []"
    by (simp_all add: quiet_step same_view_def)
  show "step_ok d (fst (MAVLINK_BRIDGE_APP_SetLinkState s d)) (snd (MAVLINK_BRIDGE_APP_SetLinkState s d))"
    using then_step_silent[OF up StartFcMissionReadback_safe] up down set
    by (auto simp: MAVLINK_BRIDGE_APP_SetLinkState_def Let_def)
qed

lemma errors_quiet [simp]:
  "quiet (MAVLINK_BRIDGE_APP_RecordParseError e)" "quiet RecordLengthError" "quiet RecordNonFiniteError"
  "quiet parse_failed"
  by (simp_all add: quiet_def same_view_def MAVLINK_BRIDGE_APP_RecordParseError_def RecordLengthError_def
      RecordNonFiniteError_def parse_failed_def)

lemmas errors_safe [simp] = errors_quiet[THEN quiet_safe]

lemma SendCompanionHeartbeat_safe [simp]: "safe.step (SendCompanionHeartbeat NowMs)"
proof (intro quiet_safe quietI)
  fix d :: MAVLINK_BRIDGE_APP_Data
  note q = SendMavlinkV2_quiet[of d MSG_ID_HEARTBEAT
      "[0, 0, 0, 0, MAV_TYPE_ONBOARD_CONTROLLER, MAV_AUTOPILOT_INVALID, 0, 0, 3]" HEARTBEAT_CRC_EXTRA]
  show "same_view d (fst (SendCompanionHeartbeat NowMs d)) \<and> list_all quiet_out (snd (SendCompanionHeartbeat NowMs d))"
    using q by (auto simp: SendCompanionHeartbeat_def case_prod_unfold Let_def same_view_def)
qed

lemma request_intervals_quiet:
  "same_view d (fst (snd (request_intervals rs d))) \<and> list_all quiet_out (snd (snd (request_intervals rs d)))"
proof (induction rs d rule: request_intervals.induct)
  case (2 MsgId us rs d)
  note q = SendMavlinkV2_quiet[of d MSG_ID_COMMAND_LONG "command_long (f32_of_int (uint MsgId))
      (f32_of_int (uint us)) 0 MAV_CMD_SET_MESSAGE_INTERVAL d" COMMAND_LONG_CRC_EXTRA]
  obtain ok d1 o1 where r: "RequestMessageInterval MsgId us d = (ok, d1, o1)"
    by (cases "RequestMessageInterval MsgId us d") auto
  have q1: "same_view d d1" "list_all quiet_out o1"
    using q r by (simp_all add: RequestMessageInterval_def)
  show ?case
    using 2 q1 r by (cases "request_intervals rs d1") (auto intro: same_view_trans)
qed simp

lemma RequestTelemetryStreams_quiet: "quiet MAVLINK_BRIDGE_APP_RequestTelemetryStreams"
proof (rule quietI)
  fix d :: MAVLINK_BRIDGE_APP_Data
  let ?c = "b_ActiveConfig d"
  let ?rs = "[(MSG_ID_ATTITUDE, bp_AttitudeIntervalUs ?c), (MSG_ID_LOCAL_POSITION_NED, bp_LocalPositionIntervalUs ?c),
      (MSG_ID_GLOBAL_POSITION_INT, bp_GlobalPositionIntervalUs ?c), (MSG_ID_GPS_RAW_INT, bp_GpsRawIntervalUs ?c),
      (MSG_ID_EKF_STATUS_REPORT, bp_EkfStatusIntervalUs ?c), (MSG_ID_SYS_TIME, SYS_TIME_INTERVAL_US)]"
  obtain ok d1 o1 where r: "request_intervals ?rs d = (ok, d1, o1)" by (cases "request_intervals ?rs d") auto
  have q: "same_view d d1" "list_all quiet_out o1" using request_intervals_quiet[of d ?rs] r by simp_all
  have c: "quiet (with_clock (\<lambda>NowMs d. (d\<lparr> b_LastStreamRequestMs := NowMs \<rparr>, [Event BR_STREAM_EID INFORMATION])))"
    by (rule clock_quiet) (simp add: quiet_def same_view_def)
  show "same_view d (fst (MAVLINK_BRIDGE_APP_RequestTelemetryStreams d)) \<and>
      list_all quiet_out (snd (MAVLINK_BRIDGE_APP_RequestTelemetryStreams d))"
    using q quietD[OF c, of d1] r
    by (auto simp: MAVLINK_BRIDGE_APP_RequestTelemetryStreams_def Let_def intro: same_view_trans)
qed

lemma request_streams_safe [simp]: "safe.step (request_streams NowMs)"
proof (intro quiet_safe quietI)
  fix d :: MAVLINK_BRIDGE_APP_Data
  have "same_view d (d\<lparr> b_StreamRequestPending := 1 \<rparr>)" by (simp add: same_view_def)
  then show "same_view d (fst (request_streams NowMs d)) \<and> list_all quiet_out (snd (request_streams NowMs d))"
    using quietD[OF RequestTelemetryStreams_quiet, of "d\<lparr> b_StreamRequestPending := 1 \<rparr>"]
    by (auto simp: request_streams_def same_view_def intro: same_view_trans)
qed

lemma parser_zero_ok [simp]: "parser_ok parser_zero"
  by (simp add: parser_ok_def parser_zero_def)

lemma ResetParser_safe [simp]: "safe.step (update ResetParser)"
  by (rule plain_safe)
    (simp_all add: ResetParser_def bridge_ok_def mission_ok_def active_mission_def pending_mission_def)

lemma OpenSerial_safe: "step_ok d (fst (snd (OpenSerial d))) (snd (snd (OpenSerial d)))"
proof -
  let ?d = "d\<lparr> b_Env := (b_Env d)\<lparr> be_Opens := tl (be_Opens (b_Env d)) \<rparr> \<rparr>"
  have v: "step_ok d ?d []" by (rule quiet_step) (simp_all add: same_view_def)
  have s: "safe.step (steps [update (\<lambda>d. d\<lparr> b_PortOpen := True, b_LastErrorCode := BRIDGE_ERROR_NONE,
                    b_LastRxTimestampMs := 0, b_LastHeartbeatTxMs := 0, b_LastStreamRequestMs := 0 \<rparr>),
                  with_clock (\<lambda>NowMs. update (\<lambda>d. d\<lparr> b_TargetDiscoveryStartMs := NowMs \<rparr>)),
                  update (\<lambda>d. d\<lparr> b_LastAttitudeRxMs := 0, b_LastEkfLocalRxMs := 0, b_LastGpsRawRxMs := 0,
                    b_LastEkfStatusRxMs := 0, b_LastSysTimeRxMs := 0, b_LastSysTimeUnixUsec := 0,
                    b_StreamRequestPending := 1 \<rparr>),
                  MAVLINK_BRIDGE_APP_SetLinkState BRIDGE_CONNECTED,
                  update ResetParser,
                  emit [Event BR_LINK_EID INFORMATION]])"
    by (rule safe.steps) (simp add: clock_safe quiet_update_safe same_view_def)
  have f: "step_ok d (d\<lparr> b_Env := e, b_LastErrorCode := c \<rparr>) [Event BR_LINK_EID ERROR]" for e c
    by (rule quiet_step) (simp_all add: same_view_def)
  show ?thesis
    using then_step_silent[OF v s] f
    by (simp add: OpenSerial_def Let_def del: steps.simps steps_Cons)
qed

lemma reconnect_safe [simp]: "safe.step (reconnect NowMs)"
proof -
  have o: "safe.step (\<lambda>d. let (ok, d, os) = OpenSerial d
                    in (d, os @ (if ok then [] else [Event BR_LINK_EID INFORMATION])))"
    using safe.trans[OF OpenSerial_safe quiet_step[OF same_view_refl]]
    by (intro safe.stepI) (auto simp: case_prod_unfold Let_def)
  have "safe.step (steps [update (\<lambda>d. d\<lparr> b_LastReconnectAttemptMs := NowMs,
                             b_ReconnectAttemptCount := b_ReconnectAttemptCount d + 1 \<rparr>),
               MAVLINK_BRIDGE_APP_SetLinkState BRIDGE_DISCONNECTED,
               (\<lambda>d. let (ok, d, os) = OpenSerial d
                    in (d, os @ (if ok then [] else [Event BR_LINK_EID INFORMATION])))])"
    using o by (intro safe.steps) (simp add: quiet_update_safe same_view_def)
  then show ?thesis
    using safe.refl
    unfolding reconnect_def[abs_def] safe.step_def by (simp del: steps.simps steps_Cons)
qed

lemma retry_readback_safe [simp]: "safe.step (retry_readback NowMs)"
  using safe.stepD[OF StartFcMissionReadback_safe] safe.refl
  by (intro safe.stepI) (simp add: retry_readback_def)

lemma after_reads_safe [simp]: "safe.step (after_reads s r NowMs)"
proof -
  have "safe.step (steps [update (\<lambda>d. MarkOutputsStale (d\<lparr> b_LastErrorCode := BRIDGE_ERROR_READ_TIMEOUT \<rparr>)),
                  MAVLINK_BRIDGE_APP_SetLinkState BRIDGE_DEGRADED])"
    "safe.step (steps [update (\<lambda>d. MarkOutputsStale (d\<lparr> b_LastErrorCode := BRIDGE_ERROR_LINK_DOWN \<rparr>)),
               MAVLINK_BRIDGE_APP_SetLinkState BRIDGE_DISCONNECTED,
               emit [Event BR_LINK_EID INFORMATION], update CloseBridgeSerial])"
    by (rule safe.steps, simp add: quiet_update_safe same_view_def MarkOutputsStale_def CloseBridgeSerial_def)+
  then show ?thesis
    using safe.refl
    unfolding after_reads_def[abs_def] safe.step_def by (simp del: steps.simps steps_Cons)
qed

section \<open>State packets and frames\<close>

lemma log_decoded_quiet [simp]: "list_all out_ok (log_decoded n)" "fc_numbers (log_decoded n) = []"
  by (simp_all add: log_decoded_def)

lemmas step_ok_defs = step_ok_def bridge_ok_def mission_ok_def active_mission_def pending_mission_def

lemma Publish_safe [simp]:
  "safe.step (PublishAttitude p RxMs)" "safe.step (PublishEkfLocal p RxMs)"
  "safe.step (PublishGlobalPositionAsLocal p RxMs)" "safe.step (PublishGpsRaw p RxMs)"
  "safe.step (PublishEkfStatus p RxMs)" "safe.step (HandleSysTime p RxMs)"
proof -
  show "safe.step (PublishAttitude p RxMs)"
    using safe.stepD[OF errors_safe(2)] safe.stepD[OF errors_safe(3)]
    by (intro safe.stepI) (simp add: PublishAttitude_def Let_def, simp add: step_ok_defs)
  show "safe.step (PublishEkfLocal p RxMs)"
    using safe.stepD[OF errors_safe(2)] safe.stepD[OF errors_safe(3)]
    by (intro safe.stepI) (simp add: PublishEkfLocal_def Let_def, simp add: step_ok_defs)
  show "safe.step (PublishGlobalPositionAsLocal p RxMs)"
    using safe.stepD[OF errors_safe(2)]
    by (intro safe.stepI) (simp add: PublishGlobalPositionAsLocal_def Let_def, simp add: step_ok_defs)
  show "safe.step (PublishGpsRaw p RxMs)"
    using safe.stepD[OF errors_safe(2)]
    by (intro safe.stepI) (simp add: PublishGpsRaw_def Let_def, simp add: step_ok_defs)
  show "safe.step (PublishEkfStatus p RxMs)"
    using safe.stepD[OF errors_safe(2)]
    by (intro safe.stepI) (simp add: PublishEkfStatus_def Let_def, simp add: step_ok_defs)
  show "safe.step (HandleSysTime p RxMs)"
    using safe.stepD[OF errors_safe(2)]
    by (intro safe.stepI) (simp add: HandleSysTime_def Let_def safe.refl, simp add: step_ok_defs)
qed

lemma live_frame_safe [simp]: "safe.step use \<Longrightarrow> safe.step (live_frame RxMs use)"
  unfolding live_frame_def by (rule safe.steps) (simp add: quiet_update_safe same_view_def)

lemma telemetry_frame_safe [simp]:
  "safe.step publish \<Longrightarrow> safe.step (telemetry_frame p crc x RxMs publish)"
proof -
  assume "safe.step publish"
  moreover have "safe.step (steps [emit [Event BR_PARSE_EID INFORMATION], parse_failed])"
    by (rule safe.steps) simp
  ultimately show ?thesis by (simp add: telemetry_frame_def del: steps.simps steps_Cons)
qed

lemma guarded_frame_safe [simp]: "safe.step use \<Longrightarrow> safe.step (guarded_frame p crc x n use)"
  by (simp add: guarded_frame_def)

lemma heartbeat_frame_safe [simp]: "safe.step (heartbeat_frame p RxMs)"
proof (rule safe.stepI)
  fix d :: MAVLINK_BRIDGE_APP_Data
  let ?s = "steps [update (\<lambda>d. d\<lparr> b_LastRxTimestampMs := RxMs \<rparr>),
                     MAVLINK_BRIDGE_APP_SetLinkState BRIDGE_CONNECTED,
                     update (MAVLINK_BRIDGE_APP_UpdateFromHeartbeat (byte_at (p_Payload p) 6)
                       (byte_at (p_Payload p) 7))]"
  have s: "safe.step ?s"
    by (rule safe.steps)
      (simp add: quiet_update_safe same_view_def MAVLINK_BRIDGE_APP_UpdateFromHeartbeat_def)
  let ?d = "if b_TargetSystemId d = 0 \<and> (byte_at (p_Payload p) 5 = 3 \<or> byte_at (p_Payload p) 5 = 12)
      then d\<lparr> b_TargetSystemId := p_SysId p, b_TargetComponentId := p_CompId p \<rparr> else d"
  have v: "step_ok d ?d []" by (rule quiet_step) (simp_all add: same_view_def)
  show "step_ok d (fst (heartbeat_frame p RxMs d)) (snd (heartbeat_frame p RxMs d))"
    using v then_step_silent[OF v s] unfolding heartbeat_frame_def Let_def
    by (simp del: steps.simps steps_Cons)
qed

lemma command_ack_frame_safe [simp]: "safe.step (command_ack_frame p)"
  by (intro quiet_safe quietI) (simp add: command_ack_frame_def same_view_def)

lemma mission_request_frame_safe [simp]:
  "(\<And>n. quiet (send_item n)) \<Longrightarrow> safe.step (mission_request_frame p RxMs send_item)"
proof (intro quiet_safe quietI)
  fix d :: MAVLINK_BRIDGE_APP_Data
  assume q: "\<And>n. quiet (send_item n)"
  have v: "same_view d (d\<lparr> b_MissionUploadTimeoutMs := t \<rparr>)" for t by (simp add: same_view_def)
  show "same_view d (fst (mission_request_frame p RxMs send_item d)) \<and>
      list_all quiet_out (snd (mission_request_frame p RxMs send_item d))"
    using quietD[OF q] by (auto simp: mission_request_frame_def Let_def intro: same_view_trans[OF v])
qed

lemma mission_ack_frame_safe [simp]: "safe.step (mission_ack_frame p RxMs)"
proof (rule safe.stepI)
  fix d :: MAVLINK_BRIDGE_APP_Data
  let ?ev = "[Event BR_MISSION_UPLOAD_INF_EID INFORMATION]"
  let ?n = "b_MissionUploadWpCount d"
  let ?a = "copy_waypoints (wp_nth (b_MissionPending d)) (unat ?n) (b_ActiveWaypoint d)"
  have same: "bridge_ok d \<Longrightarrow> take (unat ?n) ?a = pending_mission d"
    by (simp add: bridge_ok_def pending_mission_def map_wp_nth)
  have fin: "b_MissionUploadState d = UPLOAD_ACTIVE \<Longrightarrow>
      step_ok d (d\<lparr> b_MissionUploadState := UPLOAD_IDLE, b_MissionUploadSuccessCount := k,
        b_LastUploadResult := UPLOAD_RESULT_SUCCESS, b_LastUploadTimestampMs := RxMs,
        b_LastUploadWaypointCount := ?n, b_ActiveWaypointCount := ?n, b_ActiveWaypoint := ?a \<rparr>) ?ev" for k
    using same by (auto simp: step_ok_def mission_ok_def active_mission_def bridge_ok_def)
  have nak: "step_ok d (d\<lparr> b_MissionUploadState := UPLOAD_IDLE, b_MissionUploadFailCount := k,
      b_LastUploadResult := UPLOAD_RESULT_NAK \<rparr>) [Event BR_MISSION_UPLOAD_ERR_EID ERROR]" for k
    by (simp add: step_ok_defs)
  show "step_ok d (fst (mission_ack_frame p RxMs d)) (snd (mission_ack_frame p RxMs d))"
    using fin then_step[OF fin StartFcMissionReadback_safe] nak safe.refl
    by (simp add: mission_ack_frame_def Let_def)
qed

lemma mission_count_frame_safe:
  assumes "b_MissionDownloadState d = DOWNLOAD_WAIT_COUNT"
  shows "step_ok d (fst (mission_count_frame p RxMs d)) (snd (mission_count_frame p RxMs d))"
proof -
  let ?c = "get_u16 (p_Payload p) 0"
  let ?n = "ucast (if ?c > 255 then 255 else ?c) :: u8"
  let ?ev = "[Event BR_MISSION_DOWNLOAD_INF_EID INFORMATION]"
  let ?s = "steps [update (\<lambda>d. d\<lparr> b_MissionDownloadState := DOWNLOAD_IDLE \<rparr>), SendMissionAckAccepted,
                    emit ?ev, PublishFcMissionReadback]"
  have pos: "?c \<noteq> 0 \<Longrightarrow> 0 < ?n"
    by (auto simp: word_gt_0 word_unat_eq_iff unsigned_ucast_eq take_bit_eq_mod word_less_nat_alt not_less)
  have s: "safe.step ?s"
    by (rule safe.steps) (simp, rule plain_safe, simp_all add: bridge_ok_def mission_ok_def active_mission_def
        pending_mission_def)
  have none: "step_ok d (d\<lparr> b_MissionDownloadExpectedCount := ?n \<rparr>) ?ev"
    using assms by (simp add: step_ok_defs)
  have some: "?c \<noteq> 0 \<Longrightarrow> step_ok d (d\<lparr> b_MissionDownloadExpectedCount := ?n,
      b_MissionDownloadState := DOWNLOAD_WAIT_ITEM, b_MissionDownloadSeq := 0, b_MissionDownloadTimeoutMs := t \<rparr>) ?ev" for t
    using pos by (simp add: step_ok_defs)
  show ?thesis
  proof (cases "?c = 0")
    case True
    with then_step[OF none s] show ?thesis
      by (simp add: mission_count_frame_def Let_def del: steps.simps steps_Cons)
  next
    case False
    with then_step[OF some[OF False] senders_safe(6)] show ?thesis
      by (simp add: mission_count_frame_def Let_def)
  qed
qed

lemma mission_item_frame_safe:
  assumes "b_MissionDownloadState d = DOWNLOAD_WAIT_ITEM"
  shows "step_ok d (fst (mission_item_frame p RxMs d)) (snd (mission_item_frame p RxMs d))"
proof -
  let ?ev = "[Event BR_MISSION_DOWNLOAD_INF_EID INFORMATION]"
  let ?i = "b_MissionDownloadSeq d"
  let ?ws = "if unat ?i < ROUTE_MAX_WAYPOINTS
      then (b_MissionDownloadWaypoints d)[unat ?i := downloaded_waypoint (p_Payload p)]
      else b_MissionDownloadWaypoints d"
  let ?n = "b_MissionDownloadExpectedCount d"
  let ?d = "d\<lparr> b_MissionDownloadWaypoints := ?ws, b_MissionDownloadSeq := ?i + 1 \<rparr>"
  have lens: "bridge_ok d \<Longrightarrow> length ?ws = ROUTE_MAX_WAYPOINTS" by (simp add: bridge_ok_def)
  have last: "step_ok d (fst (steps [SendMissionAckAccepted, update (\<lambda>d. d\<lparr> b_MissionDownloadState := DOWNLOAD_IDLE \<rparr>)] ?d))
      (?ev @ snd (steps [SendMissionAckAccepted, update (\<lambda>d. d\<lparr> b_MissionDownloadState := DOWNLOAD_IDLE \<rparr>)] ?d))"
    using quietD[OF senders_quiet(7), of ?d] quiet_outs[of "snd (SendMissionAckAccepted ?d)"] lens
    by (simp add: update_def step_ok_defs same_view_def)
  have tl: "safe.step (steps [emit ?ev, PublishFcMissionReadback])" by (rule safe.steps) simp
  have more: "?i + 1 < ?n \<Longrightarrow> step_ok d (?d\<lparr> b_MissionDownloadTimeoutMs := t \<rparr>) ?ev" for t
    using assms lens by (simp add: step_ok_defs)
  have two: "steps [SendMissionAckAccepted, update (\<lambda>d. d\<lparr> b_MissionDownloadState := DOWNLOAD_IDLE \<rparr>),
                    emit ?ev, PublishFcMissionReadback] x =
      prepend (snd (steps [SendMissionAckAccepted, update (\<lambda>d. d\<lparr> b_MissionDownloadState := DOWNLOAD_IDLE \<rparr>)] x))
        (steps [emit ?ev, PublishFcMissionReadback]
          (fst (steps [SendMissionAckAccepted, update (\<lambda>d. d\<lparr> b_MissionDownloadState := DOWNLOAD_IDLE \<rparr>)] x)))" for x
    by (subst steps_append[symmetric]) simp
  have eq: "(if unat ?i < ROUTE_MAX_WAYPOINTS then d\<lparr> b_MissionDownloadWaypoints :=
        (b_MissionDownloadWaypoints d)[unat ?i := downloaded_waypoint (p_Payload p)] \<rparr> else d)
      \<lparr> b_MissionDownloadSeq := ?i + 1 \<rparr> = ?d" by simp
  show ?thesis
    using then_step[OF last tl] then_step[OF more senders_safe(6)]
    unfolding mission_item_frame_def Let_def eq two
    by (simp add: not_le del: steps.simps steps_Cons)
qed

lemma mission_current_frame_safe [simp]: "safe.step (mission_current_frame p)"
  by (simp add: mission_current_frame_def quiet_update_safe same_view_def Let_def)

lemma frame_action_safe [simp]: "safe.step (frame_action p crc RxMs)"
proof (rule safe.stepI)
  fix d :: MAVLINK_BRIDGE_APP_Data
  have g: "step_ok d (fst (guarded_frame p crc x n use d)) (snd (guarded_frame p crc x n use d))"
    if "step_ok d (fst (use d)) (snd (use d))" for x n "use"
    using that safe.stepD[OF errors_safe(4)] by (simp add: guarded_frame_def)
  have r: "safe.step (steps [emit [Event BR_MISSION_UPLOAD_INF_EID INFORMATION],
      guarded_frame p crc MISSION_REQUEST_CRC_EXTRA 2 (mission_request_frame p RxMs SendMissionItem)])"
    by (rule safe.steps) (simp add: senders_quiet)
  show "step_ok d (fst (frame_action p crc RxMs d)) (snd (frame_action p crc RxMs d))"
    unfolding frame_action_def Let_def
    by (simp add: safe.stepD r g senders_quiet mission_count_frame_safe mission_item_frame_safe safe.refl
        del: steps.simps steps_Cons)
qed

lemma HandleFrameComplete_safe [simp]: "safe.step (HandleFrameComplete RxMs c)"
proof (rule safe.stepI)
  fix d :: MAVLINK_BRIDGE_APP_Data
  have "safe.step (steps [frame_action (b_Parser d) (push_bit 8 (ucast c) OR ucast (p_CrcLow (b_Parser d))) RxMs,
      update ResetParser])"
    by (rule safe.steps) simp
  from safe.stepD[OF this] show "step_ok d (fst (HandleFrameComplete RxMs c d)) (snd (HandleFrameComplete RxMs c d))"
    by (simp add: HandleFrameComplete_def Let_def del: steps.simps steps_Cons)
qed

section \<open>The parser\<close>

lemma parser_step_ok: "parser_ok p \<Longrightarrow> parser_ok (parser_step b p)"
proof -
  assume ok: "parser_ok p"
  have "p_PayloadLen p \<noteq> 0 \<Longrightarrow> 0 < p_PayloadLen p" by (simp add: word_gt_0)
  with ok show ?thesis
    by (cases "p_State p") (auto simp: parser_step_def parser_ok_def Let_def not_le)
qed

lemma set_parser_safe: "parser_ok p \<Longrightarrow> step_ok d (d\<lparr> b_Parser := p \<rparr>) []"
  by (simp add: step_ok_defs)

lemma ProcessReceivedByte_safe [simp]: "safe.step (ProcessReceivedByte b RxMs)"
proof (rule safe.stepI)
  fix d :: MAVLINK_BRIDGE_APP_Data
  let ?p = "b_Parser d"
  have "unat b \<le> 255" using unsigned_less[of b, where 'a = nat] by simp
  then have short: "\<not> unat b > 255" by simp
  have new: "step_ok d (d\<lparr> b_Parser := parser_zero\<lparr> p_IsV2 := v, p_State := PARSE_GOT_LENGTH \<rparr> \<rparr>) []" for v
    by (rule set_parser_safe) (simp add: parser_ok_def parser_zero_def)
  have st: "step_ok d (d\<lparr> b_Parser := parser_step b ?p \<rparr>) []"
    using parser_step_ok by (simp add: step_ok_defs)
  show "step_ok d (fst (ProcessReceivedByte b RxMs d)) (snd (ProcessReceivedByte b RxMs d))"
    using new st then_step_silent[OF st HandleFrameComplete_safe] short
    by (simp add: ProcessReceivedByte_def Let_def del: steps.simps steps_Cons)
qed

lemma HandleReceivedBytes_safe [simp]: "safe.step (HandleReceivedBytes bs RxMs)"
  unfolding HandleReceivedBytes_def
  by (rule safe.steps) (simp add: quiet_update_safe same_view_def list_all_iff)

lemma read_loop_safe:
  "step_ok d (fst (snd (read_loop rs n NowMs d))) (snd (snd (read_loop rs n NowMs d)))"
proof (induction rs n NowMs d rule: read_loop.induct)
  case (2 r rs n NowMs d)
  show ?case
  proof (cases "n \<ge> MAX_READS_PER_SERVICE")
    case False
    show ?thesis
    proof (cases r)
      case (Rd_Bytes bs)
      obtain d1 o1 where h: "HandleReceivedBytes bs NowMs d = (d1, o1)" by (cases "HandleReceivedBytes bs NowMs d") auto
      have "step_ok d d1 o1" using safe.stepD[OF HandleReceivedBytes_safe, of d bs NowMs] by (simp add: h)
      from safe.trans[OF this 2(1)[OF False Rd_Bytes h[symmetric]]] show ?thesis
        using False by (simp add: Rd_Bytes h case_prod_unfold Let_def)
    next
      case Rd_Interrupted
      with 2(2)[OF False] False show ?thesis by simp
    qed (use False safe.refl in simp_all)
  qed (simp add: safe.refl)
qed (simp add: safe.refl)

lemma read_port_safe [simp]: "safe.step (read_port NowMs)"
proof (rule safe.stepI)
  fix d :: MAVLINK_BRIDGE_APP_Data
  let ?d = "d\<lparr> b_Env := (b_Env d)\<lparr> be_Reads := [] \<rparr> \<rparr>" and ?rs = "be_Reads (b_Env d)"
  have v: "step_ok d ?d []" by (rule quiet_step) (simp_all add: same_view_def)
  obtain l d1 o1 where r: "read_loop ?rs 0 NowMs ?d = (l, d1, o1)" by (cases "read_loop ?rs 0 NowMs ?d") auto
  have "step_ok d d1 o1" using safe.trans[OF v read_loop_safe[of ?d ?rs 0 NowMs]] by (simp add: r)
  from then_step[OF this after_reads_safe]
  show "step_ok d (fst (read_port NowMs d)) (snd (read_port NowMs d))"
    by (simp add: read_port_def r Let_def)
qed

lemma ServiceSerial_safe [simp]: "safe.step MAVLINK_BRIDGE_APP_ServiceSerial"
proof -
  have "safe.step (steps [SendCompanionHeartbeat t, request_streams t, CheckMissionUploadTimeout t,
                   CheckMissionDownloadTimeout t, retry_readback t, read_port t])" for t
    by (rule safe.steps) simp
  then show ?thesis
    unfolding MAVLINK_BRIDGE_APP_ServiceSerial_def
    by (intro clock_safe safe.step_if reconnect_safe)
qed

section \<open>Commands\<close>

lemma MissionQuery_safe [simp]: "safe.step MAVLINK_BRIDGE_APP_MissionQuery"
proof -
  have "safe.step (steps [with_clock (\<lambda>NowMs. update (begin_download NowMs)), update bridge_count_command,
                  SendMissionRequestList, emit [Event BR_MISSION_DOWNLOAD_INF_EID INFORMATION]])"
    by (rule safe.steps) (simp add: clock_safe quiet_update_safe same_view_def bridge_count_command_def)
  moreover have "safe.step (\<lambda>d. (bridge_count_error d, [Event BR_MISSION_DOWNLOAD_ERR_EID ERROR]))"
    by (intro quiet_safe quietI) (simp add: same_view_def bridge_count_error_def)
  ultimately show ?thesis
    unfolding MAVLINK_BRIDGE_APP_MissionQuery_def[abs_def] by (rule safe.step_if[rotated])
qed

lemma ProcessSerialReconnectCmd_safe [simp]: "safe.step MAVLINK_BRIDGE_APP_ProcessSerialReconnectCmd"
proof -
  have "safe.step (\<lambda>d. snd (OpenSerial d))" by (rule safe.stepI, rule OpenSerial_safe)
  then show ?thesis
    unfolding MAVLINK_BRIDGE_APP_ProcessSerialReconnectCmd_def
    by (intro safe.steps)
      (simp add: quiet_update_safe same_view_def CloseBridgeSerial_def bridge_count_command_def)
qed

lemma simple_commands_safe [simp]:
  "safe.step MAVLINK_BRIDGE_APP_Noop" "safe.step MAVLINK_BRIDGE_APP_ResetCountersCmd"
  "safe.step (\<lambda>d. (bridge_count_error d, [Event BR_COMMAND_ERR_EID ERROR]))"
  by (intro quiet_safe quietI; simp add: MAVLINK_BRIDGE_APP_Noop_def MAVLINK_BRIDGE_APP_ResetCountersCmd_def
      bridge_count_command_def bridge_count_error_def same_view_def)+

lemma ProcessParserResetCmd_safe [simp]: "safe.step MAVLINK_BRIDGE_APP_ProcessParserResetCmd"
  by (rule safe.stepI)
    (simp add: MAVLINK_BRIDGE_APP_ProcessParserResetCmd_def bridge_count_command_def ResetParser_def step_ok_defs)

lemma ProcessSetFlightModeCmd_safe [simp]: "safe.step (MAVLINK_BRIDGE_APP_ProcessSetFlightModeCmd bs)"
proof (intro quiet_safe quietI)
  fix d :: MAVLINK_BRIDGE_APP_Data
  show "same_view d (fst (MAVLINK_BRIDGE_APP_ProcessSetFlightModeCmd bs d)) \<and>
      list_all quiet_out (snd (MAVLINK_BRIDGE_APP_ProcessSetFlightModeCmd bs d))"
  proof (cases "px4_sub_mode (byte_at bs 2)")
    case None
    then show ?thesis
      by (simp add: MAVLINK_BRIDGE_APP_ProcessSetFlightModeCmd_def bridge_exec_result_def bridge_count_error_def
          same_view_def Let_def)
  next
    case (Some k)
    let ?pl = "command_long F32_1 (f32_of_int PX4_MAIN_MODE_AUTO) (f32_of_int k) MAV_CMD_DO_SET_MODE d"
    obtain ok d1 o1 where s1: "MAVLINK_BRIDGE_APP_SendMavlinkV2 MSG_ID_COMMAND_LONG ?pl COMMAND_LONG_CRC_EXTRA d = (ok, d1, o1)"
      by (cases "MAVLINK_BRIDGE_APP_SendMavlinkV2 MSG_ID_COMMAND_LONG ?pl COMMAND_LONG_CRC_EXTRA d") auto
    let ?pl2 = "put_u16 (ucast (byte_at bs 3)) @ target d1"
    obtain ok2 d2 o2 where s2: "MAVLINK_BRIDGE_APP_SendMavlinkV2 MSG_ID_MISSION_SET_CURRENT ?pl2 MISSION_SET_CURRENT_CRC_EXTRA d1 = (ok2, d2, o2)"
      by (cases "MAVLINK_BRIDGE_APP_SendMavlinkV2 MSG_ID_MISSION_SET_CURRENT ?pl2 MISSION_SET_CURRENT_CRC_EXTRA d1") auto
    have q: "same_view d d1" "list_all quiet_out o1"
      using SendMavlinkV2_quiet[of d MSG_ID_COMMAND_LONG ?pl COMMAND_LONG_CRC_EXTRA] by (simp_all add: s1)
    have q2: "same_view d1 d2" "list_all quiet_out o2"
      using SendMavlinkV2_quiet[of d1 MSG_ID_MISSION_SET_CURRENT ?pl2 MISSION_SET_CURRENT_CRC_EXTRA] by (simp_all add: s2)
    have c: "same_view d x \<Longrightarrow> same_view d (bridge_count_command x) \<and> same_view d (bridge_count_error x)" for x
      by (simp add: same_view_def bridge_count_command_def bridge_count_error_def)
    show ?thesis
      using q q2 same_view_trans[OF q(1) q2(1)] c s1 s2 Some
      by (simp add: MAVLINK_BRIDGE_APP_ProcessSetFlightModeCmd_def bridge_exec_result_def Let_def)
  qed
qed

lemma bridge_command_safe [simp]: "safe.step (bridge_command c bs)"
  by (simp add: bridge_command_def MAVLINK_BRIDGE_APP_VerifyCmdLength_def Let_def)

lemma ProcessConfigCommand_quiet: "quiet (MAVLINK_BRIDGE_APP_ProcessConfigCommand m)"
  by (rule quietI)
    (simp add: MAVLINK_BRIDGE_APP_ProcessConfigCommand_def bridge_config_reject_def bridge_exec_result_def
      MAVLINK_BRIDGE_APP_SaveState_def save_file_def same_view_def Let_def split: sum.split)

text \<open>The route commands among the inputs.\<close>

fun route_of :: "bridge_input \<Rightarrow> ROUTE_UPDATE_TLM list" where
  "route_of (Bridge_Msg (RouteUpdate m)) = [m]"
| "route_of _ = []"

definition routes :: "(bridge_input \<times> bridge_env) list \<Rightarrow> ROUTE_UPDATE_TLM list" where
  "routes ins = concat (map (route_of \<circ> fst) ins)"

lemma TaskPipe_after:
  "step_after (route_of (Bridge_Msg m)) d (fst (MAVLINK_BRIDGE_APP_TaskPipe m d)) (snd (MAVLINK_BRIDGE_APP_TaskPipe m d))"
proof (cases "\<exists>r. m = RouteUpdate r")
  case True
  then show ?thesis using StartMissionUpload_after by (auto simp: MAVLINK_BRIDGE_APP_TaskPipe_def Let_def)
next
  case False
  have hk: "list_all quiet_out (MAVLINK_BRIDGE_APP_ReportHousekeeping d)"
    by (simp add: MAVLINK_BRIDGE_APP_ReportHousekeeping_def)
  from False have "step_ok d (fst (MAVLINK_BRIDGE_APP_TaskPipe m d)) (snd (MAVLINK_BRIDGE_APP_TaskPipe m d))"
    using safe.stepD[OF quiet_safe[OF ProcessConfigCommand_quiet]] safe.stepD[OF bridge_command_safe]
      safe.stepD[OF simple_commands_safe(3)] quiet_step[OF same_view_refl hk]
    by (cases m) (simp_all add: MAVLINK_BRIDGE_APP_TaskPipe_def Let_def)
  moreover from False have "route_of (Bridge_Msg m) = []" by (cases m) simp_all
  ultimately show ?thesis by (simp add: step_after_Nil)
qed

lemma bridge_turn_after:
  "step_after (route_of (fst i)) d (fst (bridge_turn i d)) (snd (bridge_turn i d))"
proof -
  let ?d = "d\<lparr> b_Env := snd i \<rparr>"
  have e: "step_ok d ?d []" by (rule quiet_step) (simp_all add: same_view_def)
  show ?thesis
  proof (cases "fst i")
    case (Bridge_Msg m)
    have t: "step_after (route_of (fst i)) ?d (fst (MAVLINK_BRIDGE_APP_TaskPipe m ?d)) (snd (MAVLINK_BRIDGE_APP_TaskPipe m ?d))"
      using TaskPipe_after[of m ?d] by (simp only: Bridge_Msg)
    have "step_after (route_of (fst i)) d (fst (MAVLINK_BRIDGE_APP_TaskPipe m ?d)) (snd (MAVLINK_BRIDGE_APP_TaskPipe m ?d))"
      using step_after_trans[OF e[folded step_after_Nil] t] by simp
    from step_after_ok[OF this safe.stepD[OF ServiceSerial_safe]]
    show ?thesis by (simp add: bridge_turn_def Bridge_Msg Let_def)
  next
    case Bridge_Timeout
    have "step_ok d (fst (MAVLINK_BRIDGE_APP_ServiceSerial ?d)) (snd (MAVLINK_BRIDGE_APP_ServiceSerial ?d))"
      using safe.trans[OF e safe.stepD[OF ServiceSerial_safe]] by simp
    then show ?thesis by (simp add: bridge_turn_def Bridge_Timeout step_after_Nil Let_def)
  next
    case Bridge_Pipe_Error
    have "step_ok d (?d\<lparr> b_RunStatus := APP_ERROR \<rparr>) [Event BR_COMMAND_ERR_EID ERROR]"
      by (rule quiet_step) (simp_all add: same_view_def)
    then show ?thesis by (simp add: bridge_turn_def Bridge_Pipe_Error step_after_Nil Let_def)
  qed
qed

lemma bridge_loop_after: "step_after (routes ins) d (fst (bridge_loop ins d)) (snd (bridge_loop ins d))"
proof (induction ins d rule: bridge_loop.induct)
  case (2 i ins d)
  show ?case
  proof (cases "b_RunStatus d = APP_RUN")
    case True
    obtain d1 o1 where t: "bridge_turn i d = (d1, o1)" by (cases "bridge_turn i d") auto
    have "step_after (route_of (fst i)) d d1 o1" using bridge_turn_after[of i d] by (simp add: t)
    from step_after_trans[OF this 2[OF _ t[symmetric]]] True
    show ?thesis by (simp add: t routes_def)
  next
    case False
    then show ?thesis using step_ok_after[OF safe.refl] by simp
  qed
qed (simp add: routes_def step_after_Nil safe.refl)

section \<open>A run from the start\<close>

lemma bridge_initial_ok: "bridge_ok (bridge_initial e)" "mission_ok [] (bridge_initial e)"
  "b_SequenceCounter (bridge_initial e) = 0"
  by (simp_all add: bridge_ok_def bridge_initial_def mission_ok_def active_mission_def obtainable.none)

lemma Init_safe:
  "step_ok (bridge_initial e) (fst (snd (MAVLINK_BRIDGE_APP_Init evs pip f e)))
     (snd (snd (MAVLINK_BRIDGE_APP_Init evs pip f e)))"
  by (rule quiet_step)
    (simp_all add: MAVLINK_BRIDGE_APP_Init_def MAVLINK_BRIDGE_APP_LoadState_def same_view_def Let_def
      split: file_read.split)

lemma Main_after:
  "step_after (routes ins) (bridge_initial e) (fst (MAV_BRIDGE_APP_Main evs pip f e ins))
     (snd (MAV_BRIDGE_APP_Main evs pip f e ins))"
proof -
  obtain ok d os where i: "MAVLINK_BRIDGE_APP_Init evs pip f e = (ok, d, os)"
    by (cases "MAVLINK_BRIDGE_APP_Init evs pip f e") auto
  let ?d = "if ok then d else d\<lparr> b_RunStatus := APP_ERROR \<rparr>"
  have "step_ok d ?d []" by (rule quiet_step) (simp_all add: same_view_def)
  then have "step_ok (bridge_initial e) ?d os" using safe.trans[of "bridge_initial e" d os ?d "[]"] Init_safe[of e evs pip f] i by simp
  from step_after_trans[OF this[folded step_after_Nil] bridge_loop_after[of ins ?d]]
  show ?thesis by (simp add: MAV_BRIDGE_APP_Main_def i Let_def)
qed

end
