(* ===== verification/Bridge_Parse.thy ===== *)
theory Bridge_Parse
  imports Bridge_Loop
begin

text \<open>
  The byte-wise parser of mavlink_bridge_app against whole frames: fed the bytes of a MAVLink
  frame of either version, whatever lies between frames, it hands over exactly the fields of
  each frame and is idle again.  From this follow what arrives of an intact frame and that
  nothing does of a damaged one.
\<close>

section \<open>Frames\<close>

record mav_rx =
  mr_V2 :: bool
  mr_Incompat :: u8
  mr_Compat :: u8
  mr_Seq :: u8
  mr_SysId :: u8
  mr_CompId :: u8
  mr_MsgId :: u32
  mr_Payload :: "u8 list"
  mr_Crc :: u16

definition rx_head :: "mav_rx \<Rightarrow> u8 list" where
  "rx_head m =
     (if mr_V2 m
      then [of_nat (length (mr_Payload m)), mr_Incompat m, mr_Compat m, mr_Seq m, mr_SysId m, mr_CompId m,
            ucast (mr_MsgId m), ucast (drop_bit 8 (mr_MsgId m)), ucast (drop_bit 16 (mr_MsgId m))]
      else [of_nat (length (mr_Payload m)), mr_Seq m, mr_SysId m, mr_CompId m, ucast (mr_MsgId m)])"

definition rx_bytes :: "mav_rx \<Rightarrow> u8 list" where
  "rx_bytes m = (if mr_V2 m then MAVLINK_STX_V2 else MAVLINK_STX_V1) # rx_head m @ mr_Payload m @ put_u16 (mr_Crc m)"

definition rx_fits :: "mav_rx \<Rightarrow> bool" where
  "rx_fits m \<longleftrightarrow> length (mr_Payload m) \<le> MAVLINK_MAX_PAYLOAD_LEN \<and>
     mr_MsgId m < (if mr_V2 m then 0x1000000 else 0x100)"

text \<open>What the parser holds when the frame is complete.\<close>

definition rx_context :: "mav_rx \<Rightarrow> MAVLINK_BRIDGE_APP_ParserContext" where
  "rx_context m =
     \<lparr> p_State = PARSE_GOT_CRC2, p_IsV2 = mr_V2 m, p_PayloadLen = of_nat (length (mr_Payload m)),
       p_PayloadIndex = of_nat (length (mr_Payload m)), p_Seq = mr_Seq m, p_SysId = mr_SysId m,
       p_CompId = mr_CompId m, p_MsgId = mr_MsgId m, p_CrcLow = ucast (mr_Crc m),
       p_CrcHigh = ucast (drop_bit 8 (mr_Crc m)),
       p_Payload = mr_Payload m @ replicate (MAVLINK_MAX_PAYLOAD_LEN - length (mr_Payload m)) 0 \<rparr>"

text \<open>The reference: a frame is taken as a whole.\<close>

definition take_frame :: "u32 \<Rightarrow> mav_rx \<Rightarrow> MAVLINK_BRIDGE_APP_Data \<Rightarrow> MAVLINK_BRIDGE_APP_Data \<times> out list" where
  "take_frame RxMs m =
     steps [update (\<lambda>d. d\<lparr> b_Parser := rx_context m \<rparr>), frame_action (rx_context m) (mr_Crc m) RxMs,
            update ResetParser]"

definition noise :: "u8 list \<Rightarrow> bool" where
  "noise bs \<longleftrightarrow> MAVLINK_STX_V1 \<notin> set bs \<and> MAVLINK_STX_V2 \<notin> set bs"

text \<open>Reading behind the end of a payload gives zeros.\<close>

lemma byte_at_zeros: "byte_at (xs @ replicate n 0) i = byte_at xs i"
  by (simp add: byte_at_def nth_append)

lemma get_zeros [simp]:
  "get_u16 (xs @ replicate n 0) i = get_u16 xs i"
  "get_u32 (xs @ replicate n 0) i = get_u32 xs i"
  "get_u64 (xs @ replicate n 0) i = get_u64 xs i"
  by (simp_all add: get_u16_def get_u32_def get_u64_def byte_at_zeros)

section \<open>Inside a frame\<close>

definition received :: "u32 \<Rightarrow> u8 list \<Rightarrow> MAVLINK_BRIDGE_APP_Data \<Rightarrow> MAVLINK_BRIDGE_APP_Data \<times> out list" where
  "received RxMs bs = steps (map (\<lambda>b. ProcessReceivedByte b RxMs) bs)"

lemma u8_le_255 [simp]: "\<not> 255 < unat (b :: u8)"
proof -
  have "unat b < 2 ^ LENGTH(8)" by (rule unsigned_less)
  then show ?thesis by simp
qed

lemma ProcessReceivedByte_inside:
  "p_State (b_Parser d) \<notin> {PARSE_WAIT_STX, PARSE_GOT_CRC2} \<Longrightarrow>
    ProcessReceivedByte b RxMs d = (d\<lparr> b_Parser := parser_step b (b_Parser d) \<rparr>, [])"
  by (simp add: ProcessReceivedByte_def Let_def)

lemma received_Cons_inside [simp]:
  "p_State (b_Parser d) \<notin> {PARSE_WAIT_STX, PARSE_GOT_CRC2} \<Longrightarrow>
    received RxMs (b # bs) d = received RxMs bs (d\<lparr> b_Parser := parser_step b (b_Parser d) \<rparr>)"
  by (simp add: received_def ProcessReceivedByte_inside prepend_def)

lemma received_Nil [simp]: "received RxMs [] d = (d, [])"
  by (simp add: received_def)

lemma received_append:
  "received RxMs (xs @ ys) d =
    prepend (snd (received RxMs xs d)) (received RxMs ys (fst (received RxMs xs d)))"
  by (simp add: received_def steps_append)

lemma unat_len: "n \<le> 255 \<Longrightarrow> unat (of_nat n :: u8) = n"
  by (subst unat_of_nat) simp

lemma len_zero: "rx_fits m \<Longrightarrow> (of_nat (length (mr_Payload m)) = (0 :: u8)) = (mr_Payload m = [])"
  using unat_len[of "length (mr_Payload m)"] by (auto simp: rx_fits_def)

definition reading :: "mav_rx \<Rightarrow> nat \<Rightarrow> MAVLINK_BRIDGE_APP_ParserContext" where
  "reading m n =
     (rx_context m)\<lparr> p_State := (if n < length (mr_Payload m) then PARSE_READING_PAYLOAD else PARSE_GOT_CRC1),
        p_PayloadIndex := of_nat n, p_CrcLow := 0, p_CrcHigh := 0,
        p_Payload := take n (mr_Payload m) @ replicate (MAVLINK_MAX_PAYLOAD_LEN - n) 0 \<rparr>"

lemma take_bit_small: "unat w < 2 ^ n \<Longrightarrow> take_bit n w = (w :: u32)"
  by (simp add: word_unat_eq_iff unsigned_take_bit_eq take_bit_nat_eq_self)

lemma split_id24:
  assumes "w < 0x1000000"
  shows "(ucast (ucast w :: u8) OR push_bit 8 (ucast (ucast (drop_bit 8 w) :: u8))) OR
     push_bit 16 (ucast (ucast (drop_bit 16 w) :: u8)) = (w :: u32)" (is "?l = w")
proof -
  have "?l = take_bit 24 w"
  proof (rule bit_word_eqI)
    fix n assume "n < LENGTH(32)"
    consider "n < 8" | "8 \<le> n" "n < 16" | "16 \<le> n" "n < 24" | "24 \<le> n" by linarith
    then show "bit ?l n = bit (take_bit 24 w) n"
      by cases (auto simp: bits_of_bytes bit_take_bit_iff)
  qed
  also have "\<dots> = w" using assms by (intro take_bit_small) (simp add: word_less_nat_alt)
  finally show ?thesis .
qed

lemma split_id8:
  assumes "w < 0x100" shows "ucast (ucast w :: u8) = (w :: u32)"
proof -
  have "ucast (ucast w :: u8) = take_bit 8 w"
    by (rule bit_word_eqI) (auto simp: bits_of_bytes bit_take_bit_iff)
  also have "\<dots> = w" using assms by (intro take_bit_small) (simp add: word_less_nat_alt)
  finally show ?thesis .
qed

lemma received_head:
  assumes "rx_fits m" "b_Parser d = parser_zero\<lparr> p_IsV2 := mr_V2 m, p_State := PARSE_GOT_LENGTH \<rparr>"
  shows "received RxMs (rx_head m) d = (d\<lparr> b_Parser := reading m 0 \<rparr>, [])"
proof -
  have i: "mr_MsgId m < (if mr_V2 m then 0x1000000 else 0x100)" using assms(1) by (simp add: rx_fits_def)
  show ?thesis
    using assms(2) i len_zero[OF assms(1)]
    by (cases "mr_V2 m")
      (simp_all add: rx_head_def parser_step_def parser_zero_def reading_def rx_context_def Let_def
        split_id24 split_id8)
qed

lemma received_payload:
  assumes "rx_fits m" "b_Parser d = reading m n" "n \<le> length (mr_Payload m)"
  shows "received RxMs (drop n (mr_Payload m)) d = (d\<lparr> b_Parser := reading m (length (mr_Payload m)) \<rparr>, [])"
  using assms(2,3)
proof (induction "length (mr_Payload m) - n" arbitrary: n d)
  case 0
  then show ?case by simp
next
  case (Suc k)
  let ?l = "length (mr_Payload m)"
  have n: "n < ?l" "?l \<le> 255" using Suc assms(1) by (auto simp: rx_fits_def)
  have d: "drop n (mr_Payload m) = mr_Payload m ! n # drop (Suc n) (mr_Payload m)"
    using n by (simp add: Cons_nth_drop_Suc)
  have "(of_nat n + 1 :: u8) = of_nat (Suc n)" by simp
  then have le: "((of_nat ?l :: u8) \<le> of_nat n + 1) = (?l \<le> Suc n)"
    using n by (simp only: word_le_nat_alt unat_len)
  have "255 - n = Suc (254 - n)" using n by simp
  then have r: "replicate (255 - n) (0 :: u8) = 0 # replicate (254 - n) 0" by (simp only: replicate_Suc)
  have "parser_step (mr_Payload m ! n) (reading m n) = reading m (Suc n)"
    using n le
    by (simp add: parser_step_def reading_def rx_context_def Let_def unat_len take_Suc_conv_app_nth list_update_append r)
  then show ?case
    using Suc.hyps(1)[of "Suc n" "d\<lparr> b_Parser := reading m (Suc n) \<rparr>"] Suc.hyps(2) Suc.prems n
    by (simp add: d reading_def)
qed

section \<open>Whole frames\<close>

lemma crc_join: "push_bit 8 (ucast (ucast (drop_bit 8 w) :: u8)) OR ucast (ucast w :: u8) = (w :: u16)"
  using get_put_u16'[of w] by (simp add: get_u16_def put_u16_def or.commute)

lemma take_frame_resets: "b_Parser (fst (take_frame RxMs m d)) = parser_zero"
  by (simp add: take_frame_def update_def ResetParser_def)

lemma received_frame:
  assumes m: "rx_fits m" and d: "b_Parser d = parser_zero"
  shows "received RxMs (rx_bytes m) d = take_frame RxMs m d"
proof -
  let ?stx = "if mr_V2 m then MAVLINK_STX_V2 else MAVLINK_STX_V1" and ?n = "length (mr_Payload m)"
  let ?d0 = "d\<lparr> b_Parser := parser_zero\<lparr> p_IsV2 := mr_V2 m, p_State := PARSE_GOT_LENGTH \<rparr> \<rparr>"
  let ?d1 = "d\<lparr> b_Parser := reading m ?n \<rparr>"
  have stx: "received RxMs [?stx] d = (?d0, [])"
    by (simp add: received_def ProcessReceivedByte_def d parser_zero_def prepend_def)
  have head: "received RxMs (rx_head m) ?d0 = (d\<lparr> b_Parser := reading m 0 \<rparr>, [])"
    by (subst received_head[OF m]) simp_all
  have body: "received RxMs (mr_Payload m) (d\<lparr> b_Parser := reading m 0 \<rparr>) = (?d1, [])"
    using received_payload[OF m, of "d\<lparr> b_Parser := reading m 0 \<rparr>" 0] by simp
  have crc: "received RxMs (put_u16 (mr_Crc m)) ?d1 = take_frame RxMs m d"
    using m
    by (simp add: put_u16_def reading_def rx_fits_def received_def ProcessReceivedByte_def parser_step_def
        HandleFrameComplete_def take_frame_def rx_context_def Let_def crc_join update_def prepend_def
        case_prod_unfold)
  have "rx_bytes m = [?stx] @ rx_head m @ mr_Payload m @ put_u16 (mr_Crc m)" by (simp add: rx_bytes_def)
  then show ?thesis
    by (simp only: received_append stx head body crc fst_conv snd_conv prepend_def) simp
qed

lemma received_noise: "noise bs \<Longrightarrow> b_Parser d = parser_zero \<Longrightarrow> received RxMs bs d = (d, [])"
proof (induction bs)
  case (Cons b bs)
  then have "ProcessReceivedByte b RxMs d = (d, [])"
    by (auto simp: noise_def ProcessReceivedByte_def parser_step_def parser_zero_def Let_def)
  with Cons show ?case by (simp add: received_def noise_def prepend_def)
qed simp

text \<open>A port that opens, and an attitude report of the flight controller with its trailing zeros
  trimmed.\<close>

definition port_env :: "bool list \<Rightarrow> read_result list \<Rightarrow> bridge_env" where
  "port_env opens reads = \<lparr> be_Now = \<lparr> Seconds = 5, Subseconds = 0 \<rparr>, be_Ticks = [], be_Writes = [],
     be_Reads = reads, be_Opens = opens, be_Save = Save_Ok \<rparr>"

definition demo_frame :: mav_rx where
  "demo_frame = \<lparr> mr_V2 = True, mr_Incompat = 0, mr_Compat = 0, mr_Seq = 7, mr_SysId = 1, mr_CompId = 1,
     mr_MsgId = 30, mr_Payload = [0xE8, 3], mr_Crc = 0xA1B6 \<rparr>"

text \<open>What is noted when bytes arrive, whatever they are.\<close>

definition noted :: "u32 \<Rightarrow> u8 list \<Rightarrow> MAVLINK_BRIDGE_APP_Data \<Rightarrow> MAVLINK_BRIDGE_APP_Data" where
  "noted RxMs bs d =
     d\<lparr> b_LastRxTimestampMs := RxMs, b_BytesReceived := b_BytesReceived d + of_nat (length bs),
        b_LastErrorCode := BRIDGE_ERROR_NONE \<rparr>"

lemma HandleReceivedBytes_received: "HandleReceivedBytes bs RxMs d = received RxMs bs (noted RxMs bs d)"
  by (simp add: HandleReceivedBytes_def received_def noted_def update_def) (simp add: prepend_def)

definition frame_stream :: "(u8 list \<times> mav_rx) list \<Rightarrow> u8 list" where
  "frame_stream gs = concat (map (\<lambda>(g, m). g @ rx_bytes m) gs)"

lemma take_frames_reset:
  "b_Parser d = parser_zero \<Longrightarrow>
    b_Parser (fst (steps (map (\<lambda>(g, m). take_frame RxMs m) gs) d)) = parser_zero"
  by (induction gs arbitrary: d) (auto simp: take_frame_resets)

lemma received_frames:
  assumes "b_Parser d = parser_zero" "\<forall>(g, m)\<in>set gs. noise g \<and> rx_fits m"
  shows "received RxMs (frame_stream gs) d = steps (map (\<lambda>(g, m). take_frame RxMs m) gs) d"
  using assms
proof (induction gs arbitrary: d)
  case (Cons x gs)
  obtain g m where x: "x = (g, m)" by (cases x)
  have gm: "noise g" "rx_fits m" using Cons.prems(2) x by auto
  have "frame_stream (x # gs) = g @ rx_bytes m @ frame_stream gs" by (simp add: frame_stream_def x)
  then show ?case
    using Cons.IH[OF take_frame_resets[of RxMs m d]] Cons.prems
    by (simp add: received_append received_noise[OF gm(1)] received_frame[OF gm(2)] x)
      (simp add: prepend_def case_prod_unfold)
qed (simp add: frame_stream_def)

text \<open>C11: fed the bytes of any sequence of MAVLink frames of either version with noise between them,
  the byte-wise parser does what taking each frame as a whole does, one after the other, and ends
  idle.\<close>

theorem bridge_parser_equivalence:
  assumes "b_Parser d = parser_zero" "\<forall>(g, m)\<in>set gs. noise g \<and> rx_fits m"
  shows "HandleReceivedBytes (frame_stream gs) RxMs d =
      steps (map (\<lambda>(g, m). take_frame RxMs m) gs) (noted RxMs (frame_stream gs) d) \<and>
    b_Parser (fst (HandleReceivedBytes (frame_stream gs) RxMs d)) = parser_zero"
proof -
  have "b_Parser (noted RxMs (frame_stream gs) d) = parser_zero" using assms(1) by (simp add: noted_def)
  then show ?thesis
    using received_frames[OF _ assms(2)] take_frames_reset[of "noted RxMs (frame_stream gs) d"]
    by (simp add: HandleReceivedBytes_received)
qed

lemma bridge_parser_equivalence_witness:
  "HandleReceivedBytes [1, 2, 0xFD, 2, 0, 0, 7, 1, 1, 30, 0, 0, 0xE8, 3, 0xB6, 0xA1,
       0xFE, 0, 7, 1, 1, 30, 0xB6, 0xA1] 5000 (bridge_initial (port_env [] [])) =
     steps [take_frame 5000 demo_frame, take_frame 5000 (demo_frame\<lparr> mr_V2 := False, mr_Payload := [] \<rparr>)]
       (noted 5000 (replicate 24 0) (bridge_initial (port_env [] [])))"
proof -
  let ?gs = "[([1, 2], demo_frame), ([], demo_frame\<lparr> mr_V2 := False, mr_Payload := [] \<rparr>)]"
  have "b_Parser (bridge_initial (port_env [] [])) = parser_zero" "\<forall>(g, m)\<in>set ?gs. noise g \<and> rx_fits m"
    by (simp_all add: bridge_initial_def demo_frame_def noise_def rx_fits_def)
  note eq = bridge_parser_equivalence[OF this, of 5000]
  have "frame_stream ?gs = [1, 2, 0xFD, 2, 0, 0, 7, 1, 1, 30, 0, 0, 0xE8, 3, 0xB6, 0xA1,
      0xFE, 0, 7, 1, 1, 30, 0xB6, 0xA1]"
    by (simp add: frame_stream_def rx_bytes_def rx_head_def put_u16_def demo_frame_def)
  with eq show ?thesis by (simp del: steps_Cons add: noted_def)
qed

section \<open>The checksum\<close>

text \<open>The bytes the checksum covers; the two flag bytes of version 2 are taken for zero.\<close>

definition rx_covered :: "mav_rx \<Rightarrow> u8 list" where
  "rx_covered m =
     (if mr_V2 m
      then [of_nat (length (mr_Payload m)), 0, 0, mr_Seq m, mr_SysId m, mr_CompId m,
            ucast (mr_MsgId m), ucast (drop_bit 8 (mr_MsgId m)), ucast (drop_bit 16 (mr_MsgId m))]
      else [of_nat (length (mr_Payload m)), mr_Seq m, mr_SysId m, mr_CompId m, ucast (mr_MsgId m)]) @ mr_Payload m"

definition rx_crc :: "mav_rx \<Rightarrow> u8 \<Rightarrow> u16" where
  "rx_crc m CrcExtra = foldl CrcAccumulate 0xFFFF (rx_covered m @ [CrcExtra])"

lemma ucast_and_0xFF: "ucast (w AND 0xFF) = (ucast (w :: u32) :: u8)"
proof -
  have "w AND 0xFF = take_bit 8 w" by (simp add: take_bit_eq_mask mask_eq_exp_minus_1)
  then show ?thesis by (auto simp: word8_eq_iff bit_ucast_iff bit_take_bit_iff)
qed

lemma rx_payload_context: "rx_fits m \<Longrightarrow> rx_payload (rx_context m) = mr_Payload m"
  by (simp add: rx_payload_def rx_context_def rx_fits_def unat_len)

lemma ComputeFrameCrc_context: "rx_fits m \<Longrightarrow> ComputeFrameCrc (rx_context m) x = rx_crc m x"
  by (simp add: ComputeFrameCrc_def rx_crc_def rx_covered_def rx_payload_context)
    (simp add: rx_context_def ucast_and_0xFF)

text \<open>The seed of the checksum of each message the application handles.\<close>

definition crc_extra :: "u32 \<Rightarrow> u8" where
  "crc_extra MsgId =
     (if MsgId = MSG_ID_HEARTBEAT then HEARTBEAT_CRC_EXTRA
      else if MsgId = MSG_ID_COMMAND_ACK then COMMAND_ACK_CRC_EXTRA
      else if MsgId = MSG_ID_ATTITUDE then ATTITUDE_CRC_EXTRA
      else if MsgId = MSG_ID_LOCAL_POSITION_NED then LOCAL_POSITION_NED_CRC_EXTRA
      else if MsgId = MSG_ID_GLOBAL_POSITION_INT then GLOBAL_POSITION_INT_CRC_EXTRA
      else if MsgId = MSG_ID_GPS_RAW_INT then GPS_RAW_INT_CRC_EXTRA
      else if MsgId = MSG_ID_EKF_STATUS_REPORT then EKF_STATUS_CRC_EXTRA
      else if MsgId = MSG_ID_SYS_TIME then SYS_TIME_CRC_EXTRA
      else if MsgId = MSG_ID_MISSION_REQUEST_INT then MISSION_REQUEST_INT_CRC_EXTRA
      else if MsgId = MSG_ID_MISSION_REQUEST then MISSION_REQUEST_CRC_EXTRA
      else if MsgId = MSG_ID_MISSION_ACK then MISSION_ACK_CRC_EXTRA
      else if MsgId = MSG_ID_MISSION_COUNT then MISSION_COUNT_CRC_EXTRA
      else if MsgId = MSG_ID_MISSION_ITEM_INT then MISSION_ITEM_INT_CRC_EXTRA
      else MISSION_CURRENT_CRC_EXTRA)"

definition rx_intact :: "mav_rx \<Rightarrow> bool" where
  "rx_intact m \<longleftrightarrow> mr_Crc m = rx_crc m (crc_extra (mr_MsgId m))"

text \<open>A frame whose checksum is wrong has no effect but on the count of parse errors.\<close>

fun is_event :: "out \<Rightarrow> bool" where
  "is_event (Event e t) \<longleftrightarrow> True"
| "is_event _ \<longleftrightarrow> False"

definition parse_error :: "MAVLINK_BRIDGE_APP_Data \<Rightarrow> MAVLINK_BRIDGE_APP_Data" where
  "parse_error d =
     d\<lparr> b_LastErrorCode := BRIDGE_ERROR_PARSE_FAIL, b_ParseErrorCount := b_ParseErrorCount d + 1 \<rparr>"

lemma wrong_crc:
  assumes "ComputeFrameCrc p x \<noteq> crc"
  shows "telemetry_frame p crc x RxMs f d = (parse_error d, [Event BR_PARSE_EID INFORMATION, Event BR_PARSE_EID INFORMATION])"
    and "guarded_frame p crc x n f d = (parse_error d, [Event BR_PARSE_EID INFORMATION])"
  using assms
  by (simp_all add: telemetry_frame_def guarded_frame_def parse_failed_def emit_def parse_error_def
      MAVLINK_BRIDGE_APP_RecordParseError_def prepend_def)

lemma frame_action_wrong_crc:
  assumes "ComputeFrameCrc p (crc_extra (p_MsgId p)) \<noteq> crc"
  shows "fst (frame_action p crc RxMs d) \<in> {d, parse_error d} \<and> list_all is_event (snd (frame_action p crc RxMs d))"
proof (cases "p_MsgId p \<in> {0, 2, 24, 30, 32, 33, 40, 42, 44, 47, 51, 73, 77, 193}")
  case True
  then show ?thesis
    using assms
    by (elim insertE)
      (simp_all add: frame_action_def crc_extra_def Let_def wrong_crc emit_def parse_error_def
        parse_failed_def MAVLINK_BRIDGE_APP_RecordParseError_def)
next
  case False
  then show ?thesis by (simp add: frame_action_def Let_def)
qed

lemma take_frame_wrong_crc:
  assumes "rx_fits m" "\<not> rx_intact m" "b_Parser d = parser_zero"
  shows "fst (take_frame RxMs m d) \<in> {d, parse_error d} \<and> list_all is_event (snd (take_frame RxMs m d))"
proof -
  have i: "p_MsgId (rx_context m) = mr_MsgId m" by (simp add: rx_context_def)
  have "ComputeFrameCrc (rx_context m) (crc_extra (p_MsgId (rx_context m))) \<noteq> mr_Crc m"
    using assms(1,2) by (simp add: ComputeFrameCrc_context rx_intact_def i)
  from frame_action_wrong_crc[OF this, of RxMs "d\<lparr> b_Parser := rx_context m \<rparr>"] assms(3)
  show ?thesis
    by (auto simp: take_frame_def update_def ResetParser_def parse_error_def)
qed

text \<open>Damage of one byte or two neighbouring bytes of what the checksum covers, the length and
  the message identifier kept, or of the checksum itself.\<close>

definition frame_damaged :: "mav_rx \<Rightarrow> mav_rx \<Rightarrow> bool" where
  "frame_damaged m m' \<longleftrightarrow>
     mr_V2 m' = mr_V2 m \<and> mr_MsgId m' = mr_MsgId m \<and> length (mr_Payload m') = length (mr_Payload m) \<and>
     (rx_covered m' = rx_covered m \<and> mr_Crc m' \<noteq> mr_Crc m \<or>
      mr_Crc m' = mr_Crc m \<and>
      (\<exists>xs a b a' b' ys. rx_covered m = xs @ a # b # ys \<and> rx_covered m' = xs @ a' # b' # ys \<and> (a, b) \<noteq> (a', b')))"

lemma frame_damagedI:
  "rx_covered m = xs @ a # b # ys \<Longrightarrow> rx_covered m' = xs @ a' # b' # ys \<Longrightarrow> (a, b) \<noteq> (a', b') \<Longrightarrow>
    mr_V2 m' = mr_V2 m \<Longrightarrow> mr_MsgId m' = mr_MsgId m \<Longrightarrow>
    length (mr_Payload m') = length (mr_Payload m) \<Longrightarrow> mr_Crc m' = mr_Crc m \<Longrightarrow> frame_damaged m m'"
  unfolding frame_damaged_def by blast

lemma frame_damaged_not_intact:
  assumes "frame_damaged m m'" "rx_intact m" shows "\<not> rx_intact m'"
proof -
  have "rx_covered m = xs @ a # b # ys \<Longrightarrow> rx_covered m' = xs @ a' # b' # ys \<Longrightarrow> (a, b) \<noteq> (a', b') \<Longrightarrow>
      rx_crc m x \<noteq> rx_crc m' x" for xs a b a' b' ys x
    using x25.detects_burst[of a b a' b' "0xFFFF" xs "ys @ [x]"] by (simp add: rx_crc_def)
  then show ?thesis
    using assms by (auto simp: frame_damaged_def rx_intact_def rx_crc_def)
qed

end
