(* ===== verification/Bridge_Telemetry.thy ===== *)
theory Bridge_Telemetry
  imports Bridge_Parse
begin

text \<open>
  What mavlink_bridge_app makes of the telemetry of the flight controller: each report arrives
  as one packet with the values reported, whatever of its trailing zeros was trimmed, and a
  damaged frame leaves nothing but a counted error.
\<close>

section \<open>Reports of the flight controller\<close>

text \<open>The messages of the MAVLink common set the application turns into packets, with their
  payloads in the order of the wire.\<close>

datatype fc_report =
    Attitude u32 f32 f32 f32 f32 f32 f32
  | Local_Position u32 f32 f32 f32 f32 f32 f32
  | Global_Position u32 i32 i32 i32 i32 u16 u16 u16 u16
  | Gps_Raw u64 i32 i32 i32 u16 u16 u16 u16 u8 u8
  | Ekf_Report f32 f32 f32 f32 f32 u16
  | System_Time u64 u32

fun report_id :: "fc_report \<Rightarrow> u32" where
  "report_id (Attitude _ _ _ _ _ _ _) = MSG_ID_ATTITUDE"
| "report_id (Local_Position _ _ _ _ _ _ _) = MSG_ID_LOCAL_POSITION_NED"
| "report_id (Global_Position _ _ _ _ _ _ _ _ _) = MSG_ID_GLOBAL_POSITION_INT"
| "report_id (Gps_Raw _ _ _ _ _ _ _ _ _ _) = MSG_ID_GPS_RAW_INT"
| "report_id (Ekf_Report _ _ _ _ _ _) = MSG_ID_EKF_STATUS_REPORT"
| "report_id (System_Time _ _) = MSG_ID_SYS_TIME"

fun report_payload :: "fc_report \<Rightarrow> u8 list" where
  "report_payload (Attitude t x1 x2 x3 v1 v2 v3) =
     put_u32 t @ put_u32 x1 @ put_u32 x2 @ put_u32 x3 @ put_u32 v1 @ put_u32 v2 @ put_u32 v3"
| "report_payload (Local_Position t x1 x2 x3 v1 v2 v3) =
     put_u32 t @ put_u32 x1 @ put_u32 x2 @ put_u32 x3 @ put_u32 v1 @ put_u32 v2 @ put_u32 v3"
| "report_payload (Global_Position t lat lon alt rel vx vy vz hdg) =
     put_u32 t @ put_u32 lat @ put_u32 lon @ put_u32 alt @ put_u32 rel @
     put_u16 vx @ put_u16 vy @ put_u16 vz @ put_u16 hdg"
| "report_payload (Gps_Raw us lat lon alt eph epv vel cog fix_type sats) =
     put_u64 us @ put_u32 lat @ put_u32 lon @ put_u32 alt @
     put_u16 eph @ put_u16 epv @ put_u16 vel @ put_u16 cog @ [fix_type, sats]"
| "report_payload (Ekf_Report v1 v2 v3 v4 v5 flags) =
     put_u32 v1 @ put_u32 v2 @ put_u32 v3 @ put_u32 v4 @ put_u32 v5 @ put_u16 flags"
| "report_payload (System_Time us boot) = put_u64 us @ put_u32 boot"

text \<open>Which reports are published, and as what.\<close>

fun report_valid :: "fc_report \<Rightarrow> bool" where
  "report_valid (Attitude t x1 x2 x3 v1 v2 v3) \<longleftrightarrow> list_all isfinite [x1, x2, x3, v1, v2, v3]"
| "report_valid (Local_Position t x1 x2 x3 v1 v2 v3) \<longleftrightarrow> list_all isfinite [x1, x2, x3, v1, v2, v3]"
| "report_valid (System_Time us boot) \<longleftrightarrow> us \<noteq> 0"
| "report_valid _ \<longleftrightarrow> True"

text \<open>A receiver fills a trimmed payload with zeros; two messages are asked for almost in full.\<close>

fun report_min :: "fc_report \<Rightarrow> nat" where
  "report_min (Gps_Raw _ _ _ _ _ _ _ _ _ _) = GPS_RAW_INT_PAYLOAD_LEN"
| "report_min (Ekf_Report _ _ _ _ _ _) = EKF_STATUS_MIN_PAYLOAD_LEN"
| "report_min _ = 0"

definition trims :: "u8 list \<Rightarrow> u8 list \<Rightarrow> bool" where
  "trims full pl \<longleftrightarrow> length pl \<le> length full \<and> full = pl @ replicate (length full - length pl) 0"

fun report_packet :: "u32 \<Rightarrow> u32 \<Rightarrow> fc_report \<Rightarrow> sb_msg" where
  "report_packet n RxMs (Attitude t x1 x2 x3 v1 v2 v3) = FcAttitude
     \<lparr> fc_TimestampMs = t, fc_Seq = n, fc_Valid = 1, fc_Stale = 0, fc_ErrorCode = BRIDGE_ERROR_NONE,
       fa_RollRad = x1, fa_PitchRad = x2, fa_YawRad = x3,
       fa_RollspeedRps = v1, fa_PitchspeedRps = v2, fa_YawspeedRps = v3 \<rparr>"
| "report_packet n RxMs (Local_Position t x1 x2 x3 v1 v2 v3) = FcEkfLocal
     \<lparr> fc_TimestampMs = t, fc_Seq = n, fc_Valid = 1, fc_Stale = 0, fc_ErrorCode = BRIDGE_ERROR_NONE,
       fl_X_m = x1, fl_Y_m = x2, fl_Z_m = x3, fl_Vx_mps = v1, fl_Vy_mps = v2, fl_Vz_mps = v3 \<rparr>"
| "report_packet n RxMs (Global_Position t lat lon alt rel vx vy vz hdg) = FcEkfLocal
     \<lparr> fc_TimestampMs = t, fc_Seq = n, fc_Valid = 1, fc_Stale = 0, fc_ErrorCode = BRIDGE_ERROR_NONE,
       fl_X_m = 0, fl_Y_m = 0, fl_Z_m = f32_neg (f32_div_const (f32_of_int (sint rel)) 1000),
       fl_Vx_mps = cm_to_m vx, fl_Vy_mps = cm_to_m vy, fl_Vz_mps = cm_to_m vz \<rparr>"
| "report_packet n RxMs (Gps_Raw us lat lon alt eph epv vel cog fix_type sats) = FcGpsRaw
     \<lparr> fc_TimestampMs = ucast (us div 1000), fc_Seq = n, fc_Valid = (if fix_type \<ge> 3 then 1 else 0),
       fc_Stale = 0, fc_ErrorCode = (if fix_type \<ge> 3 then BRIDGE_ERROR_NONE else BRIDGE_ERROR_GPS_NO_FIX),
       fg_FixType = fix_type, fg_SatellitesVisible = sats, fg_LatE7 = lat, fg_LonE7 = lon, fg_AltMm = alt \<rparr>"
| "report_packet n RxMs (Ekf_Report v1 v2 v3 v4 v5 flags) = FcEkfStatus
     \<lparr> fc_TimestampMs = RxMs, fc_Seq = n, fc_Valid = (if flags \<noteq> 0 then 1 else 0), fc_Stale = 0,
       fc_ErrorCode = (if flags \<noteq> 0 then BRIDGE_ERROR_NONE else BRIDGE_ERROR_EKF_UNHEALTHY),
       fe_Flags = flags \<rparr>"
| "report_packet n RxMs (System_Time us boot) = FcSysTime
     \<lparr> fc_TimestampMs = RxMs, fc_Seq = n, fc_Valid = 1, fc_Stale = 0, fc_ErrorCode = BRIDGE_ERROR_NONE,
       ft_TimeUnixUsec = us \<rparr>"

section \<open>Reading a trimmed payload\<close>

lemma trims_get:
  assumes "trims full pl"
  shows "byte_at pl i = byte_at full i" "get_u16 pl i = get_u16 full i" "get_u32 pl i = get_u32 full i"
    "get_u64 pl i = get_u64 full i"
  using assms by (metis trims_def byte_at_zeros get_zeros)+

section \<open>What leaves the packets alone\<close>

interpretation mute: step_rel "\<lambda>d d' os. sent os = [] \<and> b_SequenceCounter d' = b_SequenceCounter d"
  by unfold_locales simp_all

lemma send_mavlink_mute: "mute.step (send_mavlink m pl x)"
  by (rule mute.stepI)
    (simp add: send_mavlink_def MAVLINK_BRIDGE_APP_SendMavlinkV2_def Let_def case_prod_unfold)

lemma clock_mute: "(\<And>t. mute.step (f t)) \<Longrightarrow> mute.step (with_clock f)"
  by (simp add: mute.step_def with_clock_def read_clock_def Let_def split: list.split)

lemma update_mute: "(\<And>d. b_SequenceCounter (f d) = b_SequenceCounter d) \<Longrightarrow> mute.step (update f)"
  by (simp add: mute.step_def update_def)

lemma StartFcMissionReadback_mute: "mute.step StartFcMissionReadback"
  unfolding StartFcMissionReadback_def
  by (rule mute.steps)
    (simp add: clock_mute update_mute mute.step_emit begin_download_def SendMissionRequestList_def
      mute.stepI mute.stepD[OF send_mavlink_mute])

lemma SetLinkState_mute: "mute.step (MAVLINK_BRIDGE_APP_SetLinkState s)"
  using mute.stepD[OF StartFcMissionReadback_mute]
  by (auto intro!: mute.stepI simp: MAVLINK_BRIDGE_APP_SetLinkState_def Let_def)

text \<open>A live frame is used in a state with the same packet counter.\<close>

lemma live_frame_use:
  obtains d' os where "live_frame RxMs use d = prepend os (use d')" "sent os = []"
    "b_SequenceCounter d' = b_SequenceCounter d"
proof -
  let ?d = "d\<lparr> b_LastErrorCode := BRIDGE_ERROR_NONE, b_LastRxTimestampMs := RxMs \<rparr>"
  let ?r = "MAVLINK_BRIDGE_APP_SetLinkState BRIDGE_CONNECTED ?d"
  have "live_frame RxMs use d = prepend (snd ?r) (use (fst ?r))"
    by (simp add: live_frame_def update_def prepend_def case_prod_unfold)
  then show thesis
    using that mute.stepD[OF SetLinkState_mute[of BRIDGE_CONNECTED], of ?d] by simp
qed

section \<open>Reports arrive as they were sent\<close>

lemma sent_log [simp]: "sent (log_decoded n) = []"
  by (simp add: log_decoded_def)

fun publish :: "fc_report \<Rightarrow> MAVLINK_BRIDGE_APP_ParserContext \<Rightarrow> u32
    \<Rightarrow> MAVLINK_BRIDGE_APP_Data \<Rightarrow> MAVLINK_BRIDGE_APP_Data \<times> out list" where
  "publish (Attitude _ _ _ _ _ _ _) = PublishAttitude"
| "publish (Local_Position _ _ _ _ _ _ _) = PublishEkfLocal"
| "publish (Global_Position _ _ _ _ _ _ _ _ _) = PublishGlobalPositionAsLocal"
| "publish (Gps_Raw _ _ _ _ _ _ _ _ _ _) = PublishGpsRaw"
| "publish (Ekf_Report _ _ _ _ _ _) = PublishEkfStatus"
| "publish (System_Time _ _) = HandleSysTime"

text \<open>The parser holds a report.\<close>

definition holds :: "MAVLINK_BRIDGE_APP_ParserContext \<Rightarrow> fc_report \<Rightarrow> bool" where
  "holds p r \<longleftrightarrow> trims (report_payload r) (rx_payload p) \<and> length (rx_payload p) = unat (p_PayloadLen p) \<and>
     report_min r \<le> unat (p_PayloadLen p) \<and>
     p_Payload p = rx_payload p @ replicate (MAVLINK_MAX_PAYLOAD_LEN - unat (p_PayloadLen p)) 0"

lemma publish_report:
  assumes "holds p r" "report_valid r"
  shows "sent (snd (publish r p RxMs d)) = [report_packet (b_SequenceCounter d + 1) RxMs r]"
proof -
  note t = trims_get[of "report_payload r" "rx_payload p"]
  have h: "trims (report_payload r) (rx_payload p)" "length (rx_payload p) = unat (p_PayloadLen p)"
    "unat (p_PayloadLen p) \<le> length (report_payload r)" "report_min r \<le> unat (p_PayloadLen p)"
    using assms(1) by (auto simp: holds_def trims_def)
  have z: "byte_at (p_Payload p) i = byte_at (rx_payload p) i" "get_u16 (p_Payload p) i = get_u16 (rx_payload p) i"
    "get_u32 (p_Payload p) i = get_u32 (rx_payload p) i" "get_u64 (p_Payload p) i = get_u64 (rx_payload p) i" for i
    using assms(1) unfolding holds_def by (metis byte_at_zeros get_zeros)+
  show ?thesis
    using h(2-4) assms(2) t[OF h(1)] z
    by (cases r)
      (simp_all add: PublishAttitude_def PublishEkfLocal_def PublishGlobalPositionAsLocal_def PublishGpsRaw_def
        PublishEkfStatus_def HandleSysTime_def Let_def ValuesFinite6_def get_u32_append2 get_u16_append2
        byte_at_append2)
qed

lemma holds_context:
  assumes "rx_fits m" "trims (report_payload r) (mr_Payload m)" "report_min r \<le> length (mr_Payload m)"
  shows "holds (rx_context m) r"
proof -
  have n: "unat (of_nat (length (mr_Payload m)) :: u8) = length (mr_Payload m)"
    using assms(1) by (simp add: rx_fits_def unat_len)
  show ?thesis
    using assms by (simp add: holds_def rx_payload_context) (simp add: rx_context_def n)
qed

lemma frame_action_report:
  assumes "rx_fits m" "mr_MsgId m = report_id r" "rx_intact m"
  shows "frame_action (rx_context m) (mr_Crc m) RxMs d =
    live_frame RxMs (publish r (rx_context m) RxMs) d"
proof -
  have i: "p_MsgId (rx_context m) = report_id r" using assms(2) by (simp add: rx_context_def)
  have c: "ComputeFrameCrc (rx_context m) (crc_extra (report_id r)) = mr_Crc m"
    using assms by (simp add: ComputeFrameCrc_context rx_intact_def)
  show ?thesis
    using c by (cases r) (simp_all add: frame_action_def Let_def i crc_extra_def telemetry_frame_def)
qed

section \<open>A short session\<close>

definition demo_report :: fc_report where
  "demo_report = Attitude 1000 0 0 0 0 0 0"

lemma demo_frame_ok:
  "rx_fits demo_frame" "rx_intact demo_frame" "mr_MsgId demo_frame = report_id demo_report"
  "mr_Payload demo_frame = [0xE8, 3]"
  by (simp_all add: demo_frame_def demo_report_def rx_fits_def rx_intact_def rx_crc_def rx_covered_def
      CrcAccumulate_def crc_extra_def)

lemma demo_trims: "trims (report_payload demo_report) (mr_Payload demo_frame)"
  unfolding demo_frame_ok demo_report_def by code_simp

lemma demo_valid: "report_valid demo_report" "report_min demo_report = 0"
  by (simp_all add: demo_report_def f32_defs)

lemma demo_holds: "holds (rx_context demo_frame) demo_report"
  by (rule holds_context) (simp_all only: demo_frame_ok(1) demo_trims demo_valid(2) le0)

lemma bridge_initial_parser: "b_Parser (bridge_initial e) = parser_zero"
  by (simp add: bridge_initial_def)





section \<open>A trimmed acknowledgement\<close>

text \<open>The acknowledgement of an accepted command ends in the result 0, which a sender of version 2
  trims; what is left is too short for mavlink_bridge_app, and the intact frame counts as a parse
  error.\<close>

lemma accepted_ack_refused:
  assumes "b_Parser d = parser_zero" "rx_fits m" "mr_MsgId m = MSG_ID_COMMAND_ACK"
    and "mr_Payload m = put_u16 MAV_CMD_SET_MESSAGE_INTERVAL"
  shows "HandleReceivedBytes (rx_bytes m) RxMs d =
    (parse_error (noted RxMs (rx_bytes m) d), [Event BR_PARSE_EID INFORMATION])"
proof -
  let ?d = "noted RxMs (rx_bytes m) d"
  have p: "b_Parser ?d = parser_zero" using assms(1) by (simp add: noted_def)
  have "unat (p_PayloadLen (rx_context m)) = 2" "p_MsgId (rx_context m) = MSG_ID_COMMAND_ACK"
    using assms(3,4) by (simp_all add: rx_context_def put_u16_def)
  then have "frame_action (rx_context m) crc RxMs e = (parse_error e, [Event BR_PARSE_EID INFORMATION])" for crc e
    by (simp add: frame_action_def guarded_frame_def parse_failed_def parse_error_def
        MAVLINK_BRIDGE_APP_RecordParseError_def)
  then show ?thesis
    using p received_frame[OF assms(2) p, of RxMs]
    by (simp add: HandleReceivedBytes_received take_frame_def update_def ResetParser_def parse_error_def)
      (simp add: prepend_def)
qed

end
