(* ===== verification/Bridge_Run.thy ===== *)
theory Bridge_Run
  imports Bridge_Steps Bridge_Telemetry Core "HOL-Library.Sublist"
begin

text \<open>
  What holds over every run of mavlink_bridge_app, and what cfs_core_app can therefore rely on.
\<close>



section \<open>The numbering of state packets\<close>

lemma count_up_nth: "count_up a ns b \<Longrightarrow> i < length ns \<Longrightarrow> ns ! i = a + 1 + of_nat i"
proof (induction ns arbitrary: a i)
  case (Cons n ns)
  then show ?case by (cases i) (auto simp: algebra_simps)
qed simp

lemma count_up_strict:
  assumes c: "count_up 0 ns b" and l: "length ns < 2 ^ 32"
  shows "sorted_wrt (<) ns"
proof (rule sorted_wrt_iff_nth_less[THEN iffD2], intro allI impI)
  fix i j assume ij: "i < j" "j < length ns"
  have u: "unat (1 + of_nat k :: u32) = k + 1" if "k < length ns" for k
  proof -
    have "(1 + of_nat k :: u32) = of_nat (k + 1)" by simp
    moreover have "unat (of_nat (k + 1) :: u32) = k + 1"
      by (subst unat_of_nat) (use that l in simp)
    ultimately show ?thesis by simp
  qed
  have "ns ! i = 1 + of_nat i" "ns ! j = 1 + of_nat j"
    using count_up_nth[OF c] ij by simp_all
  then show "ns ! i < ns ! j" using ij u[of i] u[of j] by (simp add: word_less_nat_alt)
qed

lemma sorted_wrt_subseq: "sorted_wrt P ys \<Longrightarrow> subseq xs ys \<Longrightarrow> sorted_wrt P xs"
proof (induction ys arbitrary: xs)
  case (Cons y ys)
  show ?case
  proof (cases "\<exists>zs. xs = y # zs \<and> subseq zs ys")
    case True
    then obtain zs where zs: "xs = y # zs" "subseq zs ys" by blast
    have "set zs \<subseteq> set ys" using zs(2) by (auto dest: list_emb_set)
    then show ?thesis using Cons.IH[OF _ zs(2)] Cons.prems(1) zs(1) by auto
  next
    case False
    with Cons.prems(2) have "subseq xs ys"
      by (cases xs) (auto simp: subseq_Cons2_iff split: if_splits)
    then show ?thesis using Cons.IH Cons.prems(1) by simp
  qed
next
  case Nil
  then show ?case by (cases xs) simp_all
qed

text \<open>cfs_core_app hears a sequence of packets, each at its time.\<close>

fun core_hears :: "(u32 \<times> sb_msg) list \<Rightarrow> CFS_CORE_APP_Data \<Rightarrow> CFS_CORE_APP_Data" where
  "core_hears [] d = d"
| "core_hears ((t, m) # ms) d = core_hears ms (fst (state_message t m d))"

definition heard_numbers :: "(u32 \<times> sb_msg) list \<Rightarrow> u32 list" where
  "heard_numbers ms = List.map_filter (fc_number \<circ> snd) ms"

definition caches :: "CFS_CORE_APP_Data \<Rightarrow> CFS_CORE_APP_StateCache list" where
  "caches d = [c_AttitudeState d, c_LocalState d, c_GpsState d, c_EkfState d]"

definition behind :: "u32 list \<Rightarrow> CFS_CORE_APP_StateCache \<Rightarrow> bool" where
  "behind ns c \<longleftrightarrow> sc_Received c \<longrightarrow> (\<forall>n\<in>set ns. sc_Seq c < n)"

lemma UpdateStateCache_ahead:
  assumes "behind (fc_Seq m # ns) c" "\<forall>n\<in>set ns. fc_Seq m < n"
  shows "behind ns (fst (CFS_CORE_APP_UpdateStateCache m t c k)) \<and>
    k_SeqRejected (fst (snd (CFS_CORE_APP_UpdateStateCache m t c k))) = k_SeqRejected k"
  using assms by (auto simp: CFS_CORE_APP_UpdateStateCache_def behind_def Let_def)

lemma behind_Cons: "behind (n # ns) c \<Longrightarrow> behind ns c"
  by (simp add: behind_def)

lemma state_message_ahead:
  assumes b: "list_all (behind (case fc_number m of None \<Rightarrow> ns | Some n \<Rightarrow> n # ns)) (caches d)"
    and s: "\<And>n. fc_number m = Some n \<Longrightarrow> \<forall>x\<in>set ns. n < x"
  shows "list_all (behind ns) (caches (fst (state_message t m d))) \<and>
    c_SeqRejectedCount (fst (state_message t m d)) = c_SeqRejectedCount d"
proof -
  have v: "behind ns (c\<lparr> sc_Valid := v \<rparr>) = behind ns c" for c v by (simp add: behind_def)
  have k: "k_SeqRejected (counters_of d) = c_SeqRejectedCount d" by (simp add: counters_of_def)
  note u = UpdateStateCache_ahead[where ns = ns and t = t and k = "counters_of d"]
  show ?thesis
    using b s
    by (cases m)
      (auto simp: state_message_def caches_def put_counters_def Let_def case_prod_unfold v u k
        dest: behind_Cons)
qed

lemma core_hears_ahead:
  assumes "sorted_wrt (<) (heard_numbers ms)" "list_all (behind (heard_numbers ms)) (caches d)"
  shows "c_SeqRejectedCount (core_hears ms d) = c_SeqRejectedCount d"
  using assms
proof (induction ms d rule: core_hears.induct)
  case (2 t m ms d)
  have n: "heard_numbers ((t, m) # ms) =
      (case fc_number m of None \<Rightarrow> heard_numbers ms | Some n \<Rightarrow> n # heard_numbers ms)"
    by (simp add: heard_numbers_def List.map_filter_def split: option.split)
  have "list_all (behind (heard_numbers ms)) (caches (fst (state_message t m d))) \<and>
      c_SeqRejectedCount (fst (state_message t m d)) = c_SeqRejectedCount d"
    using 2(2,3) by (intro state_message_ahead) (auto simp: n)
  moreover have "sorted_wrt (<) (heard_numbers ms)"
    using 2(2) by (auto simp: n split: option.splits)
  ultimately show ?case using "2.IH" by simp
qed simp

text \<open>A run of two turns: the port opens, then one report arrives.\<close>

definition demo_open :: MAVLINK_BRIDGE_APP_Data where
  "demo_open = (bridge_initial (port_env [] []))\<lparr> b_PortOpen := True, b_LinkState := BRIDGE_CONNECTED,
     b_LastReconnectAttemptMs := 5000, b_ReconnectAttemptCount := 1, b_TargetDiscoveryStartMs := 5000,
     b_StreamRequestPending := 1, b_MissionDownloadState := DOWNLOAD_WAIT_COUNT,
     b_MissionDownloadTimeoutMs := 8000, b_TxSequence := 1 \<rparr>"

definition demo_run :: "(bridge_input \<times> bridge_env) list" where
  "demo_run = [(Bridge_Timeout, port_env [True] []),
     (Bridge_Timeout, port_env [] [Rd_Bytes (rx_bytes demo_frame)])]"

lemma demo_time: "GetTimeMs \<lparr> Seconds = 5, Subseconds = 0 \<rparr> = 5000"
  by (simp add: GetTimeMs_def time_ms64_def)

lemmas demo_defs = bridge_turn_def bridge_initial_def port_env_def MAVLINK_BRIDGE_APP_ServiceSerial_def
  with_clock_def read_clock_def reconnect_def demo_time bridge_default_config_def update_def prepend_def
  OpenSerial_def MAVLINK_BRIDGE_APP_SetLinkState_def StartFcMissionReadback_def emit_def ResetParser_def
  begin_download_def SendMissionRequestList_def send_mavlink_def MAVLINK_BRIDGE_APP_SendMavlinkV2_def
  Let_def write_all_none

lemma demo_opens:
  "bridge_turn (Bridge_Timeout, port_env [True] []) (bridge_initial (port_env [True] [])) =
    (demo_open, [Serial (mav_frame 0 255 190 43 [0, 0, 0] 132), Event 16 INFORMATION, Event 5 INFORMATION])"
  by (simp add: demo_defs demo_open_def target_def mav_frame_def)

lemma demo_published:
  "fc_numbers (snd (PublishAttitude (rx_context demo_frame) t d)) = [b_SequenceCounter d + 1]"
  using publish_report[OF demo_holds demo_valid(1), of t d]
  by (simp add: demo_report_def fc_numbers_def List.map_filter_def)

lemma demo_reports:
  "fc_numbers (snd (bridge_turn (Bridge_Timeout, port_env [] [Rd_Bytes (rx_bytes demo_frame)]) demo_open)) = [1]"
  apply (simp add: demo_open_def demo_defs SendCompanionHeartbeat_def request_streams_def
      CheckMissionUploadTimeout_def CheckMissionDownloadTimeout_def reached_def retry_readback_def)
  apply (simp add: read_port_def HandleReceivedBytes_received received_frame demo_frame_ok noted_def)
  apply (simp add: after_reads_def take_frame_def frame_action_report[OF demo_frame_ok(1,3,2)] live_frame_def)
  apply (simp add: demo_defs demo_report_def demo_published)
  done

lemma demo_run_numbers:
  "fc_numbers (snd (MAV_BRIDGE_APP_Main True True No_File (port_env [True] []) demo_run)) = [1]"
proof -
  have "b_RunStatus (bridge_initial (port_env [True] [])) = APP_RUN" "b_RunStatus demo_open = APP_RUN"
    by (simp_all add: demo_open_def bridge_initial_def)
  then show ?thesis
    using demo_reports
    by (simp add: MAV_BRIDGE_APP_Main_def MAVLINK_BRIDGE_APP_Init_def MAVLINK_BRIDGE_APP_LoadState_def
        demo_run_def demo_opens Let_def case_prod_unfold)
qed

text \<open>C29: mavlink_bridge_app numbers the state packets of one run so that cfs_core_app, freshly
  started, never refuses one for its sequence number: whatever part of them it hears, as long as
  their order is kept, with any other packets in between and at any times, and until the bridge has
  sent 2^32 of them.\<close>

theorem bridge_packets_in_sequence:
  assumes "MAV_BRIDGE_APP_Main evs_ok pipe_ok f e ins = (d, os)" "length (fc_numbers os) < 2 ^ 32"
    and "subseq (heard_numbers ms) (fc_numbers os)" "list_all (\<lambda>c. \<not> sc_Received c) (caches c)"
  shows "c_SeqRejectedCount (core_hears ms c) = c_SeqRejectedCount c"
proof -
  have "count_up 0 (fc_numbers os) (b_SequenceCounter d)"
    using Main_after[of ins e evs_ok pipe_ok f] bridge_initial_ok assms(1) by (simp add: step_after_def)
  then have "sorted_wrt (<) (fc_numbers os)" using assms(2) by (rule count_up_strict)
  then have "sorted_wrt (<) (heard_numbers ms)" using assms(3) by (rule sorted_wrt_subseq)
  moreover have "list_all (behind (heard_numbers ms)) (caches c)"
    using assms(4) by (simp add: behind_def caches_def)
  ultimately show ?thesis by (rule core_hears_ahead)
qed

lemma bridge_packets_in_sequence_witness:
  "c_SeqRejectedCount (core_hears
     [(6000, report_packet 1 5000 demo_report), (6000, Command 0 None [])] core_initial) = 0"
proof -
  let ?ms = "[(6000, report_packet 1 5000 demo_report), (6000, Command 0 None [])]"
  have heard: "heard_numbers ?ms = [1]"
    by (simp add: heard_numbers_def demo_report_def List.map_filter_def)
  have "list_all (\<lambda>c. \<not> sc_Received c) (caches core_initial)" "c_SeqRejectedCount core_initial = 0"
    by (simp_all add: caches_def core_initial_def sc_zero_def)
  then show ?thesis
    using bridge_packets_in_sequence[OF surjective_pairing, of True True No_File "port_env [True] []" demo_run ?ms core_initial]
    by (simp add: demo_run_numbers heard)
qed

end
