(* ===== verification/Bridge_Upload.thy ===== *)
theory Bridge_Upload
  imports Bridge_Loop
begin

text \<open>
  An upload of a mission always comes to an end: when the flight controller stays silent, the
  retries of mavlink_bridge_app run out.  Times are unbounded milliseconds here, of which the
  application sees the low 32 bits.
\<close>

section \<open>What does not touch an upload\<close>

definition upload_view ::
    "MAVLINK_BRIDGE_APP_Data \<Rightarrow> (MAVLINK_BRIDGE_APP_MissionUploadState \<times> u8 \<times> u32 \<times> u32 \<times> u8) \<times>
       (bool \<times> run_status) \<times> (sys_time \<times> sys_time list \<times> read_result list)" where
  "upload_view d =
     ((b_MissionUploadState d, b_MissionUploadRetry d, b_MissionUploadTimeoutMs d,
       b_MissionUploadFailCount d, b_LastUploadResult d), (b_PortOpen d, b_RunStatus d),
      (be_Now (b_Env d), be_Ticks (b_Env d), be_Reads (b_Env d)))"

text \<open>As long as the clock stands still, which it does within a turn here.\<close>

definition upload_same :: "MAVLINK_BRIDGE_APP_Data \<Rightarrow> MAVLINK_BRIDGE_APP_Data \<Rightarrow> out list \<Rightarrow> bool" where
  "upload_same d d' os \<longleftrightarrow> (be_Ticks (b_Env d) = [] \<longrightarrow> upload_view d' = upload_view d)"

interpretation apart: step_rel upload_same
  by unfold_locales (auto simp: upload_same_def upload_view_def)

lemma apart_update: "(\<And>d. upload_view (f d) = upload_view d) \<Longrightarrow> apart.step (update f)"
  by (simp add: apart.step_def update_def upload_same_def)

lemma apart_emit [simp]: "apart.step (emit os)"
  by (rule apart.step_emit) (simp add: upload_same_def)

lemma apart_stepI: "(\<And>d. upload_view (fst (f d)) = upload_view d) \<Longrightarrow> apart.step f"
  by (simp add: apart.step_def upload_same_def)

lemma SendMavlinkV2_apart:
  "upload_view (fst (snd (MAVLINK_BRIDGE_APP_SendMavlinkV2 m pl x d))) = upload_view d"
  by (simp add: MAVLINK_BRIDGE_APP_SendMavlinkV2_def upload_view_def Let_def case_prod_unfold)

lemma send_mavlink_apart: "upload_view (fst (send_mavlink m pl x d)) = upload_view d"
  by (simp add: send_mavlink_def SendMavlinkV2_apart)

lemma clock_apart: "(\<And>t. apart.step (f t)) \<Longrightarrow> apart.step (with_clock f)"
  by (simp add: apart.step_def upload_same_def with_clock_def read_clock_def Let_def split: list.split)

lemma senders_apart:
  "apart.step SendMissionClearAll" "apart.step (SendMissionCount n)" "apart.step SendMissionRequestList"
  by (rule apart_stepI; simp add: SendMissionClearAll_def SendMissionCount_def SendMissionRequestList_def
      send_mavlink_apart)+

lemma readback_apart: "apart.step StartFcMissionReadback"
  unfolding StartFcMissionReadback_def
  by (rule apart.steps)
    (simp add: clock_apart apart_update senders_apart begin_download_def upload_view_def)

lemma SetLinkState_apart: "apart.step (MAVLINK_BRIDGE_APP_SetLinkState s)"
  using apart.stepD[OF readback_apart]
  by (auto intro!: apart.stepI simp: MAVLINK_BRIDGE_APP_SetLinkState_def Let_def upload_same_def upload_view_def)

lemma heartbeat_apart: "apart.step (SendCompanionHeartbeat t)"
  by (rule apart_stepI)
    (use SendMavlinkV2_apart in \<open>auto simp: SendCompanionHeartbeat_def upload_view_def Let_def case_prod_unfold\<close>)

lemma request_intervals_apart: "upload_view (fst (snd (request_intervals rs d))) = upload_view d"
proof (induction rs arbitrary: d)
  case (Cons r rs)
  then show ?case
    by (cases r) (simp add: RequestMessageInterval_def Let_def case_prod_unfold SendMavlinkV2_apart)
qed simp

lemma RequestTelemetryStreams_apart: "apart.step MAVLINK_BRIDGE_APP_RequestTelemetryStreams"
proof (rule apart.stepI)
  fix d :: MAVLINK_BRIDGE_APP_Data
  obtain rs where rs: "rs = [(MSG_ID_ATTITUDE, bp_AttitudeIntervalUs (b_ActiveConfig d)),
      (MSG_ID_LOCAL_POSITION_NED, bp_LocalPositionIntervalUs (b_ActiveConfig d)),
      (MSG_ID_GLOBAL_POSITION_INT, bp_GlobalPositionIntervalUs (b_ActiveConfig d)),
      (MSG_ID_GPS_RAW_INT, bp_GpsRawIntervalUs (b_ActiveConfig d)),
      (MSG_ID_EKF_STATUS_REPORT, bp_EkfStatusIntervalUs (b_ActiveConfig d)),
      (MSG_ID_SYS_TIME, SYS_TIME_INTERVAL_US)]" by blast
  obtain ok d' os where r: "request_intervals rs d = (ok, d', os)" by (cases "request_intervals rs d")
  have v: "upload_view d' = upload_view d" using request_intervals_apart[of rs d] r by simp
  have "apart.step (with_clock (\<lambda>NowMs d. (d\<lparr> b_LastStreamRequestMs := NowMs \<rparr>, [Event BR_STREAM_EID INFORMATION])))"
    by (rule clock_apart) (simp add: apart_stepI upload_view_def)
  from apart.stepD[OF this, of d'] v show "upload_same d (fst (MAVLINK_BRIDGE_APP_RequestTelemetryStreams d))
      (snd (MAVLINK_BRIDGE_APP_RequestTelemetryStreams d))"
    using r unfolding rs
    by (simp add: MAVLINK_BRIDGE_APP_RequestTelemetryStreams_def Let_def upload_same_def
        del: request_intervals.simps)
      (simp add: upload_view_def)
qed

lemma request_streams_apart: "apart.step (request_streams t)"
proof (rule apart.stepI)
  fix d
  have "upload_same (d\<lparr> b_StreamRequestPending := 1 \<rparr>)
      (fst (MAVLINK_BRIDGE_APP_RequestTelemetryStreams (d\<lparr> b_StreamRequestPending := 1 \<rparr>))) os" for os
    using apart.stepD[OF RequestTelemetryStreams_apart, of "d\<lparr> b_StreamRequestPending := 1 \<rparr>"]
    by (simp add: upload_same_def)
  then show "upload_same d (fst (request_streams t d)) (snd (request_streams t d))"
    by (simp add: request_streams_def upload_same_def upload_view_def)
qed

lemma CheckMissionDownloadTimeout_apart: "apart.step (CheckMissionDownloadTimeout t)"
  by (rule apart_stepI) (simp add: CheckMissionDownloadTimeout_def upload_view_def Let_def)

lemma retry_readback_apart: "apart.step (retry_readback t)"
  using apart.stepD[OF readback_apart] by (simp add: apart.step_def retry_readback_def apart.refl)

lemma read_nothing_apart:
  assumes "be_Reads (b_Env d) = []"
  shows "upload_same d (fst (read_port t d)) (snd (read_port t d))"
proof -
  have u: "apart.step (update (\<lambda>d. MarkOutputsStale (d\<lparr> b_LastErrorCode := BRIDGE_ERROR_READ_TIMEOUT \<rparr>)))"
    by (rule apart_update) (simp add: MarkOutputsStale_def upload_view_def)
  have "upload_same d' (fst (after_reads False Rd_Nothing t d')) (snd (after_reads False Rd_Nothing t d'))" for d'
    using apart.stepD[OF apart.steps, of "[update (\<lambda>d. MarkOutputsStale (d\<lparr> b_LastErrorCode := BRIDGE_ERROR_READ_TIMEOUT \<rparr>)),
        MAVLINK_BRIDGE_APP_SetLinkState BRIDGE_DEGRADED]" d']
    by (simp add: after_reads_def u SetLinkState_apart apart.refl)
  from this[of "d\<lparr> b_Env := (b_Env d)\<lparr> be_Reads := [] \<rparr> \<rparr>"] assms show ?thesis
    by (simp add: read_port_def upload_same_def upload_view_def)
qed

text \<open>Messages that neither start an upload nor close the port.\<close>

fun calm :: "sb_msg \<Rightarrow> bool" where
  "calm (RouteUpdate m) = False"
| "calm (Command mid fcn bs) = (fcn \<noteq> Some SERIAL_RECONNECT_CC)"
| "calm m = True"

lemma MissionQuery_apart: "apart.step MAVLINK_BRIDGE_APP_MissionQuery"
proof -
  have "apart.step (with_clock (\<lambda>NowMs. update (begin_download NowMs)))"
    by (simp add: clock_apart apart_update begin_download_def upload_view_def)
  moreover have "apart.step (update bridge_count_command)"
    by (simp add: apart_update bridge_count_command_def upload_view_def)
  ultimately have "apart.step (steps [with_clock (\<lambda>NowMs. update (begin_download NowMs)), update bridge_count_command,
      SendMissionRequestList, emit [Event BR_MISSION_DOWNLOAD_INF_EID INFORMATION]])"
    by (intro apart.steps) (simp add: senders_apart)
  from apart.stepD[OF this] show ?thesis
    by (simp only: apart.step_def MAVLINK_BRIDGE_APP_MissionQuery_def)
      (simp add: bridge_count_error_def upload_same_def upload_view_def)
qed

lemma SetFlightMode_apart: "upload_view (fst (MAVLINK_BRIDGE_APP_ProcessSetFlightModeCmd bs d)) = upload_view d"
proof -
  have c: "upload_view (bridge_count_command d) = upload_view d" "upload_view (bridge_count_error d) = upload_view d" for d
    by (simp_all add: bridge_count_command_def bridge_count_error_def upload_view_def)
  show ?thesis
    by (simp add: MAVLINK_BRIDGE_APP_ProcessSetFlightModeCmd_def Let_def case_prod_unfold SendMavlinkV2_apart c
        split: option.split)
qed

lemma verified_apart:
  "apart.step f \<Longrightarrow> apart.step (MAVLINK_BRIDGE_APP_VerifyCmdLength n m f)"
  by (simp add: MAVLINK_BRIDGE_APP_VerifyCmdLength_def apart_stepI bridge_count_error_def upload_view_def)

lemma small_commands_apart:
  "apart.step MAVLINK_BRIDGE_APP_Noop" "apart.step MAVLINK_BRIDGE_APP_ResetCountersCmd"
  "apart.step MAVLINK_BRIDGE_APP_ProcessParserResetCmd" "apart.step (\<lambda>d. (bridge_count_error d, os))"
  by (rule apart_stepI; simp add: upload_view_def MAVLINK_BRIDGE_APP_Noop_def
      MAVLINK_BRIDGE_APP_ResetCountersCmd_def MAVLINK_BRIDGE_APP_ProcessParserResetCmd_def
      bridge_count_command_def bridge_count_error_def ResetParser_def)+

lemma command_apart: "c \<noteq> SERIAL_RECONNECT_CC \<Longrightarrow> apart.step (bridge_command c bs)"
  by (simp add: bridge_command_def Let_def verified_apart MissionQuery_apart small_commands_apart
      apart_stepI[OF SetFlightMode_apart])

lemma config_apart: "upload_view (fst (MAVLINK_BRIDGE_APP_ProcessConfigCommand m d)) = upload_view d"
  by (simp add: MAVLINK_BRIDGE_APP_ProcessConfigCommand_def bridge_config_reject_def upload_view_def Let_def
      split: sum.split)

lemma TaskPipe_apart:
  assumes "calm m" shows "apart.step (MAVLINK_BRIDGE_APP_TaskPipe m)"
proof (rule apart.stepI)
  fix d
  have e: "upload_view (bridge_count_error d) = upload_view d"
    by (simp add: bridge_count_error_def upload_view_def)
  show "upload_same d (fst (MAVLINK_BRIDGE_APP_TaskPipe m d)) (snd (MAVLINK_BRIDGE_APP_TaskPipe m d))"
  proof (cases m)
    case (Command mid fcn bs)
    have "upload_same d (fst (bridge_command c bs d)) (snd (bridge_command c bs d))"
      if "c = (case fcn of None \<Rightarrow> 0 | Some c \<Rightarrow> c)" for c
      using assms that by (intro apart.stepD[OF command_apart]) (simp add: Command split: option.splits)
    then show ?thesis
      by (simp add: Command MAVLINK_BRIDGE_APP_TaskPipe_def Let_def e upload_same_def)
  qed (use assms in \<open>simp_all add: MAVLINK_BRIDGE_APP_TaskPipe_def Let_def e upload_same_def config_apart\<close>)
qed

section \<open>The upload under silence\<close>

type_synonym upload = "MAVLINK_BRIDGE_APP_MissionUploadState \<times> u8 \<times> u32 \<times> u32 \<times> u8"

text \<open>State, retries used, deadline, failed uploads and last result after a turn at the given time.\<close>

fun upload_next :: "u32 \<Rightarrow> upload \<Rightarrow> upload" where
  "upload_next NowMs (s, r, t, n, res) =
     (if s = UPLOAD_IDLE \<or> \<not> reached NowMs t then (s, r, t, n, res)
      else if s = UPLOAD_CLEARING then (UPLOAD_ACTIVE, r, NowMs + MISSION_UPLOAD_TIMEOUT_MS, n, res)
      else if r < MISSION_MAX_RETRIES then (UPLOAD_ACTIVE, r + 1, NowMs + MISSION_UPLOAD_TIMEOUT_MS, n, res)
      else (UPLOAD_IDLE, r, t, n + 1, UPLOAD_RESULT_TIMEOUT))"

lemma CheckMissionUploadTimeout_next:
  "upload_view (fst (CheckMissionUploadTimeout NowMs d)) =
    (upload_next NowMs (fst (upload_view d)), snd (upload_view d))"
proof -
  have s: "upload_view (fst (send_mavlink m pl x d)) = upload_view d" for m pl x d
    by (rule send_mavlink_apart)
  show ?thesis
    by (cases "b_MissionUploadState d")
      (simp_all add: CheckMissionUploadTimeout_def SendMissionCount_def SendMissionClearAll_def s emit_def,
       simp_all add: upload_view_def)
qed

text \<open>A turn in which the flight controller sends nothing and no message starts an upload.\<close>

definition silent_turn :: "nat \<Rightarrow> bridge_input \<times> bridge_env \<Rightarrow> bool" where
  "silent_turn T i \<longleftrightarrow> (case fst i of Bridge_Msg m \<Rightarrow> calm m | Bridge_Timeout \<Rightarrow> True | Bridge_Pipe_Error \<Rightarrow> False) \<and>
     be_Ticks (snd i) = [] \<and> be_Reads (snd i) = [] \<and> GetTimeMs (be_Now (snd i)) = of_nat T"

lemma serial_next:
  assumes "b_PortOpen d" "be_Ticks (b_Env d) = []" "be_Reads (b_Env d) = []"
  shows "upload_view (fst (MAVLINK_BRIDGE_APP_ServiceSerial d)) =
    (upload_next (GetTimeMs (be_Now (b_Env d))) (fst (upload_view d)), snd (upload_view d))"
proof -
  let ?t = "GetTimeMs (be_Now (b_Env d))"
  let ?before = "steps [SendCompanionHeartbeat ?t, request_streams ?t]"
  let ?after = "steps [CheckMissionDownloadTimeout ?t, retry_readback ?t]"
  define d1 where "d1 = fst (?before d)"
  define d2 where "d2 = fst (CheckMissionUploadTimeout ?t d1)"
  define d3 where "d3 = fst (?after d2)"
  have "apart.step ?before" "apart.step ?after"
    by (rule apart.steps; simp add: heartbeat_apart request_streams_apart CheckMissionDownloadTimeout_apart
        retry_readback_apart)+
  note st = this[THEN apart.stepD, unfolded upload_same_def]
  have 1: "upload_view d1 = upload_view d" using st(1)[of d] assms(2) by (simp add: d1_def)
  have 2: "upload_view d2 = (upload_next ?t (fst (upload_view d)), snd (upload_view d))"
    by (simp add: d2_def CheckMissionUploadTimeout_next 1)
  then have e2: "be_Ticks (b_Env d2) = []" "be_Reads (b_Env d2) = []"
    using assms by (simp_all add: upload_view_def)
  have 3: "upload_view d3 = upload_view d2" using st(2)[of d2] e2 by (simp add: d3_def)
  then have e3: "be_Ticks (b_Env d3) = []" "be_Reads (b_Env d3) = []"
    using e2 by (simp_all add: upload_view_def)
  have "upload_view (fst (read_port ?t d3)) = upload_view d3"
    using read_nothing_apart[of d3 ?t] e3 by (simp add: upload_same_def)
  moreover have "fst (MAVLINK_BRIDGE_APP_ServiceSerial d) = fst (read_port ?t d3)"
    using assms
    by (simp add: MAVLINK_BRIDGE_APP_ServiceSerial_def with_clock_def read_clock_def Let_def d1_def d2_def d3_def)
  ultimately show ?thesis using 2 3 by simp
qed

lemma silent_turn_next:
  assumes "silent_turn T i" "b_PortOpen d"
  shows "fst (upload_view (fst (bridge_turn i d))) = upload_next (of_nat T) (fst (upload_view d)) \<and>
    b_PortOpen (fst (bridge_turn i d)) \<and> b_RunStatus (fst (bridge_turn i d)) = b_RunStatus d"
proof -
  obtain x e where i: "i = (x, e)" by (cases i)
  let ?d = "d\<lparr> b_Env := e \<rparr>"
  have e: "be_Ticks e = []" "be_Reads e = []" "GetTimeMs (be_Now e) = of_nat T"
    using assms(1) by (auto simp: silent_turn_def i)
  have served: ?thesis if r: "fst (bridge_turn i d) = fst (MAVLINK_BRIDGE_APP_ServiceSerial d')"
    and v: "upload_view d' = upload_view ?d" for d'
  proof -
    have "b_PortOpen d'" "be_Ticks (b_Env d') = []" "be_Reads (b_Env d') = []" "be_Now (b_Env d') = be_Now e"
      using v e assms(2) by (simp_all add: upload_view_def)
    from serial_next[OF this(1-3)] this(4) v r e(3) assms(2) show ?thesis by (simp add: upload_view_def)
  qed
  show ?thesis
  proof (cases x)
    case (Bridge_Msg m)
    have "calm m" using assms(1) by (simp add: silent_turn_def i Bridge_Msg)
    from apart.stepD[OF TaskPipe_apart[OF this], of ?d] e
    have "upload_view (fst (MAVLINK_BRIDGE_APP_TaskPipe m ?d)) = upload_view ?d" by (simp add: upload_same_def)
    then show ?thesis
      by (intro served[of "fst (MAVLINK_BRIDGE_APP_TaskPipe m ?d)"]) (simp_all add: bridge_turn_def i Bridge_Msg Let_def)
  next
    case Bridge_Timeout
    then show ?thesis by (intro served[of ?d]) (simp_all add: bridge_turn_def i Let_def)
  qed (use assms(1) in \<open>simp add: silent_turn_def i\<close>)
qed

lemma silent_run_next:
  assumes "list_all2 silent_turn Ts ins" "b_PortOpen d" "b_RunStatus d = APP_RUN"
  shows "fst (upload_view (fst (bridge_loop ins d))) =
    fold (\<lambda>T. upload_next (of_nat T)) Ts (fst (upload_view d))"
  using assms
proof (induction Ts ins arbitrary: d rule: list_all2_induct)
  case (Cons T Ts i ins)
  then show ?case
    using silent_turn_next[OF Cons(1), of d] by (simp add: case_prod_unfold Let_def)
qed simp

section \<open>The retries run out\<close>

lemma reached_of_nat:
  assumes "T < D + 2 ^ 31" "D \<le> T + 2 ^ 31"
  shows "reached (of_nat T) (of_nat D) \<longleftrightarrow> D \<le> T"
proof -
  have "(of_nat T - of_nat D :: u32) = of_int (int T - int D)" by simp
  moreover have "sint (of_int (int T - int D) :: u32) = signed_take_bit 31 (int T - int D)"
    by (simp only: signed_of_int) simp
  moreover have "signed_take_bit 31 (int T - int D) = int T - int D"
    using assms by (intro signed_take_bit_int_eq_self) simp_all
  ultimately show ?thesis by (simp add: reached_def)
qed

text \<open>Time-outs left before the upload is given up.\<close>

fun stage :: "upload \<Rightarrow> nat" where
  "stage (s, r, _) = (case s of UPLOAD_IDLE \<Rightarrow> 0 | UPLOAD_ACTIVE \<Rightarrow> 4 - unat r | UPLOAD_CLEARING \<Rightarrow> 5 - unat r)"

lemma fold_upload_idle:
  "fold (\<lambda>T. upload_next (of_nat T)) Ts (UPLOAD_IDLE, r, t, n, res) = (UPLOAD_IDLE, r, t, n, res)"
  by (induction Ts) simp_all

lemma up_to_3: "r \<le> 3 \<Longrightarrow> r = 0 \<or> r = 1 \<or> r = 2 \<or> r = (3 :: u8)"
proof -
  assume "r \<le> 3"
  then have "unat r \<le> 3" by (simp add: word_le_nat_alt)
  then have "unat r = 0 \<or> unat r = 1 \<or> unat r = 2 \<or> unat r = 3" by linarith
  then show ?thesis by (auto simp: word_unat_eq_iff)
qed

lemma upload_next_due:
  assumes "reached T t" "s \<noteq> UPLOAD_IDLE" "r \<le> MISSION_MAX_RETRIES"
  shows "upload_next T (s, r, t, n, res) = (UPLOAD_IDLE, r, t, n + 1, UPLOAD_RESULT_TIMEOUT) \<or>
    (\<exists>s' r'. s' \<noteq> UPLOAD_IDLE \<and> r' \<le> MISSION_MAX_RETRIES \<and>
      upload_next T (s, r, t, n, res) = (s', r', T + MISSION_UPLOAD_TIMEOUT_MS, n, res) \<and>
      stage (s, r, t, n, res) = Suc (stage (s', r', T + MISSION_UPLOAD_TIMEOUT_MS, n, res)) \<and>
      0 < stage (s', r', T + MISSION_UPLOAD_TIMEOUT_MS, n, res))"
  using assms up_to_3[OF assms(3)] by (cases s) auto

lemma silence_ends_upload:
  assumes "s \<noteq> UPLOAD_IDLE" "r \<le> MISSION_MAX_RETRIES" "T0 < D" "D \<le> T0 + 2000" "G \<le> 2 ^ 30"
    and "successively (\<lambda>T T'. T \<le> T' \<and> T' \<le> T + G) (T0 # Ts)"
    and "D + (stage (s, r, of_nat D, n, res) - 1) * (2000 + G) \<le> last (T0 # Ts)"
  shows "\<exists>r' t'. fold (\<lambda>T. upload_next (of_nat T)) Ts (s, r, of_nat D, n, res) =
    (UPLOAD_IDLE, r', t', n + 1, UPLOAD_RESULT_TIMEOUT)"
  using assms
proof (induction Ts arbitrary: s r T0 D)
  case Nil
  then show ?case by simp
next
  case (Cons T Ts)
  have T: "T0 \<le> T" "T \<le> T0 + G" "successively (\<lambda>T T'. T \<le> T' \<and> T' \<le> T + G) (T # Ts)"
    using Cons.prems(6) by simp_all
  have due: "reached (of_nat T) (of_nat D) \<longleftrightarrow> D \<le> T"
    using T(1,2) Cons.prems(3-5) by (intro reached_of_nat) simp_all
  show ?case
  proof (cases "D \<le> T")
    case False
    then have "upload_next (of_nat T) (s, r, of_nat D, n, res) = (s, r, of_nat D, n, res)" using due by simp
    then show ?thesis
      using Cons.IH[of s r T D] Cons.prems(1,2,4,5,7) T False by simp
  next
    case True
    from upload_next_due[of "of_nat T" "of_nat D" s r n res] True due Cons.prems(1,2)
    consider "upload_next (of_nat T) (s, r, of_nat D, n, res) = (UPLOAD_IDLE, r, of_nat D, n + 1, UPLOAD_RESULT_TIMEOUT)"
      | s' r' where "s' \<noteq> UPLOAD_IDLE" "r' \<le> MISSION_MAX_RETRIES"
        "upload_next (of_nat T) (s, r, of_nat D, n, res) = (s', r', of_nat (T + 2000), n, res)"
        "stage (s, r, of_nat D, n, res) = Suc (stage (s', r', of_nat (T + 2000), n, res))"
        "0 < stage (s', r', of_nat (T + 2000), n, res)"
      by auto
    then show ?thesis
    proof cases
      case 1
      then show ?thesis by (simp add: fold_upload_idle)
    next
      case 2
      define k where "k = stage (s', r', of_nat (T + 2000), n, res) - 1"
      have k: "stage (s, r, of_nat D, n, res) - 1 = Suc k" using 2(4,5) by (simp add: k_def)
      have "T < D + G" using T(2) Cons.prems(3) by simp
      then have "T + 2000 + k * (2000 + G) \<le> last (T # Ts)"
        using Cons.prems(7) by (simp only: k) simp
      then show ?thesis
        using Cons.IH[of s' r' T "T + 2000"] 2(1-3) T(3) Cons.prems(5) by (simp add: k_def)
    qed
  qed
qed

text \<open>C20: an upload always comes to an end.  From any state of a running upload with the port open,
  when the flight controller stays silent and the turns of the main loop, whatever harmless messages
  they handle, are at most G ms apart, the upload is over, counted once as failed and reported as timed
  out, at the latest 4 * (2000 + G) ms after its next deadline; the 32-bit clock may wrap around
  meanwhile.\<close>

theorem bridge_upload_ends:
  assumes "b_RunStatus d = APP_RUN" "b_PortOpen d" "b_MissionUploadState d \<noteq> UPLOAD_IDLE"
    and "b_MissionUploadRetry d \<le> MISSION_MAX_RETRIES" "b_MissionUploadTimeoutMs d = of_nat D"
    and "T0 < D" "D \<le> T0 + 2000" "G \<le> 2 ^ 30"
    and "successively (\<lambda>T T'. T \<le> T' \<and> T' \<le> T + G) (T0 # Ts)" "list_all2 silent_turn Ts ins"
    and "D + 4 * (2000 + G) \<le> last (T0 # Ts)"
  shows "b_MissionUploadState (fst (bridge_loop ins d)) = UPLOAD_IDLE \<and>
    b_MissionUploadFailCount (fst (bridge_loop ins d)) = b_MissionUploadFailCount d + 1 \<and>
    b_LastUploadResult (fst (bridge_loop ins d)) = UPLOAD_RESULT_TIMEOUT"
proof -
  let ?u = "(b_MissionUploadState d, b_MissionUploadRetry d, of_nat D, b_MissionUploadFailCount d, b_LastUploadResult d)"
  have "stage ?u - 1 \<le> 4" by (cases "b_MissionUploadState d") simp_all
  then have "(stage ?u - 1) * (2000 + G) \<le> 4 * (2000 + G)" by (rule mult_le_mono1)
  then have "D + (stage ?u - 1) * (2000 + G) \<le> last (T0 # Ts)" using assms(11) by linarith
  from silence_ends_upload[OF assms(3,4,6,7,8,9) this]
  show ?thesis
    using silent_run_next[OF assms(10,2,1)] assms(5) by (auto simp: upload_view_def)
qed

text \<open>Six turns of a silent link, ten seconds apart.\<close>

definition demo_turn :: "u32 \<Rightarrow> bridge_input \<times> bridge_env" where
  "demo_turn n = (Bridge_Timeout, \<lparr> be_Now = \<lparr> Seconds = n, Subseconds = 0 \<rparr>, be_Ticks = [], be_Writes = [],
     be_Reads = [], be_Opens = [], be_Save = Save_Ok \<rparr>)"

definition demo_upload :: MAVLINK_BRIDGE_APP_Data where
  "demo_upload = (bridge_initial (snd (demo_turn 5)))\<lparr> b_PortOpen := True,
     b_MissionUploadState := UPLOAD_CLEARING, b_MissionUploadTimeoutMs := 5300 \<rparr>"

lemma bridge_upload_ends_witness:
  "b_MissionUploadState (fst (bridge_loop (map demo_turn [15, 25, 35, 45, 55]) demo_upload)) = UPLOAD_IDLE"
proof -
  have "list_all2 silent_turn [15000, 25000, 35000, 45000, 55000] (map demo_turn [15, 25, 35, 45, 55])"
    by (simp add: silent_turn_def demo_turn_def GetTimeMs_def time_ms64_def)
  then show ?thesis
    using bridge_upload_ends[of demo_upload 5300 5000 10000 "[15000, 25000, 35000, 45000, 55000]"
        "map demo_turn [15, 25, 35, 45, 55]", THEN conjunct1]
    by (simp add: demo_upload_def bridge_initial_def del: bridge_loop.simps list.map)
qed

section \<open>A retry and its acknowledgement\<close>

text \<open>A retry starts with a MISSION_CLEAR_ALL, which the flight controller acknowledges; the
  application takes that acknowledgement for the end of the upload.\<close>

lemma retry_clears_first:
  assumes "b_MissionUploadState d = UPLOAD_ACTIVE" "reached NowMs (b_MissionUploadTimeoutMs d)"
    and "b_MissionUploadRetry d < MISSION_MAX_RETRIES"
  shows "\<exists>os. snd (CheckMissionUploadTimeout NowMs d) =
      snd (SendMissionClearAll (d\<lparr> b_MissionUploadRetry := b_MissionUploadRetry d + 1,
        b_MissionUploadTimeoutMs := NowMs + MISSION_UPLOAD_TIMEOUT_MS \<rparr>)) @ os"
    and "b_MissionUploadState (fst (CheckMissionUploadTimeout NowMs d)) = UPLOAD_ACTIVE"
  using assms CheckMissionUploadTimeout_next[of NowMs d]
  by (auto simp: CheckMissionUploadTimeout_def upload_view_def prepend_def)

lemma any_ack_ends_upload:
  assumes "b_MissionUploadState d = UPLOAD_ACTIVE" "be_Ticks (b_Env d) = []"
    and "unat (p_PayloadLen p) < 3"
  shows "b_MissionUploadState (fst (mission_ack_frame p RxMs d)) = UPLOAD_IDLE \<and>
    b_LastUploadResult (fst (mission_ack_frame p RxMs d)) = UPLOAD_RESULT_SUCCESS"
  using assms apart.stepD[OF readback_apart, unfolded upload_same_def]
  by (auto simp: mission_ack_frame_def upload_view_def Let_def prepend_def)

end
