(* ===== verification/Bridge_Talk.thy ===== *)
theory Bridge_Talk
  imports Bridge_Steps Bridge_Parse
begin

text \<open>
  What mavlink_bridge_app says to the flight controller in the mission protocol: the frames it
  writes, read back as messages, and the operations of a turn that have no part in it.
\<close>

section \<open>Messages of the mission protocol\<close>

datatype mission_message =
    Clear_All
  | Count nat
  | Item nat ROUTE_WAYPOINT
  | Request_List
  | Request_Item nat
  | Mission_Accepted

text \<open>The seed of the checksum of each message; the layouts are those the application itself reads
  when a mission is sent to it.\<close>

definition mission_message :: "u32 \<Rightarrow> u8 list \<Rightarrow> (u8 \<times> mission_message) option" where
  "mission_message MsgId pl =
     (if MsgId = MSG_ID_MISSION_CLEAR_ALL then Some (MISSION_CLEAR_ALL_CRC_EXTRA, Clear_All)
      else if MsgId = MSG_ID_MISSION_COUNT then Some (MISSION_COUNT_CRC_EXTRA, Count (unat (get_u16 pl 0)))
      else if MsgId = MSG_ID_MISSION_ITEM_INT
      then Some (MISSION_ITEM_INT_CRC_EXTRA, Item (unat (get_u16 pl 28)) (downloaded_waypoint pl))
      else if MsgId = MSG_ID_MISSION_REQUEST_LIST then Some (MISSION_REQUEST_LIST_CRC_EXTRA, Request_List)
      else if MsgId = MSG_ID_MISSION_REQUEST_INT
      then Some (MISSION_REQUEST_INT_CRC_EXTRA, Request_Item (unat (get_u16 pl 0)))
      else if MsgId = MSG_ID_MISSION_ACK then Some (MISSION_ACK_CRC_EXTRA, Mission_Accepted)
      else None)"

text \<open>A frame of version 2 is read when its length and checksum are right.\<close>

definition read_message :: "u8 list \<Rightarrow> mission_message list" where
  "read_message bs =
     (let MsgId = ucast (byte_at bs 7) OR push_bit 8 (ucast (byte_at bs 8)) OR push_bit 16 (ucast (byte_at bs 9));
          pl = take (unat (byte_at bs 1)) (drop 10 bs)
      in case mission_message MsgId pl of
           None \<Rightarrow> []
         | Some (x, m) \<Rightarrow> if bs = mav_frame (byte_at bs 4) (byte_at bs 5) (byte_at bs 6) MsgId pl x then [m] else [])"

fun mission_talk :: "out list \<Rightarrow> mission_message list" where
  "mission_talk [] = []"
| "mission_talk (Serial bs # os) = read_message bs @ mission_talk os"
| "mission_talk (_ # os) = mission_talk os"

lemma mission_talk_append [simp]: "mission_talk (xs @ ys) = mission_talk xs @ mission_talk ys"
  by (induction xs rule: mission_talk.induct) simp_all

text \<open>A frame tells its seed.\<close>

lemma mav_frame_seed: "mav_frame s y c MsgId pl x = mav_frame s y c MsgId pl x' \<Longrightarrow> x = x'"
  by (auto simp: mav_frame_def mav_crc_def Let_def put_u16_inject dest: x25.inj_byte)

lemma MsgId_16: "MsgId < 0x1000000" if "MsgId \<le> 255" for MsgId :: u32
  using that by (rule order.strict_trans1) simp

lemma read_message_frame:
  assumes "length pl \<le> 255" "MsgId < 0x1000000"
  shows "read_message (mav_frame s y c MsgId pl x) =
    (case mission_message MsgId pl of None \<Rightarrow> [] | Some (x', m) \<Rightarrow> if x' = x then [m] else [])"
proof -
  let ?bs = "mav_frame s y c MsgId pl x"
  have b: "byte_at ?bs 1 = of_nat (length pl)" "byte_at ?bs 4 = s" "byte_at ?bs 5 = y" "byte_at ?bs 6 = c"
    "byte_at ?bs 7 = ucast MsgId" "byte_at ?bs 8 = ucast (drop_bit 8 MsgId)"
    "byte_at ?bs 9 = ucast (drop_bit 16 MsgId)"
    by (simp_all add: mav_frame_def mav_body_def Let_def)
  have p: "take (length pl) (drop 10 ?bs) = pl"
    by (simp add: mav_frame_def mav_body_def Let_def put_u16_def)
  have "(?bs = mav_frame s y c MsgId pl x') = (x' = x)" for x' using mav_frame_seed by blast
  moreover have "ucast (byte_at ?bs 7) OR push_bit 8 (ucast (byte_at ?bs 8)) OR push_bit 16 (ucast (byte_at ?bs 9)) = MsgId"
    unfolding b using split_id24[OF assms(2)] by (simp only: or.assoc)
  moreover have "unat (byte_at ?bs 1) = length pl" unfolding b by (rule unat_len[OF assms(1)])
  ultimately show ?thesis
    unfolding read_message_def by (simp only: p b Let_def)
qed

text \<open>The missions it reports to the other applications.\<close>

fun is_readback :: "sb_msg \<Rightarrow> bool" where
  "is_readback (FcMissionReadback m) \<longleftrightarrow> True"
| "is_readback _ \<longleftrightarrow> False"

definition readbacks :: "out list \<Rightarrow> sb_msg list" where
  "readbacks os = filter is_readback (sent os)"

lemma readbacks_simps [simp]:
  "readbacks [] = []" "readbacks (xs @ ys) = readbacks xs @ readbacks ys"
  "readbacks (Send m # os) = (if is_readback m then m # readbacks os else readbacks os)"
  "readbacks (Event e t # os) = readbacks os" "readbacks (Serial bs # os) = readbacks os"
  by (simp_all add: readbacks_def)

section \<open>Sending on a line that takes every write\<close>

definition frame_out :: "u32 \<Rightarrow> u8 list \<Rightarrow> u8 \<Rightarrow> MAVLINK_BRIDGE_APP_Data \<Rightarrow> out list" where
  "frame_out m pl x d = [Serial (mav_frame (b_TxSequence d) MAVLINK_SYSTEM_ID MAVLINK_COMPONENT_ID m pl x)]"

lemma SendMavlinkV2_free:
  assumes "b_PortOpen d" "be_Writes (b_Env d) = []" "length pl \<le> 52"
  shows "MAVLINK_BRIDGE_APP_SendMavlinkV2 m pl x d =
    (True, d\<lparr> b_TxSequence := b_TxSequence d + 1 \<rparr>, frame_out m pl x d)"
proof -
  have "(b_Env d)\<lparr> be_Writes := [] \<rparr> = b_Env d" using assms(2) by (cases "b_Env d") simp
  moreover have "mav_frame s y c m pl x \<noteq> []" for s y c by (simp add: mav_frame_def Let_def)
  ultimately show ?thesis
    using assms by (simp add: MAVLINK_BRIDGE_APP_SendMavlinkV2_def frame_out_def write_all_none Let_def)
qed

lemma frame_out_talk:
  assumes "length pl \<le> 52" "m \<le> 255"
  shows "mission_talk (frame_out m pl x d) =
    (case mission_message m pl of None \<Rightarrow> [] | Some (x', msg) \<Rightarrow> if x' = x then [msg] else [])"
    and "readbacks (frame_out m pl x d) = []"
  using assms by (simp_all add: frame_out_def read_message_frame MsgId_16)

section \<open>What a turn does aside\<close>

definition mission_view where
  "mission_view d =
     ((b_MissionUploadState d, b_MissionUploadWpCount d, b_MissionUploadTimeoutMs d, b_MissionUploadRetry d,
       b_MissionPending d, b_ActiveWaypoint d, b_ActiveWaypointCount d, b_LastUploadResult d),
      (b_MissionDownloadState d, b_MissionDownloadSeq d, b_MissionDownloadExpectedCount d,
       b_MissionDownloadTimeoutMs d, b_MissionDownloadWaypoints d, b_FcMissionReadbackWaypoints d,
       b_MissionReadbackSeq d),
      (b_PortOpen d, b_RunStatus d, b_Parser d, b_Env d))"

text \<open>Provided an upload or a read-back is under way, the clock stands still within the turn and the
  line takes every write.\<close>

definition busy :: "MAVLINK_BRIDGE_APP_Data \<Rightarrow> bool" where
  "busy d \<longleftrightarrow> b_MissionUploadState d \<noteq> UPLOAD_IDLE \<or> b_MissionDownloadState d \<noteq> DOWNLOAD_IDLE"

definition free :: "MAVLINK_BRIDGE_APP_Data \<Rightarrow> bool" where
  "free d \<longleftrightarrow> be_Ticks (b_Env d) = [] \<and> be_Writes (b_Env d) = []"

definition set_aside :: "MAVLINK_BRIDGE_APP_Data \<Rightarrow> MAVLINK_BRIDGE_APP_Data \<Rightarrow> out list \<Rightarrow> bool" where
  "set_aside d d' os \<longleftrightarrow> (free d \<and> busy d \<longrightarrow>
     mission_view d' = mission_view d \<and> mission_talk os = [] \<and> readbacks os = [])"

lemma view_free: "mission_view d' = mission_view d \<Longrightarrow> free d' = free d"
  by (simp add: mission_view_def free_def)

lemma view_busy: "mission_view d' = mission_view d \<Longrightarrow> busy d' = busy d"
  by (simp add: mission_view_def busy_def)

interpretation aside: step_rel set_aside
  by unfold_locales (auto simp: set_aside_def dest: view_free view_busy)

lemma read_clock_free: "free d \<Longrightarrow> read_clock d = (GetTimeMs (be_Now (b_Env d)), d)"
  by (simp add: read_clock_def free_def Let_def)

lemma SendMavlinkV2_aside:
  assumes "mission_message m pl = None" "m \<le> 255" "length pl \<le> 52"
  shows "set_aside d (fst (snd (MAVLINK_BRIDGE_APP_SendMavlinkV2 m pl x d)))
    (snd (snd (MAVLINK_BRIDGE_APP_SendMavlinkV2 m pl x d)))"
proof (cases "b_PortOpen d")
  case True
  then show ?thesis
    using SendMavlinkV2_free[OF True _ assms(3)] frame_out_talk[OF assms(3,2)] assms(1)
    by (simp add: set_aside_def free_def mission_view_def)
next
  case False
  then show ?thesis by (simp add: MAVLINK_BRIDGE_APP_SendMavlinkV2_def aside.refl)
qed

lemma heartbeat_aside: "aside.step (SendCompanionHeartbeat t)"
proof (rule aside.stepI)
  fix d :: MAVLINK_BRIDGE_APP_Data
  let ?r = "MAVLINK_BRIDGE_APP_SendMavlinkV2 MSG_ID_HEARTBEAT
      [0, 0, 0, 0, MAV_TYPE_ONBOARD_CONTROLLER, MAV_AUTOPILOT_INVALID, 0, 0, 3] HEARTBEAT_CRC_EXTRA d"
  have "set_aside d (fst (snd ?r)) (snd (snd ?r))"
    by (rule SendMavlinkV2_aside) (simp_all add: mission_message_def)
  then show "set_aside d (fst (SendCompanionHeartbeat t d)) (snd (SendCompanionHeartbeat t d))"
    by (auto simp: SendCompanionHeartbeat_def Let_def case_prod_unfold aside.refl set_aside_def mission_view_def)
qed

lemma request_intervals_aside: "set_aside d (fst (snd (request_intervals rs d))) (snd (snd (request_intervals rs d)))"
proof (induction rs d rule: request_intervals.induct)
  case (2 m us rs d)
  obtain ok d1 os where r: "RequestMessageInterval m us d = (ok, d1, os)" by (cases "RequestMessageInterval m us d")
  have a: "set_aside d d1 os"
    using SendMavlinkV2_aside[of MSG_ID_COMMAND_LONG
        "command_long (f32_of_int (uint m)) (f32_of_int (uint us)) 0 MAV_CMD_SET_MESSAGE_INTERVAL d" d COMMAND_LONG_CRC_EXTRA] r
    by (simp add: RequestMessageInterval_def mission_message_def command_long_def target_def put_u32_def put_u16_def)
  show ?case
  proof (cases ok)
    case True
    then show ?thesis using aside.trans[OF a 2[OF r[symmetric] refl refl True]] r
      by (simp add: case_prod_unfold Let_def)
  next
    case False
    then show ?thesis using a r by (simp add: set_aside_def)
  qed
qed (simp add: aside.refl)

lemma RequestTelemetryStreams_aside: "aside.step MAVLINK_BRIDGE_APP_RequestTelemetryStreams"
proof (rule aside.stepI)
  fix d :: MAVLINK_BRIDGE_APP_Data
  obtain rs where rs: "rs = [(MSG_ID_ATTITUDE, bp_AttitudeIntervalUs (b_ActiveConfig d)),
      (MSG_ID_LOCAL_POSITION_NED, bp_LocalPositionIntervalUs (b_ActiveConfig d)),
      (MSG_ID_GLOBAL_POSITION_INT, bp_GlobalPositionIntervalUs (b_ActiveConfig d)),
      (MSG_ID_GPS_RAW_INT, bp_GpsRawIntervalUs (b_ActiveConfig d)),
      (MSG_ID_EKF_STATUS_REPORT, bp_EkfStatusIntervalUs (b_ActiveConfig d)),
      (MSG_ID_SYS_TIME, SYS_TIME_INTERVAL_US)]" by blast
  obtain ok d' os where r: "request_intervals rs d = (ok, d', os)" by (cases "request_intervals rs d")
  have a: "set_aside d d' os" using request_intervals_aside[of d rs] r by simp
  let ?f = "with_clock (\<lambda>NowMs d. (d\<lparr> b_LastStreamRequestMs := NowMs \<rparr>, [Event BR_STREAM_EID INFORMATION]))"
  have "aside.step ?f"
    by (rule aside.stepI) (simp add: set_aside_def with_clock_def read_clock_free, simp add: mission_view_def)
  then have "set_aside d (fst (if ok then ?f d' else (d', [])))
      (Event BR_STREAM_EID INFORMATION # os @ snd (if ok then ?f d' else (d', [])))"
    using aside.trans[OF a aside.stepD] a by (auto simp: set_aside_def)
  then show "set_aside d (fst (MAVLINK_BRIDGE_APP_RequestTelemetryStreams d))
      (snd (MAVLINK_BRIDGE_APP_RequestTelemetryStreams d))"
    using r unfolding rs
    by (simp add: MAVLINK_BRIDGE_APP_RequestTelemetryStreams_def Let_def aside.refl del: request_intervals.simps)
qed

lemma request_streams_aside: "aside.step (request_streams t)"
proof (rule aside.stepI)
  fix d :: MAVLINK_BRIDGE_APP_Data
  let ?d = "d\<lparr> b_StreamRequestPending := 1 \<rparr>"
  have "set_aside d ?d []" "set_aside d (d\<lparr> b_TargetDiscoveryStartMs := t \<rparr>) [Event BR_STREAM_EID INFORMATION]"
    by (simp_all add: set_aside_def mission_view_def)
  then show "set_aside d (fst (request_streams t d)) (snd (request_streams t d))"
    using aside.trans[OF _ aside.stepD[OF RequestTelemetryStreams_aside], of d ?d "[]"]
    by (simp add: request_streams_def aside.refl)
qed

text \<open>A turn without bytes may find the line stale, which leaves the mission alone.\<close>

lemma read_nothing_aside:
  assumes "be_Reads (b_Env d) = []"
  shows "set_aside d (fst (read_port t d)) (snd (read_port t d))"
proof -
  have e: "d\<lparr> b_Env := (b_Env d)\<lparr> be_Reads := [] \<rparr> \<rparr> = d" using assms by simp
  have "set_aside d (fst (after_reads False Rd_Nothing t d)) (snd (after_reads False Rd_Nothing t d))"
    by (simp add: after_reads_def update_def MAVLINK_BRIDGE_APP_SetLinkState_def MarkOutputsStale_def
        set_aside_def mission_view_def Let_def prepend_def)
  then show ?thesis using assms by (simp add: read_port_def e)
qed

section \<open>Frames that have no part in the mission\<close>

text \<open>Whatever is not a message of the mission protocol, or is damaged.\<close>

definition chatter :: "mav_rx \<Rightarrow> bool" where
  "chatter f \<longleftrightarrow> \<not> rx_intact f \<or> mr_MsgId f \<notin> {MSG_ID_MISSION_REQUEST_INT, MSG_ID_MISSION_REQUEST,
     MSG_ID_MISSION_ACK, MSG_ID_MISSION_COUNT, MSG_ID_MISSION_ITEM_INT}"

lemma SetLinkState_aside: "aside.step (MAVLINK_BRIDGE_APP_SetLinkState BRIDGE_CONNECTED)"
  by (rule aside.stepI)
    (simp add: MAVLINK_BRIDGE_APP_SetLinkState_def set_aside_def busy_def mission_view_def Let_def)

lemma log_aside [simp]: "mission_talk (log_decoded n) = []" "readbacks (log_decoded n) = []"
  by (simp_all add: log_decoded_def)

lemma errors_aside: "aside.step (RecordLengthError)" "aside.step (RecordNonFiniteError)" "aside.step parse_failed"
  by (rule aside.stepI, simp add: RecordLengthError_def RecordNonFiniteError_def parse_failed_def
      MAVLINK_BRIDGE_APP_RecordParseError_def set_aside_def mission_view_def)+

lemma publish_aside:
  "aside.step (PublishAttitude p t)" "aside.step (PublishEkfLocal p t)" "aside.step (PublishGlobalPositionAsLocal p t)"
  "aside.step (PublishGpsRaw p t)" "aside.step (PublishEkfStatus p t)" "aside.step (HandleSysTime p t)"
  unfolding PublishAttitude_def PublishEkfLocal_def PublishGlobalPositionAsLocal_def PublishGpsRaw_def
    PublishEkfStatus_def HandleSysTime_def
  by (rule aside.stepI, simp add: Let_def aside.stepD[OF errors_aside(1)] aside.stepD[OF errors_aside(2)],
      simp add: set_aside_def mission_view_def)+

lemma live_frame_aside: "aside.step use \<Longrightarrow> aside.step (live_frame t use)"
  unfolding live_frame_def
  by (intro aside.steps) (simp add: SetLinkState_aside, rule aside.stepI, simp add: update_def set_aside_def mission_view_def)

lemma telemetry_frame_aside:
  assumes "aside.step use" shows "aside.step (telemetry_frame p c x t use)"
proof -
  have "aside.step (steps [emit [Event BR_PARSE_EID INFORMATION], parse_failed])"
    by (rule aside.steps) (simp add: errors_aside, rule aside.step_emit, simp add: set_aside_def)
  then show ?thesis using live_frame_aside[OF assms] by (simp add: telemetry_frame_def)
qed

lemma heartbeat_frame_aside: "aside.step (heartbeat_frame p t)"
proof (rule aside.stepI)
  fix d :: MAVLINK_BRIDGE_APP_Data
  let ?u = "steps [update (\<lambda>d. d\<lparr> b_LastRxTimestampMs := t \<rparr>), MAVLINK_BRIDGE_APP_SetLinkState BRIDGE_CONNECTED,
    update (MAVLINK_BRIDGE_APP_UpdateFromHeartbeat (byte_at (p_Payload p) 6) (byte_at (p_Payload p) 7))]"
  let ?d = "d\<lparr> b_TargetSystemId := p_SysId p, b_TargetComponentId := p_CompId p \<rparr>"
  have u: "aside.step ?u"
    by (rule aside.steps) (simp add: SetLinkState_aside, intro conjI aside.stepI;
        simp add: update_def set_aside_def mission_view_def MAVLINK_BRIDGE_APP_UpdateFromHeartbeat_def Let_def)
  have "set_aside d ?d []" by (simp add: set_aside_def mission_view_def)
  from aside.trans[OF this aside.stepD[OF u]]
  show "set_aside d (fst (heartbeat_frame p t d)) (snd (heartbeat_frame p t d))"
    using aside.stepD[OF u, of d] \<open>set_aside d ?d []\<close>
    by (auto simp: heartbeat_frame_def Let_def aside.refl simp del: steps.simps steps_Cons)
qed

lemma command_ack_aside: "aside.step (command_ack_frame p)"
  by (rule aside.stepI) (simp add: command_ack_frame_def set_aside_def mission_view_def)

lemma mission_current_aside: "aside.step (mission_current_frame p)"
  by (rule aside.stepI) (simp add: mission_current_frame_def update_def set_aside_def mission_view_def Let_def)

lemma guarded_frame_aside: "aside.step use \<Longrightarrow> aside.step (guarded_frame p c x n use)"
  by (simp add: guarded_frame_def errors_aside)

lemma frame_action_aside:
  assumes "p_MsgId p \<notin> {MSG_ID_MISSION_REQUEST_INT, MSG_ID_MISSION_REQUEST, MSG_ID_MISSION_ACK,
    MSG_ID_MISSION_COUNT, MSG_ID_MISSION_ITEM_INT}"
  shows "aside.step (frame_action p c t)"
proof (rule aside.stepI)
  fix d :: MAVLINK_BRIDGE_APP_Data
  note a = heartbeat_frame_aside errors_aside(3) guarded_frame_aside[OF command_ack_aside]
    telemetry_frame_aside[OF publish_aside(1)] telemetry_frame_aside[OF publish_aside(2)]
    telemetry_frame_aside[OF publish_aside(3)] telemetry_frame_aside[OF publish_aside(4)]
    telemetry_frame_aside[OF publish_aside(5)] telemetry_frame_aside[OF publish_aside(6)]
    guarded_frame_aside[OF live_frame_aside[OF mission_current_aside]]
  show "set_aside d (fst (frame_action p c t d)) (snd (frame_action p c t d))"
    using assms by (simp add: frame_action_def Let_def a[THEN aside.stepD] aside.refl)
qed

lemma events_aside: "list_all is_event os \<Longrightarrow> mission_talk os = [] \<and> readbacks os = []"
  by (induction os rule: mission_talk.induct) auto

lemma parse_error_view: "mission_view (parse_error d) = mission_view d"
  by (simp add: parse_error_def mission_view_def)

text \<open>An action that sets nothing of the mission, between the filling and the reset of the parser.\<close>

lemma take_frame_aside:
  assumes "aside.step (frame_action (rx_context f) (mr_Crc f) t)" "b_Parser d = parser_zero"
  shows "set_aside d (fst (take_frame t f d)) (snd (take_frame t f d))"
proof -
  let ?d = "d\<lparr> b_Parser := rx_context f \<rparr>"
  have "set_aside ?d (fst (frame_action (rx_context f) (mr_Crc f) t ?d)) (snd (frame_action (rx_context f) (mr_Crc f) t ?d))"
    by (rule aside.stepD[OF assms(1)])
  moreover have "free ?d = free d" "busy ?d = busy d" by (simp_all add: free_def busy_def)
  ultimately show ?thesis
    using assms(2) by (auto simp: set_aside_def take_frame_def update_def ResetParser_def mission_view_def)
qed

lemma take_chatter:
  assumes "chatter f" "rx_fits f" "b_Parser d = parser_zero"
  shows "set_aside d (fst (take_frame t f d)) (snd (take_frame t f d))"
proof (cases "rx_intact f")
  case True
  have "p_MsgId (rx_context f) = mr_MsgId f" by (simp add: rx_context_def)
  then show ?thesis using assms(1,3) True by (intro take_frame_aside frame_action_aside) (simp_all add: chatter_def)
next
  case False
  from take_frame_wrong_crc[OF assms(2) this assms(3), of t] show ?thesis
    by (auto simp: set_aside_def parse_error_view dest: events_aside)
qed

text \<open>What is left of a series of frames without them.\<close>

definition substance :: "mav_rx list \<Rightarrow> mav_rx list" where
  "substance fs = filter (\<lambda>f. \<not> chatter f) fs"

lemma substance_simps [simp]:
  "substance [] = []" "substance (f # fs) = (if chatter f then substance fs else f # substance fs)"
  "substance (fs @ gs) = substance fs @ substance gs"
  by (simp_all add: substance_def)

lemma take_chatters:
  assumes "list_all chatter fs" "list_all rx_fits fs" "b_Parser d = parser_zero" "free d" "busy d"
  shows "mission_view (fst (steps (map (take_frame t) fs) d)) = mission_view d \<and>
    mission_talk (snd (steps (map (take_frame t) fs) d)) = [] \<and> readbacks (snd (steps (map (take_frame t) fs) d)) = []"
  using assms
proof (induction fs arbitrary: d)
  case (Cons f fs)
  have f: "mission_view (fst (take_frame t f d)) = mission_view d" "mission_talk (snd (take_frame t f d)) = []"
    "readbacks (snd (take_frame t f d)) = []"
    using take_chatter[of f d t] Cons.prems by (simp_all add: set_aside_def)
  have "b_Parser (fst (take_frame t f d)) = parser_zero" using f(1) Cons.prems(3) by (simp add: mission_view_def)
  then show ?case
    using Cons.IH[of "fst (take_frame t f d)"] f view_free[OF f(1)] view_busy[OF f(1)] Cons.prems by simp
qed simp

text \<open>A series with one frame that matters.\<close>

lemma take_single:
  assumes "substance fs = [f]" "list_all rx_fits fs" "b_Parser d = parser_zero" "free d" "busy d"
  obtains d1 where "mission_view d1 = mission_view d"
    "b_Parser (fst (take_frame t f d1)) = parser_zero \<Longrightarrow> free (fst (take_frame t f d1)) \<Longrightarrow> busy (fst (take_frame t f d1)) \<Longrightarrow>
      mission_view (fst (steps (map (take_frame t) fs) d)) = mission_view (fst (take_frame t f d1)) \<and>
      mission_talk (snd (steps (map (take_frame t) fs) d)) = mission_talk (snd (take_frame t f d1)) \<and>
      readbacks (snd (steps (map (take_frame t) fs) d)) = readbacks (snd (take_frame t f d1))"
proof -
  obtain gs hs where fs: "fs = gs @ f # hs" and "\<forall>g\<in>set gs. chatter g" "filter (\<lambda>f. \<not> chatter f) hs = []"
    using filter_eq_ConsD[OF assms(1)[unfolded substance_def]] by auto
  then have c: "list_all chatter gs" "list_all chatter hs" by (simp_all add: list_all_iff filter_empty_conv)
  let ?r = "steps (map (take_frame t) gs) d"
  let ?q = "take_frame t f (fst ?r)"
  have g: "mission_view (fst ?r) = mission_view d \<and> mission_talk (snd ?r) = [] \<and> readbacks (snd ?r) = []"
    using take_chatters[OF c(1)] assms(2-5) fs by simp
  have fits: "list_all rx_fits hs" using assms(2) fs by simp
  show thesis
  proof (rule that)
    show "mission_view (fst ?r) = mission_view d" using g by simp
    assume "b_Parser (fst ?q) = parser_zero" "free (fst ?q)" "busy (fst ?q)"
    from take_chatters[OF c(2) fits this, of t] g
    show "mission_view (fst (steps (map (take_frame t) fs) d)) = mission_view (fst ?q) \<and>
      mission_talk (snd (steps (map (take_frame t) fs) d)) = mission_talk (snd ?q) \<and>
      readbacks (snd (steps (map (take_frame t) fs) d)) = readbacks (snd ?q)"
      by (simp add: fs steps_append)
  qed
qed

end
