(* ===== verification/Bridge_Mission.thy ===== *)
theory Bridge_Mission
  imports Bridge_Talk Bridge_Upload
begin

text \<open>
  The upload of a mission as a dialogue with the flight controller, over whole turns of the main
  loop: what mavlink_bridge_app sends when a route command arrives and the flight controller asks
  for the items of the mission and accepts it.
\<close>

section \<open>Turns\<close>

text \<open>A turn at a time, in milliseconds, in which the line delivers some bytes and takes every
  write.\<close>

definition talk_env :: "nat \<Rightarrow> u8 list \<Rightarrow> bridge_env \<Rightarrow> bool" where
  "talk_env T bs e \<longleftrightarrow> be_Ticks e = [] \<and> be_Writes e = [] \<and>
     be_Reads e = (if bs = [] then [] else [Rd_Bytes bs]) \<and> GetTimeMs (be_Now e) = of_nat T"

definition under_way ::
    "MAVLINK_BRIDGE_APP_MissionUploadState \<Rightarrow> ROUTE_WAYPOINT list \<Rightarrow> nat \<Rightarrow> MAVLINK_BRIDGE_APP_Data \<Rightarrow> bool" where
  "under_way s ws D d \<longleftrightarrow> b_PortOpen d \<and> b_RunStatus d = APP_RUN \<and> b_Parser d = parser_zero \<and>
     b_MissionUploadState d = s \<and> b_MissionDownloadState d = DOWNLOAD_IDLE \<and>
     b_MissionUploadTimeoutMs d = of_nat D \<and>
     length (b_MissionPending d) = ROUTE_MAX_WAYPOINTS \<and> length (b_ActiveWaypoint d) = ROUTE_MAX_WAYPOINTS \<and>
     length (b_MissionDownloadWaypoints d) = ROUTE_MAX_WAYPOINTS \<and>
     length (b_FcMissionReadbackWaypoints d) = ROUTE_MAX_WAYPOINTS \<and>
     unat (b_MissionUploadWpCount d) = length ws \<and> take (length ws) (b_MissionPending d) = ws"

lemma under_way_view: "mission_view d' = mission_view d \<Longrightarrow> under_way s ws D d' = under_way s ws D d"
  by (simp add: mission_view_def under_way_def)

lemma under_way_busy: "under_way s ws D d \<Longrightarrow> s \<noteq> UPLOAD_IDLE \<Longrightarrow> busy d"
  by (simp add: under_way_def busy_def)

lemma under_way_le: "under_way s ws D d \<Longrightarrow> length ws \<le> ROUTE_MAX_WAYPOINTS"
  by (auto simp: under_way_def dest: arg_cong[of _ _ length])

section \<open>Requests of the flight controller\<close>

definition requested :: "mav_rx \<Rightarrow> nat" where
  "requested f = unat (get_u16 (mr_Payload f) 0)"

definition item_request :: "nat \<Rightarrow> mav_rx \<Rightarrow> bool" where
  "item_request n f \<longleftrightarrow> rx_fits f \<and> rx_intact f \<and> mr_MsgId f = MSG_ID_MISSION_REQUEST_INT \<and>
     2 \<le> length (mr_Payload f) \<and> requested f < n"

lemma guarded_intact:
  assumes "rx_fits f" "rx_intact f" "MinLen \<le> length (mr_Payload f)" "x = crc_extra (mr_MsgId f)"
  shows "guarded_frame (rx_context f) (mr_Crc f) x MinLen use = use"
  using assms by (simp add: guarded_frame_def ComputeFrameCrc_context rx_intact_def)
    (simp add: rx_context_def rx_fits_def unat_len)

lemma rx_context_fields:
  "p_MsgId (rx_context f) = mr_MsgId f" "get_u16 (p_Payload (rx_context f)) i = get_u16 (mr_Payload f) i"
  "byte_at (p_Payload (rx_context f)) i = byte_at (mr_Payload f) i"
  "downloaded_waypoint (p_Payload (rx_context f)) = downloaded_waypoint (mr_Payload f)"
  by (simp_all add: rx_context_def byte_at_zeros downloaded_waypoint_def)

lemma unat_ucast_8_16: "unat (ucast (b :: u8) :: u16) = unat b"
proof -
  have "unat b < 2 ^ LENGTH(8)" by (rule unsigned_less)
  then show ?thesis by (simp add: unsigned_ucast_eq take_bit_nat_eq_self)
qed

lemma mission_item_message:
  "mission_message MSG_ID_MISSION_ITEM_INT (mission_item_int d Seq) =
    Some (MISSION_ITEM_INT_CRC_EXTRA, Item (unat Seq) (wp_nth (b_MissionPending d) (unat Seq)))"
proof -
  have "ucast (ucast b :: u16) = b" for b :: u8 by (rule bit_word_eqI) (simp add: bit_ucast_iff)
  then show ?thesis
    by (simp add: unat_ucast_8_16 mission_message_def mission_item_int_def downloaded_waypoint_def Let_def
        byte_at_append2 get_u16_append2 get_u32_append2)
qed

lemma length_mission_item_int: "length (mission_item_int d Seq) = 38"
  by (simp add: mission_item_int_def target_def Let_def)

text \<open>A request is answered by its item, and the time-out starts anew.\<close>

lemma take_request:
  assumes d: "under_way UPLOAD_ACTIVE ws D d" "free d" and f: "item_request (length ws) f"
  shows "under_way UPLOAD_ACTIVE ws (T + 2000) (fst (take_frame (of_nat T) f d)) \<and>
    free (fst (take_frame (of_nat T) f d)) \<and>
    mission_talk (snd (take_frame (of_nat T) f d)) = [Item (requested f) (ws ! requested f)] \<and>
    readbacks (snd (take_frame (of_nat T) f d)) = []"
proof -
  let ?seq = "get_u16 (mr_Payload f) 0"
  let ?d = "d\<lparr> b_Parser := rx_context f, b_MissionUploadTimeoutMs := of_nat T + 2000 \<rparr>"
  have r: "requested f < length ws" "length ws \<le> 37" using f under_way_le[OF d(1)] by (simp_all add: item_request_def)
  have u: "unat (ucast ?seq :: u8) = requested f"
    using r by (simp add: requested_def unsigned_ucast_eq take_bit_nat_eq_self)
  have lt: "?seq < ucast (b_MissionUploadWpCount d)"
    using d(1) r by (simp add: word_less_nat_alt unat_ucast_8_16 under_way_def requested_def)
  have w: "wp_nth (b_MissionPending d) (requested f) = ws ! requested f"
    using d(1) r by (metis wp_nth_def nth_take under_way_def le_less_trans less_le_trans nth_take)
  have send: "SendMissionItemInt (ucast ?seq) ?d =
      (?d\<lparr> b_TxSequence := b_TxSequence d + 1 \<rparr>,
       frame_out MSG_ID_MISSION_ITEM_INT (mission_item_int ?d (ucast ?seq)) MISSION_ITEM_INT_CRC_EXTRA ?d)"
    using d by (simp add: SendMissionItemInt_def send_mavlink_def under_way_def free_def
        SendMavlinkV2_free length_mission_item_int)
  have act: "frame_action (rx_context f) (mr_Crc f) (of_nat T) (d\<lparr> b_Parser := rx_context f \<rparr>) =
      SendMissionItemInt (ucast ?seq) ?d"
    using f lt d(1)
    by (simp add: frame_action_def Let_def rx_context_fields item_request_def guarded_intact crc_extra_def
        mission_request_frame_def under_way_def)
  have talk: "mission_talk (frame_out MSG_ID_MISSION_ITEM_INT (mission_item_int ?d (ucast ?seq)) MISSION_ITEM_INT_CRC_EXTRA ?d) =
      [Item (requested f) (ws ! requested f)]"
    by (subst frame_out_talk) (simp_all add: length_mission_item_int mission_item_message u w)
  show ?thesis
    using d talk frame_out_talk(2)[of "mission_item_int ?d (ucast ?seq)" MSG_ID_MISSION_ITEM_INT]
    by (simp add: take_frame_def update_def act send ResetParser_def length_mission_item_int)
      (simp add: under_way_def free_def)
qed

lemma take_requests:
  assumes "under_way UPLOAD_ACTIVE ws D d" "free d" "list_all rx_fits fs"
    and "list_all (item_request (length ws)) (substance fs)"
  shows "under_way UPLOAD_ACTIVE ws (if substance fs = [] then D else T + 2000)
      (fst (steps (map (take_frame (of_nat T)) fs) d)) \<and>
    mission_talk (snd (steps (map (take_frame (of_nat T)) fs) d)) =
      map (\<lambda>f. Item (requested f) (ws ! requested f)) (substance fs) \<and>
    readbacks (snd (steps (map (take_frame (of_nat T)) fs) d)) = []"
  using assms
proof (induction fs arbitrary: d D)
  case (Cons f fs)
  show ?case
  proof (cases "chatter f")
    case True
    have "b_Parser d = parser_zero" using Cons.prems(1) by (simp add: under_way_def)
    then have "set_aside d (fst (take_frame (of_nat T) f d)) (snd (take_frame (of_nat T) f d))"
      using True Cons.prems(3) by (intro take_chatter) simp_all
    then have v: "mission_view (fst (take_frame (of_nat T) f d)) = mission_view d"
      "mission_talk (snd (take_frame (of_nat T) f d)) = []" "readbacks (snd (take_frame (of_nat T) f d)) = []"
      using Cons.prems(2) under_way_busy[OF Cons.prems(1)] by (simp_all add: set_aside_def)
    show ?thesis
      using Cons.IH[of D "fst (take_frame (of_nat T) f d)"] Cons.prems True v view_free[OF v(1)] under_way_view[OF v(1)]
      by simp
  next
    case False
    then have f: "item_request (length ws) f" using Cons.prems(4) by simp
    note t = take_request[OF Cons.prems(1,2) f, of T]
    from Cons.IH[of "T + 2000" "fst (take_frame (of_nat T) f d)"] t Cons.prems(3,4) False show ?thesis by simp
  qed
qed simp

section \<open>The service of the port\<close>

lemma serve_aside:
  assumes "b_PortOpen d" "free d" "busy d"
  obtains d1 os1 where "mission_view d1 = mission_view d" "mission_talk os1 = []" "readbacks os1 = []"
    "MAVLINK_BRIDGE_APP_ServiceSerial d = prepend os1 (steps
       [CheckMissionUploadTimeout (GetTimeMs (be_Now (b_Env d))), CheckMissionDownloadTimeout (GetTimeMs (be_Now (b_Env d))),
        retry_readback (GetTimeMs (be_Now (b_Env d))), read_port (GetTimeMs (be_Now (b_Env d)))] d1)"
proof -
  let ?t = "GetTimeMs (be_Now (b_Env d))"
  let ?s = "steps [SendCompanionHeartbeat ?t, request_streams ?t]"
  have "aside.step ?s" by (rule aside.steps) (simp add: heartbeat_aside request_streams_aside)
  from aside.stepD[OF this, of d] assms(2,3)
  have "mission_view (fst (?s d)) = mission_view d \<and> mission_talk (snd (?s d)) = [] \<and> readbacks (snd (?s d)) = []"
    by (simp only: set_aside_def)
  moreover have "MAVLINK_BRIDGE_APP_ServiceSerial d = prepend (snd (?s d)) (steps
       [CheckMissionUploadTimeout ?t, CheckMissionDownloadTimeout ?t, retry_readback ?t, read_port ?t] (fst (?s d)))"
    using assms
    by (subst steps_append[symmetric]) (simp add: MAVLINK_BRIDGE_APP_ServiceSerial_def with_clock_def read_clock_free)
  ultimately show thesis using that by blast
qed

definition frames_stream :: "mav_rx list \<Rightarrow> u8 list" where
  "frames_stream fs = concat (map rx_bytes fs)"

lemma read_port_frames:
  assumes "be_Reads (b_Env d) = [Rd_Bytes (frames_stream fs)]" "b_Parser d = parser_zero" "list_all rx_fits fs"
  shows "read_port t d = steps (map (take_frame t) fs)
    (noted t (frames_stream fs) (d\<lparr> b_Env := (b_Env d)\<lparr> be_Reads := [] \<rparr> \<rparr>))"
proof -
  let ?gs = "map (Pair []) fs"
  have s: "frame_stream ?gs = frames_stream fs"
    by (simp add: frame_stream_def frames_stream_def comp_def)
  have g: "\<forall>(g, m)\<in>set ?gs. noise g \<and> rx_fits m" using assms(3) by (auto simp: noise_def list_all_iff)
  have m: "map (\<lambda>(g, m). take_frame t m) ?gs = map (take_frame t) fs" by simp
  show ?thesis
    using received_frames[OF _ g, of "noted t (frames_stream fs) (d\<lparr> b_Env := (b_Env d)\<lparr> be_Reads := [] \<rparr> \<rparr>)" t] assms(1,2)
    unfolding s m
    by (simp add: read_port_def after_reads_def HandleReceivedBytes_received noted_def prepend_def case_prod_unfold)
qed

lemma talk_cases:
  assumes "talk_env T (frames_stream fs) e"
  obtains "fs = []" "be_Reads e = []" | "fs \<noteq> []" "be_Reads e = [Rd_Bytes (frames_stream fs)]"
  using assms by (cases fs) (auto simp: talk_env_def frames_stream_def rx_bytes_def)

text \<open>The frames of a turn are taken one by one, in a state that shows the same of the mission.\<close>

definition after_reading :: "MAVLINK_BRIDGE_APP_Data \<Rightarrow> MAVLINK_BRIDGE_APP_Data" where
  "after_reading d = d\<lparr> b_Env := (b_Env d)\<lparr> be_Reads := [] \<rparr> \<rparr>"

lemma read_frames:
  assumes d: "free d" "busy d" "b_Parser d = parser_zero" and e: "talk_env T (frames_stream fs) (b_Env d)"
    and fs: "list_all rx_fits fs"
  obtains d2 os2 where "mission_view d2 = mission_view (after_reading d)" "mission_talk os2 = []" "readbacks os2 = []"
    "read_port (of_nat T) d = prepend os2 (steps (map (take_frame (of_nat T)) fs) d2)"
  using e
proof (cases rule: talk_cases)
  case 1
  let ?r = "read_port (of_nat T) d"
  have "set_aside d (fst ?r) (snd ?r)" by (rule read_nothing_aside[OF 1(2)])
  moreover have "after_reading d = d" using 1(2) by (simp add: after_reading_def)
  moreover have "?r = prepend (snd ?r) (steps (map (take_frame (of_nat T)) fs) (fst ?r))"
    using 1(1) by (simp add: prepend_def)
  ultimately show thesis using d by (intro that[of "fst ?r" "snd ?r"]) (simp_all add: set_aside_def)
next
  case 2
  let ?d2 = "noted (of_nat T) (frames_stream fs) (after_reading d)"
  have "read_port (of_nat T) d = prepend [] (steps (map (take_frame (of_nat T)) fs) ?d2)"
    using read_port_frames[OF 2(2) d(3) fs, of "of_nat T"] by (simp add: after_reading_def prepend_def)
  then show thesis by (rule that[of ?d2, rotated 3]) (simp_all add: noted_def mission_view_def)
qed

text \<open>A turn in which no time-out is due.\<close>

lemma serve_frames:
  assumes d: "b_PortOpen d" "b_Parser d = parser_zero" "busy d" and e: "talk_env T (frames_stream fs) (b_Env d)"
    and fs: "list_all rx_fits fs"
    and c: "\<And>d1. mission_view d1 = mission_view d \<Longrightarrow>
      steps [CheckMissionUploadTimeout (of_nat T), CheckMissionDownloadTimeout (of_nat T), retry_readback (of_nat T),
        read_port (of_nat T)] d1 = read_port (of_nat T) d1"
  obtains d2 os2 where "mission_view d2 = mission_view (after_reading d)" "free d2"
    "GetTimeMs (be_Now (b_Env d2)) = of_nat T" "mission_talk os2 = []" "readbacks os2 = []"
    "MAVLINK_BRIDGE_APP_ServiceSerial d = prepend os2 (steps (map (take_frame (of_nat T)) fs) d2)"
proof -
  have f: "free d" "GetTimeMs (be_Now (b_Env d)) = of_nat T" using e by (simp_all add: talk_env_def free_def)
  obtain d1 os1 where v: "mission_view d1 = mission_view d" and o: "mission_talk os1 = []" "readbacks os1 = []"
    and s: "MAVLINK_BRIDGE_APP_ServiceSerial d = prepend os1 (steps [CheckMissionUploadTimeout (of_nat T),
      CheckMissionDownloadTimeout (of_nat T), retry_readback (of_nat T), read_port (of_nat T)] d1)"
    using serve_aside[OF d(1) f(1) d(3), unfolded f(2)] by metis
  have v1: "b_Parser d1 = parser_zero" "b_Env d1 = b_Env d" using v d(2) by (simp_all add: mission_view_def)
  have "talk_env T (frames_stream fs) (b_Env d1)" using e v1(2) by simp
  from read_frames[OF _ _ v1(1) this fs] view_free[OF v] view_busy[OF v] f(1) d(3)
  obtain d2 os2 where 2: "mission_view d2 = mission_view (after_reading d1)" "mission_talk os2 = []" "readbacks os2 = []"
    "read_port (of_nat T) d1 = prepend os2 (steps (map (take_frame (of_nat T)) fs) d2)"
    by metis
  have w: "mission_view d2 = mission_view (after_reading d)"
    using 2(1) v by (simp add: after_reading_def mission_view_def)
  have "free d2" "GetTimeMs (be_Now (b_Env d2)) = of_nat T"
    using w f by (simp_all add: mission_view_def after_reading_def free_def)
  moreover have "MAVLINK_BRIDGE_APP_ServiceSerial d = prepend (os1 @ os2) (steps (map (take_frame (of_nat T)) fs) d2)"
    using s c[OF v] 2(4) by (simp add: prepend_def)
  ultimately show thesis using w o 2(2,3) by (intro that[of d2 "os1 @ os2"]) simp_all
qed

section \<open>The turns of an upload\<close>

lemma turn_timeout: "bridge_turn (Bridge_Timeout, e) d = MAVLINK_BRIDGE_APP_ServiceSerial (d\<lparr> b_Env := e \<rparr>)"
  by (simp add: bridge_turn_def Let_def)

lemma under_way_env [simp]: "under_way s ws D (d\<lparr> b_Env := e \<rparr>) = under_way s ws D d"
  by (simp add: under_way_def)

lemma under_way_reading [simp]: "under_way s ws D (after_reading d) = under_way s ws D d"
  by (simp add: after_reading_def)

lemma checks_idle:
  assumes "under_way s ws D d" "s \<noteq> UPLOAD_IDLE" "\<not> reached t (of_nat D)"
  shows "steps [CheckMissionUploadTimeout t, CheckMissionDownloadTimeout t, retry_readback t, read_port t] d = read_port t d"
  using assms
  by (cases s) (simp_all add: under_way_def CheckMissionUploadTimeout_def CheckMissionDownloadTimeout_def
      retry_readback_def prepend_def)

lemma serve_upload:
  assumes d: "under_way s ws D d" "s \<noteq> UPLOAD_IDLE" and e: "talk_env T (frames_stream fs) (b_Env d)"
    and fs: "list_all rx_fits fs" and D: "T < D" "D \<le> T + 2000"
  obtains d2 os2 where "under_way s ws D d2" "free d2" "GetTimeMs (be_Now (b_Env d2)) = of_nat T"
    "mission_talk os2 = []" "readbacks os2 = []"
    "MAVLINK_BRIDGE_APP_ServiceSerial d = prepend os2 (steps (map (take_frame (of_nat T)) fs) d2)"
proof -
  have r: "\<not> reached (of_nat T) (of_nat D)" using reached_of_nat[of T D] D by simp
  have p: "b_PortOpen d" "b_Parser d = parser_zero" using d by (simp_all add: under_way_def)
  show thesis
  proof (rule serve_frames[OF p under_way_busy[OF d] e fs])
    show "steps [CheckMissionUploadTimeout (of_nat T), CheckMissionDownloadTimeout (of_nat T), retry_readback (of_nat T),
      read_port (of_nat T)] d1 = read_port (of_nat T) d1" if "mission_view d1 = mission_view d" for d1
      using under_way_view[OF that] d r by (intro checks_idle) simp_all
  next
    fix d2 os2
    assume "mission_view d2 = mission_view (after_reading d)" "free d2" "GetTimeMs (be_Now (b_Env d2)) = of_nat T"
      "mission_talk os2 = []" "readbacks os2 = []"
      "MAVLINK_BRIDGE_APP_ServiceSerial d = prepend os2 (steps (map (take_frame (of_nat T)) fs) d2)"
    then show thesis using under_way_view[of d2 "after_reading d"] d(1) by (intro that[of d2 os2]) simp_all
  qed
qed

lemma request_turn:
  assumes d: "under_way UPLOAD_ACTIVE ws D d" and e: "talk_env T (frames_stream fs) (b_Env d)"
    and fs: "list_all rx_fits fs" "list_all (item_request (length ws)) (substance fs)" and D: "T < D" "D \<le> T + 2000"
  shows "under_way UPLOAD_ACTIVE ws (if substance fs = [] then D else T + 2000) (fst (MAVLINK_BRIDGE_APP_ServiceSerial d)) \<and>
    mission_talk (snd (MAVLINK_BRIDGE_APP_ServiceSerial d)) =
      map (\<lambda>f. Item (requested f) (ws ! requested f)) (substance fs) \<and>
    readbacks (snd (MAVLINK_BRIDGE_APP_ServiceSerial d)) = []"
proof -
  obtain d2 os2 where d2: "under_way UPLOAD_ACTIVE ws D d2" "free d2" "mission_talk os2 = []" "readbacks os2 = []"
    and s: "MAVLINK_BRIDGE_APP_ServiceSerial d = prepend os2 (steps (map (take_frame (of_nat T)) fs) d2)"
    using serve_upload[OF d _ e fs(1) D] by blast
  from take_requests[OF d2(1,2) fs, of T] show ?thesis using d2(3,4) by (simp add: s)
qed

lemma send_message:
  assumes "b_PortOpen d" "free d" "length pl \<le> 52" "m \<le> 255" "mission_message m pl = Some (x, msg)"
  shows "mission_view (fst (send_mavlink m pl x d)) = mission_view d"
    and "mission_talk (snd (send_mavlink m pl x d)) = [msg]" "readbacks (snd (send_mavlink m pl x d)) = []"
  using assms SendMavlinkV2_free[OF assms(1) _ assms(3)] frame_out_talk[OF assms(3,4)]
  by (simp_all add: send_mavlink_def free_def mission_view_def)

lemma senders_talk:
  assumes "b_PortOpen d" "free d"
  shows "mission_view (fst (SendMissionClearAll d)) = mission_view d"
      "mission_talk (snd (SendMissionClearAll d)) = [Clear_All]" "readbacks (snd (SendMissionClearAll d)) = []"
    and "mission_view (fst (SendMissionCount n d)) = mission_view d"
      "mission_talk (snd (SendMissionCount n d)) = [Count (unat n)]" "readbacks (snd (SendMissionCount n d)) = []"
    and "mission_view (fst (SendMissionRequestList d)) = mission_view d"
      "mission_talk (snd (SendMissionRequestList d)) = [Request_List]" "readbacks (snd (SendMissionRequestList d)) = []"
    and "mission_view (fst (SendMissionRequestIntDownload n d)) = mission_view d"
      "mission_talk (snd (SendMissionRequestIntDownload n d)) = [Request_Item (unat n)]"
      "readbacks (snd (SendMissionRequestIntDownload n d)) = []"
    and "mission_view (fst (SendMissionAckAccepted d)) = mission_view d"
      "mission_talk (snd (SendMissionAckAccepted d)) = [Mission_Accepted]" "readbacks (snd (SendMissionAckAccepted d)) = []"
  unfolding SendMissionClearAll_def SendMissionCount_def SendMissionRequestList_def
    SendMissionRequestIntDownload_def SendMissionAckAccepted_def
  by (rule send_message[OF assms]; simp add: mission_message_def target_def unat_ucast_8_16)+

text \<open>Before the number of items is announced an acknowledgement is not the mission's.\<close>

definition mission_ack :: "mav_rx \<Rightarrow> bool" where
  "mission_ack f \<longleftrightarrow> mr_MsgId f = MSG_ID_MISSION_ACK"

lemma take_early_ack:
  assumes "mission_ack f" "under_way UPLOAD_CLEARING ws D d" "free d"
  shows "mission_view (fst (take_frame t f d)) = mission_view d \<and> mission_talk (snd (take_frame t f d)) = [] \<and>
    readbacks (snd (take_frame t f d)) = []"
proof -
  let ?d = "d\<lparr> b_Parser := rx_context f \<rparr>"
  let ?a = "guarded_frame (rx_context f) (mr_Crc f) MISSION_ACK_CRC_EXTRA 2 (mission_ack_frame (rx_context f) t) ?d"
  have "frame_action (rx_context f) (mr_Crc f) t ?d = ?a"
    using assms(1) by (simp add: frame_action_def Let_def rx_context_fields(1) mission_ack_def)
  moreover have "?a = (?d, []) \<or> ?a = parse_failed ?d"
    using assms(2) by (simp add: guarded_frame_def mission_ack_frame_def under_way_def Let_def)
  moreover have "set_aside ?d (fst (parse_failed ?d)) (snd (parse_failed ?d))"
    by (rule aside.stepD[OF errors_aside(3)])
  moreover have "free ?d" "busy ?d" using assms(2,3) by (simp_all add: under_way_def free_def busy_def)
  ultimately show ?thesis
    using assms(2) by (auto simp: take_frame_def update_def ResetParser_def set_aside_def mission_view_def under_way_def)
qed

lemma take_waiting:
  assumes "under_way UPLOAD_CLEARING ws D d" "free d" "list_all rx_fits fs" "list_all mission_ack (substance fs)"
  shows "under_way UPLOAD_CLEARING ws D (fst (steps (map (take_frame t) fs) d)) \<and>
    mission_talk (snd (steps (map (take_frame t) fs) d)) = [] \<and> readbacks (snd (steps (map (take_frame t) fs) d)) = []"
  using assms
proof (induction fs arbitrary: d)
  case (Cons f fs)
  have "b_Parser d = parser_zero" using Cons.prems(1) by (simp add: under_way_def)
  then have v: "mission_view (fst (take_frame t f d)) = mission_view d" "mission_talk (snd (take_frame t f d)) = []"
    "readbacks (snd (take_frame t f d)) = []"
    using take_chatter[of f d t] take_early_ack[of f ws D d t] Cons.prems under_way_busy[OF Cons.prems(1)]
    by (cases "chatter f"; simp add: set_aside_def)+
  show ?case
    using Cons.IH[of "fst (take_frame t f d)"] Cons.prems v view_free[OF v(1)] under_way_view[OF v(1)]
    by (simp split: if_splits)
qed simp

lemma waiting_turn:
  assumes d: "under_way UPLOAD_CLEARING ws D d" and e: "talk_env T (frames_stream fs) (b_Env d)"
    and fs: "list_all rx_fits fs" "list_all mission_ack (substance fs)" and D: "T < D" "D \<le> T + 2000"
  shows "under_way UPLOAD_CLEARING ws D (fst (MAVLINK_BRIDGE_APP_ServiceSerial d)) \<and>
    mission_talk (snd (MAVLINK_BRIDGE_APP_ServiceSerial d)) = [] \<and>
    readbacks (snd (MAVLINK_BRIDGE_APP_ServiceSerial d)) = []"
proof -
  obtain d2 os2 where d2: "under_way UPLOAD_CLEARING ws D d2" "free d2" "mission_talk os2 = []" "readbacks os2 = []"
    and s: "MAVLINK_BRIDGE_APP_ServiceSerial d = prepend os2 (steps (map (take_frame (of_nat T)) fs) d2)"
    using serve_upload[OF d _ e fs(1) D] by blast
  from take_waiting[OF d2(1,2) fs, of "of_nat T"] show ?thesis using d2(3,4) by (simp add: s)
qed

text \<open>After the delay the number of items is announced.\<close>

lemma clearing_turn:
  assumes d: "under_way UPLOAD_CLEARING ws D d" and e: "talk_env T (frames_stream fs) (b_Env d)"
    and fs: "list_all rx_fits fs" "list_all (item_request (length ws)) (substance fs)" and D: "D \<le> T" "T < D + 2 ^ 31"
  shows "under_way UPLOAD_ACTIVE ws (T + 2000) (fst (MAVLINK_BRIDGE_APP_ServiceSerial d)) \<and>
    mission_talk (snd (MAVLINK_BRIDGE_APP_ServiceSerial d)) =
      Count (length ws) # map (\<lambda>f. Item (requested f) (ws ! requested f)) (substance fs) \<and>
    readbacks (snd (MAVLINK_BRIDGE_APP_ServiceSerial d)) = []"
proof -
  let ?t = "of_nat T :: u32"
  have f: "free d" "GetTimeMs (be_Now (b_Env d)) = ?t" using e by (simp_all add: talk_env_def free_def)
  have p: "b_PortOpen d" using d by (simp add: under_way_def)
  have b: "busy d" by (rule under_way_busy[OF d]) simp
  obtain d1 os1 where v1: "mission_view d1 = mission_view d" and o: "mission_talk os1 = []" "readbacks os1 = []"
    and s: "MAVLINK_BRIDGE_APP_ServiceSerial d = prepend os1 (steps [CheckMissionUploadTimeout ?t,
      CheckMissionDownloadTimeout ?t, retry_readback ?t, read_port ?t] d1)"
    using serve_aside[OF p f(1) b, unfolded f(2)] by metis
  have d1: "under_way UPLOAD_CLEARING ws D d1" "free d1" "b_Env d1 = b_Env d"
    using under_way_view[OF v1] view_free[OF v1] v1 d f by (simp_all add: mission_view_def)
  let ?d2 = "d1\<lparr> b_MissionUploadState := UPLOAD_ACTIVE, b_MissionUploadTimeoutMs := ?t + 2000 \<rparr>"
  let ?r = "SendMissionCount (b_MissionUploadWpCount d1) ?d2"
  have c: "CheckMissionUploadTimeout ?t d1 = ?r"
    using d1(1) reached_of_nat[of T D] D by (simp add: under_way_def CheckMissionUploadTimeout_def)
  have u2: "under_way UPLOAD_ACTIVE ws (T + 2000) ?d2" and f2: "free ?d2"
    using d1 by (simp_all add: under_way_def free_def)
  have v: "mission_view (fst ?r) = mission_view ?d2" "mission_talk (snd ?r) = [Count (length ws)]" "readbacks (snd ?r) = []"
    using senders_talk(4-6)[of ?d2 "b_MissionUploadWpCount d1"] f2 u2 by (simp_all add: under_way_def)
  have u3: "under_way UPLOAD_ACTIVE ws (T + 2000) (fst ?r)" "free (fst ?r)" "talk_env T (frames_stream fs) (b_Env (fst ?r))"
    using u2 f2 under_way_view[OF v(1)] view_free[OF v(1)] v(1) d1(3) e by (simp_all add: mission_view_def)
  have b3: "busy (fst ?r)" "b_Parser (fst ?r) = parser_zero" using u3(1) by (simp_all add: under_way_def busy_def)
  obtain d4 os4 where 4: "mission_view d4 = mission_view (after_reading (fst ?r))" "mission_talk os4 = []" "readbacks os4 = []"
    "read_port ?t (fst ?r) = prepend os4 (steps (map (take_frame ?t) fs) d4)"
    by (rule read_frames[OF u3(2) b3 u3(3) fs(1)])
  have u4: "under_way UPLOAD_ACTIVE ws (T + 2000) d4" "free d4"
    using under_way_view[OF 4(1)] view_free[OF 4(1)] u3 by (simp_all add: after_reading_def free_def)
  have "MAVLINK_BRIDGE_APP_ServiceSerial d = prepend (os1 @ snd ?r) (read_port ?t (fst ?r))"
    using u3(1) unfolding s
    by (simp add: c CheckMissionDownloadTimeout_def retry_readback_def under_way_def) (simp add: prepend_def)
  then show ?thesis
    using take_requests[OF u4 fs, of T] 4(2-4) o v(2,3) by simp
qed

text \<open>A route command starts with the removal of the old mission.\<close>

lemma route_edit_accepts:
  assumes "bridge_ok d" "edit_mission m (active_mission d) = Some ws"
    and "ru_RouteType m = ROUTE_OP_DELETE \<longrightarrow> ru_WaypointCount m \<noteq> b_ActiveResumeIndex d"
  obtains t n pend resume where "route_edit m d = Some (t, n, pend, resume)" "length pend = ROUTE_MAX_WAYPOINTS"
    "unat n = length ws" "take (length ws) pend = ws"
proof (cases "route_edit m d")
  case None
  have l: "length (active_mission d) = unat (b_ActiveWaypointCount d)"
    using assms(1) by (simp add: active_mission_def bridge_ok_def)
  show thesis
    using None assms(2,3)
    by (auto simp: route_edit_def edit_mission_def Let_def l word_le_nat_alt split: if_splits)
next
  case (Some r)
  obtain t n pend resume where "r = (t, n, pend, resume)" by (cases r)
  with Some have r: "route_edit m d = Some (t, n, pend, resume)" by simp
  from route_edit_mission[OF assms(1) r] assms(2)
  have p: "length pend = ROUTE_MAX_WAYPOINTS" "take (unat n) pend = ws" "unat n \<le> length pend" by simp_all
  then have "unat n = length ws" by (metis length_take min.absorb2)
  with p show thesis by (intro that[OF r]) simp_all
qed

lemma start_turn:
  assumes d: "b_RunStatus d = APP_RUN" "b_PortOpen d" "b_Parser d = parser_zero" "b_LinkState d = BRIDGE_CONNECTED"
      "b_MissionDownloadState d = DOWNLOAD_IDLE" "bridge_ok d"
    and m: "edit_mission m (active_mission d) = Some ws"
      "ru_RouteType m = ROUTE_OP_DELETE \<longrightarrow> ru_WaypointCount m \<noteq> b_ActiveResumeIndex d"
    and e: "talk_env T (frames_stream fs) (b_Env d)"
    and fs: "list_all rx_fits fs" "list_all mission_ack (substance fs)"
  shows "under_way UPLOAD_CLEARING ws (T + 300)
      (fst (steps [MAVLINK_BRIDGE_APP_TaskPipe (RouteUpdate m), MAVLINK_BRIDGE_APP_ServiceSerial] d)) \<and>
    mission_talk (snd (steps [MAVLINK_BRIDGE_APP_TaskPipe (RouteUpdate m), MAVLINK_BRIDGE_APP_ServiceSerial] d)) = [Clear_All] \<and>
    readbacks (snd (steps [MAVLINK_BRIDGE_APP_TaskPipe (RouteUpdate m), MAVLINK_BRIDGE_APP_ServiceSerial] d)) = []"
proof -
  let ?t = "of_nat T :: u32"
  have f: "free d" "GetTimeMs (be_Now (b_Env d)) = ?t" using e by (simp_all add: talk_env_def free_def)
  obtain t n pend resume where r: "route_edit m d = Some (t, n, pend, resume)" "length pend = ROUTE_MAX_WAYPOINTS"
    "unat n = length ws" "take (length ws) pend = ws"
    by (rule route_edit_accepts[OF d(6) m])
  let ?d = "d\<lparr> b_MissionPending := pend, b_ActiveResumeIndex := resume, b_MissionUploadWpCount := n,
    b_MissionUploadState := UPLOAD_CLEARING, b_MissionUploadRetry := 0, b_MissionUploadTimeoutMs := ?t + 300 \<rparr>"
  have f': "free ?d" using f by (simp add: free_def)
  have start: "fst (MAVLINK_BRIDGE_APP_StartMissionUpload m d) = fst (SendMissionClearAll ?d)"
      "mission_talk (snd (MAVLINK_BRIDGE_APP_StartMissionUpload m d)) = mission_talk (snd (SendMissionClearAll ?d))"
      "readbacks (snd (MAVLINK_BRIDGE_APP_StartMissionUpload m d)) = readbacks (snd (SendMissionClearAll ?d))"
    using d f by (simp_all add: MAVLINK_BRIDGE_APP_StartMissionUpload_def r with_clock_def read_clock_def free_def prepend_def Let_def)
  let ?x = "fst (MAVLINK_BRIDGE_APP_StartMissionUpload m d)"
  note s = senders_talk(1-3)[of ?d, OF _ f', folded start]
  have v: "mission_view ?x = mission_view ?d" "mission_talk (snd (MAVLINK_BRIDGE_APP_StartMissionUpload m d)) = [Clear_All]"
    "readbacks (snd (MAVLINK_BRIDGE_APP_StartMissionUpload m d)) = []"
    using s d(2) by simp_all
  have "under_way UPLOAD_CLEARING ws (T + 300) ?d"
    using d r by (simp add: under_way_def bridge_ok_def)
  then have u: "under_way UPLOAD_CLEARING ws (T + 300) ?x" using under_way_view[OF v(1)] by simp
  have x: "b_Env ?x = b_Env d" using v(1) by (simp add: mission_view_def)
  have "talk_env T (frames_stream fs) (b_Env ?x)" using e x by simp
  from waiting_turn[OF u this fs] show ?thesis using v(2,3) by (simp add: MAVLINK_BRIDGE_APP_TaskPipe_def)
qed

section \<open>The end of an upload\<close>

definition mission_accepted :: "mav_rx \<Rightarrow> bool" where
  "mission_accepted f \<longleftrightarrow> rx_fits f \<and> rx_intact f \<and> mr_MsgId f = MSG_ID_MISSION_ACK \<and>
     2 \<le> length (mr_Payload f) \<and> (3 \<le> length (mr_Payload f) \<longrightarrow> byte_at (mr_Payload f) 2 = MISSION_ACCEPTED)"

text \<open>A read-back that waits for the number of items.\<close>

definition count_awaited :: "nat \<Rightarrow> MAVLINK_BRIDGE_APP_Data \<Rightarrow> bool" where
  "count_awaited D d \<longleftrightarrow> b_PortOpen d \<and> b_RunStatus d = APP_RUN \<and> b_Parser d = parser_zero \<and>
     b_MissionUploadState d = UPLOAD_IDLE \<and> b_MissionDownloadState d = DOWNLOAD_WAIT_COUNT \<and>
     b_MissionDownloadTimeoutMs d = of_nat D \<and> length (b_MissionDownloadWaypoints d) = ROUTE_MAX_WAYPOINTS \<and>
     length (b_FcMissionReadbackWaypoints d) = ROUTE_MAX_WAYPOINTS"

lemma count_awaited_view: "mission_view d' = mission_view d \<Longrightarrow> count_awaited D d' = count_awaited D d"
  by (simp add: mission_view_def count_awaited_def)

definition in_force :: "ROUTE_WAYPOINT list \<Rightarrow> MAVLINK_BRIDGE_APP_Data \<Rightarrow> bool" where
  "in_force ws d \<longleftrightarrow> active_mission d = ws \<and> b_LastUploadResult d = UPLOAD_RESULT_SUCCESS"

lemma in_force_view: "mission_view d' = mission_view d \<Longrightarrow> in_force ws d' = in_force ws d"
  by (simp add: mission_view_def in_force_def active_mission_def)

lemma StartFcMissionReadback_talk:
  assumes "b_PortOpen d" "free d"
  shows "mission_view (fst (StartFcMissionReadback d)) = mission_view (begin_download (GetTimeMs (be_Now (b_Env d))) d)"
    and "mission_talk (snd (StartFcMissionReadback d)) = [Request_List]" "readbacks (snd (StartFcMissionReadback d)) = []"
proof -
  let ?d = "(begin_download (GetTimeMs (be_Now (b_Env d))) d)\<lparr> b_MissionReadbackPending := 0 \<rparr>"
  have f: "b_PortOpen ?d" "free ?d" using assms by (simp_all add: begin_download_def free_def)
  note s = senders_talk(7-9)[OF f]
  have "StartFcMissionReadback d = prepend [] (prepend [] (prepend (snd (SendMissionRequestList ?d))
      (prepend [Event BR_MISSION_READBACK_EID INFORMATION] (fst (SendMissionRequestList ?d), []))))"
    using assms(2) by (simp add: StartFcMissionReadback_def with_clock_def read_clock_free update_def emit_def)
  then show "mission_view (fst (StartFcMissionReadback d)) = mission_view (begin_download (GetTimeMs (be_Now (b_Env d))) d)"
    "mission_talk (snd (StartFcMissionReadback d)) = [Request_List]" "readbacks (snd (StartFcMissionReadback d)) = []"
    using s by (simp_all add: mission_view_def)
qed

lemma take_accept:
  assumes d: "under_way UPLOAD_ACTIVE ws D d" "free d" "GetTimeMs (be_Now (b_Env d)) = of_nat T"
    and f: "mission_accepted f"
  shows "count_awaited (T + 3000) (fst (take_frame (of_nat T) f d)) \<and> in_force ws (fst (take_frame (of_nat T) f d)) \<and>
    mission_talk (snd (take_frame (of_nat T) f d)) = [Request_List] \<and>
    readbacks (snd (take_frame (of_nat T) f d)) = [] \<and> free (fst (take_frame (of_nat T) f d))"
proof -
  let ?n = "b_MissionUploadWpCount d"
  let ?a = "copy_waypoints (wp_nth (b_MissionPending d)) (unat ?n) (b_ActiveWaypoint d)"
  let ?d = "d\<lparr> b_Parser := rx_context f, b_MissionUploadState := UPLOAD_IDLE,
    b_MissionUploadSuccessCount := b_MissionUploadSuccessCount d + 1, b_LastUploadResult := UPLOAD_RESULT_SUCCESS,
    b_LastUploadTimestampMs := of_nat T, b_LastUploadWaypointCount := ?n, b_ActiveWaypointCount := ?n,
    b_ActiveWaypoint := ?a \<rparr>"
  have fr: "b_PortOpen ?d" "free ?d" "GetTimeMs (be_Now (b_Env ?d)) = of_nat T"
    using d by (simp_all add: under_way_def free_def)
  have n: "unat (p_PayloadLen (rx_context f)) = length (mr_Payload f)"
    using f by (simp add: mission_accepted_def rx_context_def rx_fits_def unat_len)
  have act: "frame_action (rx_context f) (mr_Crc f) (of_nat T) (d\<lparr> b_Parser := rx_context f \<rparr>) =
      prepend [Event BR_MISSION_UPLOAD_INF_EID INFORMATION] (StartFcMissionReadback ?d)"
    using f d(1)
    by (simp add: frame_action_def Let_def rx_context_fields mission_accepted_def guarded_intact crc_extra_def
        mission_ack_frame_def n under_way_def)
  note s = StartFcMissionReadback_talk[OF fr(1,2), unfolded fr(3)]
  have l: "unat ?n \<le> 37" using d(1) under_way_le[OF d(1)] by (simp add: under_way_def)
  then have a: "take (unat ?n) ?a = ws"
    using d(1) by (simp add: under_way_def map_wp_nth)
  have v: "mission_view (fst (StartFcMissionReadback ?d)) = mission_view (begin_download (of_nat T) ?d)" by (rule s(1))
  have b: "b_Parser (begin_download (of_nat T) ?d) = rx_context f" by (simp add: begin_download_def)
  have c: "count_awaited (T + 3000) (ResetParser (fst (StartFcMissionReadback ?d)))"
    "in_force ws (ResetParser (fst (StartFcMissionReadback ?d)))" "free (ResetParser (fst (StartFcMissionReadback ?d)))"
    using v d(1,2) a
    by (simp_all add: mission_view_def count_awaited_def in_force_def active_mission_def ResetParser_def
        begin_download_def under_way_def free_def)
  have "take_frame (of_nat T) f d = prepend [] (prepend (Event BR_MISSION_UPLOAD_INF_EID INFORMATION #
      snd (StartFcMissionReadback ?d)) (ResetParser (fst (StartFcMissionReadback ?d)), []))"
    by (simp add: take_frame_def update_def act) (simp add: prepend_def)
  then show ?thesis using c s(2,3) by simp
qed

lemma accept_turn:
  assumes d: "under_way UPLOAD_ACTIVE ws D d" and e: "talk_env T (frames_stream fs) (b_Env d)"
    and fs: "list_all rx_fits fs" "substance fs = [f]" and f: "mission_accepted f" and D: "T < D" "D \<le> T + 2000"
  shows "count_awaited (T + 3000) (fst (MAVLINK_BRIDGE_APP_ServiceSerial d)) \<and>
    in_force ws (fst (MAVLINK_BRIDGE_APP_ServiceSerial d)) \<and>
    mission_talk (snd (MAVLINK_BRIDGE_APP_ServiceSerial d)) = [Request_List] \<and>
    readbacks (snd (MAVLINK_BRIDGE_APP_ServiceSerial d)) = []"
proof -
  obtain d2 os2 where d2: "under_way UPLOAD_ACTIVE ws D d2" "free d2" "GetTimeMs (be_Now (b_Env d2)) = of_nat T"
    and o: "mission_talk os2 = []" "readbacks os2 = []"
    and s: "MAVLINK_BRIDGE_APP_ServiceSerial d = prepend os2 (steps (map (take_frame (of_nat T)) fs) d2)"
    using serve_upload[OF d _ e fs(1) D] by blast
  have p: "b_Parser d2 = parser_zero" using d2(1) by (simp add: under_way_def)
  have b: "busy d2" by (rule under_way_busy[OF d2(1)]) simp
  obtain d1 where v: "mission_view d1 = mission_view d2"
    and w: "b_Parser (fst (take_frame (of_nat T) f d1)) = parser_zero \<Longrightarrow> free (fst (take_frame (of_nat T) f d1)) \<Longrightarrow>
      busy (fst (take_frame (of_nat T) f d1)) \<Longrightarrow>
      mission_view (fst (steps (map (take_frame (of_nat T)) fs) d2)) = mission_view (fst (take_frame (of_nat T) f d1)) \<and>
      mission_talk (snd (steps (map (take_frame (of_nat T)) fs) d2)) = mission_talk (snd (take_frame (of_nat T) f d1)) \<and>
      readbacks (snd (steps (map (take_frame (of_nat T)) fs) d2)) = readbacks (snd (take_frame (of_nat T) f d1))"
    using take_single[OF fs(2,1) p d2(2) b] by metis
  have d1: "under_way UPLOAD_ACTIVE ws D d1" "free d1" "GetTimeMs (be_Now (b_Env d1)) = of_nat T"
    using under_way_view[OF v] view_free[OF v] v d2 by (simp_all add: mission_view_def)
  note t = take_accept[OF d1 f]
  have "b_Parser (fst (take_frame (of_nat T) f d1)) = parser_zero" "busy (fst (take_frame (of_nat T) f d1))"
    using t by (simp_all add: count_awaited_def busy_def)
  then have w: "mission_view (fst (steps (map (take_frame (of_nat T)) fs) d2)) = mission_view (fst (take_frame (of_nat T) f d1))"
      "mission_talk (snd (steps (map (take_frame (of_nat T)) fs) d2)) = mission_talk (snd (take_frame (of_nat T) f d1))"
      "readbacks (snd (steps (map (take_frame (of_nat T)) fs) d2)) = readbacks (snd (take_frame (of_nat T) f d1))"
    using w t by simp_all
  show ?thesis using t w(2,3) o count_awaited_view[OF w(1)] in_force_view[OF w(1)] by (simp add: s)
qed

section \<open>The dialogue\<close>

lemma loop_timeout:
  "b_RunStatus d = APP_RUN \<Longrightarrow> bridge_loop ((Bridge_Timeout, e) # ins) d =
    prepend (snd (MAVLINK_BRIDGE_APP_ServiceSerial (d\<lparr> b_Env := e \<rparr>)))
      (bridge_loop ins (fst (MAVLINK_BRIDGE_APP_ServiceSerial (d\<lparr> b_Env := e \<rparr>))))"
  by (simp add: turn_timeout Let_def case_prod_unfold)

lemma bridge_loop_append:
  "b_RunStatus (fst (bridge_loop xs d)) = APP_RUN \<Longrightarrow> bridge_loop (xs @ ys) d =
    prepend (snd (bridge_loop xs d)) (bridge_loop ys (fst (bridge_loop xs d)))"
proof (induction xs arbitrary: d)
  case (Cons x xs)
  then show ?case by (cases "b_RunStatus d = APP_RUN") (simp_all add: Let_def case_prod_unfold, simp add: prepend_def)
qed (simp add: prepend_def)

text \<open>Turns of the loop, each with its time and the frames that arrive in it; those that matter are
  of one kind, and come in time after the last of them.\<close>

type_synonym talk_turns = "(nat \<times> mav_rx list \<times> bridge_env) list"

definition hears :: "(mav_rx \<Rightarrow> bool) \<Rightarrow> nat \<times> mav_rx list \<times> bridge_env \<Rightarrow> bool" where
  "hears P = (\<lambda>(T, fs, e). talk_env T (frames_stream fs) e \<and> list_all rx_fits fs \<and> list_all P (substance fs))"

fun in_time :: "nat \<Rightarrow> nat \<Rightarrow> talk_turns \<Rightarrow> bool" where
  "in_time w T [] \<longleftrightarrow> True"
| "in_time w T ((T', fs, e) # rs) \<longleftrightarrow>
     T \<le> T' \<and> T' < T + w \<and> in_time w (if substance fs = [] then T else T') rs"

definition timeouts :: "talk_turns \<Rightarrow> (bridge_input \<times> bridge_env) list" where
  "timeouts rs = map (\<lambda>(T, fs, e). (Bridge_Timeout, e)) rs"

definition told :: "talk_turns \<Rightarrow> mav_rx list" where
  "told rs = concat (map (\<lambda>(T, fs, e). substance fs) rs)"

lemma turns_simps [simp]:
  "timeouts [] = []" "timeouts ((T, fs, e) # rs) = (Bridge_Timeout, e) # timeouts rs" "timeouts (rs @ ts) = timeouts rs @ timeouts ts"
  "told [] = []" "told ((T, fs, e) # rs) = substance fs @ told rs"
  by (simp_all add: timeouts_def told_def)

definition answers :: "ROUTE_WAYPOINT list \<Rightarrow> talk_turns \<Rightarrow> mission_message list" where
  "answers ws rs = map (\<lambda>f. Item (requested f) (ws ! requested f)) (told rs)"

lemma items_run:
  assumes "under_way UPLOAD_ACTIVE ws (T + 2000) d" "list_all (hears (item_request (length ws))) rs"
    and "hears mission_accepted (Tn, fn, en)" "length (substance fn) = 1" "in_time 2000 T (rs @ [(Tn, fn, en)])"
  shows "mission_talk (snd (bridge_loop (timeouts (rs @ [(Tn, fn, en)])) d)) = answers ws rs @ [Request_List] \<and>
    readbacks (snd (bridge_loop (timeouts (rs @ [(Tn, fn, en)])) d)) = [] \<and>
    in_force ws (fst (bridge_loop (timeouts (rs @ [(Tn, fn, en)])) d)) \<and>
    count_awaited (Tn + 3000) (fst (bridge_loop (timeouts (rs @ [(Tn, fn, en)])) d))"
  using assms
proof (induction rs arbitrary: d T)
  case Nil
  obtain f where f: "substance fn = [f]" using Nil(4) by (auto simp: length_Suc_conv)
  have "b_RunStatus d = APP_RUN" using Nil(1) by (simp add: under_way_def)
  then show ?case
    using accept_turn[of ws "T + 2000" "d\<lparr> b_Env := en \<rparr>" Tn fn f] Nil f
    by (simp add: answers_def hears_def loop_timeout del: bridge_loop.simps(2))
next
  case (Cons r rs)
  obtain T' fs e where r: "r = (T', fs, e)" by (cases r)
  have t: "list_all rx_fits fs" "list_all (item_request (length ws)) (substance fs)" "talk_env T' (frames_stream fs) e"
    using Cons.prems(2) by (simp_all add: r hears_def)
  have T: "T' < T + 2000" "T + 2000 \<le> T' + 2000" "in_time 2000 (if substance fs = [] then T else T') (rs @ [(Tn, fn, en)])"
    using Cons.prems(5) by (simp_all add: r)
  have d: "under_way UPLOAD_ACTIVE ws (T + 2000) (d\<lparr> b_Env := e \<rparr>)" using Cons.prems(1) by simp
  have e: "talk_env T' (frames_stream fs) (b_Env (d\<lparr> b_Env := e \<rparr>))" using t(3) by simp
  note q = request_turn[OF d e t(1,2) T(1,2)]
  have u: "under_way UPLOAD_ACTIVE ws ((if substance fs = [] then T else T') + 2000)
      (fst (MAVLINK_BRIDGE_APP_ServiceSerial (d\<lparr> b_Env := e \<rparr>)))"
    using q by (simp split: if_splits)
  have "b_RunStatus d = APP_RUN" using Cons.prems(1) by (simp add: under_way_def)
  then show ?case
    using Cons.IH[OF u _ Cons.prems(3,4) T(3)] q Cons.prems(2)
    by (simp add: answers_def r loop_timeout del: bridge_loop.simps(2))
qed

text \<open>The turns of the delay after the removal of the old mission.\<close>

lemma waiting_run:
  assumes "under_way UPLOAD_CLEARING ws D d" "list_all (hears mission_ack) cs"
    and "list_all (\<lambda>(T, fs, e). T < D \<and> D \<le> T + 300) cs"
  shows "under_way UPLOAD_CLEARING ws D (fst (bridge_loop (timeouts cs) d)) \<and>
    mission_talk (snd (bridge_loop (timeouts cs) d)) = [] \<and> readbacks (snd (bridge_loop (timeouts cs) d)) = []"
  using assms
proof (induction cs arbitrary: d)
  case (Cons c cs)
  obtain T fs e where c: "c = (T, fs, e)" by (cases c)
  have "b_RunStatus d = APP_RUN" using Cons.prems(1) by (simp add: under_way_def)
  moreover have "under_way UPLOAD_CLEARING ws D (fst (MAVLINK_BRIDGE_APP_ServiceSerial (d\<lparr> b_Env := e \<rparr>))) \<and>
    mission_talk (snd (MAVLINK_BRIDGE_APP_ServiceSerial (d\<lparr> b_Env := e \<rparr>))) = [] \<and>
    readbacks (snd (MAVLINK_BRIDGE_APP_ServiceSerial (d\<lparr> b_Env := e \<rparr>))) = []"
    using Cons.prems by (intro waiting_turn[of ws D _ T fs]) (simp_all add: c hears_def)
  ultimately show ?case
    using Cons.IH[of "fst (MAVLINK_BRIDGE_APP_ServiceSerial (d\<lparr> b_Env := e \<rparr>))"] Cons.prems
    by (simp add: c loop_timeout del: bridge_loop.simps(2))
qed simp

text \<open>The command, the turns of the delay, those of the requests and that of the acceptance.\<close>

definition upload_dialogue where
  "upload_dialogue m e0 cs rs a = (Bridge_Msg (RouteUpdate m), e0) # timeouts cs @ timeouts (rs @ [a])"

text \<open>The whole upload: what is said, that no mission is reported meanwhile, and the state it leaves.\<close>

lemma upload_run:
  assumes "b_RunStatus d = APP_RUN" "b_PortOpen d" "b_Parser d = parser_zero" "b_LinkState d = BRIDGE_CONNECTED"
      "b_MissionDownloadState d = DOWNLOAD_IDLE" "bridge_ok d"
    and "edit_mission m (active_mission d) = Some ws"
      "ru_RouteType m = ROUTE_OP_DELETE \<longrightarrow> ru_WaypointCount m \<noteq> b_ActiveResumeIndex d"
    and "hears mission_ack (T0, f0, e0)" "list_all (hears mission_ack) cs"
      "list_all (\<lambda>(T, fs, e). T0 \<le> T \<and> T < T0 + 300) cs"
    and "list_all (hears (item_request (length ws))) ((T1, f1, e1) # rs)" "T0 + 300 \<le> T1" "T1 < T0 + 2 ^ 31"
    and "hears mission_accepted (Tn, fn, en)" "length (substance fn) = 1" "in_time 2000 T1 (rs @ [(Tn, fn, en)])"
  shows "mission_talk (snd (bridge_loop (upload_dialogue m e0 cs ((T1, f1, e1) # rs) (Tn, fn, en)) d)) =
      [Clear_All, Count (length ws)] @ answers ws ((T1, f1, e1) # rs) @ [Request_List] \<and>
    in_force ws (fst (bridge_loop (upload_dialogue m e0 cs ((T1, f1, e1) # rs) (Tn, fn, en)) d)) \<and>
    readbacks (snd (bridge_loop (upload_dialogue m e0 cs ((T1, f1, e1) # rs) (Tn, fn, en)) d)) = [] \<and>
    count_awaited (Tn + 3000) (fst (bridge_loop (upload_dialogue m e0 cs ((T1, f1, e1) # rs) (Tn, fn, en)) d))"
proof -
  let ?s = "steps [MAVLINK_BRIDGE_APP_TaskPipe (RouteUpdate m), MAVLINK_BRIDGE_APP_ServiceSerial] (d\<lparr> b_Env := e0 \<rparr>)"
  let ?d1 = "fst ?s"
  let ?c = "bridge_loop (timeouts cs) ?d1"
  let ?r = "MAVLINK_BRIDGE_APP_ServiceSerial ((fst ?c)\<lparr> b_Env := e1 \<rparr>)"
  have a: "bridge_ok (d\<lparr> b_Env := e0 \<rparr>)" "active_mission (d\<lparr> b_Env := e0 \<rparr>) = active_mission d"
    using assms(6) by (simp_all add: bridge_ok_def active_mission_def)
  have 1: "under_way UPLOAD_CLEARING ws (T0 + 300) ?d1 \<and> mission_talk (snd ?s) = [Clear_All] \<and> readbacks (snd ?s) = []"
    using start_turn[of "d\<lparr> b_Env := e0 \<rparr>" m ws T0 f0] assms(1-9) a by (simp add: hears_def del: steps.simps steps_Cons)
  have 2: "under_way UPLOAD_CLEARING ws (T0 + 300) (fst ?c) \<and> mission_talk (snd ?c) = [] \<and> readbacks (snd ?c) = []"
    using 1 assms(10,11) by (intro waiting_run) (auto simp: list_all_iff)
  have 3: "under_way UPLOAD_ACTIVE ws (T1 + 2000) (fst ?r) \<and> mission_talk (snd ?r) = Count (length ws) # answers ws [(T1, f1, e1)] \<and>
      readbacks (snd ?r) = []"
    using clearing_turn[of ws "T0 + 300" "(fst ?c)\<lparr> b_Env := e1 \<rparr>" T1 f1] 2 assms(12-14)
    by (simp add: hears_def answers_def del: steps.simps steps_Cons)
  let ?ts = "timeouts (rs @ [(Tn, fn, en)])"
  have run: "b_RunStatus (fst ?c) = APP_RUN" using 2 by (simp add: under_way_def)
  have "bridge_loop (upload_dialogue m e0 cs ((T1, f1, e1) # rs) (Tn, fn, en)) d =
      prepend (snd ?s) (bridge_loop (timeouts cs @ (Bridge_Timeout, e1) # ?ts) ?d1)"
    using assms(1) by (simp add: upload_dialogue_def bridge_turn_def Let_def case_prod_unfold del: steps.simps steps_Cons)
  moreover have "bridge_loop (timeouts cs @ (Bridge_Timeout, e1) # ?ts) ?d1 =
      prepend (snd ?c) (prepend (snd ?r) (bridge_loop ?ts (fst ?r)))"
    unfolding bridge_loop_append[OF run] loop_timeout[OF run] by (rule refl)
  ultimately show ?thesis
    using 1 2 3 items_run[of ws T1 "fst ?r", OF _ _ assms(15-17)] assms(12)
    by (simp add: answers_def del: steps.simps steps_Cons bridge_loop.simps(2) turns_simps(3))
qed

section \<open>A flight controller that takes a mission\<close>

text \<open>Frames with the right checksum, and a turn at a second in which the line delivers some frames.\<close>

definition demo_frame_of :: "u32 \<Rightarrow> u8 list \<Rightarrow> mav_rx" where
  "demo_frame_of MsgId pl =
     (let f = \<lparr> mr_V2 = True, mr_Incompat = 0, mr_Compat = 0, mr_Seq = 0, mr_SysId = 1, mr_CompId = 1,
                mr_MsgId = MsgId, mr_Payload = pl, mr_Crc = 0 \<rparr>
      in f\<lparr> mr_Crc := rx_crc f (crc_extra MsgId) \<rparr>)"

lemma demo_frame_of_fields [simp]:
  "mr_MsgId (demo_frame_of MsgId pl) = MsgId" "mr_Payload (demo_frame_of MsgId pl) = pl"
  "rx_intact (demo_frame_of MsgId pl)"
  "rx_fits (demo_frame_of MsgId pl) \<longleftrightarrow> length pl \<le> MAVLINK_MAX_PAYLOAD_LEN \<and> MsgId < 0x1000000"
  by (simp_all add: demo_frame_of_def Let_def rx_intact_def rx_crc_def rx_covered_def rx_fits_def)

definition talk_at :: "u32 \<Rightarrow> mav_rx list \<Rightarrow> bridge_env" where
  "talk_at s fs = \<lparr> be_Now = \<lparr> Seconds = s, Subseconds = 0 \<rparr>, be_Ticks = [], be_Writes = [],
     be_Reads = (if fs = [] then [] else [Rd_Bytes (frames_stream fs)]), be_Opens = [], be_Save = Save_Ok \<rparr>"

lemma talk_at_env:
  "GetTimeMs \<lparr> Seconds = s, Subseconds = 0 \<rparr> = of_nat T \<Longrightarrow> talk_env T (frames_stream fs) (talk_at s fs)"
  by (cases fs) (simp_all add: talk_env_def talk_at_def frames_stream_def rx_bytes_def)

definition demo_linked :: MAVLINK_BRIDGE_APP_Data where
  "demo_linked = (bridge_initial (talk_at 5 []))\<lparr> b_PortOpen := True, b_LinkState := BRIDGE_CONNECTED \<rparr>"

lemma demo_linked_fields:
  "b_RunStatus demo_linked = APP_RUN" "b_PortOpen demo_linked" "b_Parser demo_linked = parser_zero"
  "b_LinkState demo_linked = BRIDGE_CONNECTED" "b_MissionDownloadState demo_linked = DOWNLOAD_IDLE"
  by (simp_all add: demo_linked_def bridge_initial_def)

definition demo_edit :: ROUTE_UPDATE_TLM where
  "demo_edit = \<lparr> ru_Seq = 1, ru_TimestampMs = 0, ru_SourceSequence = 1, ru_RouteType = ROUTE_OP_REPLACE,
     ru_RouteVersion = 2, ru_WaypointCount = 1, ru_Waypoints = [wp_zero\<lparr> wp_CmdType := 16 \<rparr>] \<rparr>"

text \<open>The removal is acknowledged at once; the waypoint is asked for twice, around a frame of telemetry.\<close>

definition demo_accept :: mav_rx where
  "demo_accept = demo_frame_of MSG_ID_MISSION_ACK [255, 190, 0]"

definition demo_requests :: "mav_rx list" where
  "demo_requests = (let f = demo_frame_of MSG_ID_MISSION_REQUEST_INT [0, 0]
                    in [f, demo_frame_of MSG_ID_ATTITUDE (replicate 28 0), f])"

lemma demo_upload_holds:
  "bridge_ok demo_linked" "edit_mission demo_edit (active_mission demo_linked) = Some [wp_zero\<lparr> wp_CmdType := 16 \<rparr>]"
  "ru_RouteType demo_edit = ROUTE_OP_DELETE \<longrightarrow> ru_WaypointCount demo_edit \<noteq> b_ActiveResumeIndex demo_linked"
  "hears mission_ack (5000, [demo_accept], talk_at 5 [demo_accept])"
  "hears (item_request 1) (6000, [], talk_at 6 [])" "hears (item_request 1) (7000, demo_requests, talk_at 7 demo_requests)"
  "hears mission_accepted (8000, [demo_accept], talk_at 8 [demo_accept])" "length (substance [demo_accept]) = 1"
proof -
  show "bridge_ok demo_linked"
    using bridge_initial_ok(1)[of "talk_at 5 []"] by (simp add: demo_linked_def bridge_ok_def)
  show "edit_mission demo_edit (active_mission demo_linked) = Some [wp_zero\<lparr> wp_CmdType := 16 \<rparr>]"
    by (simp add: edit_mission_def demo_edit_def route_array_def wp_nth_def upt_rec take_Cons')
  show "ru_RouteType demo_edit = ROUTE_OP_DELETE \<longrightarrow> ru_WaypointCount demo_edit \<noteq> b_ActiveResumeIndex demo_linked"
    by (simp add: demo_edit_def)
  show "length (substance [demo_accept]) = 1" by (simp add: demo_accept_def chatter_def)
  have e: "talk_env 5000 (frames_stream fs) (talk_at 5 fs)" "talk_env 6000 (frames_stream fs) (talk_at 6 fs)"
    "talk_env 7000 (frames_stream fs) (talk_at 7 fs)" "talk_env 8000 (frames_stream fs) (talk_at 8 fs)" for fs
    by (rule talk_at_env, simp add: GetTimeMs_def time_ms64_def)+
  show "hears mission_ack (5000, [demo_accept], talk_at 5 [demo_accept])" "hears (item_request 1) (6000, [], talk_at 6 [])"
      "hears (item_request 1) (7000, demo_requests, talk_at 7 demo_requests)"
      "hears mission_accepted (8000, [demo_accept], talk_at 8 [demo_accept])"
    by (simp_all add: hears_def e) (simp_all add: demo_accept_def demo_requests_def mission_ack_def mission_accepted_def
        item_request_def requested_def get_u16_def byte_at_def Let_def chatter_def)
qed

lemma demo_in_time: "in_time 2000 6000 ([(7000, demo_requests, talk_at 7 demo_requests)] @ [(8000, [demo_accept], talk_at 8 [demo_accept])])"
  by (simp add: demo_requests_def chatter_def Let_def)



end
