(* ===== verification/Bridge_Readback.thy ===== *)
theory Bridge_Readback
  imports Bridge_Mission
begin

text \<open>
  The read-back of a mission as a dialogue with the flight controller: it tells the number of its
  items, sends each when asked for it, and mavlink_bridge_app publishes exactly that mission.
\<close>

section \<open>The frames of the flight controller\<close>

definition count_frame :: "nat \<Rightarrow> mav_rx \<Rightarrow> bool" where
  "count_frame n f \<longleftrightarrow> rx_fits f \<and> rx_intact f \<and> mr_MsgId f = MSG_ID_MISSION_COUNT \<and>
     2 \<le> length (mr_Payload f) \<and> unat (get_u16 (mr_Payload f) 0) = n"

definition item_frame :: "mav_rx \<Rightarrow> bool" where
  "item_frame f \<longleftrightarrow> rx_fits f \<and> rx_intact f \<and> mr_MsgId f = MSG_ID_MISSION_ITEM_INT \<and> 32 \<le> length (mr_Payload f)"

text \<open>What the frames before the last leave alone.\<close>

definition readback_base where
  "readback_base d = (b_MissionReadbackSeq d, b_FcMissionReadbackWaypoints d, b_Env d)"

definition carried :: "mav_rx \<Rightarrow> ROUTE_WAYPOINT" where
  "carried f = downloaded_waypoint (mr_Payload f)"

section \<open>Waiting for items\<close>

definition item_awaited :: "nat \<Rightarrow> ROUTE_WAYPOINT list \<Rightarrow> nat \<Rightarrow> MAVLINK_BRIDGE_APP_Data \<Rightarrow> bool" where
  "item_awaited n ws D d \<longleftrightarrow> b_PortOpen d \<and> b_RunStatus d = APP_RUN \<and> b_Parser d = parser_zero \<and>
     b_MissionUploadState d = UPLOAD_IDLE \<and> b_MissionDownloadState d = DOWNLOAD_WAIT_ITEM \<and>
     b_MissionDownloadTimeoutMs d = of_nat D \<and> unat (b_MissionDownloadSeq d) = length ws \<and>
     unat (b_MissionDownloadExpectedCount d) = n \<and> length ws < n \<and> n \<le> ROUTE_MAX_WAYPOINTS \<and>
     length (b_MissionDownloadWaypoints d) = ROUTE_MAX_WAYPOINTS \<and> take (length ws) (b_MissionDownloadWaypoints d) = ws \<and>
     length (b_FcMissionReadbackWaypoints d) = ROUTE_MAX_WAYPOINTS"

lemma item_awaited_view: "mission_view d' = mission_view d \<Longrightarrow> item_awaited n ws D d' = item_awaited n ws D d"
  by (simp add: mission_view_def item_awaited_def)

lemma item_awaited_busy: "item_awaited n ws D d \<Longrightarrow> busy d" "count_awaited D d \<Longrightarrow> busy d"
  by (simp_all add: item_awaited_def count_awaited_def busy_def)

lemma item_awaited_env [simp]: "item_awaited n ws D (d\<lparr> b_Env := e \<rparr>) = item_awaited n ws D d"
  by (simp add: item_awaited_def)

text \<open>The packet that reports the mission read back.\<close>

definition readback_packet :: "u32 \<Rightarrow> u32 \<Rightarrow> ROUTE_WAYPOINT list \<Rightarrow> ROUTE_WAYPOINT list \<Rightarrow> sb_msg" where
  "readback_packet Seq NowMs ws old = FcMissionReadback
     \<lparr> ru_Seq = Seq, ru_TimestampMs = NowMs, ru_SourceSequence = 0, ru_RouteType = 1, ru_RouteVersion = 0,
       ru_WaypointCount = of_nat (length ws), ru_Waypoints = ws @ drop (length ws) old \<rparr>"

lemma take_count:
  assumes d: "count_awaited D d" "free d" and f: "count_frame n f" "0 < n" "n \<le> ROUTE_MAX_WAYPOINTS"
  shows "item_awaited n [] (T + 3000) (fst (take_frame (of_nat T) f d)) \<and> free (fst (take_frame (of_nat T) f d)) \<and>
    mission_talk (snd (take_frame (of_nat T) f d)) = [Request_Item 0] \<and> readbacks (snd (take_frame (of_nat T) f d)) = [] \<and>
    readback_base (fst (take_frame (of_nat T) f d)) = readback_base d"
proof -
  let ?c = "get_u16 (mr_Payload f) 0"
  let ?d = "d\<lparr> b_Parser := rx_context f, b_MissionDownloadExpectedCount := ucast ?c,
    b_MissionDownloadState := DOWNLOAD_WAIT_ITEM, b_MissionDownloadSeq := 0, b_MissionDownloadTimeoutMs := of_nat T + 3000 \<rparr>"
  have c: "unat ?c = n" "\<not> 255 < ?c" "?c \<noteq> 0"
    using f by (auto simp: count_frame_def word_less_nat_alt)
  then have u: "unat (ucast ?c :: u8) = n" using f(3) by (simp add: unsigned_ucast_eq take_bit_nat_eq_self)
  have fr: "b_PortOpen ?d" "free ?d" using d by (simp_all add: count_awaited_def free_def)
  note s = senders_talk(10-12)[OF fr, of 0]
  have act: "frame_action (rx_context f) (mr_Crc f) (of_nat T) (d\<lparr> b_Parser := rx_context f \<rparr>) =
      prepend [Event BR_MISSION_DOWNLOAD_INF_EID INFORMATION] (SendMissionRequestIntDownload 0 ?d)"
    using f c d(1)
    by (simp add: frame_action_def Let_def rx_context_fields count_frame_def guarded_intact crc_extra_def
        mission_count_frame_def count_awaited_def)
  have "take_frame (of_nat T) f d = prepend [] (prepend (Event BR_MISSION_DOWNLOAD_INF_EID INFORMATION #
      snd (SendMissionRequestIntDownload 0 ?d)) (ResetParser (fst (SendMissionRequestIntDownload 0 ?d)), []))"
    by (simp add: take_frame_def update_def act) (simp add: prepend_def)
  then show ?thesis
    using s d(1) f u view_free[OF s(1)] fr(2)
    by (simp add: mission_view_def readback_base_def free_def item_awaited_def count_awaited_def ResetParser_def)
qed

text \<open>An item but the last: it is stored and the next one asked for.\<close>

lemma stored:
  assumes "take (length ws) xs = ws" "length ws < length xs"
  shows "take (Suc (length ws)) (xs[length ws := w]) = ws @ [w]"
  using assms by (simp add: take_Suc_conv_app_nth)

lemma take_item:
  assumes d: "item_awaited n ws D d" "free d" and f: "item_frame f" and more: "Suc (length ws) < n"
  shows "item_awaited n (ws @ [carried f]) (T + 3000) (fst (take_frame (of_nat T) f d)) \<and>
    free (fst (take_frame (of_nat T) f d)) \<and>
    mission_talk (snd (take_frame (of_nat T) f d)) = [Request_Item (Suc (length ws))] \<and>
    readbacks (snd (take_frame (of_nat T) f d)) = [] \<and>
    readback_base (fst (take_frame (of_nat T) f d)) = readback_base d"
proof -
  let ?k = "b_MissionDownloadSeq d"
  let ?d = "d\<lparr> b_Parser := rx_context f,
    b_MissionDownloadWaypoints := (b_MissionDownloadWaypoints d)[unat ?k := downloaded_waypoint (p_Payload (rx_context f))],
    b_MissionDownloadSeq := ?k + 1, b_MissionDownloadTimeoutMs := of_nat T + 3000 \<rparr>"
  have n: "n \<le> 37" "unat ?k = length ws" using d(1) by (simp_all add: item_awaited_def)
  have k: "unat (?k + 1) = Suc (length ws)" using n more by (simp add: unat_word_ariths)
  have lt: "(b_MissionDownloadExpectedCount d \<le> ?k + 1) = False"
    using d(1) k more by (simp add: word_le_nat_alt item_awaited_def)
  have fr: "b_PortOpen ?d" "free ?d" using d by (simp_all add: item_awaited_def free_def)
  note s = senders_talk(10-12)[OF fr, of "?k + 1", unfolded k]
  have act: "frame_action (rx_context f) (mr_Crc f) (of_nat T) (d\<lparr> b_Parser := rx_context f \<rparr>) =
      prepend [Event BR_MISSION_DOWNLOAD_INF_EID INFORMATION] (SendMissionRequestIntDownload (?k + 1) ?d)"
    using f d(1) n more lt
    by (simp add: frame_action_def Let_def rx_context_fields(1) item_frame_def guarded_intact crc_extra_def
        mission_item_frame_def item_awaited_def del: steps.simps steps_Cons)
  have "take_frame (of_nat T) f d = prepend [] (prepend (Event BR_MISSION_DOWNLOAD_INF_EID INFORMATION #
      snd (SendMissionRequestIntDownload (?k + 1) ?d)) (ResetParser (fst (SendMissionRequestIntDownload (?k + 1) ?d)), []))"
    by (simp add: take_frame_def update_def act) (simp add: prepend_def)
  moreover have "take (Suc (length ws)) (b_MissionDownloadWaypoints ?d) = ws @ [carried f]"
    using d(1) more n stored[of ws "b_MissionDownloadWaypoints d"]
    by (simp add: item_awaited_def carried_def rx_context_fields)
  ultimately show ?thesis
    using s d n more k view_free[OF s(1)] fr(2)
    by (simp add: mission_view_def readback_base_def item_awaited_def ResetParser_def free_def)
qed

text \<open>The last item: the mission is accepted and published.\<close>

lemma Publish_free:
  assumes "free d" "unat (b_MissionDownloadExpectedCount d) = length ws" "length ws \<le> ROUTE_MAX_WAYPOINTS"
    and "length (b_MissionDownloadWaypoints d) = ROUTE_MAX_WAYPOINTS" "take (length ws) (b_MissionDownloadWaypoints d) = ws"
    and "length (b_FcMissionReadbackWaypoints d) = ROUTE_MAX_WAYPOINTS"
  shows "readbacks (snd (PublishFcMissionReadback d)) = [readback_packet (b_MissionReadbackSeq d + 1)
      (GetTimeMs (be_Now (b_Env d))) ws (b_FcMissionReadbackWaypoints d)]"
    and "mission_talk (snd (PublishFcMissionReadback d)) = []"
    and "b_MissionDownloadState (fst (PublishFcMissionReadback d)) = b_MissionDownloadState d"
proof -
  let ?n = "b_MissionDownloadExpectedCount d"
  have n: "of_nat (length ws) = ?n" using assms(2) by (simp flip: assms(2))
  have c: "copy_waypoints (wp_nth (b_MissionDownloadWaypoints d)) (length ws) (b_FcMissionReadbackWaypoints d) =
      ws @ drop (length ws) (b_FcMissionReadbackWaypoints d)"
    using assms by (simp add: copy_waypoints_list map_wp_nth)
  have f: "free (d\<lparr> b_MissionReadbackSeq := b_MissionReadbackSeq d + 1 \<rparr>)" using assms(1) by (simp add: free_def)
  show "readbacks (snd (PublishFcMissionReadback d)) = [readback_packet (b_MissionReadbackSeq d + 1)
      (GetTimeMs (be_Now (b_Env d))) ws (b_FcMissionReadbackWaypoints d)]"
    "mission_talk (snd (PublishFcMissionReadback d)) = []"
    "b_MissionDownloadState (fst (PublishFcMissionReadback d)) = b_MissionDownloadState d"
    using assms(2,3) by (simp_all add: PublishFcMissionReadback_def with_clock_def read_clock_free[OF f] Let_def
      readback_packet_def c n)
qed

lemma take_last_item:
  assumes d: "item_awaited n ws D d" "free d" "GetTimeMs (be_Now (b_Env d)) = of_nat T"
    and f: "item_frame f" and last: "Suc (length ws) = n"
  shows "readbacks (snd (take_frame (of_nat T) f d)) = [readback_packet (b_MissionReadbackSeq d + 1) (of_nat T)
      (ws @ [carried f]) (b_FcMissionReadbackWaypoints d)] \<and>
    mission_talk (snd (take_frame (of_nat T) f d)) = [Mission_Accepted] \<and>
    b_MissionDownloadState (fst (take_frame (of_nat T) f d)) = DOWNLOAD_IDLE"
proof -
  let ?k = "b_MissionDownloadSeq d" and ?ws = "ws @ [carried f]"
  let ?d = "d\<lparr> b_Parser := rx_context f,
    b_MissionDownloadWaypoints := (b_MissionDownloadWaypoints d)[unat ?k := downloaded_waypoint (p_Payload (rx_context f))],
    b_MissionDownloadSeq := ?k + 1 \<rparr>"
  let ?e = "(fst (SendMissionAckAccepted ?d))\<lparr> b_MissionDownloadState := DOWNLOAD_IDLE \<rparr>"
  have n: "n \<le> 37" "unat ?k = length ws" using d(1) by (simp_all add: item_awaited_def)
  have k: "unat (?k + 1) = n" using n last by (simp add: unat_word_ariths)
  have ge: "(b_MissionDownloadExpectedCount d \<le> ?k + 1) = True"
    using d(1) k by (simp add: word_le_nat_alt item_awaited_def)
  have fr: "b_PortOpen ?d" "free ?d" using d by (simp_all add: item_awaited_def free_def)
  note s = senders_talk(13-15)[OF fr]
  have ws: "take (Suc (length ws)) (b_MissionDownloadWaypoints ?d) = ?ws"
    using d(1) last n stored[of ws "b_MissionDownloadWaypoints d"]
    by (simp add: item_awaited_def carried_def rx_context_fields)
  have e: "free ?e" "b_MissionDownloadExpectedCount ?e = b_MissionDownloadExpectedCount d"
    "b_MissionDownloadWaypoints ?e = b_MissionDownloadWaypoints ?d" "b_MissionReadbackSeq ?e = b_MissionReadbackSeq d"
    "b_FcMissionReadbackWaypoints ?e = b_FcMissionReadbackWaypoints d" "b_Env ?e = b_Env d"
    using s(1) fr(2) by (simp_all add: mission_view_def free_def)
  have "length ?ws = n" using last by simp
  then have p: "readbacks (snd (PublishFcMissionReadback ?e)) = [readback_packet (b_MissionReadbackSeq d + 1) (of_nat T) ?ws
      (b_FcMissionReadbackWaypoints d)]" "mission_talk (snd (PublishFcMissionReadback ?e)) = []"
    "b_MissionDownloadState (fst (PublishFcMissionReadback ?e)) = DOWNLOAD_IDLE"
    using Publish_free[of ?e ?ws] d e(1) ws last unfolding e(2-6) by (simp_all add: item_awaited_def)
  have act: "frame_action (rx_context f) (mr_Crc f) (of_nat T) (d\<lparr> b_Parser := rx_context f \<rparr>) =
      prepend [Event BR_MISSION_DOWNLOAD_INF_EID INFORMATION]
        (steps [SendMissionAckAccepted, update (\<lambda>d. d\<lparr> b_MissionDownloadState := DOWNLOAD_IDLE \<rparr>),
          emit [Event BR_MISSION_DOWNLOAD_INF_EID INFORMATION], PublishFcMissionReadback] ?d)"
    using f d(1) n last ge
    by (simp add: frame_action_def Let_def rx_context_fields(1) item_frame_def guarded_intact crc_extra_def
        mission_item_frame_def item_awaited_def del: steps.simps steps_Cons)
  have "readbacks (snd (take_frame (of_nat T) f d)) = readbacks (snd (PublishFcMissionReadback ?e))"
    "mission_talk (snd (take_frame (of_nat T) f d)) = [Mission_Accepted] @ mission_talk (snd (PublishFcMissionReadback ?e))"
    "b_MissionDownloadState (fst (take_frame (of_nat T) f d)) = b_MissionDownloadState (fst (PublishFcMissionReadback ?e))"
    using s(2,3) by (simp_all add: take_frame_def update_def act emit_def ResetParser_def)
  then show ?thesis using p by simp
qed

section \<open>Turns of a read-back\<close>

lemma readback_base_view: "mission_view d' = mission_view d \<Longrightarrow> readback_base d' = readback_base d"
  by (simp add: mission_view_def readback_base_def)

lemma take_items:
  assumes "item_awaited n ws D d" "free d" "list_all rx_fits fs" "list_all item_frame (substance fs)"
    and "length ws + length (substance fs) < n"
  shows "item_awaited n (ws @ map carried (substance fs)) (if substance fs = [] then D else T + 3000)
      (fst (steps (map (take_frame (of_nat T)) fs) d)) \<and>
    free (fst (steps (map (take_frame (of_nat T)) fs) d)) \<and>
    mission_talk (snd (steps (map (take_frame (of_nat T)) fs) d)) =
      map Request_Item [Suc (length ws)..<Suc (length ws + length (substance fs))] \<and>
    readbacks (snd (steps (map (take_frame (of_nat T)) fs) d)) = [] \<and>
    readback_base (fst (steps (map (take_frame (of_nat T)) fs) d)) = readback_base d"
  using assms
proof (induction fs arbitrary: d D ws)
  case (Cons f fs)
  show ?case
  proof (cases "chatter f")
    case True
    have "b_Parser d = parser_zero" using Cons.prems(1) by (simp add: item_awaited_def)
    then have "set_aside d (fst (take_frame (of_nat T) f d)) (snd (take_frame (of_nat T) f d))"
      using True Cons.prems(3) by (intro take_chatter) simp_all
    then have v: "mission_view (fst (take_frame (of_nat T) f d)) = mission_view d"
      "mission_talk (snd (take_frame (of_nat T) f d)) = []" "readbacks (snd (take_frame (of_nat T) f d)) = []"
      using Cons.prems(2) item_awaited_busy(1)[OF Cons.prems(1)] by (simp_all add: set_aside_def)
    show ?thesis
      using Cons.IH[of ws D "fst (take_frame (of_nat T) f d)"] Cons.prems True v view_free[OF v(1)]
        item_awaited_view[OF v(1)] readback_base_view[OF v(1)]
      by (simp del: upt_Suc)
  next
    case False
    note t = take_item[OF Cons.prems(1,2), of f T]
    have "[Suc (length ws)..<Suc (length ws + length (substance (f # fs)))] =
        Suc (length ws) # [Suc (Suc (length ws))..<Suc (Suc (length ws) + length (substance fs))]"
      using False by (simp add: upt_rec[of "Suc (length ws)"] del: upt_Suc)
    with Cons.IH[of "ws @ [carried f]" "T + 3000" "fst (take_frame (of_nat T) f d)"] t Cons.prems(3-5) False show ?thesis
      by (cases "substance fs = []") (simp_all add: Suc_le_eq del: upt_Suc)
  qed
qed simp

lemma serve_download:
  assumes d: "b_PortOpen d" "b_Parser d = parser_zero" "b_MissionUploadState d = UPLOAD_IDLE"
      "b_MissionDownloadState d \<noteq> DOWNLOAD_IDLE" "b_MissionDownloadTimeoutMs d = of_nat D"
    and e: "talk_env T (frames_stream fs) (b_Env d)" and fs: "list_all rx_fits fs" and D: "T < D" "D \<le> T + 3000"
  obtains d2 os2 where "mission_view d2 = mission_view (after_reading d)" "free d2"
    "GetTimeMs (be_Now (b_Env d2)) = of_nat T" "mission_talk os2 = []" "readbacks os2 = []"
    "MAVLINK_BRIDGE_APP_ServiceSerial d = prepend os2 (steps (map (take_frame (of_nat T)) fs) d2)"
proof (rule serve_frames[OF d(1,2) _ e fs])
  show "busy d" using d(4) by (simp add: busy_def)
  have r: "\<not> reached (of_nat T) (of_nat D)" using reached_of_nat[of T D] D by simp
  show "steps [CheckMissionUploadTimeout (of_nat T), CheckMissionDownloadTimeout (of_nat T), retry_readback (of_nat T),
      read_port (of_nat T)] d1 = read_port (of_nat T) d1" if "mission_view d1 = mission_view d" for d1
    using that d r
    by (simp add: mission_view_def CheckMissionUploadTimeout_def CheckMissionDownloadTimeout_def retry_readback_def)
      (simp add: prepend_def)
qed (rule that)

lemma count_turn:
  assumes d: "count_awaited D d" and e: "talk_env T (frames_stream fs) (b_Env d)" and D: "T < D" "D \<le> T + 3000"
    and fs: "list_all rx_fits fs" "substance fs = [f]" and f: "count_frame n f" "0 < n" "n \<le> ROUTE_MAX_WAYPOINTS"
  shows "item_awaited n [] (T + 3000) (fst (MAVLINK_BRIDGE_APP_ServiceSerial d)) \<and>
    mission_talk (snd (MAVLINK_BRIDGE_APP_ServiceSerial d)) = [Request_Item 0] \<and>
    readbacks (snd (MAVLINK_BRIDGE_APP_ServiceSerial d)) = [] \<and>
    b_MissionReadbackSeq (fst (MAVLINK_BRIDGE_APP_ServiceSerial d)) = b_MissionReadbackSeq d \<and>
    b_FcMissionReadbackWaypoints (fst (MAVLINK_BRIDGE_APP_ServiceSerial d)) = b_FcMissionReadbackWaypoints d"
proof -
  have p: "b_PortOpen d" "b_Parser d = parser_zero" "b_MissionUploadState d = UPLOAD_IDLE"
      "b_MissionDownloadState d \<noteq> DOWNLOAD_IDLE" "b_MissionDownloadTimeoutMs d = of_nat D"
    using d by (simp_all add: count_awaited_def)
  obtain d2 os2 where v: "mission_view d2 = mission_view (after_reading d)"
    and f2: "free d2" and o: "mission_talk os2 = []" "readbacks os2 = []"
    and s: "MAVLINK_BRIDGE_APP_ServiceSerial d = prepend os2 (steps (map (take_frame (of_nat T)) fs) d2)"
    using serve_download[OF p e fs(1) D] by metis
  have d2: "count_awaited D d2" using d count_awaited_view[OF v] by (simp add: count_awaited_def after_reading_def)
  have p2: "b_Parser d2 = parser_zero" using d2 by (simp add: count_awaited_def)
  obtain d1 where v1: "mission_view d1 = mission_view d2"
    and w: "b_Parser (fst (take_frame (of_nat T) f d1)) = parser_zero \<Longrightarrow> free (fst (take_frame (of_nat T) f d1)) \<Longrightarrow>
      busy (fst (take_frame (of_nat T) f d1)) \<Longrightarrow>
      mission_view (fst (steps (map (take_frame (of_nat T)) fs) d2)) = mission_view (fst (take_frame (of_nat T) f d1)) \<and>
      mission_talk (snd (steps (map (take_frame (of_nat T)) fs) d2)) = mission_talk (snd (take_frame (of_nat T) f d1)) \<and>
      readbacks (snd (steps (map (take_frame (of_nat T)) fs) d2)) = readbacks (snd (take_frame (of_nat T) f d1))"
    using take_single[OF fs(2,1) p2 f2 item_awaited_busy(2)[OF d2]] by metis
  have d1: "count_awaited D d1" "free d1" using count_awaited_view[OF v1] view_free[OF v1] d2 f2 by simp_all
  note t = take_count[OF d1 f, of T]
  have "b_Parser (fst (take_frame (of_nat T) f d1)) = parser_zero" using t by (simp add: item_awaited_def)
  then have w: "mission_view (fst (steps (map (take_frame (of_nat T)) fs) d2)) = mission_view (fst (take_frame (of_nat T) f d1))"
      "mission_talk (snd (steps (map (take_frame (of_nat T)) fs) d2)) = mission_talk (snd (take_frame (of_nat T) f d1))"
      "readbacks (snd (steps (map (take_frame (of_nat T)) fs) d2)) = readbacks (snd (take_frame (of_nat T) f d1))"
    using w t item_awaited_busy(1)[OF t[THEN conjunct1]] by simp_all
  show ?thesis
    using t o w(2,3) item_awaited_view[OF w(1)] readback_base_view[OF w(1)] readback_base_view[OF v1] v
    by (simp add: s readback_base_def) (simp add: mission_view_def after_reading_def)
qed

lemma serve_items:
  assumes d: "item_awaited n ws D d" and e: "talk_env T (frames_stream fs) (b_Env d)" and D: "T < D" "D \<le> T + 3000"
    and fs: "list_all rx_fits fs"
  obtains d2 os2 where "item_awaited n ws D d2" "free d2" "GetTimeMs (be_Now (b_Env d2)) = of_nat T"
    "mission_talk os2 = []" "readbacks os2 = []" "b_MissionReadbackSeq d2 = b_MissionReadbackSeq d"
    "b_FcMissionReadbackWaypoints d2 = b_FcMissionReadbackWaypoints d"
    "MAVLINK_BRIDGE_APP_ServiceSerial d = prepend os2 (steps (map (take_frame (of_nat T)) fs) d2)"
proof -
  have p: "b_PortOpen d" "b_Parser d = parser_zero" "b_MissionUploadState d = UPLOAD_IDLE"
      "b_MissionDownloadState d \<noteq> DOWNLOAD_IDLE" "b_MissionDownloadTimeoutMs d = of_nat D"
    using d by (simp_all add: item_awaited_def)
  obtain d2 os2 where v: "mission_view d2 = mission_view (after_reading d)"
    and r: "free d2" "GetTimeMs (be_Now (b_Env d2)) = of_nat T" "mission_talk os2 = []" "readbacks os2 = []"
      "MAVLINK_BRIDGE_APP_ServiceSerial d = prepend os2 (steps (map (take_frame (of_nat T)) fs) d2)"
    using serve_download[OF p e fs D] by metis
  have "item_awaited n ws D d2" using d item_awaited_view[OF v] by (simp add: after_reading_def)
  moreover have "b_MissionReadbackSeq d2 = b_MissionReadbackSeq d"
    "b_FcMissionReadbackWaypoints d2 = b_FcMissionReadbackWaypoints d"
    using v by (simp_all add: mission_view_def after_reading_def)
  ultimately show thesis using that r by blast
qed

lemma items_turn:
  assumes d: "item_awaited n ws D d" and e: "talk_env T (frames_stream fs) (b_Env d)" and D: "T < D" "D \<le> T + 3000"
    and fs: "list_all rx_fits fs" "list_all item_frame (substance fs)" and more: "length ws + length (substance fs) < n"
  shows "item_awaited n (ws @ map carried (substance fs)) (if substance fs = [] then D else T + 3000)
      (fst (MAVLINK_BRIDGE_APP_ServiceSerial d)) \<and>
    mission_talk (snd (MAVLINK_BRIDGE_APP_ServiceSerial d)) =
      map Request_Item [Suc (length ws)..<Suc (length ws + length (substance fs))] \<and>
    readbacks (snd (MAVLINK_BRIDGE_APP_ServiceSerial d)) = [] \<and>
    b_MissionReadbackSeq (fst (MAVLINK_BRIDGE_APP_ServiceSerial d)) = b_MissionReadbackSeq d \<and>
    b_FcMissionReadbackWaypoints (fst (MAVLINK_BRIDGE_APP_ServiceSerial d)) = b_FcMissionReadbackWaypoints d"
proof -
  obtain d2 os2 where d2: "item_awaited n ws D d2" "free d2" and o: "mission_talk os2 = []" "readbacks os2 = []"
    and q: "b_MissionReadbackSeq d2 = b_MissionReadbackSeq d" "b_FcMissionReadbackWaypoints d2 = b_FcMissionReadbackWaypoints d"
    and s: "MAVLINK_BRIDGE_APP_ServiceSerial d = prepend os2 (steps (map (take_frame (of_nat T)) fs) d2)"
    by (rule serve_items[OF d e D fs(1)])
  from take_items[OF d2 fs more, of T] o q show ?thesis
    by (simp add: s readback_base_def del: upt_Suc)
qed

lemma last_turn:
  assumes d: "item_awaited n ws D d" and e: "talk_env T (frames_stream (gs @ [f])) (b_Env d)" and D: "T < D" "D \<le> T + 3000"
    and fs: "list_all rx_fits gs" "list_all item_frame (substance gs)" "item_frame f"
    and last: "Suc (length ws + length (substance gs)) = n"
  shows "readbacks (snd (MAVLINK_BRIDGE_APP_ServiceSerial d)) = [readback_packet (b_MissionReadbackSeq d + 1) (of_nat T)
      (ws @ map carried (substance gs) @ [carried f]) (b_FcMissionReadbackWaypoints d)] \<and>
    mission_talk (snd (MAVLINK_BRIDGE_APP_ServiceSerial d)) = map Request_Item [Suc (length ws)..<n] @ [Mission_Accepted] \<and>
    b_MissionDownloadState (fst (MAVLINK_BRIDGE_APP_ServiceSerial d)) = DOWNLOAD_IDLE"
proof -
  have fits: "list_all rx_fits (gs @ [f])" using fs(1,3) by (simp add: item_frame_def)
  obtain d2 os2 where d2: "item_awaited n ws D d2" "free d2" "GetTimeMs (be_Now (b_Env d2)) = of_nat T"
    and o: "mission_talk os2 = []" "readbacks os2 = []"
    and q: "b_MissionReadbackSeq d2 = b_MissionReadbackSeq d" "b_FcMissionReadbackWaypoints d2 = b_FcMissionReadbackWaypoints d"
    and s: "MAVLINK_BRIDGE_APP_ServiceSerial d = prepend os2 (steps (map (take_frame (of_nat T)) (gs @ [f])) d2)"
    by (rule serve_items[OF d e D fits])
  have l: "length ws + length (substance gs) < n" using last by simp
  let ?r = "steps (map (take_frame (of_nat T)) gs) d2"
  have t: "item_awaited n (ws @ map carried (substance gs)) (if substance gs = [] then D else T + 3000) (fst ?r)"
      "free (fst ?r)" "mission_talk (snd ?r) = map Request_Item [Suc (length ws)..<n]" "readbacks (snd ?r) = []"
      "b_Env (fst ?r) = b_Env d2" "b_MissionReadbackSeq (fst ?r) = b_MissionReadbackSeq d"
      "b_FcMissionReadbackWaypoints (fst ?r) = b_FcMissionReadbackWaypoints d"
    using take_items[OF d2(1,2) fs(1,2) l, of T] q last by (simp_all add: readback_base_def del: upt_Suc)
  have "GetTimeMs (be_Now (b_Env (fst ?r))) = of_nat T" using t(5) d2(3) by simp
  from take_last_item[OF t(1,2) this fs(3)] last
  have "readbacks (snd (take_frame (of_nat T) f (fst ?r))) = [readback_packet (b_MissionReadbackSeq d + 1) (of_nat T)
      (ws @ map carried (substance gs) @ [carried f]) (b_FcMissionReadbackWaypoints d)] \<and>
    mission_talk (snd (take_frame (of_nat T) f (fst ?r))) = [Mission_Accepted] \<and>
    b_MissionDownloadState (fst (take_frame (of_nat T) f (fst ?r))) = DOWNLOAD_IDLE"
    using t(6,7) by simp
  then show ?thesis using t(3,4) o by (simp add: s steps_append)
qed

section \<open>The read-back\<close>

text \<open>The turns of the items end with that in which the last item is the last frame.\<close>

lemma download_run:
  assumes "item_awaited n ws (T + 3000) d" "list_all (hears item_frame) rs" "hears item_frame (Tn, gs @ [f], en)"
    and "\<not> chatter f" "Suc (length ws + length (told rs) + length (substance gs)) = n"
    and "in_time 3000 T (rs @ [(Tn, gs @ [f], en)])"
  shows "readbacks (snd (bridge_loop (timeouts (rs @ [(Tn, gs @ [f], en)])) d)) =
      [readback_packet (b_MissionReadbackSeq d + 1) (of_nat Tn)
        (ws @ map carried (told (rs @ [(Tn, gs @ [f], en)]))) (b_FcMissionReadbackWaypoints d)] \<and>
    mission_talk (snd (bridge_loop (timeouts (rs @ [(Tn, gs @ [f], en)])) d)) =
      map Request_Item [Suc (length ws)..<n] @ [Mission_Accepted] \<and>
    b_MissionDownloadState (fst (bridge_loop (timeouts (rs @ [(Tn, gs @ [f], en)])) d)) = DOWNLOAD_IDLE"
  using assms
proof (induction rs arbitrary: d T ws)
  case Nil
  have run: "b_RunStatus d = APP_RUN" using Nil(1) by (simp add: item_awaited_def)
  have d: "item_awaited n ws (T + 3000) (d\<lparr> b_Env := en \<rparr>)" using Nil(1) by simp
  have e: "talk_env Tn (frames_stream (gs @ [f])) (b_Env (d\<lparr> b_Env := en \<rparr>))" using Nil(3) by (simp add: hears_def)
  from last_turn[OF d e] Nil(3-6) run show ?case
    by (simp add: hears_def loop_timeout del: bridge_loop.simps(2) upt_Suc)
next
  case (Cons r rs)
  obtain T' fs e where r: "r = (T', fs, e)" by (cases r)
  have t: "list_all rx_fits fs" "list_all item_frame (substance fs)" "talk_env T' (frames_stream fs) e"
    using Cons.prems(2) by (simp_all add: r hears_def)
  have T: "T' < T + 3000" "T + 3000 \<le> T' + 3000"
    "in_time 3000 (if substance fs = [] then T else T') (rs @ [(Tn, gs @ [f], en)])"
    using Cons.prems(6) by (simp_all add: r)
  have run: "b_RunStatus d = APP_RUN" using Cons.prems(1) by (simp add: item_awaited_def)
  have d: "item_awaited n ws (T + 3000) (d\<lparr> b_Env := e \<rparr>)" using Cons.prems(1) by simp
  have e: "talk_env T' (frames_stream fs) (b_Env (d\<lparr> b_Env := e \<rparr>))" using t(3) by simp
  have l: "length ws + length (substance fs) < n" using Cons.prems(5) by (simp add: r)
  note u = items_turn[OF d e T(1,2) t(1,2) l]
  have u1: "item_awaited n (ws @ map carried (substance fs)) ((if substance fs = [] then T else T') + 3000)
      (fst (MAVLINK_BRIDGE_APP_ServiceSerial (d\<lparr> b_Env := e \<rparr>)))"
    using u by (simp split: if_splits)
  have k: "Suc (length (ws @ map carried (substance fs)) + length (told rs) + length (substance gs)) = n"
    using Cons.prems(5) by (simp add: r)
  have "[Suc (length ws)..<n] = [Suc (length ws)..<Suc (length ws + length (substance fs))] @
      [Suc (length ws + length (substance fs))..<n]"
    using upt_add_eq_append[of "Suc (length ws)" "Suc (length ws + length (substance fs))"
        "n - Suc (length ws + length (substance fs))"] l by (simp del: upt_Suc)
  then show ?case
    using Cons.IH[OF u1 _ Cons.prems(3,4) k T(3)] u Cons.prems(2) run
    by (simp add: r loop_timeout del: bridge_loop.simps(2) upt_Suc)
qed

text \<open>The turn in which the number of items arrives, then those of the items.\<close>

definition readback_dialogue where
  "readback_dialogue e0 rs a = (Bridge_Timeout, e0) # timeouts (rs @ [a])"

lemma readback_run:
  assumes "count_awaited D d" "hears (count_frame n) (T0, f0, e0)" "length (substance f0) = 1"
    and "0 < n" "n \<le> ROUTE_MAX_WAYPOINTS" "T0 < D" "D \<le> T0 + 3000"
    and "list_all (hears item_frame) rs" "hears item_frame (Tn, gs @ [f], en)" "\<not> chatter f"
    and "length (told (rs @ [(Tn, gs @ [f], en)])) = n" "in_time 3000 T0 (rs @ [(Tn, gs @ [f], en)])"
  shows "readbacks (snd (bridge_loop (readback_dialogue e0 rs (Tn, gs @ [f], en)) d)) =
      [readback_packet (b_MissionReadbackSeq d + 1) (of_nat Tn) (map carried (told (rs @ [(Tn, gs @ [f], en)])))
        (b_FcMissionReadbackWaypoints d)] \<and>
    mission_talk (snd (bridge_loop (readback_dialogue e0 rs (Tn, gs @ [f], en)) d)) =
      map Request_Item [0..<n] @ [Mission_Accepted] \<and>
    b_MissionDownloadState (fst (bridge_loop (readback_dialogue e0 rs (Tn, gs @ [f], en)) d)) = DOWNLOAD_IDLE"
proof -
  obtain g where g: "substance f0 = [g]" using assms(3) by (auto simp: length_Suc_conv)
  have run: "b_RunStatus d = APP_RUN" using assms(1) by (simp add: count_awaited_def)
  have d: "count_awaited D (d\<lparr> b_Env := e0 \<rparr>)" using assms(1) by (simp add: count_awaited_def)
  have e: "talk_env T0 (frames_stream f0) (b_Env (d\<lparr> b_Env := e0 \<rparr>))" "list_all rx_fits f0" "count_frame n g"
    using assms(2) g by (simp_all add: hears_def)
  note c = count_turn[OF d e(1) assms(6,7) e(2) g e(3) assms(4,5)]
  have k: "Suc (length ([] :: ROUTE_WAYPOINT list) + length (told rs) + length (substance gs)) = n"
    using assms(10,11) by (simp add: told_def)
  have n: "[0..<n] = 0 # [Suc 0..<n]" using assms(4) by (simp add: upt_rec)
  show ?thesis
    using c download_run[OF c[THEN conjunct1] assms(8-10) k assms(12)] run
    by (simp add: readback_dialogue_def loop_timeout n del: bridge_loop.simps(2) upt_Suc)
qed

section \<open>A flight controller that holds one waypoint\<close>

definition demo_waiting :: MAVLINK_BRIDGE_APP_Data where
  "demo_waiting = begin_download 8000 demo_linked"

definition demo_count :: "mav_rx list" where
  "demo_count = [demo_frame_of MSG_ID_MISSION_COUNT [1, 0, 255, 190], demo_frame_of MSG_ID_ATTITUDE (replicate 28 0)]"

definition demo_item :: mav_rx where
  "demo_item = demo_frame_of MSG_ID_MISSION_ITEM_INT (replicate 30 0 @ [16, 0, 255, 190, 3, 0, 1])"

lemma demo_readback_holds:
  "count_awaited 11000 demo_waiting" "hears (count_frame 1) (9000, demo_count, talk_at 9 demo_count)"
  "length (substance demo_count) = 1" "hears item_frame (10000, [] @ [demo_item], talk_at 10 [demo_item])" "\<not> chatter demo_item"
proof -
  show "count_awaited 11000 demo_waiting"
    by (simp add: count_awaited_def demo_waiting_def begin_download_def demo_linked_def bridge_initial_def)
  show "length (substance demo_count) = 1" "\<not> chatter demo_item"
    by (simp_all add: demo_count_def demo_item_def chatter_def)
  have e: "talk_env 9000 (frames_stream fs) (talk_at 9 fs)" "talk_env 10000 (frames_stream fs) (talk_at 10 fs)" for fs
    by (rule talk_at_env, simp add: GetTimeMs_def time_ms64_def)+
  show "hears (count_frame 1) (9000, demo_count, talk_at 9 demo_count)"
      "hears item_frame (10000, [] @ [demo_item], talk_at 10 [demo_item])"
    by (simp_all add: hears_def e) (simp_all add: demo_count_def demo_item_def count_frame_def item_frame_def
        chatter_def get_u16_def byte_at_def)
qed

lemma carried_demo: "carried demo_item = wp_zero\<lparr> wp_CmdType := 16 \<rparr>"
  by (simp add: carried_def demo_item_def downloaded_waypoint_def wp_zero_def get_u32_def get_u16_def byte_at_def nth_append)

lemma demo_carried: "map carried (told ([] @ [(10000, [] @ [demo_item], talk_at 10 [demo_item])])) = [wp_zero\<lparr> wp_CmdType := 16 \<rparr>]"
  by (simp add: carried_demo demo_readback_holds(5))

text \<open>C16: a read-back publishes the mission of the flight controller.  After the mission was asked
  for, and while the flight controller tells its number n of items (1 to 37) and sends n items, any
  number of them in one turn and among whatever telemetry and damaged frames, each less than 3 s after
  the one before, mavlink_bridge_app asks for the items 0 to n - 1 in order, acknowledges the last and
  reports one mission: with the next read-back number, the time of the last turn, and exactly the
  waypoints of the items in the order they came (the number an item carries is not looked at).\<close>

theorem bridge_readback_published:
  assumes "count_awaited D d" "hears (count_frame n) (T0, f0, e0)" "length (substance f0) = 1"
    and "0 < n" "n \<le> ROUTE_MAX_WAYPOINTS" "T0 < D" "D \<le> T0 + 3000"
    and "list_all (hears item_frame) rs" "hears item_frame (Tn, gs @ [f], en)" "\<not> chatter f"
    and "length (told (rs @ [(Tn, gs @ [f], en)])) = n" "in_time 3000 T0 (rs @ [(Tn, gs @ [f], en)])"
  shows "readbacks (snd (bridge_loop (readback_dialogue e0 rs (Tn, gs @ [f], en)) d)) =
      [readback_packet (b_MissionReadbackSeq d + 1) (of_nat Tn) (map carried (told (rs @ [(Tn, gs @ [f], en)])))
        (b_FcMissionReadbackWaypoints d)] \<and>
    mission_talk (snd (bridge_loop (readback_dialogue e0 rs (Tn, gs @ [f], en)) d)) =
      map Request_Item [0..<n] @ [Mission_Accepted] \<and>
    b_MissionDownloadState (fst (bridge_loop (readback_dialogue e0 rs (Tn, gs @ [f], en)) d)) = DOWNLOAD_IDLE"
  using readback_run[OF assms] by simp

lemma bridge_readback_published_witness:
  "readbacks (snd (bridge_loop (readback_dialogue (talk_at 9 demo_count) []
      (10000, [] @ [demo_item], talk_at 10 [demo_item])) demo_waiting)) =
    [readback_packet 1 10000 [wp_zero\<lparr> wp_CmdType := 16 \<rparr>] (replicate ROUTE_MAX_WAYPOINTS wp_zero)]"
proof -
  have "b_MissionReadbackSeq demo_waiting = 0"
    "b_FcMissionReadbackWaypoints demo_waiting = replicate ROUTE_MAX_WAYPOINTS wp_zero"
    by (simp_all add: demo_waiting_def begin_download_def demo_linked_def bridge_initial_def)
  moreover have "length (told ([] @ [(10000, [] @ [demo_item], talk_at 10 [demo_item])])) = 1"
    using arg_cong[OF demo_carried, of length] by (simp del: append_Nil)
  note bridge_readback_published[OF demo_readback_holds(1-3) _ _ _ _ _ demo_readback_holds(4,5) this]
  ultimately show ?thesis by (simp add: carried_demo demo_readback_holds(5))
qed

end
