(* ===== verification/Bridge_Config.thy ===== *)
theory Bridge_Config
  imports Bridge_Loop Config_Receiver State_File
begin

text \<open>
  The configuration of mavlink_bridge_app: its state file, its part of the contract of the
  CONFIG command, and the ranges of its parameters over any run.
\<close>

section \<open>State file\<close>

lemma bps_roundtrip: "bps_of_bytes (bps_bytes s) = s" "length (bps_bytes s) = 40"
proof -
  have "put_u32 a @ [b, 0, 0, 0] @ xs = put_u32 a @ (b # 0 # 0 # 0 # xs)" for a b xs by simp
  then show "bps_of_bytes (bps_bytes s) = s" "length (bps_bytes s) = 40"
    by (cases s; cases "bps_ActiveConfig s";
        simp add: bps_of_bytes_def bps_bytes_def config_bytes_def get_u32_append2 byte_at_append2)+
qed

definition bridge_saved :: "MAVLINK_BRIDGE_APP_Data \<Rightarrow> MAVLINK_BRIDGE_APP_PersistentState" where
  "bridge_saved d =
     (let s = \<lparr> bps_Magic = BRIDGE_STATE_MAGIC, bps_ConfigVersion = BRIDGE_CONFIG_VERSION,
                bps_ActiveConfig = b_ActiveConfig d, bps_Checksum = 0 \<rparr>
      in s\<lparr> bps_Checksum := MAVLINK_BRIDGE_APP_ComputeStateChecksum s \<rparr>)"

lemma bridge_file_saved: "bridge_file d = bps_bytes (bridge_saved d)"
  by (simp add: bridge_file_def bridge_saved_def Let_def)

interpretation bridge_file: state_file bridge_file MAVLINK_BRIDGE_APP_LoadState b_ActiveConfig b_ActiveConfig
proof
  fix d d0
  have "MAVLINK_BRIDGE_APP_ComputeStateChecksum (bridge_saved d) = bps_Checksum (bridge_saved d)"
    by (simp add: bridge_saved_def MAVLINK_BRIDGE_APP_ComputeStateChecksum_def Let_def)
  moreover have "bps_Magic (bridge_saved d) = BRIDGE_STATE_MAGIC"
    "bps_ConfigVersion (bridge_saved d) = BRIDGE_CONFIG_VERSION"
    "bps_ActiveConfig (bridge_saved d) = b_ActiveConfig d"
    by (simp_all add: bridge_saved_def Let_def)
  ultimately show "b_ActiveConfig (fst (MAVLINK_BRIDGE_APP_LoadState (Contents (bridge_file d)) d0)) = b_ActiveConfig d"
    by (simp add: MAVLINK_BRIDGE_APP_LoadState_def bridge_file_saved bps_roundtrip Let_def)
  show "MAVLINK_BRIDGE_APP_LoadState No_File d0 = (d0, [])"
    by (simp add: MAVLINK_BRIDGE_APP_LoadState_def)
qed

section \<open>The contract of the command\<close>

lemma exec_results_bridge_save [simp]: "exec_results (MAVLINK_BRIDGE_APP_SaveState d) = []"
  by (simp add: MAVLINK_BRIDGE_APP_SaveState_def save_file_def)

interpretation bridge_receiver: config_receiver MAVLINK_BRIDGE_APP_ProcessConfigCommand BRIDGE_CONFIG_SCOPE
  SOURCE_MAVLINK_BRIDGE b_ActiveConfig
proof
  fix m d
  assume h: "has_config_header m"
  have scope: "cp_ConfigScope (config_hdr (cc_Payload m)) = config_scope m"
    by (simp add: config_hdr_def config_scope_def)
  have long: "\<not> cc_PayloadLength m < 8" using h by (auto simp: has_config_header_def)
  show "config_scope m \<noteq> BRIDGE_CONFIG_SCOPE \<Longrightarrow>
      exec_results (snd (MAVLINK_BRIDGE_APP_ProcessConfigCommand m d)) = [] \<and>
      b_ActiveConfig (fst (MAVLINK_BRIDGE_APP_ProcessConfigCommand m d)) = b_ActiveConfig d"
    using long by (simp add: MAVLINK_BRIDGE_APP_ProcessConfigCommand_def Let_def scope)
  show "config_scope m = BRIDGE_CONFIG_SCOPE \<Longrightarrow>
      \<exists>r. exec_results (snd (MAVLINK_BRIDGE_APP_ProcessConfigCommand m d)) = [r] \<and>
        er_SourceSequence r = cc_SourceSequence m \<and> er_SourceApp r = source_val SOURCE_MAVLINK_BRIDGE \<and>
        er_CommandClass r = 1 \<and>
        (er_GenericResult r = EXEC_RESULT_GENERIC_OK \<or>
         b_ActiveConfig (fst (MAVLINK_BRIDGE_APP_ProcessConfigCommand m d)) = b_ActiveConfig d)"
    using long
    by (simp add: MAVLINK_BRIDGE_APP_ProcessConfigCommand_def Let_def scope bridge_exec_result_def
        bridge_config_reject_def split: sum.split)
qed

section \<open>Ranges\<close>

definition bridge_range :: "MAVLINK_BRIDGE_APP_ConfigParams \<Rightarrow> bool" where
  "bridge_range c \<longleftrightarrow>
     (\<forall>v\<in>{bp_AttitudeIntervalUs c, bp_LocalPositionIntervalUs c, bp_GlobalPositionIntervalUs c,
          bp_GpsRawIntervalUs c, bp_EkfStatusIntervalUs c}.
        PARAM_INTERVAL_MIN_US \<le> v \<and> v \<le> PARAM_INTERVAL_MAX_US) \<and>
     (\<forall>v\<in>{bp_ReconnectIntervalMs c, bp_HeartbeatIntervalMs c}. PARAM_MS_MIN \<le> v \<and> v \<le> PARAM_MS_MAX)"

lemma bridge_param_update_range:
  "bridge_range c \<Longrightarrow> bridge_param_update n v c = Inr c' \<Longrightarrow> bridge_range c'"
  by (auto simp: bridge_param_update_def bridge_range_def Let_def not_less split: if_splits)

lemma bridge_config_range:
  assumes "bridge_range (b_ActiveConfig d)"
  shows "bridge_range (b_ActiveConfig (fst (MAVLINK_BRIDGE_APP_ProcessConfigCommand m d)))"
  using assms
  by (auto simp: MAVLINK_BRIDGE_APP_ProcessConfigCommand_def Let_def bridge_config_reject_def
      split: sum.split dest: bridge_param_update_range)

lemma bridge_default_range: "bridge_range bridge_default_config"
  by (simp add: bridge_range_def bridge_default_config_def)

end
