(* ===== verification/Ground.thy ===== *)
theory Ground
  imports Lora_Readback
begin

text \<open>
  The ground station's side of the downlink (\<^verbatim>\<open>bridge/lora_downlink_decoder.py\<close>): the parser of the
  byte stream (\<^verbatim>\<open>DownlinkStream\<close>), which holds an unfinished frame over to the next read, and the
  loop of \<^verbatim>\<open>main\<close> that acknowledges frames.  Its partner is lora_tdm_app: whatever a run of it
  writes, in pieces of any size, comes out of the parser frame by frame and line by line.
\<close>

section \<open>Incremental parsers\<close>

text \<open>A parser that is called again and again on a buffer: it says what it saw and how many bytes it
  used up, none as long as the buffer is too short.  A \<^verbatim>\<open>chunk\<close> is what is cut out whole.\<close>

fun feed_pieces :: "('a list \<Rightarrow> 'e list \<times> 'a list) \<Rightarrow> 'a list list \<Rightarrow> 'a list \<Rightarrow> 'e list \<times> 'a list" where
  "feed_pieces f [] b = ([], b)"
| "feed_pieces f (p # ps) b = (let (es, b) = f (b @ p); (es', b) = feed_pieces f ps b in (es @ es', b))"

locale rescanner =
  fixes scan :: "'a list \<Rightarrow> 'e option \<times> nat" and rescan :: "'a list \<Rightarrow> 'e list \<times> 'a list"
    and chunk :: "'a list \<Rightarrow> bool" and meaning :: "'a list \<Rightarrow> 'e"
  assumes rescan: "rescan b = (let (e, n) = scan b in if n = 0 then ([], b)
      else let (es, r) = rescan (drop n b) in (case_option [] (\<lambda>x. [x]) e @ es, r))"
    and whole: "chunk b \<Longrightarrow> scan (b @ r) = (Some (meaning b), length b)"
    and part: "chunk b \<Longrightarrow> k < length b \<Longrightarrow> scan (take k b) = (None, 0)"
    and chunk_nonempty: "chunk b \<Longrightarrow> b \<noteq> []"
    and scan_empty: "scan [] = (None, 0)"
begin

lemma rescan_chunk: "chunk b \<Longrightarrow> rescan (b @ r) = (let (es, r') = rescan r in (meaning b # es, r'))"
  using chunk_nonempty[of b] by (subst rescan) (simp add: whole Let_def)

lemma rescan_part: "chunk b \<Longrightarrow> k < length b \<Longrightarrow> rescan (take k b) = ([], take k b)"
  by (subst rescan) (simp add: part Let_def)

text \<open>Fed a prefix of a stream of chunks it reports the whole chunks of it and keeps the rest, of
  which nothing can be cut yet.\<close>

lemma rescan_prefix:
  "list_all chunk bs \<Longrightarrow> p @ q = concat bs \<Longrightarrow>
     \<exists>ds ts r. bs = ds @ ts \<and> rescan p = (map meaning ds, r) \<and> r @ q = concat ts \<and>
       rescan r = ([], r) \<and> (q = [] \<longrightarrow> ts = [])"
proof (induction bs arbitrary: p)
  case Nil
  have "rescan [] = ([], [])" by (subst rescan) (simp add: scan_empty)
  then show ?case using Nil by simp
next
  case (Cons b bs)
  show ?case
  proof (cases "length p < length b")
    case True
    then have "p = take (length p) b" using Cons.prems(2) by (simp add: append_eq_append_conv_if)
    then have "rescan p = ([], p)" using rescan_part[of b "length p"] True Cons.prems(1) by simp
    moreover have "q \<noteq> []" using True Cons.prems(2) by (auto dest: arg_cong[of _ _ length])
    ultimately show ?thesis
      using Cons.prems(2) by (intro exI[of _ "[]"] exI[of _ "b # bs"] exI[of _ p]) simp
  next
    case False
    obtain p' where p: "p = b @ p'" "p' @ q = concat bs"
      using Cons.prems(2) False by (auto simp: append_eq_append_conv2)
    then obtain ds ts r where i: "bs = ds @ ts" "rescan p' = (map meaning ds, r)"
      "r @ q = concat ts" "rescan r = ([], r)" "q = [] \<longrightarrow> ts = []"
      using Cons.IH[OF _ p(2)] Cons.prems(1) by auto
    have "rescan p = (map meaning (b # ds), r)"
      using rescan_chunk[of b p'] Cons.prems(1) i(2) by (simp add: p(1))
    then show ?thesis using i by (intro exI[of _ "b # ds"] exI[of _ ts] exI[of _ r]) simp
  qed
qed

text \<open>So does it however the stream is cut into pieces.\<close>

lemma rescan_pieces:
  "list_all chunk bs \<Longrightarrow> b @ concat ps = concat bs \<Longrightarrow> rescan b = ([], b) \<Longrightarrow>
     feed_pieces rescan ps b = (map meaning bs, [])"
proof (induction ps arbitrary: b bs)
  case Nil
  then show ?case using rescan_prefix[of bs b "[]"] by (auto dest: arg_cong[of _ _ concat])
next
  case (Cons p ps)
  obtain ds ts r where r: "bs = ds @ ts" "rescan (b @ p) = (map meaning ds, r)" "r @ concat ps = concat ts"
    "rescan r = ([], r)"
    using rescan_prefix[of bs "b @ p" "concat ps"] Cons.prems by auto
  have "feed_pieces rescan ps r = (map meaning ts, [])"
    using Cons.IH[OF _ r(3,4)] Cons.prems(1) r(1) by simp
  then show ?case using r by simp
qed

end

section \<open>The parser of the downlink\<close>

text \<open>\<^verbatim>\<open>crc16_ccitt\<close> on Python's integers.\<close>

definition ground_crc_bit :: "int \<Rightarrow> int" where
  "ground_crc_bit crc =
     (if crc AND 0x8000 \<noteq> 0 then (push_bit 1 crc XOR 0x1021) AND 0xFFFF else push_bit 1 crc AND 0xFFFF)"

definition crc16_ccitt :: "u8 list \<Rightarrow> int" where
  "crc16_ccitt data = foldl (\<lambda>crc b. (ground_crc_bit ^^ 8) (crc XOR push_bit 8 (uint b))) 0xFFFF data"

datatype decode_error =
    Unexpected_Magic u8
  | Garbage_Byte u8
  | Bad_Dl2_Len u8
  | Dl2_Crc_Fail "u8 list"
  | Garbage_Before_Magic nat
  | V1_Line_Overflow

text \<open>The text of a line is a list of Unicode code points.\<close>

datatype ground_event = Dl2 Dl2Frame | V1Line "nat list" | DecodeError decode_error

definition find_byte :: "u8 \<Rightarrow> u8 list \<Rightarrow> nat option" where
  "find_byte c bs = (if c \<in> set bs then Some (length (takeWhile (\<lambda>b. b \<noteq> c) bs)) else None)"

text \<open>\<^verbatim>\<open>decode("ascii", errors="replace").strip("\r")\<close>\<close>

definition v1_text :: "u8 list \<Rightarrow> nat list" where
  "v1_text bs =
     (let t = map (\<lambda>b. if b < 128 then unat b else 0xFFFD) bs
      in rev (dropWhile (\<lambda>c. c = 13) (rev (dropWhile (\<lambda>c. c = 13) t))))"

definition try_parse_dl2 :: "u8 list \<Rightarrow> ground_event option \<times> nat" where
  "try_parse_dl2 buf =
     (if length buf < 2 then (None, 0)
      else let body_len = buf ! 1; total = unat body_len + 2; frame = take total buf in
        if unat body_len < DL2_BASE_LEN + DL2_TAIL_LEN \<or>
           unat body_len > DL2_BASE_LEN + DL2_SYSTIME_BLOCK_LEN + DL2_TAIL_LEN + DL2_WAYPOINT_BLOCK_LEN
        then (Some (DecodeError (Bad_Dl2_Len body_len)), 1)
        else if length buf < total then (None, 0)
        else if crc16_ccitt (take (unat body_len) frame) \<noteq> uint (get_u16 frame (unat body_len))
        then (Some (DecodeError (Dl2_Crc_Fail (take 2 (drop 2 frame)))), 1)
        else (Some (Dl2 (decode_dl2 frame)), total))"

definition MAX_V1_LINE :: nat where "MAX_V1_LINE = 256"

definition try_parse_v1_line :: "u8 list \<Rightarrow> ground_event option \<times> nat" where
  "try_parse_v1_line buf =
     (case (find_byte 10 buf, find_byte DL2_MAGIC buf) of
        (None, Some magic) \<Rightarrow> (Some (DecodeError (Garbage_Before_Magic magic)), magic)
      | (None, None) \<Rightarrow>
          if length buf > MAX_V1_LINE then (Some (DecodeError V1_Line_Overflow), length buf) else (None, 0)
      | (Some nl, m) \<Rightarrow>
          if (case m of Some magic \<Rightarrow> magic < nl | None \<Rightarrow> False)
          then (Some (DecodeError (Garbage_Before_Magic (the m))), the m)
          else (Some (V1Line (v1_text (take nl buf))), nl + 1))"

definition try_parse :: "u8 list \<Rightarrow> ground_event option \<times> nat" where
  "try_parse buf =
     (if buf = [] then (None, 0)
      else let first = buf ! 0 in
        if first = DL2_MAGIC then try_parse_dl2 buf
        else if first = UP2_MAGIC \<or> first = ACK2_MAGIC then (Some (DecodeError (Unexpected_Magic first)), 1)
        else if (0x20 \<le> first \<and> first < 0x7F) \<or> first = 10 \<or> first = 13 then try_parse_v1_line buf
        else (Some (DecodeError (Garbage_Byte first)), 1))"

text \<open>The loop of \<^verbatim>\<open>feed\<close>: it ends because every round but the last one uses up a byte.\<close>

function stream_feed :: "u8 list \<Rightarrow> ground_event list \<times> u8 list" where
  "stream_feed buf =
     (let (event, consumed) = try_parse buf in
      if consumed = 0 then ([], buf)
      else let (events, rest) = stream_feed (drop consumed buf)
           in (case_option [] (\<lambda>e. [e]) event @ events, rest))"
  by pat_completeness auto
termination
  by (relation "measure length") (auto simp: try_parse_def split: if_splits)

declare stream_feed.simps [simp del]

text \<open>\<^verbatim>\<open>main\<close>: the answers to what one read brought, and the loop over the reads (a read that
  timed out is empty).\<close>

definition ground_answers :: "ground_event list \<Rightarrow> u8 list list" where
  "ground_answers es = List.map_filter (\<lambda>e. case e of Dl2 f \<Rightarrow> Some (ack2_bytes (dl_seq f)) | _ \<Rightarrow> None) es"

fun ground_main :: "bool \<Rightarrow> u8 list list \<Rightarrow> u8 list \<Rightarrow> ground_event list \<times> u8 list list \<times> u8 list" where
  "ground_main no_ack [] buf = ([], [], buf)"
| "ground_main no_ack (chunk # chunks) buf =
     (if chunk = [] then ground_main no_ack chunks buf
      else let (events, buf) = stream_feed (buf @ chunk);
               (events', writes, buf) = ground_main no_ack chunks buf
           in (events @ events', (if no_ack then [] else ground_answers events) @ writes, buf))"

section \<open>The checksum\<close>

unbundle bit_operations_syntax

lemma mask16: "x AND 0xFFFF = take_bit 16 (x :: int)"
  by (simp add: take_bit_eq_mask mask_eq_exp_minus_1)

lemma ground_crc_bit_uint: "ground_crc_bit (uint c) = uint (crc16_bit c)"
proof -
  have "uint c AND 0x8000 = uint (c AND 0x8000)" by (simp add: unsigned_and_eq)
  then have "uint c AND 0x8000 \<noteq> 0 \<longleftrightarrow> c AND 0x8000 \<noteq> 0" by (simp add: uint_0_iff)
  moreover have "take_bit 16 (push_bit 1 (uint c)) = uint (push_bit 1 c)"
    by (simp only: unsigned_push_bit_eq) simp
  moreover have "take_bit 16 (0x1021 :: int) = uint (0x1021 :: u16)" by simp
  ultimately show ?thesis
    unfolding ground_crc_bit_def crc16_bit_def mask16
    by (simp only: take_bit_xor unsigned_xor_eq if_distrib[of uint])
qed

lemma crc16_ccitt_uint: "crc16_ccitt bs = uint (LORA_TDM_APP_Crc16 bs)"
proof -
  have b: "(ground_crc_bit ^^ n) (uint c) = uint (crc16_bits n c)" for n c
    by (induction n arbitrary: c) (simp_all add: funpow_Suc_right ground_crc_bit_uint del: funpow.simps(2))
  have s: "uint c XOR push_bit 8 (uint b) = uint (c XOR push_bit 8 (ucast b :: u16))" for c :: u16 and b :: u8
  proof -
    have "uint b < 256" using uint_lt2p[of b] by simp
    then have "uint (ucast b :: u16) = uint b" "uint b * 256 < 65536"
      by (simp_all add: unsigned_ucast_eq take_bit_int_eq_self)
    moreover have "uint (push_bit 8 (ucast b :: u16)) = take_bit 16 (push_bit 8 (uint (ucast b :: u16)))"
      by (simp only: unsigned_push_bit_eq) simp
    ultimately have "uint (push_bit 8 (ucast b :: u16)) = push_bit 8 (uint b)"
      by (simp only:) (simp add: push_bit_eq_mult take_bit_int_eq_self)
    then show ?thesis by (simp add: unsigned_xor_eq)
  qed
  have "foldl (\<lambda>crc b. (ground_crc_bit ^^ 8) (crc XOR push_bit 8 (uint b))) (uint c) bs = uint (foldl crc16_byte c bs)" for c
    by (induction bs arbitrary: c) (simp_all add: s b crc16_byte_def)
  from this[of "0xFFFF"] show ?thesis by (simp add: crc16_ccitt_def LORA_TDM_APP_Crc16_def)
qed

section \<open>What lora_tdm_app writes\<close>

definition intact_frame :: "u8 list \<Rightarrow> bool" where
  "intact_frame b \<longleftrightarrow> 50 \<le> length b \<and> length b \<le> 88 \<and> length b = unat (byte_at b 1) + 2 \<and> byte_at b 0 = DL2_MAGIC \<and>
     get_u16 b (unat (byte_at b 1)) = LORA_TDM_APP_Crc16 (take (unat (byte_at b 1)) b)"

definition plain :: "u8 \<Rightarrow> bool" where
  "plain c \<longleftrightarrow> 0x20 \<le> c \<and> c < 0x7F"

definition intact_line :: "u8 list \<Rightarrow> bool" where
  "intact_line b \<longleftrightarrow> b \<noteq> [] \<and> last b = 10 \<and> list_all plain (butlast b) \<and> length b \<le> MAX_V1_LINE"

definition event_of :: "u8 list \<Rightarrow> ground_event" where
  "event_of b = (if byte_at b 0 = DL2_MAGIC then Dl2 (decode_dl2 b) else V1Line (map unat (butlast b)))"

lemma nth_byte_at: "i < length b \<Longrightarrow> b ! i = byte_at b i"
  by (simp add: byte_at_def)

lemma frame_whole:
  assumes "intact_frame b"
  shows "try_parse (b @ r) = (Some (event_of b), length b)"
proof -
  have l: "50 \<le> length b" "length b \<le> 88" "unat (byte_at b 1) = length b - 2"
    using assms by (auto simp: intact_frame_def)
  then have n: "(b @ r) ! 0 = byte_at b 0" "(b @ r) ! 1 = byte_at b 1" "b @ r \<noteq> []" "length (b @ r) \<ge> 2"
    by (auto simp: nth_append nth_byte_at)
  then show ?thesis
    using assms l
    by (simp add: try_parse_def try_parse_dl2_def Let_def crc16_ccitt_uint event_of_def intact_frame_def)
qed

lemma frame_part:
  assumes "intact_frame b" "k < length b"
  shows "try_parse (take k b) = (None, 0)"
proof -
  have l: "50 \<le> length b" "length b \<le> 88" "unat (byte_at b 1) = length b - 2"
    using assms by (auto simp: intact_frame_def)
  have "try_parse_dl2 (take k b) = (None, 0)"
  proof (cases "k < 2")
    case False
    then have "take k b ! 1 = byte_at b 1" using assms(2) by (simp add: nth_byte_at)
    then show ?thesis using l assms(2) False by (auto simp: try_parse_dl2_def Let_def)
  qed (use assms(2) in \<open>simp add: try_parse_dl2_def\<close>)
  moreover have "take k b ! 0 = DL2_MAGIC" if "k > 0"
    using assms that by (simp add: nth_byte_at intact_frame_def)
  ultimately show ?thesis by (cases "k = 0") (auto simp: try_parse_def Let_def)
qed

lemma takeWhile_newline: "10 \<notin> set l \<Longrightarrow> takeWhile (\<lambda>b. b \<noteq> 10) (l @ 10 # r) = (l :: u8 list)"
  by (induction l) auto

lemma plain_chars: "plain c \<Longrightarrow> c \<noteq> 10 \<and> c \<noteq> 13 \<and> c \<noteq> DL2_MAGIC \<and> c \<noteq> UP2_MAGIC \<and> c \<noteq> ACK2_MAGIC \<and> c < 128"
  by (auto simp: plain_def word_less_nat_alt word_le_nat_alt)

lemma plain_line:
  assumes "list_all plain l"
  shows "10 \<notin> set l" "DL2_MAGIC \<notin> set l" "v1_text l = map unat l"
proof -
  show "10 \<notin> set l" "DL2_MAGIC \<notin> set l" using assms plain_chars by (auto simp: list_all_iff)
  have m: "map (\<lambda>b. if b < 128 then unat b else 0xFFFD) l = map unat l"
    using assms plain_chars by (auto simp: list_all_iff)
  have "unat c \<noteq> 13" if "c \<in> set l" for c
    using assms plain_chars[of c] that word_unat_eq_iff[of c 13] by (auto simp: list_all_iff)
  then have "13 \<notin> set (map unat l)" by auto
  moreover have "dropWhile (\<lambda>c. c = 13) xs = xs" if "13 \<notin> set xs" for xs :: "nat list"
    using that by (cases xs) auto
  ultimately show "v1_text l = map unat l" using m by (simp only: v1_text_def Let_def) simp
qed

lemma intact_line_butlast: "intact_line b \<Longrightarrow> \<exists>l. b = l @ [10] \<and> list_all plain l \<and> length l < MAX_V1_LINE"
  by (cases b rule: rev_cases) (auto simp: intact_line_def)

lemma first_char: "list_all plain l \<Longrightarrow> l @ 10 # r = c # cs \<Longrightarrow> plain c \<or> c = 10"
  by (cases l) auto

lemma line_whole:
  assumes "intact_line b"
  shows "try_parse (b @ r) = (Some (event_of b), length b)"
proof -
  obtain l where l: "b = l @ [10]" "list_all plain l" using intact_line_butlast[OF assms] by blast
  note p = plain_line[OF l(2)]
  have m: "case find_byte DL2_MAGIC (l @ 10 # r) of None \<Rightarrow> True | Some m \<Rightarrow> length l < m"
    using p(2) by (auto simp: find_byte_def takeWhile_append)
  obtain c cs where c: "l @ 10 # r = c # cs" by (cases "l @ 10 # r") auto
  have "find_byte 10 (l @ 10 # r) = Some (length l)"
    using p(1) by (simp add: find_byte_def takeWhile_newline)
  then have "try_parse_v1_line (l @ 10 # r) = (Some (V1Line (v1_text l)), length l + 1)"
    using m by (auto simp: try_parse_v1_line_def split: option.splits)
  moreover have "try_parse (l @ 10 # r) = try_parse_v1_line (l @ 10 # r)"
    using first_char[OF l(2) c] plain_chars[of c] unfolding c by (auto simp: try_parse_def plain_def)
  moreover have "byte_at (l @ [10]) 0 \<noteq> DL2_MAGIC" using plain_chars l(2) by (cases l) (auto simp: byte_at_def)
  ultimately show ?thesis using p(3) by (simp add: l(1) event_of_def)
qed

lemma line_part:
  assumes "intact_line b" "k < length b"
  shows "try_parse (take k b) = (None, 0)"
proof -
  obtain l where l: "b = l @ [10]" "list_all plain l" "length l < MAX_V1_LINE"
    using intact_line_butlast[OF assms(1)] by blast
  let ?t = "take k b"
  have t: "list_all plain ?t" "length ?t \<le> MAX_V1_LINE" using l assms(2) by (auto simp: list_all_iff dest: in_set_takeD)
  have "try_parse_v1_line ?t = (None, 0)"
    using plain_line[OF t(1)] t(2) by (auto simp: try_parse_v1_line_def find_byte_def)
  moreover have "plain (?t ! 0)" if "?t \<noteq> []" using that t(1) by (cases ?t) auto
  ultimately show ?thesis
    using plain_chars[of "?t ! 0"] by (cases "?t = []") (auto simp: try_parse_def plain_def Let_def simp del: nth_take take_eq_Nil)
qed

definition transmission :: "u8 list \<Rightarrow> bool" where
  "transmission b \<longleftrightarrow> intact_frame b \<or> intact_line b"

interpretation downlink: rescanner try_parse stream_feed transmission event_of
proof
  show "transmission b \<Longrightarrow> b \<noteq> []" for b by (auto simp: transmission_def intact_frame_def intact_line_def)
  show "stream_feed b = (let (e, n) = try_parse b in if n = 0 then ([], b)
      else let (es, r) = stream_feed (drop n b) in (case_option [] (\<lambda>x. [x]) e @ es, r))" for b
    by (rule stream_feed.simps)
qed (auto simp: transmission_def frame_whole frame_part line_whole line_part, simp add: try_parse_def)


section \<open>The lines and frames of a run\<close>

lemma plain_digits: "list_all plain (dec_digits n)"
proof (induction n rule: dec_digits.induct)
  case (1 n)
  have d: "plain (48 + of_nat k)" if "k < 10" for k
    using that by (auto simp: plain_def word_le_nat_alt word_less_nat_alt unat_of_nat unat_word_ariths)
  show ?case
    using 1 d[of n] d[of "n mod 10"] by (subst dec_digits.simps) simp
qed

lemma plain_fmt: "list_all plain (fmt_u w)" "list_all plain (fmt_d i)" "list_all plain (fmt_f4 f)"
  "list_all plain (ascii ''FC'')" "list_all plain (ascii ''SH'')"
  using plain_digits
  by (auto simp: fmt_u_def fmt_d_def fmt_f4_def ascii_def Let_def plain_def list_all_iff in_set_replicate)

lemma plain_join: "list_all (list_all plain) fs \<Longrightarrow> list_all plain (join_fields fs)"
  by (induction fs rule: join_fields.induct) (simp_all add: plain_def)

lemma line_intact: "line_of LINE_BUF_LEN fs = Some b \<Longrightarrow> list_all (list_all plain) fs \<Longrightarrow> intact_line b"
  using plain_join[of fs] by (auto simp: line_of_def intact_line_def MAX_V1_LINE_def Let_def split: if_splits)

definition downlink_line :: "LORA_TDM_APP_Data \<Rightarrow> u8 list option" where
  "downlink_line d =
     (if l_DownlinkSeq d mod 2 = 0 then LORA_TDM_APP_BuildFcDownlinkLine LINE_BUF_LEN d
      else LORA_TDM_APP_BuildShDownlinkLine LINE_BUF_LEN d)"

lemma downlink_line_intact: "downlink_line d = Some b \<Longrightarrow> intact_line b"
  unfolding downlink_line_def LORA_TDM_APP_BuildFcDownlinkLine_def LORA_TDM_APP_BuildShDownlinkLine_def Let_def
  by (auto split: if_splits elim!: line_intact simp: plain_fmt)

lemma built_intact:
  assumes "route_inv d" "LORA_TDM_APP_BuildDl2Frame nan DL2_MAX_FRAME_LEN d = Some b"
  shows "intact_frame b \<and> event_of b = Dl2 (downlinked nan d)"
proof -
  have "byte_at b 0 = DL2_MAGIC"
    using assms(2) by (auto simp: BuildDl2Frame_body dl2_body_def dl2_head_def Let_def)
  then show ?thesis
    using lora_dl2_decodes[OF assms(1), of nan] assms(2) by (auto simp: intact_frame_def event_of_def)
qed

text \<open>What a cycle means the ground to hear: the state at the moment of transmission, as a frame or as a
  line.\<close>

definition tx_state :: "lora_cycle \<Rightarrow> LORA_TDM_APP_Data \<Rightarrow> LORA_TDM_APP_Data" where
  "tx_state cy d = fst (reopen cy (fst (drain (cy_msgs cy) d)))"

definition said :: "lora_cycle \<Rightarrow> LORA_TDM_APP_Data \<Rightarrow> ground_event list" where
  "said cy d =
     (if \<not> l_PortOpen d \<or> \<not> cy_write_ok cy then []
      else if l_UseV2Downlink d \<noteq> 0 then [Dl2 (downlinked (cy_nan cy) d)]
      else case downlink_line d of None \<Rightarrow> [] | Some b \<Rightarrow> [V1Line (map unat (butlast b))])"

fun said_in_run :: "lora_cycle list \<Rightarrow> LORA_TDM_APP_Data \<Rightarrow> ground_event list" where
  "said_in_run [] d = []"
| "said_in_run (cy # cys) d =
     (if l_RunStatus d \<noteq> APP_RUN then []
      else said cy (tx_state cy d) @ said_in_run cys (fst (LORA_TDM_APP_RunCycle cy d)))"

definition speaks :: "out list \<Rightarrow> ground_event list \<Rightarrow> bool" where
  "speaks os es \<longleftrightarrow> list_all transmission (serials os) \<and> map event_of (serials os) = es"

lemma speaks_append: "speaks os es \<Longrightarrow> speaks os' es' \<Longrightarrow> speaks (os @ os') (es @ es')"
  by (simp add: speaks_def)

lemma line_event: "intact_line b \<Longrightarrow> event_of b = V1Line (map unat (butlast b))"
  using line_whole[of b "[]"] intact_line_butlast[of b] plain_chars
  by (auto simp: event_of_def byte_at_def nth_append split: if_splits) (metis hd_conv_nth list.pred_inject(2) list.exhaust_sel)

lemma RunTx_speaks:
  assumes "route_inv d"
  shows "speaks (snd (LORA_TDM_APP_RunTx cy d)) (said cy d)"
proof (cases "l_UseV2Downlink d \<noteq> 0")
  case True
  obtain b where "LORA_TDM_APP_BuildDl2Frame (cy_nan cy) DL2_MAX_FRAME_LEN d = Some b"
    by (simp add: BuildDl2Frame_body)
  then show ?thesis
    using True built_intact[OF assms, of "cy_nan cy" b]
    by (simp add: LORA_TDM_APP_RunTx_def said_def speaks_def transmission_def Let_def)
next
  case False
  then show ?thesis
    using downlink_line_intact[of d] line_event
    by (auto simp: LORA_TDM_APP_RunTx_def said_def speaks_def transmission_def downlink_line_def Let_def
        split: option.split)
qed

section \<open>Runs\<close>

text \<open>Snapshots carry an array of 37 waypoints, as their C type says.\<close>

definition whole_snapshots :: "lora_cycle \<Rightarrow> bool" where
  "whole_snapshots cy \<longleftrightarrow>
     list_all (\<lambda>(env, m). case m of RouteSnapshot r \<Rightarrow> length (ru_Waypoints r) = ROUTE_MAX_WAYPOINTS | _ \<Rightarrow> True) (cy_msgs cy)"

definition silent_step :: "LORA_TDM_APP_Data \<times> out list \<Rightarrow> bool" where
  "silent_step r \<longleftrightarrow> serials (snd r) = []"

lemma packet_silent: "silent_step (LORA_TDM_APP_ProcessCommandPacket env m d)"
proof -
  have "serials (save_file e r bs) = []" for e r bs by (simp add: save_file_def split: save_outcome.split)
  then show ?thesis
    unfolding LORA_TDM_APP_ProcessCommandPacket_def
    by (cases m) (simp_all add: silent_step_def lora_cmd_defs Let_def LORA_TDM_APP_ProcessDiagnosticCommand_def
        LORA_TDM_APP_ReportHousekeeping_def LORA_TDM_APP_ReportLinkStatus_def LORA_TDM_APP_ProcessRouteSnapshot_def
        LORA_TDM_APP_SaveState_def)
qed

lemma drain_silent: "silent_step (drain ms d)"
proof (induction ms d rule: drain.induct)
  case (2 env m ms d)
  then show ?case
    using packet_silent[of env m d]
    by (cases "LORA_TDM_APP_ProcessCommandPacket env m d") (simp add: silent_step_def prepend_def case_prod_unfold)
qed (simp add: silent_step_def)

lemma reopen_silent: "silent_step (reopen cy d)"
  by (simp add: reopen_def silent_step_def Let_def)

lemma link_silent: "silent_step (LORA_TDM_APP_UpdateLinkState now d)"
  unfolding LORA_TDM_APP_UpdateLinkState_def Let_def by (simp add: silent_step_def)

lemma rx_byte_silent: "silent_step (rx_byte t c d)"
proof -
  have "serials (snd (LORA_TDM_APP_ProcessRxLine t b d')) = []"
       "serials (snd (LORA_TDM_APP_ProcessRxBinaryFrame t b d')) = []" for b d'
    unfolding LORA_TDM_APP_ProcessRxBinaryFrame_def LORA_TDM_APP_ProcessRxLine_def
      ProcessUpFrame_def ForwardUp2ToUplinkApp_def Let_def
    by (auto simp: forward_command_def up_error_def note_ack_def ack_error_def split: option.split prod.split)
  then show ?thesis
    unfolding rx_byte_def Let_def by (simp add: silent_step_def case_prod_unfold split: LORA_TDM_RxFrameMode.split)
qed

lemma window_silent: "silent_step (LORA_TDM_APP_RunRxWindow cy d)"
proof -
  have "silent_step (rx_loop D ps d)" for D ps d
  proof (induction ps arbitrary: d)
    case (Cons p ps)
    then show ?case
      using rx_byte_silent[of "GetTimeMs (rx_ack_now p)" _ d]
      by (cases "rx_result p") (auto simp: silent_step_def prepend_def case_prod_unfold Let_def)
  qed (simp add: silent_step_def)
  then show ?thesis
    unfolding LORA_TDM_APP_RunRxWindow_def by (simp add: silent_step_def Let_def case_prod_unfold)
qed

lemma drain_inv:
  "list_all (\<lambda>(env, m). case m of RouteSnapshot r \<Rightarrow> length (ru_Waypoints r) = ROUTE_MAX_WAYPOINTS | _ \<Rightarrow> True) ms \<Longrightarrow>
     route_inv d \<Longrightarrow> route_inv (fst (drain ms d))"
proof (induction ms d rule: drain.induct)
  case (2 env m ms d)
  have "route_inv (fst (LORA_TDM_APP_ProcessCommandPacket env m d))"
  proof (cases "\<exists>r. m = RouteSnapshot r")
    case True
    then obtain r where r: "m = RouteSnapshot r" by blast
    have "route_inv (fst (LORA_TDM_APP_ProcessRouteSnapshot r d))"
      using 2(2,3) r by (intro snapshot_inv) (simp_all add: route_inv_def)
    then show ?thesis by (simp add: r LORA_TDM_APP_ProcessCommandPacket_def)
  next
    case False
    then have "route_quiet d (LORA_TDM_APP_ProcessCommandPacket env m d)"
      by (intro packet_route_quiet) (auto split: sb_msg.split)
    then show ?thesis
      using 2(3) route_inv_view[of "fst (LORA_TDM_APP_ProcessCommandPacket env m d)" d] by (simp add: route_quiet_def)
  qed
  then show ?case
    using 2 by (cases "LORA_TDM_APP_ProcessCommandPacket env m d") (simp add: prepend_def case_prod_unfold)
qed simp

lemma tx_state_inv: "whole_snapshots cy \<Longrightarrow> route_inv d \<Longrightarrow> route_inv (tx_state cy d)"
  using drain_inv[of "cy_msgs cy" d] reopen_route_quiet[of "fst (drain (cy_msgs cy) d)" cy]
    route_inv_view[of "tx_state cy d" "fst (drain (cy_msgs cy) d)"]
  by (simp add: tx_state_def whole_snapshots_def route_quiet_def)

lemma cycle_inv:
  assumes "whole_snapshots cy" "route_inv d"
  shows "route_inv (fst (LORA_TDM_APP_RunCycle cy d))"
proof -
  have "sends_pages (tx_state cy d) (LORA_TDM_APP_RunTx cy (tx_state cy d))"
    by (rule RunTx_sends[OF tx_state_inv[OF assms]])
  then have "route_inv (before_window cy d)" by (simp add: sends_pages_def before_window_def tx_state_def)
  then have "route_inv (fst (LORA_TDM_APP_RunRxWindow cy (before_window cy d)))" (is "route_inv ?w")
    using window_route_quiet[of "before_window cy d" cy] route_inv_view[of ?w "before_window cy d"]
    by (simp add: route_quiet_def)
  then show ?thesis
    using link_route_quiet[of ?w "GetTimeMs (cy_end cy)"]
      route_inv_view[of "fst (LORA_TDM_APP_UpdateLinkState (GetTimeMs (cy_end cy)) ?w)" ?w]
    by (simp add: RunCycle_eq Let_def route_quiet_def)
qed

lemma cycle_speaks:
  assumes "whole_snapshots cy" "route_inv d"
  shows "speaks (snd (LORA_TDM_APP_RunCycle cy d)) (said cy (tx_state cy d))"
proof -
  have "serials (snd (LORA_TDM_APP_RunCycle cy d)) = serials (snd (LORA_TDM_APP_RunTx cy (tx_state cy d)))"
    using drain_silent reopen_silent window_silent link_silent
    by (simp add: RunCycle_eq Let_def silent_step_def tx_state_def)
  then show ?thesis using RunTx_speaks[OF tx_state_inv[OF assms], of cy] by (simp add: speaks_def)
qed

lemma loop_speaks:
  "list_all whole_snapshots cys \<Longrightarrow> route_inv d \<Longrightarrow> speaks (snd (lora_loop cys d)) (said_in_run cys d)"
proof (induction cys arbitrary: d)
  case (Cons cy cys)
  then show ?case
    using speaks_append[OF cycle_speaks Cons.IH[OF _ cycle_inv], of cy d cy d]
    by (simp add: prepend_def case_prod_unfold Let_def) (simp add: speaks_def)
qed (simp add: speaks_def)

lemma boot_inv: "route_inv (lora_boot e p f)"
proof -
  have "route_view (fst (LORA_TDM_APP_LoadState f lora_initial)) = route_view lora_initial"
    by (simp add: LORA_TDM_APP_LoadState_def route_view_def Let_def split: file_read.split)
  then have "route_view (lora_boot e p f) = route_view lora_initial"
    by (simp add: lora_boot_def LORA_TDM_APP_Init_def case_prod_unfold Let_def) (simp add: route_view_def)
  moreover have "route_inv lora_initial" by (simp add: route_inv_def lora_initial_def)
  ultimately show ?thesis using route_inv_view[of "lora_boot e p f" lora_initial] by simp
qed

lemma Main_speaks:
  assumes "list_all whole_snapshots cys"
  shows "speaks (snd (LORA_TDM_APP_Main e p f cys)) (said_in_run cys (lora_boot e p f))"
proof -
  have "serials (snd (snd (LORA_TDM_APP_Init e p f))) = []"
    by (simp add: LORA_TDM_APP_Init_def LORA_TDM_APP_LoadState_def Let_def case_prod_unfold split: file_read.split)
  then show ?thesis using loop_speaks[OF assms boot_inv, of e p f] by (simp add: Main_eq Let_def speaks_def)
qed

section \<open>What the ground hears\<close>

lemma ground_main_pieces:
  "ground_main no_ack chunks buf =
     (let (es, r) = feed_pieces stream_feed (filter (\<lambda>c. c \<noteq> []) chunks) buf
      in (es, if no_ack then [] else ground_answers es, r))"
proof (induction chunks arbitrary: buf)
  case (Cons chunk chunks)
  have "ground_answers (es @ es') = ground_answers es @ ground_answers es'" for es es'
    by (simp add: ground_answers_def map_filter_def)
  then show ?case using Cons by (simp add: case_prod_unfold Let_def)
qed (simp add: ground_answers_def map_filter_def)

lemma ground_main_hears:
  assumes "list_all transmission bs" "concat chunks = concat bs"
  shows "ground_main no_ack chunks [] = (map event_of bs, if no_ack then [] else ground_answers (map event_of bs), [])"
proof -
  have c: "concat (filter (\<lambda>c. c \<noteq> []) chunks) = concat chunks" by (induction chunks) simp_all
  have "stream_feed [] = ([], [])" by (subst stream_feed.simps) (simp add: try_parse_def)
  then show ?thesis
    using downlink.rescan_pieces[OF assms(1), of "[]" "filter (\<lambda>c. c \<noteq> []) chunks"] assms(2) c
    by (simp add: ground_main_pieces)
qed



end
