(* ===== verification/Senders.thy ===== *)
theory Senders
  imports Uplink_Replay Lora_Stream Bridge_Run Core_Frames
begin

text \<open>
  Which application puts which packets on the software bus: every turn of every application sends
  packets of its own ids only.  Execution results, the one id four applications could send, come
  from the three that execute commands.
\<close>

fun core_packet :: "sb_msg \<Rightarrow> bool" where
  "core_packet (CoreHk t) = True"
| "core_packet (SystemHealth t) = True"
| "core_packet (RouteSnapshot t) = True"
| "core_packet (ExecResult t) = True"
| "core_packet (Command mid fcn bs) = (mid = MAVLINK_BRIDGE_CMD_MID)"
| "core_packet _ = False"

fun uplink_packet :: "sb_msg \<Rightarrow> bool" where
  "uplink_packet (UplinkHk t) = True"
| "uplink_packet (UplinkStatus t) = True"
| "uplink_packet (RouteUpdate t) = True"
| "uplink_packet (RecoveryCmd t) = True"
| "uplink_packet (ViewpointCmd t) = True"
| "uplink_packet (ConfigCmd t) = True"
| "uplink_packet (ModeCmd t) = True"
| "uplink_packet (DiagnosticCmd t) = True"
| "uplink_packet (Command mid fcn bs) = (mid \<in> {MAVLINK_BRIDGE_CMD_MID, CFS_CORE_CMD_MID, LORA_TDM_CMD_MID})"
| "uplink_packet _ = False"

fun lora_packet :: "sb_msg \<Rightarrow> bool" where
  "lora_packet (Command mid fcn bs) =
     (mid = UPLINK_APP_CMD_MID \<and> fcn = Some UPLINK_APP_PROCESS_UPLINK_CC \<and> length bs = 204)"
| "lora_packet (LoraHk t) = True"
| "lora_packet (LoraLinkStatus t) = True"
| "lora_packet (ExecResult t) = True"
| "lora_packet _ = False"

definition sends_only :: "(sb_msg \<Rightarrow> bool) \<Rightarrow> 'd \<times> out list \<Rightarrow> bool" where
  "sends_only P r \<longleftrightarrow> list_all P (sent (snd r))"

lemma sends_only_simps [simp]:
  "sends_only P (d, os) \<longleftrightarrow> list_all P (sent os)"
  "sends_only P (prepend os r) \<longleftrightarrow> list_all P (sent os) \<and> sends_only P r"
  by (simp_all add: sends_only_def)

lemma save_sends [simp]: "sent (save_file e r bs) = []"
  by (simp add: save_file_def split: save_outcome.split)

section \<open>cfs_core_app\<close>

lemma core_restarts_send:
  "sent (snd (snd (check_bridge env now t d))) = []"
  "sent (snd (snd (check_uplink env now t d))) = []"
  "sent (snd (snd (check_lora env now t d))) = []"
  by (simp_all add: check_bridge_def check_uplink_def check_lora_def CFS_CORE_APP_SaveState_def Let_def case_prod_unfold)

lemma core_health_sends: "sends_only core_packet (CFS_CORE_APP_UpdateHealth env now force d)"
proof -
  have "sent (snd (CFS_CORE_APP_CheckAppRestarts env now f d)) = []" for f d
    using core_restarts_send by (simp add: CFS_CORE_APP_CheckAppRestarts_def Let_def case_prod_unfold)
  moreover have "sent (snd (health_transition env r d)) = []" for r d
    by (simp add: health_transition_def CFS_CORE_APP_SaveState_def Let_def case_prod_unfold)
  ultimately show ?thesis
    by (simp add: CFS_CORE_APP_UpdateHealth_def Let_def case_prod_unfold sends_only_def)
qed

lemma core_commands_send:
  "sends_only core_packet (CFS_CORE_APP_ProcessConfigCommand env c d)"
  "sends_only core_packet (CFS_CORE_APP_ProcessViewpointCommand v d)"
  "sends_only core_packet (CFS_CORE_APP_ProcessRecoveryCommand env r d)"
  "sends_only core_packet (CFS_CORE_APP_ProcessModeCommand m d)"
  "sends_only core_packet (CFS_CORE_APP_ProcessDiagnosticCommand g d)"
  "sends_only core_packet (core_command k bs d)"
  by (simp_all add: sends_only_def CFS_CORE_APP_ProcessConfigCommand_def CFS_CORE_APP_ProcessViewpointCommand_def
      CFS_CORE_APP_ProcessRecoveryCommand_def CFS_CORE_APP_ProcessModeCommand_def core_reset_counters_action_def core_restart_command_def
      CFS_CORE_APP_SendBridgeCtrlCmd_def transmit_def       CFS_CORE_APP_ProcessDiagnosticCommand_def core_exec_result_def CFS_CORE_APP_SaveState_def core_command_def
      core_count_error_def CFS_CORE_APP_VerifyCmdLength_def CFS_CORE_APP_Noop_def CFS_CORE_APP_ResetCounters_def
      Let_def case_prod_unfold split: option.split)

lemma UpdateStateCache_sends: "sent (snd (snd (CFS_CORE_APP_UpdateStateCache t now c k))) = []"
  by (simp add: CFS_CORE_APP_UpdateStateCache_def Let_def)

lemma state_message_sends: "sent (snd (state_message now m d)) = []"
  by (cases m) (simp_all add: UpdateStateCache_sends state_message_def Let_def case_prod_unfold)

lemma core_turn_sends: "sends_only core_packet (core_turn i d)"
proof (cases i)
  case (Core_Received env m)
  have "sends_only core_packet (CFS_CORE_APP_ProcessStateMessage env m d)"
    using core_health_sends state_message_sends
    by (simp add: CFS_CORE_APP_ProcessStateMessage_def Let_def case_prod_unfold)
  then show ?thesis
    using core_commands_send unfolding Core_Received core_turn.simps CFS_CORE_APP_TaskPipe_def
    by (cases m) (simp_all add: CFS_CORE_APP_ReportHousekeeping_def core_count_error_def split: option.split)
qed (simp_all add: CFS_CORE_APP_ServicePrototype_def core_health_sends)

lemma core_init_sends: "sent (snd (snd (CFS_CORE_APP_Init ok f))) = []"
  by (simp add: CFS_CORE_APP_Init_def CFS_CORE_APP_LoadState_def Let_def case_prod_unfold split: file_read.split)

section \<open>uplink_app\<close>

lemma statuses_own: "list_all uplink_packet (sent os) \<longleftrightarrow> list_all uplink_packet (forwarded os)"
proof -
  have "is_status m \<Longrightarrow> uplink_packet m" for m by (cases m) simp_all
  then show ?thesis by (auto simp: forwarded_def list_all_iff)
qed

lemma uplink_turn_sends: "sends_only uplink_packet (uplink_turn i d)"
proof -
  have c: "carries k s m \<Longrightarrow> uplink_packet m" for k s m by (cases m) auto
  have p: "sends_only uplink_packet (UPLINK_APP_ProcessUplink env cmd d)" for env cmd
  proof (cases "admissible d cmd \<and> payload_accepted cmd \<and> bus_delivers env cmd \<and> \<not> own_counters cmd")
    case True
    then show ?thesis
      using ProcessUplink_delivers[of d cmd env] c by (auto simp: sends_only_def statuses_own delivered_def)
  next
    case False
    then show ?thesis
      using ProcessUplink_withholds[of d cmd env] by (auto simp: sends_only_def statuses_own withheld_def)
  qed
  show ?thesis
  proof (cases "\<exists>env bs. i = Received env (Command UPLINK_APP_CMD_MID (Some UPLINK_APP_PROCESS_UPLINK_CC) bs) \<and> length bs = 204")
    case True
    then show ?thesis using turn_ProcessUplink p by auto
  next
    case False
    then show ?thesis using turn_withheld[of i d] by (simp add: sends_only_def statuses_own withheld_def)
  qed
qed

lemma uplink_init_sends: "sent (snd (snd (UPLINK_APP_Init b))) = []"
  by (simp add: UPLINK_APP_Init_def UPLINK_APP_LoadState_def UPLINK_APP_IncrementBootCount_def
      UPLINK_APP_ProcessBootMarker_def Let_def case_prod_unfold split: file_read.splits)

section \<open>lora_tdm_app\<close>

lemma lora_handler_sends: "sends_only lora_packet (LORA_TDM_APP_ProcessCommandPacket env m d)"
  unfolding LORA_TDM_APP_ProcessCommandPacket_def
  by (cases m) (simp_all add: sends_only_def lora_cmd_defs Let_def LORA_TDM_APP_ProcessDiagnosticCommand_def
      LORA_TDM_APP_ReportHousekeeping_def LORA_TDM_APP_ReportLinkStatus_def LORA_TDM_APP_ProcessRouteSnapshot_def
      LORA_TDM_APP_SaveState_def)

lemma lora_cycle_sends:
  assumes "rx_inv d" "cy_msgs cy = []"
  shows "sent (snd (LORA_TDM_APP_RunCycle cy d)) = to_uplink (snd (LORA_TDM_APP_RunCycle cy d))"
    and "list_all lora_packet (sent (snd (LORA_TDM_APP_RunCycle cy d)))"
proof -
  let ?b = "before_window cy d"
  have q: "sent (snd (reopen cy e)) = []" "sent (snd (LORA_TDM_APP_RunTx cy e)) = []"
      "sent (snd (LORA_TDM_APP_UpdateLinkState t e)) = []" for e t
    unfolding LORA_TDM_APP_UpdateLinkState_def Let_def
    by (simp_all add: reopen_def LORA_TDM_APP_RunTx_def Let_def split: option.split)
  have "rx_inv ?b" using assms(1) before_window_core[of cy d] rx_inv_core[of ?b d] by simp
  from window_quiet[OF this, of cy]
  have w: "sent (snd (LORA_TDM_APP_RunRxWindow cy ?b)) =
      concat (map frame_packets (fst (deframe (l_RxLineBuf ?b) (if l_PortOpen ?b
        then bytes_read (GetTimeMs (cy_rx_start cy) + LORA_RX_WINDOW_MS) (cy_rx cy) else []))))"
    by (simp add: rx_received_def case_prod_unfold Let_def)
  have s: "sent (snd (LORA_TDM_APP_RunCycle cy d)) = sent (snd (LORA_TDM_APP_RunRxWindow cy ?b))"
    using assms(2) by (simp add: RunCycle_eq Let_def q)
  show "sent (snd (LORA_TDM_APP_RunCycle cy d)) = to_uplink (snd (LORA_TDM_APP_RunCycle cy d))"
    by (simp add: to_uplink_def s w filter_concat comp_def)
  have "intact m \<Longrightarrow> lora_packet m" for m by (auto simp: intact_def forwarded_as_def)
  then have "list_all lora_packet (frame_packets b)" for b using frame_packets_intact[of b] by (auto simp: list_all_iff)
  then show "list_all lora_packet (sent (snd (LORA_TDM_APP_RunCycle cy d)))"
    unfolding s w by (auto simp: list_all_iff)
qed

lemma lora_init_sends: "sent (snd (snd (LORA_TDM_APP_Init e p f))) = []"
  by (simp add: LORA_TDM_APP_Init_def LORA_TDM_APP_LoadState_def Let_def case_prod_unfold split: file_read.split)

section \<open>mavlink_bridge_app\<close>

lemma out_ok_sends: "list_all out_ok os \<Longrightarrow> list_all bridge_packet (sent os)"
proof (induction os rule: sent.induct)
  case (2 m os)
  then show ?case by (cases m) simp_all
qed simp_all

lemma bridge_turn_sends: "bridge_ok d \<Longrightarrow> sends_only bridge_packet (bridge_turn i d)"
  using bridge_turn_after[of i d] out_ok_sends by (simp add: step_after_def sends_only_def)

end
