(* ===== verification/Command_Chain.thy ===== *)
theory Command_Chain
  imports Uplink_Replay Lora_Stream Bridge_Run
begin

text \<open>
  The way of a route command through three applications: lora_tdm_app takes it from the radio,
  uplink_app checks it and publishes the route, mavlink_bridge_app edits the mission.  Whatever arrives,
  the mission in force comes from commands that came over the radio and passed every check.
\<close>

section \<open>What the software bus does\<close>

text \<open>A receiver hears packets in the order they were sent, each at most once, perhaps not all of
  them: its pipe may be full.  This is all the theorem needs of the software bus, and is stated as a
  subsequence of what the sender sent.\<close>

definition uplink_command_of :: "sb_msg \<Rightarrow> UPLINK_FWD_CMD option" where
  "uplink_command_of m = (case m of
     Command mid fcn bs \<Rightarrow>
       if mid = UPLINK_APP_CMD_MID \<and> fcn = Some UPLINK_APP_PROCESS_UPLINK_CC \<and> length bs = 204
       then Some (fwd_of_bytes bs) else None
   | _ \<Rightarrow> None)"

definition input_command :: "uplink_input \<Rightarrow> UPLINK_FWD_CMD option" where
  "input_command i = (case i of Received env m \<Rightarrow> uplink_command_of m | _ \<Rightarrow> None)"

definition commands_heard :: "uplink_input list \<Rightarrow> UPLINK_FWD_CMD list" where
  "commands_heard is = List.map_filter input_command is"

definition as_route :: "sb_msg \<Rightarrow> ROUTE_UPDATE_TLM option" where
  "as_route m = (case m of RouteUpdate r \<Rightarrow> Some r | _ \<Rightarrow> None)"

definition routes_sent :: "out list \<Rightarrow> ROUTE_UPDATE_TLM list" where
  "routes_sent os = List.map_filter as_route (sent os)"

lemma routes_sent_simps [simp]:
  "routes_sent [] = []" "routes_sent (xs @ ys) = routes_sent xs @ routes_sent ys"
  by (simp_all add: routes_sent_def map_filter_def)

lemma routes_forwarded: "routes_sent os = List.map_filter as_route (forwarded os)"
proof -
  have "List.map_filter as_route ms = List.map_filter as_route (filter (\<lambda>m. \<not> is_status m) ms)" for ms
  proof (induction ms)
    case (Cons m ms)
    then show ?case by (cases m) (simp_all add: map_filter_def as_route_def)
  qed (simp add: map_filter_def)
  then show ?thesis by (simp only: routes_sent_def forwarded_def)
qed

section \<open>The route a command orders\<close>

text \<open>What an edit of the mission looks at.\<close>

definition essence :: "ROUTE_UPDATE_TLM \<Rightarrow> u8 \<times> u8 \<times> ROUTE_WAYPOINT list" where
  "essence r = (ru_RouteType r, ru_WaypointCount r, ru_Waypoints r)"

text \<open>A route command with its payload as uplink_app reads it.\<close>

definition ordered :: "UPLINK_FWD_CMD \<Rightarrow> ROUTE_UPDATE_TLM option" where
  "ordered c =
     (if fw_CommandClass c = CLASS_ROUTE_UPDATE
      then map_option (\<lambda>p. \<lparr> ru_Seq = 0, ru_TimestampMs = 0, ru_SourceSequence = ucast (fw_Sequence c),
          ru_RouteType = rp_RouteType p, ru_RouteVersion = rp_RouteVersion p,
          ru_WaypointCount = rp_WaypointCount p, ru_Waypoints = rp_Waypoints p \<rparr>)
        (UPLINK_APP_ParseRouteUpdatePayload c)
      else None)"

definition passed :: "UPLINK_FWD_CMD \<Rightarrow> bool" where
  "passed c \<longleftrightarrow> well_formed c \<and> authority_permits c \<and> ordered c \<noteq> None"

lemma ProcessUplink_routes:
  "routes_sent (snd (UPLINK_APP_ProcessUplink env c d)) = [] \<or>
   passed c \<and> map essence (routes_sent (snd (UPLINK_APP_ProcessUplink env c d))) = [essence (the (ordered c))]"
proof (cases "admissible d c \<and> fw_CommandClass c = CLASS_ROUTE_UPDATE \<and> UPLINK_APP_ParseRouteUpdatePayload c \<noteq> None")
  case True
  then obtain p where p: "UPLINK_APP_ParseRouteUpdatePayload c = Some p" by auto
  have h: "routes_sent (snd (health_gate s c)) = []" for s by (simp add: routes_forwarded map_filter_def)
  have "routes_sent (snd (UPLINK_APP_ProcessUplink env c d)) = [] \<or>
      map essence (routes_sent (snd (UPLINK_APP_ProcessUplink env c d))) = [essence (the (ordered c))]"
    using True p
    by (simp add: ProcessUplink_admissible dispatch_class_def UPLINK_APP_PublishRouteUpdate_def h)
      (simp add: routes_forwarded after_forward_def transmit_def ordered_def essence_def as_route_def map_filter_def)
  then show ?thesis using True p by (auto simp: passed_def admissible_def ordered_def)
next
  case False
  show ?thesis
  proof (cases "forwarded (snd (UPLINK_APP_ProcessUplink env c d)) = []")
    case True
    then show ?thesis by (simp add: routes_forwarded map_filter_def)
  next
    case forwards: False
    then have a: "admissible d c" "payload_accepted c" "bus_delivers env c" "\<not> own_counters c"
      using ProcessUplink_withholds[of d c env] by (auto simp: withheld_def)
    from ProcessUplink_delivers[OF this] obtain m where
      m: "forwarded (snd (UPLINK_APP_ProcessUplink env c d)) = [m]" "carries (fw_CommandClass c) (fw_Sequence c) m"
      by (auto simp: delivered_def)
    have "fw_CommandClass c \<noteq> CLASS_ROUTE_UPDATE"
      using False a(1,2) by (auto simp: payload_accepted_def Let_def)
    then have "as_route m = None" using m(2) by (cases m) (simp_all add: as_route_def)
    then show ?thesis using m(1) by (simp add: routes_forwarded map_filter_def)
  qed
qed

section \<open>The routes of a run of uplink_app\<close>

lemma turn_routes:
  "routes_sent (snd (uplink_turn i d)) = [] \<or>
   (\<exists>c. input_command i = Some c \<and> passed c \<and>
     map essence (routes_sent (snd (uplink_turn i d))) = [essence (the (ordered c))])"
proof (cases "\<exists>env bs. i = Received env (Command UPLINK_APP_CMD_MID (Some UPLINK_APP_PROCESS_UPLINK_CC) bs) \<and> length bs = 204")
  case True
  then obtain env bs where i: "i = Received env (Command UPLINK_APP_CMD_MID (Some UPLINK_APP_PROCESS_UPLINK_CC) bs)"
    "length bs = 204" by blast
  then have "input_command i = Some (fwd_of_bytes bs)" by (simp add: input_command_def uplink_command_of_def)
  then show ?thesis
    using ProcessUplink_routes[of env "fwd_of_bytes bs" d] turn_ProcessUplink[OF i(2), of env d] i(1) by auto
next
  case False
  from turn_withheld[OF this, of d] show ?thesis by (simp add: withheld_def routes_forwarded map_filter_def)
qed

lemma loop_routes:
  "\<exists>cs. subseq cs (commands_heard is) \<and> list_all passed cs \<and>
     map essence (routes_sent (snd (uplink_loop is d))) = map (essence \<circ> the \<circ> ordered) cs"
proof (induction "is" arbitrary: d)
  case Nil
  show ?case by (intro exI[of _ "[]"]) simp
next
  case (Cons i "is")
  have h: "commands_heard (i # is) = (case input_command i of None \<Rightarrow> [] | Some c \<Rightarrow> [c]) @ commands_heard is"
    by (simp add: commands_heard_def map_filter_simps split: option.split)
  show ?case
  proof (cases "u_RunStatus d = APP_RUN")
    case False
    then show ?thesis by (intro exI[of _ "[]"]) simp
  next
    case True
    obtain cs where cs: "subseq cs (commands_heard is)" "list_all passed cs"
      "map essence (routes_sent (snd (uplink_loop is (fst (uplink_turn i d))))) = map (essence \<circ> the \<circ> ordered) cs"
      using Cons.IH by blast
    have l: "routes_sent (snd (uplink_loop (i # is) d)) =
        routes_sent (snd (uplink_turn i d)) @ routes_sent (snd (uplink_loop is (fst (uplink_turn i d))))"
      using True by (simp add: case_prod_unfold Let_def)
    from turn_routes[of i d] show ?thesis
    proof (elim disjE exE conjE)
      assume "routes_sent (snd (uplink_turn i d)) = []"
      then show ?thesis unfolding l h using cs by (intro exI[of _ cs]) (auto intro: list_emb_append2)
    next
      fix c
      assume c: "input_command i = Some c" "passed c"
        "map essence (routes_sent (snd (uplink_turn i d))) = [essence (the (ordered c))]"
      have "map essence (routes_sent (snd (uplink_loop (i # is) d))) = map (essence \<circ> the \<circ> ordered) (c # cs)"
        unfolding l using c(3) cs(3) by simp
      moreover have "subseq (c # cs) (commands_heard (i # is))" unfolding h using c(1) cs(1) by simp
      ultimately show ?thesis using c(2) cs(2) by (intro exI[of _ "c # cs"]) (simp only: list.pred_inject simp_thms)
    qed
  qed
qed

lemma Init_routes: "routes_sent (snd (snd (UPLINK_APP_Init b))) = []"
  by (simp add: UPLINK_APP_Init_def UPLINK_APP_LoadState_def UPLINK_APP_IncrementBootCount_def
      UPLINK_APP_ProcessBootMarker_def routes_forwarded map_filter_def Let_def case_prod_unfold split: file_read.splits)

lemma uplink_routes:
  "\<exists>cs. subseq cs (commands_heard is) \<and> list_all passed cs \<and>
     map essence (routes_sent (snd (UPLINK_APP_Main b is))) = map (essence \<circ> the \<circ> ordered) cs"
  using loop_routes[of "is"] Init_routes[of b] by (simp add: UPLINK_APP_Main_def case_prod_unfold Let_def)

section \<open>The mission of a list of routes\<close>

fun missions :: "ROUTE_UPDATE_TLM list \<Rightarrow> ROUTE_WAYPOINT list \<Rightarrow> ROUTE_WAYPOINT list option" where
  "missions [] ws = Some ws"
| "missions (m # ms) ws = (case edit_mission m ws of None \<Rightarrow> None | Some ws' \<Rightarrow> missions ms ws')"

lemma missions_append:
  "missions (ms @ ns) ws = (case missions ms ws of None \<Rightarrow> None | Some ws' \<Rightarrow> missions ns ws')"
  by (induction ms arbitrary: ws) (simp_all split: option.split)

lemma obtainable_missions: "obtainable ms ws \<Longrightarrow> \<exists>ns. subseq ns ms \<and> missions ns [] = Some ws"
proof (induction rule: obtainable.induct)
  case none
  show ?case by (intro exI[of _ "[]"]) simp
next
  case (ignored ms ws m)
  then show ?case by (meson subseq_rev_drop_many)
next
  case (applied ms ws m ws')
  then obtain ns where n: "subseq ns ms" "missions ns [] = Some ws" by blast
  then have "subseq (ns @ [m]) (ms @ [m])" "missions (ns @ [m]) [] = Some ws'"
    using applied.hyps(2) by (simp_all add: missions_append)
  then show ?case by blast
qed

lemma edit_mission_essence: "essence m = essence m' \<Longrightarrow> edit_mission m ws = edit_mission m' ws"
  unfolding edit_mission_def route_array_def essence_def prod.inject by (simp only: Let_def)

lemma missions_essence: "map essence ms = map essence ns \<Longrightarrow> missions ms ws = missions ns ws"
proof (induction ms arbitrary: ns ws)
  case (Cons m ms)
  obtain n ns' where n: "ns = n # ns'" using Cons.prems by (cases ns) auto
  then have "edit_mission m ws = edit_mission n ws" using Cons.prems by (intro edit_mission_essence) simp
  then show ?case using Cons n by (simp split: option.split)
qed simp

lemma subseq_of_map: "subseq ys (map f xs) \<Longrightarrow> \<exists>zs. subseq zs xs \<and> ys = map f zs"
  by (auto simp: subseq_conv_nths nths_map)

section \<open>From the radio to the mission\<close>

definition radio_commands :: "u8 list \<Rightarrow> UPLINK_FWD_CMD list" where
  "radio_commands bs = List.map_filter uplink_command_of (concat (map frame_packets (fst (deframe [] bs))))"

text \<open>The chain over whole runs, without restarts.  Let uplink_app hear, in order and perhaps with
  losses, commands lora_tdm_app sent, and mavlink_bridge_app routes uplink_app sent.  Then, over any
  runs of the three applications, the mission mavlink_bridge_app takes for the one in force is what
  some of the commands in the frames of the radio stream make of the empty mission, each applied
  as a whole and in the order of the stream; and each of them is well formed (its checksum
  included), bears the authority its class needs and carries a route that was parsed in full.  No
  damaged frame, no refused command and no interleaving leaves a trace in it.\<close>

lemma mission_from_radio:
  assumes "subseq (commands_heard us)
      (List.map_filter uplink_command_of (to_uplink (snd (LORA_TDM_APP_Main le lp lf cys))))"
    and "subseq (routes ins) (routes_sent (snd (UPLINK_APP_Main ub us)))"
  shows "\<exists>cs. subseq cs (radio_commands (heard cys (lora_boot le lp lf))) \<and> list_all passed cs \<and>
    missions (map (the \<circ> ordered) cs) [] = Some (active_mission (fst (MAV_BRIDGE_APP_Main be bp bf e ins)))"
proof -
  have r: "to_uplink (snd (LORA_TDM_APP_Main le lp lf cys)) =
      concat (map frame_packets (fst (deframe [] (heard cys (lora_boot le lp lf)))))"
    using loop_stream[OF lora_boot_buf(2), of le lp lf cys]
    by (simp add: Main_eq Let_def rx_stream_def Init_to_uplink lora_boot_buf(1))
  have u: "subseq (commands_heard us) (radio_commands (heard cys (lora_boot le lp lf)))"
    using assms(1) by (simp only: r radio_commands_def)
  obtain cs where cs: "subseq cs (commands_heard us)" "list_all passed cs"
    "map essence (routes_sent (snd (UPLINK_APP_Main ub us))) = map (essence \<circ> the \<circ> ordered) cs"
    using uplink_routes[of us ub] by (elim exE conjE)
  have "obtainable (routes ins) (active_mission (fst (MAV_BRIDGE_APP_Main be bp bf e ins)))"
    using Main_after[of ins e be bp bf] bridge_initial_ok(1,2)[of e] by (force simp: step_after_def mission_ok_def)
  from obtainable_missions[OF this] obtain ms where ms: "subseq ms (routes ins)"
    "missions ms [] = Some (active_mission (fst (MAV_BRIDGE_APP_Main be bp bf e ins)))" by (elim exE conjE)
  have "subseq (map essence ms) (map (essence \<circ> the \<circ> ordered) cs)"
    using subseq_map[OF subseq_order.trans[OF ms(1) assms(2)], of essence] by (simp only: cs(3))
  from subseq_of_map[OF this] obtain zs where z: "subseq zs cs" "map essence ms = map (essence \<circ> the \<circ> ordered) zs"
    by (elim exE conjE)
  have "list_all passed zs" using z(1) cs(2) by (auto simp: list_all_iff dest: list_emb_set)
  moreover have "subseq zs (radio_commands (heard cys (lora_boot le lp lf)))"
    by (rule subseq_order.trans[OF z(1) subseq_order.trans[OF cs(1) u]])
  moreover have "missions (map (the \<circ> ordered) zs) [] = missions ms []"
    by (rule missions_essence) (simp add: z(2))
  ultimately show ?thesis using ms(2) by (intro exI[of _ zs] conjI) simp_all
qed

text \<open>One command that adds a waypoint, at an altitude of 4 m, comes over the radio, and every packet is heard.\<close>

definition demo_order :: LORA_TDM_APP_Up2Decoded where
  "demo_order = \<lparr> up_Version = 1, up_CommandClass = CLASS_ROUTE_UPDATE, up_Seq = 10, up_Flags = 0xC0,
     up_PayloadLen = of_nat (4 + ROUTE_WAYPOINT_WIRE_SIZE),
     up_Payload = [ROUTE_OP_ADD, UPLINK_APP_ROUTE_VERSION, 1, 0] @ replicate 25 0 @ [0, 0, 0x80, 0x40] \<rparr>"

definition demo_lora_outs :: "out list" where
  "demo_lora_outs = snd (LORA_TDM_APP_Main True True No_File [hearing_cycle (up2_bytes demo_order)])"

definition demo_heard :: "uplink_input list" where
  "demo_heard = Received demo_env (SystemHealth (c_SystemHealthTlm core_initial)) #
     map (Received demo_env) (to_uplink demo_lora_outs)"

definition demo_boot :: uplink_boot where
  "demo_boot = \<lparr> ub_platform_ok = True, ub_file = No_File, ub_time = \<lparr> Seconds = 1, Subseconds = 0 \<rparr>,
     ub_reset_type = 2, ub_save1 = Save_Ok, ub_save2 = Save_Ok \<rparr>"

definition demo_routed :: "(bridge_input \<times> bridge_env) list" where
  "demo_routed = map (\<lambda>r. (Bridge_Msg (RouteUpdate r), port_env [] [])) (routes_sent (snd (UPLINK_APP_Main demo_boot demo_heard)))"

lemma mission_from_radio_witness:
  "\<exists>cs. subseq cs (radio_commands (up2_bytes demo_order)) \<and> list_all passed cs \<and>
    missions (map (the \<circ> ordered) cs) [] =
      Some (active_mission (fst (MAV_BRIDGE_APP_Main True True No_File (port_env [True] []) demo_routed)))"
proof -
  have "commands_heard demo_heard = List.map_filter uplink_command_of (to_uplink demo_lora_outs)"
    by (simp add: commands_heard_def demo_heard_def map_filter_def input_command_def uplink_command_of_def comp_def filter_map)
  then have 1: "subseq (commands_heard demo_heard) (List.map_filter uplink_command_of
      (to_uplink (snd (LORA_TDM_APP_Main True True No_File [hearing_cycle (up2_bytes demo_order)]))))"
    by (simp add: demo_lora_outs_def)
  have "concat (map (\<lambda>r. [r]) rs) = rs" for rs :: "ROUTE_UPDATE_TLM list" by (induction rs) simp_all
  then have "routes demo_routed = routes_sent (snd (UPLINK_APP_Main demo_boot demo_heard))"
    by (simp add: routes_def demo_routed_def comp_def)
  then have 2: "subseq (routes demo_routed) (routes_sent (snd (UPLINK_APP_Main demo_boot demo_heard)))" by simp
  from mission_from_radio[OF 1 2, of True True No_File "port_env [True] []"] show ?thesis
    unfolding hearing .
qed

end
