(* ===== verification/Flight_System.thy ===== *)
theory Flight_System
  imports Senders Command_Chain Core_Health
begin

text \<open>
  The four applications together on the software bus.  A state holds the state of every application,
  its pipe, and the packets of its last turn the bus has not passed on yet; an event is one step
  of one task, one packet passed on, one packet from outside, or a restart of one application.  Turns of
  different applications interleave in every order, and so do their packets.  History
  variables record what was heard over the radio, which commands uplink_app took, which route
  commands mavlink_bridge_app took and which health packets were published.
\<close>

section \<open>The software bus\<close>

text \<open>The bus itself belongs to the cFE.  Which subscribers take a packet is an input of the event that
  passes it on; depths and limits of the pipes bound what they can take.  The safety theorems need no more
  of the bus than that a pipe keeps the order of its packets, the delivery of a command that an empty
  pipe with the subscription takes a packet.\<close>

datatype task = Lora_Task | Uplink_Task | Core_Task | Bridge_Task

text \<open>Message ids, as every application that uses them defines them.\<close>

fun msg_id :: "sb_msg \<Rightarrow> u16 option" where
  "msg_id Unreadable = None"
| "msg_id (Command mid fcn bs) = Some mid"
| "msg_id (BridgeHk t) = Some 0x08A0"
| "msg_id (CoreHk t) = Some 0x08C0"
| "msg_id (UplinkHk t) = Some 0x08D0"
| "msg_id (LoraHk t) = Some 0x08E0"
| "msg_id (SystemHealth t) = Some 0x1904"
| "msg_id (FcEkfLocal t) = Some 0x1905"
| "msg_id (FcAttitude t) = Some 0x1906"
| "msg_id (FcGpsRaw t) = Some 0x1907"
| "msg_id (FcEkfStatus t) = Some 0x1908"
| "msg_id (FcSysTime t) = Some 0x1909"
| "msg_id (UplinkStatus t) = Some 0x190A"
| "msg_id (RouteUpdate t) = Some 0x190B"
| "msg_id (RecoveryCmd t) = Some 0x190C"
| "msg_id (ViewpointCmd t) = Some 0x190D"
| "msg_id (ConfigCmd t) = Some 0x190E"
| "msg_id (ModeCmd t) = Some 0x190F"
| "msg_id (DiagnosticCmd t) = Some 0x1910"
| "msg_id (LoraLinkStatus t) = Some 0x1911"
| "msg_id (ExecResult t) = Some 0x1912"
| "msg_id (RouteSnapshot t) = Some 0x1913"
| "msg_id (FcMissionReadback t) = Some 0x1914"

text \<open>The subscriptions of the four \<^verbatim>\<open>Init\<close> functions with their message limits: how many packets of the
  id may wait in the pipe (4 by default).\<close>

definition default_limit :: nat where "default_limit = 4"

definition lora_subscriptions :: "(u16 \<times> nat) list" where
  "lora_subscriptions = [(LORA_TDM_CMD_MID, default_limit), (LORA_SEND_HK_MID, default_limit), (0x1904, 20),
     (0x1905, 10), (0x1906, 10), (0x1907, 10), (0x1908, 10), (0x1909, 10), (0x1910, default_limit),
     (0x190A, default_limit), (0x190E, default_limit), (0x1913, default_limit)]"

definition uplink_subscriptions :: "(u16 \<times> nat) list" where
  "uplink_subscriptions = map (\<lambda>i. (i, default_limit))
     [UPLINK_APP_CMD_MID, UPLINK_APP_SEND_HK_MID, 0x1904, 0x08A0, 0x1912]"

definition core_subscriptions :: "(u16 \<times> nat) list" where
  "core_subscriptions = map (\<lambda>i. (i, default_limit))
     [CFS_CORE_APP_CMD_MID, CFS_CORE_APP_SEND_HK_MID, 0x08A0, 0x08D0, 0x08E0, 0x1905, 0x1906, 0x1907, 0x1908,
      0x190B, 0x190E, 0x190D, 0x190C, 0x190F, 0x1910, 0x1914]"

definition bridge_subscriptions :: "(u16 \<times> nat) list" where
  "bridge_subscriptions = map (\<lambda>i. (i, default_limit))
     [MAVLINK_BRIDGE_CMD_MID, BRIDGE_SEND_HK_MID, 0x190B, 0x190E]"

fun subscriptions :: "task \<Rightarrow> (u16 \<times> nat) list" where
  "subscriptions Lora_Task = lora_subscriptions"
| "subscriptions Uplink_Task = uplink_subscriptions"
| "subscriptions Core_Task = core_subscriptions"
| "subscriptions Bridge_Task = bridge_subscriptions"

fun pipe_depth :: "task \<Rightarrow> nat" where
  "pipe_depth Lora_Task = 50"
| "pipe_depth Uplink_Task = 16"
| "pipe_depth Core_Task = 16"
| "pipe_depth Bridge_Task = 32"

text \<open>A packet reaches the pipe of a subscriber unless the pipe is full or holds as many packets of that id
  as the subscription allows.\<close>

definition accepts :: "task \<Rightarrow> sb_msg list \<Rightarrow> sb_msg \<Rightarrow> bool" where
  "accepts t pipe m =
     (case msg_id m of None \<Rightarrow> False
      | Some i \<Rightarrow> (case map_of (subscriptions t) i of None \<Rightarrow> False
          | Some limit \<Rightarrow> length pipe < pipe_depth t \<and> length (filter (\<lambda>m'. msg_id m' = Some i) pipe) < limit))"

section \<open>States and events\<close>

record system =
  sy_lora :: LORA_TDM_APP_Data
  sy_uplink :: UPLINK_APP_Data
  sy_core :: CFS_CORE_APP_Data
  sy_bridge :: MAVLINK_BRIDGE_APP_Data
  sy_pipe :: "task \<Rightarrow> sb_msg list"
  sy_out :: "task \<Rightarrow> sb_msg list"
  sy_radio :: "u8 list list"
  sy_taken :: "UPLINK_FWD_CMD list"
  sy_routes :: "ROUTE_UPDATE_TLM list"
  sy_healths :: "SYSTEM_HEALTH_TLM list"

text \<open>Events.  \<^verbatim>\<open>takers\<close> are the applications a packet is passed on to; whatever else the bus may lose a
  packet to is covered by leaving one out.  Packets from outside are requests for housekeeping
  and commands of the ground station's console, but no command of the radio's kind.\<close>

datatype event =
    Transmit task "task list"
  | External sb_msg "task list"
  | Lora_Handles lora_env
  | Lora_Cycles lora_cycle
  | Uplink_Handles uplink_env
  | Uplink_Waits sys_time uplink_env
  | Uplink_Fails
  | Core_Handles core_env
  | Core_Waits core_env
  | Core_Fails
  | Bridge_Handles bridge_env
  | Bridge_Waits bridge_env
  | Bridge_Fails bridge_env
  | Lora_Restarts bool bool file_read
  | Uplink_Restarts uplink_boot
  | Core_Restarts bool file_read
  | Bridge_Restarts bool bool file_read bridge_env

definition external :: "sb_msg \<Rightarrow> bool" where
  "external m = (case m of
     Command mid fcn bs \<Rightarrow>
       mid \<in> {LORA_TDM_CMD_MID, LORA_SEND_HK_MID, UPLINK_APP_CMD_MID, UPLINK_APP_SEND_HK_MID, CFS_CORE_APP_CMD_MID,
         CFS_CORE_APP_SEND_HK_MID, MAVLINK_BRIDGE_CMD_MID, BRIDGE_SEND_HK_MID} \<and> uplink_command_of m = None
   | _ \<Rightarrow> False)"

definition pass_on :: "sb_msg \<Rightarrow> task list \<Rightarrow> system \<Rightarrow> system" where
  "pass_on m takers s =
     s\<lparr> sy_pipe := (\<lambda>t. sy_pipe s t @ (if t \<in> set takers \<and> accepts t (sy_pipe s t) m then [m] else [])) \<rparr>"

definition healths_sent :: "sb_msg list \<Rightarrow> SYSTEM_HEALTH_TLM list" where
  "healths_sent ms = List.map_filter (\<lambda>m. case m of SystemHealth h \<Rightarrow> Some h | _ \<Rightarrow> None) ms"

text \<open>The end of a turn: the new state and the packets to be passed on.\<close>

definition lora_turn :: "LORA_TDM_APP_Data \<times> out list \<Rightarrow> system \<Rightarrow> system" where
  "lora_turn r s = s\<lparr> sy_lora := fst r, sy_out := (sy_out s)(Lora_Task := sent (snd r)) \<rparr>"

definition uplink_turned :: "UPLINK_APP_Data \<times> out list \<Rightarrow> system \<Rightarrow> system" where
  "uplink_turned r s = s\<lparr> sy_uplink := fst r, sy_out := (sy_out s)(Uplink_Task := sent (snd r)) \<rparr>"

definition core_turned :: "CFS_CORE_APP_Data \<times> out list \<Rightarrow> system \<Rightarrow> system" where
  "core_turned r s = s\<lparr> sy_core := fst r, sy_out := (sy_out s)(Core_Task := sent (snd r)),
     sy_healths := sy_healths s @ healths_sent (sent (snd r)) \<rparr>"

definition bridge_turned :: "MAVLINK_BRIDGE_APP_Data \<times> out list \<Rightarrow> system \<Rightarrow> system" where
  "bridge_turned r s = s\<lparr> sy_bridge := fst r, sy_out := (sy_out s)(Bridge_Task := sent (snd r)) \<rparr>"

definition take_head :: "task \<Rightarrow> system \<Rightarrow> system" where
  "take_head t s = s\<lparr> sy_pipe := (sy_pipe s)(t := tl (sy_pipe s t)) \<rparr>"

text \<open>An application goes on while its run status says so and its packets are out.\<close>

definition ready :: "task \<Rightarrow> run_status \<Rightarrow> system \<Rightarrow> bool" where
  "ready t st s \<longleftrightarrow> st = APP_RUN \<and> sy_out s t = []"

definition clear_task :: "task \<Rightarrow> system \<Rightarrow> system" where
  "clear_task t s = s\<lparr> sy_pipe := (sy_pipe s)(t := []), sy_out := (sy_out s)(t := []) \<rparr>"

definition core_boot :: "bool \<Rightarrow> file_read \<Rightarrow> CFS_CORE_APP_Data" where
  "core_boot ok f = fst (CFS_CORE_APP_Main ok f [])"

definition bridge_boot :: "bool \<Rightarrow> bool \<Rightarrow> file_read \<Rightarrow> bridge_env \<Rightarrow> MAVLINK_BRIDGE_APP_Data" where
  "bridge_boot evs pip f e = fst (MAV_BRIDGE_APP_Main evs pip f e [])"

definition uplink_booted :: "uplink_boot \<Rightarrow> UPLINK_APP_Data" where
  "uplink_booted b = fst (UPLINK_APP_Main b [])"

fun sys_step :: "event \<Rightarrow> system \<Rightarrow> system" where
  "sys_step (Transmit t takers) s =
     (case sy_out s t of [] \<Rightarrow> s
      | m # ms \<Rightarrow> pass_on m takers (s\<lparr> sy_out := (sy_out s)(t := ms) \<rparr>))"
| "sys_step (External m takers) s = (if external m then pass_on m takers s else s)"
| "sys_step (Lora_Handles env) s =
     (if ready Lora_Task (l_RunStatus (sy_lora s)) s \<and> sy_pipe s Lora_Task \<noteq> []
      then lora_turn (LORA_TDM_APP_ProcessCommandPacket env (hd (sy_pipe s Lora_Task)) (sy_lora s))
             (take_head Lora_Task s)
      else s)"
| "sys_step (Lora_Cycles cy) s =
     (if ready Lora_Task (l_RunStatus (sy_lora s)) s
      then (let cy = cy\<lparr> cy_msgs := [] \<rparr> in
        lora_turn (LORA_TDM_APP_RunCycle cy (sy_lora s))
          (s\<lparr> sy_radio := butlast (sy_radio s) @ [last (sy_radio s) @ window_bytes cy (sy_lora s)] \<rparr>))
      else s)"
| "sys_step (Uplink_Handles env) s =
     (if ready Uplink_Task (u_RunStatus (sy_uplink s)) s \<and> sy_pipe s Uplink_Task \<noteq> []
      then (let m = hd (sy_pipe s Uplink_Task) in
        uplink_turned (uplink_turn (Received env m) (sy_uplink s))
          ((take_head Uplink_Task s)\<lparr> sy_taken := sy_taken s @ commands_heard [Received env m] \<rparr>))
      else s)"
| "sys_step (Uplink_Waits t env) s =
     (if ready Uplink_Task (u_RunStatus (sy_uplink s)) s
      then uplink_turned (uplink_turn (Time_Out t env) (sy_uplink s)) s else s)"
| "sys_step Uplink_Fails s =
     (if ready Uplink_Task (u_RunStatus (sy_uplink s)) s
      then uplink_turned (uplink_turn Pipe_Error (sy_uplink s)) s else s)"
| "sys_step (Core_Handles env) s =
     (if ready Core_Task (c_RunStatus (sy_core s)) s \<and> sy_pipe s Core_Task \<noteq> []
      then core_turned (core_turn (Core_Received env (hd (sy_pipe s Core_Task))) (sy_core s)) (take_head Core_Task s)
      else s)"
| "sys_step (Core_Waits env) s =
     (if ready Core_Task (c_RunStatus (sy_core s)) s
      then core_turned (core_turn (Core_Time_Out env) (sy_core s)) s else s)"
| "sys_step Core_Fails s =
     (if ready Core_Task (c_RunStatus (sy_core s)) s
      then core_turned (core_turn Core_Pipe_Error (sy_core s)) s else s)"
| "sys_step (Bridge_Handles e) s =
     (if ready Bridge_Task (b_RunStatus (sy_bridge s)) s \<and> sy_pipe s Bridge_Task \<noteq> []
      then (let i = (Bridge_Msg (hd (sy_pipe s Bridge_Task)), e) in
        bridge_turned (bridge_turn i (sy_bridge s))
          ((take_head Bridge_Task s)\<lparr> sy_routes := sy_routes s @ routes [i] \<rparr>))
      else s)"
| "sys_step (Bridge_Waits e) s =
     (if ready Bridge_Task (b_RunStatus (sy_bridge s)) s
      then bridge_turned (bridge_turn (Bridge_Timeout, e) (sy_bridge s)) s else s)"
| "sys_step (Bridge_Fails e) s =
     (if ready Bridge_Task (b_RunStatus (sy_bridge s)) s
      then bridge_turned (bridge_turn (Bridge_Pipe_Error, e) (sy_bridge s)) s else s)"
| "sys_step (Lora_Restarts evs pip f) s =
     (clear_task Lora_Task s)\<lparr> sy_lora := lora_boot evs pip f, sy_radio := sy_radio s @ [[]] \<rparr>"
| "sys_step (Uplink_Restarts b) s = (clear_task Uplink_Task s)\<lparr> sy_uplink := uplink_booted b \<rparr>"
| "sys_step (Core_Restarts ok f) s = (clear_task Core_Task s)\<lparr> sy_core := core_boot ok f \<rparr>"
| "sys_step (Bridge_Restarts evs pip f e) s =
     (clear_task Bridge_Task s)\<lparr> sy_bridge := bridge_boot evs pip f e, sy_routes := [] \<rparr>"

record system_boot =
  bt_lora :: "bool \<times> bool \<times> file_read"
  bt_uplink :: uplink_boot
  bt_core :: "bool \<times> file_read"
  bt_bridge :: "bool \<times> bool \<times> file_read \<times> bridge_env"

definition sys_boot :: "system_boot \<Rightarrow> system" where
  "sys_boot b =
     \<lparr> sy_lora = (case bt_lora b of (evs, pip, f) \<Rightarrow> lora_boot evs pip f),
       sy_uplink = uplink_booted (bt_uplink b),
       sy_core = (case bt_core b of (ok, f) \<Rightarrow> core_boot ok f),
       sy_bridge = (case bt_bridge b of (evs, pip, f, e) \<Rightarrow> bridge_boot evs pip f e),
       sy_pipe = (\<lambda>t. []), sy_out = (\<lambda>t. []),
       sy_radio = [[]], sy_taken = [], sy_routes = [], sy_healths = [] \<rparr>"

definition sys_run :: "system_boot \<Rightarrow> event list \<Rightarrow> system" where
  "sys_run b es = fold sys_step es (sys_boot b)"

end
