(* ===== verification/Uplink_Health.thy ===== *)
theory Uplink_Health
  imports Uplink_Replay
begin

text \<open>
  The health of the vehicle as uplink_app knows it: nothing but a health packet changes it, whatever
  commands, results, housekeeping requests and time-outs the application handles.
\<close>

definition seen_health :: "UPLINK_APP_Data \<Rightarrow> u8 \<times> u8" where
  "seen_health d = (u_CfsHealthReceived d, u_CfsHealthState d)"

lemma seen_health_frame [simp]:
  "seen_health (d\<lparr>u_CmdCounter := x\<rparr>) = seen_health d"
  "seen_health (d\<lparr>u_ErrCounter := x\<rparr>) = seen_health d"
  "seen_health (d\<lparr>u_AcceptedCount := y\<rparr>) = seen_health d"
  "seen_health (d\<lparr>u_LastAcceptedSequence := y\<rparr>) = seen_health d"
  "seen_health (d\<lparr>u_RejectedCount := y\<rparr>) = seen_health d"
  "seen_health (d\<lparr>u_DuplicateCount := y\<rparr>) = seen_health d"
  "seen_health (d\<lparr>u_RoutingFailureCount := y\<rparr>) = seen_health d"
  "seen_health (d\<lparr>u_LastCommandResult := x\<rparr>) = seen_health d"
  "seen_health (d\<lparr>u_LastCommandCode := w\<rparr>) = seen_health d"
  "seen_health (d\<lparr>u_LastRouteTarget := x\<rparr>) = seen_health d"
  "seen_health (d\<lparr>u_LinkState := x\<rparr>) = seen_health d"
  "seen_health (d\<lparr>u_RunStatus := r\<rparr>) = seen_health d"
  "seen_health (d\<lparr>u_ConfigPendingState := x\<rparr>) = seen_health d"
  "seen_health (d\<lparr>u_LastConfigResult := x\<rparr>) = seen_health d"
  "seen_health (d\<lparr>u_FlightModeCtrlCmd := z\<rparr>) = seen_health d"
  "seen_health (note_arrival env c d) = seen_health d"
  by (simp_all add: seen_health_def note_arrival_def)

lemma seen_health_blocks [simp]:
  "seen_health (fst (UPLINK_APP_UpdateStatusTelemetry t n d)) = seen_health d"
  "seen_health (fst (reject_command env d r e)) = seen_health d"
  "seen_health (fst (routing_failure env d r k)) = seen_health d"
  "seen_health (fst (commit_routed env d c k)) = seen_health d"
proof -
  show s: "seen_health (fst (UPLINK_APP_UpdateStatusTelemetry t n d)) = seen_health d" for t n d
    by (simp add: UPLINK_APP_UpdateStatusTelemetry_def Let_def seen_health_def)
  show "seen_health (fst (reject_command env d r e)) = seen_health d"
    "seen_health (fst (routing_failure env d r k)) = seen_health d"
    "seen_health (fst (commit_routed env d c k)) = seen_health d"
    by (simp_all add: reject_command_def routing_failure_def commit_routed_def Let_def s)
qed

lemma seen_health_after_forward:
  "seen_health (fst r) = seen_health d \<Longrightarrow> seen_health (fst (after_forward env c t r)) = seen_health d"
  by (simp add: after_forward_def case_prod_unfold)

lemma seen_health_dispatch: "seen_health (fst (dispatch_class env d c t)) = seen_health d"
proof -
  have "seen_health (fst (UPLINK_APP_ForwardConfigCommand env d c)) = seen_health d"
    "seen_health (fst (UPLINK_APP_ForwardFlightModeCommand env d c p)) = seen_health d"
    "seen_health (fst (UPLINK_APP_ForwardCounterMgmtCommand env d c)) = seen_health d" for p
    by (simp_all add: UPLINK_APP_ForwardConfigCommand_def UPLINK_APP_ForwardFlightModeCommand_def
        UPLINK_APP_ForwardCounterMgmtCommand_def Let_def case_prod_unfold)
  then show ?thesis
    by (simp add: dispatch_class_def Let_def counter_mgmt_command_def case_prod_unfold seen_health_after_forward
        split: option.split)
qed

lemma seen_health_ProcessUplink: "seen_health (fst (UPLINK_APP_ProcessUplink env c d)) = seen_health d"
  by (simp add: UPLINK_APP_ProcessUplink_def Let_def gated_command_def case_prod_unfold seen_health_dispatch
      split: UPLINK_APP_SeqCheck.split sum.split)

definition health_of :: "sb_msg \<Rightarrow> SYSTEM_HEALTH_TLM option" where
  "health_of m = (case m of SystemHealth h \<Rightarrow> Some h | _ \<Rightarrow> None)"

lemma seen_health_TaskPipe:
  "seen_health (fst (UPLINK_APP_TaskPipe env m d)) =
     (case health_of m of None \<Rightarrow> seen_health d | Some h \<Rightarrow> (1, sh_HealthState h))"
proof (cases m)
  case (Command mid fcn bs)
  have "seen_health (fst (uplink_command env k bs d)) = seen_health d" for k
    by (simp add: uplink_command_def UPLINK_APP_VerifyCmdLength_def UPLINK_APP_Noop_def UPLINK_APP_ResetCounters_def
        count_error_def seen_health_ProcessUplink)
  then show ?thesis
    using Command by (simp add: health_of_def UPLINK_APP_TaskPipe_def count_error_def split: option.split)
qed (simp_all add: health_of_def UPLINK_APP_TaskPipe_def count_error_def UPLINK_APP_ProcessExecResult_def, simp_all add: seen_health_def)

lemma seen_health_waits:
  "seen_health (fst (uplink_turn (Time_Out t env) d)) = seen_health d"
  "seen_health (fst (uplink_turn Pipe_Error d)) = seen_health d"
proof -
  have "seen_health (fst (UPLINK_APP_CheckBootSurvival t r d)) = seen_health d" for r
    by (simp add: UPLINK_APP_CheckBootSurvival_def Let_def) (simp add: seen_health_def)
  then show "seen_health (fst (uplink_turn (Time_Out t env) d)) = seen_health d"
    by (simp add: UPLINK_APP_ServicePrototype_def Let_def case_prod_unfold)
qed simp

lemma seen_health_boot: "u_CfsHealthReceived (fst (UPLINK_APP_Main b [])) = 0"
proof -
  have "seen_health (fst (snd (UPLINK_APP_Init b))) = seen_health uplink_initial"
    unfolding seen_health_def
    by (simp add: UPLINK_APP_Init_def UPLINK_APP_LoadState_def UPLINK_APP_IncrementBootCount_def
        UPLINK_APP_ProcessBootMarker_def Let_def case_prod_unfold uplink_initial_def split: file_read.splits)
  then show ?thesis
    by (simp add: UPLINK_APP_Main_def case_prod_unfold Let_def)
      (simp add: seen_health_def uplink_initial_def)
qed

end
