(* ===== verification/Flight_Invariants.thy ===== *)
theory Flight_Invariants
  imports Flight_System Uplink_Health
begin

text \<open>
  What holds in every state the four applications can reach together: which packets each of them
  sends, that the commands in the pipes come from frames heard over the radio, that the routes come
  from commands uplink_app accepted; what follows for the mission in force; and that a command gets
  through when nothing stands in its way.
\<close>

section \<open>Invariants\<close>

definition cmds :: "sb_msg list \<Rightarrow> UPLINK_FWD_CMD list" where
  "cmds ms = List.map_filter uplink_command_of ms"

definition rts :: "sb_msg list \<Rightarrow> ROUTE_UPDATE_TLM list" where
  "rts ms = List.map_filter as_route ms"

lemma filters_simps [simp]:
  "cmds [] = []" "cmds (ms @ ns) = cmds ms @ cmds ns"
  "cmds (m # ms) = (case uplink_command_of m of None \<Rightarrow> [] | Some c \<Rightarrow> [c]) @ cmds ms"
  "rts [] = []" "rts (ms @ ns) = rts ms @ rts ns"
  "rts (m # ms) = (case as_route m of None \<Rightarrow> [] | Some c \<Rightarrow> [c]) @ rts ms"
  "healths_sent [] = []" "healths_sent (ms @ ns) = healths_sent ms @ healths_sent ns"
  "healths_sent (m # ms) = (case m of SystemHealth h \<Rightarrow> [h] | _ \<Rightarrow> []) @ healths_sent ms"
  by (simp_all add: cmds_def rts_def healths_sent_def map_filter_def split: option.split sb_msg.split)

text \<open>Foreign packets.\<close>

lemma packet_kinds:
  "uplink_packet m \<or> core_packet m \<or> bridge_packet m \<or> external m \<Longrightarrow> uplink_command_of m = None"
  "lora_packet m \<or> core_packet m \<or> bridge_packet m \<or> external m \<Longrightarrow> as_route m = None"
  "lora_packet m \<or> uplink_packet m \<or> bridge_packet m \<or> external m \<Longrightarrow> (case m of SystemHealth h \<Rightarrow> [h] | _ \<Rightarrow> []) = []"
  by (cases m; auto simp: uplink_command_of_def as_route_def external_def)+

text \<open>What a packet passed on adds to a pipe.\<close>

definition copies :: "sb_msg \<Rightarrow> task list \<Rightarrow> system \<Rightarrow> task \<Rightarrow> sb_msg list" where
  "copies m takers s t = (if t \<in> set takers \<and> accepts t (sy_pipe s t) m then [m] else [])"

lemma pass_on_simps [simp]:
  "sy_pipe (pass_on m takers s) t = sy_pipe s t @ copies m takers s t"
  "sy_out (pass_on m takers s) = sy_out s" "sy_radio (pass_on m takers s) = sy_radio s"
  "sy_taken (pass_on m takers s) = sy_taken s" "sy_routes (pass_on m takers s) = sy_routes s"
  "sy_healths (pass_on m takers s) = sy_healths s" "sy_lora (pass_on m takers s) = sy_lora s"
  "sy_uplink (pass_on m takers s) = sy_uplink s" "sy_core (pass_on m takers s) = sy_core s"
  "sy_bridge (pass_on m takers s) = sy_bridge s"
  by (simp_all add: pass_on_def copies_def)

lemma copies_subseq: "subseq (copies m takers s t) [m]"
  by (simp add: copies_def)

lemma copies_filter:
  "subseq (cmds (copies m takers s t)) (cmds [m])" "subseq (rts (copies m takers s t)) (rts [m])"
  "set (healths_sent (copies m takers s t)) \<subseteq> set (healths_sent [m])"
  by (simp_all add: copies_def)

lemmas turn_defs = lora_turn_def uplink_turned_def core_turned_def bridge_turned_def take_head_def clear_task_def
  ready_def Let_def

subsection \<open>Every application sends its own packets\<close>

definition senders_inv :: "system \<Rightarrow> bool" where
  "senders_inv s \<longleftrightarrow> list_all lora_packet (sy_out s Lora_Task) \<and> list_all uplink_packet (sy_out s Uplink_Task) \<and>
     list_all core_packet (sy_out s Core_Task) \<and> list_all bridge_packet (sy_out s Bridge_Task)"

definition lora_inv :: "system \<Rightarrow> bool" where
  "lora_inv s \<longleftrightarrow> sy_radio s \<noteq> [] \<and> rx_inv (sy_lora s) \<and>
     l_RxLineBuf (sy_lora s) = snd (deframe [] (last (sy_radio s)))"

definition bridge_inv :: "system \<Rightarrow> bool" where
  "bridge_inv s \<longleftrightarrow> bridge_ok (sy_bridge s) \<and> mission_ok (sy_routes s) (sy_bridge s)"

lemma senders_step:
  assumes "senders_inv s" "lora_inv s" "bridge_inv s"
  shows "senders_inv (sys_step e s)"
proof (cases e)
  case (Transmit t takers)
  then show ?thesis using assms(1) by (cases t) (auto simp: senders_inv_def split: list.split)
next
  case (Lora_Cycles cy)
  then show ?thesis
    using assms(1,2) lora_cycle_sends(2)[of "sy_lora s" "cy\<lparr> cy_msgs := [] \<rparr>"]
    by (simp add: senders_inv_def turn_defs lora_inv_def)
next
  case (Lora_Handles env)
  then show ?thesis
    using assms(1) lora_handler_sends by (simp add: senders_inv_def turn_defs sends_only_def)
qed (use assms uplink_turn_sends core_turn_sends bridge_turn_sends in
  \<open>simp_all add: senders_inv_def bridge_inv_def turn_defs sends_only_def del: uplink_turn.simps core_turn.simps\<close>)

lemma routes_single: "routes [i] = route_of (fst i)"
  by (simp add: routes_def)

lemma bridge_turn_inv:
  "bridge_ok d \<Longrightarrow> mission_ok ms d \<Longrightarrow>
     bridge_ok (fst (bridge_turn i d)) \<and> mission_ok (ms @ routes [i]) (fst (bridge_turn i d))"
  using bridge_turn_after[of i d] by (simp add: step_after_def routes_single)

lemma bridge_boot_inv: "bridge_ok (bridge_boot evs pip f e) \<and> mission_ok [] (bridge_boot evs pip f e)"
  using Main_after[of "[]" e evs pip f] bridge_initial_ok[of e]
  by (force simp: bridge_boot_def step_after_def routes_def)

lemma bridge_step:
  assumes "bridge_inv s"
  shows "bridge_inv (sys_step e s)"
proof (cases e)
  case (Bridge_Handles x)
  then show ?thesis
    using assms bridge_turn_inv[of "sy_bridge s" "sy_routes s" "(Bridge_Msg (hd (sy_pipe s Bridge_Task)), x)"]
    by (simp add: bridge_inv_def turn_defs)
next
  case (Bridge_Waits x)
  then show ?thesis
    using assms bridge_turn_inv[of "sy_bridge s" "sy_routes s" "(Bridge_Timeout, x)"]
    by (simp add: bridge_inv_def turn_defs routes_single)
next
  case (Bridge_Fails x)
  then show ?thesis
    using assms bridge_turn_inv[of "sy_bridge s" "sy_routes s" "(Bridge_Pipe_Error, x)"]
    by (simp add: bridge_inv_def turn_defs routes_single)
next
  case (Bridge_Restarts evs pip f x)
  then show ?thesis using bridge_boot_inv by (simp add: bridge_inv_def turn_defs)
qed (use assms in \<open>simp_all add: bridge_inv_def turn_defs split: list.split\<close>)

lemma lora_step:
  assumes "lora_inv s"
  shows "lora_inv (sys_step e s)"
proof (cases e)
  case (Lora_Handles env)
  let ?d = "fst (LORA_TDM_APP_ProcessCommandPacket env (hd (sy_pipe s Lora_Task)) (sy_lora s))"
  have "rx_core ?d = rx_core (sy_lora s)" using packet_quiet by (simp add: rx_quiet_def)
  from this rx_inv_core[OF this] show ?thesis
    using assms Lora_Handles by (simp add: lora_inv_def turn_defs) (simp add: rx_core_def)
next
  case (Lora_Cycles cy)
  let ?cy = "cy\<lparr> cy_msgs := [] \<rparr>"
  have "rx_stream (l_RxLineBuf (sy_lora s)) (window_bytes ?cy (sy_lora s)) (LORA_TDM_APP_RunCycle ?cy (sy_lora s))"
    using assms by (intro cycle_stream) (simp add: lora_inv_def)
  then show ?thesis
    using assms Lora_Cycles
    by (simp add: lora_inv_def turn_defs rx_stream_def deframe_append case_prod_unfold)
next
  case (Lora_Restarts evs pip f)
  then show ?thesis using lora_boot_buf by (simp add: lora_inv_def turn_defs)
qed (use assms in \<open>simp_all add: lora_inv_def turn_defs split: list.split\<close>)

subsection \<open>Commands come from the radio\<close>

text \<open>The commands in the frames of every life of lora_tdm_app.\<close>

definition radio_orders :: "system \<Rightarrow> UPLINK_FWD_CMD list" where
  "radio_orders s = concat (map radio_commands (sy_radio s))"

definition orders_inv :: "system \<Rightarrow> bool" where
  "orders_inv s \<longleftrightarrow>
     subseq (sy_taken s @ cmds (sy_pipe s Uplink_Task) @ cmds (sy_out s Lora_Task)) (radio_orders s)"

lemma cmds_to_uplink: "cmds (sent os) = cmds (to_uplink os)"
proof -
  have "cmds ms = cmds (filter is_uplink_command ms)" for ms
  proof (induction ms)
    case (Cons m ms)
    then show ?case by (cases m) (simp_all add: uplink_command_of_def)
  qed simp
  then show ?thesis by (simp add: to_uplink_def)
qed

lemma radio_commands_append:
  "radio_commands (bs @ cs) =
     radio_commands bs @ cmds (concat (map frame_packets (fst (deframe (snd (deframe [] bs)) cs))))"
  by (simp add: radio_commands_def deframe_append case_prod_unfold Let_def cmds_def map_filter_def)

lemma subseq_without: "subseq (xs @ ys @ zs) ws \<Longrightarrow> subseq (xs @ zs) ws"
  by (erule subseq_order.trans[rotated]) (intro list_emb_append_mono list_emb_append2 subseq_order.refl)

lemma orders_step:
  assumes "orders_inv s" "lora_inv s" "senders_inv s"
  shows "orders_inv (sys_step e s)"
proof (cases e)
  case (Transmit t takers)
  show ?thesis
  proof (cases "sy_out s t")
    case Nil
    then show ?thesis using assms(1) Transmit by simp
  next
    case (Cons m ms)
    let ?s = "s\<lparr> sy_out := (sy_out s)(t := ms) \<rparr>" and ?T = "sy_taken s @ cmds (sy_pipe s Uplink_Task)"
    let ?c = "cmds (copies m takers ?s Uplink_Task)"
    have c: "subseq ?c (cmds [m])" by (rule copies_filter)
    have new: "orders_inv (sys_step e s) \<longleftrightarrow> subseq (?T @ ?c @ cmds (sy_out ?s Lora_Task)) (radio_orders s)"
      by (simp add: Transmit Cons orders_inv_def radio_orders_def)
    show ?thesis
    proof (cases "t = Lora_Task")
      case True
      have "subseq (?T @ ?c @ cmds ms) (?T @ cmds [m] @ cmds ms)" using c by (simp only: subseq_append subseq_append')
      also have "subseq \<dots> (radio_orders s)" using assms(1) True Cons by (simp add: orders_inv_def)
      finally show ?thesis unfolding new using True by simp
    next
      case False
      then have "cmds [m] = []"
        using assms(3) Cons packet_kinds(1)[of m] by (cases t) (auto simp: senders_inv_def)
      then have "?c = []" using c by simp
      then show ?thesis unfolding new using assms(1) False by (simp add: orders_inv_def)
    qed
  qed
next
  case (External m takers)
  have "cmds (copies m takers s Uplink_Task) = []" if "external m"
    using copies_filter(1)[of m takers s Uplink_Task] packet_kinds(1)[of m] that by simp
  then show ?thesis using assms(1) External by (simp add: orders_inv_def radio_orders_def)
next
  case (Lora_Handles env)
  have "cmds (sent (snd (LORA_TDM_APP_ProcessCommandPacket env m d))) = []" for m d
    using packet_quiet[of d env m] by (simp add: cmds_to_uplink rx_quiet_def)
  then show ?thesis using assms(1) Lora_Handles by (auto simp: orders_inv_def turn_defs radio_orders_def)
next
  case (Lora_Cycles cy)
  let ?cy = "cy\<lparr> cy_msgs := [] \<rparr>" and ?d = "sy_lora s"
  let ?os = "snd (LORA_TDM_APP_RunCycle ?cy ?d)" and ?life = "last (sy_radio s)"
  have l: "sy_radio s = butlast (sy_radio s) @ [?life]" "l_RxLineBuf ?d = snd (deframe [] ?life)" "rx_inv ?d"
    using assms(2) by (simp_all add: lora_inv_def)
  have "cmds (sent ?os) = cmds (concat (map frame_packets (fst (deframe (snd (deframe [] ?life)) (window_bytes ?cy ?d)))))"
    using cycle_stream(1)[OF l(3), of ?cy] by (simp add: cmds_to_uplink rx_stream_def l(2))
  then have r: "radio_commands (?life @ window_bytes ?cy ?d) = radio_commands ?life @ cmds (sent ?os)"
    by (simp add: radio_commands_append)
  have "radio_orders s = concat (map radio_commands (butlast (sy_radio s))) @ radio_commands ?life"
    unfolding radio_orders_def by (subst l(1)) simp
  moreover have "subseq (xs @ ys) (zs @ us) \<Longrightarrow> subseq (xs @ ys @ vs) (zs @ us @ vs)"
    for xs ys zs us vs :: "UPLINK_FWD_CMD list"
    using list_emb_append_mono[of "(=)" "xs @ ys" "zs @ us" vs vs] by simp
  ultimately show ?thesis
    using assms(1) Lora_Cycles by (auto simp: orders_inv_def turn_defs radio_orders_def r)
next
  case (Uplink_Handles env)
  have "commands_heard [Received env m] = cmds [m]" for m
    by (simp add: commands_heard_def input_command_def cmds_def map_filter_def)
  then show ?thesis
    using assms(1) Uplink_Handles
    by (cases "sy_pipe s Uplink_Task") (simp_all add: orders_inv_def turn_defs radio_orders_def)
next
  case (Lora_Restarts evs pip f)
  have "radio_commands [] = []" by (simp add: radio_commands_def map_filter_def)
  then show ?thesis
    using assms(1) Lora_Restarts subseq_without[of "sy_taken s @ cmds (sy_pipe s Uplink_Task)" _ "[]"]
    by (simp add: orders_inv_def turn_defs radio_orders_def)
next
  case (Uplink_Restarts b)
  then show ?thesis
    using assms(1) subseq_without[of "sy_taken s"] by (simp add: orders_inv_def turn_defs radio_orders_def)
qed (use assms(1) in \<open>simp_all add: orders_inv_def turn_defs radio_orders_def del: uplink_turn.simps core_turn.simps\<close>)

subsection \<open>Routes come from commands\<close>

text \<open>The routes mavlink_bridge_app has taken and those on their way to it.\<close>

definition routes_out :: "system \<Rightarrow> ROUTE_UPDATE_TLM list" where
  "routes_out s = sy_routes s @ rts (sy_pipe s Bridge_Task) @ rts (sy_out s Uplink_Task)"

definition routes_inv :: "system \<Rightarrow> bool" where
  "routes_inv s \<longleftrightarrow> (\<exists>cs. subseq cs (sy_taken s) \<and> list_all passed cs \<and>
     subseq (map essence (routes_out s)) (map (essence \<circ> the \<circ> ordered) cs))"

lemma routes_fewer:
  assumes "routes_inv s" "sy_taken s' = sy_taken s" "subseq (routes_out s') (routes_out s)"
  shows "routes_inv s'"
  using assms subseq_order.trans[OF subseq_map[OF assms(3), of essence]] by (auto simp: routes_inv_def)

lemma routes_turn:
  assumes "routes_inv s" "sy_out s Uplink_Task = []" "sy_taken s' = sy_taken s @ commands_heard [i]"
    "routes_out s' = routes_out s @ routes_sent (snd (uplink_turn i d))"
  shows "routes_inv s'"
proof -
  obtain cs where cs: "subseq cs (sy_taken s)" "list_all passed cs"
    "subseq (map essence (routes_out s)) (map (essence \<circ> the \<circ> ordered) cs)"
    using assms(1) by (auto simp: routes_inv_def)
  from turn_routes[of i d] show ?thesis
  proof (elim disjE exE conjE)
    assume "routes_sent (snd (uplink_turn i d)) = []"
    then show ?thesis
      using cs assms(3,4) by (auto simp: routes_inv_def intro!: exI[of _ cs] intro: list_emb_prefix)
  next
    fix c
    assume c: "input_command i = Some c" "passed c"
      "map essence (routes_sent (snd (uplink_turn i d))) = [essence (the (ordered c))]"
    have "subseq (cs @ [c]) (sy_taken s')"
      using cs(1) c(1) assms(3) by (simp add: commands_heard_def map_filter_def)
    moreover have "subseq (map essence (routes_out s')) (map (essence \<circ> the \<circ> ordered) (cs @ [c]))"
      using cs(3) c(3) assms(4) by simp
    ultimately show ?thesis using cs(2) c(2) by (auto simp: routes_inv_def intro!: exI[of _ "cs @ [c]"])
  qed
qed

lemma routes_sent_rts: "rts (sent os) = routes_sent os"
  by (simp add: rts_def routes_sent_def)

lemma routes_step:
  assumes "routes_inv s" "senders_inv s"
  shows "routes_inv (sys_step e s)"
proof (cases e)
  case (Transmit t takers)
  show ?thesis
  proof (cases "sy_out s t")
    case Nil
    then show ?thesis using assms(1) Transmit by simp
  next
    case (Cons m ms)
    let ?s = "s\<lparr> sy_out := (sy_out s)(t := ms) \<rparr>"
    let ?c = "rts (copies m takers ?s Bridge_Task)"
    have c: "subseq ?c (rts [m])" by (rule copies_filter)
    show ?thesis
    proof (cases "t = Uplink_Task")
      case True
      have "subseq (xs @ ?c @ rts ms) (xs @ rts [m] @ rts ms)" for xs
        by (intro list_emb_append_mono c subseq_order.refl)
      from this[of "sy_routes s @ rts (sy_pipe s Bridge_Task)"] show ?thesis
        using Transmit Cons True by (intro routes_fewer[OF assms(1)]) (simp_all add: routes_out_def)
    next
      case False
      then have "rts [m] = []"
        using assms(2) Cons packet_kinds(2)[of m] by (cases t) (auto simp: senders_inv_def)
      then have "?c = []" using c by simp
      then show ?thesis using Transmit Cons False by (intro routes_fewer[OF assms(1)]) (simp_all add: routes_out_def)
    qed
  qed
next
  case (External m takers)
  have "rts (copies m takers s Bridge_Task) = []" if "external m"
    using copies_filter(2)[of m takers s Bridge_Task] packet_kinds(2)[of m] that by simp
  then show ?thesis using External by (intro routes_fewer[OF assms(1)]) (simp_all add: routes_out_def)
next
  case (Uplink_Handles env)
  show ?thesis
  proof (cases "ready Uplink_Task (u_RunStatus (sy_uplink s)) s \<and> sy_pipe s Uplink_Task \<noteq> []")
    case True
    then show ?thesis
      using Uplink_Handles
      by (intro routes_turn[OF assms(1), of _ "Received env (hd (sy_pipe s Uplink_Task))" "sy_uplink s"])
        (simp_all add: routes_out_def turn_defs routes_sent_rts del: uplink_turn.simps)
  qed (use assms(1) Uplink_Handles in auto)
next
  case (Uplink_Waits t env)
  show ?thesis
  proof (cases "ready Uplink_Task (u_RunStatus (sy_uplink s)) s")
    case True
    then show ?thesis
      using Uplink_Waits
      by (intro routes_turn[OF assms(1), of _ "Time_Out t env" "sy_uplink s"])
        (simp_all add: routes_out_def turn_defs routes_sent_rts commands_heard_def input_command_def map_filter_def
          del: uplink_turn.simps)
  qed (use assms(1) Uplink_Waits in simp)
next
  case Uplink_Fails
  show ?thesis
  proof (cases "ready Uplink_Task (u_RunStatus (sy_uplink s)) s")
    case True
    then show ?thesis
      using Uplink_Fails
      by (intro routes_turn[OF assms(1), of _ Pipe_Error "sy_uplink s"])
        (simp_all add: routes_out_def turn_defs routes_sent_rts commands_heard_def input_command_def map_filter_def
          del: uplink_turn.simps)
  qed (use assms(1) Uplink_Fails in simp)
next
  case (Bridge_Handles x)
  have "routes [(Bridge_Msg m, x)] = rts [m]" for m
    by (cases m) (simp_all add: routes_single as_route_def)
  then show ?thesis
    using Bridge_Handles by (intro routes_fewer[OF assms(1)])
     (simp_all add: routes_out_def turn_defs, cases "sy_pipe s Bridge_Task", simp_all)
next
  case (Uplink_Restarts b)
  then show ?thesis
    by (intro routes_fewer[OF assms(1)]) (simp_all add: routes_out_def turn_defs subseq_append' list_emb_prefix)
next
  case (Bridge_Restarts evs pip f x)
  then show ?thesis
    by (intro routes_fewer[OF assms(1)]) (simp_all add: routes_out_def turn_defs list_emb_append2)
qed (use assms(1) in \<open>simp_all add: routes_inv_def routes_out_def turn_defs del: uplink_turn.simps core_turn.simps\<close>)

subsection \<open>Health packets come from cfs_core_app\<close>

text \<open>The health packets on their way to uplink_app and the one it goes by were published.\<close>

definition health_inv :: "system \<Rightarrow> bool" where
  "health_inv s \<longleftrightarrow>
     set (healths_sent (sy_out s Core_Task)) \<union> set (healths_sent (sy_pipe s Uplink_Task)) \<subseteq> set (sy_healths s) \<and>
     (u_CfsHealthReceived (sy_uplink s) \<noteq> 0 \<longrightarrow> u_CfsHealthState (sy_uplink s) \<in> sh_HealthState ` set (sy_healths s))"

lemma healths_sent_one: "set (healths_sent [m]) = set_option (health_of m)"
  by (cases m) (simp_all add: health_of_def)

lemma health_step:
  assumes "health_inv s" "senders_inv s"
  shows "health_inv (sys_step e s)"
proof (cases e)
  case (Transmit t takers)
  show ?thesis
  proof (cases "sy_out s t")
    case Nil
    then show ?thesis using assms(1) Transmit by simp
  next
    case (Cons m ms)
    let ?s = "s\<lparr> sy_out := (sy_out s)(t := ms) \<rparr>"
    have c: "set (healths_sent (copies m takers ?s Uplink_Task)) \<subseteq> set (healths_sent [m])" by (rule copies_filter)
    show ?thesis
    proof (cases "t = Core_Task")
      case True
      then show ?thesis using assms(1) Transmit Cons c by (auto simp: health_inv_def)
    next
      case False
      then have "set (healths_sent [m]) = {}"
        using assms(2) Cons packet_kinds(3)[of m] by (cases t) (auto simp: senders_inv_def)
      then show ?thesis using assms(1) Transmit Cons c False by (auto simp: health_inv_def)
    qed
  qed
next
  case (External m takers)
  have "healths_sent (copies m takers s Uplink_Task) = []" if "external m"
    using copies_filter(3)[of m takers s Uplink_Task] packet_kinds(3)[of m] that by simp
  then show ?thesis using assms(1) External by (simp add: health_inv_def)
next
  case (Uplink_Handles env)
  show ?thesis
  proof (cases "ready Uplink_Task (u_RunStatus (sy_uplink s)) s \<and> sy_pipe s Uplink_Task \<noteq> []")
    case True
    then obtain m ms where m: "sy_pipe s Uplink_Task = m # ms" by (auto simp: neq_Nil_conv)
    have "set_option (health_of m) \<subseteq> set (sy_healths s)"
      using assms(1) healths_sent_one[of m] by (simp add: health_inv_def m)
    then show ?thesis
      using assms(1) seen_health_TaskPipe[of env m "sy_uplink s"] True m Uplink_Handles
      by (simp add: health_inv_def turn_defs seen_health_def split: option.splits)
  qed (use assms(1) Uplink_Handles in auto)
next
  case (Uplink_Waits t env)
  then show ?thesis
    using assms(1) seen_health_waits(1)[of t env "sy_uplink s"]
    by (simp add: health_inv_def turn_defs seen_health_def del: uplink_turn.simps)
next
  case Uplink_Fails
  then show ?thesis
    using assms(1) seen_health_waits(2)[of "sy_uplink s"]
    by (simp add: health_inv_def turn_defs seen_health_def del: uplink_turn.simps)
next
  case (Uplink_Restarts b)
  then show ?thesis using assms(1) seen_health_boot by (simp add: health_inv_def turn_defs uplink_booted_def)
qed (use assms(1) in \<open>auto simp: health_inv_def turn_defs simp del: core_turn.simps\<close>)

subsection \<open>What uplink_app lets through\<close>

text \<open>The packet carries a command that was heard and is permitted by the vehicle's health.\<close>

definition permitted_by :: "UPLINK_FWD_CMD list \<Rightarrow> SYSTEM_HEALTH_TLM list \<Rightarrow> sb_msg \<Rightarrow> bool" where
  "permitted_by cs hs m \<longleftrightarrow> (\<exists>c h. c \<in> set cs \<and> h \<in> set hs \<and> well_formed c \<and> authority_permits c \<and>
     payload_accepted c \<and> health_permits (sh_HealthState h) c \<and> carries (fw_CommandClass c) (fw_Sequence c) m)"

lemma permitted_by_mono:
  "permitted_by cs hs m \<Longrightarrow> set cs \<subseteq> set cs' \<Longrightarrow> set hs \<subseteq> set hs' \<Longrightarrow> permitted_by cs' hs' m"
  unfolding permitted_by_def by blast

definition orders_out :: "system \<Rightarrow> sb_msg list" where
  "orders_out s = filter (\<lambda>m. \<not> is_status m) (sy_out s Uplink_Task)"

definition gate_inv :: "system \<Rightarrow> bool" where
  "gate_inv s \<longleftrightarrow> list_all (permitted_by (sy_taken s) (sy_healths s)) (orders_out s)"

lemma turn_permitted:
  assumes "health_inv s"
  shows "list_all (permitted_by (cs @ commands_heard [i]) (sy_healths s)) (forwarded (snd (uplink_turn i (sy_uplink s))))"
proof (cases "\<exists>env bs. i = Received env (Command UPLINK_APP_CMD_MID (Some UPLINK_APP_PROCESS_UPLINK_CC) bs) \<and> length bs = 204")
  case False
  from turn_withheld[OF this] show ?thesis by (simp add: withheld_def)
next
  case True
  then obtain env bs where i: "i = Received env (Command UPLINK_APP_CMD_MID (Some UPLINK_APP_PROCESS_UPLINK_CC) bs)"
    "length bs = 204" by blast
  let ?c = "fwd_of_bytes bs" and ?d = "sy_uplink s"
  have t: "uplink_turn i ?d = UPLINK_APP_ProcessUplink env ?c ?d" using turn_ProcessUplink[OF i(2)] i(1) by simp
  show ?thesis
  proof (cases "admissible ?d ?c \<and> payload_accepted ?c \<and> bus_delivers env ?c \<and> \<not> own_counters ?c")
    case False
    from ProcessUplink_withholds[OF this] show ?thesis by (simp add: t withheld_def)
  next
    case True
    then obtain m where m: "forwarded (snd (uplink_turn i ?d)) = [m]" "carries (fw_CommandClass ?c) (fw_Sequence ?c) m"
      using ProcessUplink_delivers[of ?d ?c env] by (auto simp: t delivered_def)
    obtain h where "h \<in> set (sy_healths s)" "health_permits (sh_HealthState h) ?c"
      using True assms by (auto simp: health_inv_def admissible_def)
    moreover have "commands_heard [i] = [?c]"
      using i by (simp add: commands_heard_def map_filter_def input_command_def uplink_command_of_def)
    ultimately have "permitted_by (cs @ commands_heard [i]) (sy_healths s) m"
      unfolding permitted_by_def using True m(2) by (intro exI[of _ ?c] exI[of _ h]) (simp add: admissible_def)
    then show ?thesis by (simp add: m(1))
  qed
qed

lemma gate_step:
  assumes "gate_inv s" "health_inv s"
  shows "gate_inv (sys_step e s)"
proof -
  have old: "gate_inv s'" if "sy_taken s' = sy_taken s" "set (sy_healths s) \<subseteq> set (sy_healths s')"
    "set (orders_out s') \<subseteq> set (orders_out s)" for s'
    using assms(1) that permitted_by_mono[of "sy_taken s" "sy_healths s"] by (auto simp: gate_inv_def list_all_iff)
  have new: "gate_inv s'" if "sy_taken s' = sy_taken s @ commands_heard [i]" "sy_healths s' = sy_healths s"
    "orders_out s' = forwarded (snd (uplink_turn i (sy_uplink s)))" for s' i
    using turn_permitted[OF assms(2)] that by (simp add: gate_inv_def)
  have none: "commands_heard [Time_Out t env] = []" "commands_heard [Pipe_Error] = []" for t env
    by (simp_all add: commands_heard_def input_command_def map_filter_def)
  show ?thesis
  proof (cases e)
    case (Transmit t takers)
    then show ?thesis by (intro old) (auto simp: orders_out_def split: list.split)
  next
    case (Uplink_Handles env)
    show ?thesis
    proof (cases "ready Uplink_Task (u_RunStatus (sy_uplink s)) s \<and> sy_pipe s Uplink_Task \<noteq> []")
      case True
      then show ?thesis
        using Uplink_Handles by (intro new[of _ "Received env (hd (sy_pipe s Uplink_Task))"])
          (simp_all add: turn_defs orders_out_def forwarded_def del: uplink_turn.simps)
    qed (use assms(1) Uplink_Handles in auto)
  next
    case (Uplink_Waits t env)
    show ?thesis
    proof (cases "ready Uplink_Task (u_RunStatus (sy_uplink s)) s")
      case True
      then show ?thesis
        using Uplink_Waits by (intro new[of _ "Time_Out t env"])
          (simp_all add: turn_defs orders_out_def forwarded_def none del: uplink_turn.simps)
    qed (use assms(1) Uplink_Waits in simp)
  next
    case Uplink_Fails
    show ?thesis
    proof (cases "ready Uplink_Task (u_RunStatus (sy_uplink s)) s")
      case True
      then show ?thesis
        using Uplink_Fails by (intro new[of _ Pipe_Error])
          (simp_all add: turn_defs orders_out_def forwarded_def none del: uplink_turn.simps)
    qed (use assms(1) Uplink_Fails in simp)
  qed (use assms(1) in \<open>auto simp: turn_defs orders_out_def simp del: uplink_turn.simps core_turn.simps intro!: old\<close>)
qed

subsection \<open>Every run\<close>

definition sys_inv :: "system \<Rightarrow> bool" where
  "sys_inv s \<longleftrightarrow> senders_inv s \<and> lora_inv s \<and> bridge_inv s \<and> orders_inv s \<and>
     routes_inv s \<and> health_inv s \<and> gate_inv s"

lemma sys_inv_step: "sys_inv s \<Longrightarrow> sys_inv (sys_step e s)"
  by (simp add: sys_inv_def senders_step lora_step bridge_step orders_step routes_step health_step gate_step)

lemma sys_inv_boot: "sys_inv (sys_boot b)"
  using bridge_boot_inv seen_health_boot
  by (simp add: sys_inv_def senders_inv_def lora_inv_def bridge_inv_def orders_inv_def routes_inv_def routes_out_def
      sys_boot_def lora_boot_buf radio_orders_def case_prod_unfold exI[of _ "[]"]
      health_inv_def gate_inv_def orders_out_def uplink_booted_def)

lemma sys_inv_run: "sys_inv (sys_run b es)"
proof -
  have "sys_inv s \<Longrightarrow> sys_inv (fold sys_step es s)" for s
    by (induction es arbitrary: s) (simp_all add: sys_inv_step del: sys_step.simps)
  then show ?thesis by (simp add: sys_run_def sys_inv_boot)
qed

text \<open>C3: the mission in force comes from the radio.  Boot the four applications in any way and let any
  events happen, in any order: turns of any application, packets passed on to some of their
  subscribers, full pipes, failing calls, restarts.  Then the mission mavlink_bridge_app takes
  for the one in force is what some of the commands in the frames lora_tdm_app heard make of the empty
  mission, each applied as a whole and in the order they came; and each of them is well formed
  (its checksum included), bears the authority its class needs and carries a route that was
  parsed in full.  No damaged frame, no refused command, no loss and no interleaving leaves
  a trace in it.\<close>

theorem system_mission_from_radio:
  "\<exists>cs. subseq cs (radio_orders (sys_run b es)) \<and> list_all passed cs \<and>
     missions (map (the \<circ> ordered) cs) [] = Some (active_mission (sy_bridge (sys_run b es)))"
proof -
  let ?s = "sys_run b es"
  have i: "orders_inv ?s" "routes_inv ?s" "obtainable (sy_routes ?s) (active_mission (sy_bridge ?s))"
    using sys_inv_run[of b es] by (simp_all add: sys_inv_def bridge_inv_def mission_ok_def)
  obtain cs where cs: "subseq cs (sy_taken ?s)" "list_all passed cs"
    "subseq (map essence (routes_out ?s)) (map (essence \<circ> the \<circ> ordered) cs)"
    using i(2) unfolding routes_inv_def by (elim exE conjE)
  obtain ms where ms: "subseq ms (sy_routes ?s)" "missions ms [] = Some (active_mission (sy_bridge ?s))"
    using obtainable_missions[OF i(3)] by (elim exE conjE)
  have "subseq ms (routes_out ?s)" unfolding routes_out_def by (rule list_emb_prefix[OF ms(1)])
  from subseq_order.trans[OF subseq_map[OF this, of essence] cs(3)]
  obtain zs where z: "subseq zs cs" "map essence ms = map (essence \<circ> the \<circ> ordered) zs"
    using subseq_of_map by blast
  have "subseq zs (radio_orders ?s)"
    using i(1) subseq_order.trans[OF z(1) cs(1)] subseq_order.trans[OF list_emb_prefix]
    unfolding orders_inv_def by blast
  moreover have "list_all passed zs" using z(1) cs(2) by (auto simp: list_all_iff dest: list_emb_set)
  moreover have "missions (map (the \<circ> ordered) zs) [] = missions ms []"
    by (rule missions_essence) (simp add: z(2))
  ultimately show ?thesis using ms(2) by (intro exI[of _ zs] conjI) simp_all
qed

text \<open>C4: what reaches the vehicle is permitted by its health.  In the same runs, whenever uplink_app
  has packets that forward a command to another application on their way, each of them carries a
  command from a frame lora_tdm_app heard that is well formed, bears the authority its class
  needs, has an acceptable payload and is permitted in the state of health that some health packet published
  by cfs_core_app reports.  No packet of any other application, and no command before the first
  health packet, gets anything out of it.\<close>

theorem system_commands_permitted:
  "list_all (permitted_by (radio_orders (sys_run b es)) (sy_healths (sys_run b es))) (orders_out (sys_run b es))"
proof -
  have i: "orders_inv (sys_run b es)" "gate_inv (sys_run b es)" using sys_inv_run by (simp_all add: sys_inv_def)
  have "set (sy_taken (sys_run b es)) \<subseteq> set (radio_orders (sys_run b es))"
    using i(1) by (auto simp: orders_inv_def dest: list_emb_set)
  then show ?thesis
    using i(2) permitted_by_mono by (force simp: gate_inv_def list_all_iff)
qed

section \<open>A command gets through\<close>

lemma forwarded_as_command:
  assumes "up2_valid u"
  shows "uplink_command_of (forwarded_as (up2_command u)) = Some (up2_command u)"
proof -
  have "length (fw_Payload (up2_command u)) = 196"
    using assms by (simp add: up2_command_def fwd_command_def up2_valid_def Let_def)
  then show ?thesis
    using fwd_of_bytes_fwd_bytes[of "up2_command u"] by (simp add: forwarded_as_def uplink_command_of_def) (simp add: fwd_bytes_def)
qed

lemma cycle_hears_frame:
  assumes "rx_inv d" "l_RxLineBuf d = []" "cy_msgs cy = []" "up2_valid u" "window_bytes cy d = up2_bytes u"
  shows "sent (snd (LORA_TDM_APP_RunCycle cy d)) = [forwarded_as (up2_command u)]"
  using cycle_stream(1)[OF assms(1), of cy] ground_stream[of "[Up2 u]"] assms
  by (simp add: lora_cycle_sends(1) rx_stream_def)

lemma uplink_accepts_first: "accepts Uplink_Task [] (forwarded_as c)"
  by (simp add: accepts_def forwarded_as_def uplink_subscriptions_def default_limit_def)


text \<open>A change of mode, to a system that knows a nominal vehicle.\<close>

definition demo_change :: LORA_TDM_APP_Up2Decoded where
  "demo_change = demo_up2\<lparr> up_Flags := 0xC0 \<rparr>"

definition demo_system :: system where
  "demo_system = (sys_boot \<lparr> bt_lora = (True, True, No_File), bt_uplink = demo_boot, bt_core = (True, No_File),
     bt_bridge = (True, True, No_File, port_env [] []) \<rparr>)\<lparr> sy_uplink := demo_data \<rparr>"

lemma demo_change_command: "up2_command demo_change = demo_mode"
  by (simp add: up2_command_def demo_change_def demo_up2_def demo_mode_def fwd_command_def LORA_TDM_APP_Crc16_def bytes_defs crc_eval)


end
