(* ===== verification/Img.thy ===== *)
theory Img
  imports Lora_Text
begin

text \<open>
  img_app (\<^verbatim>\<open>legacy/img_app/fsw/src\<close>), the retired application that announces images of the camera: a
  packet of metadata once a second, housekeeping and two commands.  Its packets have no other reader,
  so its outputs are a type of their own.  The file shows how the packets are numbered and paced, and
  that the name of an image tells its number.
\<close>

section \<open>Data\<close>

abbreviation (input) IMG_APP_IMAGE_ID_LEN :: nat where "IMG_APP_IMAGE_ID_LEN \<equiv> 32"
abbreviation (input) IMG_APP_CAMERA_ID_LEN :: nat where "IMG_APP_CAMERA_ID_LEN \<equiv> 16"
abbreviation (input) IMG_APP_ARTIFACT_REF_LEN :: nat where "IMG_APP_ARTIFACT_REF_LEN \<equiv> 128"
abbreviation (input) IMG_APP_CMD_MID :: u16 where "IMG_APP_CMD_MID \<equiv> 0x18B0"
abbreviation (input) IMG_APP_SEND_HK_MID :: u16 where "IMG_APP_SEND_HK_MID \<equiv> 0x18B1"
abbreviation (input) IMG_APP_NOOP_CC :: u8 where "IMG_APP_NOOP_CC \<equiv> 0"
abbreviation (input) IMG_APP_RESET_COUNTERS_CC :: u8 where "IMG_APP_RESET_COUNTERS_CC \<equiv> 1"
abbreviation (input) IMG_APP_PROTOTYPE_PERIOD_MS :: u32 where "IMG_APP_PROTOTYPE_PERIOD_MS \<equiv> 1000"
abbreviation (input) IMG_APP_STARTUP_EID :: nat where "IMG_APP_STARTUP_EID \<equiv> 1"
abbreviation (input) IMG_APP_COMMAND_ERR_EID :: nat where "IMG_APP_COMMAND_ERR_EID \<equiv> 2"
abbreviation (input) IMG_APP_NOOP_EID :: nat where "IMG_APP_NOOP_EID \<equiv> 3"
abbreviation (input) IMG_APP_RESET_EID :: nat where "IMG_APP_RESET_EID \<equiv> 4"
abbreviation (input) IMG_APP_PUBLISH_EID :: nat where "IMG_APP_PUBLISH_EID \<equiv> 5"

datatype IMG_APP_TimestampQuality =
  QUALITY_AUTHORITATIVE_CAPTURE | QUALITY_CFS_SNAPSHOT_ESTIMATE | QUALITY_RX_ONLY_ESTIMATE

datatype IMG_APP_TransferStatus = TRANSFER_PENDING | TRANSFER_AVAILABLE | TRANSFER_FAILED

datatype IMG_APP_CorrelationStatus =
  CORRELATION_UNSET | CORRELATION_ESTIMATED | CORRELATION_CORRELATED | CORRELATION_UNCERTAIN

record IMG_APP_HkTlm =
  ih_CommandCounter :: u8
  ih_CommandErrorCounter :: u8
  ih_PublishCount :: u32
  ih_LastSnapshotTimestampMs :: u32

text \<open>A character array is what precedes its terminating zero.\<close>

record IMG_APP_ImageMetaTlm =
  it_Seq :: u32
  it_SnapshotTimestampMs :: u32
  it_CaptureTimestampMs :: u32
  it_RxTimestampMs :: u32
  it_AttitudeRefTimestampMs :: u32
  it_EkfRefTimestampMs :: u32
  it_GpsRefTimestampMs :: u32
  it_AttitudeDeltaMs :: i32
  it_EkfDeltaMs :: i32
  it_GpsDeltaMs :: i32
  it_TimestampQuality :: IMG_APP_TimestampQuality
  it_TransferStatus :: IMG_APP_TransferStatus
  it_CorrelationStatus :: IMG_APP_CorrelationStatus
  it_ImageId :: "u8 list"
  it_CameraId :: "u8 list"
  it_ArtifactRef :: "u8 list"

record IMG_APP_Data =
  i_CmdCounter :: u8
  i_ErrCounter :: u8
  i_RunStatus :: run_status
  i_SequenceCounter :: u32
  i_PublishCount :: u32
  i_LastPublishTimeMs :: u32

datatype img_out = Img_Event nat event_type | Img_Hk IMG_APP_HkTlm | Img_Meta IMG_APP_ImageMetaTlm

section \<open>Operations\<close>

text \<open>\<^verbatim>\<open>%06lu\<close>, and the cut of \<^verbatim>\<open>snprintf\<close> at the size of its buffer.\<close>

definition fmt_06u :: "u32 \<Rightarrow> u8 list" where
  "fmt_06u w = (let ds = fmt_u w in replicate (6 - length ds) 48 @ ds)"

definition snprintf_cut :: "nat \<Rightarrow> u8 list \<Rightarrow> u8 list" where
  "snprintf_cut Size s = take (Size - 1) s"

definition IMG_APP_ReportHousekeeping :: "IMG_APP_Data \<Rightarrow> IMG_APP_Data \<times> img_out list" where
  "IMG_APP_ReportHousekeeping d =
     (d, [Img_Hk \<lparr> ih_CommandCounter = i_CmdCounter d, ih_CommandErrorCounter = i_ErrCounter d,
            ih_PublishCount = i_PublishCount d, ih_LastSnapshotTimestampMs = i_LastPublishTimeMs d \<rparr>])"

definition img_count_error :: "IMG_APP_Data \<Rightarrow> IMG_APP_Data" where
  "img_count_error d = d\<lparr> i_ErrCounter := i_ErrCounter d + 1 \<rparr>"

definition IMG_APP_VerifyCmdLength :: "nat \<Rightarrow> nat \<Rightarrow> IMG_APP_Data \<Rightarrow> bool \<times> IMG_APP_Data \<times> img_out list" where
  "IMG_APP_VerifyCmdLength actual expected d =
     (if actual \<noteq> expected then (False, img_count_error d, [Img_Event IMG_APP_COMMAND_ERR_EID ERROR])
      else (True, d, []))"

definition IMG_APP_Noop :: "IMG_APP_Data \<Rightarrow> IMG_APP_Data \<times> img_out list" where
  "IMG_APP_Noop d = (d\<lparr> i_CmdCounter := i_CmdCounter d + 1 \<rparr>, [Img_Event IMG_APP_NOOP_EID INFORMATION])"

definition IMG_APP_ResetCounters :: "IMG_APP_Data \<Rightarrow> IMG_APP_Data \<times> img_out list" where
  "IMG_APP_ResetCounters d = (d\<lparr> i_CmdCounter := 0, i_ErrCounter := 0 \<rparr>, [Img_Event IMG_APP_RESET_EID INFORMATION])"

definition IMG_APP_ServicePrototype :: "sys_time \<Rightarrow> IMG_APP_Data \<Rightarrow> IMG_APP_Data \<times> img_out list" where
  "IMG_APP_ServicePrototype now d =
     (let NowMs = GetTimeMs now in
      if NowMs - i_LastPublishTimeMs d < IMG_APP_PROTOTYPE_PERIOD_MS then (d, [])
      else
        let d = d\<lparr> i_LastPublishTimeMs := NowMs, i_PublishCount := i_PublishCount d + 1,
                   i_SequenceCounter := i_SequenceCounter d + 1 \<rparr>;
            Seq = i_SequenceCounter d
        in (d, [Img_Meta \<lparr> it_Seq = Seq, it_SnapshotTimestampMs = NowMs, it_CaptureTimestampMs = 0,
                  it_RxTimestampMs = NowMs, it_AttitudeRefTimestampMs = NowMs, it_EkfRefTimestampMs = NowMs,
                  it_GpsRefTimestampMs = NowMs, it_AttitudeDeltaMs = 0, it_EkfDeltaMs = 0, it_GpsDeltaMs = 0,
                  it_TimestampQuality = QUALITY_CFS_SNAPSHOT_ESTIMATE, it_TransferStatus = TRANSFER_AVAILABLE,
                  it_CorrelationStatus = CORRELATION_ESTIMATED,
                  it_ImageId = snprintf_cut IMG_APP_IMAGE_ID_LEN (ascii ''img-'' @ fmt_06u Seq),
                  it_CameraId = snprintf_cut IMG_APP_CAMERA_ID_LEN (ascii ''cam0''),
                  it_ArtifactRef = snprintf_cut IMG_APP_ARTIFACT_REF_LEN
                    (ascii ''wlan://camera/img-'' @ fmt_06u Seq @ ascii ''.jpg'') \<rparr>,
                Img_Event IMG_APP_PUBLISH_EID INFORMATION]))"

text \<open>Messages other than the two the application subscribes to count as errors.\<close>

definition IMG_APP_TaskPipe :: "sb_msg \<Rightarrow> IMG_APP_Data \<Rightarrow> IMG_APP_Data \<times> img_out list" where
  "IMG_APP_TaskPipe msg d =
     (case msg of
        Command Mid FcnCode bs \<Rightarrow>
          if Mid = IMG_APP_SEND_HK_MID then IMG_APP_ReportHousekeeping d
          else if Mid \<noteq> IMG_APP_CMD_MID then (img_count_error d, [])
          else
            (case FcnCode of
               None \<Rightarrow> (img_count_error d, [])
             | Some c \<Rightarrow>
                 if c = IMG_APP_NOOP_CC then
                   (let (ok, r) = IMG_APP_VerifyCmdLength (length bs) 0 d in if ok then IMG_APP_Noop d else r)
                 else if c = IMG_APP_RESET_COUNTERS_CC then
                   (let (ok, r) = IMG_APP_VerifyCmdLength (length bs) 0 d in if ok then IMG_APP_ResetCounters d else r)
                 else (img_count_error d, [Img_Event IMG_APP_COMMAND_ERR_EID ERROR]))
      | _ \<Rightarrow> (img_count_error d, []))"

section \<open>Start-up and main loop\<close>

definition img_initial :: IMG_APP_Data where
  "img_initial = \<lparr> i_CmdCounter = 0, i_ErrCounter = 0, i_RunStatus = APP_RUN, i_SequenceCounter = 0,
     i_PublishCount = 0, i_LastPublishTimeMs = 0 \<rparr>"

text \<open>The registrations of start-up succeed or fail one by one; the first failure ends it.\<close>

definition IMG_APP_Init :: "bool list \<Rightarrow> bool \<times> IMG_APP_Data \<times> img_out list" where
  "IMG_APP_Init oks =
     (if list_all id oks then (True, img_initial, [Img_Event IMG_APP_STARTUP_EID INFORMATION])
      else (False, img_initial, []))"

datatype img_input = Img_Msg sb_msg | Img_Timeout sys_time | Img_Pipe_Error

fun img_turn :: "img_input \<Rightarrow> IMG_APP_Data \<Rightarrow> IMG_APP_Data \<times> img_out list" where
  "img_turn (Img_Msg m) d = IMG_APP_TaskPipe m d"
| "img_turn (Img_Timeout now) d = IMG_APP_ServicePrototype now d"
| "img_turn Img_Pipe_Error d = (d\<lparr> i_RunStatus := APP_ERROR \<rparr>, [Img_Event IMG_APP_COMMAND_ERR_EID ERROR])"

fun img_loop :: "img_input list \<Rightarrow> IMG_APP_Data \<Rightarrow> IMG_APP_Data \<times> img_out list" where
  "img_loop [] d = (d, [])"
| "img_loop (i # is) d =
     (if i_RunStatus d \<noteq> APP_RUN then (d, [])
      else let (d, os) = img_turn i d; (d, os') = img_loop is d in (d, os @ os'))"

definition IMG_APP_Main :: "bool list \<Rightarrow> img_input list \<Rightarrow> IMG_APP_Data \<times> img_out list" where
  "IMG_APP_Main oks is =
     (let (ok, d, os) = IMG_APP_Init oks;
          (d, os') = img_loop is (if ok then d else d\<lparr> i_RunStatus := APP_ERROR \<rparr>)
      in (d, os @ os'))"

section \<open>Decimal numbers with leading zeros\<close>

definition digits_value :: "u8 list \<Rightarrow> nat" where
  "digits_value ds = foldl (\<lambda>v c. 10 * v + unat (c - 48)) 0 ds"

lemma dec_digits_value: "digits_value (dec_digits n) = n"
proof (induction n rule: dec_digits.induct)
  case (1 n)
  have v: "unat (48 + of_nat k - 48 :: u8) = k" if "k < 10" for k
    using that by (simp add: unat_of_nat)
  show ?case
  proof (cases "n < 10")
    case True
    then show ?thesis using v[of n] by (simp add: dec_digits.simps[of n] digits_value_def)
  next
    case False
    then have "digits_value (dec_digits n) = 10 * (n div 10) + n mod 10"
      using 1 v[of "n mod 10"] by (simp add: dec_digits.simps[of n] digits_value_def)
    then show ?thesis by simp
  qed
qed

lemma digits_value_zeros: "digits_value (replicate k 48 @ ds) = digits_value ds"
  by (induction k) (simp_all add: digits_value_def)

lemma fmt_06u_inject: "fmt_06u n = fmt_06u m \<Longrightarrow> n = m"
proof -
  have "digits_value (fmt_06u w) = unat w" for w
    by (simp add: fmt_06u_def Let_def digits_value_zeros fmt_u_def dec_digits_value)
  then show "fmt_06u n = fmt_06u m \<Longrightarrow> n = m" by (metis word_unat_eq_iff)
qed

lemma dec_digits_length: "n < 10 ^ Suc k \<Longrightarrow> length (dec_digits n) \<le> Suc k"
proof (induction k arbitrary: n)
  case 0
  then show ?case by (simp add: dec_digits.simps[of n])
next
  case (Suc k)
  then have "n div 10 < 10 ^ Suc k" by (simp add: div_less_iff_less_mult)
  from Suc.IH[OF this] show ?case by (simp add: dec_digits.simps[of n])
qed

lemma fmt_06u_length: "length (fmt_06u w) \<le> 10"
proof -
  have "unat w < 2 ^ 32" using unsigned_less[of w] by simp
  then have "unat w < 10 ^ Suc 9" by simp
  from dec_digits_length[OF this] show ?thesis by (simp add: fmt_06u_def fmt_u_def Let_def)
qed

section \<open>The packets of a run\<close>

fun metas :: "img_out list \<Rightarrow> IMG_APP_ImageMetaTlm list" where
  "metas [] = []"
| "metas (Img_Meta m # os) = m # metas os"
| "metas (_ # os) = metas os"

lemma metas_append [simp]: "metas (xs @ ys) = metas xs @ metas ys"
  by (induction xs rule: metas.induct) simp_all

text \<open>Only a time-out publishes, and nothing else touches number and time.\<close>

lemma TaskPipe_metas:
  "metas (snd (IMG_APP_TaskPipe m d)) = [] \<and>
   i_SequenceCounter (fst (IMG_APP_TaskPipe m d)) = i_SequenceCounter d \<and>
   i_PublishCount (fst (IMG_APP_TaskPipe m d)) = i_PublishCount d \<and>
   i_LastPublishTimeMs (fst (IMG_APP_TaskPipe m d)) = i_LastPublishTimeMs d"
  by (cases m) (auto simp: IMG_APP_TaskPipe_def IMG_APP_ReportHousekeeping_def IMG_APP_VerifyCmdLength_def
      IMG_APP_Noop_def IMG_APP_ResetCounters_def img_count_error_def split: option.split)

fun paced :: "u32 \<Rightarrow> u32 \<Rightarrow> IMG_APP_ImageMetaTlm list \<Rightarrow> bool" where
  "paced n t [] \<longleftrightarrow> True"
| "paced n t (m # ms) \<longleftrightarrow> it_Seq m = n + 1 \<and> IMG_APP_PROTOTYPE_PERIOD_MS \<le> it_SnapshotTimestampMs m - t \<and>
     it_ImageId m = ascii ''img-'' @ fmt_06u (n + 1) \<and> paced (n + 1) (it_SnapshotTimestampMs m) ms"

lemma metas_paced:
  "paced (i_SequenceCounter d) (i_LastPublishTimeMs d) (metas (snd (img_loop is d)))"
proof (induction "is" arbitrary: d)
  case (Cons i "is")
  show ?case
  proof (cases i)
    case (Img_Msg m)
    then show ?thesis
      using Cons.IH[of "fst (IMG_APP_TaskPipe m d)"] TaskPipe_metas[of m d] by (simp add: case_prod_unfold Let_def)
  next
    case (Img_Timeout now)
    let ?d = "d\<lparr> i_LastPublishTimeMs := GetTimeMs now, i_PublishCount := i_PublishCount d + 1,
      i_SequenceCounter := i_SequenceCounter d + 1 \<rparr>"
    show ?thesis
    proof (cases "GetTimeMs now - i_LastPublishTimeMs d < IMG_APP_PROTOTYPE_PERIOD_MS")
      case True
      then have "IMG_APP_ServicePrototype now d = (d, [])" by (simp add: IMG_APP_ServicePrototype_def)
      then show ?thesis using Cons.IH[of d] Img_Timeout by (simp add: case_prod_unfold Let_def)
    next
      case False
      have l: "length (fmt_06u (i_SequenceCounter d + 1)) \<le> 10" by (rule fmt_06u_length)
      from False have "fst (IMG_APP_ServicePrototype now d) = ?d"
        "map it_Seq (metas (snd (IMG_APP_ServicePrototype now d))) = [i_SequenceCounter d + 1]"
        "map it_SnapshotTimestampMs (metas (snd (IMG_APP_ServicePrototype now d))) = [GetTimeMs now]"
        "map it_ImageId (metas (snd (IMG_APP_ServicePrototype now d))) = [ascii ''img-'' @ fmt_06u (i_SequenceCounter d + 1)]"
        using l by (simp_all add: IMG_APP_ServicePrototype_def Let_def snprintf_cut_def ascii_def)
      then show ?thesis
        using Cons.IH[of ?d] False Img_Timeout by (auto simp: case_prod_unfold Let_def not_less)
    qed
  next
    case Img_Pipe_Error
    then show ?thesis using Cons.IH[of "d\<lparr> i_RunStatus := APP_ERROR \<rparr>"] by (simp add: case_prod_unfold Let_def)
  qed
qed simp

text \<open>The packets of a run are numbered from 1 without a gap, at least a second apart, and each image is
  named after its number.\<close>

lemma img_packets: "paced 0 0 (metas (snd (IMG_APP_Main oks is)))"
proof (cases "list_all id oks")
  case True
  then show ?thesis using metas_paced[of img_initial "is"]
    by (simp add: IMG_APP_Main_def IMG_APP_Init_def img_initial_def case_prod_unfold Let_def)
next
  case False
  then show ?thesis by (cases "is") (simp_all add: IMG_APP_Main_def IMG_APP_Init_def case_prod_unfold Let_def)
qed

text \<open>The name of an image tells its number.\<close>

lemma image_name_number: "ascii ''img-'' @ fmt_06u n = ascii ''img-'' @ fmt_06u m \<Longrightarrow> n = m"
  by (auto dest: fmt_06u_inject)

end
