(* ===== verification/Spec2Isabelle.thy ===== *)
theory Spec2Isabelle
  imports Uplink_Persist Uplink_Route Core_Restart Core_Cache Core_Persist Core_Commands
    Lora_Link Lora_Commands Bridge_Run Bridge_Upload Bridge_Readback Bridge_Config
    Ground Flight_Invariants Img
begin

text \<open>
  A verification library of the flight software of the telemetry repository: four cFS
  applications in C that run on the companion computer of an unmanned aircraft, and the
  decoder of the ground station.

  \<^bold>\<open>The program.\<close>  lora_tdm_app owns the radio: it sends a downlink frame in every cycle and
  listens for commands of the ground, which it hands to uplink_app over the software bus.
  uplink_app is the gate every command passes (sequence window, version, class, length, CRC,
  health, authority, payload); it forwards what it accepts to the application concerned and
  answers every command with a status packet that lora_tdm_app turns into the feedback of its
  next frames.  mavlink_bridge_app owns the serial line to the flight controller: it parses MAVLink
  frames, publishes the state they report, uploads routes as missions and reads missions back.
  cfs_core_app caches that state and the route, decides the health of the system, publishes it
  and restarts applications that fell silent.  Each application is a loop over one message pipe
  and keeps a small state file.

  \<^bold>\<open>Shared theories.\<close>
  \<^item> \<^verbatim>\<open>Prelude\<close>: machine words, little-endian buffers (\<^verbatim>\<open>put_u16\<close>, \<^verbatim>\<open>get_u32\<close>, ...), the clock
    of the cFE (\<^verbatim>\<open>GetTimeMs\<close>: the milliseconds of the mission time modulo 2^32), outcomes of saving and reading a file.  \<^verbatim>\<open>Float32\<close>, \<^verbatim>\<open>Float_Arith\<close>: a C
    \<^verbatim>\<open>float\<close> as its bit pattern, comparison, finiteness, and the few conversions and divisions the
    code does, rounded to nearest even.
  \<^item> \<^verbatim>\<open>Shared_Msgs\<close>: the packets of \<^verbatim>\<open>shared_msgs/\<close> as records and the messages and outputs of
    the bus (\<^verbatim>\<open>sb_msg\<close>, \<^verbatim>\<open>out\<close>: packets sent, events, restarts ordered, files written, bytes on
    a serial line, in order).
  \<^item> \<^verbatim>\<open>Crc\<close>: CRC-16/CCITT-FALSE and the X.25 checksum of MAVLink, both instances of a locale
    \<^verbatim>\<open>crc_step\<close> whose lemma says that damage of one or two neighbouring bytes is always seen.
  \<^item> Contracts as locales, each interpreted on the models of the applications: \<^verbatim>\<open>Acceptor\<close>
    (sequence numbers; uplink_app and the caches of cfs_core_app), \<^verbatim>\<open>Hold_Timer\<close> (the two health
    timers), \<^verbatim>\<open>State_File\<close> and \<^verbatim>\<open>Config_Receiver\<close> (three applications each), \<^verbatim>\<open>Steps\<close>
    (relations kept by every step of mavlink_bridge_app).

  \<^bold>\<open>uplink_app\<close> (\<^verbatim>\<open>uplink_app/fsw/src\<close>).  \<^verbatim>\<open>Uplink_Types\<close> holds the constants and the global
  state \<^verbatim>\<open>UPLINK_APP_Data\<close> (fields with prefix \<^verbatim>\<open>u_\<close>); \<^verbatim>\<open>Uplink\<close> the handlers in the order of
  \<^verbatim>\<open>uplink_app_utils.c\<close> and \<^verbatim>\<open>uplink_app_cmds.c\<close>, the dispatcher, start-up and loop.
  \<^verbatim>\<open>Uplink_Gate\<close> and \<^verbatim>\<open>Uplink_Replay\<close> show what is forwarded, answered and counted, the replay
  window over any history and the detection of damaged commands; \<^verbatim>\<open>Uplink_Route\<close> the route payload;
  \<^verbatim>\<open>Uplink_Persist\<close> the state file and the boot-loop detection.

  \<^bold>\<open>cfs_core_app\<close> (\<^verbatim>\<open>cfs_core_app/fsw/src\<close>).  \<^verbatim>\<open>Core_Types\<close>, \<^verbatim>\<open>Core\<close>: state (prefix \<^verbatim>\<open>c_\<close>),
  caches, \<^verbatim>\<open>UpdateHealth\<close>, restarts, commands, configuration, file, dispatcher, loop.
  \<^verbatim>\<open>Core_Frames\<close>: what each operation leaves alone.  \<^verbatim>\<open>Core_Health\<close>: the health state machine seen
  in the packets it publishes; \<^verbatim>\<open>Core_Restart\<close>: which restarts are ordered and how often;
  \<^verbatim>\<open>Core_Config\<close>, \<^verbatim>\<open>Core_Persist\<close>: configuration, its bounds over runs and restarts; \<^verbatim>\<open>Core_Cache\<close>,
  \<^verbatim>\<open>Core_Commands\<close>: order of the cached state, answers, route read-back.

  \<^bold>\<open>lora_tdm_app\<close> (\<^verbatim>\<open>lora_tdm_app/fsw/src\<close>).  \<^verbatim>\<open>Lora_Types\<close>, \<^verbatim>\<open>Lora_Text\<close> (the C library
  functions the text protocol uses: \<^verbatim>\<open>strtoul\<close>, \<^verbatim>\<open>sscanf\<close> and \<^verbatim>\<open>snprintf\<close> formats), \<^verbatim>\<open>Lora\<close> (frames),
  \<^verbatim>\<open>Lora_App\<close> (receive window, transmission, commands, cycle; state prefix \<^verbatim>\<open>l_\<close>).  \<^verbatim>\<open>Lora_Rx\<close> and
  \<^verbatim>\<open>Lora_Stream\<close> show that the incremental receiver implements a deframer of the whole stream;
  \<^verbatim>\<open>Lora_Downlink\<close> and \<^verbatim>\<open>Lora_Readback\<close> relate the frames to the decoder and the route assembler of the
  ground station (\<^verbatim>\<open>bridge/lora_downlink_decoder.py\<close>); \<^verbatim>\<open>Lora_Link\<close> the link state; \<^verbatim>\<open>Lora_Commands\<close>
  configuration, state file and the way of a verdict to the ground.

  \<^bold>\<open>mavlink_bridge_app\<close> (\<^verbatim>\<open>mavlink_bridge_app/fsw/src\<close>).  \<^verbatim>\<open>Bridge_Types\<close> holds the constants, the
  parser context and the state (prefix \<^verbatim>\<open>b_\<close>; a waypoint is one record where the code has eight
  parallel arrays, and the static variables of \<^verbatim>\<open>mavlink_bridge_app_utils.c\<close> are fields too); \<^verbatim>\<open>Bridge\<close>
  transmission, upload, read-back, stream requests and the port; \<^verbatim>\<open>Bridge_App\<close> publication and the
  handling of a complete frame; \<^verbatim>\<open>Bridge_Loop\<close> the byte-wise parser, configuration, commands, service of
  the port, start-up and loop.  \<^verbatim>\<open>Bridge_Safe\<close> and \<^verbatim>\<open>Bridge_Steps\<close> show that every operation keeps array
  bounds, numbering and the mission (\<^verbatim>\<open>step_ok\<close>); \<^verbatim>\<open>Bridge_Run\<close> what follows for runs and for
  cfs_core_app; \<^verbatim>\<open>Bridge_Parse\<close> the equivalence of the parser with whole frames; \<^verbatim>\<open>Bridge_Telemetry\<close>
  that reports arrive and damaged frames do nothing; \<^verbatim>\<open>Bridge_Upload\<close> that an upload ends;
  \<^verbatim>\<open>Bridge_Talk\<close>, \<^verbatim>\<open>Bridge_Mission\<close> and \<^verbatim>\<open>Bridge_Readback\<close> follow the mission protocol as a dialogue:
  the frames written are read back as messages, and the theorems say which message answers which frame
  of the flight controller over whole turns, from a route command to the packet that reports the mission;
  \<^verbatim>\<open>Bridge_Config\<close> configuration and state file.

  \<^bold>\<open>The ground station\<close> (\<^verbatim>\<open>bridge/lora_downlink_decoder.py\<close>).  Its decoder of a binary frame and its
  route assembler are in \<^verbatim>\<open>Lora_Downlink\<close> and \<^verbatim>\<open>Lora_Readback\<close>; \<^verbatim>\<open>Ground\<close> holds the incremental parser
  of the mixed stream of frames and text lines and the loop that answers frames (class
  \<^verbatim>\<open>DownlinkStream\<close>, \<^verbatim>\<open>main\<close>), and shows that it reports exactly what lora_tdm_app transmitted, in
  whatever pieces the bytes arrive.

  \<^bold>\<open>The applications together.\<close>  \<^verbatim>\<open>Senders\<close> shows which packets each application sends.
  \<^verbatim>\<open>Command_Chain\<close> defines the route a command orders and the mission a list of routes makes.
  \<^verbatim>\<open>Flight_System\<close> puts the four applications on the software bus: a state has the state of each,
  its pipe and the packets of its last turn not passed on yet; an event is one turn of one task, one
  packet passed on to some of its subscribers, one packet from outside, or the restart of one
  application, and events come in any order.  \<^verbatim>\<open>Uplink_Health\<close> and \<^verbatim>\<open>Flight_Invariants\<close> hold the invariants
  of these states, trace the mission in force and every forwarded command back to the frames heard over
  the radio and the health packets published, and show that an admissible command gets through.

  \<^bold>\<open>img_app\<close> (\<^verbatim>\<open>legacy/img_app\<close>), retired and alone on the bus, is modelled in \<^verbatim>\<open>Img\<close> with the numbering,
  pacing and naming of its packets.

  \<^bold>\<open>How the code is rendered.\<close>  A C function is a function from the state to the new state and the
  outputs in order; every early return is a branch; integers keep their width and wrap.  What the
  platform gives (clock readings, results of \<^verbatim>\<open>read\<close>, \<^verbatim>\<open>write\<close>, \<^verbatim>\<open>open\<close>, \<^verbatim>\<open>rename\<close>, of restart
  requests and bus transmissions) is an argument: an environment per turn (\<^verbatim>\<open>uplink_env\<close>, \<^verbatim>\<open>core_env\<close>,
  \<^verbatim>\<open>lora_env\<close>, \<^verbatim>\<open>bridge_env\<close>), over which the theorems quantify.  Loops that wait for the platform recurse
  over the finite list of its answers of that turn, so no fuel is needed; the bound of 32 reads per turn and
  the end of the receive window are those of the code.  A run is a list of turns, each a message,
  a time-out or a pipe error with its environment.

  \<^bold>\<open>Not modelled.\<close>  The cFE itself (its services are inputs and outputs; the registration calls of
  \<^verbatim>\<open>Init\<close> are success flags), the texts of events, performance log entries, \<^verbatim>\<open>fsync\<close> and the look-up of
  file paths in the environment; the termios set-up of a serial port is one outcome after the look-up
  of its rate (\<^verbatim>\<open>Serial_Baud\<close>); unit tests and stubs; the log, the command line and the test helpers of
  the ground decoder; the other Python and shell tools; the tools under \<^verbatim>\<open>legacy/\<close>, which are retired;
  \<^verbatim>\<open>mission_defs/\<close>, which configures the cFE.  Two executions of the same turn on different threads do not occur: each application is
  one task.

  \<^bold>\<open>Abstractions of the composition.\<close>  The software bus belongs to the cFE.  The model takes from it that
  a pipe keeps the order of its packets and holds at most its depth, and per subscription at
  most the limit (4 where the code gives none); which subscribers take a packet is an input of the
  event, so the theorems hold whatever it loses.  A turn happens only when the packets of the turn before
  are passed on.  The loop of lora_tdm_app that empties its pipe is a sequence of events, one per packet, and the
  rest of its cycle another.  Packets from outside are requests for housekeeping and console commands,
  not the command lora_tdm_app sends to uplink_app.  What the health of the vehicle, the bus and the ports do is
  otherwise unconstrained.
\<close>

section \<open>Across the applications\<close>

lemma filter_source:
  "list_all (\<lambda>r. er_SourceApp r = s \<and> P r) rs \<Longrightarrow>
     filter (\<lambda>r. er_SourceApp r = s) rs = rs \<and> (t \<noteq> s \<longrightarrow> filter (\<lambda>r. er_SourceApp r = t) rs = [])"
  by (induction rs) auto

definition answers_of :: "EXEC_RESULT_Source \<Rightarrow> EXEC_RESULT_TLM list \<Rightarrow> u16 list" where
  "answers_of s rs = map er_SourceSequence (filter (\<lambda>r. er_SourceApp r = source_val s) rs)"

definition addressed :: "u8 \<Rightarrow> CONFIG_CMD_TLM list \<Rightarrow> u16 list" where
  "addressed scope ms = map cc_SourceSequence (filter (\<lambda>m. config_scope m = scope) ms)"

text \<open>The three applications hear the same CONFIG commands.\<close>

definition config_verdicts ::
    "core_env \<Rightarrow> lora_env \<Rightarrow> CONFIG_CMD_TLM list \<Rightarrow> CFS_CORE_APP_Data \<Rightarrow> MAVLINK_BRIDGE_APP_Data
       \<Rightarrow> LORA_TDM_APP_Data \<Rightarrow> EXEC_RESULT_TLM list" where
  "config_verdicts ce le ms c b l =
     exec_results (snd (config_run (CFS_CORE_APP_ProcessConfigCommand ce) ms c)) @
     exec_results (snd (config_run MAVLINK_BRIDGE_APP_ProcessConfigCommand ms b)) @
     exec_results (snd (config_run (LORA_TDM_APP_ProcessConfigCommand le) ms l))"

text \<open>C31: whatever sequence of CONFIG commands with a complete header is broadcast to cfs_core_app,
  mavlink_bridge_app and lora_tdm_app, each application answers exactly the commands with its own
  scope, each once, in order and with its sequence number, so that no two applications answer the
  same command and a command for none of them gets no answer.\<close>

theorem config_answered_once:
  assumes "list_all has_config_header ms"
  shows "answers_of SOURCE_CFS_CORE (config_verdicts ce le ms c b l) = addressed CORE_CONFIG_SCOPE ms \<and>
    answers_of SOURCE_MAVLINK_BRIDGE (config_verdicts ce le ms c b l) = addressed BRIDGE_CONFIG_SCOPE ms \<and>
    answers_of SOURCE_LORA_TDM (config_verdicts ce le ms c b l) = addressed LORA_CONFIG_SCOPE ms \<and>
    length (config_verdicts ce le ms c b l) =
      length (addressed CORE_CONFIG_SCOPE ms) + length (addressed BRIDGE_CONFIG_SCOPE ms) +
      length (addressed LORA_CONFIG_SCOPE ms)"
proof -
  note a = core_receiver.answers[OF assms, of ce c] bridge_receiver.answers[OF assms, of b]
    lora_receiver.answers[OF assms, of le l]
  note f = a[THEN conjunct2, THEN filter_source, simplified]
  have m: "length rs = length ns" if "map er_SourceSequence rs = ns" for rs ns using that by auto
  show ?thesis
    using a[THEN conjunct1] a[THEN conjunct1, THEN m]
    by (simp add: answers_of_def addressed_def config_verdicts_def f)
qed

lemma config_answered_once_witness:
  "length (config_verdicts (at_second 1) \<lparr> lo_now = \<lparr> Seconds = 1, Subseconds = 0 \<rparr>, lo_save = Save_Ok \<rparr>
     [\<lparr> cc_Seq = 1, cc_TimestampMs = 0, cc_SourceSequence = 5, cc_PayloadLength = 12,
        cc_Payload = [2, 1, 0, 0, 0, 4, 0, 0, 1, 2, 3, 4] \<rparr>,
      \<lparr> cc_Seq = 2, cc_TimestampMs = 0, cc_SourceSequence = 6, cc_PayloadLength = 8, cc_Payload = replicate 8 9 \<rparr>]
     core_initial (bridge_initial (port_env [] [])) lora_initial) = 1"
  (is "length (config_verdicts ?ce ?le ?ms ?c ?b ?l) = 1")
proof -
  have "list_all has_config_header ?ms" by (simp add: has_config_header_def)
  from config_answered_once[OF this, of ?ce ?le ?c ?b ?l] show ?thesis
    by (simp add: addressed_def config_scope_def byte_at_def)
qed

section \<open>From a route command to the route of record\<close>

text \<open>The route cfs_core_app shows to the ground when asked for it.\<close>

definition route_of_record :: "CFS_CORE_APP_Data \<Rightarrow> ROUTE_WAYPOINT list" where
  "route_of_record k = take (unat (mr_WaypointCount (c_MissionRoute k))) (mr_Waypoints (c_MissionRoute k))"

lemma record_readback:
  assumes "length ws \<le> ROUTE_MAX_WAYPOINTS"
  shows "route_of_record (fst (core_turn (Core_Received env (readback_packet s t ws old)) k)) = ws"
proof -
  have "unat (of_nat (length ws) :: u8) = length ws" using assms by (intro unat_len) simp
  then show ?thesis
    by (simp add: route_of_record_def core_turn_route full_route_def readback_packet_def take_route_def
        CFS_CORE_APP_BumpRouteCacheCounters_def CFS_CORE_APP_SetRouteCacheWaypoints_def del: core_turn.simps)
qed

text \<open>C5: the ground sees the mission the flight controller holds.  When a route command is uploaded,
  accepted and read back, each step in time but among whatever telemetry and damaged frames,
  mavlink_bridge_app reports exactly one mission in all these turns, and when cfs_core_app gets the
  report, in whatever state it is, its route of record is exactly the list of waypoints the flight
  controller sent, so it is the mission ordered just if the flight controller sent that mission.\<close>

theorem mission_reported:
  assumes "b_RunStatus d = APP_RUN" "b_PortOpen d" "b_Parser d = parser_zero" "b_LinkState d = BRIDGE_CONNECTED"
      "b_MissionDownloadState d = DOWNLOAD_IDLE" "bridge_ok d"
    and "edit_mission m (active_mission d) = Some ws"
      "ru_RouteType m = ROUTE_OP_DELETE \<longrightarrow> ru_WaypointCount m \<noteq> b_ActiveResumeIndex d"
    and "hears mission_ack (T0, f0, e0)" "list_all (hears mission_ack) cs"
      "list_all (\<lambda>(T, fs, e). T0 \<le> T \<and> T < T0 + 300) cs"
    and "list_all (hears (item_request (length ws))) ((T1, f1, e1) # rs)" "T0 + 300 \<le> T1" "T1 < T0 + 2 ^ 31"
    and "hears mission_accepted (T2, f2, e2)" "length (substance f2) = 1" "in_time 2000 T1 (rs @ [(T2, f2, e2)])"
    and "hears (count_frame n) (T3, f3, e3)" "length (substance f3) = 1" "0 < n" "n \<le> ROUTE_MAX_WAYPOINTS"
      "T2 \<le> T3" "T3 < T2 + 3000"
    and "list_all (hears item_frame) is" "hears item_frame (T4, gs @ [f], e4)" "\<not> chatter f"
      "length (told (is @ [(T4, gs @ [f], e4)])) = n" "in_time 3000 T3 (is @ [(T4, gs @ [f], e4)])"
  shows "\<exists>p. readbacks (snd (bridge_loop (upload_dialogue m e0 cs ((T1, f1, e1) # rs) (T2, f2, e2) @
      readback_dialogue e3 is (T4, gs @ [f], e4)) d)) = [p] \<and>
    route_of_record (fst (core_turn (Core_Received env p) k)) = map carried (told (is @ [(T4, gs @ [f], e4)]))"
proof -
  let ?u = "bridge_loop (upload_dialogue m e0 cs ((T1, f1, e1) # rs) (T2, f2, e2)) d"
  note u = upload_run[OF assms(1-17)]
  have c: "count_awaited (T2 + 3000) (fst ?u)" "readbacks (snd ?u) = []" using u by simp_all
  have "T3 < T2 + 3000" "T2 + 3000 \<le> T3 + 3000" using assms(22,23) by simp_all
  note r = readback_run[OF c(1) assms(18-21) this assms(24-28)]
  have "b_RunStatus (fst ?u) = APP_RUN" using c(1) by (simp add: count_awaited_def)
  note a = bridge_loop_append[OF this, of "readback_dialogue e3 is (T4, gs @ [f], e4)"]
  show ?thesis
    unfolding a using r c(2) assms(21,27) record_readback[of "map carried (told (is @ [(T4, gs @ [f], e4)]))"]
    by (simp del: bridge_loop.simps core_turn.simps turns_simps)
qed

lemma mission_reported_witness:
  "route_of_record (fst (core_turn (Core_Received (at_second 8) (hd (readbacks (snd (bridge_loop
      (upload_dialogue demo_edit (talk_at 5 [demo_accept]) []
          [(6000, [], talk_at 6 []), (7000, demo_requests, talk_at 7 demo_requests)] (8000, [demo_accept], talk_at 8 [demo_accept]) @
        readback_dialogue (talk_at 9 demo_count) [] (10000, [] @ [demo_item], talk_at 10 [demo_item])) demo_linked)))))
      core_initial)) = [wp_zero\<lparr> wp_CmdType := 16 \<rparr>]"
proof -
  have r: "list_all (hears (item_request (length [wp_zero\<lparr> wp_CmdType := 16 \<rparr>])))
      [(6000, [], talk_at 6 []), (7000, demo_requests, talk_at 7 demo_requests)]"
    using demo_upload_holds(5,6) by simp
  have n: "length (told ([] @ [(10000, [] @ [demo_item], talk_at 10 [demo_item])])) = 1"
    using arg_cong[OF demo_carried, of length] by (simp del: append_Nil)
  have "\<exists>p. readbacks (snd (bridge_loop (upload_dialogue demo_edit (talk_at 5 [demo_accept]) []
        [(6000, [], talk_at 6 []), (7000, demo_requests, talk_at 7 demo_requests)] (8000, [demo_accept], talk_at 8 [demo_accept]) @
      readback_dialogue (talk_at 9 demo_count) [] (10000, [] @ [demo_item], talk_at 10 [demo_item])) demo_linked)) = [p] \<and>
    route_of_record (fst (core_turn (Core_Received (at_second 8) p) core_initial)) =
      map carried (told ([] @ [(10000, [] @ [demo_item], talk_at 10 [demo_item])]))"
    by (rule mission_reported[OF demo_linked_fields demo_upload_holds(1-4) _ _ r _ _ demo_upload_holds(7,8) demo_in_time
      demo_readback_holds(2,3) _ _ _ _ _ demo_readback_holds(4,5) n]) simp_all
  then show ?thesis unfolding demo_carried by (auto simp del: core_turn.simps)
qed

end
